(* ===== verification/Prelude.thy ===== *)
theory Prelude
  imports Main "HOL-Library.Multiset" "HOL-Library.Sublist" "HOL-Library.Char_ord"
    "HOL-Library.List_Lexorder" "HOL-Library.Product_Lexorder"
begin

text \<open>
  What every component of the development shares.

  \<^item> Results. A Go function that returns \<open>(T, error)\<close> is a function into
    \<open>'e + 'a\<close>: \<open>Inl e\<close> is a non-nil error, \<open>Inr x\<close> the value beside a
    nil error. \<open>bindE\<close> is the \<open>if err != nil { return }\<close> chain, \<open>guardE\<close>
    one check that may return early, \<open>mapE\<close> a loop that stops at the first error.
  \<^item> Sorting. \<open>sort_by lt\<close> is \<open>sort.SliceStable\<close> with the comparison
    closure \<open>lt\<close>. The locale \<open>key_order\<close> is the contract every comparison
    closure of the program meets: it compares a key of a linearly ordered type.
    \<open>inj_key_order\<close> adds that the key determines a good element; then the sorted
    list is the only sorted permutation, so \<open>sort.Slice\<close> (which promises no
    stability) returns the same list.
  \<^item> Closed vocabularies. The locale \<open>closed_enum\<close> is the contract of the
    fail-closed \<open>ParseX\<close> functions.
  \<^item> Transition tables. The locale \<open>transition_table\<close> is the contract between a
    table of documented edges and the validator that guards it.
\<close>

named_theorems result_simps \<open>rewrite rules for chains of fallible steps\<close>

section \<open>Results\<close>

definition bindE :: "'e + 'a \<Rightarrow> ('a \<Rightarrow> 'e + 'b) \<Rightarrow> 'e + 'b" where
  "bindE m f = (case m of Inl e \<Rightarrow> Inl e | Inr x \<Rightarrow> f x)"

definition guardE :: "bool \<Rightarrow> 'e \<Rightarrow> 'e + unit" where
  "guardE ok e = (if ok then Inr () else Inl e)"

definition is_ok :: "'e + 'a \<Rightarrow> bool" where
  "is_ok m = (case m of Inl e \<Rightarrow> False | Inr x \<Rightarrow> True)"

definition map_err :: "('e \<Rightarrow> 'f) \<Rightarrow> 'e + 'a \<Rightarrow> 'f + 'a" where
  "map_err g m = (case m of Inl e \<Rightarrow> Inl (g e) | Inr x \<Rightarrow> Inr x)"

fun mapE :: "('a \<Rightarrow> 'e + 'b) \<Rightarrow> 'a list \<Rightarrow> 'e + 'b list" where
  "mapE f [] = Inr []"
| "mapE f (x # xs) = bindE (f x) (\<lambda>y. bindE (mapE f xs) (\<lambda>ys. Inr (y # ys)))"

lemma bindE_simps [simp]:
  "bindE (Inl e) f = Inl e"
  "bindE (Inr x) f = f x"
  by (simp_all add: bindE_def)

lemma bindE_Inr_iff [result_simps]:
  "bindE m f = Inr y \<longleftrightarrow> (\<exists>x. m = Inr x \<and> f x = Inr y)"
  by (cases m) simp_all

lemma bindE_Inl_iff [result_simps]:
  "bindE m f = Inl e \<longleftrightarrow> m = Inl e \<or> (\<exists>x. m = Inr x \<and> f x = Inl e)"
  by (cases m) auto

lemma guardE_Inr_iff [simp]: "guardE ok e = Inr u \<longleftrightarrow> ok"
  by (simp add: guardE_def)

lemma guardE_Inl_iff [simp]: "guardE ok e = Inl d \<longleftrightarrow> \<not> ok \<and> d = e"
  by (auto simp: guardE_def)

lemma guardE_simps [simp]:
  "guardE True e = Inr ()"
  "guardE False e = Inl e"
  by (simp_all add: guardE_def)

lemma is_ok_simps [simp]: "is_ok (Inl e) = False" "is_ok (Inr x) = True"
  by (simp_all add: is_ok_def)

lemma is_ok_iff: "is_ok m \<longleftrightarrow> (\<exists>x. m = Inr x)"
  by (cases m) simp_all

lemma map_err_simps [simp]: "map_err g (Inl e) = Inl (g e)" "map_err g (Inr x) = Inr x"
  by (simp_all add: map_err_def)

lemma map_err_Inr_iff [result_simps]: "map_err g m = Inr x \<longleftrightarrow> m = Inr x"
  by (cases m) simp_all

lemma map_err_Inl_iff [result_simps]: "map_err g m = Inl e \<longleftrightarrow> (\<exists>d. m = Inl d \<and> e = g d)"
  by (cases m) auto

lemma mapE_Inr_iff: "mapE f xs = Inr ys \<longleftrightarrow> list_all2 (\<lambda>x y. f x = Inr y) xs ys"
  by (induction xs arbitrary: ys) (auto simp: bindE_Inr_iff list_all2_Cons1)

lemma mapE_length: "mapE f xs = Inr ys \<Longrightarrow> length ys = length xs"
  by (auto simp: mapE_Inr_iff dest: list_all2_lengthD)

lemma mapE_all: "(\<And>x. x \<in> set xs \<Longrightarrow> f x = Inr (g x)) \<Longrightarrow> mapE f xs = Inr (map g xs)"
  by (induction xs) simp_all

section \<open>Lists in lexicographic order\<close>

lemma list_less_append:
  "length u = length v \<Longrightarrow> u < v \<Longrightarrow> u @ x < v @ (y :: 'a::linorder list)"
  by (induction u v rule: list_induct2) auto

lemma list_less_append_cases:
  "length u = length v \<Longrightarrow> u @ x < v @ (y :: 'a::linorder list) \<Longrightarrow> u < v \<or> u = v \<and> x < y"
  by (induction u v rule: list_induct2) auto

lemma list_less_same: "(x :: 'a::linorder list) < y \<Longrightarrow> u @ x < u @ y"
  by (induction u) auto

section \<open>Recording calls\<close>

text \<open>A world paired with the list of the calls made so far: a read looks at the world, a step leaves
  the list alone, a noted step appends the call its result names.\<close>

type_synonym ('s, 'c) recorded = "'s \<times> 'c list"

definition lift_read :: "('s \<Rightarrow> 'a) \<Rightarrow> ('s, 'c) recorded \<Rightarrow> 'a" where
  "lift_read f w = f (fst w)"

definition lift_step :: "('s \<Rightarrow> 's \<times> 'a) \<Rightarrow> ('s, 'c) recorded \<Rightarrow> ('s, 'c) recorded \<times> 'a" where
  "lift_step f w = (case f (fst w) of (w1, x) \<Rightarrow> ((w1, snd w), x))"

definition note_step :: "('s \<Rightarrow> 's \<times> 'a) \<Rightarrow> ('a \<Rightarrow> 'c) \<Rightarrow> ('s, 'c) recorded \<Rightarrow> ('s, 'c) recorded \<times> 'a" where
  "note_step f call w = (case f (fst w) of (w1, x) \<Rightarrow> ((w1, snd w @ [call x]), x))"

lemma lift_step_calls [simp]: "snd (fst (lift_step f w)) = snd w"
  by (simp add: lift_step_def split: prod.split)

lemma lift_step_eq: "lift_step f w = (w1, x) \<Longrightarrow> snd w1 = snd w"
  by (metis fst_conv lift_step_calls)

lemma note_step_calls: "snd (fst (note_step f call w)) = snd w @ [call (snd (note_step f call w))]"
  by (simp add: note_step_def split: prod.split)

lemma note_step_eq: "note_step f call w = (w1, x) \<Longrightarrow> snd w1 = snd w @ [call x]"
  by (metis fst_conv snd_conv note_step_calls)

section \<open>Sorting with a comparison closure\<close>

fun ins_by :: "('a \<Rightarrow> 'a \<Rightarrow> bool) \<Rightarrow> 'a \<Rightarrow> 'a list \<Rightarrow> 'a list" where
  "ins_by lt x [] = [x]"
| "ins_by lt x (y # ys) = (if lt y x then y # ins_by lt x ys else x # y # ys)"

fun sort_by :: "('a \<Rightarrow> 'a \<Rightarrow> bool) \<Rightarrow> 'a list \<Rightarrow> 'a list" where
  "sort_by lt [] = []"
| "sort_by lt (x # xs) = ins_by lt x (sort_by lt xs)"

lemma mset_ins_by [simp]: "mset (ins_by lt x xs) = add_mset x (mset xs)"
  by (induction xs) auto

lemma mset_sort_by [simp]: "mset (sort_by lt xs) = mset xs"
  by (induction xs) simp_all

lemma set_sort_by [simp]: "set (sort_by lt xs) = set xs"
  by (metis mset_sort_by set_mset_mset)

lemma length_sort_by [simp]: "length (sort_by lt xs) = length xs"
  by (metis mset_sort_by size_mset)

locale key_order =
  fixes lt :: "'a \<Rightarrow> 'a \<Rightarrow> bool"
    and key :: "'a \<Rightarrow> 'k::linorder"
  assumes lt_key: "lt a b \<longleftrightarrow> key a < key b"
begin

lemma ins_by_insort: "ins_by lt x xs = insort_key key x xs"
  by (induction xs) (auto simp: lt_key)

lemma sort_by_sort_key: "sort_by lt xs = sort_key key xs"
  by (induction xs) (simp_all add: ins_by_insort)

lemma sorted_by_key: "sorted (map key (sort_by lt xs))"
  by (simp add: sort_by_sort_key)

lemma no_inversion: "i < j \<Longrightarrow> j < length xs \<Longrightarrow> \<not> lt (sort_by lt xs ! j) (sort_by lt xs ! i)"
  using sorted_by_key [of xs]
  by (auto simp: lt_key sorted_iff_nth_mono_less not_less)

lemma stable: "filter (\<lambda>x. key x = k) (sort_by lt xs) = filter (\<lambda>x. key x = k) xs"
  by (simp add: sort_by_sort_key sort_key_stable)

lemma sort_by_idem: "sort_by lt (sort_by lt xs) = sort_by lt xs"
  by (metis sort_by_sort_key sorted_by_key sorted_sort_id sort_key_stable sort_by_sort_key sort_key_id_if_sorted)

end

locale inj_key_order = key_order +
  fixes good :: "'a \<Rightarrow> bool"
  assumes key_inj: "good a \<Longrightarrow> good b \<Longrightarrow> key a = key b \<Longrightarrow> a = b"
begin

lemma sorted_unique:
  assumes "mset xs = mset ys" and "sorted (map key ys)" and "list_all good xs"
  shows "sort_by lt xs = ys"
  using assms by (auto simp: sort_by_sort_key inj_on_def list_all_iff intro!: sort_key_inj_key_eq key_inj)

lemma order_independent: "mset xs = mset ys \<Longrightarrow> list_all good xs \<Longrightarrow> sort_by lt xs = sort_by lt ys"
  by (rule sorted_unique) (simp_all add: sorted_by_key)

end

section \<open>Closed vocabularies\<close>

locale closed_enum =
  fixes parse :: "string \<Rightarrow> 'e + 'a"
    and text_of :: "'a \<Rightarrow> string"
  assumes parse_text: "parse (text_of a) = Inr a"
    and text_parse: "parse s = Inr a \<Longrightarrow> text_of a = s"
begin

lemma text_inj: "text_of a = text_of b \<longleftrightarrow> a = b"
  by (metis parse_text sum.inject(2))

lemma parse_iff: "parse s = Inr a \<longleftrightarrow> s = text_of a"
  using parse_text text_parse by blast

lemma parse_fails_iff: "(\<exists>e. parse s = Inl e) \<longleftrightarrow> s \<notin> range text_of"
proof (cases "parse s")
  case (Inl e)
  then show ?thesis using parse_text by fastforce
next
  case (Inr a)
  then show ?thesis using text_parse by (auto simp: image_iff)
qed

end

section \<open>Transition tables\<close>

text \<open>
  \<open>replay validate s es\<close> runs a machine from state \<open>s\<close> over a list of proposed
  transitions (target, reason, evidence), each checked by \<open>validate\<close> in the state
  reached so far; it stops at the first refusal.
\<close>

fun replay :: "('s \<Rightarrow> 's \<Rightarrow> 'r \<Rightarrow> 'v \<Rightarrow> 'e + unit) \<Rightarrow> 's \<Rightarrow> ('s \<times> 'r \<times> 'v) list \<Rightarrow> 'e + 's" where
  "replay validate s [] = Inr s"
| "replay validate s ((t, r, ev) # es) = bindE (validate s t r ev) (\<lambda>_. replay validate t es)"

lemma replay_append:
  "replay validate s (es @ fs) = bindE (replay validate s es) (\<lambda>t. replay validate t fs)"
  by (induction validate s es rule: replay.induct) (auto simp: bindE_def split: sum.splits)

locale transition_table =
  fixes table :: "'s \<Rightarrow> 's \<Rightarrow> 'r list option"
    and validate :: "'s \<Rightarrow> 's \<Rightarrow> 'r \<Rightarrow> 'v \<Rightarrow> 'e + unit"
  assumes validated_edge: "validate s t r ev = Inr () \<Longrightarrow> \<exists>rs. table s t = Some rs \<and> r \<in> set rs"
begin

lemma edge_closed:
  "replay validate s es = Inr t \<Longrightarrow> P s \<Longrightarrow> (\<And>u v. P u \<Longrightarrow> table u v \<noteq> None \<Longrightarrow> P v) \<Longrightarrow> P t"
proof (induction es arbitrary: s)
  case (Cons e es)
  obtain u r ev where e: "e = (u, r, ev)" by (cases e)
  with Cons.prems(1) have v: "validate s u r ev = Inr ()" and r: "replay validate u es = Inr t"
    by (auto simp: result_simps)
  from validated_edge [OF v] have "table s u \<noteq> None" by auto
  with Cons.prems(2,3) have "P u" by blast
  with r Cons.prems(3) show ?case by (auto intro: Cons.IH)
qed simp

lemma terminal_stays:
  "replay validate s es = Inr t \<Longrightarrow> (\<And>v. table s v = None) \<Longrightarrow> t = s \<and> es = []"
  by (cases es) (auto simp: result_simps dest!: validated_edge)

text \<open>A run that leaves a region does so through one validated step across its border.\<close>

lemma border_step:
  "replay validate s es = Inr t \<Longrightarrow> P s \<Longrightarrow> \<not> P t \<Longrightarrow>
   \<exists>u v r ev. (v, r, ev) \<in> set es \<and> P u \<and> \<not> P v \<and> validate u v r ev = Inr ()"
proof (induction es arbitrary: s)
  case (Cons e es)
  obtain u r ev where e: "e = (u, r, ev)" by (cases e)
  with Cons.prems(1) have v: "validate s u r ev = Inr ()" and r: "replay validate u es = Inr t"
    by (auto simp: result_simps)
  show ?case
  proof (cases "P u")
    case True
    with Cons.IH [OF r True Cons.prems(3)] show ?thesis by (metis list.set_intros(2))
  next
    case False
    with v e Cons.prems(2) show ?thesis by (metis list.set_intros(1))
  qed
qed simp

end

end
