(* ===== verification/GoText.thy ===== *)
theory GoText
  imports Prelude
begin

text \<open>
  The part of Go's \<open>strings\<close>, \<open>strconv\<close>, \<open>unicode/utf8\<close> and \<open>encoding/hex\<close>
  packages the program uses. A Go string is a byte sequence and so is a HOL
  \<open>string\<close>: a \<open>char\<close> is one byte, \<open>length\<close> is \<open>len\<close>, and \<open><\<close> (from
  List_Lexorder and Char_ord) is Go's bytewise string comparison.
\<close>

section \<open>Bytes and runes\<close>

definition byte :: "char \<Rightarrow> nat" where
  "byte c = of_char c"

definition cont :: "char \<Rightarrow> bool" where
  "cont c \<longleftrightarrow> 128 \<le> byte c \<and> byte c \<le> 191"

definition ascii_string :: "string \<Rightarrow> bool" where
  "ascii_string s \<longleftrightarrow> list_all (\<lambda>c. byte c < 128) s"

lemma byte_less_256 [simp]: "byte c < 256"
  by (simp add: byte_def)

lemma byte_inj: "byte a = byte b \<longleftrightarrow> a = b"
  by (simp add: byte_def)

text \<open>
  \<open>rune_size s\<close> is the number of bytes of the well-formed UTF-8 sequence at the
  head of \<open>s\<close> (the accept ranges of \<open>unicode/utf8\<close>: no overlong form, no
  surrogate, nothing above U+10FFFF), 0 where there is none. The lead byte gives
  the length and the range of the second byte; the others are continuation bytes.
\<close>

definition lead_len :: "nat \<Rightarrow> nat" where
  "lead_len x =
     (if x < 128 then 1 else if 194 \<le> x \<and> x \<le> 223 then 2
      else if 224 \<le> x \<and> x \<le> 239 then 3 else if 240 \<le> x \<and> x \<le> 244 then 4 else 0)"

definition second_ok :: "nat \<Rightarrow> char \<Rightarrow> bool" where
  "second_ok x b \<longleftrightarrow>
     (if x = 224 then 160 else if x = 240 then 144 else 128) \<le> byte b \<and>
     byte b \<le> (if x = 237 then 159 else if x = 244 then 143 else 191)"

definition tail_ok :: "nat \<Rightarrow> string \<Rightarrow> bool" where
  "tail_ok x ts = (case ts of [] \<Rightarrow> True | b # cs \<Rightarrow> second_ok x b \<and> list_all cont cs)"

fun rune_size :: "string \<Rightarrow> nat" where
  "rune_size [] = 0"
| "rune_size (a # s) =
    (let n = lead_len (byte a) in
     if n = 0 \<or> length s + 1 < n then 0
     else if tail_ok (byte a) (take (n - 1) s) then n else 0)"

declare rune_size.simps(2) [simp del]

lemma rune_size_ascii [simp]: "byte a < 128 \<Longrightarrow> rune_size (a # s) = 1"
  by (simp add: rune_size.simps lead_len_def tail_ok_def)

lemma rune_size_le_length: "rune_size s \<le> length s"
  by (cases s) (auto simp: rune_size.simps Let_def)

lemma rune_size_append: "rune_size s \<noteq> 0 \<Longrightarrow> rune_size (s @ t) = rune_size s"
  by (cases s) (auto simp: rune_size.simps Let_def split: if_splits)

function valid_utf8 :: "string \<Rightarrow> bool" where
  "valid_utf8 s \<longleftrightarrow>
     (if s = [] then True
      else if rune_size s = 0 then False
      else valid_utf8 (drop (rune_size s) s))"
  by pat_completeness auto
termination
  by (relation "measure length") auto

declare valid_utf8.simps [simp del]

lemma valid_utf8_Nil [simp]: "valid_utf8 []"
  by (simp add: valid_utf8.simps)

lemma valid_utf8_ascii_Cons [simp]: "byte c < 128 \<Longrightarrow> valid_utf8 (c # s) = valid_utf8 s"
  by (subst valid_utf8.simps) simp

lemma valid_utf8_ascii: "ascii_string s \<Longrightarrow> valid_utf8 s"
  by (induction s) (auto simp: ascii_string_def)

lemma valid_utf8_rune_size: "valid_utf8 s \<Longrightarrow> s \<noteq> [] \<Longrightarrow> rune_size s \<noteq> 0"
  by (subst (asm) valid_utf8.simps) (simp split: if_splits)

lemma valid_utf8_drop_rune: "valid_utf8 s \<Longrightarrow> valid_utf8 (drop (rune_size s) s)"
  by (cases "s = []") (simp, subst (asm) valid_utf8.simps, simp split: if_splits)

text \<open>
  The loop \<open>for _, r := range s\<close> (and the conversion \<open>[]rune(s)\<close>): the encodings
  of the runes of \<open>s\<close>; a byte that starts no well-formed sequence is U+FFFD.
\<close>

definition rune_error :: string where
  "rune_error = [CHR 0xEF, CHR 0xBF, CHR 0xBD]"

function runes_of :: "string \<Rightarrow> string list" where
  "runes_of s =
     (if s = [] then []
      else if rune_size s = 0 then rune_error # runes_of (tl s)
      else take (rune_size s) s # runes_of (drop (rune_size s) s))"
  by pat_completeness auto
termination
  by (relation "measure length") auto

declare runes_of.simps [simp del]

lemma runes_of_Nil [simp]: "runes_of [] = []"
  by (simp add: runes_of.simps)

lemma concat_runes_of: "valid_utf8 s \<Longrightarrow> concat (runes_of s) = s"
proof (induction s rule: runes_of.induct)
  case (1 s)
  show ?case
  proof (cases "s = []")
    case False
    with 1 have "rune_size s \<noteq> 0" by (simp add: valid_utf8_rune_size)
    with False 1 show ?thesis
      by (subst runes_of.simps) (simp add: valid_utf8_drop_rune)
  qed simp
qed

section \<open>Texts as lists of runes\<close>

definition rune_ok :: "string \<Rightarrow> bool" where
  "rune_ok r \<longleftrightarrow> r \<noteq> [] \<and> rune_size r = length r"

lemma rune_size_take: "rune_size s \<noteq> 0 \<Longrightarrow> rune_size (take (rune_size s) s) = rune_size s"
proof (cases s)
  case (Cons a u)
  assume "rune_size s \<noteq> 0"
  then have n: "rune_size s = lead_len (byte a)" "lead_len (byte a) \<noteq> 0" "lead_len (byte a) \<le> length u + 1"
    "tail_ok (byte a) (take (lead_len (byte a) - 1) u)"
    by (auto simp: Cons rune_size.simps Let_def split: if_splits)
  then have "take (rune_size s) s = a # take (lead_len (byte a) - 1) u"
    by (cases "lead_len (byte a)") (simp_all add: Cons)
  with n show ?thesis by (simp add: rune_size.simps Let_def)
qed simp

lemma rune_ok_take: "rune_size s \<noteq> 0 \<Longrightarrow> rune_ok (take (rune_size s) s)"
  using rune_size_le_length [of s] by (cases s) (auto simp: rune_ok_def rune_size_take)

lemma rune_ok_error: "rune_ok rune_error"
  by (simp add: rune_ok_def rune_error_def rune_size.simps lead_len_def tail_ok_def second_ok_def cont_def byte_def)

lemma rune_ok_ascii: "byte c < 128 \<Longrightarrow> rune_ok [c]"
  by (simp add: rune_ok_def)

lemma runes_of_ok: "list_all rune_ok (runes_of s)"
proof (induction s rule: runes_of.induct)
  case (1 s)
  then show ?case
    by (subst runes_of.simps) (auto simp: rune_ok_take rune_ok_error)
qed

lemma rune_ok_append:
  assumes "rune_ok r"
  shows "r @ s \<noteq> []" and "rune_size (r @ s) = length r"
  using assms rune_size_append [of r s] by (auto simp: rune_ok_def)

lemma valid_utf8_rune: "rune_ok r \<Longrightarrow> valid_utf8 (r @ s) = valid_utf8 s"
  using rune_ok_append [of r s] by (subst valid_utf8.simps) (auto simp: rune_ok_def)

lemma runes_of_rune: "rune_ok r \<Longrightarrow> runes_of (r @ s) = r # runes_of s"
  using rune_ok_append [of r s] by (subst runes_of.simps) (auto simp: rune_ok_def)

lemma valid_utf8_runes: "list_all rune_ok rs \<Longrightarrow> valid_utf8 (concat rs @ s) = valid_utf8 s"
  by (induction rs) (simp_all add: valid_utf8_rune)

lemma runes_of_runes: "list_all rune_ok rs \<Longrightarrow> runes_of (concat rs @ s) = rs @ runes_of s"
  by (induction rs) (simp_all add: runes_of_rune)

lemma valid_utf8_concat: "list_all rune_ok rs \<Longrightarrow> valid_utf8 (concat rs)"
  using valid_utf8_runes [of rs "[]"] by simp

lemma runes_of_concat: "list_all rune_ok rs \<Longrightarrow> runes_of (concat rs) = rs"
  using runes_of_runes [of rs "[]"] by simp

lemma runes_of_ascii: "ascii_string s \<Longrightarrow> runes_of s = map (\<lambda>c. [c]) s"
  by (induction s) (simp_all add: ascii_string_def runes_of_rune [OF rune_ok_ascii, of _ "_", simplified])

text \<open>A rune is one byte below 128, or has no byte below 128.\<close>

lemma rune_ok_cases:
  assumes "rune_ok r"
  obtains (ascii) c where "r = [c]" "byte c < 128"
  | (wide) "2 \<le> length r" "list_all (\<lambda>c. 128 \<le> byte c) r"
proof (cases r)
  case (Cons a u)
  with assms have n: "lead_len (byte a) = length u + 1" "tail_ok (byte a) u"
    by (auto simp: rune_ok_def rune_size.simps Let_def split: if_splits)
  show ?thesis
  proof (cases "byte a < 128")
    case True
    with n(1) Cons show ?thesis by (intro ascii [of a]) (simp_all add: lead_len_def)
  next
    case False
    with n(1) have "u \<noteq> []" by (auto simp: lead_len_def split: if_splits)
    with n(2) have "list_all (\<lambda>c. 128 \<le> byte c) u"
      by (cases u) (auto simp: tail_ok_def second_ok_def list_all_iff cont_def split: if_splits)
    with \<open>u \<noteq> []\<close> False Cons show ?thesis by (intro wide) (cases u, simp_all)
  qed
qed (use assms in \<open>simp add: rune_ok_def\<close>)

section \<open>Splitting and joining\<close>

fun split_on :: "char \<Rightarrow> string \<Rightarrow> string list" where
  "split_on sep [] = [[]]"
| "split_on sep (c # s) =
    (if c = sep then [] # split_on sep s
     else (case split_on sep s of [] \<Rightarrow> [[c]] | w # ws \<Rightarrow> (c # w) # ws))"

fun join_with :: "string \<Rightarrow> string list \<Rightarrow> string" where
  "join_with sep [] = []"
| "join_with sep [w] = w"
| "join_with sep (w # v # ws) = w @ sep @ join_with sep (v # ws)"

lemma split_on_not_Nil [simp]: "split_on sep s \<noteq> []"
  by (induction s) (auto split: list.splits)

lemma join_split: "join_with [sep] (split_on sep s) = s"
proof (induction s)
  case (Cons c s)
  show ?case
  proof (cases "split_on sep s")
    case (Cons w ws)
    with Cons.IH show ?thesis by (cases ws) auto
  qed simp
qed simp

lemma split_on_no_sep: "w \<in> set (split_on sep s) \<Longrightarrow> sep \<notin> set w"
  by (induction s arbitrary: w) (auto split: list.splits if_splits)

lemma split_on_append: "sep \<notin> set w \<Longrightarrow> split_on sep (w @ sep # s) = w # split_on sep s"
  by (induction w) auto

lemma split_on_single: "sep \<notin> set w \<Longrightarrow> split_on sep w = [w]"
  by (induction w) auto

lemma split_join: "ws \<noteq> [] \<Longrightarrow> \<forall>w\<in>set ws. sep \<notin> set w \<Longrightarrow> split_on sep (join_with [sep] ws) = ws"
  by (induction "[sep]" ws rule: join_with.induct) (auto simp: split_on_append split_on_single)

lemma join_with_inj:
  assumes "join_with [sep] ws = join_with [sep] vs" and "ws \<noteq> []" and "vs \<noteq> []"
    and "\<forall>w\<in>set ws. sep \<notin> set w" and "\<forall>v\<in>set vs. sep \<notin> set v"
  shows "ws = vs"
  using assms by (metis split_join)

section \<open>Hexadecimal text\<close>

definition hex_digits :: string where
  "hex_digits = ''0123456789abcdef''"

definition is_lower_hex :: "char \<Rightarrow> bool" where
  "is_lower_hex c \<longleftrightarrow> c \<in> set hex_digits"

definition hex_byte :: "nat \<Rightarrow> string" where
  "hex_byte n = [hex_digits ! (n div 16), hex_digits ! (n mod 16)]"

definition hex_encode :: "string \<Rightarrow> string" where
  "hex_encode s = concat (map (\<lambda>c. hex_byte (byte c)) s)"

text \<open>The value of a hexadecimal digit; \<open>hex.Decode\<close> takes both cases.\<close>

definition hex_val :: "char \<Rightarrow> nat option" where
  "hex_val c =
     (let x = byte c in
      if 48 \<le> x \<and> x \<le> 57 then Some (x - 48)
      else if 97 \<le> x \<and> x \<le> 102 then Some (x - 87)
      else if 65 \<le> x \<and> x \<le> 70 then Some (x - 55)
      else None)"

fun hex_decode :: "string \<Rightarrow> nat list option" where
  "hex_decode [] = Some []"
| "hex_decode [c] = None"
| "hex_decode (c # d # s) =
    (case (hex_val c, hex_val d, hex_decode s) of
       (Some x, Some y, Some zs) \<Rightarrow> Some ((16 * x + y) # zs)
     | _ \<Rightarrow> None)"

lemma nat_less_16_cases:
  "(n::nat) < 16 \<Longrightarrow> n \<in> {15, 14, 13, 12, 11, 10, 9, 8, 7, 6, 5, 4, 3, 2, 1, 0}"
  unfolding insert_iff empty_iff by arith

lemma hex_val_digit: "n < 16 \<Longrightarrow> hex_val (hex_digits ! n) = Some n"
  by (drule nat_less_16_cases) (auto simp: hex_digits_def hex_val_def byte_def)

lemma hex_digit_lower: "n < 16 \<Longrightarrow> is_lower_hex (hex_digits ! n)"
  by (drule nat_less_16_cases) (auto simp: is_lower_hex_def hex_digits_def)

lemma hex_digit_ascii: "n < 16 \<Longrightarrow> byte (hex_digits ! n) < 128"
  by (drule nat_less_16_cases) (auto simp: hex_digits_def byte_def)

lemma hex_byte_lower: "n < 256 \<Longrightarrow> list_all is_lower_hex (hex_byte n)"
  by (simp add: hex_byte_def hex_digit_lower)

lemma hex_decode_byte: "n < 256 \<Longrightarrow> hex_decode (hex_byte n @ s) = map_option ((#) n) (hex_decode s)"
  by (simp add: hex_byte_def hex_val_digit split: option.split)

lemma hex_decode_encode: "hex_decode (hex_encode s) = Some (map byte s)"
  by (induction s) (simp_all add: hex_encode_def hex_decode_byte)

lemma length_hex_encode: "length (hex_encode s) = 2 * length s"
  by (induction s) (simp_all add: hex_encode_def hex_byte_def)

lemma hex_encode_lower: "list_all is_lower_hex (hex_encode s)"
  by (induction s) (simp_all add: hex_encode_def hex_byte_lower)

lemma hex_encode_inj: "hex_encode s = hex_encode t \<longleftrightarrow> s = t"
proof
  assume "hex_encode s = hex_encode t"
  then have "map byte s = map byte t" by (metis hex_decode_encode option.inject)
  then show "s = t" by (simp add: inj_map_eq_map inj_def byte_inj)
qed simp

section \<open>Decimal text\<close>

definition is_digit :: "char \<Rightarrow> bool" where
  "is_digit c \<longleftrightarrow> 48 \<le> byte c \<and> byte c \<le> 57"

definition digit :: "nat \<Rightarrow> char" where
  "digit n = char_of (48 + n)"

fun show_nat :: "nat \<Rightarrow> string" where
  "show_nat n = (if n < 10 then [digit n] else show_nat (n div 10) @ [digit (n mod 10)])"

declare show_nat.simps [simp del]

definition show_int :: "int \<Rightarrow> string" where
  "show_int i = (if i < 0 then CHR ''-'' # show_nat (nat (- i)) else show_nat (nat i))"

definition read_nat :: "string \<Rightarrow> nat" where
  "read_nat s = foldl (\<lambda>a c. 10 * a + (byte c - 48)) 0 s"

text \<open>\<open>strconv.Atoi\<close> on a text short enough not to overflow (under 19 bytes).\<close>

definition atoi :: "string \<Rightarrow> int option" where
  "atoi s =
     (case s of [] \<Rightarrow> None
      | c # ds \<Rightarrow>
          if c = CHR ''-'' \<or> c = CHR ''+'' then
            (if ds \<noteq> [] \<and> list_all is_digit ds
             then Some (if c = CHR ''-'' then - int (read_nat ds) else int (read_nat ds)) else None)
          else if list_all is_digit s then Some (int (read_nat s)) else None)"

lemma byte_digit: "n < 10 \<Longrightarrow> byte (digit n) = 48 + n"
  by (simp add: byte_def digit_def)

lemma is_digit_digit: "n < 10 \<Longrightarrow> is_digit (digit n)"
  by (simp add: is_digit_def byte_digit)

lemma show_nat_digits: "list_all is_digit (show_nat n)"
  by (induction n rule: show_nat.induct) (subst show_nat.simps, auto simp: is_digit_digit)

lemma show_nat_not_Nil [simp]: "show_nat n \<noteq> []"
  by (subst show_nat.simps) simp

lemma read_show_nat: "read_nat (show_nat n) = n"
proof (induction n rule: show_nat.induct)
  case (1 n)
  then show ?case
    by (subst show_nat.simps) (auto simp: read_nat_def byte_digit)
qed

lemma show_nat_inj: "show_nat m = show_nat n \<longleftrightarrow> m = n"
  by (metis read_show_nat)

lemma hd_show_nat_not_zero: "0 < n \<Longrightarrow> hd (show_nat n) \<noteq> CHR ''0''"
proof (induction n rule: show_nat.induct)
  case (1 n)
  show ?case
  proof (cases "n < 10")
    case True
    with 1 have "byte (digit n) \<noteq> byte (CHR ''0'')" by (simp add: byte_digit) (simp add: byte_def)
    with True show ?thesis by (subst show_nat.simps) auto
  next
    case False
    with 1 show ?thesis by (subst show_nat.simps) auto
  qed
qed

lemma sign_not_digit: "\<not> is_digit (CHR ''-'')" "\<not> is_digit (CHR ''+'')" "\<not> is_digit (CHR ''.'')"
  by (simp_all add: is_digit_def byte_def)

lemma atoi_show_nat: "atoi (show_nat n) = Some (int n)"
proof -
  obtain c ds where cs: "show_nat n = c # ds" by (cases "show_nat n") auto
  with show_nat_digits [of n] have "is_digit c" by simp
  with sign_not_digit have "c \<noteq> CHR ''-''" "c \<noteq> CHR ''+''" by metis+
  with cs show ?thesis using show_nat_digits [of n] read_show_nat [of n] by (simp add: atoi_def)
qed

section \<open>Case and white space\<close>

text \<open>
  \<open>strings.ToLower\<close> on ASCII bytes and on the two other code points whose lower
  case is an ASCII letter (U+212A KELVIN SIGN and U+0130); every other non-ASCII
  rune keeps its bytes here, where Go may write other bytes above 127. The program
  compares the result with ASCII text only, which the difference cannot reach.
\<close>

definition lower_byte :: "char \<Rightarrow> char" where
  "lower_byte c = (if 65 \<le> byte c \<and> byte c \<le> 90 then char_of (byte c + 32) else c)"

fun to_lower :: "string \<Rightarrow> string" where
  "to_lower [] = []"
| "to_lower (c # s) =
    (if c = CHR 0xE2 \<and> take 2 s = [CHR 0x84, CHR 0xAA] then CHR ''k'' # to_lower (drop 2 s)
     else if c = CHR 0xC4 \<and> take 1 s = [CHR 0xB0] then CHR ''i'' # to_lower (drop 1 s)
     else lower_byte c # to_lower s)"

text \<open>The encodings of the white space runes of \<open>unicode.IsSpace\<close>.\<close>

definition space_runes :: "string list" where
  "space_runes =
     [[CHR 0x09], [CHR 0x0A], [CHR 0x0B], [CHR 0x0C], [CHR 0x0D], [CHR 0x20],
      [CHR 0xC2, CHR 0x85], [CHR 0xC2, CHR 0xA0], [CHR 0xE1, CHR 0x9A, CHR 0x80]]
     @ map (\<lambda>n. [CHR 0xE2, CHR 0x80, char_of (128 + n)]) [0..<11]
     @ [[CHR 0xE2, CHR 0x80, CHR 0xA8], [CHR 0xE2, CHR 0x80, CHR 0xA9], [CHR 0xE2, CHR 0x80, CHR 0xAF],
        [CHR 0xE2, CHR 0x81, CHR 0x9F], [CHR 0xE3, CHR 0x80, CHR 0x80]]"

definition space_at :: "string list \<Rightarrow> string \<Rightarrow> nat" where
  "space_at ps s = (case find (\<lambda>p. prefix p s) ps of None \<Rightarrow> 0 | Some p \<Rightarrow> length p)"

function trim_left :: "string list \<Rightarrow> string \<Rightarrow> string" where
  "trim_left ps s = (if s \<noteq> [] \<and> space_at ps s \<noteq> 0 then trim_left ps (drop (space_at ps s) s) else s)"
  by pat_completeness auto
termination
  by (relation "measure (length o snd)") auto

declare trim_left.simps [simp del]

definition trim_space :: "string \<Rightarrow> string" where
  "trim_space s = rev (trim_left (map rev space_runes) (rev (trim_left space_runes s)))"

end
