(* ===== verification/GoJson.thy ===== *)
theory GoJson
  imports GoText
begin

text \<open>
  The part of Go's \<open>encoding/json\<close> the program marshals with: struct values as
  objects in field order, arrays, strings, booleans, integers and null (a nil slice). \<open>render html v\<close>
  is the encoder's output, with its HTML escaping on (\<open>json.Marshal\<close>) or off
  (\<open>SetEscapeHTML(false)\<close>). \<open>canon v\<close> is the text with the
  shortest escapes and every other byte as it is, members in the given order; \<open>rfc8785 v\<close> sorts
  the members and refuses what I-JSON excludes. The lemmas show that \<open>canon\<close> is injective, also
  inside a larger text.
\<close>

datatype json =
    JStr string
  | JBool bool
  | JInt int
  | JArr "json list"
  | JObj "(string \<times> json) list"
  | JNull

definition bs :: char where
  "bs = CHR 0x5C"

definition dq :: char where
  "dq = CHR 0x22"

section \<open>String escapes\<close>

text \<open>The escape of one ASCII byte (\<open>appendString\<close>, the branch below RuneSelf).\<close>

definition esc_byte :: "bool \<Rightarrow> char \<Rightarrow> string" where
  "esc_byte html c =
     (if c = bs \<or> c = dq then [bs, c]
      else if c = CHR 0x08 then [bs, CHR ''b'']
      else if c = CHR 0x0C then [bs, CHR ''f'']
      else if c = CHR 0x0A then [bs, CHR ''n'']
      else if c = CHR 0x0D then [bs, CHR ''r'']
      else if c = CHR 0x09 then [bs, CHR ''t'']
      else if byte c < 32 \<or> (html \<and> c \<in> set ''<>&'') then [bs, CHR ''u'', CHR ''0'', CHR ''0''] @ hex_byte (byte c)
      else [c])"

definition line_sep :: string where
  "line_sep = [CHR 0xE2, CHR 0x80, CHR 0xA8]"

definition para_sep :: string where
  "para_sep = [CHR 0xE2, CHR 0x80, CHR 0xA9]"

definition esc_rune :: "bool \<Rightarrow> string \<Rightarrow> string" where
  "esc_rune html r =
     (case r of
        [c] \<Rightarrow> (if byte c < 128 then esc_byte html c else [bs] @ ''ufffd'')
      | _ \<Rightarrow> if r = line_sep then [bs] @ ''u2028''
             else if r = para_sep then [bs] @ ''u2029''
             else r)"

function json_chars :: "bool \<Rightarrow> string \<Rightarrow> string" where
  "json_chars html s =
     (if s = [] then []
      else let n = (if rune_size s = 0 then 1 else rune_size s)
           in esc_rune html (take n s) @ json_chars html (drop n s))"
  by pat_completeness auto
termination
  by (relation "measure (length o snd)") (auto simp: Let_def)

declare json_chars.simps [simp del]

definition json_string :: "bool \<Rightarrow> string \<Rightarrow> string" where
  "json_string html s = [dq] @ json_chars html s @ [dq]"

section \<open>Values\<close>

fun render :: "bool \<Rightarrow> json \<Rightarrow> string" where
  "render html (JStr s) = json_string html s"
| "render html (JBool b) = (if b then ''true'' else ''false'')"
| "render html (JInt i) = show_int i"
| "render html (JArr vs) = ''['' @ join_with '','' (map (render html) vs) @ '']''"
| "render html (JObj fs) =
     ''{'' @ join_with '','' (map (\<lambda>(k, v). json_string html k @ '':'' @ render html v) fs) @ ''}''"
| "render html JNull = ''null''"

text \<open>A string field with the \<open>omitempty\<close> option.\<close>

definition omit_empty :: "string \<Rightarrow> string \<Rightarrow> (string \<times> json) list" where
  "omit_empty k v = (if v = [] then [] else [(k, JStr v)])"

text \<open>Objects with their keys in bytewise order, as \<open>json.Marshal\<close> writes a map.\<close>

fun sort_keys :: "json \<Rightarrow> json" where
  "sort_keys (JObj fs) = JObj (sort_by (\<lambda>a b. fst a < fst b) (map (\<lambda>(k, v). (k, sort_keys v)) fs))"
| "sort_keys (JArr vs) = JArr (map sort_keys vs)"
| "sort_keys v = v"

text \<open>The text of RFC 8785 for members as they are ordered: the same shapes, with each string byte escaped on its own.\<close>

definition canon_chars :: "string \<Rightarrow> string" where
  "canon_chars s = concat (map (esc_byte False) s)"

definition canon_string :: "string \<Rightarrow> string" where
  "canon_string s = [dq] @ canon_chars s @ [dq]"

fun canon :: "json \<Rightarrow> string" where
  "canon (JStr s) = canon_string s"
| "canon (JBool b) = (if b then ''true'' else ''false'')"
| "canon (JInt i) = show_int i"
| "canon (JArr vs) = ''['' @ join_with '','' (map canon vs) @ '']''"
| "canon (JObj fs) =
     ''{'' @ join_with '','' (map (\<lambda>(k, v). canon_string k @ '':'' @ canon v) fs) @ ''}''"
| "canon JNull = ''null''"

text \<open>Every string of the value is well-formed UTF-8.\<close>

fun utf8_json :: "json \<Rightarrow> bool" where
  "utf8_json (JStr s) = valid_utf8 s"
| "utf8_json (JBool b) = True"
| "utf8_json (JInt i) = True"
| "utf8_json (JArr vs) = list_all utf8_json vs"
| "utf8_json (JObj fs) = list_all (\<lambda>(k, v). valid_utf8 k \<and> utf8_json v) fs"
| "utf8_json JNull = True"

text \<open>
  RFC 8785 itself, for values whose member names are ASCII (there the order of UTF-16 code units is the
  byte order): I-JSON input, that is well-formed strings, distinct member names and integers that a
  binary64 number represents exactly; then the members of every object sorted by name, plain decimal
  integers and the shortest escapes.
\<close>

fun i_json :: "json \<Rightarrow> bool" where
  "i_json (JInt i) = (\<bar>i\<bar> < 2 ^ 53)"
| "i_json (JStr s) = valid_utf8 s"
| "i_json (JArr vs) = list_all i_json vs"
| "i_json (JObj fs) = (distinct (map fst fs) \<and> list_all (\<lambda>(k, v). ascii_string k \<and> i_json v) fs)"
| "i_json v = True"

definition rfc8785 :: "json \<Rightarrow> string option" where
  "rfc8785 v = (if i_json v then Some (canon (sort_keys v)) else None)"

section \<open>The escapes are a prefix code\<close>

fun unesc :: "string \<Rightarrow> (char \<times> string) option" where
  "unesc [] = None"
| "unesc (c # s) =
    (if c = bs then
       (case s of
          [] \<Rightarrow> None
        | d # s' \<Rightarrow>
            if d = CHR ''u'' then Some (char_of (16 * the (hex_val (s' ! 2)) + the (hex_val (s' ! 3))), drop 4 s')
            else if d = CHR ''b'' then Some (CHR 0x08, s')
            else if d = CHR ''f'' then Some (CHR 0x0C, s')
            else if d = CHR ''n'' then Some (CHR 0x0A, s')
            else if d = CHR ''r'' then Some (CHR 0x0D, s')
            else if d = CHR ''t'' then Some (CHR 0x09, s')
            else Some (d, s'))
     else Some (c, s))"

lemma unesc_esc_byte: "unesc (esc_byte False c @ t) = Some (c, t)"
proof -
  have "char_of (16 * (byte c div 16) + byte c mod 16) = c"
    by (simp add: byte_def)
  then show ?thesis
    by (auto simp: esc_byte_def bs_def dq_def hex_byte_def hex_val_digit)
qed

lemma esc_byte_prefix_code: "esc_byte False c @ s = esc_byte False d @ t \<Longrightarrow> c = d \<and> s = t"
  by (metis Pair_inject option.inject unesc_esc_byte)

lemma esc_byte_not_dq: "esc_byte html c @ s \<noteq> dq # t"
  by (auto simp: esc_byte_def bs_def dq_def)

lemma canon_string_prefix_code: "canon_string a @ s = canon_string b @ t \<Longrightarrow> a = b \<and> s = t"
proof -
  have "canon_chars a @ dq # s = canon_chars b @ dq # t \<Longrightarrow> a = b \<and> s = t" for s t
  proof (induction a arbitrary: b)
    case Nil
    then show ?case
      by (cases b) (auto simp: canon_chars_def dest: esc_byte_not_dq [THEN notE, OF sym])
  next
    case (Cons c a)
    then show ?case
    proof (cases b)
      case Nil
      with Cons.prems show ?thesis
        by (auto simp: canon_chars_def dest: esc_byte_not_dq [THEN notE])
    next
      case (Cons d b')
      with Cons.prems have "esc_byte False c @ canon_chars a @ dq # s = esc_byte False d @ canon_chars b' @ dq # t"
        by (simp add: canon_chars_def)
      with esc_byte_prefix_code have "c = d" and "canon_chars a @ dq # s = canon_chars b' @ dq # t"
        by blast+
      with Cons.IH Cons show ?thesis by blast
    qed
  qed
  then show "canon_string a @ s = canon_string b @ t \<Longrightarrow> a = b \<and> s = t"
    by (simp add: canon_string_def)
qed

section \<open>The canonical text determines the value\<close>

definition delimited :: "string \<Rightarrow> bool" where
  "delimited t \<longleftrightarrow> (case t of [] \<Rightarrow> True | c # _ \<Rightarrow> c \<in> set '',]}'')"

definition json_sort :: "json \<Rightarrow> nat" where
  "json_sort v = (case v of JStr _ \<Rightarrow> 0 | JBool _ \<Rightarrow> 1 | JInt _ \<Rightarrow> 2 | JArr _ \<Rightarrow> 3 | JObj _ \<Rightarrow> 4 | JNull \<Rightarrow> 5)"

definition head_sort :: "char \<Rightarrow> nat" where
  "head_sort c = (if c = dq then 0 else if c \<in> set ''tf'' then 1 else if c = CHR ''['' then 3
     else if c = CHR ''{'' then 4 else if c = CHR ''n'' then 5 else 2)"

lemma not_digits: "list_all (\<lambda>c. \<not> is_digit c) (dq # ''tfn[]{},-+'')"
  by (simp add: is_digit_def dq_def byte_def)

lemma head_sort_number: "is_digit c \<or> c = CHR ''-'' \<Longrightarrow> head_sort c = 2 \<and> c \<noteq> CHR '']'' \<and> c \<noteq> CHR ''}''"
proof (erule disjE)
  assume "is_digit c"
  then have "c \<noteq> dq \<and> c \<notin> set ''tfn[]{}''" using not_digits by auto
  then show ?thesis by (auto simp: head_sort_def)
qed (simp add: head_sort_def dq_def)

lemma delimited_not_digit: "is_digit c \<Longrightarrow> \<not> delimited (c # s)"
  using not_digits by (auto simp: delimited_def)

lemma show_int_head: "\<exists>c w. show_int i = c # w \<and> (is_digit c \<or> c = CHR ''-'')"
proof (cases "i < 0")
  case False
  obtain c w where "show_nat (nat i) = c # w" by (cases "show_nat (nat i)") auto
  with False show_nat_digits [of "nat i"] show ?thesis by (simp add: show_int_def)
qed (simp add: show_int_def)

lemma canon_head: "\<exists>c w. canon v = c # w \<and> head_sort c = json_sort v \<and> c \<noteq> CHR '']'' \<and> c \<noteq> CHR ''}''"
proof (cases v)
  case (JInt i)
  with show_int_head [of i] head_sort_number show ?thesis by (auto simp: json_sort_def)
qed (auto simp: canon_string_def head_sort_def json_sort_def dq_def)

lemma canon_same_sort: "canon a @ s = canon b @ t \<Longrightarrow> json_sort a = json_sort b"
  using canon_head [of a] canon_head [of b] by auto

lemma digits_prefix_code:
  "list_all is_digit x \<Longrightarrow> list_all is_digit y \<Longrightarrow> x @ s = y @ t \<Longrightarrow> delimited s \<Longrightarrow> delimited t \<Longrightarrow> x = y \<and> s = t"
proof (induction x arbitrary: y)
  case Nil
  then show ?case by (cases y) (auto dest: delimited_not_digit)
next
  case (Cons c x)
  then show ?case by (cases y) (auto dest: delimited_not_digit)
qed

lemma show_nat_prefix_code:
  "show_nat m @ s = show_nat n @ t \<Longrightarrow> delimited s \<Longrightarrow> delimited t \<Longrightarrow> m = n \<and> s = t"
  by (metis digits_prefix_code show_nat_digits show_nat_inj)

lemma show_nat_no_sign: "show_nat n @ u \<noteq> CHR ''-'' # w"
proof
  assume eq: "show_nat n @ u = CHR ''-'' # w"
  obtain c v where c: "show_nat n = c # v" by (cases "show_nat n") auto
  with show_nat_digits [of n] have "is_digit c" by simp
  with c eq sign_not_digit(1) show False by simp
qed

lemma show_int_prefix_code:
  assumes "show_int i @ s = show_int j @ t" and d: "delimited s" "delimited t"
  shows "i = j \<and> s = t"
proof (cases "i < 0"; cases "j < 0")
  assume ij: "\<not> i < 0" "\<not> j < 0"
  with assms(1) have "show_nat (nat i) @ s = show_nat (nat j) @ t" by (simp add: show_int_def)
  from show_nat_prefix_code [OF this d] ij show ?thesis by auto
next
  assume ij: "i < 0" "j < 0"
  with assms(1) have "show_nat (nat (- i)) @ s = show_nat (nat (- j)) @ t" by (simp add: show_int_def)
  from show_nat_prefix_code [OF this d] ij show ?thesis by auto
next
  assume "i < 0" "\<not> j < 0"
  with assms(1) have "show_nat (nat j) @ t = CHR ''-'' # show_nat (nat (- i)) @ s" by (simp add: show_int_def)
  with show_nat_no_sign show ?thesis by blast
next
  assume "\<not> i < 0" "j < 0"
  with assms(1) show_nat_no_sign [of "nat i" s] show ?thesis by (simp add: show_int_def)
qed

lemma join_with_comma: "join_with '','' (x # xs) = x @ concat (map ((#) (CHR '','')) xs)"
  by (induction xs arbitrary: x) simp_all

lemma delimited_tail:
  "c = CHR '']'' \<or> c = CHR ''}'' \<Longrightarrow> delimited (concat (map (\<lambda>x. CHR '','' # f x) xs) @ c # s)"
  by (cases xs) (auto simp: delimited_def)

lemma tail_prefix_code:
  assumes "\<And>x y s t. x \<in> set xs \<Longrightarrow> f x @ s = f y @ t \<Longrightarrow> delimited s \<Longrightarrow> delimited t \<Longrightarrow> x = y \<and> s = t"
    and c: "c = CHR '']'' \<or> c = CHR ''}''"
    and "concat (map (\<lambda>x. CHR '','' # f x) xs) @ c # s = concat (map (\<lambda>x. CHR '','' # f x) ys) @ c # t"
  shows "xs = ys \<and> s = t"
  using assms(1,3)
proof (induction xs arbitrary: ys)
  case Nil
  with c show ?case by (cases ys) auto
next
  case (Cons x xs)
  show ?case
  proof (cases ys)
    case Nil
    with Cons.prems c show ?thesis by auto
  next
    case (Cons y ys')
    let ?tl = "\<lambda>zs u. concat (map (\<lambda>x. CHR '','' # f x) zs) @ c # u"
    have "f x @ ?tl xs s = f y @ ?tl ys' t" using Cons.prems(2) Cons by simp
    from Cons.prems(1) [OF _ this] delimited_tail [OF c]
    have "x = y" and "?tl xs s = ?tl ys' t" by auto
    with Cons.IH [OF Cons.prems(1)] Cons show ?thesis by auto
  qed
qed

lemma list_prefix_code:
  assumes inj: "\<And>x y s t. x \<in> set xs \<Longrightarrow> f x @ s = f y @ t \<Longrightarrow> delimited s \<Longrightarrow> delimited t \<Longrightarrow> x = y \<and> s = t"
    and head: "\<And>x u v. f x @ u \<noteq> c # v"
    and c: "c = CHR '']'' \<or> c = CHR ''}''"
    and eq: "join_with '','' (map f xs) @ c # s = join_with '','' (map f ys) @ c # t"
  shows "xs = ys \<and> s = t"
proof (cases xs)
  case Nil
  with eq head head [THEN not_sym] show ?thesis
    by (cases ys) (auto simp: join_with_comma simp del: join_with.simps(3))
next
  case xs: (Cons x xs')
  let ?tl = "\<lambda>zs u. concat (map (\<lambda>x. CHR '','' # f x) zs) @ c # u"
  show ?thesis
  proof (cases ys)
    case Nil
    with eq head show ?thesis by (simp add: xs join_with_comma del: join_with.simps(3))
  next
    case ys: (Cons y ys')
    from eq have "f x @ ?tl xs' s = f y @ ?tl ys' t"
      by (simp add: xs ys join_with_comma comp_def del: join_with.simps(3))
    from inj [OF _ this] delimited_tail [OF c] have "x = y" and "?tl xs' s = ?tl ys' t"
      by (auto simp: xs)
    moreover have "xs' = ys' \<and> s = t"
      by (rule tail_prefix_code [OF inj c \<open>?tl xs' s = ?tl ys' t\<close>]) (auto simp: xs)
    ultimately show ?thesis by (simp add: xs ys)
  qed
qed

definition canon_field :: "string \<times> json \<Rightarrow> string" where
  "canon_field kv = canon_string (fst kv) @ '':'' @ canon (snd kv)"

lemma canon_JObj: "canon (JObj fs) = ''{'' @ join_with '','' (map canon_field fs) @ ''}''"
proof -
  have "canon_field = (\<lambda>(k, v). canon_string k @ '':'' @ canon v)"
    by (auto simp: canon_field_def)
  then show ?thesis by simp
qed

lemma canon_prefix_code:
  "canon a @ s = canon b @ t \<Longrightarrow> delimited s \<Longrightarrow> delimited t \<Longrightarrow> a = b \<and> s = t"
proof (induction a arbitrary: b s t)
  case (JStr x)
  with canon_same_sort [OF JStr.prems(1)] show ?case
    by (cases b) (auto simp: json_sort_def dest: canon_string_prefix_code)
next
  case (JBool x)
  with canon_same_sort [OF JBool.prems(1)] show ?case
    by (cases b) (auto simp: json_sort_def split: if_splits)
next
  case (JInt x)
  with canon_same_sort [OF JInt.prems(1)] show ?case
    by (cases b) (auto simp: json_sort_def dest: show_int_prefix_code)
next
  case (JArr vs)
  with canon_same_sort [OF JArr.prems(1)] obtain ws where b: "b = JArr ws"
    by (cases b) (auto simp: json_sort_def)
  have head: "canon x @ u \<noteq> CHR '']'' # v" for x u v
    using canon_head [of x] by auto
  have "vs = ws \<and> s = t"
    by (rule list_prefix_code [where f = canon, OF JArr.IH head])
      (use JArr.prems(1) in \<open>auto simp: b\<close>)
  with b show ?case by simp
next
  case (JObj fs)
  with canon_same_sort [OF JObj.prems(1)] obtain gs where b: "b = JObj gs"
    by (cases b) (auto simp: json_sort_def)
  have head: "canon_field x @ u \<noteq> CHR ''}'' # v" for x u v
    by (simp add: canon_field_def canon_string_def dq_def)
  have "fs = gs \<and> s = t"
  proof (rule list_prefix_code [where f = canon_field, OF _ head])
    fix x y u v
    assume x: "x \<in> set fs" and eq: "canon_field x @ u = canon_field y @ v"
      and d: "delimited u" "delimited v"
    from eq have "canon_string (fst x) @ ('':'' @ canon (snd x) @ u) = canon_string (fst y) @ ('':'' @ canon (snd y) @ v)"
      by (simp add: canon_field_def)
    from canon_string_prefix_code [OF this]
    have k: "fst x = fst y" and "canon (snd x) @ u = canon (snd y) @ v" by simp_all
    from JObj.IH [OF x _ this(2) d] have "snd x = snd y \<and> u = v" by (cases x) simp
    with k show "x = y \<and> u = v" by (simp add: prod_eq_iff)
  qed (use JObj.prems(1) in \<open>auto simp: b canon_JObj simp del: canon.simps(5)\<close>)
  with b show ?case by simp
next
  case JNull
  with canon_same_sort [OF JNull(1)] show ?case by (cases b) (auto simp: json_sort_def)
qed

lemma canon_inj: "canon a = canon b \<longleftrightarrow> a = b"
  using canon_prefix_code [of a "[]" b "[]"] by (auto simp: delimited_def)

end
