(* ===== verification/GoSha256.thy ===== *)
theory GoSha256
  imports GoText "HOL-Library.Word"
begin

unbundle bit_operations_syntax

text \<open>
  Go's \<open>crypto/sha256.Sum256\<close> (FIPS 180-4) on byte strings, over 32-bit words
  with wrap-around addition; the tables are in decimal. Every digest and key of the program is the lower-case
  hexadecimal text of \<open>sha256 s\<close>.
\<close>

definition round_constants :: "32 word list" where
  "round_constants =
  [1116352408, 1899447441, 3049323471, 3921009573,
   961987163, 1508970993, 2453635748, 2870763221,
   3624381080, 310598401, 607225278, 1426881987,
   1925078388, 2162078206, 2614888103, 3248222580,
   3835390401, 4022224774, 264347078, 604807628,
   770255983, 1249150122, 1555081692, 1996064986,
   2554220882, 2821834349, 2952996808, 3210313671,
   3336571891, 3584528711, 113926993, 338241895,
   666307205, 773529912, 1294757372, 1396182291,
   1695183700, 1986661051, 2177026350, 2456956037,
   2730485921, 2820302411, 3259730800, 3345764771,
   3516065817, 3600352804, 4094571909, 275423344,
   430227734, 506948616, 659060556, 883997877,
   958139571, 1322822218, 1537002063, 1747873779,
   1955562222, 2024104815, 2227730452, 2361852424,
   2428436474, 2756734187, 3204031479, 3329325298]"

definition rotr32 :: "nat \<Rightarrow> 32 word \<Rightarrow> 32 word" where
  "rotr32 n w = drop_bit n w OR push_bit (32 - n) w"

definition word_of_bytes :: "string \<Rightarrow> 32 word" where
  "word_of_bytes s = foldl (\<lambda>w c. push_bit 8 w OR of_nat (byte c)) 0 s"

definition bytes_of_word :: "32 word \<Rightarrow> string" where
  "bytes_of_word w = map (\<lambda>n. char_of (unat (drop_bit n w AND 255))) [24, 16, 8, 0]"

text \<open>Padding: a 1 bit, zeros, and the bit length as a 64-bit big-endian number.\<close>

definition length_bytes :: "nat \<Rightarrow> string" where
  "length_bytes n = map (\<lambda>i. char_of (n div 256 ^ i mod 256)) [7, 6, 5, 4, 3, 2, 1, 0]"

definition sha_pad :: "string \<Rightarrow> string" where
  "sha_pad s =
     s @ [CHR 0x80] @ replicate ((119 - length s mod 64) mod 64) (CHR 0x00) @ length_bytes (8 * length s)"

fun chunks :: "nat \<Rightarrow> 'a list \<Rightarrow> 'a list list" where
  "chunks n [] = []"
| "chunks n (x # xs) = (if n = 0 then [] else take n (x # xs) # chunks n (drop n (x # xs)))"

text \<open>The message schedule, kept newest word first while it is extended to 64 words.\<close>

definition next_word :: "32 word list \<Rightarrow> 32 word" where
  "next_word ws =
     (let a = ws ! 14; b = ws ! 1;
          s0 = rotr32 7 a XOR rotr32 18 a XOR drop_bit 3 a;
          s1 = rotr32 17 b XOR rotr32 19 b XOR drop_bit 10 b
      in ws ! 15 + s0 + ws ! 6 + s1)"

definition schedule :: "string \<Rightarrow> 32 word list" where
  "schedule blk =
     rev (((\<lambda>ws. next_word ws # ws) ^^ 48) (rev (map word_of_bytes (chunks 4 blk))))"

type_synonym sha_state =
  "32 word \<times> 32 word \<times> 32 word \<times> 32 word \<times> 32 word \<times> 32 word \<times> 32 word \<times> 32 word"

fun sha_round :: "sha_state \<Rightarrow> 32 word \<times> 32 word \<Rightarrow> sha_state" where
  "sha_round (a, b, c, d, e, f, g, h) (k, w) =
     (let s1 = rotr32 6 e XOR rotr32 11 e XOR rotr32 25 e;
          ch = (e AND f) XOR (NOT e AND g);
          t1 = h + s1 + ch + k + w;
          s0 = rotr32 2 a XOR rotr32 13 a XOR rotr32 22 a;
          maj = (a AND b) XOR (a AND c) XOR (b AND c);
          t2 = s0 + maj
      in (t1 + t2, a, b, c, d + t1, e, f, g))"

fun add_state :: "sha_state \<Rightarrow> sha_state \<Rightarrow> sha_state" where
  "add_state (a, b, c, d, e, f, g, h) (a', b', c', d', e', f', g', h') =
     (a + a', b + b', c + c', d + d', e + e', f + f', g + g', h + h')"

definition sha_block :: "sha_state \<Rightarrow> string \<Rightarrow> sha_state" where
  "sha_block st blk = add_state st (foldl sha_round st (zip round_constants (schedule blk)))"

definition sha_init :: sha_state where
  "sha_init =
     (1779033703, 3144134277, 1013904242, 2773480762,
      1359893119, 2600822924, 528734635, 1541459225)"

fun state_bytes :: "sha_state \<Rightarrow> string" where
  "state_bytes (a, b, c, d, e, f, g, h) = concat (map bytes_of_word [a, b, c, d, e, f, g, h])"

definition sha256 :: "string \<Rightarrow> string" where
  "sha256 s = state_bytes (foldl sha_block sha_init (chunks 64 (sha_pad s)))"

definition sha256_hex :: "string \<Rightarrow> string" where
  "sha256_hex s = hex_encode (sha256 s)"

lemma length_state_bytes: "length (state_bytes st) = 32"
  by (cases st rule: state_bytes.cases) (simp add: bytes_of_word_def)

lemma length_sha256_hex [simp]: "length (sha256_hex s) = 64"
  by (simp add: sha256_hex_def length_hex_encode sha256_def length_state_bytes)

lemma sha256_hex_lower: "list_all is_lower_hex (sha256_hex s)"
  by (simp add: sha256_hex_def hex_encode_lower)

text \<open>Equal digests of different texts are a collision of SHA-256 itself.\<close>

lemma sha256_hex_eq_iff: "sha256_hex s = sha256_hex t \<longleftrightarrow> sha256 s = sha256 t"
  by (simp add: sha256_hex_def hex_encode_inj)

end
