(* ===== verification/Enums.thy ===== *)
theory Enums
  imports Prelude
begin

text \<open>
  The closed string enums of \<open>src/internal/domain/records/enums.go\<close> and the origin
  vocabulary of \<open>fanout.go\<close>. A Go enum is a named string type, so any text can sit in
  a field of that type until a \<open>ParseX\<close> function has looked at it. Each enum is a
  datatype of the declared constants with its text \<open>X_str\<close>; \<open>ParseX\<close> maps a text to
  the constant or to the error \<open>UnknownX\<close>. Every parser meets the \<open>closed_enum\<close>
  contract: it accepts exactly the declared texts and loses nothing.
\<close>

datatype enum_error =
    UnknownOperation string
  | UnknownFileType string
  | UnknownDigestStatus string
  | UnknownClassification string
  | UnknownDisposition string
  | UnknownGenerationAction string
  | UnknownIntentState string
  | UnknownReceiptKind string
  | UnknownAcceptanceState string
  | UnknownExecutionState string
  | UnknownWorkStatus string
  | UnknownFailureCode string
  | UnknownAggregateOrigin string

section \<open>Operation\<close>

datatype Operation =
    OpCreate
  | OpModify
  | OpDelete

primrec Operation_str :: "Operation \<Rightarrow> string" where
  "Operation_str OpCreate = ''create''"
| "Operation_str OpModify = ''modify''"
| "Operation_str OpDelete = ''delete''"

definition ParseOperation :: "string \<Rightarrow> enum_error + Operation" where
  "ParseOperation s =
    (if s = ''create'' then Inr OpCreate
     else if s = ''modify'' then Inr OpModify
     else if s = ''delete'' then Inr OpDelete
     else Inl (UnknownOperation s))"

interpretation operation: closed_enum ParseOperation Operation_str
proof
  show "ParseOperation (Operation_str a) = Inr a" for a
    by (cases a) (simp_all add: ParseOperation_def)
  show "ParseOperation s = Inr a \<Longrightarrow> Operation_str a = s" for s a
    by (auto simp: ParseOperation_def split: if_splits)
qed

section \<open>FileType\<close>

datatype FileType =
    FileRegular
  | FileDirectory
  | FileSymlink
  | FileOther
  | FileUnknown

primrec FileType_str :: "FileType \<Rightarrow> string" where
  "FileType_str FileRegular = ''regular''"
| "FileType_str FileDirectory = ''directory''"
| "FileType_str FileSymlink = ''symlink''"
| "FileType_str FileOther = ''other''"
| "FileType_str FileUnknown = ''unknown''"

definition ParseFileType :: "string \<Rightarrow> enum_error + FileType" where
  "ParseFileType s =
    (if s = ''regular'' then Inr FileRegular
     else if s = ''directory'' then Inr FileDirectory
     else if s = ''symlink'' then Inr FileSymlink
     else if s = ''other'' then Inr FileOther
     else if s = ''unknown'' then Inr FileUnknown
     else Inl (UnknownFileType s))"

interpretation fileType: closed_enum ParseFileType FileType_str
proof
  show "ParseFileType (FileType_str a) = Inr a" for a
    by (cases a) (simp_all add: ParseFileType_def)
  show "ParseFileType s = Inr a \<Longrightarrow> FileType_str a = s" for s a
    by (auto simp: ParseFileType_def split: if_splits)
qed

section \<open>DigestStatus\<close>

datatype DigestStatus =
    DigestKnown
  | DigestUnavailable
  | DigestNotApplicable

primrec DigestStatus_str :: "DigestStatus \<Rightarrow> string" where
  "DigestStatus_str DigestKnown = ''known''"
| "DigestStatus_str DigestUnavailable = ''unavailable''"
| "DigestStatus_str DigestNotApplicable = ''not_applicable''"

definition ParseDigestStatus :: "string \<Rightarrow> enum_error + DigestStatus" where
  "ParseDigestStatus s =
    (if s = ''known'' then Inr DigestKnown
     else if s = ''unavailable'' then Inr DigestUnavailable
     else if s = ''not_applicable'' then Inr DigestNotApplicable
     else Inl (UnknownDigestStatus s))"

interpretation digestStatus: closed_enum ParseDigestStatus DigestStatus_str
proof
  show "ParseDigestStatus (DigestStatus_str a) = Inr a" for a
    by (cases a) (simp_all add: ParseDigestStatus_def)
  show "ParseDigestStatus s = Inr a \<Longrightarrow> DigestStatus_str a = s" for s a
    by (auto simp: ParseDigestStatus_def split: if_splits)
qed

section \<open>Classification\<close>

datatype Classification =
    ClassNormal
  | ClassProtected
  | ClassBulk
  | ClassOverflow
  | ClassMalformed
  | ClassStale
  | ClassUnknown

primrec Classification_str :: "Classification \<Rightarrow> string" where
  "Classification_str ClassNormal = ''normal''"
| "Classification_str ClassProtected = ''protected''"
| "Classification_str ClassBulk = ''bulk''"
| "Classification_str ClassOverflow = ''overflow''"
| "Classification_str ClassMalformed = ''malformed''"
| "Classification_str ClassStale = ''stale''"
| "Classification_str ClassUnknown = ''unknown''"

definition ParseClassification :: "string \<Rightarrow> enum_error + Classification" where
  "ParseClassification s =
    (if s = ''normal'' then Inr ClassNormal
     else if s = ''protected'' then Inr ClassProtected
     else if s = ''bulk'' then Inr ClassBulk
     else if s = ''overflow'' then Inr ClassOverflow
     else if s = ''malformed'' then Inr ClassMalformed
     else if s = ''stale'' then Inr ClassStale
     else if s = ''unknown'' then Inr ClassUnknown
     else Inl (UnknownClassification s))"

interpretation classification: closed_enum ParseClassification Classification_str
proof
  show "ParseClassification (Classification_str a) = Inr a" for a
    by (cases a) (simp_all add: ParseClassification_def)
  show "ParseClassification s = Inr a \<Longrightarrow> Classification_str a = s" for s a
    by (auto simp: ParseClassification_def split: if_splits)
qed

section \<open>Disposition\<close>

datatype Disposition =
    DispositionDrop
  | DispositionDispatch
  | DispositionMergePending
  | DispositionQuarantine
  | DispositionReconcile

primrec Disposition_str :: "Disposition \<Rightarrow> string" where
  "Disposition_str DispositionDrop = ''drop''"
| "Disposition_str DispositionDispatch = ''dispatch''"
| "Disposition_str DispositionMergePending = ''merge_pending''"
| "Disposition_str DispositionQuarantine = ''quarantine''"
| "Disposition_str DispositionReconcile = ''reconcile''"

definition ParseDisposition :: "string \<Rightarrow> enum_error + Disposition" where
  "ParseDisposition s =
    (if s = ''drop'' then Inr DispositionDrop
     else if s = ''dispatch'' then Inr DispositionDispatch
     else if s = ''merge_pending'' then Inr DispositionMergePending
     else if s = ''quarantine'' then Inr DispositionQuarantine
     else if s = ''reconcile'' then Inr DispositionReconcile
     else Inl (UnknownDisposition s))"

interpretation disposition: closed_enum ParseDisposition Disposition_str
proof
  show "ParseDisposition (Disposition_str a) = Inr a" for a
    by (cases a) (simp_all add: ParseDisposition_def)
  show "ParseDisposition s = Inr a \<Longrightarrow> Disposition_str a = s" for s a
    by (auto simp: ParseDisposition_def split: if_splits)
qed

section \<open>GenerationAction\<close>

datatype GenerationAction =
    GenNone
  | GenCreateIfIdle
  | GenIncrementDirty
  | GenMergeReconcile

primrec GenerationAction_str :: "GenerationAction \<Rightarrow> string" where
  "GenerationAction_str GenNone = ''none''"
| "GenerationAction_str GenCreateIfIdle = ''create_if_idle''"
| "GenerationAction_str GenIncrementDirty = ''increment_dirty''"
| "GenerationAction_str GenMergeReconcile = ''merge_reconcile''"

definition ParseGenerationAction :: "string \<Rightarrow> enum_error + GenerationAction" where
  "ParseGenerationAction s =
    (if s = ''none'' then Inr GenNone
     else if s = ''create_if_idle'' then Inr GenCreateIfIdle
     else if s = ''increment_dirty'' then Inr GenIncrementDirty
     else if s = ''merge_reconcile'' then Inr GenMergeReconcile
     else Inl (UnknownGenerationAction s))"

interpretation generationAction: closed_enum ParseGenerationAction GenerationAction_str
proof
  show "ParseGenerationAction (GenerationAction_str a) = Inr a" for a
    by (cases a) (simp_all add: ParseGenerationAction_def)
  show "ParseGenerationAction s = Inr a \<Longrightarrow> GenerationAction_str a = s" for s a
    by (auto simp: ParseGenerationAction_def split: if_splits)
qed

section \<open>IntentState\<close>

datatype IntentState =
    IntentReady
  | IntentSubmitting
  | IntentAccepted
  | IntentRejected
  | IntentUnknown
  | IntentRetryWait
  | IntentReconciling
  | IntentDeadLettered
  | IntentSuperseded
  | IntentCompleted
  | IntentFailed
  | IntentCanceled

primrec IntentState_str :: "IntentState \<Rightarrow> string" where
  "IntentState_str IntentReady = ''ready''"
| "IntentState_str IntentSubmitting = ''submitting''"
| "IntentState_str IntentAccepted = ''accepted''"
| "IntentState_str IntentRejected = ''rejected''"
| "IntentState_str IntentUnknown = ''unknown''"
| "IntentState_str IntentRetryWait = ''retry_wait''"
| "IntentState_str IntentReconciling = ''reconciling''"
| "IntentState_str IntentDeadLettered = ''dead_lettered''"
| "IntentState_str IntentSuperseded = ''superseded''"
| "IntentState_str IntentCompleted = ''completed''"
| "IntentState_str IntentFailed = ''failed''"
| "IntentState_str IntentCanceled = ''canceled''"

definition ParseIntentState :: "string \<Rightarrow> enum_error + IntentState" where
  "ParseIntentState s =
    (if s = ''ready'' then Inr IntentReady
     else if s = ''submitting'' then Inr IntentSubmitting
     else if s = ''accepted'' then Inr IntentAccepted
     else if s = ''rejected'' then Inr IntentRejected
     else if s = ''unknown'' then Inr IntentUnknown
     else if s = ''retry_wait'' then Inr IntentRetryWait
     else if s = ''reconciling'' then Inr IntentReconciling
     else if s = ''dead_lettered'' then Inr IntentDeadLettered
     else if s = ''superseded'' then Inr IntentSuperseded
     else if s = ''completed'' then Inr IntentCompleted
     else if s = ''failed'' then Inr IntentFailed
     else if s = ''canceled'' then Inr IntentCanceled
     else Inl (UnknownIntentState s))"

interpretation intentState: closed_enum ParseIntentState IntentState_str
proof
  show "ParseIntentState (IntentState_str a) = Inr a" for a
    by (cases a) (simp_all add: ParseIntentState_def)
  show "ParseIntentState s = Inr a \<Longrightarrow> IntentState_str a = s" for s a
    by (auto simp: ParseIntentState_def split: if_splits)
qed

section \<open>ReceiptKind\<close>

datatype ReceiptKind =
    ReceiptAcceptance
  | ReceiptExecutionProjection

primrec ReceiptKind_str :: "ReceiptKind \<Rightarrow> string" where
  "ReceiptKind_str ReceiptAcceptance = ''acceptance''"
| "ReceiptKind_str ReceiptExecutionProjection = ''execution_projection''"

definition ParseReceiptKind :: "string \<Rightarrow> enum_error + ReceiptKind" where
  "ParseReceiptKind s =
    (if s = ''acceptance'' then Inr ReceiptAcceptance
     else if s = ''execution_projection'' then Inr ReceiptExecutionProjection
     else Inl (UnknownReceiptKind s))"

interpretation receiptKind: closed_enum ParseReceiptKind ReceiptKind_str
proof
  show "ParseReceiptKind (ReceiptKind_str a) = Inr a" for a
    by (cases a) (simp_all add: ParseReceiptKind_def)
  show "ParseReceiptKind s = Inr a \<Longrightarrow> ReceiptKind_str a = s" for s a
    by (auto simp: ParseReceiptKind_def split: if_splits)
qed

section \<open>AcceptanceState\<close>

datatype AcceptanceState =
    AcceptanceAccepted
  | AcceptanceRejected
  | AcceptanceUnknown

primrec AcceptanceState_str :: "AcceptanceState \<Rightarrow> string" where
  "AcceptanceState_str AcceptanceAccepted = ''accepted''"
| "AcceptanceState_str AcceptanceRejected = ''rejected''"
| "AcceptanceState_str AcceptanceUnknown = ''unknown''"

definition ParseAcceptanceState :: "string \<Rightarrow> enum_error + AcceptanceState" where
  "ParseAcceptanceState s =
    (if s = ''accepted'' then Inr AcceptanceAccepted
     else if s = ''rejected'' then Inr AcceptanceRejected
     else if s = ''unknown'' then Inr AcceptanceUnknown
     else Inl (UnknownAcceptanceState s))"

interpretation acceptanceState: closed_enum ParseAcceptanceState AcceptanceState_str
proof
  show "ParseAcceptanceState (AcceptanceState_str a) = Inr a" for a
    by (cases a) (simp_all add: ParseAcceptanceState_def)
  show "ParseAcceptanceState s = Inr a \<Longrightarrow> AcceptanceState_str a = s" for s a
    by (auto simp: ParseAcceptanceState_def split: if_splits)
qed

section \<open>ExecutionState\<close>

datatype ExecutionState =
    ExecUnavailable
  | ExecQueued
  | ExecRunning
  | ExecSucceeded
  | ExecFailed
  | ExecCanceled

primrec ExecutionState_str :: "ExecutionState \<Rightarrow> string" where
  "ExecutionState_str ExecUnavailable = ''unavailable''"
| "ExecutionState_str ExecQueued = ''queued''"
| "ExecutionState_str ExecRunning = ''running''"
| "ExecutionState_str ExecSucceeded = ''succeeded''"
| "ExecutionState_str ExecFailed = ''failed''"
| "ExecutionState_str ExecCanceled = ''canceled''"

definition ParseExecutionState :: "string \<Rightarrow> enum_error + ExecutionState" where
  "ParseExecutionState s =
    (if s = ''unavailable'' then Inr ExecUnavailable
     else if s = ''queued'' then Inr ExecQueued
     else if s = ''running'' then Inr ExecRunning
     else if s = ''succeeded'' then Inr ExecSucceeded
     else if s = ''failed'' then Inr ExecFailed
     else if s = ''canceled'' then Inr ExecCanceled
     else Inl (UnknownExecutionState s))"

interpretation executionState: closed_enum ParseExecutionState ExecutionState_str
proof
  show "ParseExecutionState (ExecutionState_str a) = Inr a" for a
    by (cases a) (simp_all add: ParseExecutionState_def)
  show "ParseExecutionState s = Inr a \<Longrightarrow> ExecutionState_str a = s" for s a
    by (auto simp: ParseExecutionState_def split: if_splits)
qed

section \<open>WorkStatus\<close>

datatype WorkStatus =
    WorkBegan
  | WorkCompleted
  | WorkPartiallyComplete
  | WorkBlocked
  | WorkFailed

primrec WorkStatus_str :: "WorkStatus \<Rightarrow> string" where
  "WorkStatus_str WorkBegan = ''begun''"
| "WorkStatus_str WorkCompleted = ''completed''"
| "WorkStatus_str WorkPartiallyComplete = ''partially_completed''"
| "WorkStatus_str WorkBlocked = ''blocked''"
| "WorkStatus_str WorkFailed = ''failed''"

definition ParseWorkStatus :: "string \<Rightarrow> enum_error + WorkStatus" where
  "ParseWorkStatus s =
    (if s = ''begun'' then Inr WorkBegan
     else if s = ''completed'' then Inr WorkCompleted
     else if s = ''partially_completed'' then Inr WorkPartiallyComplete
     else if s = ''blocked'' then Inr WorkBlocked
     else if s = ''failed'' then Inr WorkFailed
     else Inl (UnknownWorkStatus s))"

interpretation workStatus: closed_enum ParseWorkStatus WorkStatus_str
proof
  show "ParseWorkStatus (WorkStatus_str a) = Inr a" for a
    by (cases a) (simp_all add: ParseWorkStatus_def)
  show "ParseWorkStatus s = Inr a \<Longrightarrow> WorkStatus_str a = s" for s a
    by (auto simp: ParseWorkStatus_def split: if_splits)
qed

section \<open>FailureCode\<close>

datatype FailureCode =
    FailAgentError
  | FailCanceled
  | FailTimeout
  | FailEnvironmentError

primrec FailureCode_str :: "FailureCode \<Rightarrow> string" where
  "FailureCode_str FailAgentError = ''agent_error''"
| "FailureCode_str FailCanceled = ''canceled''"
| "FailureCode_str FailTimeout = ''timeout''"
| "FailureCode_str FailEnvironmentError = ''environment_error''"

definition ParseFailureCode :: "string \<Rightarrow> enum_error + FailureCode" where
  "ParseFailureCode s =
    (if s = ''agent_error'' then Inr FailAgentError
     else if s = ''canceled'' then Inr FailCanceled
     else if s = ''timeout'' then Inr FailTimeout
     else if s = ''environment_error'' then Inr FailEnvironmentError
     else Inl (UnknownFailureCode s))"

interpretation failureCode: closed_enum ParseFailureCode FailureCode_str
proof
  show "ParseFailureCode (FailureCode_str a) = Inr a" for a
    by (cases a) (simp_all add: ParseFailureCode_def)
  show "ParseFailureCode s = Inr a \<Longrightarrow> FailureCode_str a = s" for s a
    by (auto simp: ParseFailureCode_def split: if_splits)
qed

section \<open>AggregateOrigin\<close>

datatype AggregateOrigin =
    OriginArrival
  | OriginFollowup
  | OriginRerun
  | OriginRebuild
  | OriginReconcile

primrec AggregateOrigin_str :: "AggregateOrigin \<Rightarrow> string" where
  "AggregateOrigin_str OriginArrival = ''arrival''"
| "AggregateOrigin_str OriginFollowup = ''followup''"
| "AggregateOrigin_str OriginRerun = ''rerun''"
| "AggregateOrigin_str OriginRebuild = ''rebuild''"
| "AggregateOrigin_str OriginReconcile = ''reconcile''"

definition ParseAggregateOrigin :: "string \<Rightarrow> enum_error + AggregateOrigin" where
  "ParseAggregateOrigin s =
    (if s = ''arrival'' then Inr OriginArrival
     else if s = ''followup'' then Inr OriginFollowup
     else if s = ''rerun'' then Inr OriginRerun
     else if s = ''rebuild'' then Inr OriginRebuild
     else if s = ''reconcile'' then Inr OriginReconcile
     else Inl (UnknownAggregateOrigin s))"

interpretation aggregateOrigin: closed_enum ParseAggregateOrigin AggregateOrigin_str
proof
  show "ParseAggregateOrigin (AggregateOrigin_str a) = Inr a" for a
    by (cases a) (simp_all add: ParseAggregateOrigin_def)
  show "ParseAggregateOrigin s = Inr a \<Longrightarrow> AggregateOrigin_str a = s" for s a
    by (auto simp: ParseAggregateOrigin_def split: if_splits)
qed

end
