(* ===== verification/Records.thy ===== *)
theory Records
  imports GoSha256 Enums "HOL-Library.Option_ord"
begin

text \<open>
  The value objects of \<open>src/internal/domain/records\<close>: digests and relative paths
  (\<open>digest.go\<close>), change items and source observations (\<open>change.go\<close>), destination
  selections and their canonical forms (\<open>fanout.go\<close>), and version triples
  (\<open>version.go\<close>). A struct is a record with the same fields; a field of a named
  string type stays a \<open>string\<close> until the code parses it. NFC normalisation and case
  folding come from \<open>golang.org/x/text\<close> and are arguments of the definition that
  uses them.
\<close>

datatype record_error =
    EnumError enum_error
  | InvalidDigest string
  | EmptyPath
  | PathNotUtf8 string
  | PathHasNul string
  | PathNotRelative string
  | PathBackslash string
  | PathEmptySegment string
  | PathDotSegment string string
  | ObservationIdShort
  | ResourceIdRequired
  | IdentityNotUtf8
  | SelectionIncomplete
  | SelectionNotUtf8
  | VersionNotThree string
  | VersionComponentBounds string nat
  | VersionComponentForm string string

section \<open>Digests\<close>

definition digest_prefix :: string where
  "digest_prefix = ''sha256:''"

definition ParseDigest :: "string \<Rightarrow> record_error + string" where
  "ParseDigest s =
     (if take 7 s = digest_prefix \<and> length s = 71 \<and> list_all is_lower_hex (drop 7 s)
      then Inr s else Inl (InvalidDigest s))"

definition SumDigest :: "string \<Rightarrow> string" where
  "SumDigest data = digest_prefix @ sha256_hex data"

text \<open>
  \<open>SumBounded\<close> reads from a stream: the bytes it delivers and then either the end or
  an error. The limit \<open>bound + 1\<close> (the source calls the bound \<open>max\<close>) wraps as an \<open>int64\<close>; \<open>io.LimitReader\<close> delivers
  nothing for a limit that is not positive and hides what comes after the limit.
\<close>

record 'e stream =
  st_data :: string
  st_err :: "'e option"

definition wrap_int64 :: "int \<Rightarrow> int" where
  "wrap_int64 i = (i + 2 ^ 63) mod 2 ^ 64 - 2 ^ 63"

definition SumBounded :: "'e stream \<Rightarrow> int \<Rightarrow> 'e option \<times> string \<times> int \<times> bool" where
  "SumBounded r bound =
     (let limit = nat (wrap_int64 (bound + 1));
          got = take limit (st_data r);
          n = int (length got);
          err = (if length (st_data r) < limit then st_err r else None)
      in if err \<noteq> None then (err, [], n, False)
         else if n > bound then (None, [], n, True)
         else (None, SumDigest got, n, False))"

lemma ParseDigest_Inr_iff:
  "ParseDigest s = Inr d \<longleftrightarrow>
     d = s \<and> (\<exists>h. s = digest_prefix @ h \<and> length h = 64 \<and> list_all is_lower_hex h)"
proof -
  have "take 7 s = digest_prefix \<and> length s = 71 \<and> list_all is_lower_hex (drop 7 s) \<longleftrightarrow>
    (\<exists>h. s = digest_prefix @ h \<and> length h = 64 \<and> list_all is_lower_hex h)"
    (is "?l \<longleftrightarrow> ?r")
  proof
    assume l: ?l
    then have "s = digest_prefix @ drop 7 s" by (metis append_take_drop_id)
    with l show ?r by (intro exI [of _ "drop 7 s"]) simp
  qed (auto simp: digest_prefix_def)
  then show ?thesis by (auto simp: ParseDigest_def)
qed

lemma ParseDigest_SumDigest: "ParseDigest (SumDigest data) = Inr (SumDigest data)"
  unfolding ParseDigest_Inr_iff
  by (simp add: SumDigest_def length_sha256_hex sha256_hex_lower)

lemma ParseDigest_id: "ParseDigest s = Inr d \<Longrightarrow> d = s"
  by (simp add: ParseDigest_Inr_iff)

lemma is_lower_hex_ascii: "is_lower_hex c \<Longrightarrow> byte c < 128"
  by (auto simp: is_lower_hex_def hex_digits_def byte_def)

lemma digest_ascii: "ParseDigest s = Inr d \<Longrightarrow> ascii_string s"
proof -
  assume "ParseDigest s = Inr d"
  then obtain h where h: "s = digest_prefix @ h" "list_all is_lower_hex h"
    by (auto simp: ParseDigest_Inr_iff)
  then have "list_all (\<lambda>c. byte c < 128) h"
    by (auto simp: list_all_iff is_lower_hex_ascii)
  with h(1) show ?thesis by (simp add: ascii_string_def digest_prefix_def byte_def)
qed

section \<open>Relative paths\<close>

fun check_segments :: "string \<Rightarrow> string list \<Rightarrow> record_error + unit" where
  "check_segments p [] = Inr ()"
| "check_segments p (seg # segs) =
    (if seg = [] then Inl (PathEmptySegment p)
     else if seg = ''.'' \<or> seg = ''..'' then Inl (PathDotSegment p seg)
     else check_segments p segs)"

definition NormalizePath :: "string \<Rightarrow> record_error + string" where
  "NormalizePath p =
     (if p = [] then Inl EmptyPath
      else if \<not> valid_utf8 p then Inl (PathNotUtf8 p)
      else if CHR 0x00 \<in> set p then Inl (PathHasNul p)
      else if hd p = CHR ''/'' then Inl (PathNotRelative p)
      else if CHR 0x5C \<in> set p then Inl (PathBackslash p)
      else bindE (check_segments p (split_on (CHR ''/'') p)) (\<lambda>_. Inr p))"

text \<open>The segments a normalised path may have.\<close>

definition plain_segment :: "string \<Rightarrow> bool" where
  "plain_segment w \<longleftrightarrow> w \<noteq> [] \<and> w \<noteq> ''.'' \<and> w \<noteq> ''..'' \<and> list_all (\<lambda>c. c \<notin> {CHR ''/'', CHR 0x5C, CHR 0x00}) w"

definition PortablePathIdentity :: "(string \<Rightarrow> string) \<Rightarrow> (string \<Rightarrow> string) \<Rightarrow> string \<Rightarrow> string" where
  "PortablePathIdentity nfc casefold p = casefold (nfc p)"

lemma check_segments_Inr_iff:
  "check_segments p segs = Inr u \<longleftrightarrow> (\<forall>w\<in>set segs. w \<noteq> [] \<and> w \<noteq> ''.'' \<and> w \<noteq> ''..'')"
  by (induction segs) auto

lemma NormalizePath_Inr_iff:
  "NormalizePath p = Inr q \<longleftrightarrow>
     q = p \<and> valid_utf8 p \<and> CHR 0x00 \<notin> set p \<and> CHR 0x5C \<notin> set p \<and>
     (\<forall>w\<in>set (split_on (CHR ''/'') p). w \<noteq> [] \<and> w \<noteq> ''.'' \<and> w \<noteq> ''..'')"
proof -
  have "\<not> (\<forall>w\<in>set (split_on (CHR ''/'') p). w \<noteq> [])" if "p = [] \<or> hd p = CHR ''/''"
    using that by (cases p) auto
  then show ?thesis
    by (auto simp: NormalizePath_def result_simps check_segments_Inr_iff)
qed

lemma NormalizePath_id: "NormalizePath p = Inr q \<Longrightarrow> q = p"
  by (simp add: NormalizePath_Inr_iff)

lemma set_join_with: "set (join_with [c] ws) \<subseteq> insert c (\<Union> (set ` set ws))"
  by (induction "[c]" ws rule: join_with.induct) auto

lemma set_split_on: "w \<in> set (split_on c s) \<Longrightarrow> set w \<subseteq> set s"
proof (induction s arbitrary: w)
  case (Cons a s)
  show ?case
  proof (cases "a = c")
    case False
    obtain x xs where "split_on c s = x # xs" by (cases "split_on c s") auto
    with False Cons show ?thesis by fastforce
  qed (use Cons in auto)
qed simp

lemma NormalizePath_segments:
  "NormalizePath p = Inr q \<longleftrightarrow>
     q = p \<and> valid_utf8 p \<and> (\<exists>segs. segs \<noteq> [] \<and> list_all plain_segment segs \<and> p = join_with ''/'' segs)"
  (is "?l \<longleftrightarrow> ?r")
proof
  assume ?l
  then have n: "q = p" "valid_utf8 p" "CHR 0x00 \<notin> set p" "CHR 0x5C \<notin> set p"
    and w: "\<forall>w\<in>set (split_on (CHR ''/'') p). w \<noteq> [] \<and> w \<noteq> ''.'' \<and> w \<noteq> ''..''"
    by (simp_all add: NormalizePath_Inr_iff)
  have "list_all plain_segment (split_on (CHR ''/'') p)"
    using w n(3,4) set_split_on [of _ "CHR ''/''" p] split_on_no_sep [of _ "CHR ''/''" p]
    by (fastforce simp: plain_segment_def list_all_iff)
  with n(1,2) show ?r by (metis join_split split_on_not_Nil)
next
  assume ?r
  then obtain segs where s: "q = p" "valid_utf8 p" "segs \<noteq> []" "list_all plain_segment segs"
    "p = join_with ''/'' segs" by blast
  then have "split_on (CHR ''/'') p = segs"
    by (auto intro!: split_join simp: plain_segment_def list_all_iff)
  moreover have "CHR 0x00 \<notin> set p" "CHR 0x5C \<notin> set p"
    using s(4) set_join_with [of "CHR ''/''" segs] by (auto simp: s(5) plain_segment_def list_all_iff)
  ultimately show ?l using s(1,2,4) by (auto simp: NormalizePath_Inr_iff plain_segment_def list_all_iff)
qed

section \<open>Change items\<close>

record ChangeItem =
  ci_path :: string
  ci_ordinal :: int
  ci_operation :: string
  ci_exists_after :: bool
  ci_file_type :: string
  ci_before_digest :: string
  ci_after_digest :: string
  ci_digest_status :: string

definition optional_digest :: "string \<Rightarrow> record_error + unit" where
  "optional_digest d = (if d \<noteq> [] then bindE (ParseDigest d) (\<lambda>_. Inr ()) else Inr ())"

definition ChangeItem_Validate :: "ChangeItem \<Rightarrow> record_error + unit" where
  "ChangeItem_Validate c =
     bindE (map_err EnumError (ParseOperation (ci_operation c))) (\<lambda>_.
     bindE (map_err EnumError (ParseFileType (ci_file_type c))) (\<lambda>_.
     bindE (map_err EnumError (ParseDigestStatus (ci_digest_status c))) (\<lambda>_.
     bindE (NormalizePath (ci_path c)) (\<lambda>_.
     bindE (optional_digest (ci_before_digest c)) (\<lambda>_.
     optional_digest (ci_after_digest c))))))"

definition OperationRank :: "string \<Rightarrow> int" where
  "OperationRank op =
     (if op = Operation_str OpDelete then 0 else if op = Operation_str OpCreate then 1 else 2)"

definition change_lt :: "ChangeItem \<Rightarrow> ChangeItem \<Rightarrow> bool" where
  "change_lt a b =
     (if ci_path a \<noteq> ci_path b then ci_path a < ci_path b
      else let pa = OperationRank (ci_operation a); pb = OperationRank (ci_operation b)
           in if pa \<noteq> pb then pa < pb else ci_ordinal a < ci_ordinal b)"

definition SortChanges :: "ChangeItem list \<Rightarrow> ChangeItem list" where
  "SortChanges cs = sort_by change_lt cs"

definition change_key :: "ChangeItem \<Rightarrow> string \<times> int \<times> int" where
  "change_key c = (ci_path c, OperationRank (ci_operation c), ci_ordinal c)"

interpretation change_order: key_order change_lt change_key
  by unfold_locales (auto simp: change_lt_def change_key_def Let_def less_prod_def)

lemma ChangeItem_Validate_Inr_iff:
  "ChangeItem_Validate c = Inr u \<longleftrightarrow>
     (\<exists>op. ci_operation c = Operation_str op) \<and> (\<exists>ft. ci_file_type c = FileType_str ft) \<and>
     (\<exists>ds. ci_digest_status c = DigestStatus_str ds) \<and> is_ok (NormalizePath (ci_path c)) \<and>
     (\<forall>d\<in>{ci_before_digest c, ci_after_digest c}. d = [] \<or> is_ok (ParseDigest d))"
  by (auto simp: ChangeItem_Validate_def optional_digest_def result_simps operation.parse_iff
      fileType.parse_iff digestStatus.parse_iff is_ok_iff)

section \<open>Source observations\<close>

record SourceFlags =
  sf_overflow :: bool
  sf_fresh_instance :: bool
  sf_relative_root :: string
  sf_has_relative :: bool

record SourceObservation =
  so_schema_version :: string
  so_observation_id :: string
  so_source_type :: string
  so_source_id :: string
  so_source_event_key :: string
  so_trigger_name :: string
  so_resource_id :: string
  so_observed_at :: string
  so_received_at :: string
  so_raw_payload_digest :: string
  so_ingest_status :: string
  so_flags :: SourceFlags
  so_changes :: "ChangeItem list"

definition SourceObservation_Validate :: "SourceObservation \<Rightarrow> record_error + unit" where
  "SourceObservation_Validate ob =
     (if so_observation_id ob = [] \<or> length (so_observation_id ob) < 16 then Inl ObservationIdShort
      else if so_resource_id ob = [] then Inl ResourceIdRequired
      else if \<not> valid_utf8 (so_observation_id ob) \<or> \<not> valid_utf8 (so_resource_id ob)
        then Inl IdentityNotUtf8
      else bindE (optional_digest (so_raw_payload_digest ob)) (\<lambda>_.
           bindE (mapE ChangeItem_Validate (so_changes ob)) (\<lambda>_. Inr ())))"

section \<open>Destination selections\<close>

record DestinationSelection =
  ds_destination_id :: string
  ds_destination_revision :: string
  ds_workstream :: string
  ds_reason :: string

definition DestinationSelection_Validate :: "DestinationSelection \<Rightarrow> record_error + unit" where
  "DestinationSelection_Validate s =
     (if ds_destination_id s = [] \<or> ds_destination_revision s = [] \<or> ds_workstream s = [] \<or> ds_reason s = []
      then Inl SelectionIncomplete
      else if \<not> list_all valid_utf8 [ds_destination_id s, ds_destination_revision s, ds_workstream s, ds_reason s]
      then Inl SelectionNotUtf8
      else Inr ())"

definition RevisionOfProjection :: "string \<Rightarrow> string" where
  "RevisionOfProjection projection = ''dst-'' @ sha256_hex projection"

fun distinct_nonempty :: "string set \<Rightarrow> string list \<Rightarrow> string list" where
  "distinct_nonempty seen [] = []"
| "distinct_nonempty seen (dest # ds) =
    (if dest = [] \<or> dest \<in> seen then distinct_nonempty seen ds
     else dest # distinct_nonempty (insert dest seen) ds)"

definition CanonicalDestinations :: "string list \<Rightarrow> string list" where
  "CanonicalDestinations ds = sort (distinct_nonempty {} ds)"

definition selection_lt :: "DestinationSelection \<Rightarrow> DestinationSelection \<Rightarrow> bool" where
  "selection_lt a b =
     (if ds_destination_id a \<noteq> ds_destination_id b then ds_destination_id a < ds_destination_id b
      else ds_workstream a < ds_workstream b)"

definition SortSelections :: "DestinationSelection list \<Rightarrow> DestinationSelection list" where
  "SortSelections ss = sort_by selection_lt ss"

interpretation selection_order: key_order selection_lt "\<lambda>s. (ds_destination_id s, ds_workstream s)"
  by unfold_locales (auto simp: selection_lt_def less_prod_def)

lemma distinct_nonempty_set: "set (distinct_nonempty seen ds) = set ds - insert [] seen"
  by (induction seen ds rule: distinct_nonempty.induct) auto

lemma distinct_nonempty_distinct: "distinct (distinct_nonempty seen ds)"
  by (induction seen ds rule: distinct_nonempty.induct) (auto simp: distinct_nonempty_set)

lemma CanonicalDestinations_sorted_set: "CanonicalDestinations ds = sorted_list_of_set (set ds - {[]})"
  using sorted_list_of_set_sort_remdups [of "distinct_nonempty {} ds"]
  by (simp add: CanonicalDestinations_def distinct_nonempty_set distinct_nonempty_distinct distinct_remdups_id)

section \<open>Version triples\<close>

datatype VersionTriple = VersionTriple (Major: int) (Minor: int) (Patch: int)

definition VersionTriple_Less :: "VersionTriple \<Rightarrow> VersionTriple \<Rightarrow> bool" where
  "VersionTriple_Less v w =
     (if Major v \<noteq> Major w then Major v < Major w
      else if Minor v \<noteq> Minor w then Minor v < Minor w
      else Patch v < Patch w)"

instantiation VersionTriple :: linorder
begin

definition less_VersionTriple :: "VersionTriple \<Rightarrow> VersionTriple \<Rightarrow> bool" where
  "less_VersionTriple v w \<longleftrightarrow> VersionTriple_Less v w"

definition less_eq_VersionTriple :: "VersionTriple \<Rightarrow> VersionTriple \<Rightarrow> bool" where
  "less_eq_VersionTriple v w \<longleftrightarrow> VersionTriple_Less v w \<or> v = w"

instance
  by standard
    (auto simp: less_VersionTriple_def less_eq_VersionTriple_def VersionTriple_Less_def
      intro: VersionTriple.expand split: if_splits)

end

definition VersionTriple_String :: "VersionTriple \<Rightarrow> string" where
  "VersionTriple_String v = show_int (Major v) @ ''.'' @ show_int (Minor v) @ ''.'' @ show_int (Patch v)"

definition version_component :: "string \<Rightarrow> nat \<Rightarrow> string \<Rightarrow> record_error + int" where
  "version_component text i part =
     (if part = [] \<or> length part > 9 then Inl (VersionComponentBounds text (i + 1))
      else case atoi part of
        None \<Rightarrow> Inl (VersionComponentForm text part)
      | Some n \<Rightarrow> if length part > 1 \<and> hd part = CHR ''0'' then Inl (VersionComponentForm text part) else Inr n)"

definition ParseVersionTriple :: "string \<Rightarrow> record_error + VersionTriple" where
  "ParseVersionTriple text =
     (case split_on (CHR ''.'') text of
        [a, b, c] \<Rightarrow>
          bindE (version_component text 0 a) (\<lambda>x.
          bindE (version_component text 1 b) (\<lambda>y.
          bindE (version_component text 2 c) (\<lambda>z. Inr (VersionTriple x y z))))
      | _ \<Rightarrow> Inl (VersionNotThree text))"

lemma length_show_nat: "n < 10 ^ k \<Longrightarrow> 0 < k \<Longrightarrow> length (show_nat n) \<le> k"
proof (induction n arbitrary: k rule: show_nat.induct)
  case (1 n)
  show ?case
  proof (cases "n < 10")
    case False
    with 1(2,3) obtain j where k: "k = Suc j" "0 < j" by (cases k; cases "k - 1") auto
    with 1(2) have "n div 10 < 10 ^ j" by simp
    with 1(1) [OF False this] k show ?thesis using False by (subst show_nat.simps) simp
  qed (use 1(3) in \<open>simp add: show_nat.simps\<close>)
qed

lemma show_nat_leading: "1 < length (show_nat n) \<Longrightarrow> hd (show_nat n) \<noteq> CHR ''0''"
  by (cases "n = 0") (simp_all add: hd_show_nat_not_zero show_nat.simps [of 0])

lemma version_component_show:
  "n < 10 ^ 9 \<Longrightarrow> version_component text i (show_nat n) = Inr (int n)"
  using length_show_nat [of n 9] show_nat_leading [of n]
  by (auto simp: version_component_def atoi_show_nat)

lemma digits_no_dot: "list_all is_digit w \<Longrightarrow> CHR ''.'' \<notin> set w"
  using sign_not_digit(3) by (auto simp: list_all_iff)

lemma ParseVersionTriple_String:
  assumes "0 \<le> Major v" "Major v < 10 ^ 9" "0 \<le> Minor v" "Minor v < 10 ^ 9"
    "0 \<le> Patch v" "Patch v < 10 ^ 9"
  shows "ParseVersionTriple (VersionTriple_String v) = Inr v"
proof -
  obtain a b c where v: "v = VersionTriple (int a) (int b) (int c)"
    using assms by (cases v) (auto dest!: zero_le_imp_eq_int)
  have "split_on (CHR ''.'') (VersionTriple_String v) = [show_nat a, show_nat b, show_nat c]"
    by (simp add: VersionTriple_String_def v show_int_def split_on_append split_on_single
        digits_no_dot show_nat_digits)
  with assms show ?thesis
    by (simp add: ParseVersionTriple_def v version_component_show)
qed

section \<open>Properties\<close>

text \<open>\<open>NormalizePath\<close> accepts exactly the slash-joined lists of plain segments in valid
  UTF-8, and returns the path it was given.\<close>

theorem NormalizePath_accepts_plain_segments:
  "NormalizePath p = Inr q \<longleftrightarrow>
     q = p \<and> valid_utf8 p \<and> (\<exists>segs. segs \<noteq> [] \<and> list_all plain_segment segs \<and> p = join_with ''/'' segs)"
  by (rule NormalizePath_segments)

text \<open>\<open>SumBounded\<close> reads at most one byte past its bound. It hashes a stream of at most
  \<open>bound\<close> bytes completely and reports every longer one as over without a digest.\<close>

theorem SumBounded_is_bounded:
  assumes "0 \<le> bound" and "bound < 2 ^ 63 - 1" and "SumBounded r bound = (err, d, n, over)"
  shows "0 \<le> n \<and> n \<le> bound + 1 \<and>
    (over = (int (length (st_data r)) > bound)) \<and>
    (if over then err = None \<and> d = [] \<and> n = bound + 1
     else n = int (length (st_data r)) \<and> err = st_err r \<and> d = (if err = None then SumDigest (st_data r) else []))"
proof -
  have "wrap_int64 (bound + 1) = bound + 1"
    using assms(1,2) by (simp add: wrap_int64_def mod_pos_pos_trivial)
  with assms show ?thesis
    by (auto simp: SumBounded_def Let_def min_def nat_le_iff split: if_splits)
qed

theorem SumBounded_is_bounded_witness:
  "(int (length ''abcd'') > 3) = True \<and> SumBounded \<lparr>st_data = ''abcd'', st_err = Some ()\<rparr> 3 = (None, [], 4, True)"
proof -
  have "SumBounded \<lparr>st_data = ''abcd'', st_err = Some ()\<rparr> 3 = (None, [], 4, True)"
    by (simp add: SumBounded_def wrap_int64_def)
  from SumBounded_is_bounded [OF _ _ this] this show ?thesis by simp
qed

text \<open>\<open>SortChanges\<close> permutes its input into the canonical order of path bytes, operation
  rank and ordinal, and keeps changes with equal keys in their given order.\<close>

theorem SortChanges_canonical:
  "mset (SortChanges cs) = mset cs \<and>
   sorted (map (\<lambda>c. (ci_path c, OperationRank (ci_operation c), ci_ordinal c)) (SortChanges cs)) \<and>
   filter (\<lambda>c. change_key c = k) (SortChanges cs) = filter (\<lambda>c. change_key c = k) cs"
  using change_order.sorted_by_key [of cs] change_order.stable [of k cs]
  by (simp add: SortChanges_def change_key_def [abs_def])

text \<open>the canonical form of a destination list is the sorted list of its non-empty members,
  so it depends on the set of destinations only.\<close>

theorem CanonicalDestinations_depends_on_set:
  assumes "set ds - {[]} = set es - {[]}"
  shows "CanonicalDestinations ds = CanonicalDestinations es \<and>
    sorted (CanonicalDestinations ds) \<and> distinct (CanonicalDestinations ds) \<and>
    set (CanonicalDestinations ds) = set ds - {[]}"
  using assms by (simp add: CanonicalDestinations_sorted_set)

theorem CanonicalDestinations_depends_on_set_witness:
  "CanonicalDestinations [''b'', [], ''a'', ''b''] = CanonicalDestinations [''a'', ''b'']"
  using CanonicalDestinations_depends_on_set [of "[''b'', [], ''a'', ''b'']" "[''a'', ''b'']"] by auto

text \<open>the dotted text of a version triple with components below 10^9 parses back to it.\<close>

theorem version_round_trip:
  assumes "v \<in> {VersionTriple a b c | a b c. {a, b, c} \<subseteq> {0..<10 ^ 9}}"
  shows "ParseVersionTriple (VersionTriple_String v) = Inr v"
  using assms by (auto intro!: ParseVersionTriple_String)

theorem version_round_trip_witness:
  "ParseVersionTriple (VersionTriple_String (VersionTriple 1 20 0)) = Inr (VersionTriple 1 20 0)"
  by (rule version_round_trip) simp

text \<open>the parser's comment rules out a sign, but the component test lets one through: a
  signed text parses, and the value it parses to is written differently.\<close>

theorem version_parser_accepts_sign:
  "ParseVersionTriple ''+1.-2.3'' = Inr (VersionTriple 1 (- 2) 3) \<and>
   VersionTriple_String (VersionTriple 1 (- 2) 3) \<noteq> ''+1.-2.3''"
  by code_simp

end
