(* ===== verification/Fingerprint.thy ===== *)
theory Fingerprint
  imports GoJson Records
begin

text \<open>
  Content fingerprints and child idempotency keys
  (\<open>src/internal/domain/fingerprint/fingerprint.go\<close>, with the projections of
  \<open>change.go\<close> and \<open>fanout.go\<close>). A projection is built as the JSON value the struct
  tags describe, encoded without HTML escaping and passed through
  \<open>unescapeLineSeparators\<close>. The lemmas show that the result is the RFC 8785 text of the projection, and
  that the text determines the projection, so two inputs share a key only by a SHA-256
  collision of their two texts.
\<close>

datatype fingerprint_error =
    FpResourceIdRequired
  | FpNotUtf8
  | FpChange nat record_error
  | FpChangeOperation nat string
  | GenerationTooSmall
  | GenerationTooLarge
  | IdemFieldEmpty
  | IdemNotUtf8
  | IdemContentFingerprint record_error

section \<open>Canonical JSON\<close>

function unescapeLineSeparators :: "string \<Rightarrow> string" where
  "unescapeLineSeparators [] = []"
| "unescapeLineSeparators (c # s) =
    (if c = bs \<and> s \<noteq> [] \<and> hd s = bs then c # hd s # unescapeLineSeparators (tl s)
     else if c = bs \<and> take 5 s = ''u2028'' then line_sep @ unescapeLineSeparators (drop 5 s)
     else if c = bs \<and> take 5 s = ''u2029'' then para_sep @ unescapeLineSeparators (drop 5 s)
     else c # unescapeLineSeparators s)"
  by pat_completeness auto
termination
  by (relation "measure length") auto

definition trim_newlines :: "string \<Rightarrow> string" where
  "trim_newlines s = rev (dropWhile (\<lambda>c. c = CHR 0x0A) (rev s))"

definition canonicalJSON :: "json \<Rightarrow> string" where
  "canonicalJSON v = unescapeLineSeparators (trim_newlines (render False v @ [CHR 0x0A]))"

section \<open>The content fingerprint\<close>

record FingerprintChange =
  fc_after_digest :: string
  fc_before_digest :: string
  fc_exists_after :: bool
  fc_operation :: string
  fc_path :: string

record ContentFingerprintInput =
  fi_changes :: "FingerprintChange list"
  fi_resource_id :: string
  fi_fresh :: bool
  fi_has_relative :: bool
  fi_overflow :: bool
  fi_relative_root :: string

definition fingerprint_change_json :: "FingerprintChange \<Rightarrow> json" where
  "fingerprint_change_json c =
     JObj [(''after_digest'', JStr (fc_after_digest c)), (''before_digest'', JStr (fc_before_digest c)),
           (''exists_after'', JBool (fc_exists_after c)), (''operation'', JStr (fc_operation c)),
           (''path'', JStr (fc_path c))]"

definition content_input_json :: "ContentFingerprintInput \<Rightarrow> json" where
  "content_input_json i =
     JObj [(''changes'', JArr (map fingerprint_change_json (fi_changes i))),
           (''resource_id'', JStr (fi_resource_id i)),
           (''source_flags_fresh_instance'', JBool (fi_fresh i)),
           (''source_flags_has_relative_root'', JBool (fi_has_relative i)),
           (''source_flags_overflow'', JBool (fi_overflow i)),
           (''source_flags_relative_root'', JStr (fi_relative_root i))]"

definition fp_change_lt :: "FingerprintChange \<Rightarrow> FingerprintChange \<Rightarrow> bool" where
  "fp_change_lt a b =
     (if fc_path a \<noteq> fc_path b then fc_path a < fc_path b
      else if OperationRank (fc_operation a) \<noteq> OperationRank (fc_operation b)
        then OperationRank (fc_operation a) < OperationRank (fc_operation b)
      else if fc_before_digest a \<noteq> fc_before_digest b then fc_before_digest a < fc_before_digest b
      else if fc_after_digest a \<noteq> fc_after_digest b then fc_after_digest a < fc_after_digest b
      else \<not> fc_exists_after a \<and> fc_exists_after b)"

fun check_digests :: "nat \<Rightarrow> string list \<Rightarrow> fingerprint_error + unit" where
  "check_digests i [] = Inr ()"
| "check_digests i (d # ds) =
    (if d = [] then check_digests i ds
     else bindE (map_err (FpChange i) (ParseDigest d)) (\<lambda>_. check_digests i ds))"

fun check_changes :: "nat \<Rightarrow> FingerprintChange list \<Rightarrow> fingerprint_error + unit" where
  "check_changes i [] = Inr ()"
| "check_changes i (c # cs) =
    bindE (map_err (FpChange i) (NormalizePath (fc_path c))) (\<lambda>_.
    if fc_operation c \<noteq> ''create'' \<and> fc_operation c \<noteq> ''modify'' \<and> fc_operation c \<noteq> ''delete''
    then Inl (FpChangeOperation i (fc_operation c))
    else bindE (check_digests i [fc_before_digest c, fc_after_digest c]) (\<lambda>_. check_changes (i + 1) cs))"

definition validateContentInput :: "ContentFingerprintInput \<Rightarrow> fingerprint_error + unit" where
  "validateContentInput i =
     (if fi_resource_id i = [] then Inl FpResourceIdRequired
      else if \<not> valid_utf8 (fi_resource_id i) \<or> \<not> valid_utf8 (fi_relative_root i) then Inl FpNotUtf8
      else check_changes 0 (fi_changes i))"

definition sorted_input :: "ContentFingerprintInput \<Rightarrow> ContentFingerprintInput" where
  "sorted_input i = i\<lparr>fi_changes := sort_by fp_change_lt (fi_changes i)\<rparr>"

definition Content :: "ContentFingerprintInput \<Rightarrow> fingerprint_error + string" where
  "Content i =
     bindE (validateContentInput i) (\<lambda>_.
       Inr (''sha256:'' @ sha256_hex (canonicalJSON (content_input_json (sorted_input i)))))"

section \<open>The child idempotency key\<close>

record ChildIdempotencyKeyInput =
  ck_content_fingerprint :: string
  ck_destination_id :: string
  ck_destination_revision :: string
  ck_generation :: int
  ck_request_version :: string
  ck_route_id :: string
  ck_route_revision :: string
  ck_target_scope :: string
  ck_workstream :: string

definition child_key_json :: "ChildIdempotencyKeyInput \<Rightarrow> json" where
  "child_key_json i =
     JObj [(''content_fingerprint'', JStr (ck_content_fingerprint i)),
           (''destination_id'', JStr (ck_destination_id i)),
           (''destination_revision'', JStr (ck_destination_revision i)),
           (''generation'', JInt (ck_generation i)),
           (''request_contract_version'', JStr (ck_request_version i)),
           (''route_id'', JStr (ck_route_id i)),
           (''route_revision'', JStr (ck_route_revision i)),
           (''target_scope'', JStr (ck_target_scope i)),
           (''workstream'', JStr (ck_workstream i))]"

fun check_members :: "string list \<Rightarrow> fingerprint_error + unit" where
  "check_members [] = Inr ()"
| "check_members (s # ss) =
    (if s = [] then Inl IdemFieldEmpty
     else if \<not> valid_utf8 s then Inl IdemNotUtf8
     else check_members ss)"

definition child_key_prefix :: string where
  "child_key_prefix = ''agent-dispatch:v2:sha256:''"

definition ChildIdempotency :: "ChildIdempotencyKeyInput \<Rightarrow> fingerprint_error + string" where
  "ChildIdempotency i =
     (if ck_generation i < 1 then Inl GenerationTooSmall
      else if ck_generation i \<ge> 2 ^ 53 then Inl GenerationTooLarge
      else bindE (check_members [ck_route_id i, ck_route_revision i, ck_destination_id i,
             ck_destination_revision i, ck_workstream i, ck_request_version i]) (\<lambda>_.
           if \<not> valid_utf8 (ck_target_scope i) then Inl IdemNotUtf8
           else bindE (map_err IdemContentFingerprint (ParseDigest (ck_content_fingerprint i))) (\<lambda>_.
             Inr (child_key_prefix @ sha256_hex (canonicalJSON (child_key_json i))))))"

section \<open>The encoder's output is the RFC 8785 text\<close>

abbreviation unls :: "string \<Rightarrow> string" where
  "unls \<equiv> unescapeLineSeparators"

lemma unls_plain: "bs \<notin> set w \<Longrightarrow> unls (w @ t) = w @ unls t"
  by (induction w) auto

lemma unls_plain_Cons: "c \<noteq> bs \<Longrightarrow> unls (c # t) = c # unls t"
  by simp

lemma unls_escaped: "c \<noteq> bs \<Longrightarrow> c \<noteq> CHR ''u'' \<Longrightarrow> unls (bs # c # t) = bs # c # unls t"
  by simp

lemma unls_escaped_bs: "unls (bs # bs # t) = bs # bs # unls t"
  by simp

lemma unls_seps:
  "unls (bs # CHR ''u'' # CHR ''2'' # CHR ''0'' # CHR ''2'' # CHR ''8'' # t) = line_sep @ unls t"
  "unls (bs # CHR ''u'' # CHR ''2'' # CHR ''0'' # CHR ''2'' # CHR ''9'' # t) = para_sep @ unls t"
  by (simp_all add: bs_def)

lemma unls_u00: "unls (bs # CHR ''u'' # CHR ''0'' # t) = bs # CHR ''u'' # CHR ''0'' # unls t"
  by (simp add: bs_def)

declare unescapeLineSeparators.simps(2) [simp del]

lemma unls_syntax [simp]:
  "unls (CHR '','' # t) = CHR '','' # unls t" "unls (CHR '':'' # t) = CHR '':'' # unls t"
  "unls (CHR ''{'' # t) = CHR ''{'' # unls t" "unls (CHR ''}'' # t) = CHR ''}'' # unls t"
  "unls (CHR ''['' # t) = CHR ''['' # unls t" "unls (CHR '']'' # t) = CHR '']'' # unls t"
  "unls (dq # t) = dq # unls t"
  by (simp_all add: unls_plain_Cons bs_def dq_def)

lemma bs_code: "byte bs = 92"
  by (simp add: bs_def byte_def)

lemma hex_digit_not_bs: "n < 16 \<Longrightarrow> hex_digits ! n \<noteq> bs"
  by (drule nat_less_16_cases) (auto simp: hex_digits_def bs_def)

lemma esc_byte_short:
  assumes "c \<in> {dq, CHR 0x08, CHR 0x0C, CHR 0x0A, CHR 0x0D, CHR 0x09}"
  shows "\<exists>x. esc_byte False c = [bs, x] \<and> x \<noteq> bs \<and> x \<noteq> CHR ''u''"
  using assms by (elim insertE emptyE) (simp_all add: esc_byte_def bs_def dq_def)

lemma esc_byte_cases:
  "c = bs \<or> c \<in> {dq, CHR 0x08, CHR 0x0C, CHR 0x0A, CHR 0x0D, CHR 0x09} \<or>
   esc_byte False c = [bs, CHR ''u'', CHR ''0'', CHR ''0''] @ hex_byte (byte c) \<or>
   esc_byte False c = [c] \<and> c \<noteq> bs"
  unfolding esc_byte_def by simp

lemma unls_esc_byte: "unls (esc_byte False c @ t) = esc_byte False c @ unls t"
proof -
  have "byte c div 16 < 16" "byte c mod 16 < 16" by (simp_all add: less_mult_imp_div_less)
  then have h: "hex_digits ! (byte c div 16) \<noteq> bs" "hex_digits ! (byte c mod 16) \<noteq> bs"
    by (simp_all add: hex_digit_not_bs)
  consider (slash) "c = bs" | (short) "c \<in> {dq, CHR 0x08, CHR 0x0C, CHR 0x0A, CHR 0x0D, CHR 0x09}"
    | (ctrl) "esc_byte False c = [bs, CHR ''u'', CHR ''0'', CHR ''0''] @ hex_byte (byte c)"
    | (plain) "esc_byte False c = [c]" "c \<noteq> bs"
    using esc_byte_cases [of c] by blast
  then show ?thesis
  proof cases
    case slash
    have "esc_byte False bs = [bs, bs]" by (simp add: esc_byte_def)
    then show ?thesis by (simp add: slash unls_escaped_bs)
  next
    case short
    from esc_byte_short [OF short] show ?thesis by (auto simp: unls_escaped)
  next
    case ctrl
    have "CHR ''0'' \<noteq> bs" by (simp add: bs_def)
    with ctrl h show ?thesis by (simp add: hex_byte_def unls_u00 unls_plain_Cons)
  next
    case plain
    then show ?thesis by (simp add: unls_plain_Cons)
  qed
qed

lemma high_bytes_plain: "list_all (\<lambda>c. 128 \<le> byte c) r \<Longrightarrow> concat (map (esc_byte False) r) = r \<and> bs \<notin> set r"
proof (induction r)
  case (Cons c r)
  then have "128 \<le> byte c" by simp
  then have "esc_byte False c = [c]" "c \<noteq> bs"
    by (auto simp: esc_byte_def bs_def dq_def byte_def)
  with Cons show ?case by simp
qed simp

text \<open>A rune of more than one byte has no byte below 128.\<close>

lemma rune_bytes_high:
  assumes "1 < rune_size s"
  shows "list_all (\<lambda>c. 128 \<le> byte c) (take (rune_size s) s)"
proof -
  obtain a u where s: "s = a # u" using assms by (cases s) auto
  let ?n = "lead_len (byte a)"
  have n: "rune_size s = ?n" "?n \<le> length s" "tail_ok (byte a) (take (?n - 1) u)" "1 < ?n"
    using assms by (auto simp: s rune_size.simps Let_def split: if_splits)
  have a: "128 \<le> byte a" using n(4) by (auto simp: lead_len_def split: if_splits)
  have "take ?n s = a # take (?n - 1) u" using n(4) by (cases ?n) (simp_all add: s)
  moreover have "list_all (\<lambda>c. 128 \<le> byte c) (take (?n - 1) u)"
    using n(3) by (cases "take (?n - 1) u")
      (auto simp: tail_ok_def second_ok_def list_all_iff cont_def split: if_splits)
  ultimately show ?thesis using a n(1) by simp
qed

lemma unls_esc_rune:
  assumes "rune_size s \<noteq> 0"
  shows "unls (esc_rune False (take (rune_size s) s) @ t) = canon_chars (take (rune_size s) s) @ unls t"
proof (cases "rune_size s = 1")
  case True
  then obtain a u where s: "s = a # u" by (cases s) auto
  with True have "byte a < 128"
    by (auto simp: rune_size.simps Let_def lead_len_def split: if_splits)
  with True s show ?thesis by (simp add: esc_rune_def canon_chars_def unls_esc_byte)
next
  case False
  with assms have g: "1 < rune_size s" by simp
  let ?r = "take (rune_size s) s"
  have l: "1 < length ?r" using g rune_size_le_length [of s] by simp
  then obtain a b u where r: "?r = a # b # u" by (cases ?r; cases "tl ?r") auto
  from high_bytes_plain [OF rune_bytes_high [OF g]] have p: "canon_chars ?r = ?r" "bs \<notin> set ?r"
    by (simp_all add: canon_chars_def)
  have "esc_rune False ?r = (if ?r = line_sep then bs # ''u2028'' else if ?r = para_sep then bs # ''u2029'' else ?r)"
    by (simp add: esc_rune_def r)
  with p show ?thesis by (auto simp: unls_plain unls_seps)
qed

lemma unls_json_chars: "valid_utf8 s \<Longrightarrow> unls (json_chars False s @ t) = canon_chars s @ unls t"
proof (induction "False" s rule: json_chars.induct)
  case (1 s)
  show ?case
  proof (cases "s = []")
    case False
    with 1 have n: "rune_size s \<noteq> 0" by (simp add: valid_utf8_rune_size)
    have "json_chars False s = esc_rune False (take (rune_size s) s) @ json_chars False (drop (rune_size s) s)"
      using False n by (subst json_chars.simps) (simp add: Let_def)
    moreover have "canon_chars s = canon_chars (take (rune_size s) s) @ canon_chars (drop (rune_size s) s)"
      by (simp add: canon_chars_def flip: map_append concat_append)
    ultimately show ?thesis
      using False n 1(1) [OF False refl] 1(2) valid_utf8_drop_rune [of s] by (simp add: unls_esc_rune)
  qed (simp add: json_chars.simps canon_chars_def)
qed

lemma unls_json_string: "valid_utf8 s \<Longrightarrow> unls (json_string False s @ t) = canon_string s @ unls t"
  by (simp add: json_string_def canon_string_def unls_json_chars)

lemma show_int_no_bs: "bs \<notin> set (show_int i)"
proof -
  have "\<not> is_digit bs" by (simp add: is_digit_def bs_code)
  then have "bs \<notin> set (show_nat n)" for n using show_nat_digits [of n] by (auto simp: list_all_iff)
  then show ?thesis by (simp add: show_int_def bs_def)
qed

lemma unls_join:
  assumes "\<And>x t. x \<in> set xs \<Longrightarrow> unls (f x @ t) = g x @ unls t"
  shows "unls (join_with '','' (map f xs) @ t) = join_with '','' (map g xs) @ unls t"
  using assms
proof (induction xs arbitrary: t)
  case (Cons x xs)
  from Cons show ?case by (cases xs) simp_all
qed simp

lemma unls_render: "utf8_json v \<Longrightarrow> unls (render False v @ t) = canon v @ unls t"
proof (induction v arbitrary: t)
  case (JStr s)
  then show ?case by (simp add: unls_json_string)
next
  case (JBool b)
  then show ?case by (cases b) (simp_all add: bs_def unls_plain_Cons)
next
  case (JInt i)
  then show ?case by (simp add: unls_plain show_int_no_bs)
next
  case (JArr vs)
  then have "unls (join_with '','' (map (render False) vs) @ u) = join_with '','' (map canon vs) @ unls u" for u
    by (intro unls_join) (auto simp: list_all_iff)
  then show ?case by simp
next
  case (JObj fs)
  have "unls (join_with '','' (map (\<lambda>(k, v). json_string False k @ '':'' @ render False v) fs) @ u)
      = join_with '','' (map (\<lambda>(k, v). canon_string k @ '':'' @ canon v) fs) @ unls u" for u
  proof (rule unls_join)
    fix kv t
    assume kv: "kv \<in> set fs"
    obtain k v where "kv = (k, v)" by (cases kv)
    with kv JObj show "unls ((case kv of (k, v) \<Rightarrow> json_string False k @ '':'' @ render False v) @ t)
        = (case kv of (k, v) \<Rightarrow> canon_string k @ '':'' @ canon v) @ unls t"
      by (auto simp: list_all_iff unls_json_string)
  qed
  then show ?case by simp
next
  case JNull
  then show ?case by (simp add: bs_def unls_plain_Cons)
qed

lemma canonicalJSON_canon: "utf8_json (JObj fs) \<Longrightarrow> canonicalJSON (JObj fs) = canon (JObj fs)"
  using unls_render [of "JObj fs" "[]"] by (simp add: canonicalJSON_def trim_newlines_def)

section \<open>The texts determine the projections\<close>

definition content_text :: "ContentFingerprintInput \<Rightarrow> string" where
  "content_text i = canonicalJSON (content_input_json (sorted_input i))"

definition child_text :: "ChildIdempotencyKeyInput \<Rightarrow> string" where
  "child_text i = canonicalJSON (child_key_json i)"

definition fp_change_good :: "FingerprintChange \<Rightarrow> bool" where
  "fp_change_good c \<longleftrightarrow> fc_operation c \<in> {''create'', ''modify'', ''delete''}"

definition fp_change_key :: "FingerprintChange \<Rightarrow> string \<times> int \<times> string \<times> string \<times> bool" where
  "fp_change_key c = (fc_path c, OperationRank (fc_operation c), fc_before_digest c, fc_after_digest c, fc_exists_after c)"

interpretation fp_order: inj_key_order fp_change_lt fp_change_key fp_change_good
proof
  show "fp_change_lt a b \<longleftrightarrow> fp_change_key a < fp_change_key b" for a b
    by (auto simp: fp_change_lt_def fp_change_key_def less_prod_def)
  show "fp_change_good a \<Longrightarrow> fp_change_good b \<Longrightarrow> fp_change_key a = fp_change_key b \<Longrightarrow> a = b" for a b
    by (auto simp: fp_change_good_def fp_change_key_def OperationRank_def split: if_splits)
qed

definition change_valid :: "FingerprintChange \<Rightarrow> bool" where
  "change_valid c \<longleftrightarrow> is_ok (NormalizePath (fc_path c)) \<and> fp_change_good c \<and>
     (\<forall>d\<in>{fc_before_digest c, fc_after_digest c}. d = [] \<or> is_ok (ParseDigest d))"

lemma check_changes_Inr_iff: "check_changes i cs = Inr () \<longleftrightarrow> list_all change_valid cs"
proof (induction cs arbitrary: i)
  case (Cons c cs)
  have d: "check_digests i ds = Inr () \<longleftrightarrow> (\<forall>d\<in>set ds. d = [] \<or> is_ok (ParseDigest d))" for i ds
    by (induction ds) (auto simp: result_simps is_ok_iff)
  show ?case
    by (auto simp: change_valid_def fp_change_good_def result_simps is_ok_iff Cons.IH d [unfolded is_ok_iff]
        simp del: check_digests.simps)
qed simp

lemma validateContentInput_Inr_iff:
  "validateContentInput i = Inr () \<longleftrightarrow>
     fi_resource_id i \<noteq> [] \<and> valid_utf8 (fi_resource_id i) \<and> valid_utf8 (fi_relative_root i) \<and>
     list_all change_valid (fi_changes i)"
  by (auto simp: validateContentInput_def check_changes_Inr_iff)

lemma Content_Inr_iff: "Content i = Inr d \<longleftrightarrow> validateContentInput i = Inr () \<and> d = SumDigest (content_text i)"
  by (auto simp: Content_def result_simps content_text_def SumDigest_def digest_prefix_def)

lemma change_valid_utf8: "change_valid c \<Longrightarrow> utf8_json (fingerprint_change_json c)"
proof -
  assume c: "change_valid c"
  have "valid_utf8 d" if "d = [] \<or> is_ok (ParseDigest d)" for d
    using that by (auto simp: is_ok_iff valid_utf8_ascii digest_ascii)
  moreover have "valid_utf8 (fc_path c)" using c by (auto simp: change_valid_def is_ok_iff NormalizePath_Inr_iff)
  moreover have "valid_utf8 (fc_operation c)" using c
    by (auto simp: change_valid_def fp_change_good_def valid_utf8_ascii ascii_string_def byte_def)
  ultimately show ?thesis using c
    by (simp add: change_valid_def fingerprint_change_json_def byte_def)
qed

lemma content_input_utf8: "validateContentInput i = Inr () \<Longrightarrow> utf8_json (content_input_json (sorted_input i))"
  using change_valid_utf8
  by (auto simp: validateContentInput_Inr_iff content_input_json_def sorted_input_def list_all_iff byte_def)

lemma content_text_canon:
  "validateContentInput i = Inr () \<Longrightarrow> content_text i = canon (content_input_json (sorted_input i))"
  using canonicalJSON_canon content_input_utf8
  by (simp add: content_text_def content_input_json_def del: canon.simps utf8_json.simps)

lemma fingerprint_change_json_inj: "fingerprint_change_json a = fingerprint_change_json b \<longleftrightarrow> a = b"
  by (auto simp: fingerprint_change_json_def)

lemma content_input_json_inj: "content_input_json a = content_input_json b \<longleftrightarrow> a = b"
proof -
  have "inj fingerprint_change_json" by (simp add: inj_def fingerprint_change_json_inj)
  then show ?thesis by (auto simp: content_input_json_def dest: map_injective)
qed

lemma content_text_eq_iff:
  assumes "validateContentInput i = Inr ()" "validateContentInput j = Inr ()"
  shows "content_text i = content_text j \<longleftrightarrow>
    mset (fi_changes i) = mset (fi_changes j) \<and> i\<lparr>fi_changes := []\<rparr> = j\<lparr>fi_changes := []\<rparr>"
    (is "?l \<longleftrightarrow> ?r")
proof -
  have "?l \<longleftrightarrow> sorted_input i = sorted_input j"
    using assms by (simp add: content_text_canon canon_inj content_input_json_inj)
  also have "\<dots> \<longleftrightarrow> sort_by fp_change_lt (fi_changes i) = sort_by fp_change_lt (fi_changes j) \<and>
      i\<lparr>fi_changes := []\<rparr> = j\<lparr>fi_changes := []\<rparr>"
    by (cases i; cases j) (auto simp: sorted_input_def)
  also have "\<dots> \<longleftrightarrow> ?r"
  proof -
    have "list_all fp_change_good (fi_changes i)"
      using assms(1) by (auto simp: validateContentInput_Inr_iff change_valid_def list_all_iff)
    then show ?thesis by (metis fp_order.order_independent mset_sort_by)
  qed
  finally show ?thesis .
qed

lemma check_members_Inr_iff: "check_members ss = Inr u \<longleftrightarrow> (\<forall>s\<in>set ss. s \<noteq> [] \<and> valid_utf8 s)"
  by (induction ss) auto

lemma ChildIdempotency_Inr_iff:
  "ChildIdempotency i = Inr k \<longleftrightarrow>
     1 \<le> ck_generation i \<and> ck_generation i < 2 ^ 53 \<and>
     (\<forall>s\<in>{ck_route_id i, ck_route_revision i, ck_destination_id i, ck_destination_revision i, ck_workstream i,
          ck_request_version i}. s \<noteq> [] \<and> valid_utf8 s) \<and>
     valid_utf8 (ck_target_scope i) \<and> is_ok (ParseDigest (ck_content_fingerprint i)) \<and>
     k = child_key_prefix @ sha256_hex (child_text i)"
  by (auto simp: ChildIdempotency_def check_members_Inr_iff child_text_def result_simps is_ok_iff)

lemma child_text_canon: "ChildIdempotency i = Inr k \<Longrightarrow> child_text i = canon (child_key_json i)"
proof -
  assume "ChildIdempotency i = Inr k"
  then have "utf8_json (child_key_json i)"
    by (auto simp: ChildIdempotency_Inr_iff child_key_json_def byte_def is_ok_iff valid_utf8_ascii dest: digest_ascii)
  then show ?thesis
    by (simp add: child_text_def child_key_json_def canonicalJSON_canon del: canon.simps utf8_json.simps)
qed

lemma child_text_eq_iff:
  assumes "ChildIdempotency i = Inr k" and "ChildIdempotency j = Inr l"
  shows "child_text i = child_text j \<longleftrightarrow> i = j"
proof
  assume "child_text i = child_text j"
  then have "child_key_json i = child_key_json j"
    using child_text_canon [OF assms(1)] child_text_canon [OF assms(2)] by (simp add: canon_inj)
  then show "i = j" by (cases i; cases j) (simp add: child_key_json_def)
qed simp

lemma ChildIdempotency_inj:
  assumes "ChildIdempotency i = Inr k" and "ChildIdempotency j = Inr k"
    and "sha256 (child_text i) = sha256 (child_text j) \<Longrightarrow> child_text i = child_text j"
  shows "i = j"
  using assms child_text_eq_iff [OF assms(1,2)] by (simp add: ChildIdempotency_Inr_iff sha256_hex_eq_iff)

section \<open>The two documents are RFC 8785 texts\<close>

lemma change_sorted: "sort_keys (fingerprint_change_json c) = fingerprint_change_json c"
  by (simp add: fingerprint_change_json_def)

lemma change_i_json: "change_valid c \<Longrightarrow> i_json (fingerprint_change_json c)"
  using change_valid_utf8 [of c] by (simp add: fingerprint_change_json_def ascii_string_def byte_def)

lemma content_input_rfc8785:
  assumes "validateContentInput i = Inr ()"
  shows "rfc8785 (content_input_json (sorted_input i)) = Some (content_text i)"
proof -
  have v: "list_all change_valid (fi_changes (sorted_input i))" "valid_utf8 (fi_resource_id i)" "valid_utf8 (fi_relative_root i)"
    using assms by (simp_all add: validateContentInput_Inr_iff sorted_input_def list_all_iff)
  then have "i_json (content_input_json (sorted_input i))"
    by (auto simp: content_input_json_def sorted_input_def ascii_string_def byte_def list_all_iff change_i_json)
  moreover have "sort_keys (content_input_json (sorted_input i)) = content_input_json (sorted_input i)"
    by (simp add: content_input_json_def change_sorted comp_def)
  ultimately show ?thesis by (simp add: rfc8785_def content_text_canon [OF assms])
qed

lemma child_rfc8785:
  assumes "ChildIdempotency i = Inr k"
  shows "rfc8785 (child_key_json i) = Some (child_text i)"
proof -
  have "i_json (child_key_json i)" using assms
    by (auto simp: ChildIdempotency_Inr_iff child_key_json_def ascii_string_def byte_def is_ok_iff valid_utf8_ascii dest: digest_ascii)
  moreover have "sort_keys (child_key_json i) = child_key_json i"
    by (simp add: child_key_json_def)
  ultimately show ?thesis by (simp add: rfc8785_def child_text_canon [OF assms])
qed

section \<open>Properties\<close>

text \<open>the content fingerprint does not depend on the order in which the changes are given.\<close>

theorem content_ignores_change_order:
  assumes "Content i = Inr d" and "mset cs = mset (fi_changes i)"
  shows "Content (i\<lparr>fi_changes := cs\<rparr>) = Inr d"
proof -
  have v: "validateContentInput i = Inr ()" using assms(1) by (simp add: Content_Inr_iff)
  moreover have "set cs = set (fi_changes i)" using assms(2) by (metis set_mset_mset)
  ultimately have w: "validateContentInput (i\<lparr>fi_changes := cs\<rparr>) = Inr ()"
    by (simp add: validateContentInput_Inr_iff list_all_iff)
  with content_text_eq_iff [OF w v] assms show ?thesis by (simp add: Content_Inr_iff)
qed

definition sample_content :: ContentFingerprintInput where
  "sample_content =
     \<lparr>fi_changes =
        [\<lparr>fc_after_digest = [], fc_before_digest = [], fc_exists_after = True, fc_operation = ''modify'', fc_path = ''b.md''\<rparr>,
         \<lparr>fc_after_digest = [], fc_before_digest = [], fc_exists_after = False, fc_operation = ''delete'', fc_path = ''a.md''\<rparr>],
      fi_resource_id = ''vault'', fi_fresh = False, fi_has_relative = False, fi_overflow = False, fi_relative_root = []\<rparr>"

lemma sample_content_valid: "validateContentInput sample_content = Inr ()"
  by code_simp

theorem content_ignores_change_order_witness:
  "Content (sample_content\<lparr>fi_changes := rev (fi_changes sample_content)\<rparr>) = Content sample_content"
proof -
  have "Content sample_content = Inr (SumDigest (content_text sample_content))"
    by (simp add: Content_Inr_iff sample_content_valid)
  from content_ignores_change_order [OF this, of "rev (fi_changes sample_content)"] this show ?thesis by simp
qed

text \<open>two inputs share a content fingerprint only if they agree on the resource, the flags and
  the multiset of changes, unless SHA-256 maps their two canonical texts together.\<close>

theorem content_determines_input:
  assumes "Content i = Inr d" and "Content j = Inr d"
    and "sha256 (content_text i) = sha256 (content_text j) \<Longrightarrow> content_text i = content_text j"
  shows "mset (fi_changes i) = mset (fi_changes j) \<and> fi_resource_id i = fi_resource_id j \<and>
    fi_fresh i = fi_fresh j \<and> fi_overflow i = fi_overflow j \<and>
    fi_has_relative i = fi_has_relative j \<and> fi_relative_root i = fi_relative_root j"
proof -
  have "sha256_hex (content_text i) = sha256_hex (content_text j)"
    using assms(1,2) by (simp add: Content_Inr_iff SumDigest_def)
  then have "content_text i = content_text j" using assms(3) by (simp add: sha256_hex_eq_iff)
  with content_text_eq_iff [of i j] assms(1,2) show ?thesis
    by (cases i; cases j) (simp add: Content_Inr_iff)
qed

theorem content_determines_input_witness:
  "mset (fi_changes sample_content) = mset (fi_changes (sample_content\<lparr>fi_changes := rev (fi_changes sample_content)\<rparr>)) \<and>
   fi_resource_id sample_content = ''vault''"
proof -
  let ?j = "sample_content\<lparr>fi_changes := rev (fi_changes sample_content)\<rparr>"
  have v: "validateContentInput ?j = Inr ()"
    using sample_content_valid by (simp add: validateContentInput_Inr_iff list_all_iff)
  have t: "content_text sample_content = content_text ?j"
    using content_text_eq_iff [OF sample_content_valid v] by simp
  have "Content sample_content = Inr (SumDigest (content_text sample_content))"
    "Content ?j = Inr (SumDigest (content_text sample_content))"
    by (simp_all add: Content_Inr_iff sample_content_valid v t)
  from content_determines_input [OF this] t show ?thesis by (simp add: sample_content_def)
qed

text \<open>two children share an idempotency key only if every member of their projections agrees,
  unless SHA-256 maps their two canonical texts together: no two destinations, generations or
  revisions collide by construction.\<close>

theorem child_key_determines_child:
  assumes "ChildIdempotency i = Inr k" and "ChildIdempotency j = Inr k"
    and "sha256 (child_text i) = sha256 (child_text j) \<Longrightarrow> child_text i = child_text j"
  shows "i = j"
  using assms by (rule ChildIdempotency_inj)

definition sample_child :: ChildIdempotencyKeyInput where
  "sample_child =
     \<lparr>ck_content_fingerprint = ''sha256:'' @ replicate 64 (CHR ''0''), ck_destination_id = ''d'',
      ck_destination_revision = ''dst-1'', ck_generation = 3, ck_request_version = ''v2'', ck_route_id = ''r'',
      ck_route_revision = ''rev'', ck_target_scope = [], ck_workstream = ''w''\<rparr>"

lemma sample_child_key: "ChildIdempotency sample_child = Inr (child_key_prefix @ sha256_hex (child_text sample_child))"
proof -
  have "is_ok (ParseDigest (''sha256:'' @ replicate 64 (CHR ''0'')))" by code_simp
  then show ?thesis by (simp add: ChildIdempotency_Inr_iff sample_child_def byte_def)
qed

theorem child_key_determines_child_witness:
  "ChildIdempotency sample_child = ChildIdempotency sample_child \<and> sample_child = sample_child\<lparr>ck_target_scope := []\<rparr>"
proof -
  have "sample_child\<lparr>ck_target_scope := []\<rparr> = sample_child" by (simp add: sample_child_def)
  with child_key_determines_child [OF sample_child_key, of "sample_child\<lparr>ck_target_scope := []\<rparr>"] sample_child_key
  show ?thesis by simp
qed

text \<open>a key exists only for a generation in the range 1 to 2^53 - 1, and it is the versioned
  prefix followed by 64 lower-case hexadecimal digits.\<close>

theorem child_key_form:
  assumes "ChildIdempotency i = Inr k"
  shows "1 \<le> ck_generation i \<and> ck_generation i < 2 ^ 53 \<and>
    take 25 k = child_key_prefix \<and> length k = 89 \<and> list_all is_lower_hex (drop 25 k)"
proof -
  have "length child_key_prefix = 25" by (simp add: child_key_prefix_def)
  with assms show ?thesis
    by (simp add: ChildIdempotency_Inr_iff length_sha256_hex sha256_hex_lower)
qed

theorem child_key_form_witness:
  "list_all is_lower_hex (drop 25 (child_key_prefix @ sha256_hex (child_text sample_child)))"
  using child_key_form [OF sample_child_key] by blast

text \<open>C22: every digest is taken of an RFC 8785 text (RFC 8785 sorts the members of every object and admits
  only well-formed strings, distinct names and safe integers). A content fingerprint is the SHA-256 of the RFC 8785
  text of the sorted content projection, and a child idempotency key that of the child projection, for every
  input the two functions accept: the struct fields are declared in the order of their keys, the generation is
  inside the safe range, and \<open>unescapeLineSeparators\<close> undoes exactly what the encoder escapes too much.\<close>

theorem canonicalJSON_is_RFC8785:
  "(Content i = Inr d \<longrightarrow> (\<exists>t. rfc8785 (content_input_json (sorted_input i)) = Some t \<and> d = ''sha256:'' @ sha256_hex t)) \<and>
   (ChildIdempotency c = Inr k \<longrightarrow> (\<exists>t. rfc8785 (child_key_json c) = Some t \<and> k = ''agent-dispatch:v2:sha256:'' @ sha256_hex t))"
  using content_input_rfc8785 child_rfc8785
  by (auto simp: Content_Inr_iff ChildIdempotency_Inr_iff SumDigest_def digest_prefix_def child_key_prefix_def)

theorem canonicalJSON_is_RFC8785_witness:
  "rfc8785 (content_input_json (sorted_input sample_content)) \<noteq> None \<and> rfc8785 (child_key_json sample_child) \<noteq> None"
proof -
  have "Content sample_content = Inr (SumDigest (content_text sample_content))"
    by (simp add: Content_Inr_iff sample_content_valid)
  with sample_child_key canonicalJSON_is_RFC8785 [of sample_content "SumDigest (content_text sample_content)"
      sample_child "child_key_prefix @ sha256_hex (child_text sample_child)"]
  show ?thesis by auto
qed

end
