(* ===== verification/PathPattern.thy ===== *)
theory PathPattern
  imports Records
begin

text \<open>
  The path pattern engine (\<open>src/internal/domain/policy/pattern.go\<close>): compiled glob
  patterns, the single-segment matcher, the segment table and the classification of a
  path. \<open>nfc\<close> and \<open>casefold\<close> stand for \<open>norm.NFC.String\<close> and
  \<open>cases.Fold().String\<close> of \<open>golang.org/x/text\<close>. \<open>glob\<close> and \<open>path_match\<close> are
  the declarative reading of the documentation; the lemmas show what the two-pointer
  loop and the in-place table compute against them.
\<close>

datatype compile_error =
    PatEmpty
  | PatNotUtf8
  | PatNul
  | PatNotRelative
  | PatBackslash
  | PatDotSegments
  | PatEmptySegment
  | PatDotDotSegment
  | PatDoubleStar
  | PatIndexPanic

datatype pattern_error =
    BadPattern string string compile_error
  | UnresolvedCaseMode string
  | PathTooManyBytes int
  | UnusablePath record_error
  | PathAt nat pattern_error

datatype Status =
    StatusExcluded
  | StatusProtected
  | StatusImmutable
  | StatusNormal

definition CaseFilesystem :: string where
  "CaseFilesystem = ''filesystem''"

definition CaseSensitive :: string where
  "CaseSensitive = ''sensitive''"

definition CaseInsensitive :: string where
  "CaseInsensitive = ''insensitive''"

definition DefaultExclusions :: "string list" where
  "DefaultExclusions =
     [''.git/**'', ''**/.git/**'', ''.watchman-cookie-*'', ''**/.watchman-cookie-*'',
      ''.watchman-state*'', ''**/.watchman-state*'', ''.DS_Store'', ''**/.DS_Store'']"

definition DefaultMaxPathBytes :: int where
  "DefaultMaxPathBytes = 4096"

record segment =
  sg_text :: string
  sg_match :: string
  sg_recursive :: bool

record Engine =
  en_include :: "segment list list"
  en_exclude :: "segment list list"
  en_protected :: "segment list list"
  en_immutable :: "segment list list"
  en_fold :: bool
  en_max_path_bytes :: int

section \<open>Compiling patterns\<close>

fun has_double_star :: "string \<Rightarrow> bool" where
  "has_double_star (a # b # s) \<longleftrightarrow> a = CHR ''*'' \<and> b = CHR ''*'' \<or> has_double_star (b # s)"
| "has_double_star s \<longleftrightarrow> False"

text \<open>The loop over the normalised segments; indexing past \<open>original\<close> would panic.\<close>

fun compile_segments :: "string list \<Rightarrow> nat \<Rightarrow> string list \<Rightarrow> compile_error + segment list" where
  "compile_segments original index [] = Inr []"
| "compile_segments original index (raw # rest) =
    (if raw = [] then Inl PatEmptySegment
     else if raw = ''..'' then Inl PatDotDotSegment
     else if raw = ''.'' then Inl PatDotSegments
     else if raw \<noteq> ''**'' \<and> has_double_star raw then Inl PatDoubleStar
     else if length original \<le> index then Inl PatIndexPanic
     else bindE (compile_segments original (index + 1) rest) (\<lambda>segs.
       Inr (\<lparr>sg_text = original ! index, sg_match = raw, sg_recursive = (raw = ''**'')\<rparr> # segs)))"

definition compile :: "(string \<Rightarrow> string) \<Rightarrow> string \<Rightarrow> compile_error + segment list" where
  "compile nfc pattern =
     (if pattern = [] then Inl PatEmpty
      else if \<not> valid_utf8 pattern then Inl PatNotUtf8
      else if CHR 0x00 \<in> set pattern then Inl PatNul
      else if hd pattern = CHR ''/'' then Inl PatNotRelative
      else if CHR 0x5C \<in> set pattern then Inl PatBackslash
      else if take 2 pattern = ''./'' \<or> take 2 (rev pattern) = rev ''/.'' then Inl PatDotSegments
      else compile_segments (split_on (CHR ''/'') pattern) 0 (split_on (CHR ''/'') (nfc pattern)))"

definition compileAll :: "(string \<Rightarrow> string) \<Rightarrow> string list \<Rightarrow> string \<Rightarrow> pattern_error + segment list list" where
  "compileAll nfc patterns what = mapE (\<lambda>p. map_err (BadPattern what p) (compile nfc p)) patterns"

definition fold_patterns :: "(string \<Rightarrow> string) \<Rightarrow> segment list list \<Rightarrow> segment list list" where
  "fold_patterns casefold pats = map (map (\<lambda>sg. sg\<lparr>sg_match := casefold (sg_match sg)\<rparr>)) pats"

definition newEngine ::
  "(string \<Rightarrow> string) \<Rightarrow> (string \<Rightarrow> string) \<Rightarrow> string list \<Rightarrow> string list \<Rightarrow> string list \<Rightarrow> string list \<Rightarrow>
   string \<Rightarrow> bool \<Rightarrow> pattern_error + Engine" where
  "newEngine nfc casefold incl excl prot immut mode withDefaults =
     (if mode \<noteq> CaseSensitive \<and> mode \<noteq> CaseInsensitive then Inl (UnresolvedCaseMode mode)
      else
        bindE (compileAll nfc incl ''include'') (\<lambda>i.
        bindE (compileAll nfc excl ''exclude'') (\<lambda>x.
        bindE (compileAll nfc prot ''protected'') (\<lambda>p.
        bindE (compileAll nfc immut ''immutable'') (\<lambda>m.
        bindE (if withDefaults
               then bindE (compileAll nfc DefaultExclusions ''default exclusion'') (\<lambda>d. Inr (x @ d))
               else Inr x) (\<lambda>x.
          let f = (if mode = CaseInsensitive then fold_patterns casefold else (\<lambda>ps. ps)) in
          Inr \<lparr>en_include = f i, en_exclude = f x, en_protected = f p, en_immutable = f m,
               en_fold = (mode = CaseInsensitive), en_max_path_bytes = DefaultMaxPathBytes\<rparr>))))))"

definition NewEngine where
  "NewEngine nfc casefold incl excl prot immut mode = newEngine nfc casefold incl excl prot immut mode True"

definition NewProtectionEngine where
  "NewProtectionEngine nfc casefold prot immut mode = newEngine nfc casefold [''**''] [] prot immut mode False"

definition SetMaxPathBytes :: "int \<Rightarrow> Engine \<Rightarrow> Engine" where
  "SetMaxPathBytes bound e =
     (if bound > 0 then e\<lparr>en_max_path_bytes := bound\<rparr>
      else e\<lparr>en_max_path_bytes := DefaultMaxPathBytes\<rparr>)"

section \<open>The single-segment matcher\<close>

text \<open>
  The loop of \<open>matchSegment\<close> over its variables \<open>pi\<close>, \<open>ni\<close> and
  \<open>(starP, starN)\<close>, with \<open>None\<close> for \<open>starP = -1\<close>.
\<close>

fun skip_stars :: "string \<Rightarrow> bool" where
  "skip_stars [] \<longleftrightarrow> True"
| "skip_stars (c # p) \<longleftrightarrow> c = CHR ''*'' \<and> skip_stars p"

definition match_measure :: "string \<times> string \<times> nat \<times> nat \<times> (nat \<times> nat) option \<Rightarrow> nat list" where
  "match_measure = (\<lambda>(p, n, pi, ni, star).
     case star of
       None \<Rightarrow> [0, length p + 1, 0, length n - ni]
     | Some (sp, sn) \<Rightarrow> [if sp < pi \<and> sn \<le> ni then 0 else 1, length p - sp, length n - sn, length n - ni])"

function match_loop :: "string \<Rightarrow> string \<Rightarrow> nat \<Rightarrow> nat \<Rightarrow> (nat \<times> nat) option \<Rightarrow> bool" where
  "match_loop p n pi ni star =
     (if ni < length n then
        (if pi < length p \<and> (p ! pi = CHR ''?'' \<or> p ! pi = n ! ni)
         then match_loop p n (pi + 1) (ni + 1) star
         else if pi < length p \<and> p ! pi = CHR ''*''
         then match_loop p n (pi + 1) ni (Some (pi, ni))
         else case star of
           Some (starP, starN) \<Rightarrow> match_loop p n (starP + 1) (starN + 1) (Some (starP, starN + 1))
         | None \<Rightarrow> False)
      else skip_stars (drop pi p))"
  by pat_completeness auto

termination
  by (relation "measures [\<lambda>x. match_measure x ! 0, \<lambda>x. match_measure x ! 1,
        \<lambda>x. match_measure x ! 2, \<lambda>x. match_measure x ! 3]")
    (auto simp: match_measure_def split: option.splits)

declare match_loop.simps [simp del]

definition matchSegment :: "string \<Rightarrow> string \<Rightarrow> bool" where
  "matchSegment pattern name = match_loop pattern name 0 0 None"

section \<open>The segment table\<close>

fun scan_any :: "bool \<Rightarrow> bool list \<Rightarrow> bool list" where
  "scan_any a [] = []"
| "scan_any a (b # dp) = (a \<or> b) # scan_any (a \<or> b) dp"

fun row_down :: "string \<Rightarrow> string list \<Rightarrow> nat \<Rightarrow> bool list \<Rightarrow> bool list" where
  "row_down pat names 0 dp = dp"
| "row_down pat names (Suc j) dp =
     row_down pat names j (dp[Suc j := dp ! j \<and> matchSegment pat (names ! j)])"

definition row_step :: "string list \<Rightarrow> bool list \<Rightarrow> segment \<Rightarrow> bool list" where
  "row_step names dp sg =
     (if sg_recursive sg then scan_any False dp
      else (row_down (sg_match sg) names (length names) dp)[0 := False])"

definition matchRow :: "segment list \<Rightarrow> string list \<Rightarrow> bool list" where
  "matchRow pat names = foldl (row_step names) (True # replicate (length names) False) pat"

definition matchSegments :: "segment list \<Rightarrow> string list \<Rightarrow> bool" where
  "matchSegments pat names = matchRow pat names ! length names"

definition matchSegmentsDirAware :: "segment list \<Rightarrow> string list \<Rightarrow> bool" where
  "matchSegmentsDirAware pat names = list_ex (\<lambda>j. matchRow pat names ! j) [1..<length names + 1]"

definition matchAny :: "segment list list \<Rightarrow> string list \<Rightarrow> bool" where
  "matchAny pats names = list_ex (\<lambda>pat. matchSegments pat names) pats"

definition matchAnyDirAware :: "segment list list \<Rightarrow> string list \<Rightarrow> bool" where
  "matchAnyDirAware pats names = list_ex (\<lambda>pat. matchSegmentsDirAware pat names) pats"

section \<open>Classification\<close>

definition path_names :: "(string \<Rightarrow> string) \<Rightarrow> (string \<Rightarrow> string) \<Rightarrow> Engine \<Rightarrow> string \<Rightarrow> string list" where
  "path_names nfc casefold e path =
     (let names = split_on (CHR ''/'') (nfc path)
      in if en_fold e then map casefold names else names)"

definition Classify ::
  "(string \<Rightarrow> string) \<Rightarrow> (string \<Rightarrow> string) \<Rightarrow> Engine \<Rightarrow> string \<Rightarrow> pattern_error + Status" where
  "Classify nfc casefold e path =
     (if int (length path) > en_max_path_bytes e then Inl (PathTooManyBytes (en_max_path_bytes e))
      else bindE (map_err UnusablePath (NormalizePath path)) (\<lambda>_.
        let names = path_names nfc casefold e path in
        if matchAnyDirAware (en_exclude e) names \<or> \<not> matchAny (en_include e) names then Inr StatusExcluded
        else if matchAny (en_protected e) names then Inr StatusProtected
        else if matchAny (en_immutable e) names then Inr StatusImmutable
        else Inr StatusNormal))"

fun classify_from ::
  "(string \<Rightarrow> string) \<Rightarrow> (string \<Rightarrow> string) \<Rightarrow> Engine \<Rightarrow> nat \<Rightarrow> string list \<Rightarrow> pattern_error + Status list" where
  "classify_from nfc casefold e i [] = Inr []"
| "classify_from nfc casefold e i (p # ps) =
     bindE (map_err (PathAt i) (Classify nfc casefold e p)) (\<lambda>st.
     bindE (classify_from nfc casefold e (i + 1) ps) (\<lambda>sts. Inr (st # sts)))"

definition ClassifyMany where
  "ClassifyMany nfc casefold e paths = classify_from nfc casefold e 0 paths"

definition dump_patterns :: "segment list list \<Rightarrow> string list" where
  "dump_patterns pats = sort (map (\<lambda>segs. join_with ''/'' (map sg_text segs)) pats)"

definition Patterns :: "Engine \<Rightarrow> string list \<times> string list \<times> string list \<times> string list" where
  "Patterns e = (dump_patterns (en_include e), dump_patterns (en_exclude e),
                 dump_patterns (en_protected e), dump_patterns (en_immutable e))"

section \<open>What the single-segment matcher computes\<close>

fun glob :: "string \<Rightarrow> string \<Rightarrow> bool" where
  "glob [] n \<longleftrightarrow> n = []"
| "glob (c # p) n \<longleftrightarrow>
    (if c = CHR ''*'' then list_ex (\<lambda>k. glob p (drop k n)) [0..<length n + 1]
     else n \<noteq> [] \<and> (c = CHR ''?'' \<or> c = hd n) \<and> glob p (tl n))"

lemma glob_star: "glob (CHR ''*'' # p) n \<longleftrightarrow> (\<exists>k\<le>length n. glob p (drop k n))"
  by (auto simp: list_ex_iff less_Suc_eq_le simp del: upt_Suc)

lemma glob_plain: "c \<noteq> CHR ''*'' \<Longrightarrow> glob (c # p) n \<longleftrightarrow> n \<noteq> [] \<and> (c = CHR ''?'' \<or> c = hd n) \<and> glob p (tl n)"
  by simp

declare glob.simps(2) [simp del]

lemma glob_stars: "glob p [] \<longleftrightarrow> skip_stars p"
  by (induction p) (simp_all add: glob.simps(2))

lemma glob_star_here: "glob p n \<Longrightarrow> glob (CHR ''*'' # p) n"
  unfolding glob_star by (rule exI [of _ 0]) simp

lemma glob_star_skip: "glob (CHR ''*'' # p) (drop k n) \<Longrightarrow> glob (CHR ''*'' # p) n"
proof (cases "k \<le> length n")
  case True
  assume "glob (CHR ''*'' # p) (drop k n)"
  then obtain j where "j \<le> length n - k" "glob p (drop (j + k) n)" by (auto simp: glob_star)
  with True show ?thesis unfolding glob_star by (intro exI [of _ "j + k"]) auto
next
  case False
  assume "glob (CHR ''*'' # p) (drop k n)"
  with False have "glob p (drop (length n) n)" by (auto simp: glob_star)
  then show ?thesis unfolding glob_star by blast
qed

lemma glob_star_unfold:
  "glob (CHR ''*'' # p) n \<Longrightarrow> glob p n \<or> (n \<noteq> [] \<and> glob (CHR ''*'' # p) (tl n))"
proof -
  assume "glob (CHR ''*'' # p) n"
  then obtain k where k: "k \<le> length n" "glob p (drop k n)" by (auto simp: glob_star)
  show ?thesis
  proof (cases k)
    case (Suc j)
    with k have "n \<noteq> []" "j \<le> length (tl n)" "glob p (drop j (tl n))" by (auto simp: drop_Suc)
    then show ?thesis by (auto simp: glob_star)
  qed (use k in simp)
qed

text \<open>A stretch of the pattern without a star consumes as many bytes.\<close>

lemma glob_plain_prefix:
  "CHR ''*'' \<notin> set q \<Longrightarrow> glob (q @ p) n \<Longrightarrow> length q \<le> length n \<and> glob p (drop (length q) n)"
proof (induction q arbitrary: n)
  case (Cons c q)
  then have "n \<noteq> []" "glob (q @ p) (tl n)" by (auto simp: glob_plain)
  with Cons show ?case by (cases n) auto
qed simp

abbreviation rest_glob where
  "rest_glob p n i j \<equiv> glob (drop i p) (drop j n)"

lemma rest_glob_plain:
  assumes "i < length p" "j < length n" "p ! i \<noteq> CHR ''*''"
  shows "rest_glob p n i j \<longleftrightarrow> (p ! i = CHR ''?'' \<or> p ! i = n ! j) \<and> rest_glob p n (i + 1) (j + 1)"
  using assms by (auto simp: glob_plain hd_drop_conv_nth tl_drop drop_Suc simp flip: Cons_nth_drop_Suc)

lemma drop_at: "i < length p \<Longrightarrow> p ! i = c \<Longrightarrow> drop i p = c # drop (i + 1) p"
  using Cons_nth_drop_Suc [of i p] by simp

lemma rest_glob_star_byte:
  assumes "i < length p" "j < length n" "p ! i = CHR ''*''" "rest_glob p n (i + 1) (j + 1)"
  shows "rest_glob p n i j"
  using assms glob_star_skip [of "drop (i + 1) p" 1 "drop j n"] glob_star_here
  by (simp add: drop_at)

definition star_ok :: "string \<Rightarrow> nat \<Rightarrow> nat \<Rightarrow> (nat \<times> nat) option \<Rightarrow> bool" where
  "star_ok p pi ni star =
     (case star of None \<Rightarrow> True
      | Some (sp, sn) \<Rightarrow> sp < length p \<and> p ! sp = CHR ''*'' \<and> sp < pi \<and> sn \<le> ni)"

definition star_glob :: "string \<Rightarrow> string \<Rightarrow> (nat \<times> nat) option \<Rightarrow> bool" where
  "star_glob p n star = (case star of None \<Rightarrow> False | Some (sp, sn) \<Rightarrow> rest_glob p n sp sn)"

lemma star_retry: "sp < length p \<Longrightarrow> p ! sp = CHR ''*'' \<Longrightarrow> rest_glob p n (sp + 1) (sn + 1) \<or> rest_glob p n sp (sn + 1) \<Longrightarrow> rest_glob p n sp sn"
  using glob_star_skip [of "drop (sp + 1) p" 1 "drop sn n"] glob_star_here
  by (auto simp: drop_at)

lemma match_loop_sound:
  "match_loop p n pi ni star \<Longrightarrow> star_ok p pi ni star \<Longrightarrow> ni \<le> length n \<Longrightarrow>
   rest_glob p n pi ni \<or> star_glob p n star"
proof (induction p n pi ni star rule: match_loop.induct)
  case (1 p n pi ni star)
  show ?case
  proof (cases "ni < length n")
    case False
    with 1(4,6) show ?thesis by (simp add: match_loop.simps [of p n pi ni] glob_stars)
  next
    case ni: True
    consider (byte) "pi < length p" "p ! pi = CHR ''?'' \<or> p ! pi = n ! ni"
      | (star) "\<not> (p ! pi = CHR ''?'' \<or> p ! pi = n ! ni)" "pi < length p" "p ! pi = CHR ''*''"
      | (retry) "\<not> (pi < length p \<and> (p ! pi = CHR ''?'' \<or> p ! pi = n ! ni))" "\<not> (pi < length p \<and> p ! pi = CHR ''*'')"
      by blast
    then show ?thesis
    proof cases
      case byte
      with 1(4) ni have "match_loop p n (pi + 1) (ni + 1) star" by (simp add: match_loop.simps [of p n pi ni])
      moreover have "star_ok p (pi + 1) (ni + 1) star" using 1(5) by (auto simp: star_ok_def split: option.splits)
      ultimately have "rest_glob p n (pi + 1) (ni + 1) \<or> star_glob p n star" using 1(1) ni byte by simp
      then show ?thesis using byte ni rest_glob_plain rest_glob_star_byte by blast
    next
      case star
      with 1(4) ni have "match_loop p n (pi + 1) ni (Some (pi, ni))" by (simp add: match_loop.simps [of p n pi ni])
      with 1(2) ni star have "rest_glob p n (pi + 1) ni \<or> rest_glob p n pi ni"
        by (simp add: star_ok_def star_glob_def)
      with star show ?thesis by (auto simp: drop_at intro: glob_star_here)
    next
      case retry
      with 1(4) ni obtain sp sn where s: "star = Some (sp, sn)"
        and m: "match_loop p n (sp + 1) (sn + 1) (Some (sp, sn + 1))"
        by (auto simp: match_loop.simps [of p n pi ni] split: option.splits)
      from s 1(5) ni have ok: "sp < length p" "p ! sp = CHR ''*''" "sn + 1 \<le> length n" by (auto simp: star_ok_def)
      with 1(3) [OF ni retry s refl m] have "rest_glob p n (sp + 1) (sn + 1) \<or> rest_glob p n sp (sn + 1)"
        by (simp add: star_ok_def star_glob_def)
      with ok s show ?thesis by (simp add: star_glob_def star_retry)
    qed
  qed
qed

lemma matchSegment_sound: "matchSegment p n \<Longrightarrow> glob p n"
  using match_loop_sound [of p n 0 0 None] by (simp add: matchSegment_def star_ok_def star_glob_def)

text \<open>
  Against a name without a star byte the loop is also complete: the last star is the only
  one worth retrying, because the pattern between it and the current position has none.
\<close>

definition track_ok :: "string \<Rightarrow> string \<Rightarrow> nat \<Rightarrow> nat \<Rightarrow> (nat \<times> nat) option \<Rightarrow> bool" where
  "track_ok p n pi ni star =
     (pi \<le> length p \<and> ni \<le> length n \<and>
      (case star of None \<Rightarrow> True
       | Some (sp, sn) \<Rightarrow> sp < pi \<and> p ! sp = CHR ''*'' \<and> sn \<le> ni \<and> pi - (sp + 1) = ni - sn \<and>
           list_all (\<lambda>i. p ! i \<noteq> CHR ''*'') [sp + 1..<pi]))"

lemma track_advance:
  assumes "track_ok p n pi ni (Some (sp, sn))" "rest_glob p n (sp + 1) k"
  shows "k \<le> length n \<longrightarrow> k + (ni - sn) \<le> length n" and "rest_glob p n pi (k + (ni - sn))"
proof -
  let ?q = "take (pi - (sp + 1)) (drop (sp + 1) p)"
  have l: "sp + 1 \<le> pi" "pi \<le> length p" "pi - (sp + 1) = ni - sn"
    and c: "list_all (\<lambda>i. p ! i \<noteq> CHR ''*'') [sp + 1..<pi]"
    using assms(1) by (auto simp: track_ok_def simp del: upt_Suc)
  have "drop pi p = drop (pi - (sp + 1)) (drop (sp + 1) p)" using l(1) by simp
  then have q: "drop (sp + 1) p = ?q @ drop pi p" "length ?q = ni - sn"
    using l by (metis append_take_drop_id, simp)
  have s: "CHR ''*'' \<notin> set ?q"
    using c l by (auto simp: in_set_conv_nth list_all_iff simp del: upt_Suc)
  from assms(2) q(1) have "glob (?q @ drop pi p) (drop k n)" by simp
  from glob_plain_prefix [OF s this] q(2)
  show "k \<le> length n \<longrightarrow> k + (ni - sn) \<le> length n" "rest_glob p n pi (k + (ni - sn))"
    by (auto simp: add.commute)
qed

lemma star_glob_choice:
  assumes "track_ok p n pi ni (Some (sp, sn))" "rest_glob p n sp sn"
  obtains k where "sn \<le> k" "k \<le> length n" "rest_glob p n (sp + 1) k"
proof -
  have "drop sp p = CHR ''*'' # drop (sp + 1) p" using assms(1) by (intro drop_at) (auto simp: track_ok_def)
  with assms(2) obtain j where "j \<le> length n - sn" "rest_glob p n (sp + 1) (j + sn)"
    by (auto simp: glob_star)
  with that [of "j + sn"] assms(1) show ?thesis by (auto simp: track_ok_def)
qed

text \<open>At a star, an earlier star has nothing to add.\<close>

lemma star_subsumed:
  assumes "track_ok p n pi ni (Some (sp, sn))" "rest_glob p n sp sn" "pi < length p" "p ! pi = CHR ''*''"
  shows "rest_glob p n pi ni"
proof -
  obtain k where k: "sn \<le> k" "rest_glob p n (sp + 1) k" using star_glob_choice [OF assms(1,2)] by blast
  from track_advance(2) [OF assms(1) k(2)] have "rest_glob p n pi (k + (ni - sn))" .
  moreover have "k + (ni - sn) = (k - sn) + ni" using assms(1) k(1) by (auto simp: track_ok_def)
  ultimately show ?thesis
    using glob_star_skip [of "drop (pi + 1) p" "k - sn" "drop ni n"] assms(3,4) by (simp add: drop_at)
qed

lemma star_first_choice_fails:
  assumes "track_ok p n pi ni (Some (sp, sn))" "rest_glob p n sp sn" "\<not> rest_glob p n pi ni"
  shows "ni < length n \<and> rest_glob p n sp (sn + 1)"
proof -
  obtain k where k: "sn \<le> k" "k \<le> length n" "rest_glob p n (sp + 1) k" using star_glob_choice [OF assms(1,2)] by blast
  have "sn \<le> ni" using assms(1) by (simp add: track_ok_def)
  from track_advance [OF assms(1) k(3)] k(2)
  have a: "k + (ni - sn) \<le> length n" "rest_glob p n pi (k + (ni - sn))" by auto
  then have "k \<noteq> sn" using assms(3) \<open>sn \<le> ni\<close> by auto
  with k(1) have "sn + 1 \<le> k" by simp
  moreover have "drop sp p = CHR ''*'' # drop (sp + 1) p" using assms(1) by (intro drop_at) (auto simp: track_ok_def)
  moreover have "rest_glob p n (sp + 1) (k - (sn + 1) + (sn + 1))" using k(3) \<open>sn + 1 \<le> k\<close> by simp
  ultimately have "rest_glob p n sp (sn + 1)"
    using k(2) by (auto simp: glob_star intro!: exI [of _ "k - (sn + 1)"])
  with a(1) \<open>sn + 1 \<le> k\<close> \<open>sn \<le> ni\<close> show ?thesis by simp
qed

lemma match_loop_complete:
  "rest_glob p n pi ni \<or> star_glob p n star \<Longrightarrow> track_ok p n pi ni star \<Longrightarrow> CHR ''*'' \<notin> set n \<Longrightarrow>
   match_loop p n pi ni star"
proof (induction p n pi ni star rule: match_loop.induct)
  case (1 p n pi ni star)
  note ok = 1(5)
  have earlier: "\<exists>sp sn. star = Some (sp, sn) \<and> rest_glob p n sp (sn + 1) \<and> ni < length n"
    if "\<not> rest_glob p n pi ni"
    using that 1(4) ok star_first_choice_fails [of p n pi ni] by (auto simp: star_glob_def split: option.splits)
  show ?case
  proof (cases "ni < length n")
    case False
    with earlier have "rest_glob p n pi ni" by blast
    with False show ?thesis by (simp add: match_loop.simps [of p n pi ni] glob_stars)
  next
    case ni: True
    have nostar: "n ! ni \<noteq> CHR ''*''" using 1(6) ni by (metis nth_mem)
    consider (byte) "pi < length p" "p ! pi = CHR ''?'' \<or> p ! pi = n ! ni"
      | (star) "\<not> (p ! pi = CHR ''?'' \<or> p ! pi = n ! ni)" "pi < length p" "p ! pi = CHR ''*''"
      | (retry) "\<not> (pi < length p \<and> (p ! pi = CHR ''?'' \<or> p ! pi = n ! ni))" "\<not> (pi < length p \<and> p ! pi = CHR ''*'')"
      by blast
    then show ?thesis
    proof cases
      case byte
      then have c: "p ! pi \<noteq> CHR ''*''" using nostar by auto
      then have "rest_glob p n (pi + 1) (ni + 1) \<or> star_glob p n star"
        using 1(4) byte ni rest_glob_plain by blast
      moreover have "track_ok p n (pi + 1) (ni + 1) star"
        using ok byte(1) ni c
        by (auto simp: track_ok_def list_all_iff less_Suc_eq split: option.splits)
      ultimately show ?thesis using 1(1,6) ni byte by (simp add: match_loop.simps [of p n pi ni])
    next
      case star
      have "rest_glob p n pi ni"
        using 1(4) ok star star_subsumed [of p n pi ni] by (auto simp: star_glob_def split: option.splits)
      moreover have "track_ok p n (pi + 1) ni (Some (pi, ni))" using ok star by (auto simp: track_ok_def)
      ultimately have "match_loop p n (pi + 1) ni (Some (pi, ni))"
        using 1(2) [OF ni _ _] 1(6) star by (simp add: star_glob_def)
      with ni star show ?thesis by (simp add: match_loop.simps [of p n pi ni])
    next
      case retry
      then have "\<not> rest_glob p n pi ni"
        using ni rest_glob_plain [where i = pi and j = ni and p = p and n = n] by (cases "pi < length p") auto
      with earlier obtain sp sn where s: "star = Some (sp, sn)" "rest_glob p n sp (sn + 1)" by blast
      moreover have "track_ok p n (sp + 1) (sn + 1) (Some (sp, sn + 1))" using ok ni s by (auto simp: track_ok_def)
      ultimately have "match_loop p n (sp + 1) (sn + 1) (Some (sp, sn + 1))"
        using 1(3) [OF ni retry s(1) refl] 1(6) by (simp add: star_glob_def)
      with ni retry s(1) show ?thesis by (auto simp: match_loop.simps [of p n pi ni])
    qed
  qed
qed

lemma matchSegment_glob: "CHR ''*'' \<notin> set n \<Longrightarrow> matchSegment p n \<longleftrightarrow> glob p n"
  using match_loop_complete [where p = p and n = n and pi = 0 and ni = 0 and star = None] matchSegment_sound
  by (auto simp: matchSegment_def track_ok_def star_glob_def)

section \<open>What the segment table computes\<close>

fun path_match :: "segment list \<Rightarrow> string list \<Rightarrow> bool" where
  "path_match [] ns \<longleftrightarrow> ns = []"
| "path_match (sg # pat) ns \<longleftrightarrow>
    (if sg_recursive sg then list_ex (\<lambda>k. path_match pat (drop k ns)) [0..<length ns + 1]
     else ns \<noteq> [] \<and> matchSegment (sg_match sg) (hd ns) \<and> path_match pat (tl ns))"

lemma path_match_recursive:
  "sg_recursive sg \<Longrightarrow> path_match (sg # pat) ns \<longleftrightarrow> (\<exists>k\<le>length ns. path_match pat (drop k ns))"
  by (auto simp: list_ex_iff less_Suc_eq_le simp del: upt_Suc)

lemma path_match_plain:
  "\<not> sg_recursive sg \<Longrightarrow>
   path_match (sg # pat) ns \<longleftrightarrow> ns \<noteq> [] \<and> matchSegment (sg_match sg) (hd ns) \<and> path_match pat (tl ns)"
  by simp

declare path_match.simps(2) [simp del]

lemma path_match_append:
  "path_match (p @ q) ns \<longleftrightarrow> (\<exists>k\<le>length ns. path_match p (take k ns) \<and> path_match q (drop k ns))"
proof (induction p arbitrary: ns)
  case (Cons sg p)
  show ?case
  proof (cases "sg_recursive sg")
    case True
    show ?thesis (is "?l \<longleftrightarrow> ?r")
    proof
      assume ?l
      then obtain j k where "j \<le> length ns" "k \<le> length ns - j" "path_match p (take k (drop j ns))"
        "path_match q (drop k (drop j ns))"
        using True Cons by (auto simp: path_match_recursive)
      then show ?r using True
        by (intro exI [of _ "j + k"]) (auto simp: path_match_recursive drop_take add.commute intro!: exI [of _ j])
    next
      assume ?r
      then obtain k j where "k \<le> length ns" "j \<le> k" "path_match p (take (k - j) (drop j ns))" "path_match q (drop k ns)"
        using True by (auto simp: path_match_recursive drop_take)
      then have "path_match (p @ q) (drop j ns)" using Cons by (auto intro!: exI [of _ "k - j"])
      with True \<open>j \<le> k\<close> \<open>k \<le> length ns\<close> show ?l by (auto simp: path_match_recursive intro!: exI [of _ j])
    qed
  next
    case False
    show ?thesis
    proof (cases ns)
      case (Cons n ms)
      have "(\<exists>k\<le>Suc m. P k) \<longleftrightarrow> P 0 \<or> (\<exists>k\<le>m. P (Suc k))" for P and m :: nat
        by (metis Suc_le_mono le0 not0_implies_Suc)
      with Cons False Cons.IH [of ms] show ?thesis
        by (auto simp: path_match_plain)
    qed (use False in \<open>simp add: path_match_plain\<close>)
  qed
qed (auto intro: exI [of _ 0])

lemma path_match_snoc_recursive:
  "sg_recursive sg \<Longrightarrow> path_match (p @ [sg]) ns \<longleftrightarrow> (\<exists>k\<le>length ns. path_match p (take k ns))"
proof -
  assume "sg_recursive sg"
  then have "path_match [sg] ms" for ms by (auto simp: path_match_recursive)
  then show ?thesis by (simp add: path_match_append)
qed

lemma path_match_snoc_plain:
  "\<not> sg_recursive sg \<Longrightarrow>
   path_match (p @ [sg]) (ns @ [n]) \<longleftrightarrow> path_match p ns \<and> matchSegment (sg_match sg) n"
proof -
  assume "\<not> sg_recursive sg"
  then have "path_match [sg] ms \<longleftrightarrow> (\<exists>m. ms = [m] \<and> matchSegment (sg_match sg) m)" for ms
    by (cases ms) (auto simp: path_match_plain)
  then have "path_match (p @ [sg]) (ns @ [n]) \<longleftrightarrow>
      (\<exists>k\<le>Suc (length ns). path_match p (take k (ns @ [n])) \<and> (\<exists>m. drop k (ns @ [n]) = [m] \<and> matchSegment (sg_match sg) m))"
    by (simp add: path_match_append)
  also have "\<dots> \<longleftrightarrow> path_match p ns \<and> matchSegment (sg_match sg) n"
  proof (intro iffI)
    assume "\<exists>k\<le>Suc (length ns). path_match p (take k (ns @ [n])) \<and> (\<exists>m. drop k (ns @ [n]) = [m] \<and> matchSegment (sg_match sg) m)"
    then obtain k m where k: "path_match p (take k (ns @ [n]))" "drop k (ns @ [n]) = [m]" "matchSegment (sg_match sg) m"
      by blast
    from arg_cong [OF k(2), of length] have "k = length ns" by simp
    with k show "path_match p ns \<and> matchSegment (sg_match sg) n" by simp
  qed (intro exI [of _ "length ns"], simp)
  finally show ?thesis .
qed

lemma path_match_snoc_empty: "\<not> sg_recursive sg \<Longrightarrow> \<not> path_match (p @ [sg]) []"
  by (simp add: path_match_append path_match_plain)

lemma scan_any_nth: "j < length dp \<Longrightarrow> scan_any a dp ! j \<longleftrightarrow> a \<or> (\<exists>i\<le>j. dp ! i)"
proof (induction a dp arbitrary: j rule: scan_any.induct)
  case (2 a b dp)
  show ?case
  proof (cases j)
    case (Suc k)
    have "(\<exists>i\<le>Suc k. (b # dp) ! i) \<longleftrightarrow> b \<or> (\<exists>i\<le>k. dp ! i)"
      by (metis Suc_le_mono le0 not0_implies_Suc nth_Cons_0 nth_Cons_Suc)
    with 2 Suc show ?thesis by auto
  qed simp
qed simp

lemma length_scan_any [simp]: "length (scan_any a dp) = length dp"
  by (induction a dp rule: scan_any.induct) simp_all

lemma length_row_down [simp]: "length (row_down t names m dp) = length dp"
  by (induction m arbitrary: dp) simp_all

lemma row_down_nth:
  "m < length dp \<Longrightarrow> j < length dp \<Longrightarrow>
   row_down t names m dp ! j =
     (if 1 \<le> j \<and> j \<le> m then dp ! (j - 1) \<and> matchSegment t (names ! (j - 1)) else dp ! j)"
proof (induction m arbitrary: dp)
  case (Suc m)
  then show ?case by (cases "j = Suc m") (auto simp: nth_list_update)
qed auto

lemma row_step_nth:
  assumes dp: "length dp = length names + 1" "\<And>j. j \<le> length names \<Longrightarrow> dp ! j = path_match pat (take j names)"
    and j: "j \<le> length names"
  shows "row_step names dp sg ! j = path_match (pat @ [sg]) (take j names)"
proof (cases "sg_recursive sg")
  case True
  have "row_step names dp sg ! j \<longleftrightarrow> (\<exists>i\<le>j. path_match pat (take i names))"
    using True dp j by (auto simp: row_step_def scan_any_nth)
  with True j show ?thesis by (auto simp: path_match_snoc_recursive min_absorb1 cong: conj_cong)
next
  case False
  show ?thesis
  proof (cases j)
    case 0
    with False dp(1) show ?thesis by (simp add: row_step_def path_match_snoc_empty)
  next
    case (Suc i)
    with j have "take j names = take i names @ [names ! i]" by (simp add: take_Suc_conv_app_nth)
    moreover have "row_step names dp sg ! j = (dp ! i \<and> matchSegment (sg_match sg) (names ! i))"
      using False Suc dp(1) j by (simp add: row_step_def row_down_nth)
    ultimately show ?thesis using False dp(2) [of i] j Suc by (simp add: path_match_snoc_plain)
  qed
qed

lemma matchRow_nth: "length (matchRow pat names) = length names + 1 \<and>
  (\<forall>j\<le>length names. matchRow pat names ! j = path_match pat (take j names))"
proof (induction pat rule: rev_induct)
  case Nil
  show ?case by (auto simp: matchRow_def nth_Cons')
next
  case (snoc sg pat)
  have s: "matchRow (pat @ [sg]) names = row_step names (matchRow pat names) sg" by (simp add: matchRow_def)
  have "length (row_step names (matchRow pat names) sg) = length names + 1"
    using snoc by (simp add: row_step_def)
  with snoc row_step_nth show ?case by (simp add: s)
qed

lemma matchSegments_path_match: "matchSegments pat names \<longleftrightarrow> path_match pat names"
  using matchRow_nth [of pat names] by (simp add: matchSegments_def)

lemma matchSegmentsDirAware_path_match:
  "matchSegmentsDirAware pat names \<longleftrightarrow> (\<exists>j\<in>{1..length names}. path_match pat (take j names))"
  using matchRow_nth [of pat names]
  by (auto simp: matchSegmentsDirAware_def list_ex_iff less_Suc_eq_le simp del: upt_Suc)

lemma matchAny_iff: "matchAny pats names \<longleftrightarrow> (\<exists>pat\<in>set pats. path_match pat names)"
  by (simp add: matchAny_def list_ex_iff matchSegments_path_match)

lemma matchAnyDirAware_iff:
  "matchAnyDirAware pats names \<longleftrightarrow> (\<exists>pat\<in>set pats. \<exists>j\<in>{1..length names}. path_match pat (take j names))"
  by (simp add: matchAnyDirAware_def list_ex_iff matchSegmentsDirAware_path_match)

lemma matchAnyDirAware_below: "matchAnyDirAware pats names \<Longrightarrow> matchAnyDirAware pats (names @ ms)"
proof -
  assume "matchAnyDirAware pats names"
  then obtain pat j where j: "pat \<in> set pats" "1 \<le> j" "j \<le> length names" "path_match pat (take j names)"
    by (auto simp: matchAnyDirAware_iff)
  then have "take j (names @ ms) = take j names" by simp
  with j show ?thesis unfolding matchAnyDirAware_iff by (metis atLeastAtMost_iff length_append trans_le_add1)
qed


section \<open>Classification\<close>

lemma Classify_Inr_iff:
  "Classify nfc casefold e path = Inr st \<longleftrightarrow>
     int (length path) \<le> en_max_path_bytes e \<and> is_ok (NormalizePath path) \<and>
     (let names = path_names nfc casefold e path;
          out = matchAnyDirAware (en_exclude e) names \<or> \<not> matchAny (en_include e) names
      in st = (if out then StatusExcluded
               else if matchAny (en_protected e) names then StatusProtected
               else if matchAny (en_immutable e) names then StatusImmutable
               else StatusNormal))"
  by (auto simp: Classify_def Let_def result_simps is_ok_iff)

lemma newEngine_exclude:
  assumes "newEngine nfc casefold incl excl prot immut mode withDefaults = Inr e"
  shows "\<exists>x. compileAll nfc excl ''exclude'' = Inr x \<and>
    (if withDefaults
     then \<exists>d. compileAll nfc DefaultExclusions ''default exclusion'' = Inr d \<and>
       en_exclude e = (if en_fold e then fold_patterns casefold (x @ d) else x @ d)
     else en_exclude e = (if en_fold e then fold_patterns casefold x else x))"
  using assms by (auto simp: newEngine_def result_simps Let_def split: if_splits)

lemma compileAll_nth:
  "compileAll nfc ps what = Inr cs \<Longrightarrow> p \<in> set ps \<Longrightarrow> \<exists>c. compile nfc p = Inr c \<and> c \<in> set cs"
  by (auto simp: compileAll_def mapE_Inr_iff result_simps list_all2_conv_all_nth in_set_conv_nth)

lemma fold_patterns_mem:
  "c \<in> set cs \<Longrightarrow> map (\<lambda>sg. sg\<lparr>sg_match := casefold (sg_match sg)\<rparr>) c \<in> set (fold_patterns casefold cs)"
  by (simp add: fold_patterns_def)

lemma path_match_any_depth:
  "sg_recursive a \<Longrightarrow> sg_recursive b \<Longrightarrow> \<not> sg_recursive sg \<Longrightarrow> n \<in> set ns \<Longrightarrow> matchSegment (sg_match sg) n \<Longrightarrow>
   path_match [a, sg, b] ns"
proof -
  assume r: "sg_recursive a" "sg_recursive b" "\<not> sg_recursive sg" and n: "n \<in> set ns" "matchSegment (sg_match sg) n"
  from n(1) obtain us vs where ns: "ns = us @ n # vs" by (auto simp: in_set_conv_decomp)
  have "path_match [b] vs" using r(2) by (auto simp: path_match_recursive)
  with r n(2) have "path_match [sg, b] (drop (length us) ns)" by (simp add: ns path_match_plain)
  with r(1) ns show ?thesis unfolding path_match_recursive [OF r(1)]
    by (intro exI [of _ "length us"]) auto
qed

lemma compile_git: "nfc ''**/.git/**'' = ''**/.git/**'' \<Longrightarrow>
  compile nfc ''**/.git/**'' =
    Inr [\<lparr>sg_text = ''**'', sg_match = ''**'', sg_recursive = True\<rparr>,
         \<lparr>sg_text = ''.git'', sg_match = ''.git'', sg_recursive = False\<rparr>,
         \<lparr>sg_text = ''**'', sg_match = ''**'', sg_recursive = True\<rparr>]"
  by (simp add: compile_def byte_def)

lemma matchSegment_git: "matchSegment ''.git'' ''.git''"
  by code_simp

lemma git_excluded:
  assumes e: "NewEngine nfc casefold incl excl prot immut mode = Inr e"
    and nfc: "nfc ''**/.git/**'' = ''**/.git/**''" and cf: "casefold ''.git'' = ''.git''"
    and git: "''.git'' \<in> set (split_on (CHR ''/'') (nfc path))"
    and c: "Classify nfc casefold e path = Inr st"
  shows "st = StatusExcluded"
proof -
  let ?names = "path_names nfc casefold e path"
  have n: "''.git'' \<in> set ?names"
    using git cf by (force simp: path_names_def Let_def image_iff)
  from newEngine_exclude [OF e [unfolded NewEngine_def]] obtain x d
    where d: "compileAll nfc DefaultExclusions ''default exclusion'' = Inr d"
      and x: "en_exclude e = (if en_fold e then fold_patterns casefold (x @ d) else x @ d)" by auto
  have "''**/.git/**'' \<in> set DefaultExclusions" by (simp add: DefaultExclusions_def)
  from compileAll_nth [OF d this] obtain c where c: "compile nfc ''**/.git/**'' = Inr c" "c \<in> set d" by blast
  obtain c' where c': "c' \<in> set (en_exclude e)" "c' = (if en_fold e then map (\<lambda>sg. sg\<lparr>sg_match := casefold (sg_match sg)\<rparr>) c else c)"
    using c(2) x by (simp add: fold_patterns_mem)
  have "\<exists>a g b. c' = [a, g, b] \<and> sg_recursive a \<and> sg_recursive b \<and> \<not> sg_recursive g \<and> sg_match g = ''.git''"
    using c(1) cf by (auto simp: c'(2) compile_git [of nfc, OF nfc])
  then have "path_match c' ?names"
    using n matchSegment_git by (metis path_match_any_depth)
  moreover have "take (length ?names) ?names = ?names" "1 \<le> length ?names"
    using length_pos_if_in_set [OF n] by (simp_all add: Suc_le_eq)
  ultimately have "matchAnyDirAware (en_exclude e) ?names"
    using c'(1) unfolding matchAnyDirAware_iff by (metis atLeastAtMost_iff order_refl)
  with assms(5) show ?thesis by (simp add: Classify_Inr_iff Let_def)
qed

lemma excluded_below:
  assumes slash: "nfc (d @ ''/'' @ p) = nfc d @ ''/'' @ nfc p"
    and ex: "matchAnyDirAware (en_exclude e) (path_names nfc casefold e d)"
    and c: "Classify nfc casefold e (d @ ''/'' @ p) = Inr st"
  shows "st = StatusExcluded"
proof -
  have split: "split_on c (u @ c # v) = split_on c u @ split_on c v" for c and u v :: string
    by (induction u) (auto split: list.splits)
  have "\<exists>ms. path_names nfc casefold e (d @ ''/'' @ p) = path_names nfc casefold e d @ ms"
    using slash by (simp add: path_names_def Let_def split)
  with ex matchAnyDirAware_below have "matchAnyDirAware (en_exclude e) (path_names nfc casefold e (d @ ''/'' @ p))"
    by metis
  with c show ?thesis by (simp add: Classify_Inr_iff Let_def)
qed

lemma protection_engine_sees_all:
  assumes e: "NewProtectionEngine nfc casefold prot immut mode = Inr e"
    and nfc: "nfc ''**'' = ''**''"
    and c: "Classify nfc casefold e path = Inr st"
  shows "st \<noteq> StatusExcluded"
proof -
  from e have x: "en_exclude e = []" and i: "\<exists>sg. en_include e = [[sg]] \<and> sg_recursive sg"
    using nfc by (auto simp: NewProtectionEngine_def newEngine_def result_simps Let_def compileAll_def
      compile_def byte_def fold_patterns_def split: if_splits)
  from i have "matchAny (en_include e) names" for names
    by (auto simp: matchAny_iff path_match_recursive)
  with c x show ?thesis by (auto simp: Classify_Inr_iff Let_def matchAnyDirAware_iff split: if_splits)
qed


section \<open>Properties\<close>

text \<open>C16: against a name without a star byte, \<open>matchSegment\<close> decides exactly the documented
  glob relation: \<open>*\<close> any run of bytes, \<open>?\<close> one byte, every other byte itself.\<close>

theorem matchSegment_correct:
  assumes "CHR ''*'' \<notin> set name"
  shows "matchSegment pattern name \<longleftrightarrow> glob pattern name"
  using assms by (rule matchSegment_glob)

theorem matchSegment_correct_witness:
  "glob ''n*?s.md'' ''notes.md'' \<and> matchSegment ''n*?s.md'' ''notes.md'' \<and> \<not> matchSegment ''n*?s.md'' ''nots.m''"
proof -
  have "CHR ''*'' \<notin> set ''notes.md''" "CHR ''*'' \<notin> set ''nots.m''" by simp_all
  moreover have "glob ''n*?s.md'' ''notes.md''" "\<not> glob ''n*?s.md'' ''nots.m''" by code_simp+
  ultimately show ?thesis using matchSegment_correct by blast
qed

text \<open>C17: the in-place table decides the declarative segment relation, and one scan of its last
  row decides whether the pattern matches the path or one of its proper ancestors.\<close>

theorem segment_table_correct:
  "matchSegments pat names = path_match pat names \<and>
   matchSegmentsDirAware pat names = list_ex (\<lambda>j. path_match pat (take j names)) [1..<length names + 1]"
  by (auto simp: matchSegments_path_match matchSegmentsDirAware_path_match list_ex_iff less_Suc_eq_le
      simp del: upt_Suc)

text \<open>\<open>Classify\<close> succeeds exactly on a path within the byte bound that normalises, and then
  gives the first status that applies of excluded, protected, immutable and normal, where
  exclusion looks at every ancestor and the other sets at the whole path.\<close>

theorem Classify_precedence:
  "Classify nfc casefold e path = Inr st \<longleftrightarrow>
     int (length path) \<le> en_max_path_bytes e \<and> is_ok (NormalizePath path) \<and>
     (let names = path_names nfc casefold e path;
          hits = (\<lambda>pats. list_ex (\<lambda>pat. path_match pat names) pats);
          below = list_ex (\<lambda>pat. list_ex (\<lambda>j. path_match pat (take j names)) [1..<length names + 1]) (en_exclude e)
      in st = (if below then StatusExcluded
               else if \<not> hits (en_include e) then StatusExcluded
               else if hits (en_protected e) then StatusProtected
               else if hits (en_immutable e) then StatusImmutable
               else StatusNormal))"
proof -
  have "matchAnyDirAware pats names =
      list_ex (\<lambda>pat. list_ex (\<lambda>j. path_match pat (take j names)) [1..<length names + 1]) pats" for pats names
    by (simp add: matchAnyDirAware_iff list_ex_iff atLeastLessThanSuc_atLeastAtMost del: upt_Suc)
  then show ?thesis
    unfolding Classify_Inr_iff by (simp add: matchAny_iff list_ex_iff Let_def del: upt_Suc)
qed

text \<open>a path under an excluded path is excluded (PTH-009). The hypothesis on \<open>nfc\<close> is that
  normalisation never composes across a path separator.\<close>

theorem exclusion_covers_subtree:
  assumes "nfc (d @ ''/'' @ p) = nfc d @ ''/'' @ nfc p"
    and "matchAnyDirAware (en_exclude e) (path_names nfc casefold e d)"
    and "Classify nfc casefold e (d @ ''/'' @ p) = Inr st"
  shows "st = StatusExcluded"
  using assms by (rule excluded_below)

definition sample_engine :: Engine where
  "sample_engine =
     (case NewEngine id id [''**''] [''Secrets''] [''*.key''] [] CaseSensitive of
        Inr e \<Rightarrow> e
      | Inl _ \<Rightarrow> \<lparr>en_include = [], en_exclude = [], en_protected = [], en_immutable = [], en_fold = False,
                  en_max_path_bytes = 0\<rparr>)"

theorem exclusion_covers_subtree_witness:
  "Classify id id sample_engine ''Secrets/a/b.md'' = Inr StatusExcluded"
proof -
  have "matchAnyDirAware (en_exclude sample_engine) (path_names id id sample_engine ''Secrets'')" by code_simp
  moreover have "\<exists>st. Classify id id sample_engine (''Secrets'' @ ''/'' @ ''a/b.md'') = Inr st"
    unfolding is_ok_iff [symmetric] by code_simp
  ultimately show ?thesis
    using exclusion_covers_subtree [of id "''Secrets''" "''a/b.md''" sample_engine id] by fastforce
qed

text \<open>no engine that \<open>NewEngine\<close> builds can be configured to let a path with a \<open>.git\<close>
  segment through (PTH-007); the hypotheses on \<open>nfc\<close> and \<open>casefold\<close> are that they leave
  these lower-case ASCII texts alone.\<close>

theorem git_always_excluded:
  assumes "NewEngine nfc casefold incl excl prot immut mode = Inr e"
    and "nfc ''**/.git/**'' = ''**/.git/**''" and "casefold ''.git'' = ''.git''"
    and "''.git'' \<in> set (split_on (CHR ''/'') (nfc path))"
    and "Classify nfc casefold e path = Inr st"
  shows "st = StatusExcluded"
  using assms by (rule git_excluded)

theorem git_always_excluded_witness:
  "Classify id id sample_engine ''sub/.git/config'' = Inr StatusExcluded"
proof -
  have "\<exists>e. NewEngine id id [''**''] [''Secrets''] [''*.key''] [] CaseSensitive = Inr e"
    unfolding is_ok_iff [symmetric] by code_simp
  then have "NewEngine id id [''**''] [''Secrets''] [''*.key''] [] CaseSensitive = Inr sample_engine"
    by (auto simp: sample_engine_def)
  moreover have "\<exists>st. Classify id id sample_engine ''sub/.git/config'' = Inr st"
    unfolding is_ok_iff [symmetric] by code_simp
  moreover have "''.git'' \<in> set (split_on (CHR ''/'') (id ''sub/.git/config''))" by simp
  ultimately show ?thesis using git_always_excluded [of id id] by fastforce
qed

text \<open>the protection engine never reports a path as excluded, so an exclusion cannot hide
  a protected or immutable path from it.\<close>

theorem protection_engine_never_excludes:
  assumes "NewProtectionEngine nfc casefold prot immut mode = Inr e"
    and "nfc ''**'' = ''**''"
    and "Classify nfc casefold e path = Inr st"
  shows "st \<noteq> StatusExcluded"
  using assms by (rule protection_engine_sees_all)

theorem protection_engine_never_excludes_witness:
  "\<exists>e. NewProtectionEngine id id [''.git/hooks''] [] CaseSensitive = Inr e \<and>
       Classify id id e ''.git/hooks'' = Inr StatusProtected \<and> StatusProtected \<noteq> StatusExcluded"
proof -
  have "\<exists>e. NewProtectionEngine id id [''.git/hooks''] [] CaseSensitive = Inr e \<and>
      Classify id id e ''.git/hooks'' = Inr StatusProtected"
    by (simp add: NewProtectionEngine_def newEngine_def compileAll_def compile_def byte_def CaseSensitive_def
        CaseInsensitive_def) code_simp
  moreover have "id ''**'' = ''**''" by simp
  ultimately show ?thesis using protection_engine_never_excludes [of id id] by blast
qed

text \<open>a star byte in the name is consumed as a literal by a star of the pattern before the
  wildcard branch is tried, so \<open>*\<close> does not match the name \<open>*a\<close> and a file named
  \<open>secret*x\<close> escapes the protected pattern \<open>secret*\<close>.\<close>

theorem star_byte_escapes_pattern:
  "glob ''*'' ''*a'' \<and> \<not> matchSegment ''*'' ''*a'' \<and>
   bindE (NewEngine id id [''**''] [] [''secret*''] [] CaseSensitive) (\<lambda>e. Classify id id e ''secret*x'') = Inr StatusNormal \<and>
   bindE (NewEngine id id [''**''] [] [''secret*''] [] CaseSensitive) (\<lambda>e. Classify id id e ''secretx'') = Inr StatusProtected"
  by code_simp

end
