(* ===== verification/Ingest.thy ===== *)
theory Ingest
  imports Fingerprint PathPattern
begin

text \<open>
  Batch normalisation (\<open>src/internal/app/ingest/batch.go\<close>): entries are grouped per
  path, each path is coalesced to its final state, unchanged and out-of-scope paths are
  dropped with a reason, and the rest becomes one sorted, fingerprinted batch.

  The contained file reads (\<open>localfs.Resolver\<close>), the stored path facts and the import
  evidence are records of functions: what each call returns for a path while the batch is
  built. Their errors are the error classes that \<open>errors.Is\<close> tells apart. The loop body
  \<open>batch_step\<close> takes the result built so far, as the code does; the lemmas show that one
  path's contribution does not depend on the others.
\<close>

datatype fs_error =
    ErrEscape
  | ErrNotRegular
  | ErrMissing
  | ErrUnreadable
  | ErrTooLarge
  | ErrPathTooLong
  | ErrNotExist
  | FsOther string

record Resolver =
  rv_stat :: "string \<Rightarrow> fs_error + unit"
  rv_resolve :: "string \<Rightarrow> fs_error + string"
  rv_open :: "string \<Rightarrow> int \<Rightarrow> fs_error + string stream"

record PathFacts =
  pf_prior :: "string \<Rightarrow> string + string option"
  pf_import :: "(string \<Rightarrow> string \<Rightarrow> string + (string \<times> int) option) option"

definition NoFacts :: PathFacts where
  "NoFacts = \<lparr>pf_prior = (\<lambda>_. Inr None), pf_import = None\<rparr>"

definition MapFacts :: "(string \<rightharpoonup> string) \<Rightarrow> PathFacts" where
  "MapFacts m = \<lparr>pf_prior = (\<lambda>p. Inr (m p)), pf_import = None\<rparr>"

record Entry =
  we_name :: string
  we_ordinal :: int
  we_op :: string
  we_type :: string

record ImportMatch =
  im_job_id :: string
  im_path :: string
  im_after :: string
  im_fence :: int

record DropRecord =
  dr_path :: string
  dr_reason :: string

record BatchResult =
  br_changes :: "ChangeItem list"
  br_fingerprint :: string
  br_dropped :: "DropRecord list"
  br_replacements :: "string set"
  br_hash_unknown :: "string list"
  br_protected :: "string list"
  br_immutable :: "string list"
  br_import_matches :: "ImportMatch list"

record Options =
  op_max_hash_bytes :: int
  op_file_scope :: string

datatype ingest_error =
    NilEngine
  | NilResolver
  | MaxHashNotPositive
  | MaxHashTooLarge
  | UnsafeClassify string pattern_error
  | UnsafeFinalState string fs_error
  | FinalStateFailed string fs_error
  | UnsafeDelete string fs_error
  | UnsafeReplacement string fs_error
  | UnsafeOpen string fs_error
  | OpenFailed string fs_error
  | HashFailed string string
  | FactsFailed string string
  | AttributionFailed string string
  | ItemInvalid string record_error
  | BatchFingerprintFailed fingerprint_error

text \<open>The errors that wrap \<open>ErrUnsafePath\<close>.\<close>

fun is_unsafe_path :: "ingest_error \<Rightarrow> bool" where
  "is_unsafe_path (UnsafeClassify _ _) \<longleftrightarrow> True"
| "is_unsafe_path (UnsafeFinalState _ _) \<longleftrightarrow> True"
| "is_unsafe_path (UnsafeDelete _ _) \<longleftrightarrow> True"
| "is_unsafe_path (UnsafeReplacement _ _) \<longleftrightarrow> True"
| "is_unsafe_path (UnsafeOpen _ _) \<longleftrightarrow> True"
| "is_unsafe_path _ \<longleftrightarrow> False"

definition ReasonUnchangedModify :: string where
  "ReasonUnchangedModify = ''unchanged_content''"

definition ReasonCreateDeleteNever :: string where
  "ReasonCreateDeleteNever = ''create_delete_never_existed''"

definition ReasonExcluded :: string where
  "ReasonExcluded = ''excluded''"

definition ReasonSyncImportExact :: string where
  "ReasonSyncImportExact = ''sync_import_exact''"

section \<open>Scope\<close>

definition has_suffix :: "string \<Rightarrow> string \<Rightarrow> bool" where
  "has_suffix s suf = (length suf \<le> length s \<and> drop (length s - length suf) s = suf)"

definition isMarkdownPath :: "string \<Rightarrow> bool" where
  "isMarkdownPath path = (has_suffix (to_lower path) ''.md'' \<or> has_suffix (to_lower path) ''.markdown'')"

definition OutsideScopePredicate :: "(string \<Rightarrow> pattern_error + Status) \<Rightarrow> string \<Rightarrow> string \<Rightarrow> bool" where
  "OutsideScopePredicate classify fileScope path =
     (if fileScope = ''markdown'' \<and> \<not> isMarkdownPath path then True
      else case classify path of Inl _ \<Rightarrow> False | Inr st \<Rightarrow> st = StatusExcluded)"

section \<open>Grouping entries per path\<close>

record PathSeq =
  ps_ops :: "string list"
  ps_last :: string
  ps_file_type :: string
  ps_ordinal :: int

text \<open>\<open>paths\<close> and \<open>byPath\<close> of the source as one list in order of first appearance.\<close>

fun add_entry :: "Entry \<Rightarrow> (string \<times> PathSeq) list \<Rightarrow> (string \<times> PathSeq) list" where
  "add_entry e [] =
     [(we_name e, \<lparr>ps_ops = [we_op e], ps_last = we_op e, ps_file_type = we_type e, ps_ordinal = we_ordinal e\<rparr>)]"
| "add_entry e ((p, s) # ps) =
     (if p = we_name e
      then (p, s\<lparr>ps_ops := ps_ops s @ [we_op e], ps_last := we_op e, ps_file_type := we_type e\<rparr>) # ps
      else (p, s) # add_entry e ps)"

definition group_entries :: "Entry list \<Rightarrow> (string \<times> PathSeq) list" where
  "group_entries es = foldl (\<lambda>ps e. add_entry e ps) [] es"

section \<open>Coalescing one path\<close>

text \<open>\<open>Settled op replaced forced\<close>: the final operation, whether the path was destroyed and
  recreated, and whether its digest is forced unknown; the last component lists the path
  when an unreadable survivor already made its hash unknown.\<close>

datatype coalesced =
    NeverExisted
  | Settled string bool bool "string list"

definition saw_life_after_delete :: "string list \<Rightarrow> bool" where
  "saw_life_after_delete ops = (Operation_str OpDelete \<in> set (butlast ops))"

definition coalesce_delete :: "Resolver \<Rightarrow> string \<Rightarrow> string list \<Rightarrow> ingest_error + coalesced" where
  "coalesce_delete rv path unknown =
     (case rv_resolve rv path of
        Inl e \<Rightarrow> Inl (UnsafeDelete path e)
      | Inr _ \<Rightarrow> Inr (Settled (Operation_str OpDelete) False False unknown))"

definition coalesce :: "Resolver \<Rightarrow> string \<Rightarrow> PathSeq \<Rightarrow> bool \<Rightarrow> ingest_error + coalesced" where
  "coalesce rv path s hadPrior =
     (if ps_last s = Operation_str OpDelete then
        (if hd (ps_ops s) = Operation_str OpCreate \<and> \<not> hadPrior then
           (case rv_stat rv path of
              Inr _ \<Rightarrow> coalesce_delete rv path []
            | Inl e \<Rightarrow>
                if e = ErrNotExist \<or> e = ErrNotRegular then Inr NeverExisted
                else if e = ErrUnreadable then coalesce_delete rv path [path]
                else if e = ErrEscape then Inl (UnsafeFinalState path e)
                else Inl (FinalStateFailed path e))
         else coalesce_delete rv path [])
      else if saw_life_after_delete (ps_ops s) then
        (case rv_stat rv path of
           Inr _ \<Rightarrow> Inr (Settled (Operation_str OpCreate) True False [])
         | Inl e \<Rightarrow>
             if e = ErrNotExist then Inr (Settled (Operation_str OpDelete) False False [])
             else if e = ErrNotRegular \<or> e = ErrUnreadable then Inr (Settled (Operation_str OpCreate) True True [])
             else Inl (UnsafeReplacement path e))
      else if hd (ps_ops s) = Operation_str OpCreate \<and> \<not> hadPrior
      then Inr (Settled (Operation_str OpCreate) False False [])
      else Inr (Settled (Operation_str OpModify) False False []))"

definition hashFile :: "Resolver \<Rightarrow> string \<Rightarrow> int \<Rightarrow> ingest_error + string option" where
  "hashFile rv path maxBytes =
     (case rv_open rv path maxBytes of
        Inl e \<Rightarrow>
          if e \<in> {ErrTooLarge, ErrNotRegular, ErrMissing, ErrUnreadable} then Inr None
          else if e = ErrEscape \<or> e = ErrPathTooLong then Inl (UnsafeOpen path e)
          else Inl (OpenFailed path e)
      | Inr f \<Rightarrow>
          (case SumBounded f maxBytes of
             (err, digest, n, over) \<Rightarrow>
               case err of
                 Some e \<Rightarrow> Inl (HashFailed path e)
               | None \<Rightarrow> Inr (if over then None else Some digest)))"

section \<open>The loop body\<close>

text \<open>What one path adds to the result built so far.\<close>

definition add_drop :: "string \<Rightarrow> string \<Rightarrow> BatchResult \<Rightarrow> BatchResult" where
  "add_drop path reason r = r\<lparr>br_dropped := br_dropped r @ [\<lparr>dr_path = path, dr_reason = reason\<rparr>]\<rparr>"

definition add_change :: "ChangeItem \<Rightarrow> BatchResult \<Rightarrow> ingest_error + BatchResult" where
  "add_change item r =
     bindE (map_err (ItemInvalid (ci_path item)) (ChangeItem_Validate item)) (\<lambda>_.
       Inr (r\<lparr>br_changes := br_changes r @ [item]\<rparr>))"

definition match_import :: "PathFacts \<Rightarrow> string \<Rightarrow> string \<Rightarrow> ingest_error + (string \<times> int) option" where
  "match_import facts path after =
     (case pf_import facts of
        None \<Rightarrow> Inr None
      | Some m \<Rightarrow> map_err (AttributionFailed path) (m path after))"

definition add_import :: "string \<Rightarrow> string \<Rightarrow> string \<times> int \<Rightarrow> BatchResult \<Rightarrow> BatchResult" where
  "add_import path after jf r =
     add_drop path ReasonSyncImportExact
       (r\<lparr>br_import_matches := br_import_matches r @
            [\<lparr>im_job_id = fst jf, im_path = path, im_after = after, im_fence = snd jf\<rparr>]\<rparr>)"

definition finish_delete :: "PathFacts \<Rightarrow> string option \<Rightarrow> ChangeItem \<Rightarrow> BatchResult \<Rightarrow> ingest_error + BatchResult" where
  "finish_delete facts prior item r =
     bindE (match_import facts (ci_path item) ''absent'') (\<lambda>m.
       case m of
         Some jf \<Rightarrow> Inr (add_import (ci_path item) ''absent'' jf r)
       | None \<Rightarrow> add_change (item\<lparr>ci_exists_after := False,
                   ci_digest_status := DigestStatus_str DigestNotApplicable,
                   ci_before_digest := (case prior of None \<Rightarrow> [] | Some d \<Rightarrow> d)\<rparr>) r)"

definition finish_present ::
  "Resolver \<Rightarrow> PathFacts \<Rightarrow> int \<Rightarrow> Status \<Rightarrow> string option \<Rightarrow> bool \<Rightarrow> bool \<Rightarrow> ChangeItem \<Rightarrow> BatchResult \<Rightarrow>
   ingest_error + BatchResult" where
  "finish_present rv facts maxBytes status prior replaced forced item r =
     (let path = ci_path item;
          unknown = item\<lparr>ci_exists_after := True, ci_digest_status := DigestStatus_str DigestUnavailable\<rparr>
      in if status = StatusProtected \<or> status = StatusImmutable \<or> forced
         then add_change unknown
           (if path \<in> set (br_hash_unknown r) then r else r\<lparr>br_hash_unknown := br_hash_unknown r @ [path]\<rparr>)
         else bindE (hashFile rv path maxBytes) (\<lambda>known.
           case known of
             None \<Rightarrow> add_change unknown (r\<lparr>br_hash_unknown := br_hash_unknown r @ [path]\<rparr>)
           | Some digest \<Rightarrow>
               bindE (match_import facts path digest) (\<lambda>m.
                 case m of
                   Some jf \<Rightarrow> Inr (add_import path digest jf r)
                 | None \<Rightarrow>
                     if ci_operation item = Operation_str OpModify \<and> prior = Some digest \<and> \<not> replaced
                     then Inr (add_drop path ReasonUnchangedModify r)
                     else add_change (item\<lparr>ci_exists_after := True, ci_after_digest := digest,
                            ci_digest_status := DigestStatus_str DigestKnown\<rparr>) r)))"

record batch_env =
  be_classify :: "string \<Rightarrow> pattern_error + Status"
  be_resolver :: Resolver
  be_facts :: PathFacts
  be_options :: Options

definition in_scope :: "batch_env \<Rightarrow> string \<Rightarrow> bool" where
  "in_scope env path = (op_file_scope (be_options env) \<noteq> ''markdown'' \<or> isMarkdownPath path)"

definition settle_path ::
  "batch_env \<Rightarrow> Status \<Rightarrow> string \<Rightarrow> PathSeq \<Rightarrow> BatchResult \<Rightarrow> ingest_error + BatchResult" where
  "settle_path env status path s r =
     bindE (map_err (FactsFailed path) (pf_prior (be_facts env) path)) (\<lambda>prior.
     bindE (coalesce (be_resolver env) path s (prior \<noteq> None)) (\<lambda>f.
       case f of
         NeverExisted \<Rightarrow> Inr (add_drop path ReasonCreateDeleteNever r)
       | Settled finalOp replaced forced unknown \<Rightarrow>
           let r = r\<lparr>br_hash_unknown := br_hash_unknown r @ unknown,
                     br_replacements := br_replacements r \<union> (if replaced then {path} else {})\<rparr>;
               item = \<lparr>ci_path = path, ci_ordinal = ps_ordinal s, ci_operation = finalOp, ci_exists_after = False,
                       ci_file_type = ps_file_type s, ci_before_digest = [], ci_after_digest = [],
                       ci_digest_status = []\<rparr>
           in if finalOp = Operation_str OpDelete then finish_delete (be_facts env) prior item r
              else finish_present (be_resolver env) (be_facts env) (op_max_hash_bytes (be_options env))
                     status prior replaced forced item r))"

definition batch_step ::
  "batch_env \<Rightarrow> string \<times> PathSeq \<Rightarrow> BatchResult \<Rightarrow> ingest_error + BatchResult" where
  "batch_step env ps r =
     (case ps of (path, s) \<Rightarrow>
       bindE (map_err (UnsafeClassify path) (be_classify env path)) (\<lambda>status.
         if status = StatusExcluded then Inr (add_drop path ReasonExcluded r)
         else
           let r = (if status = StatusProtected then r\<lparr>br_protected := br_protected r @ [path]\<rparr>
                    else if status = StatusImmutable then r\<lparr>br_immutable := br_immutable r @ [path]\<rparr>
                    else r)
           in if \<not> in_scope env path then Inr (add_drop path ReasonExcluded r)
              else settle_path env status path s r))"

fun batch_loop :: "batch_env \<Rightarrow> (string \<times> PathSeq) list \<Rightarrow> BatchResult \<Rightarrow> ingest_error + BatchResult" where
  "batch_loop env [] r = Inr r"
| "batch_loop env (ps # rest) r = bindE (batch_step env ps r) (batch_loop env rest)"

section \<open>The batch\<close>

definition empty_result :: BatchResult where
  "empty_result = \<lparr>br_changes = [], br_fingerprint = [], br_dropped = [], br_replacements = {},
     br_hash_unknown = [], br_protected = [], br_immutable = [], br_import_matches = []\<rparr>"

definition drop_lt :: "DropRecord \<Rightarrow> DropRecord \<Rightarrow> bool" where
  "drop_lt a b = (if dr_path a \<noteq> dr_path b then dr_path a < dr_path b else dr_reason a < dr_reason b)"

definition import_lt :: "ImportMatch \<Rightarrow> ImportMatch \<Rightarrow> bool" where
  "import_lt a b = (im_path a < im_path b)"

definition projection :: "ChangeItem list \<Rightarrow> FingerprintChange list" where
  "projection cs = map (\<lambda>c. \<lparr>fc_after_digest = ci_after_digest c, fc_before_digest = ci_before_digest c,
     fc_exists_after = ci_exists_after c, fc_operation = ci_operation c, fc_path = ci_path c\<rparr>) cs"

definition sort_result :: "BatchResult \<Rightarrow> BatchResult" where
  "sort_result r = r\<lparr>
     br_changes := SortChanges (br_changes r),
     br_dropped := sort_by drop_lt (br_dropped r),
     br_hash_unknown := sort (br_hash_unknown r),
     br_protected := sort (br_protected r),
     br_immutable := sort (br_immutable r),
     br_import_matches := sort_by import_lt (br_import_matches r)\<rparr>"

definition batch_input :: "SourceFlags \<Rightarrow> string \<Rightarrow> BatchResult \<Rightarrow> ContentFingerprintInput" where
  "batch_input flags resourceID r =
     \<lparr>fi_changes = projection (br_changes r), fi_resource_id = resourceID, fi_fresh = sf_fresh_instance flags,
      fi_has_relative = sf_has_relative flags, fi_overflow = sf_overflow flags, fi_relative_root = sf_relative_root flags\<rparr>"

definition batch_env_of ::
  "(string \<Rightarrow> pattern_error + Status) \<Rightarrow> Resolver \<Rightarrow> PathFacts option \<Rightarrow> Options \<Rightarrow> batch_env" where
  "batch_env_of classify rv facts opts =
     \<lparr>be_classify = classify, be_resolver = rv, be_facts = (case facts of None \<Rightarrow> NoFacts | Some f \<Rightarrow> f),
      be_options = opts\<rparr>"

definition BuildBatch ::
  "Entry list \<Rightarrow> (string \<Rightarrow> pattern_error + Status) option \<Rightarrow> Resolver option \<Rightarrow> PathFacts option \<Rightarrow> SourceFlags \<Rightarrow>
   string \<Rightarrow> Options \<Rightarrow> ingest_error + BatchResult" where
  "BuildBatch entries engine resolver facts flags resourceID opts =
     (case engine of None \<Rightarrow> Inl NilEngine | Some classify \<Rightarrow>
      case resolver of None \<Rightarrow> Inl NilResolver | Some rv \<Rightarrow>
        if op_max_hash_bytes opts \<le> 0 then Inl MaxHashNotPositive
        else if op_max_hash_bytes opts = 2 ^ 63 - 1 then Inl MaxHashTooLarge
        else
          bindE (batch_loop (batch_env_of classify rv facts opts) (group_entries entries) empty_result) (\<lambda>r.
             let r = sort_result r in
             bindE (map_err BatchFingerprintFailed (Content (batch_input flags resourceID r))) (\<lambda>fp.
               Inr (r\<lparr>br_fingerprint := fp\<rparr>))))"

section \<open>Each path contributes on its own\<close>

definition merge_result :: "BatchResult \<Rightarrow> BatchResult \<Rightarrow> BatchResult" where
  "merge_result r d = \<lparr>
     br_changes = br_changes r @ br_changes d,
     br_fingerprint = br_fingerprint r,
     br_dropped = br_dropped r @ br_dropped d,
     br_replacements = br_replacements r \<union> br_replacements d,
     br_hash_unknown = br_hash_unknown r @ br_hash_unknown d,
     br_protected = br_protected r @ br_protected d,
     br_immutable = br_immutable r @ br_immutable d,
     br_import_matches = br_import_matches r @ br_import_matches d\<rparr>"

lemma merge_empty [simp]: "merge_result r empty_result = r"
  by (simp add: merge_result_def empty_result_def)

definition extend_result :: "BatchResult \<Rightarrow> ingest_error + BatchResult \<Rightarrow> ingest_error + BatchResult" where
  "extend_result r m = (case m of Inl e \<Rightarrow> Inl e | Inr d \<Rightarrow> Inr (merge_result r d))"

lemma extend_result_simps [simp]: "extend_result r (Inl e) = Inl e" "extend_result r (Inr d) = Inr (merge_result r d)"
  by (simp_all add: extend_result_def)

lemma extend_result_bindE [simp]: "extend_result r (bindE m f) = bindE m (\<lambda>x. extend_result r (f x))"
  by (cases m) simp_all

lemma add_drop_local: "add_drop p reason (merge_result r d) = merge_result r (add_drop p reason d)"
  by (simp add: add_drop_def merge_result_def)

lemma add_import_local: "add_import p a jf (merge_result r d) = merge_result r (add_import p a jf d)"
  by (simp add: add_import_def add_drop_def merge_result_def)

lemma add_change_local: "add_change item (merge_result r d) = extend_result r (add_change item d)"
  by (simp add: add_change_def merge_result_def)

lemma finish_delete_local:
  "finish_delete facts prior item (merge_result r d) = extend_result r (finish_delete facts prior item d)"
  by (auto simp: finish_delete_def add_change_local add_import_local bindE_def split: sum.split option.split)

lemma finish_present_local:
  "ci_path item \<notin> set (br_hash_unknown r) \<Longrightarrow>
   finish_present rv facts mb status prior replaced forced item (merge_result r d) =
     extend_result r (finish_present rv facts mb status prior replaced forced item d)"
proof -
  assume p: "ci_path item \<notin> set (br_hash_unknown r)"
  have u: "(merge_result r d)\<lparr>br_hash_unknown := br_hash_unknown (merge_result r d) @ [q]\<rparr>
      = merge_result r (d\<lparr>br_hash_unknown := br_hash_unknown d @ [q]\<rparr>)" for q
    by (simp add: merge_result_def)
  have m: "ci_path item \<in> set (br_hash_unknown (merge_result r d)) \<longleftrightarrow> ci_path item \<in> set (br_hash_unknown d)"
    using p by (simp add: merge_result_def)
  show ?thesis
    by (auto simp: finish_present_def Let_def u m add_change_local add_import_local add_drop_local bindE_def
        split: sum.split option.split)
qed

lemma settle_path_local:
  "p \<notin> set (br_hash_unknown r) \<Longrightarrow>
   settle_path env status p s (merge_result r d) = extend_result r (settle_path env status p s d)"
proof -
  assume p: "p \<notin> set (br_hash_unknown r)"
  have u: "(merge_result r d)\<lparr>br_hash_unknown := br_hash_unknown (merge_result r d) @ us,
        br_replacements := br_replacements (merge_result r d) \<union> vs\<rparr>
      = merge_result r (d\<lparr>br_hash_unknown := br_hash_unknown d @ us, br_replacements := br_replacements d \<union> vs\<rparr>)" for us vs
    by (simp add: merge_result_def Un_assoc)
  show ?thesis
    using p by (auto simp: settle_path_def Let_def u add_drop_local finish_delete_local finish_present_local bindE_def
        split: sum.split coalesced.split)
qed

lemma batch_step_local:
  "fst ps \<notin> set (br_hash_unknown r) \<Longrightarrow> batch_step env ps r = extend_result r (batch_step env ps empty_result)"
proof -
  assume p: "fst ps \<notin> set (br_hash_unknown r)"
  have u: "r\<lparr>br_protected := br_protected r @ [q]\<rparr> = merge_result r (empty_result\<lparr>br_protected := br_protected empty_result @ [q]\<rparr>)"
    "r\<lparr>br_immutable := br_immutable r @ [q]\<rparr> = merge_result r (empty_result\<lparr>br_immutable := br_immutable empty_result @ [q]\<rparr>)" for q
    by (simp_all add: merge_result_def empty_result_def)
  have e: "add_drop q reason r = merge_result r (add_drop q reason empty_result)" for q reason
    using add_drop_local [of q reason r empty_result] by simp
  obtain q x where ps: "ps = (q, x)" by (cases ps)
  with p have p': "q \<notin> set (br_hash_unknown r)" by simp
  have s: "settle_path env st q x r = extend_result r (settle_path env st q x empty_result)" for st
    using settle_path_local [OF p', of env st x empty_result] by simp
  show ?thesis
    unfolding batch_step_def ps using p'
    by (auto simp: Let_def u e s settle_path_local add_drop_local bindE_def split: sum.split)
qed

text \<open>The contribution of one path.\<close>

abbreviation contribution :: "batch_env \<Rightarrow> string \<times> PathSeq \<Rightarrow> ingest_error + BatchResult" where
  "contribution env ps \<equiv> batch_step env ps empty_result"

lemmas step_defs = batch_step_def settle_path_def finish_delete_def finish_present_def add_drop_def add_import_def
  add_change_def empty_result_def

lemma hashFile_Some:
  "hashFile rv p mb = Inr (Some d) \<Longrightarrow>
   \<exists>f n. rv_open rv p mb = Inr f \<and> SumBounded f mb = (None, d, n, False)"
  by (auto simp: hashFile_def split: sum.splits if_splits prod.splits option.splits)


lemma coalesce_op:
  "coalesce rv p s h = Inr (Settled op rep frc unk) \<Longrightarrow>
   op \<in> {Operation_str OpDelete, Operation_str OpCreate, Operation_str OpModify} \<and> set unk \<subseteq> {p} \<and>
   (rep \<longrightarrow> op = Operation_str OpCreate)"
  by (auto simp: coalesce_def coalesce_delete_def split: if_splits sum.splits)

text \<open>One path becomes exactly one change or one drop, and only its own name enters the lists.\<close>

definition result_paths :: "BatchResult \<Rightarrow> string multiset" where
  "result_paths r = mset (map ci_path (br_changes r)) + mset (map dr_path (br_dropped r))"

definition adds :: "string \<Rightarrow> BatchResult \<Rightarrow> BatchResult \<Rightarrow> bool" where
  "adds p r r' \<longleftrightarrow>
     result_paths r' = add_mset p (result_paths r) \<and>
     set (br_hash_unknown r') \<subseteq> insert p (set (br_hash_unknown r)) \<and>
     br_protected r' = br_protected r \<and> br_immutable r' = br_immutable r \<and>
     (\<forall>c\<in>set (br_changes r') - set (br_changes r). ci_path c = p \<and> is_ok (ChangeItem_Validate c)) \<and>
     (br_import_matches r' = br_import_matches r \<or> (\<exists>m. br_import_matches r' = br_import_matches r @ [m] \<and> im_path m = p))"

lemma adds_drop: "adds p r (add_drop p reason r)"
  by (auto simp: adds_def add_drop_def result_paths_def)

lemma adds_import: "adds p r (add_import p a jf r)"
  by (auto simp: adds_def add_import_def add_drop_def result_paths_def)

lemma adds_change: "add_change item r = Inr r' \<Longrightarrow> adds (ci_path item) r r'"
  by (auto simp: adds_def add_change_def result_paths_def result_simps is_ok_iff)

lemma adds_unknown: "adds p (r\<lparr>br_hash_unknown := us\<rparr>) r' \<Longrightarrow> set us \<subseteq> insert p (set (br_hash_unknown r)) \<Longrightarrow> adds p r r'"
  by (auto simp: adds_def result_paths_def)

lemma adds_replacement: "adds p (r\<lparr>br_replacements := us\<rparr>) r' \<longleftrightarrow> adds p r r'"
  by (auto simp: adds_def result_paths_def)

lemma finish_delete_adds: "finish_delete facts prior item r = Inr r' \<Longrightarrow> adds (ci_path item) r r'"
  by (auto simp: finish_delete_def result_simps adds_import dest!: adds_change split: option.splits)

lemma finish_present_adds:
  "finish_present rv facts mb status prior replaced forced item r = Inr r' \<Longrightarrow> adds (ci_path item) r r'"
proof (cases "status = StatusProtected \<or> status = StatusImmutable \<or> forced")
  case True
  assume "finish_present rv facts mb status prior replaced forced item r = Inr r'"
  with True show ?thesis
    by (auto simp: finish_present_def Let_def dest!: adds_change intro: adds_unknown split: if_splits)
next
  case False
  assume f: "finish_present rv facts mb status prior replaced forced item r = Inr r'"
  with False obtain known where h: "hashFile rv (ci_path item) mb = Inr known"
    by (auto simp: finish_present_def Let_def result_simps)
  show ?thesis
  proof (cases known)
    case None
    with f h False show ?thesis
      by (auto simp: finish_present_def Let_def dest!: adds_change intro: adds_unknown)
  next
    case (Some digest)
    with f h False obtain m where m: "match_import facts (ci_path item) digest = Inr m"
      by (auto simp: finish_present_def Let_def result_simps)
    with f h False Some show ?thesis
      by (cases m) (auto simp: finish_present_def Let_def adds_import adds_drop dest!: adds_change split: if_splits)
  qed
qed

lemma settle_path_adds: "settle_path env status p s r = Inr r' \<Longrightarrow> adds p r r'"
proof -
  assume e: "settle_path env status p s r = Inr r'"
  then obtain prior f where h: "pf_prior (be_facts env) p = Inr prior"
    "coalesce (be_resolver env) p s (prior \<noteq> None) = Inr f"
    by (auto simp: settle_path_def result_simps)
  show ?thesis
  proof (cases f)
    case NeverExisted
    with e h show ?thesis by (auto simp: settle_path_def intro: adds_drop)
  next
    case (Settled op rep frc unk)
    let ?r = "r\<lparr>br_hash_unknown := br_hash_unknown r @ unk,
      br_replacements := br_replacements r \<union> (if rep then {p} else {})\<rparr>"
    from e h Settled have "adds p ?r r'"
      by (auto simp: settle_path_def Let_def dest!: finish_delete_adds finish_present_adds split: if_splits)
    then have "adds p (r\<lparr>br_hash_unknown := br_hash_unknown r @ unk\<rparr>) r'"
      by (simp add: adds_def result_paths_def)
    then show ?thesis
      by (rule adds_unknown) (use coalesce_op [OF h(2) [unfolded Settled]] in auto)
  qed
qed

lemma contribution_adds:
  assumes "contribution env (p, s) = Inr d"
  shows "result_paths d = {#p#} \<and> set (br_hash_unknown d) \<subseteq> {p} \<and>
    br_protected d = (if be_classify env p = Inr StatusProtected then [p] else []) \<and>
    br_immutable d = (if be_classify env p = Inr StatusImmutable then [p] else []) \<and>
    (\<forall>c\<in>set (br_changes d). ci_path c = p \<and> is_ok (ChangeItem_Validate c)) \<and>
    (br_import_matches d = [] \<or> (\<exists>m. br_import_matches d = [m] \<and> im_path m = p))"
proof -
  obtain st where st: "be_classify env p = Inr st"
    using assms by (auto simp: batch_step_def result_simps)
  let ?r = "if st = StatusProtected then empty_result\<lparr>br_protected := [p]\<rparr>
    else if st = StatusImmutable then empty_result\<lparr>br_immutable := [p]\<rparr> else empty_result"
  have "adds p ?r d"
  proof (cases "st \<noteq> StatusExcluded \<and> in_scope env p")
    case True
    then have "settle_path env st p s ?r = Inr d"
      using assms st by (auto simp: batch_step_def Let_def empty_result_def split: if_splits)
    then show ?thesis by (rule settle_path_adds)
  next
    case False
    then have "d = add_drop p ReasonExcluded ?r"
      using assms st by (auto simp: batch_step_def Let_def empty_result_def split: if_splits)
    then show ?thesis by (simp only: adds_drop)
  qed
  then show ?thesis
    using st by (auto simp: adds_def result_paths_def empty_result_def split: if_splits)
qed

section \<open>The loop as a map\<close>

lemma batch_loop_contributions:
  assumes "distinct (map fst pss)" and "fst ` set pss \<inter> set (br_hash_unknown r) = {}"
  shows "batch_loop env pss r = bindE (mapE (contribution env) pss) (\<lambda>ds. Inr (foldl merge_result r ds))"
  using assms
proof (induction pss arbitrary: r)
  case (Cons ps pss)
  have l: "batch_step env ps r = extend_result r (contribution env ps)"
    using Cons.prems(2) by (intro batch_step_local) auto
  show ?case
  proof (cases "contribution env ps")
    case (Inr d)
    obtain p s where ps: "ps = (p, s)" by (cases ps)
    have "set (br_hash_unknown (merge_result r d)) \<subseteq> insert p (set (br_hash_unknown r))"
      using contribution_adds [OF Inr [unfolded ps]] by (auto simp: merge_result_def)
    with Cons.prems ps have "fst ` set pss \<inter> set (br_hash_unknown (merge_result r d)) = {}" by auto
    with Cons.IH [of "merge_result r d"] Cons.prems(1) Inr show ?thesis
      by (auto simp: l bindE_def split: sum.split)
  qed (simp add: l)
qed simp

lemma fold_merge:
  "foldl merge_result r ds = \<lparr>
     br_changes = br_changes r @ concat (map br_changes ds),
     br_fingerprint = br_fingerprint r,
     br_dropped = br_dropped r @ concat (map br_dropped ds),
     br_replacements = br_replacements r \<union> \<Union> (set (map br_replacements ds)),
     br_hash_unknown = br_hash_unknown r @ concat (map br_hash_unknown ds),
     br_protected = br_protected r @ concat (map br_protected ds),
     br_immutable = br_immutable r @ concat (map br_immutable ds),
     br_import_matches = br_import_matches r @ concat (map br_import_matches ds)\<rparr>"
  by (induction ds arbitrary: r) (simp_all add: merge_result_def Un_assoc)

lemma add_entry_names: "fst ` set (add_entry e ps) = insert (we_name e) (fst ` set ps)"
  by (induction e ps rule: add_entry.induct) auto

lemma add_entry_distinct: "distinct (map fst ps) \<Longrightarrow> distinct (map fst (add_entry e ps))"
  by (induction e ps rule: add_entry.induct) (auto simp: add_entry_names)

lemma group_entries_distinct: "distinct (map fst (group_entries es))"
  unfolding group_entries_def
  by (rule rev_induct [where P = "\<lambda>es. distinct (map fst (foldl (\<lambda>ps e. add_entry e ps) [] es))"])
    (simp_all add: add_entry_distinct)

lemma group_entries_names: "fst ` set (group_entries es) = we_name ` set es"
  unfolding group_entries_def
  by (induction es rule: rev_induct) (simp_all add: add_entry_names)


section \<open>What a successful batch says\<close>

lemma BuildBatch_Inr_iff:
  "BuildBatch es (Some classify) (Some rv) facts flags rid opts = Inr b \<longleftrightarrow>
     0 < op_max_hash_bytes opts \<and> op_max_hash_bytes opts \<noteq> 2 ^ 63 - 1 \<and>
     (\<exists>ds fp. mapE (contribution (batch_env_of classify rv facts opts)) (group_entries es) = Inr ds \<and>
        Content (batch_input flags rid (sort_result (foldl merge_result empty_result ds))) = Inr fp \<and>
        b = (sort_result (foldl merge_result empty_result ds))\<lparr>br_fingerprint := fp\<rparr>)"
proof -
  have "fst ` set (group_entries es) \<inter> set (br_hash_unknown empty_result) = {}"
    by (simp add: empty_result_def)
  note l = batch_loop_contributions [OF group_entries_distinct this]
  show ?thesis by (auto simp: BuildBatch_def l result_simps Let_def)
qed

lemma BuildBatch_some:
  assumes "BuildBatch es engine resolver facts flags rid opts = Inr b"
  obtains classify rv where "engine = Some classify" "resolver = Some rv"
  using assms by (auto simp: BuildBatch_def split: option.splits)

lemma fold_empty:
  "foldl merge_result empty_result ds = \<lparr>
     br_changes = concat (map br_changes ds), br_fingerprint = [],
     br_dropped = concat (map br_dropped ds), br_replacements = \<Union> (set (map br_replacements ds)),
     br_hash_unknown = concat (map br_hash_unknown ds), br_protected = concat (map br_protected ds),
     br_immutable = concat (map br_immutable ds), br_import_matches = concat (map br_import_matches ds)\<rparr>"
  by (simp add: fold_merge empty_result_def)

text \<open>The sorted parts of a batch, as multisets of the contributions.\<close>

lemma batch_parts:
  assumes "b = (sort_result (foldl merge_result empty_result ds))\<lparr>br_fingerprint := fp\<rparr>"
  shows "mset (br_changes b) = mset (concat (map br_changes ds))"
    and "mset (br_dropped b) = mset (concat (map br_dropped ds))"
    and "br_protected b = sort (concat (map br_protected ds))"
    and "br_immutable b = sort (concat (map br_immutable ds))"
    and "br_hash_unknown b = sort (concat (map br_hash_unknown ds))"
  using assms by (simp_all add: sort_result_def fold_empty SortChanges_def)

lemma contributions_paths:
  "list_all2 (\<lambda>ps d. contribution env ps = Inr d) pss ds \<Longrightarrow>
   mset (map ci_path (concat (map br_changes ds))) + mset (map dr_path (concat (map br_dropped ds))) = mset (map fst pss)"
proof (induction rule: list_all2_induct)
  case (Cons ps pss d ds)
  obtain p s where "ps = (p, s)" by (cases ps)
  with Cons(1) contribution_adds [of env p s d] have "result_paths d = {#fst ps#}" by simp
  with Cons(3) show ?case by (simp add: result_paths_def union_ac)
qed simp

lemma contributions_status:
  assumes "list_all2 (\<lambda>ps d. contribution env ps = Inr d) pss ds"
  shows "concat (map br_protected ds) = filter (\<lambda>p. be_classify env p = Inr StatusProtected) (map fst pss)"
    and "concat (map br_immutable ds) = filter (\<lambda>p. be_classify env p = Inr StatusImmutable) (map fst pss)"
  using assms by (induction rule: list_all2_induct; use contribution_adds in fastforce)+

lemma contribution_cong:
  assumes "rv_stat rv = rv_stat rv'" "rv_resolve rv = rv_resolve rv'"
    and "be_classify env (fst ps) = Inr StatusNormal \<Longrightarrow> rv_open rv (fst ps) = rv_open rv' (fst ps)"
  shows "batch_step (env\<lparr>be_resolver := rv\<rparr>) ps r = batch_step (env\<lparr>be_resolver := rv'\<rparr>) ps r"
proof -
  obtain p s where ps: "ps = (p, s)" by (cases ps)
  have d: "coalesce_delete rv = coalesce_delete rv'"
    by (intro ext) (simp add: coalesce_delete_def assms(2))
  have c: "coalesce rv p s h = coalesce rv' p s h" for h
    unfolding coalesce_def d assms(1) ..
  have f: "finish_present rv facts mb st prior rep frc item r = finish_present rv' facts mb st prior rep frc item r"
    if "ci_path item = p" "be_classify env p = Inr st" "st \<noteq> StatusExcluded" for facts mb st prior rep frc item r
  proof -
    have "hashFile rv p mb = hashFile rv' p mb" if "st = StatusNormal"
      using that assms(3) ps \<open>be_classify env p = Inr st\<close> by (simp add: hashFile_def)
    with that show ?thesis by (cases st) (simp_all add: finish_present_def Let_def)
  qed
  have "settle_path (env\<lparr>be_resolver := rv\<rparr>) st p s r = settle_path (env\<lparr>be_resolver := rv'\<rparr>) st p s r"
    if "be_classify env p = Inr st" "st \<noteq> StatusExcluded" for st r
  proof (cases "pf_prior (be_facts env) p")
    case (Inr prior)
    show ?thesis
    proof (cases "coalesce rv' p s (prior \<noteq> None)")
      case (Inr g)
      with \<open>pf_prior (be_facts env) p = Inr prior\<close> that show ?thesis
        by (cases g) (simp_all add: settle_path_def c f Let_def)
    qed (use Inr in \<open>simp add: settle_path_def c\<close>)
  qed (simp add: settle_path_def)
  then show ?thesis
    by (cases "be_classify env p") (auto simp: batch_step_def ps in_scope_def Let_def)
qed

text \<open>Each recorded digest and each unchanged drop is what the bounded read returned.\<close>

definition grounded :: "batch_env \<Rightarrow> string \<Rightarrow> BatchResult \<Rightarrow> BatchResult \<Rightarrow> bool" where
  "grounded env p r r' \<longleftrightarrow>
     (let read = hashFile (be_resolver env) p (op_max_hash_bytes (be_options env)) in
      (\<forall>x\<in>set (br_dropped r') - set (br_dropped r). dr_reason x = ReasonUnchangedModify \<longrightarrow>
         (\<exists>g. pf_prior (be_facts env) p = Inr (Some g) \<and> read = Inr (Some g))) \<and>
      (\<forall>c\<in>set (br_changes r') - set (br_changes r). ci_digest_status c = DigestStatus_str DigestKnown \<longrightarrow>
         read = Inr (Some (ci_after_digest c))))"

lemmas reason_texts = ReasonUnchangedModify_def ReasonCreateDeleteNever_def ReasonExcluded_def ReasonSyncImportExact_def

lemma grounded_drop: "reason \<noteq> ReasonUnchangedModify \<Longrightarrow> grounded env p r (add_drop q reason r)"
  by (auto simp: grounded_def Let_def add_drop_def)

lemma grounded_import: "grounded env p r (add_import q a jf r)"
  by (auto simp: grounded_def Let_def add_import_def add_drop_def reason_texts)

lemma grounded_change:
  "add_change item r = Inr r' \<Longrightarrow> ci_digest_status item \<noteq> DigestStatus_str DigestKnown \<Longrightarrow> grounded env p r r'"
  by (auto simp: grounded_def Let_def add_change_def result_simps)

lemma grounded_same:
  "br_dropped q = br_dropped r \<Longrightarrow> br_changes q = br_changes r \<Longrightarrow> grounded env p q r' \<Longrightarrow> grounded env p r r'"
  by (simp add: grounded_def)

lemma finish_delete_grounded: "finish_delete facts prior item r = Inr r' \<Longrightarrow> grounded env p r r'"
  by (auto simp: finish_delete_def result_simps grounded_import elim!: grounded_change split: option.splits)

lemma finish_present_grounded:
  assumes "finish_present (be_resolver env) facts (op_max_hash_bytes (be_options env)) st prior rep frc item r = Inr r'"
    and "pf_prior (be_facts env) (ci_path item) = Inr prior"
  shows "grounded env (ci_path item) r r'"
proof (cases "st = StatusProtected \<or> st = StatusImmutable \<or> frc")
  case True
  with assms(1) show ?thesis
    by (auto simp: finish_present_def Let_def dest!: grounded_change [where env = env and p = "ci_path item"]
        intro: grounded_same [rotated 2] split: if_splits)
next
  case False
  with assms(1) obtain known
    where h: "hashFile (be_resolver env) (ci_path item) (op_max_hash_bytes (be_options env)) = Inr known"
    by (auto simp: finish_present_def Let_def result_simps)
  show ?thesis
  proof (cases known)
    case None
    with assms(1) h False show ?thesis
      by (auto simp: finish_present_def Let_def dest!: grounded_change [where env = env and p = "ci_path item"]
          intro: grounded_same [rotated 2])
  next
    case (Some digest)
    with assms(1) h False obtain m where m: "match_import facts (ci_path item) digest = Inr m"
      by (auto simp: finish_present_def Let_def result_simps)
    have c: "grounded env (ci_path item) r r'" if "add_change (item\<lparr>ci_exists_after := e, ci_after_digest := digest, ci_digest_status := s\<rparr>) r = Inr r'" for e s
      using that h Some by (auto simp: grounded_def Let_def add_change_def result_simps)
    have d: "grounded env (ci_path item) r (add_drop q ReasonUnchangedModify r)" if "prior = Some digest" for q
      using that h Some assms(2) by (auto simp: grounded_def Let_def add_drop_def)
    from assms(1) h False Some m show ?thesis
      by (cases m) (auto simp: finish_present_def Let_def grounded_import intro: c d split: if_splits)
  qed
qed

lemma contribution_grounded:
  assumes "contribution env (p, s) = Inr d"
  shows "grounded env p empty_result d"
proof -
  have settle: "grounded env p r r'" if e: "settle_path env st p s r = Inr r'" for st r r'
  proof -
    obtain prior f where h: "pf_prior (be_facts env) p = Inr prior"
      "coalesce (be_resolver env) p s (prior \<noteq> None) = Inr f"
      using e by (auto simp: settle_path_def result_simps)
    show ?thesis
    proof (cases f)
      case NeverExisted
      with e h show ?thesis by (auto simp: settle_path_def reason_texts intro: grounded_drop)
    next
      case (Settled op rep frc unk)
      let ?r = "r\<lparr>br_hash_unknown := br_hash_unknown r @ unk,
        br_replacements := br_replacements r \<union> (if rep then {p} else {})\<rparr>"
      let ?item = "\<lparr>ci_path = p, ci_ordinal = ps_ordinal s, ci_operation = op, ci_exists_after = False,
        ci_file_type = ps_file_type s, ci_before_digest = [], ci_after_digest = [], ci_digest_status = []\<rparr>"
      have "grounded env p ?r r'"
      proof (cases "op = Operation_str OpDelete")
        case True
        with e h Settled have "finish_delete (be_facts env) prior ?item ?r = Inr r'" by (simp add: settle_path_def Let_def)
        then show ?thesis by (rule finish_delete_grounded)
      next
        case False
        with e h Settled have "finish_present (be_resolver env) (be_facts env) (op_max_hash_bytes (be_options env))
            st prior rep frc ?item ?r = Inr r'" by (simp add: settle_path_def Let_def)
        from finish_present_grounded [OF this] h(1) show ?thesis by simp
      qed
      then show ?thesis by (rule grounded_same [rotated 2]) simp_all
    qed
  qed
  obtain st where st: "be_classify env p = Inr st"
    using assms by (auto simp: batch_step_def result_simps)
  let ?r = "if st = StatusProtected then empty_result\<lparr>br_protected := [p]\<rparr>
    else if st = StatusImmutable then empty_result\<lparr>br_immutable := [p]\<rparr> else empty_result"
  have "grounded env p ?r d"
  proof (cases "st \<noteq> StatusExcluded \<and> in_scope env p")
    case True
    then have "settle_path env st p s ?r = Inr d"
      using assms st by (auto simp: batch_step_def Let_def empty_result_def split: if_splits)
    then show ?thesis by (rule settle)
  next
    case False
    then have "d = add_drop p ReasonExcluded ?r"
      using assms st by (auto simp: batch_step_def Let_def empty_result_def split: if_splits)
    then show ?thesis by (simp only: grounded_drop reason_texts) (simp add: grounded_drop reason_texts)
  qed
  then show ?thesis by (rule grounded_same [rotated 2]) simp_all
qed

section \<open>The order of the payload\<close>

interpretation drop_order: inj_key_order drop_lt "\<lambda>x. (dr_path x, dr_reason x)" "\<lambda>_. True"
  by unfold_locales (auto simp: drop_lt_def less_prod_def)

interpretation import_order: key_order import_lt im_path
  by unfold_locales (simp add: import_lt_def)

lemma sort_key_permuted:
  "mset xs = mset ys \<Longrightarrow> inj_on f (set xs) \<Longrightarrow> sort_key f xs = sort_key f ys"
  by (rule sort_key_inj_key_eq) simp_all

lemma sort_permuted: "mset xs = mset (ys :: string list) \<Longrightarrow> sort xs = sort ys"
  by (rule sort_key_permuted) simp_all

lemma mset_concat_map: "mset ds = mset ds' \<Longrightarrow> mset (concat (map f ds)) = mset (concat (map f ds'))"
proof -
  have "mset (concat (map f ds)) = sum_mset (image_mset (\<lambda>d. mset (f d)) (mset ds))" for ds
    by (induction ds) auto
  then show "mset ds = mset ds' \<Longrightarrow> ?thesis" by simp
qed

text \<open>Permuted contributions of distinct paths sort to the same batch.\<close>

lemma sort_result_permuted:
  assumes "list_all2 (\<lambda>ps d. contribution env ps = Inr d) pss ds" and "distinct (map fst pss)"
    and "mset ds = mset ds'"
  shows "sort_result (foldl merge_result empty_result ds) = sort_result (foldl merge_result empty_result ds')"
proof -
  note m = mset_concat_map [OF assms(3)]
  have s: "set ds = set ds'" using assms(3) by (metis set_mset_mset)
  have "mset (map ci_path (concat (map br_changes ds)) @ map dr_path (concat (map br_dropped ds))) = mset (map fst pss)"
    using contributions_paths [OF assms(1)] by simp
  with assms(2) have "distinct (map ci_path (concat (map br_changes ds)) @ map dr_path (concat (map br_dropped ds)))"
    by (metis distinct_count_atmost_1 mset_eq_setD set_mset_mset)
  then have "inj_on ci_path (set (concat (map br_changes ds)))" by (simp add: distinct_map)
  then have "inj_on change_key (set (concat (map br_changes ds)))"
    by (auto simp: inj_on_def change_key_def)
  then have c: "SortChanges (concat (map br_changes ds)) = SortChanges (concat (map br_changes ds'))"
    unfolding SortChanges_def change_order.sort_by_sort_key using m by (intro sort_key_permuted)
  have "distinct (map im_path (concat (map br_import_matches ds))) \<and>
      (\<forall>x\<in>set (concat (map br_import_matches ds)). im_path x \<in> fst ` set pss)"
    using assms(1,2)
  proof (induction rule: list_all2_induct)
    case (Cons ps pss d ds)
    obtain p s where ps: "ps = (p, s)" by (cases ps)
    have "br_import_matches d = [] \<or> (\<exists>m. br_import_matches d = [m] \<and> im_path m = p)"
      using contribution_adds [of env p s d] Cons(1) ps by simp
    with Cons(3,4) ps show ?case by (elim disjE exE conjE) (auto simp: rev_image_eqI)
  qed simp
  then have i: "sort_by import_lt (concat (map br_import_matches ds)) = sort_by import_lt (concat (map br_import_matches ds'))"
    unfolding import_order.sort_by_sort_key using m by (intro sort_key_permuted) (auto simp: distinct_map)
  have d: "sort_by drop_lt (concat (map br_dropped ds)) = sort_by drop_lt (concat (map br_dropped ds'))"
    by (rule drop_order.order_independent) (simp_all add: m list_all_iff)
  have o: "sort (concat (map f ds)) = sort (concat (map f ds'))" for f :: "BatchResult \<Rightarrow> string list"
    by (rule sort_permuted) (rule m)
  show ?thesis
    by (simp add: sort_result_def fold_empty c i d o [of br_hash_unknown] o [of br_protected] o [of br_immutable] s)
qed

lemma mapE_permuted:
  assumes "mapE f xs = Inr ys" and "mset xs = mset xs'"
  shows "\<exists>ys'. mapE f xs' = Inr ys' \<and> mset ys' = mset ys"
proof -
  define g where "g x = (case f x of Inl _ \<Rightarrow> undefined | Inr y \<Rightarrow> y)" for x
  have "list_all2 (\<lambda>x y. f x = Inr y) xs ys" using assms(1) by (simp add: mapE_Inr_iff)
  then have *: "(\<forall>x\<in>set xs. f x = Inr (g x)) \<and> ys = map g xs"
    by (induction rule: list_all2_induct) (auto simp: g_def)
  moreover have "set xs = set xs'" using assms(2) by (metis set_mset_mset)
  ultimately have "mapE f xs' = Inr (map g xs')" by (intro mapE_all) auto
  with * assms(2) show ?thesis by (metis mset_map)
qed

section \<open>The parts of a built batch\<close>

lemma BuildBatch_contributions:
  assumes "BuildBatch es engine resolver facts flags rid opts = Inr b"
  obtains classify rv ds fp where "engine = Some classify" and "resolver = Some rv"
    and "list_all2 (\<lambda>ps d. contribution (batch_env_of classify rv facts opts) ps = Inr d) (group_entries es) ds"
    and "Content (batch_input flags rid (sort_result (foldl merge_result empty_result ds))) = Inr fp"
    and "b = (sort_result (foldl merge_result empty_result ds))\<lparr>br_fingerprint := fp\<rparr>"
proof -
  obtain classify rv where e: "engine = Some classify" "resolver = Some rv" by (rule BuildBatch_some [OF assms])
  with assms that show ?thesis unfolding e BuildBatch_Inr_iff mapE_Inr_iff by blast
qed

lemma contribution_of_batch:
  assumes "list_all2 (\<lambda>ps d. contribution env ps = Inr d) pss ds" and "x \<in> set ds"
  obtains p s where "(p, s) \<in> set pss" "contribution env (p, s) = Inr x"
proof -
  from assms(2) obtain i where i: "i < length ds" "x = ds ! i" by (auto simp: in_set_conv_nth)
  with assms(1) have "contribution env (pss ! i) = Inr x" "pss ! i \<in> set pss"
    by (auto simp: list_all2_conv_all_nth)
  with that show ?thesis by (cases "pss ! i") auto
qed

lemma BuildBatch_paths:
  assumes "BuildBatch es engine resolver facts flags rid opts = Inr b"
  shows "mset (map ci_path (br_changes b)) + mset (map dr_path (br_dropped b)) = mset_set (we_name ` set es)"
proof -
  from assms obtain classify rv ds fp
    where d: "list_all2 (\<lambda>ps d. contribution (batch_env_of classify rv facts opts) ps = Inr d) (group_entries es) ds"
      and b: "b = (sort_result (foldl merge_result empty_result ds))\<lparr>br_fingerprint := fp\<rparr>"
    by (rule BuildBatch_contributions)
  have "mset (map ci_path (br_changes b)) + mset (map dr_path (br_dropped b)) = mset (map fst (group_entries es))"
    using contributions_paths [OF d] batch_parts(1,2) [OF b] by (metis mset_map)
  also have "\<dots> = mset_set (set (map fst (group_entries es)))"
    by (rule mset_set_set [OF group_entries_distinct, symmetric])
  finally show ?thesis by (simp add: group_entries_names)
qed

lemma BuildBatch_status:
  assumes "BuildBatch es (Some classify) resolver facts flags rid opts = Inr b"
  shows "set (br_protected b) = {p. p \<in> we_name ` set es \<and> classify p = Inr StatusProtected} \<and>
    set (br_immutable b) = {p. p \<in> we_name ` set es \<and> classify p = Inr StatusImmutable} \<and>
    sorted (br_protected b) \<and> sorted (br_immutable b)"
proof -
  from assms obtain rv ds fp
    where d: "list_all2 (\<lambda>ps d. contribution (batch_env_of classify rv facts opts) ps = Inr d) (group_entries es) ds"
      and b: "b = (sort_result (foldl merge_result empty_result ds))\<lparr>br_fingerprint := fp\<rparr>"
    by (rule BuildBatch_contributions) simp
  have n: "x \<in> fst ` set (group_entries es) \<longleftrightarrow> x \<in> we_name ` set es" for x by (simp only: group_entries_names)
  show ?thesis
    unfolding batch_parts(3,4) [OF b] contributions_status [OF d]
    by (simp add: batch_env_of_def n)
qed

text \<open>A path with a change was classified, and not as excluded.\<close>

lemma contribution_change_in_scope:
  assumes "contribution env (p, s) = Inr d" and "c \<in> set (br_changes d)"
  shows "ci_path c = p \<and> (\<exists>st. be_classify env p = Inr st \<and> st \<noteq> StatusExcluded)"
proof -
  have "ci_path c \<in># result_paths d" using assms(2) by (simp add: result_paths_def)
  moreover have "result_paths d = {#p#}" using contribution_adds [OF assms(1)] by blast
  ultimately have "ci_path c = p" by simp
  moreover have "be_classify env p \<noteq> Inr StatusExcluded"
    using assms by (auto simp: batch_step_def add_drop_def empty_result_def)
  moreover have "\<exists>st. be_classify env p = Inr st"
    using assms(1) by (auto simp: batch_step_def result_simps)
  ultimately show ?thesis by auto
qed

lemma BuildBatch_change_status:
  assumes "BuildBatch es (Some classify) resolver facts flags rid opts = Inr b" and "c \<in> set (br_changes b)"
  shows "\<exists>st. classify (ci_path c) = Inr st \<and> st \<noteq> StatusExcluded"
proof -
  from assms(1) obtain rv ds fp
    where d: "list_all2 (\<lambda>ps d. contribution (batch_env_of classify rv facts opts) ps = Inr d) (group_entries es) ds"
      and b: "b = (sort_result (foldl merge_result empty_result ds))\<lparr>br_fingerprint := fp\<rparr>"
    by (rule BuildBatch_contributions) simp
  have "set (br_changes b) = set (concat (map br_changes ds))" using batch_parts(1) [OF b] by (metis set_mset_mset)
  with assms(2) obtain x where "x \<in> set ds" "c \<in> set (br_changes x)" by auto
  with contribution_of_batch [OF d] contribution_change_in_scope show ?thesis
    by (metis batch_env.select_convs(1) batch_env_of_def)
qed

section \<open>Properties\<close>

text \<open>C2: no content of an excluded, protected or immutable path influences a batch: two resolvers
  that agree on the containment checks and on the reads of normal paths give the same
  result, error or batch (PTH-008).\<close>

theorem protected_content_never_read:
  assumes "rv_stat rv = rv_stat rv'" and "rv_resolve rv = rv_resolve rv'"
    and "\<And>p. classify p = Inr StatusNormal \<Longrightarrow> rv_open rv p = rv_open rv' p"
  shows "BuildBatch es (Some classify) (Some rv) facts flags rid opts =
    BuildBatch es (Some classify) (Some rv') facts flags rid opts"
proof -
  let ?env = "\<lambda>rv. batch_env_of classify rv facts opts"
  have step: "batch_step (?env rv) ps r = batch_step (?env rv') ps r" for ps r
    using contribution_cong [of rv rv' "?env rv" ps r] assms by (simp add: batch_env_of_def)
  have "batch_loop (?env rv) pss = batch_loop (?env rv') pss" for pss
    by (induction pss) (auto intro!: ext simp: step)
  then show ?thesis by (simp add: BuildBatch_def)
qed

definition sample_resolver :: "string \<Rightarrow> Resolver" where
  "sample_resolver secret =
     \<lparr>rv_stat = (\<lambda>_. Inr ()), rv_resolve = (\<lambda>p. Inr p),
      rv_open = (\<lambda>p _. if p = ''key.md'' then Inr \<lparr>st_data = secret, st_err = None\<rparr> else Inl ErrMissing)\<rparr>"

definition sample_classify :: "string \<Rightarrow> pattern_error + Status" where
  "sample_classify p = Inr (if p = ''key.md'' then StatusProtected else if p = ''tmp.md'' then StatusExcluded else StatusNormal)"

definition sample_entries :: "Entry list" where
  "sample_entries =
     [\<lparr>we_name = ''key.md'', we_ordinal = 0, we_op = ''modify'', we_type = ''regular''\<rparr>,
      \<lparr>we_name = ''tmp.md'', we_ordinal = 1, we_op = ''create'', we_type = ''regular''\<rparr>,
      \<lparr>we_name = ''a.md'', we_ordinal = 2, we_op = ''delete'', we_type = ''unknown''\<rparr>]"

definition sample_flags :: SourceFlags where
  "sample_flags = \<lparr>sf_overflow = False, sf_fresh_instance = False, sf_relative_root = [], sf_has_relative = False\<rparr>"

definition sample_options :: Options where
  "sample_options = \<lparr>op_max_hash_bytes = 1000, op_file_scope = []\<rparr>"

theorem protected_content_never_read_witness:
  "BuildBatch sample_entries (Some sample_classify) (Some (sample_resolver ''one'')) None sample_flags ''vault'' sample_options =
   BuildBatch sample_entries (Some sample_classify) (Some (sample_resolver ''two'')) None sample_flags ''vault'' sample_options"
  by (rule protected_content_never_read) (auto simp: sample_resolver_def sample_classify_def split: if_splits)

text \<open>C13: a batch accounts for every path of its payload: each distinct path is either one change
  or one drop with a reason, never both and never lost.\<close>

theorem batch_accounts_for_every_path:
  assumes "BuildBatch es engine resolver facts flags rid opts = Inr b"
  shows "mset (map ci_path (br_changes b)) + mset (map dr_path (br_dropped b)) = mset_set (we_name ` set es)"
  using assms by (rule BuildBatch_paths)

lemma sample_batch:
  "\<exists>b. BuildBatch sample_entries (Some sample_classify) (Some (sample_resolver ''one'')) None sample_flags ''vault'' sample_options = Inr b"
proof -
  let ?env = "batch_env_of sample_classify (sample_resolver ''one'') None sample_options"
  have "bindE (batch_loop ?env (group_entries sample_entries) empty_result)
      (\<lambda>r. map_err BatchFingerprintFailed (validateContentInput (batch_input sample_flags ''vault'' (sort_result r)))) = Inr ()"
    by code_simp
  then show ?thesis
    by (auto simp: BuildBatch_def sample_options_def Let_def result_simps Content_Inr_iff)
qed

theorem batch_accounts_for_every_path_witness:
  "\<exists>b. BuildBatch sample_entries (Some sample_classify) (Some (sample_resolver ''one'')) None sample_flags ''vault'' sample_options = Inr b \<and>
     mset (map ci_path (br_changes b)) + mset (map dr_path (br_dropped b)) = {#''key.md'', ''tmp.md'', ''a.md''#}"
proof -
  obtain b where b: "BuildBatch sample_entries (Some sample_classify) (Some (sample_resolver ''one'')) None
      sample_flags ''vault'' sample_options = Inr b" using sample_batch by blast
  from batch_accounts_for_every_path [OF b] b show ?thesis
    by (simp add: sample_entries_def add_mset_commute)
qed

text \<open>a batch never calls a path unchanged on faith: an unchanged drop has a stored digest
  equal to the digest just read, and a known digest of a change is the digest just read.\<close>

theorem digests_are_read_not_assumed:
  assumes "BuildBatch es (Some classify) (Some rv) (Some facts) flags rid opts = Inr b"
  shows "list_all (\<lambda>x. dr_reason x = ReasonUnchangedModify \<longrightarrow>
      (\<exists>g. pf_prior facts (dr_path x) = Inr (Some g) \<and> hashFile rv (dr_path x) (op_max_hash_bytes opts) = Inr (Some g))) (br_dropped b) \<and>
    list_all (\<lambda>c. ci_digest_status c = DigestStatus_str DigestKnown \<longrightarrow>
      hashFile rv (ci_path c) (op_max_hash_bytes opts) = Inr (Some (ci_after_digest c))) (br_changes b)"
proof -
  let ?env = "batch_env_of classify rv (Some facts) opts"
  obtain ds fp where d: "list_all2 (\<lambda>ps d. contribution ?env ps = Inr d) (group_entries es) ds"
    and b: "b = (sort_result (foldl merge_result empty_result ds))\<lparr>br_fingerprint := fp\<rparr>"
    using assms unfolding BuildBatch_Inr_iff mapE_Inr_iff by blast
  have g: "\<exists>p. grounded ?env p empty_result x \<and> result_paths x = {#p#}" if "x \<in> set ds" for x
    using contribution_of_batch [OF d that] contribution_grounded contribution_adds by metis
  have one: "dr_path y = p" if "result_paths x = {#p#}" "y \<in> set (br_dropped x)" for x y p
  proof -
    have "dr_path y \<in># result_paths x" using that(2) by (simp add: result_paths_def)
    with that(1) show ?thesis by simp
  qed
  have one': "ci_path y = p" if "result_paths x = {#p#}" "y \<in> set (br_changes x)" for x y p
  proof -
    have "ci_path y \<in># result_paths x" using that(2) by (simp add: result_paths_def)
    with that(1) show ?thesis by simp
  qed
  have "set (br_dropped b) = set (concat (map br_dropped ds))" "set (br_changes b) = set (concat (map br_changes ds))"
    using batch_parts(1,2) [OF b] by (metis set_mset_mset)+
  then show ?thesis
    using g one one' by (auto simp: list_all_iff grounded_def Let_def empty_result_def batch_env_of_def) metis+
qed

definition read_entries :: "Entry list" where
  "read_entries = [\<lparr>we_name = ''a.md'', we_ordinal = 0, we_op = ''modify'', we_type = ''regular''\<rparr>]"

definition read_resolver :: Resolver where
  "read_resolver = \<lparr>rv_stat = (\<lambda>_. Inr ()), rv_resolve = (\<lambda>p. Inr p),
     rv_open = (\<lambda>_ _. Inr \<lparr>st_data = ''text'', st_err = None\<rparr>)\<rparr>"

definition stored_facts :: PathFacts where
  "stored_facts = MapFacts [''a.md'' \<mapsto> SumDigest ''text'']"

lemma read_hash: "hashFile read_resolver ''a.md'' 1000 = Inr (Some (SumDigest ''text''))"
  by (simp add: hashFile_def read_resolver_def SumBounded_def wrap_int64_def)

lemma read_contribution:
  "contribution (batch_env_of sample_classify read_resolver (Some stored_facts) sample_options)
     (''a.md'', \<lparr>ps_ops = [''modify''], ps_last = ''modify'', ps_file_type = ''regular'', ps_ordinal = 0\<rparr>) =
   Inr (add_drop ''a.md'' ReasonUnchangedModify empty_result)"
proof -
  have "settle_path (batch_env_of sample_classify read_resolver (Some stored_facts) sample_options) StatusNormal ''a.md''
     \<lparr>ps_ops = [''modify''], ps_last = ''modify'', ps_file_type = ''regular'', ps_ordinal = 0\<rparr> empty_result =
   Inr (add_drop ''a.md'' ReasonUnchangedModify empty_result)"
    by (simp add: settle_path_def batch_env_of_def stored_facts_def MapFacts_def coalesce_def saw_life_after_delete_def
        finish_present_def read_hash sample_options_def match_import_def Let_def)
  then show ?thesis
    by (simp add: batch_step_def batch_env_of_def sample_classify_def in_scope_def sample_options_def)
qed

lemma sample_bound: "op_max_hash_bytes sample_options = 1000"
  by (simp add: sample_options_def)

lemma read_batch:
  "\<exists>b. BuildBatch read_entries (Some sample_classify) (Some read_resolver) (Some stored_facts) sample_flags ''vault'' sample_options = Inr b \<and>
     br_dropped b = [\<lparr>dr_path = ''a.md'', dr_reason = ReasonUnchangedModify\<rparr>]"
proof -
  have g: "group_entries read_entries =
      [(''a.md'', \<lparr>ps_ops = [''modify''], ps_last = ''modify'', ps_file_type = ''regular'', ps_ordinal = 0\<rparr>)]"
    by (simp add: group_entries_def read_entries_def)
  let ?r = "sort_result (foldl merge_result empty_result [add_drop ''a.md'' ReasonUnchangedModify empty_result])"
  have "validateContentInput (batch_input sample_flags ''vault'' ?r) = Inr ()" by code_simp
  then obtain fp where f: "Content (batch_input sample_flags ''vault'' ?r) = Inr fp"
    by (simp add: Content_Inr_iff)
  have "br_dropped ?r = [\<lparr>dr_path = ''a.md'', dr_reason = ReasonUnchangedModify\<rparr>]"
    by (simp add: sort_result_def fold_empty [of "[_]"] add_drop_def del: foldl_Cons foldl_Nil) (simp add: empty_result_def)
  then show ?thesis
    unfolding BuildBatch_Inr_iff g using f sample_bound by (auto simp: read_contribution)
qed

theorem digests_are_read_not_assumed_witness:
  "\<exists>b. BuildBatch read_entries (Some sample_classify) (Some read_resolver) (Some stored_facts) sample_flags ''vault'' sample_options = Inr b \<and>
     br_dropped b = [\<lparr>dr_path = ''a.md'', dr_reason = ReasonUnchangedModify\<rparr>] \<and>
     (\<exists>g. pf_prior stored_facts ''a.md'' = Inr (Some g) \<and> hashFile read_resolver ''a.md'' 1000 = Inr (Some g))"
proof -
  obtain b where b: "BuildBatch read_entries (Some sample_classify) (Some read_resolver) (Some stored_facts) sample_flags ''vault'' sample_options = Inr b"
    "br_dropped b = [\<lparr>dr_path = ''a.md'', dr_reason = ReasonUnchangedModify\<rparr>]" using read_batch by blast
  from digests_are_read_not_assumed [OF b(1)] b show ?thesis by (auto simp: sample_options_def)
qed

text \<open>every protected path of the payload is reported as protected, and every immutable one as
  immutable, whatever its operations and also when the file scope drops it.\<close>

theorem protected_paths_reported:
  assumes "BuildBatch es (Some classify) resolver facts flags rid opts = Inr b"
  shows "set (br_protected b) = {p. p \<in> we_name ` set es \<and> classify p = Inr StatusProtected} \<and>
    set (br_immutable b) = {p. p \<in> we_name ` set es \<and> classify p = Inr StatusImmutable} \<and>
    sorted (br_protected b) \<and> sorted (br_immutable b)"
  using assms by (rule BuildBatch_status)

theorem protected_paths_reported_witness:
  "\<exists>b. BuildBatch sample_entries (Some sample_classify) (Some (sample_resolver ''one'')) None sample_flags ''vault'' sample_options = Inr b \<and>
     set (br_protected b) = {''key.md''} \<and> br_immutable b = []"
proof -
  obtain b where b: "BuildBatch sample_entries (Some sample_classify) (Some (sample_resolver ''one'')) None
      sample_flags ''vault'' sample_options = Inr b" using sample_batch by blast
  have "sample_classify p \<noteq> Inr StatusImmutable" for p by (simp add: sample_classify_def)
  moreover have "sample_classify p = Inr StatusProtected \<longleftrightarrow> p = ''key.md''" for p by (simp add: sample_classify_def)
  moreover have "''key.md'' \<in> we_name ` set sample_entries" by (simp add: sample_entries_def)
  ultimately show ?thesis
    using protected_paths_reported [OF b] b by auto
qed

text \<open>the batch does not depend on how the payload interleaves different paths: reordering the
  per-path sequences gives the same changes, drops, lists and fingerprint.\<close>

theorem batch_ignores_path_order:
  assumes "BuildBatch es engine resolver facts flags rid opts = Inr b"
    and "mset (group_entries es') = mset (group_entries es)"
  shows "BuildBatch es' engine resolver facts flags rid opts = Inr b"
proof -
  obtain classify rv where e: "engine = Some classify" "resolver = Some rv" by (rule BuildBatch_some [OF assms(1)])
  let ?env = "batch_env_of classify rv facts opts"
  obtain ds fp where m: "0 < op_max_hash_bytes opts" "op_max_hash_bytes opts \<noteq> 2 ^ 63 - 1"
    and d: "mapE (contribution ?env) (group_entries es) = Inr ds"
    and f: "Content (batch_input flags rid (sort_result (foldl merge_result empty_result ds))) = Inr fp"
    and b: "b = (sort_result (foldl merge_result empty_result ds))\<lparr>br_fingerprint := fp\<rparr>"
    using assms(1) unfolding e BuildBatch_Inr_iff by blast
  from mapE_permuted [OF d assms(2) [symmetric]] obtain ds'
    where d': "mapE (contribution ?env) (group_entries es') = Inr ds'" "mset ds' = mset ds" by blast
  have "sort_result (foldl merge_result empty_result ds) = sort_result (foldl merge_result empty_result ds')"
    by (rule sort_result_permuted [OF d [unfolded mapE_Inr_iff] group_entries_distinct d'(2) [symmetric]])
  with m d'(1) f b show ?thesis unfolding e BuildBatch_Inr_iff by metis
qed

theorem batch_ignores_path_order_witness:
  "BuildBatch (rev sample_entries) (Some sample_classify) (Some (sample_resolver ''one'')) None sample_flags ''vault'' sample_options =
   BuildBatch sample_entries (Some sample_classify) (Some (sample_resolver ''one'')) None sample_flags ''vault'' sample_options"
proof -
  obtain b where b: "BuildBatch sample_entries (Some sample_classify) (Some (sample_resolver ''one'')) None
      sample_flags ''vault'' sample_options = Inr b" using sample_batch by blast
  have "mset (group_entries (rev sample_entries)) = mset (group_entries sample_entries)"
    by (simp add: group_entries_def sample_entries_def)
  from batch_ignores_path_order [OF b this] b show ?thesis by simp
qed

text \<open>a batch is well formed: its changes are valid, sorted canonically and free of duplicate
  paths, and its fingerprint is the content fingerprint of exactly these changes.\<close>

theorem batch_is_well_formed:
  assumes "BuildBatch es engine resolver facts flags rid opts = Inr b"
  shows "list_all (\<lambda>c. is_ok (ChangeItem_Validate c)) (br_changes b) \<and> sorted (map ci_path (br_changes b)) \<and>
    distinct (map ci_path (br_changes b)) \<and> Content (batch_input flags rid b) = Inr (br_fingerprint b)"
proof -
  from assms obtain classify rv ds fp
    where d: "list_all2 (\<lambda>ps d. contribution (batch_env_of classify rv facts opts) ps = Inr d) (group_entries es) ds"
      and f: "Content (batch_input flags rid (sort_result (foldl merge_result empty_result ds))) = Inr fp"
      and b: "b = (sort_result (foldl merge_result empty_result ds))\<lparr>br_fingerprint := fp\<rparr>"
    by (rule BuildBatch_contributions)
  have v: "\<forall>c\<in>set (br_changes x). is_ok (ChangeItem_Validate c)" if "x \<in> set ds" for x
    using contribution_of_batch [OF d that] contribution_adds by metis
  have "set (br_changes b) = set (concat (map br_changes ds))"
    using batch_parts(1) [OF b] by (metis set_mset_mset)
  with v have "list_all (\<lambda>c. is_ok (ChangeItem_Validate c)) (br_changes b)" by (auto simp: list_all_iff)
  moreover have "sorted (map ci_path (br_changes b))"
  proof -
    have "sorted (map change_key (br_changes b))"
      by (simp add: b sort_result_def SortChanges_def change_order.sorted_by_key)
    then show ?thesis
      by (simp add: sorted_iff_nth_mono change_key_def less_eq_prod_def) (meson order_less_imp_le)
  qed
  moreover have "distinct (map ci_path (br_changes b))"
  proof -
    have "mset (map ci_path (br_changes b) @ map dr_path (br_dropped b)) = mset (map fst (group_entries es))"
      using contributions_paths [OF d] batch_parts(1,2) [OF b] by (metis mset_append mset_map)
    from mset_eq_imp_distinct_iff [OF this] show ?thesis using group_entries_distinct [of es] by simp
  qed
  moreover have "batch_input flags rid b = batch_input flags rid (sort_result (foldl merge_result empty_result ds))"
    by (simp add: b batch_input_def)
  ultimately show ?thesis using f b by simp
qed

theorem batch_is_well_formed_witness:
  "\<exists>b. BuildBatch sample_entries (Some sample_classify) (Some (sample_resolver ''one'')) None sample_flags ''vault'' sample_options = Inr b \<and>
     sorted (map ci_path (br_changes b)) \<and> distinct (map ci_path (br_changes b))"
proof -
  obtain b where b: "BuildBatch sample_entries (Some sample_classify) (Some (sample_resolver ''one'')) None
      sample_flags ''vault'' sample_options = Inr b" using sample_batch by blast
  from batch_is_well_formed [OF b] b show ?thesis by blast
qed

end
