(* ===== verification/Planner.thy ===== *)
theory Planner
  imports Ingest
begin

text \<open>
  The policy planner (\<open>src/internal/app/dispatch/planner.go\<close>): a pure evaluation of one
  normalised batch against one route policy into a plan with a disposition, a generation
  action, classifications and reason codes. \<open>Evaluate\<close> is the chain of early returns of
  the code in its order of precedence; each branch ends in \<open>finish\<close>, which makes the
  suppressed paths of the batch visible in the reason codes.
\<close>

datatype plan_error =
    NilBatch
  | LimitsNotPositive

definition PlanSchemaVersion :: string where
  "PlanSchemaVersion = ''agent-dispatch.dispatch-plan/v1''"

definition ReasonNoMeaningfulChanges :: string where
  "ReasonNoMeaningfulChanges = ''no_meaningful_changes''"

definition ReasonProtectedPath :: string where
  "ReasonProtectedPath = ''protected_path_present''"

definition ReasonImmutablePath :: string where
  "ReasonImmutablePath = ''immutable_path_present''"

definition ReasonBatchOverHardLimit :: string where
  "ReasonBatchOverHardLimit = ''batch_over_hard_limit''"

definition ReasonManifestOverLimit :: string where
  "ReasonManifestOverLimit = ''manifest_over_limit''"

definition ReasonOverThreshold :: string where
  "ReasonOverThreshold = ''over_automatic_threshold''"

definition ReasonOverflowSignal :: string where
  "ReasonOverflowSignal = ''overflow_signal''"

definition ReasonFreshInstance :: string where
  "ReasonFreshInstance = ''fresh_instance''"

definition ReasonActiveDispatch :: string where
  "ReasonActiveDispatch = ''active_dispatch_exists''"

definition ReasonNormalBatch :: string where
  "ReasonNormalBatch = ''normal_batch''"

lemmas planner_reasons = ReasonNoMeaningfulChanges_def ReasonProtectedPath_def ReasonImmutablePath_def
  ReasonBatchOverHardLimit_def ReasonManifestOverLimit_def ReasonOverThreshold_def ReasonOverflowSignal_def
  ReasonFreshInstance_def ReasonActiveDispatch_def ReasonNormalBatch_def

record RoutePolicy =
  rp_route_id :: string
  rp_route_revision :: string
  rp_resource_id :: string
  rp_automatic_threshold :: int
  rp_hard_limit :: int
  rp_max_manifest_bytes :: int
  rp_bulk_action :: string
  rp_overflow_action :: string
  rp_fresh_instance_action :: string
  rp_required_capabilities :: "string list"

record PlanInput =
  pi_batch :: "BatchResult option"
  pi_flags :: SourceFlags
  pi_active_dispatch_exists :: bool

record PlanChange =
  pc_path :: string
  pc_operation :: string
  pc_exists_after :: bool
  pc_file_type :: string
  pc_before_digest :: string
  pc_after_digest :: string
  pc_digest_status :: string

record Plan =
  pl_schema_version :: string
  pl_route_id :: string
  pl_route_revision :: string
  pl_resource_id :: string
  pl_changes :: "PlanChange list"
  pl_content_fingerprint :: string
  pl_classification :: "string list"
  pl_disposition :: string
  pl_reason_codes :: "string list"
  pl_required_capabilities :: "string list"
  pl_generation_action :: string

section \<open>Projection and size of the change list\<close>

definition projectChanges :: "ChangeItem list \<Rightarrow> PlanChange list" where
  "projectChanges cs = map (\<lambda>c. \<lparr>pc_path = ci_path c, pc_operation = ci_operation c,
     pc_exists_after = ci_exists_after c, pc_file_type = ci_file_type c, pc_before_digest = ci_before_digest c,
     pc_after_digest = ci_after_digest c, pc_digest_status = ci_digest_status c\<rparr>) cs"

text \<open>The members of a \<open>PlanChange\<close> in field order; \<open>omitempty\<close> leaves empty digests out.\<close>

definition plan_change_json :: "PlanChange \<Rightarrow> json" where
  "plan_change_json c =
     JObj ([(''path'', JStr (pc_path c)), (''operation'', JStr (pc_operation c)),
            (''exists_after'', JBool (pc_exists_after c)), (''file_type'', JStr (pc_file_type c))] @
           omit_empty ''before_digest'' (pc_before_digest c) @
           omit_empty ''after_digest'' (pc_after_digest c) @
           [(''digest_status'', JStr (pc_digest_status c))])"

definition changes_json :: "PlanChange list \<Rightarrow> json" where
  "changes_json cs = JArr (map plan_change_json cs)"

definition ManifestBytes :: "ChangeItem list \<Rightarrow> int" where
  "ManifestBytes cs =
     foldl (\<lambda>total c. total + (int (length (render True (changes_json (projectChanges [c])))) + 2)) 0 cs"

section \<open>Evaluation\<close>

definition classification_order :: "Classification list" where
  "classification_order = [ClassMalformed, ClassOverflow, ClassProtected, ClassBulk, ClassStale, ClassUnknown, ClassNormal]"

definition classifyList :: "Classification set \<Rightarrow> string list" where
  "classifyList cs = map Classification_str (filter (\<lambda>c. c \<in> cs) classification_order)"

definition actionOr :: "string \<Rightarrow> string \<Rightarrow> string" where
  "actionOr action fallback =
     (if action = Disposition_str DispositionQuarantine \<or> action = Disposition_str DispositionReconcile
      then action else fallback)"

fun add_reasons :: "string list \<Rightarrow> string list \<Rightarrow> string set \<Rightarrow> string list" where
  "add_reasons codes [] seen = codes"
| "add_reasons codes (r # rs) seen =
     add_reasons (if r \<in> seen \<and> r \<notin> set codes then codes @ [r] else codes) rs seen"

definition propagateDrops :: "BatchResult \<Rightarrow> Plan \<Rightarrow> Plan" where
  "propagateDrops b plan = plan\<lparr>pl_reason_codes :=
     add_reasons (pl_reason_codes plan) [ReasonUnchangedModify, ReasonCreateDeleteNever]
       (dr_reason ` set (br_dropped b))\<rparr>"

definition finish ::
  "BatchResult \<Rightarrow> Plan \<Rightarrow> string list \<Rightarrow> Classification set \<Rightarrow> string \<Rightarrow> GenerationAction \<Rightarrow> Plan" where
  "finish b plan codes classes disposition generation =
     (propagateDrops b (plan\<lparr>pl_reason_codes := codes, pl_classification := classifyList classes\<rparr>))
       \<lparr>pl_disposition := disposition, pl_generation_action := GenerationAction_str generation\<rparr>"

definition base_plan :: "RoutePolicy \<Rightarrow> BatchResult \<Rightarrow> Plan" where
  "base_plan policy b =
     \<lparr>pl_schema_version = PlanSchemaVersion, pl_route_id = rp_route_id policy,
      pl_route_revision = rp_route_revision policy, pl_resource_id = rp_resource_id policy,
      pl_changes = projectChanges (br_changes b), pl_content_fingerprint = br_fingerprint b,
      pl_classification = [], pl_disposition = [], pl_reason_codes = [],
      pl_required_capabilities = sort (rp_required_capabilities policy), pl_generation_action = []\<rparr>"

definition Evaluate :: "RoutePolicy \<Rightarrow> PlanInput \<Rightarrow> plan_error + Plan" where
  "Evaluate policy inp =
     (case pi_batch inp of
        None \<Rightarrow> Inl NilBatch
      | Some b \<Rightarrow>
          if rp_hard_limit policy \<le> 0 \<or> rp_automatic_threshold policy \<le> 0 \<or> rp_max_manifest_bytes policy \<le> 0
          then Inl LimitsNotPositive
          else
            let flags = pi_flags inp;
                count = int (length (br_changes b));
                normal = (if br_changes b \<noteq> [] then {ClassNormal} else {});
                done = (\<lambda>codes classes d g. Inr (finish b (base_plan policy b) codes classes d g))
            in
            if sf_overflow flags \<or> sf_fresh_instance flags then
              done ((if sf_overflow flags then [ReasonOverflowSignal] else []) @
                    (if sf_fresh_instance flags then [ReasonFreshInstance] else []) @
                    (if br_protected b \<noteq> [] then [ReasonProtectedPath] else []))
                (normal \<union> {ClassOverflow} \<union> (if br_protected b \<noteq> [] then {ClassProtected} else {}))
                (actionOr (if sf_overflow flags then rp_overflow_action policy else rp_fresh_instance_action policy)
                  (Disposition_str DispositionReconcile))
                GenMergeReconcile
            else if br_changes b = [] then
              done [ReasonNoMeaningfulChanges] normal (Disposition_str DispositionDrop) GenNone
            else if br_protected b \<noteq> [] then
              done [ReasonProtectedPath] (normal \<union> {ClassProtected}) (Disposition_str DispositionQuarantine) GenNone
            else if br_immutable b \<noteq> [] then
              done [ReasonImmutablePath] (normal \<union> {ClassProtected}) (Disposition_str DispositionQuarantine) GenNone
            else if count > rp_hard_limit policy then
              done [ReasonBatchOverHardLimit] (normal \<union> {ClassBulk}) (Disposition_str DispositionQuarantine) GenNone
            else if ManifestBytes (br_changes b) > rp_max_manifest_bytes policy then
              done [ReasonManifestOverLimit] (normal \<union> {ClassBulk}) (Disposition_str DispositionQuarantine) GenNone
            else if count > rp_automatic_threshold policy then
              done [ReasonOverThreshold] (normal \<union> {ClassBulk})
                (actionOr (rp_bulk_action policy) (Disposition_str DispositionQuarantine)) GenMergeReconcile
            else if pi_active_dispatch_exists inp then
              done [ReasonActiveDispatch] normal (Disposition_str DispositionMergePending) GenIncrementDirty
            else
              done [ReasonNormalBatch] normal (Disposition_str DispositionDispatch) GenCreateIfIdle)"


section \<open>The plan of each branch\<close>

lemma finish_simps [simp]:
  "pl_disposition (finish b p codes cs d g) = d"
  "pl_generation_action (finish b p codes cs d g) = GenerationAction_str g"
  "pl_classification (finish b p codes cs d g) = classifyList cs"
  "pl_changes (finish b p codes cs d g) = pl_changes p"
  "pl_content_fingerprint (finish b p codes cs d g) = pl_content_fingerprint p"
  "pl_reason_codes (finish b p codes cs d g) =
     add_reasons codes [ReasonUnchangedModify, ReasonCreateDeleteNever] (dr_reason ` set (br_dropped b))"
  by (simp_all add: finish_def propagateDrops_def)

lemma base_plan_simps [simp]:
  "pl_changes (base_plan policy b) = projectChanges (br_changes b)"
  "pl_content_fingerprint (base_plan policy b) = br_fingerprint b"
  by (simp_all add: base_plan_def)

lemma set_add_reasons: "set (add_reasons codes rs seen) = set codes \<union> (set rs \<inter> seen)"
  by (induction codes rs seen rule: add_reasons.induct) auto

lemma distinct_add_reasons: "distinct codes \<Longrightarrow> distinct (add_reasons codes rs seen)"
  by (induction codes rs seen rule: add_reasons.induct) auto

lemma actionOr_cases:
  "actionOr a (Disposition_str d) \<in> Disposition_str ` {DispositionQuarantine, DispositionReconcile, d}"
  by (simp add: actionOr_def)

lemma Disposition_str_eq [simp]: "Disposition_str a = Disposition_str b \<longleftrightarrow> a = b"
  by (rule disposition.text_inj)

text \<open>Every plan is one \<open>finish\<close> of the base plan: the shape the branches share.\<close>

definition plan_branch :: "RoutePolicy \<Rightarrow> BatchResult \<Rightarrow> Plan \<Rightarrow> bool" where
  "plan_branch policy b plan = (\<exists>codes cs d g. plan = finish b (base_plan policy b) codes cs (Disposition_str d) g \<and>
     codes \<noteq> [] \<and> distinct codes \<and> (ClassNormal \<in> cs \<longleftrightarrow> br_changes b \<noteq> []) \<and>
     ReasonUnchangedModify \<notin> set codes \<and> ReasonCreateDeleteNever \<notin> set codes)"

lemma actionOr_Disposition:
  "actionOr a (Disposition_str d) = Disposition_str
     (if a = ''quarantine'' then DispositionQuarantine else if a = ''reconcile'' then DispositionReconcile else d)"
  by (simp add: actionOr_def)

lemma plan_branchI:
  "codes \<noteq> [] \<Longrightarrow> distinct codes \<Longrightarrow> (ClassNormal \<in> cs) = (br_changes b \<noteq> []) \<Longrightarrow>
   set codes \<inter> {ReasonUnchangedModify, ReasonCreateDeleteNever} = {} \<Longrightarrow>
   plan_branch policy b (finish b (base_plan policy b) codes cs (Disposition_str d) g)"
  by (auto simp: plan_branch_def)

lemma Evaluate_branch:
  assumes "Evaluate policy inp = Inr plan"
  shows "\<exists>b. pi_batch inp = Some b \<and> plan_branch policy b plan"
proof (cases "pi_batch inp")
  case (Some b)
  have "plan_branch policy b plan"
    using assms unfolding Evaluate_def Let_def actionOr_Disposition Some option.case
    by (simp only: split: if_split_asm)
      ((drule sum.inject(2) [THEN iffD1, OF sym], hypsubst, rule plan_branchI;
        simp add: planner_reasons ReasonUnchangedModify_def ReasonCreateDeleteNever_def) | simp)+
  with Some show ?thesis by blast
qed (use assms in \<open>simp add: Evaluate_def\<close>)

lemma Evaluate_dispatch_iff:
  assumes "Evaluate policy inp = Inr plan" and "pi_batch inp = Some b"
  shows "pl_disposition plan = Disposition_str DispositionDispatch \<longleftrightarrow>
    \<not> sf_overflow (pi_flags inp) \<and> \<not> sf_fresh_instance (pi_flags inp) \<and> br_changes b \<noteq> [] \<and>
    br_protected b = [] \<and> br_immutable b = [] \<and> int (length (br_changes b)) \<le> rp_hard_limit policy \<and>
    ManifestBytes (br_changes b) \<le> rp_max_manifest_bytes policy \<and>
    int (length (br_changes b)) \<le> rp_automatic_threshold policy \<and> \<not> pi_active_dispatch_exists inp"
  using assms
  by (auto simp: Evaluate_def Let_def actionOr_def split: option.splits if_splits)

lemma list_all_classified: "list_all (\<lambda>c. is_ok (ParseClassification c)) (classifyList cs)"
  by (auto simp: classifyList_def list_all_iff classification.parse_text)

section \<open>The size bound\<close>

lemma foldl_add: "foldl (\<lambda>t c. t + f c) (a::int) cs = a + sum_list (map f cs)"
  by (induction cs arbitrary: a) simp_all

lemma length_join_comma: "int (length (join_with sep xs)) \<le> sum_list (map (\<lambda>x. int (length x) + int (length sep)) xs)"
  by (induction sep xs rule: join_with.induct) auto

lemma ManifestBytes_sum:
  "ManifestBytes cs = sum_list (map (\<lambda>c. int (length (render True (plan_change_json c))) + 4) (projectChanges cs))"
  by (simp add: ManifestBytes_def foldl_add projectChanges_def changes_json_def comp_def add.commute)

lemma ManifestBytes_bound:
  assumes "cs \<noteq> []"
  shows "int (length (render True (changes_json (projectChanges cs)))) \<le> ManifestBytes cs"
proof -
  let ?f = "\<lambda>c. int (length (render True (plan_change_json c)))"
  let ?ps = "projectChanges cs"
  have "int (length (render True (changes_json ?ps))) \<le> 2 + sum_list (map (\<lambda>c. ?f c + 1) ?ps)"
    using length_join_comma [of "'',''" "map (render True o plan_change_json) ?ps"]
    by (simp add: changes_json_def comp_def)
  also have "\<dots> \<le> sum_list (map (\<lambda>c. ?f c + 4) ?ps)"
  proof -
    have "int (length ?ps) \<ge> 1" using assms by (cases cs) (simp_all add: projectChanges_def)
    then show ?thesis by (simp add: sum_list_addf sum_list_triv)
  qed
  finally show ?thesis by (simp add: ManifestBytes_sum)
qed

section \<open>Properties\<close>

text \<open>C14: a plan dispatches exactly when no earlier rule of the precedence applies: no overflow
  signal, some changes, nothing protected or immutable, within every limit, and no active
  dispatch; no text of the policy or the payload can ask for a dispatch.\<close>

theorem dispatch_is_the_last_resort:
  assumes "Evaluate policy inp = Inr plan" and "pi_batch inp = Some b"
  shows "(pl_disposition plan = ''dispatch'') =
    (\<not> sf_overflow (pi_flags inp) \<and> \<not> sf_fresh_instance (pi_flags inp) \<and> br_changes b \<noteq> [] \<and>
     br_protected b = [] \<and> br_immutable b = [] \<and> int (length (br_changes b)) \<le> rp_hard_limit policy \<and>
     ManifestBytes (br_changes b) \<le> rp_max_manifest_bytes policy \<and>
     int (length (br_changes b)) \<le> rp_automatic_threshold policy \<and> \<not> pi_active_dispatch_exists inp)"
  using Evaluate_dispatch_iff [OF assms] by simp

text \<open>C21: the manifest of a dispatched plan really fits: the JSON text of its change list is at
  most as long as the policy's bound, because \<open>ManifestBytes\<close> never underestimates it.\<close>

theorem dispatched_manifest_fits:
  assumes "Evaluate policy inp = Inr plan" and "pl_disposition plan = ''dispatch''"
  shows "int (length (render True (changes_json (pl_changes plan)))) \<le> rp_max_manifest_bytes policy \<and>
    int (length (pl_changes plan)) \<le> rp_hard_limit policy"
proof -
  obtain b where b: "pi_batch inp = Some b" and p: "plan_branch policy b plan" using Evaluate_branch [OF assms(1)] by blast
  then have "pl_changes plan = projectChanges (br_changes b)" by (auto simp: plan_branch_def)
  moreover have "br_changes b \<noteq> []" "ManifestBytes (br_changes b) \<le> rp_max_manifest_bytes policy"
    "int (length (br_changes b)) \<le> rp_hard_limit policy"
    using Evaluate_dispatch_iff [OF assms(1) b] assms(2) by simp_all
  ultimately show ?thesis using ManifestBytes_bound [of "br_changes b"] by (simp add: projectChanges_def)
qed

text \<open>every plan speaks the closed vocabularies, gives at least one reason and no reason twice,
  is classified normal exactly when it has changes, and names a suppression exactly when the batch
  dropped a path for it.\<close>

theorem plans_are_well_formed:
  assumes "Evaluate policy inp = Inr plan" and "pi_batch inp = Some b"
  shows "is_ok (ParseDisposition (pl_disposition plan)) \<and> is_ok (ParseGenerationAction (pl_generation_action plan)) \<and>
    list_all (\<lambda>c. is_ok (ParseClassification c)) (pl_classification plan) \<and> distinct (pl_classification plan) \<and>
    pl_reason_codes plan \<noteq> [] \<and> distinct (pl_reason_codes plan) \<and>
    (''normal'' \<in> set (pl_classification plan)) = (br_changes b \<noteq> []) \<and>
    set (pl_reason_codes plan) \<inter> {ReasonUnchangedModify, ReasonCreateDeleteNever} =
      dr_reason ` set (br_dropped b) \<inter> {ReasonUnchangedModify, ReasonCreateDeleteNever}"
proof -
  obtain codes cs d g where plan: "plan = finish b (base_plan policy b) codes cs (Disposition_str d) g"
    and c: "codes \<noteq> []" "distinct codes" "ClassNormal \<in> cs \<longleftrightarrow> br_changes b \<noteq> []"
      "ReasonUnchangedModify \<notin> set codes" "ReasonCreateDeleteNever \<notin> set codes"
    using Evaluate_branch [OF assms(1)] assms(2) by (auto simp: plan_branch_def)
  have "''normal'' = Classification_str ClassNormal" by simp
  then have "(''normal'' \<in> set (classifyList cs)) = (ClassNormal \<in> cs)"
    by (auto simp: classifyList_def classification_order_def)
  moreover have "distinct (classifyList cs)"
    by (auto simp: classifyList_def classification_order_def distinct_map inj_on_def classification.text_inj)
  moreover have "set (pl_reason_codes plan) \<noteq> {}" using c(1) by (simp add: plan set_add_reasons)
  moreover have "set (pl_reason_codes plan) \<inter> {ReasonUnchangedModify, ReasonCreateDeleteNever} =
      dr_reason ` set (br_dropped b) \<inter> {ReasonUnchangedModify, ReasonCreateDeleteNever}"
    using c(4,5) by (simp only: plan set_add_reasons finish_simps set_simps) blast
  ultimately show ?thesis using c
    by (simp add: plan distinct_add_reasons disposition.parse_text generationAction.parse_text
        classification.parse_text list_all_classified)
qed

text \<open>C1: a batch that contains a protected or an immutable path is never dispatched, so no such path
  enters an automatic task (PTH-008): every change of a dispatched plan was classified as normal,
  and so was every path of the payload that was not excluded.\<close>

theorem protected_paths_never_dispatched:
  assumes "BuildBatch es (Some classify) resolver facts flags rid opts = Inr b"
    and "Evaluate policy \<lparr>pi_batch = Some b, pi_flags = flags, pi_active_dispatch_exists = active\<rparr> = Inr plan"
    and "pl_disposition plan = ''dispatch''"
  shows "list_all (\<lambda>c. classify (pc_path c) = Inr StatusNormal) (pl_changes plan) \<and>
    list_all (\<lambda>e. classify (we_name e) \<notin> {Inr StatusProtected, Inr StatusImmutable}) es"
proof -
  from Evaluate_branch [OF assms(2)] have ch: "pl_changes plan = projectChanges (br_changes b)"
    by (auto simp: plan_branch_def)
  from Evaluate_dispatch_iff [OF assms(2)] assms(3) have "br_protected b = []" "br_immutable b = []" by simp_all
  with BuildBatch_status [OF assms(1)]
  have none: "classify p \<notin> {Inr StatusProtected, Inr StatusImmutable}" if "p \<in> we_name ` set es" for p
    using that by auto
  have "classify (ci_path c) = Inr StatusNormal" if c: "c \<in> set (br_changes b)" for c
  proof -
    have "ci_path c \<in># mset (map ci_path (br_changes b)) + mset (map dr_path (br_dropped b))" using c by simp
    then have "ci_path c \<in> we_name ` set es" unfolding BuildBatch_paths [OF assms(1)] by simp
    moreover obtain st where "classify (ci_path c) = Inr st" "st \<noteq> StatusExcluded"
      using BuildBatch_change_status [OF assms(1) c] by blast
    ultimately show ?thesis using none by (cases st) auto
  qed
  with none show ?thesis by (auto simp: ch projectChanges_def list_all_iff)
qed

definition sample_policy :: RoutePolicy where
  "sample_policy = \<lparr>rp_route_id = ''r'', rp_route_revision = ''rev'', rp_resource_id = ''vault'',
     rp_automatic_threshold = 5, rp_hard_limit = 10, rp_max_manifest_bytes = 4096, rp_bulk_action = ''quarantine'',
     rp_overflow_action = ''reconcile'', rp_fresh_instance_action = ''dispatch'', rp_required_capabilities = []\<rparr>"

definition plan_entries :: "Entry list" where
  "plan_entries = [\<lparr>we_name = ''a.md'', we_ordinal = 0, we_op = ''delete'', we_type = ''unknown''\<rparr>]"

definition planned :: "string \<Rightarrow> BatchResult" where
  "planned fp = \<lparr>br_changes = [\<lparr>ci_path = ''a.md'', ci_ordinal = 0, ci_operation = ''delete'', ci_exists_after = False,
       ci_file_type = ''unknown'', ci_before_digest = [], ci_after_digest = [], ci_digest_status = ''not_applicable''\<rparr>],
     br_fingerprint = fp, br_dropped = [], br_replacements = {}, br_hash_unknown = [], br_protected = [],
     br_immutable = [], br_import_matches = []\<rparr>"

definition plan_input :: "BatchResult \<Rightarrow> PlanInput" where
  "plan_input b = \<lparr>pi_batch = Some b, pi_flags = sample_flags, pi_active_dispatch_exists = False\<rparr>"

lemma planned_batch:
  "\<exists>fp. BuildBatch plan_entries (Some sample_classify) (Some (sample_resolver [])) None sample_flags ''vault'' sample_options =
     Inr (planned fp)"
proof -
  have "batch_loop (batch_env_of sample_classify (sample_resolver []) None sample_options) (group_entries plan_entries) empty_result =
      Inr (planned [])"
    by code_simp
  moreover have "sort_result (planned []) = planned []" by code_simp
  moreover have "validateContentInput (batch_input sample_flags ''vault'' (planned [])) = Inr ()" by code_simp
  then obtain fp where "Content (batch_input sample_flags ''vault'' (planned [])) = Inr fp" by (simp add: Content_Inr_iff)
  ultimately show ?thesis by (simp add: BuildBatch_def sample_options_def planned_def)
qed

lemma planned_dispatch:
  "\<exists>plan. Evaluate sample_policy (plan_input (planned fp)) = Inr plan \<and> pl_disposition plan = ''dispatch''"
proof -
  have e: "Evaluate sample_policy (plan_input (planned fp)) \<noteq> Inl e" for e
    by (simp add: Evaluate_def plan_input_def sample_policy_def Let_def)
  then obtain plan where p: "Evaluate sample_policy (plan_input (planned fp)) = Inr plan"
    by (cases "Evaluate sample_policy (plan_input (planned fp))") auto
  have m: "ManifestBytes (br_changes (planned [])) \<le> rp_max_manifest_bytes sample_policy" by code_simp
  have c: "br_changes (planned fp) = br_changes (planned [])" by (simp add: planned_def)
  from Evaluate_dispatch_iff [OF p, of "planned fp"] m have "pl_disposition plan = ''dispatch''"
    unfolding c by (simp add: plan_input_def sample_flags_def planned_def sample_policy_def)
  with p show ?thesis by blast
qed

theorem protected_paths_never_dispatched_witness:
  "\<exists>b plan. BuildBatch plan_entries (Some sample_classify) (Some (sample_resolver [])) None sample_flags ''vault'' sample_options = Inr b \<and>
     Evaluate sample_policy (plan_input b) = Inr plan \<and> pl_changes plan \<noteq> [] \<and>
     list_all (\<lambda>c. sample_classify (pc_path c) = Inr StatusNormal) (pl_changes plan)"
proof -
  from planned_batch obtain fp where b: "BuildBatch plan_entries (Some sample_classify) (Some (sample_resolver [])) None
    sample_flags ''vault'' sample_options = Inr (planned fp)" by blast
  from planned_dispatch obtain plan where p: "Evaluate sample_policy (plan_input (planned fp)) = Inr plan"
    "pl_disposition plan = ''dispatch''" by blast
  have "pl_changes plan \<noteq> []"
    using Evaluate_branch [OF p(1)] by (auto simp: plan_branch_def plan_input_def planned_def projectChanges_def)
  with protected_paths_never_dispatched [OF b p(1) [unfolded plan_input_def] p(2)] b p(1) show ?thesis by blast
qed

theorem dispatch_is_the_last_resort_witness:
  "\<exists>plan. Evaluate sample_policy (plan_input (planned ''fp'')) = Inr plan \<and> pl_disposition plan = ''dispatch'' \<and>
     br_changes (planned ''fp'') \<noteq> []"
proof -
  from planned_dispatch obtain plan where p: "Evaluate sample_policy (plan_input (planned ''fp'')) = Inr plan"
    "pl_disposition plan = ''dispatch''" by blast
  moreover have "pi_batch (plan_input (planned ''fp'')) = Some (planned ''fp'')" by (simp add: plan_input_def)
  ultimately show ?thesis using dispatch_is_the_last_resort by blast
qed

theorem dispatched_manifest_fits_witness:
  "\<exists>plan. Evaluate sample_policy (plan_input (planned ''fp'')) = Inr plan \<and>
     int (length (render True (changes_json (pl_changes plan)))) \<le> 4096"
proof -
  from planned_dispatch obtain plan where p: "Evaluate sample_policy (plan_input (planned ''fp'')) = Inr plan"
    "pl_disposition plan = ''dispatch''" by blast
  from dispatched_manifest_fits [OF this] p(1) show ?thesis by (auto simp: sample_policy_def)
qed

theorem plans_are_well_formed_witness:
  "\<exists>plan. Evaluate sample_policy (plan_input (planned ''fp'')) = Inr plan \<and> pl_reason_codes plan \<noteq> [] \<and>
     ''normal'' \<in> set (pl_classification plan)"
proof -
  from planned_dispatch obtain plan where p: "Evaluate sample_policy (plan_input (planned ''fp'')) = Inr plan" by blast
  moreover have "pi_batch (plan_input (planned ''fp'')) = Some (planned ''fp'')" by (simp add: plan_input_def)
  ultimately have "pl_reason_codes plan \<noteq> []" "(''normal'' \<in> set (pl_classification plan)) = (br_changes (planned ''fp'') \<noteq> [])"
    using plans_are_well_formed by blast+
  with p show ?thesis by (simp add: planned_def)
qed

text \<open>C37: a batch whose every path was dropped is itself dropped, without a protected reason, also
  when it observed protected paths: the comment in \<open>batch.go\<close> that the planner quarantines them
  regardless does not hold, because the no-changes rule comes before the protected rule.\<close>

theorem protected_path_without_change_is_dropped:
  assumes "Evaluate policy inp = Inr plan" and "pi_batch inp = Some b" and "br_changes b = []"
    and "\<not> sf_overflow (pi_flags inp)" and "\<not> sf_fresh_instance (pi_flags inp)"
  shows "pl_disposition plan = ''drop'' \<and> ReasonProtectedPath \<notin> set (pl_reason_codes plan)"
  using assms
  by (auto simp: Evaluate_def Let_def set_add_reasons planner_reasons ReasonUnchangedModify_def
      ReasonCreateDeleteNever_def simp del: add_reasons.simps split: if_splits)

definition protected_entries :: "Entry list" where
  "protected_entries = [\<lparr>we_name = ''key.md'', we_ordinal = 0, we_op = ''create'', we_type = ''regular''\<rparr>,
     \<lparr>we_name = ''key.md'', we_ordinal = 1, we_op = ''delete'', we_type = ''regular''\<rparr>]"

definition absent_resolver :: Resolver where
  "absent_resolver = \<lparr>rv_stat = (\<lambda>_. Inl ErrNotExist), rv_resolve = (\<lambda>p. Inr p), rv_open = (\<lambda>_ _. Inl ErrMissing)\<rparr>"

theorem protected_path_without_change_is_dropped_witness:
  "\<exists>b plan. BuildBatch protected_entries (Some sample_classify) (Some absent_resolver) None sample_flags ''vault'' sample_options = Inr b \<and>
     br_protected b = [''key.md''] \<and> Evaluate sample_policy (plan_input b) = Inr plan \<and> pl_disposition plan = ''drop''"
proof -
  let ?r = "(add_drop ''key.md'' ReasonCreateDeleteNever empty_result)\<lparr>br_protected := [''key.md'']\<rparr>"
  have l: "batch_loop (batch_env_of sample_classify absent_resolver None sample_options) (group_entries protected_entries) empty_result = Inr ?r"
    by code_simp
  have "validateContentInput (batch_input sample_flags ''vault'' (sort_result ?r)) = Inr ()" by code_simp
  then obtain fp where "Content (batch_input sample_flags ''vault'' (sort_result ?r)) = Inr fp" by (simp add: Content_Inr_iff)
  with l have b: "BuildBatch protected_entries (Some sample_classify) (Some absent_resolver) None sample_flags ''vault'' sample_options =
      Inr ((sort_result ?r)\<lparr>br_fingerprint := fp\<rparr>)" (is "_ = Inr ?b")
    by (simp add: BuildBatch_def sample_options_def)
  have c: "br_changes ?b = []" "br_protected ?b = [''key.md'']"
    by (simp_all add: sort_result_def add_drop_def empty_result_def SortChanges_def)
  have "Evaluate sample_policy (plan_input ?b) \<noteq> Inl e" for e
    by (simp add: Evaluate_def plan_input_def sample_policy_def Let_def)
  then obtain plan where p: "Evaluate sample_policy (plan_input ?b) = Inr plan"
    by (cases "Evaluate sample_policy (plan_input ?b)") auto
  have i: "pi_batch (plan_input ?b) = Some ?b" "\<not> sf_overflow (pi_flags (plan_input ?b))"
    "\<not> sf_fresh_instance (pi_flags (plan_input ?b))" by (simp_all add: plan_input_def sample_flags_def)
  from protected_path_without_change_is_dropped [OF p i(1) c(1) i(2,3)] p b c(2) show ?thesis by blast
qed

end
