(* ===== verification/Selection.thy ===== *)
theory Selection
  imports Enums
begin

text \<open>
  Destination selection (\<open>src/internal/app/dispatch/selection.go\<close>): which destinations one
  occurrence selects, from its paths, operations, classification and disposition. The path
  matcher is an argument (the command line wires the pattern engine): it may be absent, and
  it may fail. Absent condition lists of the source are empty lists here, because the code
  only looks at their length.
\<close>

record SelectionContext =
  sc_paths :: "string list"
  sc_operations :: "string list"
  sc_classification :: string
  sc_disposition :: string

record DestinationConditionSet =
  dc_path_include :: "string list"
  dc_path_exclude :: "string list"
  dc_operations :: "string list"
  dc_classifications :: "string list"
  dc_policy_outcomes :: "string list"

datatype selection_error =
    MatcherRequired
  | PathConditionFailed string string

type_synonym matcher = "string \<Rightarrow> string \<Rightarrow> string + bool"

definition SelectionReasonUnconditional :: string where
  "SelectionReasonUnconditional = ''unconditional''"

definition SelectionReasonMatched :: string where
  "SelectionReasonMatched = ''conditions-matched''"

definition selectionNotMatched :: "string \<Rightarrow> string" where
  "selectionNotMatched cls = ''conditions-not-matched:'' @ cls"

text \<open>The two loops of \<open>anyPathMatches\<close>, which stop at the first match or error.\<close>

fun scan_paths :: "matcher \<Rightarrow> string \<Rightarrow> string list \<Rightarrow> selection_error + bool" where
  "scan_paths m pat [] = Inr False"
| "scan_paths m pat (p # ps) =
     bindE (map_err (PathConditionFailed pat) (m pat p)) (\<lambda>hit. if hit then Inr True else scan_paths m pat ps)"

fun scan_patterns :: "matcher \<Rightarrow> string list \<Rightarrow> string list \<Rightarrow> selection_error + bool" where
  "scan_patterns m [] ps = Inr False"
| "scan_patterns m (pat # pats) ps =
     bindE (scan_paths m pat ps) (\<lambda>hit. if hit then Inr True else scan_patterns m pats ps)"

definition anyPathMatches :: "string list \<Rightarrow> string list \<Rightarrow> matcher option \<Rightarrow> selection_error + bool" where
  "anyPathMatches paths patterns matchPath =
     (case matchPath of None \<Rightarrow> Inl MatcherRequired | Some m \<Rightarrow> scan_patterns m patterns paths)"

definition anyStringIn :: "string list \<Rightarrow> string list \<Rightarrow> bool" where
  "anyStringIn candidates allowed = list_ex (\<lambda>c. c \<in> set allowed) candidates"

definition unconditional :: "DestinationConditionSet \<Rightarrow> bool" where
  "unconditional c = (dc_path_include c = [] \<and> dc_path_exclude c = [] \<and> dc_operations c = [] \<and>
     dc_classifications c = [] \<and> dc_policy_outcomes c = [])"

text \<open>One path class: an absent class passes without a call of the matcher.\<close>

definition path_class ::
  "string list \<Rightarrow> string list \<Rightarrow> matcher option \<Rightarrow> bool \<Rightarrow> selection_error + bool" where
  "path_class paths patterns matchPath want =
     (if patterns = [] then Inr True
      else bindE (anyPathMatches paths patterns matchPath) (\<lambda>hit. Inr (hit = want)))"

definition SelectDestination ::
  "SelectionContext \<Rightarrow> DestinationConditionSet option \<Rightarrow> matcher option \<Rightarrow> selection_error + bool \<times> string" where
  "SelectDestination ctx conds matchPath =
     (case conds of
        None \<Rightarrow> Inr (True, SelectionReasonUnconditional)
      | Some c \<Rightarrow>
          if unconditional c then Inr (True, SelectionReasonUnconditional)
          else
            bindE (path_class (sc_paths ctx) (dc_path_include c) matchPath True) (\<lambda>included.
            if \<not> included then Inr (False, selectionNotMatched ''path_include'')
            else bindE (path_class (sc_paths ctx) (dc_path_exclude c) matchPath False) (\<lambda>kept.
            if \<not> kept then Inr (False, selectionNotMatched ''path_exclude'')
            else if dc_operations c \<noteq> [] \<and> \<not> anyStringIn (sc_operations ctx) (dc_operations c)
            then Inr (False, selectionNotMatched ''operations'')
            else if dc_classifications c \<noteq> [] \<and> sc_classification ctx \<notin> set (dc_classifications c)
            then Inr (False, selectionNotMatched ''classifications'')
            else if dc_policy_outcomes c \<noteq> [] \<and> sc_disposition ctx \<notin> set (dc_policy_outcomes c)
            then Inr (False, selectionNotMatched ''policy_outcomes'')
            else Inr (True, SelectionReasonMatched))))"

section \<open>The declarative reading of the conditions\<close>

text \<open>
  The classes in their order with their verdict for a matcher that answers every question:
  OR over the values of a class, AND over the classes that are present.
\<close>

definition class_verdicts ::
  "(string \<Rightarrow> string \<Rightarrow> bool) \<Rightarrow> SelectionContext \<Rightarrow> DestinationConditionSet \<Rightarrow> (string \<times> bool) list" where
  "class_verdicts hit ctx c =
     [(''path_include'', dc_path_include c = [] \<or> (\<exists>pat\<in>set (dc_path_include c). \<exists>p\<in>set (sc_paths ctx). hit pat p)),
      (''path_exclude'', \<not> (\<exists>pat\<in>set (dc_path_exclude c). \<exists>p\<in>set (sc_paths ctx). hit pat p)),
      (''operations'', dc_operations c = [] \<or> set (sc_operations ctx) \<inter> set (dc_operations c) \<noteq> {}),
      (''classifications'', dc_classifications c = [] \<or> sc_classification ctx \<in> set (dc_classifications c)),
      (''policy_outcomes'', dc_policy_outcomes c = [] \<or> sc_disposition ctx \<in> set (dc_policy_outcomes c))]"

definition first_failing :: "(string \<times> bool) list \<Rightarrow> string option" where
  "first_failing vs = map_option fst (List.find (\<lambda>v. \<not> snd v) vs)"

lemma scan_paths_total:
  "(\<And>pat p. m pat p = Inr (hit pat p)) \<Longrightarrow> scan_paths m pat ps = Inr (\<exists>p\<in>set ps. hit pat p)"
  by (induction ps) auto

lemma scan_patterns_total:
  "(\<And>pat p. m pat p = Inr (hit pat p)) \<Longrightarrow>
   scan_patterns m pats ps = Inr (\<exists>pat\<in>set pats. \<exists>p\<in>set ps. hit pat p)"
  by (induction pats) (auto simp: scan_paths_total [of m hit])

lemma path_class_total:
  assumes "\<And>pat p. m pat p = Inr (hit pat p)"
  shows "path_class ps pats (Some m) want =
    Inr (pats = [] \<or> (\<exists>pat\<in>set pats. \<exists>p\<in>set ps. hit pat p) = want)"
  by (simp add: path_class_def anyPathMatches_def scan_patterns_total [OF assms])

lemma anyStringIn_iff: "anyStringIn cs allowed \<longleftrightarrow> set cs \<inter> set allowed \<noteq> {}"
  by (auto simp: anyStringIn_def list_ex_iff)

text \<open>A hit stands at a pattern and a path for which the matcher said so.\<close>

lemma scan_paths_hit: "scan_paths m pat ps = Inr True \<Longrightarrow> \<exists>p\<in>set ps. m pat p = Inr True"
  by (induction ps) (auto simp: result_simps split: if_splits)

lemma scan_patterns_hit: "scan_patterns m pats ps = Inr True \<Longrightarrow> \<exists>pat\<in>set pats. \<exists>p\<in>set ps. m pat p = Inr True"
  by (induction pats) (auto simp: result_simps dest!: scan_paths_hit split: if_splits)

lemma scan_paths_clear: "scan_paths m pat ps = Inr False \<Longrightarrow> list_all (\<lambda>p. m pat p = Inr False) ps"
  by (induction ps) (auto simp: result_simps split: if_splits)

lemma scan_patterns_clear:
  "scan_patterns m pats ps = Inr False \<Longrightarrow> list_all (\<lambda>pat. list_all (\<lambda>p. m pat p = Inr False) ps) pats"
  by (induction pats) (auto simp: result_simps dest!: scan_paths_clear split: if_splits)

section \<open>Properties\<close>

text \<open>C18: with a matcher that answers every question, a destination is selected exactly when every
  condition class that is present holds, where one value of a class suffices; the reason of a
  refusal names the first class that fails (FAN-005).\<close>

theorem selection_follows_the_classes:
  assumes "\<And>pat p. m pat p = Inr (hit pat p)" and "\<not> unconditional c"
  shows "SelectDestination ctx (Some c) (Some m) =
    Inr (case first_failing (class_verdicts hit ctx c) of
      None \<Rightarrow> (True, ''conditions-matched'')
    | Some cls \<Rightarrow> (False, ''conditions-not-matched:'' @ cls))"
  using assms(2)
  by (auto simp: SelectDestination_def path_class_total [of m hit, OF assms(1)] class_verdicts_def first_failing_def
      SelectionReasonMatched_def selectionNotMatched_def anyStringIn_iff)

theorem selection_follows_the_classes_witness:
  "SelectDestination \<lparr>sc_paths = [''a''], sc_operations = [''modify''], sc_classification = ''bulk'', sc_disposition = ''dispatch''\<rparr>
     (Some \<lparr>dc_path_include = [''a'', ''b''], dc_path_exclude = [], dc_operations = [''create'', ''modify''],
        dc_classifications = [''normal''], dc_policy_outcomes = [''drop'']\<rparr>) (Some (\<lambda>pat p. Inr (pat = p))) =
   Inr (False, ''conditions-not-matched:classifications'')"
  by (subst selection_follows_the_classes [where hit = "\<lambda>pat p. pat = p"])
    (auto simp: unconditional_def class_verdicts_def first_failing_def)

text \<open>selection fails closed: a destination with path conditions is selected only when the matcher
  answered, with a hit for one include pattern and a clear no for every exclude pattern on every
  path; an error or a missing matcher selects nothing (FAN-004).\<close>

theorem selection_fails_closed:
  assumes "SelectDestination ctx (Some c) matchPath = Inr (True, r)"
    and "dc_path_include c \<noteq> [] \<or> dc_path_exclude c \<noteq> []"
  shows "\<exists>m. matchPath = Some m \<and>
    (dc_path_include c = [] \<or> (\<exists>pat p. pat \<in> set (dc_path_include c) \<and> p \<in> set (sc_paths ctx) \<and> m pat p = Inr True)) \<and>
    list_all (\<lambda>pat. list_all (\<lambda>p. m pat p = Inr False) (sc_paths ctx)) (dc_path_exclude c)"
proof -
  have u: "\<not> unconditional c" using assms(2) by (auto simp: unconditional_def)
  from assms(1) u have i: "path_class (sc_paths ctx) (dc_path_include c) matchPath True = Inr True"
    and e: "path_class (sc_paths ctx) (dc_path_exclude c) matchPath False = Inr True"
    by (auto simp: SelectDestination_def result_simps split: if_splits)
  from i e assms(2) obtain m where m: "matchPath = Some m"
    by (cases matchPath) (auto simp: path_class_def anyPathMatches_def split: if_splits)
  have "dc_path_include c = [] \<or> scan_patterns m (dc_path_include c) (sc_paths ctx) = Inr True"
    using i by (auto simp: m path_class_def anyPathMatches_def result_simps split: if_splits)
  moreover have "dc_path_exclude c = [] \<or> scan_patterns m (dc_path_exclude c) (sc_paths ctx) = Inr False"
    using e by (auto simp: m path_class_def anyPathMatches_def result_simps split: if_splits)
  ultimately show ?thesis
    by (auto simp: m dest!: scan_patterns_hit scan_patterns_clear)
qed

theorem selection_fails_closed_witness:
  "\<exists>m. Some (\<lambda>pat p. if p = ''bad'' then Inl ''io'' else Inr (pat = p)) = Some m \<and>
     ([''a''] = [] \<or> (\<exists>pat p. pat \<in> set [''a''] \<and> p \<in> set [''x'', ''a''] \<and> m pat p = Inr True)) \<and>
     list_all (\<lambda>pat. list_all (\<lambda>p. m pat p = Inr False) [''x'', ''a'']) [''b'']"
  using selection_fails_closed [of "\<lparr>sc_paths = [''x'', ''a''], sc_operations = [], sc_classification = [], sc_disposition = []\<rparr>"
      "\<lparr>dc_path_include = [''a''], dc_path_exclude = [''b''], dc_operations = [], dc_classifications = [], dc_policy_outcomes = []\<rparr>"
      "Some (\<lambda>pat p. if p = ''bad'' then Inl ''io'' else Inr (pat = p))" SelectionReasonMatched]
  by (simp add: SelectDestination_def unconditional_def path_class_def anyPathMatches_def)

end
