(* ===== verification/TaskRequest.thy ===== *)
theory TaskRequest
  imports Planner
begin

text \<open>
  The immutable task request (\<open>src/internal/app/dispatch/request.go\<close>, with its data types
  from \<open>src/internal/ports/sink.go\<close>): what \<open>BuildRequest\<close> checks, the child idempotency
  key it derives, the activation manifest and its digest, and the JSON text that is stored.
  An absent optional block is \<open>None\<close>. The skills of an assignment are an option as well:
  a nil slice is written as \<open>null\<close>, an empty one as \<open>[]\<close>.
\<close>

section \<open>The request contract\<close>

definition TaskRequestContractVersion :: string where
  "TaskRequestContractVersion = ''agent-dispatch.hermes-task/v1''"

record TaskRouteRef =
  tr_id :: string
  tr_revision :: string

record TaskDestinationRef =
  td_id :: string
  td_revision :: string
  td_workstream :: string

record TaskResource =
  tc_id :: string
  tc_workspace :: string

record TaskAssignment =
  ta_profile :: string
  ta_skills :: "string list option"
  ta_mutex_key :: string

record TaskExecutionHints =
  th_max_runtime_seconds :: int
  th_max_attempts :: int

record TaskManifestItem =
  tm_path :: string
  tm_operation :: string
  tm_before_digest :: string
  tm_after_digest :: string

record TaskActivation =
  tn_mode :: string
  tn_generation :: int
  tn_content_fingerprint :: string
  tn_manifest :: "TaskManifestItem list"
  tn_flags :: "string list"

record TaskRequest =
  tq_contract_version :: string
  tq_dispatch_id :: string
  tq_idempotency_key :: string
  tq_route :: TaskRouteRef
  tq_resource :: TaskResource
  tq_destination :: "TaskDestinationRef option"
  tq_assignment :: "TaskAssignment option"
  tq_execution_hints :: "TaskExecutionHints option"
  tq_activation :: TaskActivation
  tq_acceptance_criteria :: "string list"

record RequestInput =
  ri_dispatch_id :: string
  ri_route :: TaskRouteRef
  ri_resource :: TaskResource
  ri_target_id :: string
  ri_target_scope :: string
  ri_destination :: TaskDestinationRef
  ri_generation :: int
  ri_fingerprint :: string
  ri_changes :: "ChangeItem list"
  ri_flags :: "string list"
  ri_acceptance_criteria :: "string list"
  ri_assignment :: "TaskAssignment option"
  ri_execution_hints :: "TaskExecutionHints option"

datatype request_error =
    NeedsDispatchAndRoute
  | NeedsResource
  | WorkspaceForm string
  | NeedsTarget
  | NeedsDestination
  | GenerationBelowOne
  | BadFingerprint record_error
  | NoAcceptanceCriteria
  | KeyFailed fingerprint_error

section \<open>The workspace binding\<close>

text \<open>The regular expression \<open>^(scratch|worktree|worktree:.+|dir:.+)$\<close>: the dot matches every
  character but a newline.\<close>

definition bound_form :: "string \<Rightarrow> string \<Rightarrow> bool" where
  "bound_form pre w =
     (take (length pre) w = pre \<and> drop (length pre) w \<noteq> [] \<and> CHR 0x0A \<notin> set (drop (length pre) w))"

definition workspaceBindingForm :: "string \<Rightarrow> bool" where
  "workspaceBindingForm w = (w = ''scratch'' \<or> w = ''worktree'' \<or> bound_form ''worktree:'' w \<or> bound_form ''dir:'' w)"

section \<open>The manifest\<close>

definition manifest :: "ChangeItem list \<Rightarrow> TaskManifestItem list" where
  "manifest cs = map (\<lambda>c. \<lparr>tm_path = ci_path c, tm_operation = ci_operation c,
     tm_before_digest = ci_before_digest c, tm_after_digest = ci_after_digest c\<rparr>) cs"

definition manifest_item_json :: "TaskManifestItem \<Rightarrow> json" where
  "manifest_item_json m =
     JObj ([(''path'', JStr (tm_path m)), (''operation'', JStr (tm_operation m))] @
           omit_empty ''before_digest'' (tm_before_digest m) @ omit_empty ''after_digest'' (tm_after_digest m))"

definition ManifestDigest :: "ChangeItem list \<Rightarrow> string" where
  "ManifestDigest cs = ''sha256:'' @ sha256_hex (render True (JArr (map manifest_item_json (manifest cs))))"

section \<open>The stored text\<close>

definition strings_json :: "string list \<Rightarrow> json" where
  "strings_json ss = JArr (map JStr ss)"

definition omit_zero :: "string \<Rightarrow> int \<Rightarrow> (string \<times> json) list" where
  "omit_zero k i = (if i = 0 then [] else [(k, JInt i)])"

definition omit_nil :: "string \<Rightarrow> ('a \<Rightarrow> json) \<Rightarrow> 'a option \<Rightarrow> (string \<times> json) list" where
  "omit_nil k f v = (case v of None \<Rightarrow> [] | Some x \<Rightarrow> [(k, f x)])"

definition destination_json :: "TaskDestinationRef \<Rightarrow> json" where
  "destination_json d = JObj [(''id'', JStr (td_id d)), (''revision'', JStr (td_revision d)),
     (''workstream'', JStr (td_workstream d))]"

definition assignment_json :: "TaskAssignment \<Rightarrow> json" where
  "assignment_json a = JObj ([(''profile'', JStr (ta_profile a)),
     (''skills'', case ta_skills a of None \<Rightarrow> JNull | Some ss \<Rightarrow> strings_json ss)] @
     omit_empty ''mutex_key'' (ta_mutex_key a))"

definition hints_json :: "TaskExecutionHints \<Rightarrow> json" where
  "hints_json h = JObj (omit_zero ''max_runtime_seconds'' (th_max_runtime_seconds h) @
     omit_zero ''max_attempts'' (th_max_attempts h))"

definition activation_json :: "TaskActivation \<Rightarrow> json" where
  "activation_json a = JObj [(''mode'', JStr (tn_mode a)), (''generation'', JInt (tn_generation a)),
     (''content_fingerprint'', JStr (tn_content_fingerprint a)),
     (''manifest'', JArr (map manifest_item_json (tn_manifest a))), (''flags'', strings_json (tn_flags a))]"

definition request_json :: "TaskRequest \<Rightarrow> json" where
  "request_json r = JObj
     ([(''contract_version'', JStr (tq_contract_version r)), (''dispatch_id'', JStr (tq_dispatch_id r)),
       (''idempotency_key'', JStr (tq_idempotency_key r)),
       (''route'', JObj [(''id'', JStr (tr_id (tq_route r))), (''revision'', JStr (tr_revision (tq_route r)))]),
       (''resource'', JObj [(''id'', JStr (tc_id (tq_resource r))), (''workspace'', JStr (tc_workspace (tq_resource r)))])] @
      omit_nil ''destination'' destination_json (tq_destination r) @
      omit_nil ''assignment'' assignment_json (tq_assignment r) @
      omit_nil ''execution_hints'' hints_json (tq_execution_hints r) @
      [(''activation'', activation_json (tq_activation r)),
       (''acceptance_criteria'', strings_json (tq_acceptance_criteria r))])"

definition MarshalRequest :: "TaskRequest \<Rightarrow> string" where
  "MarshalRequest r = render True (request_json r)"

definition WikiAcceptanceCriteria :: "string list" where
  "WikiAcceptanceCriteria =
     [''Evaluate the current vault state using the configured LLM Wiki skill.'',
      ''Re-evaluate indexing, referencing, and grouping affected by the latest state.'',
      ''Respect Hermes permissions, approvals, and protected-path policy.'',
      ''Do not assume that a manifest path still exists at execution time.'',
      ''Report a bounded Agent Dispatch work receipt when the companion CLI is available.'']"

section \<open>Building a request\<close>

definition key_input :: "RequestInput \<Rightarrow> ChildIdempotencyKeyInput" where
  "key_input i =
     \<lparr>ck_content_fingerprint = ri_fingerprint i, ck_destination_id = td_id (ri_destination i),
      ck_destination_revision = td_revision (ri_destination i), ck_generation = ri_generation i,
      ck_request_version = TaskRequestContractVersion, ck_route_id = tr_id (ri_route i),
      ck_route_revision = tr_revision (ri_route i), ck_target_scope = ri_target_scope i,
      ck_workstream = td_workstream (ri_destination i)\<rparr>"

definition request_of :: "RequestInput \<Rightarrow> string \<Rightarrow> TaskRequest" where
  "request_of i key =
     \<lparr>tq_contract_version = TaskRequestContractVersion, tq_dispatch_id = ri_dispatch_id i,
      tq_idempotency_key = key, tq_route = ri_route i, tq_resource = ri_resource i,
      tq_destination = Some (ri_destination i), tq_assignment = ri_assignment i,
      tq_execution_hints = ri_execution_hints i,
      tq_activation = \<lparr>tn_mode = ''latest_state'', tn_generation = ri_generation i,
        tn_content_fingerprint = ri_fingerprint i, tn_manifest = manifest (ri_changes i), tn_flags = ri_flags i\<rparr>,
      tq_acceptance_criteria = ri_acceptance_criteria i\<rparr>"

definition BuildRequest :: "RequestInput \<Rightarrow> request_error + TaskRequest \<times> string" where
  "BuildRequest i =
     (if ri_dispatch_id i = [] \<or> tr_id (ri_route i) = [] \<or> tr_revision (ri_route i) = [] then Inl NeedsDispatchAndRoute
      else if tc_id (ri_resource i) = [] \<or> tc_workspace (ri_resource i) = [] then Inl NeedsResource
      else if \<not> workspaceBindingForm (tc_workspace (ri_resource i)) then Inl (WorkspaceForm (tc_workspace (ri_resource i)))
      else if ri_target_id i = [] then Inl NeedsTarget
      else if td_id (ri_destination i) = [] \<or> td_revision (ri_destination i) = [] \<or> td_workstream (ri_destination i) = []
      then Inl NeedsDestination
      else if ri_generation i < 1 then Inl GenerationBelowOne
      else bindE (map_err BadFingerprint (ParseDigest (ri_fingerprint i))) (\<lambda>_.
        if ri_acceptance_criteria i = [] then Inl NoAcceptanceCriteria
        else bindE (map_err KeyFailed (ChildIdempotency (key_input i))) (\<lambda>key. Inr (request_of i key, key))))"

text \<open>\<open>manifestToChanges\<close> of \<open>operator.go\<close>: entries with an unknown operation are skipped.\<close>

definition manifest_change :: "TaskManifestItem \<Rightarrow> ChangeItem list" where
  "manifest_change m =
     (case ParseOperation (tm_operation m) of
        Inl _ \<Rightarrow> []
      | Inr op \<Rightarrow> [\<lparr>ci_path = tm_path m, ci_ordinal = 0, ci_operation = Operation_str op,
          ci_exists_after = (op \<noteq> OpDelete), ci_file_type = FileType_str FileRegular,
          ci_before_digest = tm_before_digest m, ci_after_digest = tm_after_digest m,
          ci_digest_status = DigestStatus_str DigestKnown\<rparr>])"

definition manifestToChanges :: "TaskManifestItem list \<Rightarrow> ChangeItem list" where
  "manifestToChanges ms = concat (map manifest_change ms)"

section \<open>The checks of a built request\<close>

lemma BuildRequest_Inr_iff:
  "BuildRequest i = Inr rk \<longleftrightarrow>
     [] \<notin> {ri_dispatch_id i, tr_id (ri_route i), tr_revision (ri_route i), tc_id (ri_resource i), ri_target_id i,
       td_id (ri_destination i), td_revision (ri_destination i), td_workstream (ri_destination i)} \<and>
     workspaceBindingForm (tc_workspace (ri_resource i)) \<and> 1 \<le> ri_generation i \<and>
     is_ok (ParseDigest (ri_fingerprint i)) \<and> ri_acceptance_criteria i \<noteq> [] \<and>
     (\<exists>key. ChildIdempotency (key_input i) = Inr key \<and> rk = (request_of i key, key))"
proof -
  have "workspaceBindingForm [] = False" by (simp add: workspaceBindingForm_def bound_form_def)
  then show ?thesis by (auto simp: BuildRequest_def result_simps is_ok_iff not_less)
qed

lemma manifestToChanges_manifest:
  assumes "\<And>m. m \<in> set ms \<Longrightarrow> is_ok (ParseOperation (tm_operation m))"
  shows "manifest (manifestToChanges ms) = ms"
  using assms
proof (induction ms)
  case (Cons m ms)
  from Cons.prems [of m] obtain op where "ParseOperation (tm_operation m) = Inr op" by (auto simp: is_ok_iff)
  then have "tm_operation m = Operation_str op" by (simp add: operation.parse_iff)
  with Cons show ?case
    by (simp add: manifestToChanges_def manifest_change_def manifest_def operation.parse_text)
qed (simp add: manifestToChanges_def manifest_def)

section \<open>Properties\<close>

text \<open>C15: two built requests carry the same idempotency key exactly when they are the same work: the
  same route and revision, destination, workstream, target scope, generation and content
  fingerprint. The dispatch id, the manifest, the flags and the assignment do not matter
  (DAT-014, DUR-012). The hypothesis is that SHA-256 does not map the two key texts together.\<close>

theorem request_key_identifies_the_work:
  assumes "BuildRequest i = Inr (r, k)" and "BuildRequest j = Inr (q, l)"
    and "sha256 (child_text (key_input i)) = sha256 (child_text (key_input j)) \<Longrightarrow>
      child_text (key_input i) = child_text (key_input j)"
  shows "(tq_idempotency_key r = tq_idempotency_key q) =
    (tq_route r = tq_route q \<and> tq_destination r = tq_destination q \<and> ri_target_scope i = ri_target_scope j \<and>
     tn_generation (tq_activation r) = tn_generation (tq_activation q) \<and>
     tn_content_fingerprint (tq_activation r) = tn_content_fingerprint (tq_activation q))"
proof -
  have c: "ChildIdempotency (key_input i) = Inr k" "r = request_of i k"
    "ChildIdempotency (key_input j) = Inr l" "q = request_of j l"
    using assms(1,2) by (auto simp: BuildRequest_Inr_iff)
  have "k = l \<longleftrightarrow> key_input i = key_input j"
    using ChildIdempotency_inj [OF c(1) _ assms(3)] c(1,3) by (metis sum.inject(2))
  also have "\<dots> \<longleftrightarrow> ri_route i = ri_route j \<and> ri_destination i = ri_destination j \<and>
      ri_target_scope i = ri_target_scope j \<and> ri_generation i = ri_generation j \<and> ri_fingerprint i = ri_fingerprint j"
    by (cases "ri_route i"; cases "ri_route j"; cases "ri_destination i"; cases "ri_destination j")
      (auto simp: key_input_def)
  finally show ?thesis by (simp add: c(2,4) request_of_def)
qed

definition sample_request_input :: "string \<Rightarrow> RequestInput" where
  "sample_request_input did =
     \<lparr>ri_dispatch_id = did, ri_route = \<lparr>tr_id = ''r'', tr_revision = ''rev''\<rparr>,
      ri_resource = \<lparr>tc_id = ''vault'', tc_workspace = ''dir:/vault''\<rparr>, ri_target_id = ''t'', ri_target_scope = [],
      ri_destination = \<lparr>td_id = ''d'', td_revision = ''dst-1'', td_workstream = ''w''\<rparr>, ri_generation = 1,
      ri_fingerprint = ''sha256:'' @ replicate 64 (CHR ''0''), ri_changes = [], ri_flags = [],
      ri_acceptance_criteria = [''done''], ri_assignment = None, ri_execution_hints = None\<rparr>"

lemma sample_request_built:
  "did \<noteq> [] \<Longrightarrow> \<exists>k. BuildRequest (sample_request_input did) = Inr (request_of (sample_request_input did) k, k)"
proof -
  assume "did \<noteq> []"
  have d: "is_ok (ParseDigest (''sha256:'' @ replicate 64 (CHR ''0'')))" by code_simp
  have w: "workspaceBindingForm ''dir:/vault''" by code_simp
  have "valid_utf8 TaskRequestContractVersion" "TaskRequestContractVersion \<noteq> []"
    by (simp_all add: TaskRequestContractVersion_def byte_def)
  then have "\<exists>k. ChildIdempotency (key_input (sample_request_input did)) = Inr k"
    using d by (simp add: ChildIdempotency_Inr_iff key_input_def sample_request_input_def byte_def)
  with d w \<open>did \<noteq> []\<close> show ?thesis
    unfolding BuildRequest_Inr_iff by (simp add: sample_request_input_def)
qed

theorem request_key_identifies_the_work_witness:
  "\<exists>r k q l. BuildRequest (sample_request_input ''one'') = Inr (r, k) \<and> BuildRequest (sample_request_input ''two'') = Inr (q, l) \<and>
     tq_idempotency_key r = tq_idempotency_key q \<and> tq_dispatch_id r \<noteq> tq_dispatch_id q"
proof -
  obtain k l where b: "BuildRequest (sample_request_input ''one'') = Inr (request_of (sample_request_input ''one'') k, k)"
    "BuildRequest (sample_request_input ''two'') = Inr (request_of (sample_request_input ''two'') l, l)"
    using sample_request_built by blast
  have "key_input (sample_request_input ''one'') = key_input (sample_request_input ''two'')"
    by (simp add: key_input_def sample_request_input_def)
  with request_key_identifies_the_work [OF b]
  have "k = l" by (simp add: request_of_def sample_request_input_def)
  with b show ?thesis by (auto simp: request_of_def sample_request_input_def)
qed

text \<open>a stored manifest survives a rerun: read back as changes and projected again it is the
  same list, so the rerun's manifest has the digest that was recorded for the original.\<close>

theorem manifest_survives_rerun:
  assumes "\<And>m. m \<in> set ms \<Longrightarrow> is_ok (ParseOperation (tm_operation m))"
  shows "manifest (manifestToChanges ms) = ms \<and>
    (ms = manifest cs \<longrightarrow> ManifestDigest (manifestToChanges ms) = ManifestDigest cs)"
  using manifestToChanges_manifest [OF assms] by (auto simp: ManifestDigest_def)

theorem manifest_survives_rerun_witness:
  "manifest (manifestToChanges [\<lparr>tm_path = ''a.md'', tm_operation = ''delete'', tm_before_digest = ''sha256:0'', tm_after_digest = []\<rparr>]) =
   [\<lparr>tm_path = ''a.md'', tm_operation = ''delete'', tm_before_digest = ''sha256:0'', tm_after_digest = []\<rparr>]"
  using manifest_survives_rerun [of "[\<lparr>tm_path = ''a.md'', tm_operation = ''delete'', tm_before_digest = ''sha256:0'', tm_after_digest = []\<rparr>]"]
  by (simp add: ParseOperation_def)

end
