(* ===== verification/IntentMachine.thy ===== *)
theory IntentMachine
  imports Enums
begin

text \<open>
  The dispatch intent state machine (\<open>src/internal/domain/state/intent.go\<close>) and the
  projections of receipts onto it (\<open>projection.go\<close>). A transition names its edge, its
  reason and its evidence; \<open>ValidateIntentTransition\<close> is the only authority that admits
  it. The validator meets the \<open>transition_table\<close> contract, so the properties of whole
  runs follow from one look at each edge.
\<close>

datatype IntentReason =
    ReasonLeaseAcquired
  | ReasonDurableAcceptance
  | ReasonDefiniteRejection
  | ReasonAmbiguousOutcome
  | ReasonTransientFailure
  | ReasonRetryDue
  | ReasonLookupStarted
  | ReasonLookupFoundAccepted
  | ReasonLookupNotAccepted
  | ReasonUnresolvedOrLimit
  | ReasonTerminalPolicy
  | ReasonRouteInvalidated
  | ReasonExecutionSucceeded
  | ReasonExecutionFailed
  | ReasonTargetCanceled
  | ReasonExplicitRetry
  | ReasonReprocessOrDiscard

primrec IntentReason_str :: "IntentReason \<Rightarrow> string" where
  "IntentReason_str ReasonLeaseAcquired = ''lease_acquired''"
| "IntentReason_str ReasonDurableAcceptance = ''durable_acceptance''"
| "IntentReason_str ReasonDefiniteRejection = ''definite_rejection''"
| "IntentReason_str ReasonAmbiguousOutcome = ''ambiguous_outcome''"
| "IntentReason_str ReasonTransientFailure = ''transient_failure''"
| "IntentReason_str ReasonRetryDue = ''retry_due''"
| "IntentReason_str ReasonLookupStarted = ''lookup_started''"
| "IntentReason_str ReasonLookupFoundAccepted = ''lookup_found_accepted''"
| "IntentReason_str ReasonLookupNotAccepted = ''lookup_proven_not_accepted''"
| "IntentReason_str ReasonUnresolvedOrLimit = ''unresolved_or_limit_reached''"
| "IntentReason_str ReasonTerminalPolicy = ''terminal_policy''"
| "IntentReason_str ReasonRouteInvalidated = ''route_revision_invalidated''"
| "IntentReason_str ReasonExecutionSucceeded = ''execution_succeeded''"
| "IntentReason_str ReasonExecutionFailed = ''execution_failed''"
| "IntentReason_str ReasonTargetCanceled = ''target_canceled''"
| "IntentReason_str ReasonExplicitRetry = ''explicit_retry''"
| "IntentReason_str ReasonReprocessOrDiscard = ''reprocess_or_discard''"

definition AllIntentReasons :: "IntentReason list" where
  "AllIntentReasons =
     [ReasonLeaseAcquired, ReasonDurableAcceptance, ReasonDefiniteRejection, ReasonAmbiguousOutcome,
      ReasonTransientFailure, ReasonRetryDue, ReasonLookupStarted, ReasonLookupFoundAccepted,
      ReasonLookupNotAccepted, ReasonUnresolvedOrLimit, ReasonTerminalPolicy, ReasonRouteInvalidated,
      ReasonExecutionSucceeded, ReasonExecutionFailed, ReasonTargetCanceled, ReasonExplicitRetry,
      ReasonReprocessOrDiscard]"

definition AllIntentStates :: "IntentState list" where
  "AllIntentStates =
     [IntentReady, IntentSubmitting, IntentAccepted, IntentRejected, IntentUnknown, IntentRetryWait,
      IntentReconciling, IntentDeadLettered, IntentSuperseded, IntentCompleted, IntentFailed, IntentCanceled]"

definition intent_edges :: "((IntentState \<times> IntentState) \<times> IntentReason list) list" where
  "intent_edges =
     [((IntentReady, IntentSubmitting), [ReasonLeaseAcquired]),
      ((IntentSubmitting, IntentAccepted), [ReasonDurableAcceptance]),
      ((IntentSubmitting, IntentRejected), [ReasonDefiniteRejection]),
      ((IntentSubmitting, IntentUnknown), [ReasonAmbiguousOutcome]),
      ((IntentSubmitting, IntentRetryWait), [ReasonTransientFailure]),
      ((IntentRetryWait, IntentSubmitting), [ReasonRetryDue]),
      ((IntentUnknown, IntentReconciling), [ReasonLookupStarted]),
      ((IntentReconciling, IntentAccepted), [ReasonLookupFoundAccepted]),
      ((IntentReconciling, IntentRetryWait), [ReasonLookupNotAccepted]),
      ((IntentReconciling, IntentDeadLettered), [ReasonUnresolvedOrLimit]),
      ((IntentRejected, IntentDeadLettered), [ReasonTerminalPolicy]),
      ((IntentReady, IntentSuperseded), [ReasonRouteInvalidated]),
      ((IntentAccepted, IntentCompleted), [ReasonExecutionSucceeded]),
      ((IntentAccepted, IntentFailed), [ReasonExecutionFailed]),
      ((IntentAccepted, IntentCanceled), [ReasonTargetCanceled]),
      ((IntentDeadLettered, IntentReady), [ReasonExplicitRetry]),
      ((IntentDeadLettered, IntentSuperseded), [ReasonReprocessOrDiscard])]"

definition intentTable :: "IntentState \<Rightarrow> IntentState \<Rightarrow> IntentReason list option" where
  "intentTable s t = map_of intent_edges (s, t)"

definition CanTransitionIntent :: "IntentState \<Rightarrow> IntentState \<Rightarrow> bool" where
  "CanTransitionIntent s t = (intentTable s t \<noteq> None)"

definition IntentReasons :: "IntentState \<Rightarrow> IntentState \<Rightarrow> IntentReason list option" where
  "IntentReasons s t = intentTable s t"

section \<open>Evidence\<close>

record LeaseEvidence =
  le_owner :: string
  le_expires_at :: string

text \<open>\<open>re_result\<close> is a text of the acceptance vocabulary, empty when no lookup was made.\<close>

record ReconciliationEvidence =
  re_result :: string
  re_external_ref :: string
  re_attempts_exhausted :: bool

record IntentEvidence =
  ie_actor :: string
  ie_lease :: "LeaseEvidence option"
  ie_reconciliation :: "ReconciliationEvidence option"
  ie_explicit_retry :: bool
  ie_receipt_ref :: string

definition no_intent_evidence :: IntentEvidence where
  "no_intent_evidence =
     \<lparr>ie_actor = [], ie_lease = None, ie_reconciliation = None, ie_explicit_retry = False, ie_receipt_ref = []\<rparr>"

datatype intent_detail =
    EdgeNotDeclared
  | ReasonNotDocumented "IntentReason list"
  | NeedsLease
  | NeedsAcceptanceReceipt
  | NeedsRejectionReceipt
  | NeedsReconcilingActor
  | NeedsAcceptedLookup
  | NeedsRejectedLookup
  | NeedsUnresolvedOrExhausted
  | NeedsProjectionReceipt
  | NeedsExplicitRetry

datatype intent_error =
  IntentRejection IntentState IntentState IntentReason intent_detail

definition lookup_says :: "AcceptanceState \<Rightarrow> IntentEvidence \<Rightarrow> bool" where
  "lookup_says a ev =
     (case ie_reconciliation ev of None \<Rightarrow> False | Some r \<Rightarrow> re_result r = AcceptanceState_str a)"

definition lookup_exhausted :: "IntentEvidence \<Rightarrow> bool" where
  "lookup_exhausted ev = (case ie_reconciliation ev of None \<Rightarrow> False | Some r \<Rightarrow> re_attempts_exhausted r)"

definition lease_held :: "IntentEvidence \<Rightarrow> bool" where
  "lease_held ev = (case ie_lease ev of None \<Rightarrow> False | Some l \<Rightarrow> le_owner l \<noteq> [] \<and> le_expires_at l \<noteq> [])"

text \<open>The guard switch of \<open>ValidateIntentTransition\<close>: the detail of the refusal, or none.\<close>

definition intent_guard :: "IntentState \<Rightarrow> IntentState \<Rightarrow> IntentEvidence \<Rightarrow> intent_detail option" where
  "intent_guard s t ev =
     (if (s, t) \<in> {(IntentReady, IntentSubmitting), (IntentRetryWait, IntentSubmitting)}
      then (if \<not> lease_held ev then Some NeedsLease else None)
      else if (s, t) = (IntentSubmitting, IntentAccepted)
      then (if ie_receipt_ref ev = [] then Some NeedsAcceptanceReceipt else None)
      else if (s, t) = (IntentSubmitting, IntentRejected)
      then (if ie_receipt_ref ev = [] then Some NeedsRejectionReceipt else None)
      else if (s, t) = (IntentUnknown, IntentReconciling)
      then (if ie_actor ev = [] then Some NeedsReconcilingActor else None)
      else if (s, t) = (IntentReconciling, IntentAccepted)
      then (if \<not> lookup_says AcceptanceAccepted ev then Some NeedsAcceptedLookup else None)
      else if (s, t) = (IntentReconciling, IntentRetryWait)
      then (if \<not> lookup_says AcceptanceRejected ev then Some NeedsRejectedLookup else None)
      else if (s, t) = (IntentReconciling, IntentDeadLettered)
      then (if \<not> lookup_says AcceptanceUnknown ev \<and> \<not> lookup_exhausted ev
            then Some NeedsUnresolvedOrExhausted else None)
      else if (s, t) \<in> {(IntentAccepted, IntentCompleted), (IntentAccepted, IntentFailed), (IntentAccepted, IntentCanceled)}
      then (if ie_receipt_ref ev = [] then Some NeedsProjectionReceipt else None)
      else if (s, t) = (IntentDeadLettered, IntentReady)
      then (if \<not> ie_explicit_retry ev \<or> ie_actor ev = [] then Some NeedsExplicitRetry else None)
      else None)"

definition ValidateIntentTransition ::
  "IntentState \<Rightarrow> IntentState \<Rightarrow> IntentReason \<Rightarrow> IntentEvidence \<Rightarrow> intent_error + unit" where
  "ValidateIntentTransition s t reason ev =
     (case intentTable s t of
        None \<Rightarrow> Inl (IntentRejection s t reason EdgeNotDeclared)
      | Some reasons \<Rightarrow>
          if reason \<notin> set reasons then Inl (IntentRejection s t reason (ReasonNotDocumented reasons))
          else case intent_guard s t ev of
            Some d \<Rightarrow> Inl (IntentRejection s t reason d)
          | None \<Rightarrow> Inr ())"

section \<open>Projections\<close>

text \<open>
  The arguments are texts of the two axes; a text outside the vocabulary is an error.
\<close>

datatype projection_error =
    UnknownAcceptance string
  | UnknownExecution string
  | ErrExecutionNotTerminal

definition AcceptanceTransition :: "string \<Rightarrow> projection_error + IntentState \<times> IntentReason" where
  "AcceptanceTransition a =
     (if a = AcceptanceState_str AcceptanceAccepted then Inr (IntentAccepted, ReasonDurableAcceptance)
      else if a = AcceptanceState_str AcceptanceRejected then Inr (IntentRejected, ReasonDefiniteRejection)
      else if a = AcceptanceState_str AcceptanceUnknown then Inr (IntentUnknown, ReasonAmbiguousOutcome)
      else Inl (UnknownAcceptance a))"

definition ExecutionTransition :: "string \<Rightarrow> projection_error + IntentState \<times> IntentReason" where
  "ExecutionTransition e =
     (if e = ExecutionState_str ExecSucceeded then Inr (IntentCompleted, ReasonExecutionSucceeded)
      else if e = ExecutionState_str ExecFailed then Inr (IntentFailed, ReasonExecutionFailed)
      else if e = ExecutionState_str ExecCanceled then Inr (IntentCanceled, ReasonTargetCanceled)
      else if e \<in> {ExecutionState_str ExecUnavailable, ExecutionState_str ExecQueued, ExecutionState_str ExecRunning}
      then Inl ErrExecutionNotTerminal
      else Inl (UnknownExecution e))"

section \<open>The validator against the table\<close>

lemma ValidateIntentTransition_Inr_iff:
  "ValidateIntentTransition s t r ev = Inr u \<longleftrightarrow>
     (\<exists>rs. intentTable s t = Some rs \<and> r \<in> set rs) \<and> intent_guard s t ev = None"
  by (auto simp: ValidateIntentTransition_def split: option.splits)

interpretation intent_machine: transition_table intentTable ValidateIntentTransition
  by unfold_locales (simp add: ValidateIntentTransition_Inr_iff)

lemma intentTable_cases:
  assumes "intentTable s t = Some rs"
  shows "((s, t), rs) \<in> set intent_edges"
  using assms by (simp add: intentTable_def map_of_SomeD)

lemma intentTable_edge: "intentTable s t \<noteq> None \<longleftrightarrow> (s, t) \<in> fst ` set intent_edges"
  by (simp add: intentTable_def map_of_eq_None_iff)

lemma intentTable_Some: "(\<exists>rs. intentTable s t = Some rs) \<longleftrightarrow> (s, t) \<in> fst ` set intent_edges"
  using intentTable_edge [of s t] by auto

lemmas intent_edge_simps = intentTable_edge intentTable_Some intent_edges_def

text \<open>Runs of the machine.\<close>

abbreviation intent_run ::
  "IntentState \<Rightarrow> (IntentState \<times> IntentReason \<times> IntentEvidence) list \<Rightarrow> intent_error + IntentState" where
  "intent_run \<equiv> replay ValidateIntentTransition"

definition intent_terminal :: "IntentState \<Rightarrow> bool" where
  "intent_terminal s \<longleftrightarrow> s \<in> {IntentCompleted, IntentFailed, IntentCanceled, IntentSuperseded}"

lemma intent_terminal_iff: "intent_terminal s \<longleftrightarrow> (\<forall>t. intentTable s t = None)"
proof -
  have "intentTable s t = None \<longleftrightarrow> (s, t) \<notin> fst ` set intent_edges" for t
    by (simp add: intentTable_def map_of_eq_None_iff)
  then show ?thesis by (cases s) (auto simp: intent_terminal_def intent_edges_def)
qed

definition settled :: "IntentState \<Rightarrow> bool" where
  "settled s \<longleftrightarrow> s \<in> {IntentAccepted, IntentCompleted, IntentFailed, IntentCanceled}"

lemma settled_closed: "settled s \<Longrightarrow> intentTable s t \<noteq> None \<Longrightarrow> settled t"
  by (auto simp: settled_def intent_edge_simps)

lemma into_settled:
  assumes "ValidateIntentTransition s t r ev = Inr ()" "\<not> settled s" "settled t"
  shows "t = IntentAccepted \<and>
    (s = IntentSubmitting \<and> ie_receipt_ref ev \<noteq> [] \<or> s = IntentReconciling \<and> lookup_says AcceptanceAccepted ev)"
proof -
  from assms(1) have "intentTable s t \<noteq> None" and g: "intent_guard s t ev = None"
    by (auto simp: ValidateIntentTransition_Inr_iff)
  with assms(2,3) have "t = IntentAccepted \<and> (s = IntentSubmitting \<or> s = IntentReconciling)"
    by (auto simp: settled_def intent_edge_simps)
  with g show ?thesis by (auto simp: intent_guard_def split: if_splits)
qed

definition in_doubt :: "IntentState \<Rightarrow> bool" where
  "in_doubt s \<longleftrightarrow> s \<in> {IntentUnknown, IntentReconciling}"

lemma out_of_doubt:
  assumes "ValidateIntentTransition s t r ev = Inr ()" "in_doubt s" "\<not> in_doubt t"
  shows "s = IntentReconciling \<and>
    (t = IntentAccepted \<and> lookup_says AcceptanceAccepted ev \<or>
     t = IntentRetryWait \<and> lookup_says AcceptanceRejected ev \<or>
     t = IntentDeadLettered \<and> (lookup_says AcceptanceUnknown ev \<or> lookup_exhausted ev))"
proof -
  from assms(1) have "intentTable s t \<noteq> None" and g: "intent_guard s t ev = None"
    by (auto simp: ValidateIntentTransition_Inr_iff)
  with assms(2,3) have "s = IntentReconciling \<and> t \<in> {IntentAccepted, IntentRetryWait, IntentDeadLettered}"
    by (auto simp: in_doubt_def intent_edge_simps)
  with g show ?thesis by (auto simp: intent_guard_def split: if_splits)
qed

section \<open>Properties\<close>

text \<open>an intent whose outcome is unknown never drifts back to work. Any run that leaves the
  states unknown and reconciling does so by one step out of reconciling, with the lookup
  evidence its target demands: accepted, proven not accepted, or unresolved.\<close>

theorem unknown_needs_reconciliation:
  assumes "intent_run s es = Inr t" and "in_doubt s" and "\<not> in_doubt t"
  shows "\<exists>v r ev. (v, r, ev) \<in> set es \<and> ValidateIntentTransition IntentReconciling v r ev = Inr () \<and>
    (v = IntentAccepted \<and> lookup_says AcceptanceAccepted ev \<or>
     v = IntentRetryWait \<and> lookup_says AcceptanceRejected ev \<or>
     v = IntentDeadLettered \<and> (lookup_says AcceptanceUnknown ev \<or> lookup_exhausted ev))"
proof -
  obtain u v r ev where "(v, r, ev) \<in> set es" and u: "in_doubt u" "\<not> in_doubt v"
    and val: "ValidateIntentTransition u v r ev = Inr ()"
    using intent_machine.border_step [of s es t in_doubt] assms by blast
  with out_of_doubt [OF val u] show ?thesis by blast
qed

definition lookup_ev :: "string \<Rightarrow> IntentEvidence" where
  "lookup_ev a = no_intent_evidence\<lparr>ie_actor := ''op'',
     ie_reconciliation := Some \<lparr>re_result = a, re_external_ref = ''task-7'', re_attempts_exhausted = False\<rparr>\<rparr>"

theorem unknown_needs_reconciliation_witness:
  "\<exists>v r ev. (v, r, ev) \<in> set [(IntentReconciling, ReasonLookupStarted, lookup_ev []),
       (IntentRetryWait, ReasonLookupNotAccepted, lookup_ev ''rejected'')] \<and>
     ValidateIntentTransition IntentReconciling v r ev = Inr () \<and>
    (v = IntentAccepted \<and> lookup_says AcceptanceAccepted ev \<or>
     v = IntentRetryWait \<and> lookup_says AcceptanceRejected ev \<or>
     v = IntentDeadLettered \<and> (lookup_says AcceptanceUnknown ev \<or> lookup_exhausted ev))"
  by (rule unknown_needs_reconciliation [of IntentUnknown _ IntentRetryWait])
    (code_simp, simp_all add: in_doubt_def)

text \<open>acceptance is proved, never assumed. A run into the accepted states has a step that
  carries a receipt reference out of submitting or an accepted lookup out of reconciling.\<close>

theorem acceptance_needs_proof:
  assumes "intent_run s es = Inr t" and "\<not> settled s" and "settled t"
  shows "\<exists>u r ev. (IntentAccepted, r, ev) \<in> set es \<and>
    (u = IntentSubmitting \<and> ie_receipt_ref ev \<noteq> [] \<or> u = IntentReconciling \<and> lookup_says AcceptanceAccepted ev) \<and>
    ValidateIntentTransition u IntentAccepted r ev = Inr ()"
proof -
  obtain u v r ev where "(v, r, ev) \<in> set es" and u: "\<not> settled u" "\<not> \<not> settled v"
    and val: "ValidateIntentTransition u v r ev = Inr ()"
    using intent_machine.border_step [of s es t "\<lambda>x. \<not> settled x"] assms by blast
  with into_settled [OF val] show ?thesis by blast
qed

definition lease_ev :: IntentEvidence where
  "lease_ev = no_intent_evidence\<lparr>ie_lease := Some \<lparr>le_owner = ''p1'', le_expires_at = ''2026-01-01T00:00:00Z''\<rparr>\<rparr>"

definition receipt_ev :: IntentEvidence where
  "receipt_ev = no_intent_evidence\<lparr>ie_receipt_ref := ''rcpt-1''\<rparr>"

theorem acceptance_needs_proof_witness:
  "\<exists>u r ev. (IntentAccepted, r, ev) \<in> set [(IntentSubmitting, ReasonLeaseAcquired, lease_ev),
      (IntentAccepted, ReasonDurableAcceptance, receipt_ev)] \<and>
    (u = IntentSubmitting \<and> ie_receipt_ref ev \<noteq> [] \<or> u = IntentReconciling \<and> lookup_says AcceptanceAccepted ev) \<and>
    ValidateIntentTransition u IntentAccepted r ev = Inr ()"
  by (rule acceptance_needs_proof [of IntentReady _ IntentAccepted]) (code_simp, simp_all add: settled_def)

text \<open>an accepted intent is never submitted again: every run from accepted stays within
  accepted and the three execution outcomes, and a run from a terminal state is empty.\<close>

theorem accepted_never_resubmitted:
  assumes "intent_run s es = Inr t" and "settled s"
  shows "settled t \<and> IntentSubmitting \<notin> fst ` set es \<and> (intent_terminal s \<longrightarrow> es = [])"
proof -
  have "settled t" using intent_machine.edge_closed [OF assms(1), of settled] assms(2) settled_closed by blast
  moreover have "IntentSubmitting \<notin> fst ` set es"
  proof
    assume "IntentSubmitting \<in> fst ` set es"
    then obtain xs ys r ev where es: "es = xs @ (IntentSubmitting, r, ev) # ys"
      by (auto dest!: split_list)
    with assms(1) obtain u where "intent_run s (xs @ [(IntentSubmitting, r, ev)]) = Inr u"
      and u: "u = IntentSubmitting" by (auto simp: replay_append result_simps)
    from intent_machine.edge_closed [OF this(1), of settled] assms(2) settled_closed u
    show False by (auto simp: settled_def)
  qed
  moreover have "intent_terminal s \<longrightarrow> es = []"
    using intent_machine.terminal_stays [OF assms(1)] by (auto simp: intent_terminal_iff)
  ultimately show ?thesis by blast
qed

theorem accepted_never_resubmitted_witness:
  "settled IntentFailed \<and> IntentSubmitting \<notin> fst ` set [(IntentFailed, ReasonExecutionFailed, receipt_ev)]"
proof -
  have "intent_run IntentAccepted [(IntentFailed, ReasonExecutionFailed, receipt_ev)] = Inr IntentFailed" by code_simp
  moreover have "settled IntentAccepted" by (simp add: settled_def)
  ultimately show ?thesis using accepted_never_resubmitted by blast
qed

text \<open>C33: no state is a dead end before the machine is done: from every state some validated run
  reaches a terminal state.\<close>

theorem every_intent_can_finish:
  "\<exists>es t. intent_run s es = Inr t \<and> intent_terminal t"
proof -
  let ?done = "\<lambda>s es. \<exists>t. intent_run s es = Inr t \<and> intent_terminal t"
  let ?go = "[(IntentSubmitting, ReasonRetryDue, lease_ev), (IntentAccepted, ReasonDurableAcceptance, receipt_ev),
              (IntentCompleted, ReasonExecutionSucceeded, receipt_ev)]"
  let ?look = "(IntentRetryWait, ReasonLookupNotAccepted, lookup_ev ''rejected'')"
  have "?done IntentReady [(IntentSuperseded, ReasonRouteInvalidated, no_intent_evidence)]"
    "?done IntentRetryWait ?go" "?done IntentSubmitting (tl ?go)" "?done IntentAccepted (tl (tl ?go))"
    "?done IntentReconciling (?look # ?go)"
    "?done IntentUnknown ((IntentReconciling, ReasonLookupStarted, lookup_ev []) # ?look # ?go)"
    "?done IntentDeadLettered [(IntentSuperseded, ReasonReprocessOrDiscard, no_intent_evidence)]"
    "?done IntentRejected [(IntentDeadLettered, ReasonTerminalPolicy, no_intent_evidence),
        (IntentSuperseded, ReasonReprocessOrDiscard, no_intent_evidence)]"
    "?done IntentSuperseded []" "?done IntentCompleted []" "?done IntentFailed []" "?done IntentCanceled []"
    by (simp_all add: ValidateIntentTransition_def intentTable_def intent_edges_def intent_guard_def lease_held_def
        lookup_says_def lease_ev_def receipt_ev_def lookup_ev_def no_intent_evidence_def intent_terminal_def)
  then show ?thesis by (cases s) blast+
qed

text \<open>a receipt's acceptance or terminal execution value always names an edge the validator
  admits, from submitting and from accepted, once the evidence carries the receipt.\<close>

theorem projections_are_admitted:
  assumes "ie_receipt_ref ev \<noteq> []"
  shows "(AcceptanceTransition a = Inr (t, r) \<longrightarrow> ValidateIntentTransition IntentSubmitting t r ev = Inr ()) \<and>
    (ExecutionTransition a = Inr (t, r) \<longrightarrow> ValidateIntentTransition IntentAccepted t r ev = Inr ())"
  using assms
  by (auto simp: AcceptanceTransition_def ExecutionTransition_def ValidateIntentTransition_def intentTable_def
      intent_edges_def intent_guard_def split: if_splits)

theorem projections_are_admitted_witness:
  "ValidateIntentTransition IntentSubmitting IntentUnknown ReasonAmbiguousOutcome receipt_ev = Inr () \<and>
   ValidateIntentTransition IntentAccepted IntentFailed ReasonExecutionFailed receipt_ev = Inr ()"
proof -
  have "ie_receipt_ref receipt_ev \<noteq> []" by (simp add: receipt_ev_def no_intent_evidence_def)
  moreover have "AcceptanceTransition ''unknown'' = Inr (IntentUnknown, ReasonAmbiguousOutcome)"
    "ExecutionTransition ''failed'' = Inr (IntentFailed, ReasonExecutionFailed)" by code_simp+
  ultimately show ?thesis using projections_are_admitted by blast
qed

text \<open>the reason that \<open>AcceptanceTransition\<close> returns is documented for edges out of
  submitting only: used from reconciling, which its comment also names, the validator
  refuses every one of its transitions.\<close>

theorem acceptance_projection_refused_when_reconciling:
  "\<not> (\<exists>a t r. AcceptanceTransition a = Inr (t, r) \<and> is_ok (ValidateIntentTransition IntentReconciling t r ev))"
  by (auto simp: AcceptanceTransition_def ValidateIntentTransition_def intentTable_def intent_edges_def
      split: if_splits)

end
