(* ===== verification/RouteMachine.thy ===== *)
theory RouteMachine
  imports Prelude
begin

text \<open>
  The route coordination state machine (\<open>src/internal/domain/state/route.go\<close>). The
  guards read the durable snapshot of the route beside the evidence of the transition.
  A run gives each step the snapshot it was checked against, since the stores move the
  other fields of the snapshot between two transitions.
\<close>

datatype RouteState =
    RouteIdle
  | RouteActiveClean
  | RouteActiveDirty
  | RouteFollowupReady
  | RouteUncertain
  | RouteQuarantined

primrec RouteState_str :: "RouteState \<Rightarrow> string" where
  "RouteState_str RouteIdle = ''IDLE''"
| "RouteState_str RouteActiveClean = ''ACTIVE_CLEAN''"
| "RouteState_str RouteActiveDirty = ''ACTIVE_DIRTY''"
| "RouteState_str RouteFollowupReady = ''FOLLOWUP_READY''"
| "RouteState_str RouteUncertain = ''UNCERTAIN''"
| "RouteState_str RouteQuarantined = ''QUARANTINED''"

datatype route_state_error = UnknownRouteState string

definition ParseRouteState :: "string \<Rightarrow> route_state_error + RouteState" where
  "ParseRouteState s =
    (if s = ''IDLE'' then Inr RouteIdle
     else if s = ''ACTIVE_CLEAN'' then Inr RouteActiveClean
     else if s = ''ACTIVE_DIRTY'' then Inr RouteActiveDirty
     else if s = ''FOLLOWUP_READY'' then Inr RouteFollowupReady
     else if s = ''UNCERTAIN'' then Inr RouteUncertain
     else if s = ''QUARANTINED'' then Inr RouteQuarantined
     else Inl (UnknownRouteState s))"

interpretation routeState: closed_enum ParseRouteState RouteState_str
proof
  show "ParseRouteState (RouteState_str a) = Inr a" for a
    by (cases a) (simp_all add: ParseRouteState_def)
  show "ParseRouteState s = Inr a \<Longrightarrow> RouteState_str a = s" for s a
    by (auto simp: ParseRouteState_def split: if_splits)
qed

definition AllRouteStates :: "RouteState list" where
  "AllRouteStates =
     [RouteIdle, RouteActiveClean, RouteActiveDirty, RouteFollowupReady, RouteUncertain, RouteQuarantined]"

definition IsActive :: "RouteState \<Rightarrow> bool" where
  "IsActive r = (r = RouteActiveClean \<or> r = RouteActiveDirty)"

datatype RouteReason =
    ReasonDispatchAccepted
  | ReasonLaterRelevantChange
  | ReasonMoreChangesMerged
  | ReasonWorkCompletedClean
  | ReasonWorkCompletedDirty
  | ReasonWorkSuppressed
  | ReasonWorkRetryBudgetRemains
  | ReasonRetryBudgetExhausted
  | ReasonFollowupBudgetExhausted
  | ReasonExecutionEvidenceStale
  | ReasonFollowupAccepted
  | ReasonFollowupAcceptedDirty
  | ReasonFollowupDropped
  | ReasonTargetLookupFindsActive
  | ReasonReconciliationResolved
  | ReasonOperatorActionRequired
  | ReasonOperatorResolved

definition AllRouteReasons :: "RouteReason list" where
  "AllRouteReasons =
     [ReasonDispatchAccepted, ReasonLaterRelevantChange, ReasonMoreChangesMerged, ReasonWorkCompletedClean,
      ReasonWorkCompletedDirty, ReasonWorkSuppressed, ReasonWorkRetryBudgetRemains, ReasonRetryBudgetExhausted,
      ReasonFollowupBudgetExhausted, ReasonExecutionEvidenceStale, ReasonFollowupAccepted,
      ReasonFollowupAcceptedDirty, ReasonFollowupDropped, ReasonTargetLookupFindsActive,
      ReasonReconciliationResolved, ReasonOperatorActionRequired, ReasonOperatorResolved]"

definition route_edges :: "((RouteState \<times> RouteState) \<times> RouteReason list) list" where
  "route_edges =
     [((RouteIdle, RouteActiveClean), [ReasonDispatchAccepted]),
      ((RouteActiveClean, RouteActiveDirty), [ReasonLaterRelevantChange]),
      ((RouteActiveDirty, RouteActiveDirty), [ReasonMoreChangesMerged]),
      ((RouteActiveClean, RouteIdle), [ReasonWorkCompletedClean]),
      ((RouteActiveDirty, RouteIdle), [ReasonWorkSuppressed]),
      ((RouteActiveDirty, RouteFollowupReady), [ReasonWorkCompletedDirty, ReasonWorkRetryBudgetRemains]),
      ((RouteActiveClean, RouteFollowupReady), [ReasonWorkCompletedDirty, ReasonWorkRetryBudgetRemains]),
      ((RouteActiveClean, RouteUncertain),
        [ReasonRetryBudgetExhausted, ReasonFollowupBudgetExhausted, ReasonExecutionEvidenceStale]),
      ((RouteActiveDirty, RouteUncertain),
        [ReasonRetryBudgetExhausted, ReasonFollowupBudgetExhausted, ReasonExecutionEvidenceStale]),
      ((RouteFollowupReady, RouteActiveClean), [ReasonFollowupAccepted]),
      ((RouteFollowupReady, RouteActiveDirty), [ReasonFollowupAcceptedDirty]),
      ((RouteFollowupReady, RouteIdle), [ReasonFollowupDropped]),
      ((RouteUncertain, RouteActiveClean), [ReasonTargetLookupFindsActive]),
      ((RouteUncertain, RouteFollowupReady), [ReasonReconciliationResolved]),
      ((RouteUncertain, RouteQuarantined), [ReasonOperatorActionRequired]),
      ((RouteQuarantined, RouteIdle), [ReasonOperatorResolved])]"

definition routeTable :: "RouteState \<Rightarrow> RouteState \<Rightarrow> RouteReason list option" where
  "routeTable s t = map_of route_edges (s, t)"

definition MaxConsecutiveFollowups :: int where
  "MaxConsecutiveFollowups = 50"

record RouteSnapshot =
  rs_route_id :: string
  rs_activation_state :: string
  rs_state :: RouteState
  rs_active_dispatch_id :: string
  rs_dirty_generation :: int
  rs_pending_reconcile :: bool
  rs_acknowledged_revision :: string
  rs_capability_fingerprint :: string
  rs_failure_budget :: int

record RouteEvidence =
  rv_actor :: string
  rv_activating_dispatch_id :: string
  rv_dirty_generation_after :: int
  rv_receipt_ref :: string
  rv_followup_generation :: int
  rv_operator_action :: bool
  rv_reconciled_no_work :: bool

definition no_route_evidence :: RouteEvidence where
  "no_route_evidence = \<lparr>rv_actor = [], rv_activating_dispatch_id = [], rv_dirty_generation_after = 0,
     rv_receipt_ref = [], rv_followup_generation = 0, rv_operator_action = False, rv_reconciled_no_work = False\<rparr>"

datatype route_detail =
    RouteEdgeNotDeclared
  | RouteReasonNotDocumented "RouteReason list"
  | RouteNotEnabled string
  | ActivationNeedsDispatch
  | SlotHeldBy string
  | FollowupNeedsDirty
  | DirtyMustIncrease int int
  | DirtyWouldBeDropped int
  | ReconcileWouldBeDropped
  | CompletionNeedsReceipt
  | SuppressionNeedsReceipt
  | FollowupNeedsDirtyOrReconcile
  | FollowupNeedsBudget
  | FollowupNeedsReconcile
  | BudgetNotExhausted
  | FollowupsNotExhausted
  | DropNeedsNoWork
  | LookupNeedsSlot
  | LookupNeedsActor
  | UncertaintyNeedsActor
  | QuarantineNeedsOperator
  | PendingFollowup
  | RouteIsUncertain
  | RouteIsQuarantined
  | RouteHasActiveTask

datatype route_error =
    RouteRejection RouteState RouteState RouteReason route_detail
  | ActivationRefused RouteState route_detail

definition CanTransitionRoute :: "RouteState \<Rightarrow> RouteState \<Rightarrow> bool" where
  "CanTransitionRoute s t = (routeTable s t \<noteq> None)"

definition RouteReasons :: "RouteState \<Rightarrow> RouteState \<Rightarrow> RouteReason list option" where
  "RouteReasons s t = routeTable s t"

text \<open>The guard switch of \<open>ValidateRouteTransition\<close>, case by case in source order.\<close>

definition route_guard :: "RouteSnapshot \<Rightarrow> RouteState \<Rightarrow> RouteReason \<Rightarrow> RouteEvidence \<Rightarrow> route_detail option" where
  "route_guard snap t reason ev =
     (let s = rs_state snap in
      if (s, t) \<in> {(RouteIdle, RouteActiveClean), (RouteFollowupReady, RouteActiveClean), (RouteFollowupReady, RouteActiveDirty)}
      then (if rs_activation_state snap \<noteq> ''enabled'' then Some (RouteNotEnabled (rs_activation_state snap))
            else if rv_activating_dispatch_id ev = [] then Some ActivationNeedsDispatch
            else if rs_active_dispatch_id snap \<noteq> [] \<and> rs_active_dispatch_id snap \<noteq> rv_activating_dispatch_id ev
            then Some (SlotHeldBy (rs_active_dispatch_id snap))
            else if (s, t) = (RouteFollowupReady, RouteActiveDirty) \<and> rs_dirty_generation snap \<le> 0
            then Some FollowupNeedsDirty
            else None)
      else if (s, t) \<in> {(RouteActiveClean, RouteActiveDirty), (RouteActiveDirty, RouteActiveDirty)}
      then (if rv_dirty_generation_after ev \<le> rs_dirty_generation snap
            then Some (DirtyMustIncrease (rs_dirty_generation snap) (rv_dirty_generation_after ev)) else None)
      else if (s, t) = (RouteActiveClean, RouteIdle)
      then (if rs_dirty_generation snap \<noteq> 0 then Some (DirtyWouldBeDropped (rs_dirty_generation snap))
            else if rs_pending_reconcile snap then Some ReconcileWouldBeDropped
            else if rv_receipt_ref ev = [] then Some CompletionNeedsReceipt
            else None)
      else if (s, t) = (RouteActiveDirty, RouteIdle)
      then (if rv_receipt_ref ev = [] then Some SuppressionNeedsReceipt
            else if rs_pending_reconcile snap then Some ReconcileWouldBeDropped
            else None)
      else if (s, t) = (RouteActiveDirty, RouteFollowupReady)
      then (if reason = ReasonWorkCompletedDirty \<and> rs_dirty_generation snap = 0 \<and> \<not> rs_pending_reconcile snap
            then Some FollowupNeedsDirtyOrReconcile
            else if reason = ReasonWorkRetryBudgetRemains \<and> rs_failure_budget snap \<le> 0 then Some FollowupNeedsBudget
            else None)
      else if (s, t) = (RouteActiveClean, RouteFollowupReady)
      then (if reason = ReasonWorkRetryBudgetRemains \<and> rs_failure_budget snap \<le> 0 then Some FollowupNeedsBudget
            else if reason = ReasonWorkCompletedDirty \<and> \<not> rs_pending_reconcile snap then Some FollowupNeedsReconcile
            else None)
      else if (s, t) \<in> {(RouteActiveClean, RouteUncertain), (RouteActiveDirty, RouteUncertain)}
      then (if reason = ReasonRetryBudgetExhausted \<and> rs_failure_budget snap > 0 then Some BudgetNotExhausted
            else if reason = ReasonFollowupBudgetExhausted \<and> rv_followup_generation ev \<le> MaxConsecutiveFollowups
            then Some FollowupsNotExhausted
            else None)
      else if (s, t) = (RouteFollowupReady, RouteIdle)
      then (if \<not> rv_reconciled_no_work ev then Some DropNeedsNoWork else None)
      else if (s, t) = (RouteUncertain, RouteActiveClean)
      then (if rs_active_dispatch_id snap = [] then Some LookupNeedsSlot
            else if rv_actor ev = [] then Some LookupNeedsActor
            else None)
      else if (s, t) \<in> {(RouteUncertain, RouteFollowupReady), (RouteUncertain, RouteQuarantined)}
      then (if rv_actor ev = [] then Some UncertaintyNeedsActor else None)
      else if (s, t) = (RouteQuarantined, RouteIdle)
      then (if \<not> rv_operator_action ev \<or> rv_actor ev = [] then Some QuarantineNeedsOperator else None)
      else None)"

definition ValidateRouteTransition ::
  "RouteSnapshot \<Rightarrow> RouteState \<Rightarrow> RouteReason \<Rightarrow> RouteEvidence \<Rightarrow> route_error + unit" where
  "ValidateRouteTransition snap t reason ev =
     (case routeTable (rs_state snap) t of
        None \<Rightarrow> Inl (RouteRejection (rs_state snap) t reason RouteEdgeNotDeclared)
      | Some reasons \<Rightarrow>
          if reason \<notin> set reasons
          then Inl (RouteRejection (rs_state snap) t reason (RouteReasonNotDocumented reasons))
          else case route_guard snap t reason ev of
            Some d \<Rightarrow> Inl (RouteRejection (rs_state snap) t reason d)
          | None \<Rightarrow> Inr ())"

definition CanActivateNormalDispatch :: "RouteSnapshot \<Rightarrow> route_error + unit" where
  "CanActivateNormalDispatch snap =
     (if rs_activation_state snap \<noteq> ''enabled''
      then Inl (ActivationRefused (rs_state snap) (RouteNotEnabled (rs_activation_state snap)))
      else case rs_state snap of
        RouteIdle \<Rightarrow>
          if rs_active_dispatch_id snap \<noteq> []
          then Inl (ActivationRefused (rs_state snap) (SlotHeldBy (rs_active_dispatch_id snap)))
          else Inr ()
      | RouteFollowupReady \<Rightarrow> Inl (ActivationRefused (rs_state snap) PendingFollowup)
      | RouteUncertain \<Rightarrow> Inl (ActivationRefused (rs_state snap) RouteIsUncertain)
      | RouteQuarantined \<Rightarrow> Inl (ActivationRefused (rs_state snap) RouteIsQuarantined)
      | _ \<Rightarrow> Inl (ActivationRefused (rs_state snap) RouteHasActiveTask))"

section \<open>The validator against the table\<close>

lemma ValidateRouteTransition_Inr_iff:
  "ValidateRouteTransition snap t r ev = Inr u \<longleftrightarrow>
     (\<exists>rs. routeTable (rs_state snap) t = Some rs \<and> r \<in> set rs) \<and> route_guard snap t r ev = None"
  by (auto simp: ValidateRouteTransition_def split: option.splits)

text \<open>One checked transition of a run: the snapshot in the state reached so far.\<close>

definition route_check ::
  "RouteState \<Rightarrow> RouteState \<Rightarrow> RouteReason \<Rightarrow> RouteSnapshot \<times> RouteEvidence \<Rightarrow> route_error + unit" where
  "route_check s t r e = ValidateRouteTransition ((fst e)\<lparr>rs_state := s\<rparr>) t r (snd e)"

interpretation route_machine: transition_table routeTable route_check
  by unfold_locales (auto simp: route_check_def ValidateRouteTransition_Inr_iff)

abbreviation route_run ::
  "RouteState \<Rightarrow> (RouteState \<times> RouteReason \<times> RouteSnapshot \<times> RouteEvidence) list \<Rightarrow> route_error + RouteState" where
  "route_run \<equiv> replay route_check"

lemma routeTable_Some: "(\<exists>rs. routeTable s t = Some rs) \<longleftrightarrow> (s, t) \<in> fst ` set route_edges"
proof -
  have "routeTable s t = None \<longleftrightarrow> (s, t) \<notin> fst ` set route_edges"
    by (simp add: routeTable_def map_of_eq_None_iff)
  then show ?thesis by auto
qed

lemma route_valid:
  assumes "ValidateRouteTransition snap t r ev = Inr ()"
  shows "((rs_state snap, t), the (routeTable (rs_state snap) t)) \<in> set route_edges"
    and "r \<in> set (the (routeTable (rs_state snap) t))" and "route_guard snap t r ev = None"
  using assms by (auto simp: ValidateRouteTransition_Inr_iff routeTable_def dest: map_of_SomeD)

lemma route_valid_edge:
  "ValidateRouteTransition snap t r ev = Inr () \<Longrightarrow> (rs_state snap, t) \<in> fst ` set route_edges"
  by (force dest: route_valid(1))

lemma route_valid_reason:
  "ValidateRouteTransition snap t r ev = Inr () \<Longrightarrow> \<exists>rs. ((rs_state snap, t), rs) \<in> set route_edges \<and> r \<in> set rs"
  by (meson route_valid(1,2))

section \<open>Properties\<close>

text \<open>a route activates at most one dispatch at a time (invariant 5). A transition from a
  state without an active task into an active one either consumes an empty slot or the
  dispatch's own reservation on an enabled route, or is an actor's lookup of the uncertain
  dispatch that still holds the slot.\<close>

theorem activation_is_exclusive:
  assumes "ValidateRouteTransition snap t r ev = Inr ()"
    and "\<not> IsActive (rs_state snap)" and "IsActive t"
  shows "rs_activation_state snap = ''enabled'' \<and> rv_activating_dispatch_id ev \<noteq> [] \<and>
      rs_active_dispatch_id snap \<in> {[], rv_activating_dispatch_id ev} \<and>
      (t = RouteActiveDirty \<longrightarrow> rs_dirty_generation snap > 0)
    \<or> rs_state snap = RouteUncertain \<and> t = RouteActiveClean \<and> rs_active_dispatch_id snap \<noteq> [] \<and> rv_actor ev \<noteq> []"
proof -
  have "(rs_state snap, t) \<in> {(RouteIdle, RouteActiveClean), (RouteFollowupReady, RouteActiveClean),
      (RouteFollowupReady, RouteActiveDirty), (RouteUncertain, RouteActiveClean)}"
    using route_valid_edge [OF assms(1)] assms(2,3) by (auto simp: route_edges_def IsActive_def)
  with route_valid(3) [OF assms(1)] show ?thesis
    by (auto simp: route_guard_def Let_def split: if_splits)
qed

definition enabled_snap :: "RouteState \<Rightarrow> RouteSnapshot" where
  "enabled_snap s =
     \<lparr>rs_route_id = ''r1'', rs_activation_state = ''enabled'', rs_state = s, rs_active_dispatch_id = [],
      rs_dirty_generation = 0, rs_pending_reconcile = False, rs_acknowledged_revision = ''rev-1'',
      rs_capability_fingerprint = [], rs_failure_budget = 3\<rparr>"

definition accept_ev :: "string \<Rightarrow> RouteEvidence" where
  "accept_ev i = no_route_evidence\<lparr>rv_activating_dispatch_id := i\<rparr>"

definition reserved_snap :: RouteSnapshot where
  "reserved_snap = (enabled_snap RouteIdle)\<lparr>rs_active_dispatch_id := ''d1''\<rparr>"

theorem activation_is_exclusive_witness:
  "rs_activation_state reserved_snap = ''enabled'' \<and> rs_active_dispatch_id reserved_snap \<in> {[], ''d1''} \<and>
   ValidateRouteTransition reserved_snap RouteActiveClean ReasonDispatchAccepted (accept_ev ''d1'') = Inr ()"
proof -
  have v: "ValidateRouteTransition reserved_snap RouteActiveClean ReasonDispatchAccepted (accept_ev ''d1'') = Inr ()"
    by code_simp
  have s: "rs_state reserved_snap = RouteIdle" by (simp add: reserved_snap_def enabled_snap_def)
  with activation_is_exclusive [OF v] v show ?thesis by (simp add: IsActive_def accept_ev_def)
qed

text \<open>dirty work is never dropped silently. A transition to idle while the snapshot is dirty
  carries the receipt of an exact suppression, reconciliation proof that no work remains,
  or an operator's resolution of a quarantine; a completion of an active task never drops a
  pending reconciliation.\<close>

theorem dirty_never_dropped:
  assumes "ValidateRouteTransition snap RouteIdle r ev = Inr ()"
  shows "(rs_dirty_generation snap \<noteq> 0 \<longrightarrow>
      rs_state snap = RouteActiveDirty \<and> r = ReasonWorkSuppressed \<and> rv_receipt_ref ev \<noteq> []
      \<or> rs_state snap = RouteFollowupReady \<and> rv_reconciled_no_work ev
      \<or> rs_state snap = RouteQuarantined \<and> rv_operator_action ev \<and> rv_actor ev \<noteq> []) \<and>
    (IsActive (rs_state snap) \<longrightarrow> \<not> rs_pending_reconcile snap \<and> rv_receipt_ref ev \<noteq> [])"
proof -
  have "rs_state snap \<in> {RouteActiveClean, RouteActiveDirty, RouteFollowupReady, RouteQuarantined} \<and>
      (rs_state snap = RouteActiveDirty \<longrightarrow> r = ReasonWorkSuppressed)"
    using route_valid_reason [OF assms] by (auto simp: route_edges_def)
  with route_valid(3) [OF assms] show ?thesis
    by (auto simp: route_guard_def Let_def IsActive_def split: if_splits)
qed

definition dirty_snap :: RouteSnapshot where
  "dirty_snap = (enabled_snap RouteActiveDirty)\<lparr>rs_dirty_generation := 4\<rparr>"

theorem dirty_never_dropped_witness:
  "ValidateRouteTransition dirty_snap RouteIdle ReasonWorkSuppressed (no_route_evidence\<lparr>rv_receipt_ref := ''rcpt''\<rparr>) = Inr () \<and>
   \<not> rs_pending_reconcile dirty_snap \<and> rs_state dirty_snap = RouteActiveDirty"
proof -
  have v: "ValidateRouteTransition dirty_snap RouteIdle ReasonWorkSuppressed (no_route_evidence\<lparr>rv_receipt_ref := ''rcpt''\<rparr>) = Inr ()"
    by code_simp
  have "rs_state dirty_snap = RouteActiveDirty" by (simp add: dirty_snap_def enabled_snap_def)
  with dirty_never_dropped [OF v] v show ?thesis by (simp add: IsActive_def)
qed

text \<open>a burst merged into an active task strictly increases the dirty count, and a dirty
  follow-up activates only on a positive one, so the dirty state always counts some work.\<close>

theorem dirtying_increases:
  assumes "ValidateRouteTransition snap RouteActiveDirty r ev = Inr ()"
  shows "IsActive (rs_state snap) \<and> rs_dirty_generation snap < rv_dirty_generation_after ev \<or>
    rs_state snap = RouteFollowupReady \<and> 0 < rs_dirty_generation snap"
proof -
  have "rs_state snap \<in> {RouteActiveClean, RouteActiveDirty, RouteFollowupReady}"
    using route_valid_edge [OF assms] by (auto simp: route_edges_def)
  with route_valid(3) [OF assms] show ?thesis
    by (auto simp: route_guard_def Let_def IsActive_def split: if_splits)
qed

theorem dirtying_increases_witness:
  "rs_dirty_generation dirty_snap < rv_dirty_generation_after (no_route_evidence\<lparr>rv_dirty_generation_after := 5\<rparr>)"
proof -
  have "ValidateRouteTransition dirty_snap RouteActiveDirty ReasonMoreChangesMerged
      (no_route_evidence\<lparr>rv_dirty_generation_after := 5\<rparr>) = Inr ()" by code_simp
  from dirtying_increases [OF this] show ?thesis by (auto simp: dirty_snap_def enabled_snap_def)
qed

text \<open>quarantine is entered from uncertainty by a named actor and left only for idle by a
  named operator, whatever run of transitions a route takes.\<close>

theorem quarantine_needs_operator:
  assumes "route_run s es = Inr t" and "(s = RouteQuarantined) \<noteq> (t = RouteQuarantined)"
  shows "\<exists>v r snap ev. (v, r, snap, ev) \<in> set es \<and> rv_actor ev \<noteq> [] \<and>
    (if s = RouteQuarantined
     then v = RouteIdle \<and> rv_operator_action ev
     else v = RouteQuarantined \<and> route_check RouteUncertain v r (snap, ev) = Inr ())"
proof -
  let ?P = "\<lambda>x. (x = RouteQuarantined) = (s = RouteQuarantined)"
  obtain u v r e where e: "(v, r, e) \<in> set es" and uv: "?P u" "\<not> ?P v" and c: "route_check u v r e = Inr ()"
    using route_machine.border_step [OF assms(1), of ?P] assms(2) by blast
  let ?snap = "(fst e)\<lparr>rs_state := u\<rparr>"
  have val: "ValidateRouteTransition ?snap v r (snd e) = Inr ()"
    using c by (simp add: route_check_def)
  have "u = RouteQuarantined \<and> v = RouteIdle \<or> u = RouteUncertain \<and> v = RouteQuarantined"
    using route_valid_edge [OF val] uv by (auto simp: route_edges_def)
  with route_valid(3) [OF val] uv e c show ?thesis
    by (cases e) (fastforce simp: route_guard_def Let_def split: if_splits)
qed

theorem quarantine_needs_operator_witness:
  "\<exists>v r snap ev. (v, r, snap, ev) \<in>
      set [(RouteIdle, ReasonOperatorResolved, enabled_snap RouteIdle, no_route_evidence\<lparr>rv_actor := ''op'', rv_operator_action := True\<rparr>)] \<and>
      rv_actor ev \<noteq> [] \<and>
    (if RouteQuarantined = RouteQuarantined
     then v = RouteIdle \<and> rv_operator_action ev
     else v = RouteQuarantined \<and> route_check RouteUncertain v r (snap, ev) = Inr ())"
  by (rule quarantine_needs_operator [of _ _ RouteIdle]) (code_simp, simp)

text \<open>the admission check and the transition validator agree: a route that
  \<open>CanActivateNormalDispatch\<close> admits accepts the activation of every non-empty dispatch, and
  a route it refuses can only activate its own reservation or a pending follow-up.\<close>

theorem admission_matches_validator:
  assumes "d \<noteq> []"
  shows "(CanActivateNormalDispatch snap = Inr ()) =
    (rs_active_dispatch_id snap = [] \<and> rs_state snap = RouteIdle \<and>
     ValidateRouteTransition snap RouteActiveClean ReasonDispatchAccepted (accept_ev d) = Inr ())"
  using assms
  by (cases "rs_state snap")
    (auto simp: CanActivateNormalDispatch_def ValidateRouteTransition_def routeTable_def route_edges_def
      route_guard_def accept_ev_def no_route_evidence_def)

theorem admission_matches_validator_witness:
  "CanActivateNormalDispatch (enabled_snap RouteIdle) = Inr () \<and>
   ValidateRouteTransition (enabled_snap RouteIdle) RouteActiveClean ReasonDispatchAccepted (accept_ev ''d9'') = Inr ()"
proof -
  have "CanActivateNormalDispatch (enabled_snap RouteIdle) = Inr ()" by code_simp
  with admission_matches_validator [of "''d9''" "enabled_snap RouteIdle"] show ?thesis by simp
qed

text \<open>no route is stuck: from every state a validated run on an enabled route leads back to
  idle, where new work is admitted again.\<close>

theorem every_route_can_recover:
  "\<exists>es. route_run s es = Inr RouteIdle"
proof -
  let ?op = "no_route_evidence\<lparr>rv_actor := ''op'', rv_operator_action := True, rv_reconciled_no_work := True,
    rv_receipt_ref := ''rcpt''\<rparr>"
  let ?e = "\<lambda>t r. (t, r, enabled_snap RouteIdle, ?op)"
  have "route_run RouteIdle [] = Inr RouteIdle"
    "route_run RouteActiveClean [?e RouteIdle ReasonWorkCompletedClean] = Inr RouteIdle"
    "route_run RouteActiveDirty [?e RouteIdle ReasonWorkSuppressed] = Inr RouteIdle"
    "route_run RouteFollowupReady [?e RouteIdle ReasonFollowupDropped] = Inr RouteIdle"
    "route_run RouteUncertain [?e RouteQuarantined ReasonOperatorActionRequired, ?e RouteIdle ReasonOperatorResolved] = Inr RouteIdle"
    "route_run RouteQuarantined [?e RouteIdle ReasonOperatorResolved] = Inr RouteIdle"
    by code_simp+
  then show ?thesis by (cases s) blast+
qed

end
