(* ===== verification/Ports.thy ===== *)
theory Ports
  imports TaskRequest IntentMachine RouteMachine
begin

text \<open>
  The data that crosses the ports of the application layer
  (\<open>src/internal/ports/dispatch.go\<close>, \<open>coordination.go\<close>, \<open>sink.go\<close>,
  \<open>inspection.go\<close>): what one ingestion persists, what a stored intent looks like, what a
  sink reports, and the errors of the durable store. A store error is the sentinel that
  \<open>errors.Is\<close> finds in it, with its message. Enum-typed fields that come from storage are
  texts, because Go does not check them.
\<close>

section \<open>Store errors\<close>

datatype store_class =
    RouteSlotHeld
  | GroupSlotHeld
  | IdempotencyConflict
  | StateNotEligible
  | StaleRouteRevision
  | LeaseHeld
  | IntentNotFound
  | InvalidFanoutRecord
  | ReasonRequired
  | GenerationConflict
  | CapabilityUnsupported
  | OtherFailure

record store_error =
  se_class :: store_class
  se_text :: string

text \<open>\<open>errors.Is(err, ErrRouteSlotHeld)\<close>: a held group slot wraps the held route slot.\<close>

definition is_slot_held :: "store_error \<Rightarrow> bool" where
  "is_slot_held e = (se_class e = RouteSlotHeld \<or> se_class e = GroupSlotHeld)"

definition is_group_held :: "store_error \<Rightarrow> bool" where
  "is_group_held e = (se_class e = GroupSlotHeld)"

section \<open>One ingestion\<close>

definition LegacyDestinationLaneID :: string where
  "LegacyDestinationLaneID = ''__legacy__''"

record ObservationChange =
  oc_ordinal :: int
  oc_path :: string
  oc_operation :: string
  oc_exists_after :: bool
  oc_file_type :: string
  oc_before_digest :: string
  oc_after_digest :: string
  oc_digest_status :: string

record ImportAttributionInput =
  ia_job_id :: string
  ia_fence :: int
  ia_path :: string
  ia_after_value :: string

record ObservationInput =
  ob_observation_id :: string
  ob_schema_version :: string
  ob_source_type :: string
  ob_source_id :: string
  ob_source_event_key :: string
  ob_trigger_name :: string
  ob_resource_id :: string
  ob_observed_at :: string
  ob_received_at :: string
  ob_raw_payload_digest :: string
  ob_ingest_status :: string
  ob_flags_json :: string
  ob_position_json :: string
  ob_changes :: "ObservationChange list"
  ob_import_attributions :: "ImportAttributionInput list"

record BatchInput =
  ba_batch_id :: string
  ba_route_id :: string
  ba_route_revision :: string
  ba_resource_id :: string
  ba_created_at :: string
  ba_content_fingerprint :: string
  ba_observation_ids :: "string list"
  ba_selected_destinations :: "string list"

record DecisionInput =
  de_decision_id :: string
  de_batch_id :: string
  de_route_id :: string
  de_route_revision :: string
  de_policy_revision :: string
  de_disposition :: string
  de_classification :: string
  de_reason_codes_json :: string
  de_created_at :: string
  de_actor :: string
  de_generation_lineage_json :: string

record DestinationRevisionInput =
  dv_destination_id :: string
  dv_revision :: string
  dv_projection_json :: string

record FanoutInput =
  fo_aggregate_id :: string
  fo_origin :: string
  fo_destination_id :: string
  fo_destination_revision :: string
  fo_workstream :: string
  fo_selections :: "DestinationSelection list"
  fo_revisions :: "DestinationRevisionInput list"

record IntentInput =
  in_target_scope :: string
  in_dispatch_id :: string
  in_decision_id :: string
  in_route_id :: string
  in_route_revision :: string
  in_target_id :: string
  in_target_type :: string
  in_resource_id :: string
  in_generation :: int
  in_idempotency_key :: string
  in_content_fingerprint :: string
  in_manifest_digest :: string
  in_request_version :: string
  in_request_json :: string
  in_created_at :: string
  in_fanout :: "FanoutInput option"

record Lineage =
  ln_observation :: ObservationInput
  ln_batch :: BatchInput
  ln_decision :: DecisionInput
  ln_intent :: IntentInput

section \<open>Stored intents and attempts\<close>

record IntentSnapshot =
  is_dispatch_id :: string
  is_route_id :: string
  is_route_revision :: string
  is_request_version :: string
  is_target_id :: string
  is_target_scope :: string
  is_target_type :: string
  is_resource_id :: string
  is_generation :: int
  is_idempotency_key :: string
  is_state :: string
  is_request_json :: string
  is_manifest_digest :: string
  is_external_ref :: string
  is_lease_owner :: string
  is_lease_expires_at :: string
  is_attempt_count :: int
  is_next_attempt_at :: string
  is_created_at :: string
  is_updated_at :: string
  is_aggregate_id :: string
  is_destination_id :: string
  is_destination_revision :: string
  is_workstream :: string

record AcquireAttempt =
  aa_dispatch_id :: string
  aa_attempt_id :: string
  aa_owner :: string
  aa_now :: string
  aa_lease_expires_at :: string
  aa_next_attempt_at :: string

record AttemptTransition =
  at_to :: IntentState
  at_reason :: IntentReason
  at_evidence :: IntentEvidence
  at_transition_id :: string

record ReceiptInput =
  rc_receipt_id :: string
  rc_acceptance :: AcceptanceState
  rc_durable :: bool
  rc_external_ref :: string
  rc_target_observed_at :: string
  rc_received_at :: string
  rc_payload_version :: string
  rc_bounded_payload :: string

record AttemptResult =
  ar_attempt_id :: string
  ar_dispatch_id :: string
  ar_outcome :: string
  ar_error_code :: string
  ar_response_digest :: string
  ar_diagnostic :: string
  ar_completed_at :: string
  ar_next_attempt_at :: string
  ar_transition :: AttemptTransition
  ar_receipt :: "ReceiptInput option"

record RecoveredLease =
  rl_dispatch_id :: string
  rl_attempt_id :: string
  rl_owner :: string

section \<open>Listing intents\<close>

record IntentFilter =
  fi_route_id :: string
  fi_state :: string
  fi_target_id :: string
  fi_dispatch_id :: string
  fi_limit :: int
  fi_older_than :: string
  fi_external_ref :: string
  fi_causal_prefix :: string
  fi_offset :: int

record IntentSummary =
  sm_dispatch_id :: string
  sm_decision_id :: string
  sm_route_id :: string
  sm_route_revision :: string
  sm_target_id :: string
  sm_resource_id :: string
  sm_generation :: int
  sm_idempotency_key :: string
  sm_content_fingerprint :: string
  sm_state :: string
  sm_request :: string
  sm_aggregate_id :: string
  sm_destination_id :: string
  sm_attempt_count :: int
  sm_next_attempt_at :: string
  sm_updated_at :: string
  sm_created_at :: string

section \<open>Completions\<close>

record ActiveCompletion =
  ac_route_id :: string
  ac_dispatch_id :: string
  ac_failed :: bool
  ac_failure_budget_remaining :: int
  ac_receipt_ref :: string
  ac_actor :: string
  ac_followup_request :: "IntentInput option"
  ac_policy_revision :: string
  ac_followup_generation :: int
  ac_dirty_lineage_json :: string
  ac_dirty_suppressed :: bool
  ac_fence_generation :: bool
  ac_expected_dirty_generation :: int
  ac_remaining_work :: bool
  ac_now :: string

record FollowupCreated =
  fu_route_to :: RouteState
  fu_followup_dispatch_id :: string
  fu_dirty_generation :: int

section \<open>Sink results\<close>

record SubmitResult =
  sr_classification :: string
  sr_durable :: string
  sr_external_ref :: string
  sr_target_observed_at :: string
  sr_structured_payload :: string
  sr_diagnostic :: string
  sr_payload_version :: string

definition SubmitAccepted :: string where
  "SubmitAccepted = ''accepted''"

definition SubmitRejected :: string where
  "SubmitRejected = ''rejected''"

definition SubmitDefiniteNotSubmitted :: string where
  "SubmitDefiniteNotSubmitted = ''definite_not_submitted''"

definition SubmitUnknown :: string where
  "SubmitUnknown = ''unknown''"

definition DurableTrue :: string where
  "DurableTrue = ''true''"

record Capabilities =
  cp_durable_acceptance :: bool
  cp_submit_idempotency_key :: bool
  cp_lookup_by_idempotency_key :: bool
  cp_lookup_by_external_ref :: bool
  cp_resource_mutex :: bool
  cp_execution_status :: bool
  cp_cancellation :: bool
  cp_result_receipt :: bool
  cp_maximum_request_bytes :: int

definition CapabilityNames :: "string list" where
  "CapabilityNames = [''durable_acceptance'', ''submit_idempotency_key'', ''lookup_by_idempotency_key'',
     ''lookup_by_external_ref'', ''resource_mutex'', ''execution_status'', ''cancellation'', ''result_receipt'']"

definition BoolMap :: "Capabilities \<Rightarrow> (string \<rightharpoonup> bool)" where
  "BoolMap c = map_of
     [(''durable_acceptance'', cp_durable_acceptance c), (''submit_idempotency_key'', cp_submit_idempotency_key c),
      (''lookup_by_idempotency_key'', cp_lookup_by_idempotency_key c),
      (''lookup_by_external_ref'', cp_lookup_by_external_ref c), (''resource_mutex'', cp_resource_mutex c),
      (''execution_status'', cp_execution_status c), (''cancellation'', cp_cancellation c),
      (''result_receipt'', cp_result_receipt c)]"

text \<open>A key that the map lacks reads as \<open>false\<close>.\<close>

definition at_key :: "(string \<rightharpoonup> bool) \<Rightarrow> string \<Rightarrow> bool" where
  "at_key m k = (m k = Some True)"

definition CapabilitiesFromBoolMap :: "(string \<rightharpoonup> bool) \<Rightarrow> Capabilities" where
  "CapabilitiesFromBoolMap m =
     \<lparr>cp_durable_acceptance = at_key m ''durable_acceptance'',
      cp_submit_idempotency_key = at_key m ''submit_idempotency_key'',
      cp_lookup_by_idempotency_key = at_key m ''lookup_by_idempotency_key'',
      cp_lookup_by_external_ref = at_key m ''lookup_by_external_ref'',
      cp_resource_mutex = at_key m ''resource_mutex'', cp_execution_status = at_key m ''execution_status'',
      cp_cancellation = at_key m ''cancellation'', cp_result_receipt = at_key m ''result_receipt'',
      cp_maximum_request_bytes = 0\<rparr>"

lemma capabilities_round_trip:
  "CapabilitiesFromBoolMap (BoolMap c) = c\<lparr>cp_maximum_request_bytes := 0\<rparr> \<and> dom (BoolMap c) = set CapabilityNames"
  by (cases c) (auto simp: CapabilitiesFromBoolMap_def BoolMap_def at_key_def CapabilityNames_def)

end
