(* ===== verification/Identifiers.thy ===== *)
theory Identifiers
  imports GoText "HOL-Library.Word"
begin

unbundle bit_operations_syntax

text \<open>
  Record identifiers (\<open>src/internal/domain/ids/ids.go\<close>). Bytes are 8-bit words and
  the clock is an \<open>int64\<close> of milliseconds converted to 64 bits, shifted and cut as
  \<open>NewID\<close> does it. Entropy is an argument: \<open>Some\<close> of the bytes read, or \<open>None\<close>
  for a failed read. The lemmas on \<open>be_bytes\<close> carry the order of the identifiers:
  their text sorts by the 48-bit timestamp.
\<close>

datatype id_error =
    NoEntropy
  | IdNotTrimmed
  | UuidForm string
  | UuidHyphen string
  | UuidHex string
  | UuidVersion string
  | UuidVariant string

definition word_hex :: "8 word list \<Rightarrow> string" where
  "word_hex ws = concat (map (\<lambda>w. hex_byte (unat w)) ws)"

section \<open>The generator\<close>

definition ms_bytes :: "64 word \<Rightarrow> 8 word list" where
  "ms_bytes ms = [ucast (drop_bit 40 ms), ucast (drop_bit 32 ms), ucast (drop_bit 24 ms),
                  ucast (drop_bit 16 ms), ucast (drop_bit 8 ms), ucast ms]"

definition uuid_text :: "8 word list \<Rightarrow> string" where
  "uuid_text b =
     word_hex (take 4 b) @ ''-'' @ word_hex (take 2 (drop 4 b)) @ ''-'' @
     word_hex (take 2 (drop 6 b)) @ ''-'' @ word_hex (take 2 (drop 8 b)) @ ''-'' @
     word_hex (take 6 (drop 10 b))"

definition NewID :: "int \<Rightarrow> 8 word list option \<Rightarrow> id_error + string" where
  "NewID now_ms entropy =
     (case entropy of
        None \<Rightarrow> Inl NoEntropy
      | Some rnd \<Rightarrow>
          let b = ms_bytes (word_of_int now_ms) @ rnd;
              b = b[6 := 0x70 OR (b ! 6 AND 0x0f)];
              b = b[8 := 0x80 OR (b ! 8 AND 0x3f)]
          in Inr (to_lower (uuid_text b)))"

section \<open>Parsing\<close>

definition ParseID :: "string \<Rightarrow> id_error + string" where
  "ParseID s = (if trim_space s \<noteq> s \<or> length s < 1 then Inl IdNotTrimmed else Inr s)"

definition hyphen_at :: "nat \<Rightarrow> bool" where
  "hyphen_at i \<longleftrightarrow> i = 8 \<or> i = 13 \<or> i = 18 \<or> i = 23"

text \<open>
  The loop over the runes of \<open>t\<close> compares byte offsets; a byte of a longer rune is
  never a hyphen and always fails the hexadecimal decoding, so the loop is written
  over the bytes.
\<close>

definition ParseUUIDv7 :: "string \<Rightarrow> id_error + string" where
  "ParseUUIDv7 s =
     (let t = to_lower (trim_space s) in
      if length t \<noteq> 36 \<or> t ! 8 \<noteq> CHR ''-'' \<or> t ! 13 \<noteq> CHR ''-'' \<or> t ! 18 \<noteq> CHR ''-'' \<or> t ! 23 \<noteq> CHR ''-''
      then Inl (UuidForm s)
      else if \<not> list_all (\<lambda>i. hyphen_at i = (t ! i = CHR ''-'')) [0..<36] then Inl (UuidHyphen s)
      else case hex_decode (filter (\<lambda>c. c \<noteq> CHR ''-'') t) of
        None \<Rightarrow> Inl (UuidHex s)
      | Some ns \<Rightarrow>
          let raw = map word_of_nat ns :: 8 word list in
          if drop_bit 4 (raw ! 6) \<noteq> 7 then Inl (UuidVersion s)
          else if drop_bit 6 (raw ! 8) \<noteq> 2 then Inl (UuidVariant s)
          else Inr t)"

section \<open>Sequential identifiers, suffixes and compact timestamps\<close>

definition Sequential_NewID :: "64 word \<Rightarrow> 64 word \<times> string" where
  "Sequential_NewID next =
     (let n = next + 1; w = show_nat (unat n)
      in (n, ''id-'' @ replicate (8 - length w) (CHR ''0'') @ w))"

definition RandomSuffix :: "8 word list option \<Rightarrow> string" where
  "RandomSuffix entropy = (case entropy of None \<Rightarrow> ''00000000'' | Some b \<Rightarrow> word_hex b)"

definition CompactTimestamp :: "string \<Rightarrow> string" where
  "CompactTimestamp now = filter (\<lambda>c. c \<notin> set '':-TZ.'') now"

section \<open>Texts of hexadecimal digits and hyphens\<close>

definition uuid_char :: "char \<Rightarrow> bool" where
  "uuid_char c \<longleftrightarrow> c = CHR ''-'' \<or> is_lower_hex c"

lemma uuid_char_cases: "uuid_char c \<Longrightarrow> c \<in> set ''-0123456789abcdef''"
  by (auto simp: uuid_char_def is_lower_hex_def hex_digits_def)

lemma to_lower_uuid: "list_all uuid_char s \<Longrightarrow> to_lower s = s"
proof (induction s rule: to_lower.induct)
  case (2 c s)
  from 2(4) have "uuid_char c" by simp
  then have "c \<in> set ''-0123456789abcdef''" by (rule uuid_char_cases)
  then have "c \<noteq> CHR 0xE2" "c \<noteq> CHR 0xC4" "lower_byte c = c"
    by (auto simp: lower_byte_def byte_def)
  with 2 show ?case by simp
qed simp

lemma space_at_head: "list_all (\<lambda>p. p \<noteq> [] \<and> hd p \<noteq> c) ps \<Longrightarrow> space_at ps (c # s) = 0"
  by (auto simp: space_at_def list_all_iff find_Some_iff split: option.split dest!: nth_mem)
    (metis hd_append2 list.sel(1) prefixE)

lemma space_runes_heads:
  "list_all (\<lambda>p. p \<noteq> [] \<and> (byte (hd p) < 33 \<or> 127 < byte (hd p))) (space_runes @ map rev space_runes)"
  by code_simp

lemma space_at_uuid:
  assumes "uuid_char c"
  shows "space_at space_runes (c # s) = 0 \<and> space_at (map rev space_runes) (c # s) = 0"
proof -
  from uuid_char_cases [OF assms] have c: "33 \<le> byte c" "byte c \<le> 127" by (auto simp: byte_def)
  have "list_all (\<lambda>p. p \<noteq> [] \<and> hd p \<noteq> c) (space_runes @ map rev space_runes)"
    using space_runes_heads by (rule list.pred_mono_strong) (use c in auto)
  then show ?thesis by (simp add: space_at_head)
qed

lemma trim_space_uuid:
  assumes "list_all uuid_char s"
  shows "trim_space s = s"
proof -
  have "trim_left space_runes t = t \<and> trim_left (map rev space_runes) t = t" if "list_all uuid_char t" for t
  proof (cases t)
    case (Cons c u)
    with that space_at_uuid [of c u] show ?thesis by (simp add: trim_left.simps)
  qed (simp add: trim_left.simps)
  with assms show ?thesis by (simp add: trim_space_def)
qed

lemma word_hex_append [simp]: "word_hex (xs @ ys) = word_hex xs @ word_hex ys"
  by (simp add: word_hex_def)

lemma length_word_hex [simp]: "length (word_hex ws) = 2 * length ws"
  by (induction ws) (simp_all add: word_hex_def hex_byte_def)

lemma unat_8_less: "unat (w :: 8 word) < 256"
  using unsigned_less [of w] by simp

lemma word_hex_lower: "list_all is_lower_hex (word_hex ws)"
  by (induction ws) (simp_all add: word_hex_def hex_byte_lower unat_8_less)

lemma hex_decode_word_hex: "hex_decode (word_hex ws) = Some (map unat ws)"
  by (induction ws) (simp_all add: word_hex_def hex_decode_byte unat_8_less)

lemma lower_hex_not_hyphen: "is_lower_hex c \<Longrightarrow> c \<noteq> CHR ''-''"
  by (auto simp: is_lower_hex_def hex_digits_def)

lemma word_hex_no_hyphen: "filter (\<lambda>c. c \<noteq> CHR ''-'') (word_hex ws) = word_hex ws"
  using word_hex_lower [of ws] lower_hex_not_hyphen by (auto simp: list_all_iff intro: filter_True)

lemma word_hex_nth_not_hyphen: "i < 2 * length ws \<Longrightarrow> word_hex ws ! i \<noteq> CHR ''-''"
  using word_hex_lower [of ws] lower_hex_not_hyphen by (auto simp: list_all_length)

lemma uuid_text_chars: "list_all uuid_char (uuid_text b)"
proof -
  have "list_all uuid_char (word_hex ws)" for ws
    using word_hex_lower [of ws] by (auto simp: list_all_iff uuid_char_def)
  then show ?thesis by (simp add: uuid_text_def uuid_char_def)
qed

lemma length_uuid_text: "length b = 16 \<Longrightarrow> length (uuid_text b) = 36"
  by (simp add: uuid_text_def)

lemma uuid_text_hex:
  assumes "length b = 16"
  shows "filter (\<lambda>c. c \<noteq> CHR ''-'') (uuid_text b) = word_hex b"
proof -
  have "b = take 4 b @ take 2 (drop 4 b) @ take 2 (drop 6 b) @ take 2 (drop 8 b) @ take 6 (drop 10 b)"
    using assms by (intro nth_equalityI) (auto simp: nth_append)
  from arg_cong [OF this, of word_hex] show ?thesis
    by (simp add: uuid_text_def word_hex_no_hyphen)
qed

lemma uuid_text_hyphen:
  "length b = 16 \<Longrightarrow> i < 36 \<Longrightarrow> uuid_text b ! i = CHR ''-'' \<longleftrightarrow> hyphen_at i"
  by (auto simp: uuid_text_def hyphen_at_def nth_append nth_Cons' word_hex_nth_not_hyphen)

lemma ParseUUIDv7_uuid_text:
  assumes "length b = 16" "drop_bit 4 (b ! 6) = 7" "drop_bit 6 (b ! 8) = 2"
  shows "ParseUUIDv7 (uuid_text b) = Inr (uuid_text b)"
proof -
  have t: "to_lower (trim_space (uuid_text b)) = uuid_text b"
    by (simp add: trim_space_uuid to_lower_uuid uuid_text_chars)
  have h: "uuid_text b ! i = CHR ''-''" if "i \<in> {8, 13, 18, 23}" for i
    using that uuid_text_hyphen [OF assms(1), of i] by (auto simp: hyphen_at_def)
  have l: "list_all (\<lambda>i. hyphen_at i = (uuid_text b ! i = CHR ''-'')) [0..<36]"
    by (auto simp: list_all_iff uuid_text_hyphen [OF assms(1)] simp del: upt_rec_numeral)
  have "map (\<lambda>x. word_of_nat (unat x)) b = b" by (simp add: map_idI)
  then show ?thesis
    using assms
    by (simp add: ParseUUIDv7_def t length_uuid_text h l uuid_text_hex hex_decode_word_hex comp_def
        del: upt_rec_numeral)
qed

section \<open>Big-endian bytes keep the order\<close>

fun be_bytes :: "nat \<Rightarrow> nat \<Rightarrow> nat list" where
  "be_bytes 0 n = []"
| "be_bytes (Suc k) n = (n div 256 ^ k) mod 256 # be_bytes k (n mod 256 ^ k)"

lemma be_bytes_mono: "m < n \<Longrightarrow> n < 256 ^ k \<Longrightarrow> be_bytes k m < be_bytes k n"
proof (induction k arbitrary: m n)
  case (Suc k)
  have lt: "m div 256 ^ k < 256" "n div 256 ^ k < 256"
    using Suc.prems by (simp_all add: less_mult_imp_div_less)
  have "m div 256 ^ k \<le> n div 256 ^ k" using Suc.prems by (simp add: div_le_mono)
  moreover have "m mod 256 ^ k < n mod 256 ^ k" if "m div 256 ^ k = n div 256 ^ k"
    using that Suc.prems(1) by (metis div_mult_mod_eq nat_add_left_cancel_less)
  moreover have "n mod 256 ^ k < 256 ^ k" by simp
  ultimately show ?case
    using lt Suc.IH by (auto simp: le_less)
qed simp

lemma hex_digit_mono: "n < 16 \<Longrightarrow> m < n \<Longrightarrow> hex_digits ! m < hex_digits ! n"
  using nat_less_16_cases [of n] nat_less_16_cases [of m]
  by (auto simp: hex_digits_def less_char_def)

lemma hex_byte_mono:
  assumes "m < n" "n < 256"
  shows "hex_byte m < hex_byte n"
proof (cases "m div 16 = n div 16")
  case True
  with assms have "m mod 16 < n mod 16" by (metis div_mult_mod_eq nat_add_left_cancel_less)
  with True hex_digit_mono show ?thesis by (simp add: hex_byte_def)
next
  case False
  with assms have "m div 16 < n div 16" by (simp add: div_le_mono le_neq_implies_less)
  moreover have "n div 16 < 16" using assms(2) by simp
  ultimately show ?thesis using hex_digit_mono by (simp add: hex_byte_def)
qed

lemma length_hex_byte: "length (hex_byte n) = 2"
  by (simp add: hex_byte_def)

lemma word_hex_mono:
  "length u = length v \<Longrightarrow> map unat u < map unat v \<Longrightarrow> word_hex u < word_hex v"
proof (induction u v rule: list_induct2)
  case (Cons x xs y ys)
  then consider "unat x < unat y" | "unat x = unat y" "map unat xs < map unat ys" by auto
  then show ?case
  proof cases
    case 1
    then have "hex_byte (unat x) < hex_byte (unat y)" by (simp add: hex_byte_mono unat_8_less)
    then show ?thesis
      using list_less_append [of "hex_byte (unat x)" "hex_byte (unat y)"]
      by (simp add: word_hex_def length_hex_byte)
  next
    case 2
    with Cons.IH show ?thesis by (simp add: word_hex_def list_less_same)
  qed
qed simp

lemma be_bytes_digit: "i < j \<Longrightarrow> (m mod 256 ^ j) div 256 ^ i mod 256 = m div 256 ^ i mod (256 :: nat)"
proof -
  assume "i < j"
  then obtain d where j: "j = i + Suc d" by (auto dest: less_imp_Suc_add)
  have "m mod 256 ^ j div 256 ^ i = m div 256 ^ i mod (256 * 256 ^ d)"
    using mod_mult2_eq [of m "256 ^ i" "256 * 256 ^ d"] by (simp only: j power_add power_Suc) simp
  then show ?thesis by (simp add: mod_mod_cancel)
qed

lemma be_bytes_digits: "be_bytes k n = map (\<lambda>i. n div 256 ^ i mod 256) (rev [0..<k])"
  by (induction k arbitrary: n) (simp_all add: be_bytes_digit)

lemma unat_ms: "0 \<le> ms \<Longrightarrow> ms < 2 ^ 64 \<Longrightarrow> unat (word_of_int ms :: 64 word) = nat ms"
  by (simp add: unsigned_of_int take_bit_int_eq_self)

lemma unat_byte_of: "unat (ucast (drop_bit k w) :: 8 word) = unat (w :: 64 word) div 2 ^ k mod 256"
proof -
  have "unat (drop_bit k w) = unat w div 2 ^ k"
    by (metis drop_bit_eq_div drop_bit_nat_def unat_drop_bit_eq)
  then show ?thesis by (simp add: unsigned_ucast_eq take_bit_eq_mod)
qed

lemma ms_bytes_be:
  assumes "0 \<le> ms" "ms < 2 ^ 48"
  shows "map unat (ms_bytes (word_of_int ms)) = be_bytes 6 (nat ms)"
proof -
  have "unat (word_of_int ms :: 64 word) = nat ms"
    using assms by (simp add: unat_ms)
  moreover have "rev [0..<6] = [5, 4, 3, 2, 1, 0]" by code_simp
  ultimately show ?thesis
    using unat_byte_of [of 0 "word_of_int ms"]
    by (simp add: ms_bytes_def be_bytes_digits unat_byte_of)
qed

section \<open>Generated identifiers\<close>

lemma version_bits: "drop_bit 4 (0x70 OR (w AND 0x0f)) = (7 :: 8 word)"
  by (rule bit_word_eqI) (auto simp: bit_simps)

lemma variant_bits: "drop_bit 6 (0x80 OR (w AND 0x3f)) = (2 :: 8 word)"
  by (rule bit_word_eqI) (auto simp: bit_simps)

definition id_bytes :: "int \<Rightarrow> 8 word list \<Rightarrow> 8 word list" where
  "id_bytes now_ms rnd =
     ms_bytes (word_of_int now_ms) @
     [0x70 OR (rnd ! 0 AND 0x0f), rnd ! 1, 0x80 OR (rnd ! 2 AND 0x3f)] @ drop 3 rnd"

lemma NewID_id_bytes:
  assumes "length rnd = 10"
  shows "NewID now_ms (Some rnd) = Inr (uuid_text (id_bytes now_ms rnd))"
proof -
  obtain a b c r where "rnd = a # b # c # r"
    using assms by (auto simp: length_Suc_conv numeral_eq_Suc)
  then show ?thesis
    by (simp add: NewID_def id_bytes_def ms_bytes_def to_lower_uuid uuid_text_chars Let_def)
qed

lemma ParseUUIDv7_NewID:
  assumes "length rnd = 10"
  shows "\<exists>uuid. NewID now_ms (Some rnd) = Inr uuid \<and> ParseUUIDv7 uuid = Inr uuid"
proof -
  have "length (id_bytes now_ms rnd) = 16" "id_bytes now_ms rnd ! 6 = 0x70 OR (rnd ! 0 AND 0x0f)"
    "id_bytes now_ms rnd ! 8 = 0x80 OR (rnd ! 2 AND 0x3f)"
    using assms by (simp_all add: id_bytes_def ms_bytes_def)
  with assms show ?thesis
    by (simp add: NewID_id_bytes ParseUUIDv7_uuid_text version_bits variant_bits)
qed

text \<open>The identifier's text up to the end of the timestamp.\<close>

definition ms_text :: "8 word list \<Rightarrow> string" where
  "ms_text u = word_hex (take 4 u) @ ''-'' @ word_hex (drop 4 u)"

lemma ms_text_mono:
  assumes "map unat u < map unat v" "length u = 6" "length v = 6"
  shows "ms_text u < ms_text v"
proof -
  have "map unat (take 4 u) @ map unat (drop 4 u) < map unat (take 4 v) @ map unat (drop 4 v)"
    using assms(1) by (simp flip: map_append)
  from list_less_append_cases [OF _ this] assms(2,3)
  consider "map unat (take 4 u) < map unat (take 4 v)"
    | "map unat (take 4 u) = map unat (take 4 v)" "map unat (drop 4 u) < map unat (drop 4 v)"
    by auto
  then show ?thesis
  proof cases
    case 1
    then have "word_hex (take 4 u) < word_hex (take 4 v)" using assms by (simp add: word_hex_mono)
    then show ?thesis using assms by (simp add: ms_text_def list_less_append)
  next
    case 2
    then have "word_hex (drop 4 u) < word_hex (drop 4 v)" using assms by (simp add: word_hex_mono)
    moreover have "inj (unat :: 8 word \<Rightarrow> nat)" by (rule injI) (rule unsigned_word_eqI)
    with 2(1) have "take 4 u = take 4 v" by (metis inj_map_eq_map)
    ultimately show ?thesis by (simp add: ms_text_def list_less_same)
  qed
qed

lemma uuid_text_ms: "length u = 6 \<Longrightarrow> \<exists>w. uuid_text (u @ r) = ms_text u @ w"
  by (auto simp: uuid_text_def ms_text_def)

lemma NewID_mono:
  assumes "0 \<le> m" "m < n" "n < 2 ^ 48" "NewID m (Some r) = Inr a" "NewID n (Some s) = Inr b"
    "length r = 10" "length s = 10"
  shows "a < b"
proof -
  let ?u = "ms_bytes (word_of_int m)" and ?v = "ms_bytes (word_of_int n)"
  have l: "length ?u = 6" "length ?v = 6" by (simp_all add: ms_bytes_def)
  have "map unat ?u < map unat ?v"
    using assms by (simp add: ms_bytes_be be_bytes_mono)
  from ms_text_mono [OF this l] have lt: "ms_text ?u < ms_text ?v" .
  obtain x y where "a = ms_text ?u @ x" "b = ms_text ?v @ y"
    using assms(4-7) uuid_text_ms [OF l(1)] uuid_text_ms [OF l(2)]
    by (simp add: NewID_id_bytes id_bytes_def) metis
  moreover have "length (ms_text ?u) = length (ms_text ?v)" by (simp add: ms_text_def l)
  ultimately show ?thesis using lt by (simp add: list_less_append)
qed

section \<open>Properties\<close>

text \<open>C23: every identifier that \<open>NewID\<close> produces from ten bytes of entropy is a UUID of
  version 7 and the RFC 4122 variant that \<open>ParseUUIDv7\<close> takes back unchanged.\<close>

theorem uuid_round_trip:
  assumes "length rnd = 10"
  shows "\<exists>uuid. NewID now_ms (Some rnd) = Inr uuid \<and> ParseUUIDv7 uuid = Inr uuid \<and> length uuid = 36"
proof -
  have "length (id_bytes now_ms rnd) = 16" using assms by (simp add: id_bytes_def ms_bytes_def)
  with ParseUUIDv7_NewID [OF assms, of now_ms] show ?thesis
    by (simp add: NewID_id_bytes [OF assms] length_uuid_text)
qed

theorem uuid_round_trip_witness:
  "\<exists>uuid. NewID 1700000000000 (Some [1, 2, 3, 4, 5, 6, 7, 8, 9, 255]) = Inr uuid \<and> ParseUUIDv7 uuid = Inr uuid \<and>
     length uuid = 36"
  by (rule uuid_round_trip) simp

text \<open>identifiers sort by time: an identifier made in a later millisecond is greater as a
  text, whatever the random bytes, until the 48-bit millisecond counter wraps.\<close>

theorem uuid_text_follows_clock:
  assumes "0 \<le> m" and "m < n" and "n < 2 ^ 48"
    and "NewID m (Some r) = Inr a" and "NewID n (Some s) = Inr b"
    and "length r = 10" and "length s = 10"
  shows "a < b"
  using assms by (rule NewID_mono)

theorem uuid_text_follows_clock_witness:
  "\<exists>a b. NewID 255 (Some (replicate 10 255)) = Inr a \<and> NewID 256 (Some (replicate 10 0)) = Inr b \<and> a < b"
proof -
  obtain a b where n: "NewID 255 (Some (replicate 10 255)) = Inr a" "NewID 256 (Some (replicate 10 0)) = Inr b"
    using NewID_id_bytes by fastforce
  have "a < b" by (rule uuid_text_follows_clock [OF _ _ _ n]) simp_all
  with n show ?thesis by blast
qed

end
