(* ===== verification/Coordination.thy ===== *)
theory Coordination
  imports Ports Identifiers
begin

text \<open>
  Route coordination (\<open>src/internal/app/dispatch/coordination.go\<close> and
  \<open>reconcilefanout.go\<close>): how one occurrence is routed to its destination lanes, how a
  completion asks for a follow-up, and how a follow-up request is built.

  The durable store and the clock are records of functions over a world \<open>'s\<close>: a read
  looks at the world, a write returns the world after it beside its result. Nothing is
  assumed about them; the theorems hold for every store. \<open>traced\<close> is a store that also
  keeps a list of the calls made, to state in which order the code makes them.
\<close>

section \<open>Bounded texts\<close>

definition operatorTextBound :: nat where
  "operatorTextBound = 300"

definition truncation_mark :: string where
  "truncation_mark = ''...(truncated)''"

definition boundTruncate :: "string \<Rightarrow> nat \<Rightarrow> string" where
  "boundTruncate t limit =
     (let runes = runes_of t
      in if length runes \<le> limit then t else concat (take limit runes) @ truncation_mark)"

definition plain_rune :: "string \<Rightarrow> string" where
  "plain_rune r = (case r of [c] \<Rightarrow> (if byte c < 32 \<or> byte c = 127 then '' '' else r) | _ \<Rightarrow> r)"

definition BoundLaneError :: "string \<Rightarrow> string" where
  "BoundLaneError e = boundTruncate (concat (map plain_rune (runes_of e))) operatorTextBound"

definition boundedResolverDetail :: "string \<Rightarrow> string" where
  "boundedResolverDetail detail = boundTruncate detail operatorTextBound"

definition wrap_store :: "store_error \<Rightarrow> store_error" where
  "wrap_store e = e\<lparr>se_text := ''durable store: '' @ se_text e\<rparr>"

definition not_eligible :: "string \<Rightarrow> store_error" where
  "not_eligible t = \<lparr>se_class = StateNotEligible, se_text = ''dispatch state not eligible for action: '' @ t\<rparr>"

section \<open>The store and the coordinator\<close>

record 's CoordinatorStore =
  LoadRouteState :: "'s \<Rightarrow> string \<Rightarrow> store_error + RouteSnapshot"
  LoadLaneState :: "'s \<Rightarrow> string \<Rightarrow> string \<Rightarrow> store_error + RouteSnapshot"
  GroupSlotFree :: "'s \<Rightarrow> string \<Rightarrow> string \<Rightarrow> store_error + bool"
  CommitLineage :: "'s \<Rightarrow> Lineage \<Rightarrow> 's \<times> (store_error + unit)"
  CommitFanoutChild :: "'s \<Rightarrow> IntentInput \<Rightarrow> 's \<times> (store_error + unit)"
  CommitMergePending :: "'s \<Rightarrow> Lineage \<Rightarrow> string list \<Rightarrow> string list \<Rightarrow> string \<Rightarrow> string \<Rightarrow> 's \<times> (store_error + int)"
  MergeSelectedLanes ::
    "'s \<Rightarrow> string \<Rightarrow> string \<Rightarrow> string list \<Rightarrow> string list \<Rightarrow> string \<Rightarrow> string \<Rightarrow> 's \<times> (store_error + int)"
  ActivateDispatch :: "'s \<Rightarrow> string \<Rightarrow> string \<Rightarrow> string \<Rightarrow> 's \<times> (store_error + unit)"
  ActivateFollowup :: "'s \<Rightarrow> string \<Rightarrow> string \<Rightarrow> string \<Rightarrow> 's \<times> (store_error + unit)"
  CompleteActive :: "'s \<Rightarrow> ActiveCompletion \<Rightarrow> 's \<times> (store_error + FollowupCreated)"

record 's Coordinator =
  co_store :: "'s CoordinatorStore"
  co_now :: "'s \<Rightarrow> string"
  co_actor :: string

definition SingleLaneFanout ::
  "string \<Rightarrow> AggregateOrigin \<Rightarrow> TaskDestinationRef \<Rightarrow> string \<Rightarrow> DestinationRevisionInput list \<Rightarrow> FanoutInput" where
  "SingleLaneFanout aggregateID origin lane reason revisions =
     \<lparr>fo_aggregate_id = aggregateID, fo_origin = AggregateOrigin_str origin, fo_destination_id = td_id lane,
      fo_destination_revision = td_revision lane, fo_workstream = td_workstream lane,
      fo_selections = [\<lparr>ds_destination_id = td_id lane, ds_destination_revision = td_revision lane,
        ds_workstream = td_workstream lane, ds_reason = reason\<rparr>],
      fo_revisions = revisions\<rparr>"

definition laneOfLineage :: "Lineage \<Rightarrow> string" where
  "laneOfLineage lin =
     (case in_fanout (ln_intent lin) of
        Some f \<Rightarrow> (if fo_destination_id f \<noteq> [] then fo_destination_id f else LegacyDestinationLaneID)
      | None \<Rightarrow> LegacyDestinationLaneID)"

definition route_of :: "Lineage \<Rightarrow> string" where
  "route_of lin = de_route_id (ln_decision lin)"

definition dispatch_of :: "Lineage \<Rightarrow> string" where
  "dispatch_of lin = in_dispatch_id (ln_intent lin)"

section \<open>One arrival\<close>

record FanoutLaneResult =
  lr_destination_id :: string
  lr_dispatch_id :: string
  lr_dirty_generation :: int

record FanoutLaneFailure =
  lf_destination_id :: string
  lf_dispatch_id :: string
  lf_error :: string
  lf_err :: store_error

text \<open>The merge of a burst: with the lineage while it is not durable, beside it afterwards.\<close>

definition merge_pending ::
  "'s Coordinator \<Rightarrow> 's \<Rightarrow> Lineage \<Rightarrow> string list \<Rightarrow> 's \<times> (store_error + int)" where
  "merge_pending c w lin selection =
     CommitMergePending (co_store c) w lin [laneOfLineage lin] selection (co_actor c) (co_now c w)"

definition merge_beside ::
  "'s Coordinator \<Rightarrow> 's \<Rightarrow> Lineage \<Rightarrow> string list \<Rightarrow> 's \<times> (store_error + int)" where
  "merge_beside c w lin selection =
     MergeSelectedLanes (co_store c) w (route_of lin) (ba_batch_id (ln_batch lin)) [laneOfLineage lin] selection
       (co_actor c) (co_now c w)"

definition lane_merged :: "Lineage \<Rightarrow> int \<Rightarrow> FanoutLaneResult" where
  "lane_merged lin dirty =
     \<lparr>lr_destination_id = laneOfLineage lin, lr_dispatch_id = [], lr_dirty_generation = dirty\<rparr>"

definition lane_activated :: "Lineage \<Rightarrow> FanoutLaneResult" where
  "lane_activated lin =
     \<lparr>lr_destination_id = laneOfLineage lin, lr_dispatch_id = dispatch_of lin, lr_dirty_generation = 0\<rparr>"

definition arrivalOne :: "'s Coordinator \<Rightarrow> 's \<Rightarrow> Lineage \<Rightarrow> 's \<times> (store_error + FanoutLaneResult)" where
  "arrivalOne c w lin =
     (let st = co_store c; lane = laneOfLineage lin;
          merged = (\<lambda>(w, m). (w, bindE m (\<lambda>dirty. Inr (lane_merged lin dirty))))
      in case LoadLaneState st w (route_of lin) lane of
        Inl e \<Rightarrow> (w, Inl e)
      | Inr snap \<Rightarrow>
          if is_ok (CanActivateNormalDispatch snap) then
            (if GroupSlotFree st w (route_of lin) lane = Inr False then merged (merge_pending c w lin [lane])
             else case CommitLineage st w lin of
               (w1, Inr _) \<Rightarrow>
                 (case ActivateDispatch st w1 (dispatch_of lin) (co_actor c) (co_now c w1) of
                    (w2, Inr _) \<Rightarrow> (w2, Inr (lane_activated lin))
                  | (w2, Inl e) \<Rightarrow>
                      if is_group_held e then merged (merge_beside c w2 lin [lane]) else (w2, Inl e))
             | (w1, Inl e) \<Rightarrow>
                 if is_slot_held e then merged (merge_pending c w1 lin [lane]) else (w1, Inl e))
          else merged (merge_pending c w lin [lane]))"

definition Arrival :: "'s Coordinator \<Rightarrow> 's \<Rightarrow> Lineage \<Rightarrow> 's \<times> bool \<times> store_error option" where
  "Arrival c w lin =
     (case arrivalOne c w lin of
        (w', Inl e) \<Rightarrow> (w', False, Some e)
      | (w', Inr r) \<Rightarrow> (w', lr_dispatch_id r = [], None))"

section \<open>The fan-out\<close>

record FanoutOutcome =
  oo_activated :: "FanoutLaneResult list"
  oo_merged :: "FanoutLaneResult list"
  oo_failed :: "FanoutLaneFailure list"

datatype lane_outcome =
    LaneActivated FanoutLaneResult
  | LaneMerged FanoutLaneResult
  | LaneFailed FanoutLaneFailure

definition lane_failed :: "Lineage \<Rightarrow> string \<Rightarrow> store_error \<Rightarrow> lane_outcome" where
  "lane_failed lin dispatchID e = LaneFailed
     \<lparr>lf_destination_id = laneOfLineage lin, lf_dispatch_id = dispatchID, lf_error = BoundLaneError (se_text e), lf_err = e\<rparr>"

text \<open>\<open>!persisted\<close> chooses the call that carries the shared prefix.\<close>

definition merge_lane ::
  "'s Coordinator \<Rightarrow> string list \<Rightarrow> bool \<Rightarrow> string \<Rightarrow> Lineage \<Rightarrow> 's \<Rightarrow> 's \<times> bool \<times> lane_outcome" where
  "merge_lane c selection persisted dispatchID lin w =
     (case (if persisted then merge_beside c w lin selection else merge_pending c w lin selection) of
        (w', Inl e) \<Rightarrow> (w', persisted, lane_failed lin dispatchID e)
      | (w', Inr dirty) \<Rightarrow> (w', True, LaneMerged (lane_merged lin dirty)))"

definition fanout_lane ::
  "'s Coordinator \<Rightarrow> string list \<Rightarrow> Lineage \<Rightarrow> 's \<Rightarrow> bool \<Rightarrow> 's \<times> bool \<times> lane_outcome" where
  "fanout_lane c selection lin w persisted =
     (let st = co_store c; lane = laneOfLineage lin
      in case LoadLaneState st w (route_of lin) lane of
        Inl e \<Rightarrow> (w, persisted, lane_failed lin [] e)
      | Inr snap \<Rightarrow>
          if is_ok (CanActivateNormalDispatch snap) then
            (if GroupSlotFree st w (route_of lin) lane = Inr False then merge_lane c selection persisted [] lin w
             else case (if persisted then CommitFanoutChild st w (ln_intent lin) else CommitLineage st w lin) of
               (w1, Inr _) \<Rightarrow>
                 (case ActivateDispatch st w1 (dispatch_of lin) (co_actor c) (co_now c w1) of
                    (w2, Inr _) \<Rightarrow> (w2, True, LaneActivated (lane_activated lin))
                  | (w2, Inl e) \<Rightarrow>
                      if is_group_held e then merge_lane c selection True (dispatch_of lin) lin w2
                      else (w2, True, lane_failed lin (dispatch_of lin) e))
             | (w1, Inl e) \<Rightarrow>
                 if is_slot_held e then merge_lane c selection persisted [] lin w1
                 else (w1, persisted, lane_failed lin [] e))
          else merge_lane c selection persisted [] lin w)"

definition record_lane :: "lane_outcome \<Rightarrow> FanoutOutcome \<Rightarrow> FanoutOutcome" where
  "record_lane lo out =
     (case lo of
        LaneActivated r \<Rightarrow> out\<lparr>oo_activated := oo_activated out @ [r]\<rparr>
      | LaneMerged r \<Rightarrow> out\<lparr>oo_merged := oo_merged out @ [r]\<rparr>
      | LaneFailed f \<Rightarrow> out\<lparr>oo_failed := oo_failed out @ [f]\<rparr>)"

fun fanout_loop ::
  "'s Coordinator \<Rightarrow> string list \<Rightarrow> Lineage list \<Rightarrow> 's \<Rightarrow> bool \<Rightarrow> FanoutOutcome \<Rightarrow> 's \<times> FanoutOutcome" where
  "fanout_loop c selection [] w persisted out = (w, out)"
| "fanout_loop c selection (lin # lins) w persisted out =
     (case fanout_lane c selection lin w persisted of
        (w', persisted', lo) \<Rightarrow> fanout_loop c selection lins w' persisted' (record_lane lo out))"

definition no_outcome :: FanoutOutcome where
  "no_outcome = \<lparr>oo_activated = [], oo_merged = [], oo_failed = []\<rparr>"

text \<open>\<open>lastErr\<close> is the live error of the last failure.\<close>

definition ArrivalFanout :: "'s Coordinator \<Rightarrow> 's \<Rightarrow> Lineage list \<Rightarrow> 's \<times> FanoutOutcome \<times> store_error option" where
  "ArrivalFanout c w lins =
     (if lins = [] then (w, no_outcome, Some (not_eligible ''a fan-out arrival needs at least one destination lineage''))
      else case fanout_loop c (map laneOfLineage lins) lins w False no_outcome of
        (w', out) \<Rightarrow>
          (w', out, if oo_activated out = [] \<and> oo_merged out = []
                    then (if oo_failed out = [] then None else Some (lf_err (last (oo_failed out))))
                    else None))"

section \<open>Completion and promotion\<close>

definition needs_followup :: "string \<Rightarrow> RouteSnapshot \<Rightarrow> store_error" where
  "needs_followup routeID snap = not_eligible (''completion of '' @ routeID @ '' needs a follow-up request: dirty generation ''
     @ show_int (rs_dirty_generation snap) @ '', pending reconcile '' @ (if rs_pending_reconcile snap then ''true'' else ''false''))"

definition Completion :: "'s Coordinator \<Rightarrow> 's \<Rightarrow> ActiveCompletion \<Rightarrow> 's \<times> (store_error + FollowupCreated)" where
  "Completion c w req =
     (let run = (\<lambda>_. CompleteActive (co_store c) w
            (req\<lparr>ac_actor := co_actor c, ac_now := (if ac_now req = [] then co_now c w else ac_now req)\<rparr>))
      in if ac_followup_request req = None then
           (case LoadRouteState (co_store c) w (ac_route_id req) of
              Inl e \<Rightarrow> (w, Inl (wrap_store e))
            | Inr snap \<Rightarrow>
                if rs_dirty_generation snap > 0 \<or> rs_pending_reconcile snap then (w, Inl (needs_followup (ac_route_id req) snap)) else run ())
         else run ())"

definition Activate :: "'s Coordinator \<Rightarrow> 's \<Rightarrow> string \<Rightarrow> 's \<times> (store_error + unit)" where
  "Activate c w dispatchID = ActivateFollowup (co_store c) w dispatchID (co_actor c) (co_now c w)"

section \<open>Derived work\<close>

text \<open>A live resolver returns the lane with its projection, or a bounded reason.\<close>

type_synonym lane_resolver = "string \<Rightarrow> string + TaskDestinationRef \<times> string"

definition no_live_lane :: "string \<Rightarrow> string \<Rightarrow> store_error" where
  "no_live_lane routeID detail =
     not_eligible
       (''the work predates the destinations contract and no live destination lane resolves for route ''
        @ routeID @ (if detail = [] then [] else '' ('' @ boundedResolverDetail detail @ '')'')
        @ ''; regenerate the configuration before rerunning legacy work'')"

definition ResolveDestinationLane ::
  "string \<Rightarrow> TaskDestinationRef option \<Rightarrow> TaskDestinationRef \<Rightarrow> lane_resolver option \<Rightarrow>
   store_error + TaskDestinationRef \<times> string" where
  "ResolveDestinationLane routeID stored snapshotLane resolver =
     (case stored of
        Some d \<Rightarrow> Inr (d, [])
      | None \<Rightarrow>
          if td_id snapshotLane \<noteq> [] \<and> td_revision snapshotLane \<noteq> [] \<and> td_workstream snapshotLane \<noteq> []
          then Inr (snapshotLane, [])
          else case resolver of
            None \<Rightarrow> Inl (no_live_lane routeID [])
          | Some f \<Rightarrow> (case f routeID of Inr lp \<Rightarrow> Inr lp | Inl detail \<Rightarrow> Inl (no_live_lane routeID detail)))"

datatype followup_error =
    StoredRequestInvalid string
  | LaneUnresolved store_error
  | IdentityFailed id_error
  | FollowupFingerprintFailed fingerprint_error
  | FollowupRequestFailed request_error

definition snapshot_lane :: "IntentSnapshot \<Rightarrow> TaskDestinationRef" where
  "snapshot_lane s = \<lparr>td_id = is_destination_id s, td_revision = is_destination_revision s, td_workstream = is_workstream s\<rparr>"

definition followupFingerprintChanges :: "ChangeItem list \<Rightarrow> FingerprintChange list" where
  "followupFingerprintChanges cs = map (\<lambda>m. \<lparr>fc_after_digest = ci_after_digest m, fc_before_digest = ci_before_digest m,
     fc_exists_after = (ci_operation m \<noteq> Operation_str OpDelete), fc_operation = ci_operation m, fc_path = ci_path m\<rparr>) cs"

text \<open>\<open>decode\<close> is \<open>json.Unmarshal\<close> of a stored request. \<open>ids\<close> are the results of the two
  \<open>NewID\<close> calls: the follow-up's dispatch and its aggregate.\<close>

definition live_revision :: "TaskDestinationRef \<Rightarrow> string \<Rightarrow> DestinationRevisionInput list" where
  "live_revision lane proj = (if proj = [] then [] else
     [\<lparr>dv_destination_id = td_id lane, dv_revision = td_revision lane, dv_projection_json = proj\<rparr>])"

definition followup_input ::
  "IntentSnapshot \<Rightarrow> TaskRequest \<Rightarrow> TaskDestinationRef \<Rightarrow> string \<Rightarrow> string \<Rightarrow> ChangeItem list \<Rightarrow> string list \<Rightarrow> RequestInput" where
  "followup_input original req lane did fp cs flags =
     \<lparr>ri_dispatch_id = did, ri_route = tq_route req, ri_resource = tq_resource req, ri_target_id = is_target_id original,
      ri_target_scope = is_target_scope original, ri_destination = lane, ri_generation = is_generation original + 1,
      ri_fingerprint = fp, ri_changes = cs, ri_flags = flags, ri_acceptance_criteria = tq_acceptance_criteria req,
      ri_assignment = tq_assignment req, ri_execution_hints = tq_execution_hints req\<rparr>"

definition BuildFollowupRequest ::
  "(string \<Rightarrow> string + TaskRequest) \<Rightarrow> (id_error + string) \<times> (id_error + string) \<Rightarrow> IntentSnapshot \<Rightarrow> ChangeItem list \<Rightarrow>
   string list \<Rightarrow> lane_resolver option \<Rightarrow> followup_error + IntentInput" where
  "BuildFollowupRequest decode newids original cs flags resolver =
     bindE (map_err StoredRequestInvalid (decode (is_request_json original))) (\<lambda>req.
     bindE (map_err LaneUnresolved
       (ResolveDestinationLane (is_route_id original) (tq_destination req) (snapshot_lane original) resolver)) (\<lambda>(lane, proj).
     bindE (map_err IdentityFailed (fst newids)) (\<lambda>did.
     bindE (map_err IdentityFailed (snd newids)) (\<lambda>aggregate.
     bindE (map_err FollowupFingerprintFailed (Content
       \<lparr>fi_changes = followupFingerprintChanges cs, fi_resource_id = tc_id (tq_resource req), fi_fresh = False,
        fi_has_relative = False, fi_overflow = False, fi_relative_root = []\<rparr>)) (\<lambda>fp.
     bindE (map_err FollowupRequestFailed (BuildRequest (followup_input original req lane did fp cs flags))) (\<lambda>(nxt, key).
       Inr \<lparr>in_target_scope = is_target_scope original, in_dispatch_id = did, in_decision_id = [],
         in_route_id = is_route_id original, in_route_revision = tr_revision (tq_route req),
         in_target_id = is_target_id original, in_target_type = is_target_type original,
         in_resource_id = tc_id (tq_resource req), in_generation = is_generation original + 1,
         in_idempotency_key = key, in_content_fingerprint = tn_content_fingerprint (tq_activation nxt),
         in_manifest_digest = ManifestDigest cs, in_request_version = TaskRequestContractVersion,
         in_request_json = MarshalRequest nxt, in_created_at = [],
         in_fanout = Some (SingleLaneFanout aggregate OriginFollowup lane (''followup:'' @ is_dispatch_id original)
           (live_revision lane proj))\<rparr>))))))"

section \<open>Reconciliation siblings\<close>

record ReconcileLaneCommit =
  rk_destination_id :: string
  rk_dispatch_id :: string
  rk_committed :: bool
  rk_note :: string
  rk_err :: "store_error option"

definition note_slot_held :: string where
  "note_slot_held = ''lane holds its own active work; the reconciliation child was not forced beside it''"

definition note_duplicate :: string where
  "note_duplicate = ''an identical child for this content already exists on the lane (duplicate idempotency key); nothing new was forced''"

definition no_fanout_block :: "IntentInput \<Rightarrow> store_error" where
  "no_fanout_block s = \<lparr>se_class = OtherFailure,
     se_text = ''sibling '' @ in_dispatch_id s @ '' carries no fanout block; its lane is unknowable''\<rparr>"

definition commit_sibling ::
  "('s \<Rightarrow> IntentInput \<Rightarrow> 's \<times> (store_error + unit)) \<Rightarrow> 's \<Rightarrow> IntentInput \<Rightarrow> 's \<times> ReconcileLaneCommit" where
  "commit_sibling commit w s =
     (let base = \<lparr>rk_destination_id = [], rk_dispatch_id = in_dispatch_id s, rk_committed = False, rk_note = [], rk_err = None\<rparr>
      in case in_fanout s of
        None \<Rightarrow> (w, base\<lparr>rk_err := Some (no_fanout_block s)\<rparr>)
      | Some f \<Rightarrow>
          let base = base\<lparr>rk_destination_id := fo_destination_id f\<rparr>
          in case commit w s of
            (w', Inr _) \<Rightarrow> (w', base\<lparr>rk_committed := True\<rparr>)
          | (w', Inl e) \<Rightarrow>
              (w', if is_slot_held e then base\<lparr>rk_note := note_slot_held\<rparr>
                   else if se_class e = IdempotencyConflict then base\<lparr>rk_note := note_duplicate\<rparr>
                   else base\<lparr>rk_err := Some e\<rparr>))"

fun CommitReconcileSiblings ::
  "('s \<Rightarrow> IntentInput \<Rightarrow> 's \<times> (store_error + unit)) \<Rightarrow> 's \<Rightarrow> IntentInput list \<Rightarrow> 's \<times> ReconcileLaneCommit list" where
  "CommitReconcileSiblings commit w [] = (w, [])"
| "CommitReconcileSiblings commit w (s # ss) =
     (case commit_sibling commit w s of
        (w1, k) \<Rightarrow> (case CommitReconcileSiblings commit w1 ss of (w2, ks) \<Rightarrow> (w2, k # ks)))"

definition Journal_Failure :: "ReconcileLaneCommit list \<Rightarrow> ReconcileLaneCommit option" where
  "Journal_Failure ks = List.find (\<lambda>k. rk_err k \<noteq> None) ks"



section \<open>Bounded texts are bounded\<close>

definition printable :: "string \<Rightarrow> bool" where
  "printable s = list_all (\<lambda>c. 32 \<le> byte c \<and> byte c \<noteq> 127) s"

lemma plain_rune_ok:
  assumes "rune_ok r"
  shows "rune_ok (plain_rune r) \<and> printable (plain_rune r)"
  using assms
proof (cases r rule: rune_ok_cases)
  case (ascii c)
  then show ?thesis by (auto simp: plain_rune_def printable_def rune_ok_ascii byte_def)
next
  case wide
  then have "plain_rune r = r" by (cases r rule: list.exhaust; cases "tl r") (auto simp: plain_rune_def)
  moreover have "printable r" using wide(2) by (fastforce simp: printable_def list_all_iff)
  ultimately show ?thesis using assms by simp
qed

lemma printable_concat: "list_all printable rs \<Longrightarrow> printable (concat rs)"
  by (induction rs) (simp_all add: printable_def)

lemma truncation_mark_ascii: "ascii_string truncation_mark" "printable truncation_mark" "length truncation_mark = 14"
  by (simp_all add: truncation_mark_def ascii_string_def printable_def byte_def)

lemma BoundLaneError_runes:
  "BoundLaneError e = (let rs = map plain_rune (runes_of e) in
     if length rs \<le> 300 then concat rs else concat (take 300 rs) @ truncation_mark)"
proof -
  have "list_all rune_ok (map plain_rune (runes_of e))"
    using runes_of_ok [of e] plain_rune_ok by (auto simp: list_all_iff)
  then show ?thesis by (simp add: BoundLaneError_def boundTruncate_def operatorTextBound_def runes_of_concat)
qed

text \<open>the text of a lane error is bounded and safe to print whatever the error says: valid UTF-8
  cut at a rune boundary, at most 300 runes and the truncation mark, no control character
  (OPS-009).\<close>

theorem lane_error_text_is_bounded:
  "valid_utf8 (BoundLaneError e) \<and> printable (BoundLaneError e) \<and> length (runes_of (BoundLaneError e)) \<le> 314"
proof -
  let ?rs = "map plain_rune (runes_of e)"
  have ok: "list_all rune_ok (take n ?rs)" "list_all printable (take n ?rs)" for n
    using runes_of_ok [of e] plain_rune_ok by (auto simp: list_all_iff dest!: in_set_takeD)
  have all: "list_all rune_ok ?rs" "list_all printable ?rs"
    using ok [of "length ?rs"] by simp_all
  have m: "valid_utf8 truncation_mark" "length (runes_of truncation_mark) = 14"
    using truncation_mark_ascii by (simp_all add: valid_utf8_ascii runes_of_ascii)
  show ?thesis
  proof (cases "length ?rs \<le> 300")
    case True
    then show ?thesis
      using all by (simp add: BoundLaneError_runes Let_def valid_utf8_concat runes_of_concat printable_concat)
  next
    case False
    then show ?thesis
      using ok [of 300] m truncation_mark_ascii(2) printable_concat [OF ok(2) [of 300]]
      by (simp add: BoundLaneError_runes Let_def valid_utf8_runes runes_of_runes printable_def)
  qed
qed


section \<open>A store that keeps the calls made to it\<close>

datatype store_call =
    CallLineage bool
  | CallMergePending bool
  | CallChild bool
  | CallMergeBeside bool
  | CallActivate string bool
  | CallFollowup string bool
  | CallComplete bool

definition noted :: "(bool \<Rightarrow> store_call) \<Rightarrow> store_call list \<Rightarrow> 's \<times> ('e + 'a) \<Rightarrow> ('s \<times> store_call list) \<times> ('e + 'a)" where
  "noted call tr r = ((fst r, tr @ [call (is_ok (snd r))]), snd r)"

definition traced :: "'s CoordinatorStore \<Rightarrow> ('s \<times> store_call list) CoordinatorStore" where
  "traced st = \<lparr>
     LoadRouteState = (\<lambda>w. LoadRouteState st (fst w)),
     LoadLaneState = (\<lambda>w. LoadLaneState st (fst w)),
     GroupSlotFree = (\<lambda>w. GroupSlotFree st (fst w)),
     CommitLineage = (\<lambda>w lin. noted CallLineage (snd w) (CommitLineage st (fst w) lin)),
     CommitFanoutChild = (\<lambda>w i. noted CallChild (snd w) (CommitFanoutChild st (fst w) i)),
     CommitMergePending = (\<lambda>w lin m s a n. noted CallMergePending (snd w) (CommitMergePending st (fst w) lin m s a n)),
     MergeSelectedLanes = (\<lambda>w r b m s a n. noted CallMergeBeside (snd w) (MergeSelectedLanes st (fst w) r b m s a n)),
     ActivateDispatch = (\<lambda>w did a n. noted (CallActivate did) (snd w) (ActivateDispatch st (fst w) did a n)),
     ActivateFollowup = (\<lambda>w did a n. noted (CallFollowup did) (snd w) (ActivateFollowup st (fst w) did a n)),
     CompleteActive = (\<lambda>w req. noted CallComplete (snd w) (CompleteActive st (fst w) req))\<rparr>"

definition traced_coordinator :: "'s Coordinator \<Rightarrow> ('s \<times> store_call list) Coordinator" where
  "traced_coordinator c = \<lparr>co_store = traced (co_store c), co_now = (\<lambda>w. co_now c (fst w)), co_actor = co_actor c\<rparr>"

text \<open>The calls that persist the shared observation, batch and decision.\<close>

definition carries_prefix :: "store_call \<Rightarrow> bool" where
  "carries_prefix k = (case k of CallLineage _ \<Rightarrow> True | CallMergePending _ \<Rightarrow> True | _ \<Rightarrow> False)"

definition persists_prefix :: "store_call \<Rightarrow> bool" where
  "persists_prefix k = (k = CallLineage True \<or> k = CallMergePending True)"

text \<open>Until a call persists the prefix every call is a failed attempt to persist it; afterwards no
  call carries it.\<close>

definition prefix_first :: "bool \<Rightarrow> store_call list \<Rightarrow> bool" where
  "prefix_first persisted tr = (\<exists>xs. list_all (\<lambda>k. carries_prefix k \<and> \<not> persists_prefix k) xs \<and>
     (if persisted then \<exists>k ys. tr = xs @ k # ys \<and> persists_prefix k \<and> list_all (\<lambda>k. \<not> carries_prefix k) ys
      else tr = xs))"

lemma prefix_first_Nil: "prefix_first False []"
  by (simp add: prefix_first_def)

lemma prefix_first_refused:
  "prefix_first False tr \<Longrightarrow> carries_prefix k \<Longrightarrow> \<not> persists_prefix k \<Longrightarrow> prefix_first False (tr @ [k])"
  by (auto simp: prefix_first_def)

lemma prefix_first_persisted: "prefix_first False tr \<Longrightarrow> persists_prefix k \<Longrightarrow> prefix_first True (tr @ [k])"
  by (auto simp: prefix_first_def)

lemma prefix_first_beside:
  assumes "prefix_first True tr" and "\<not> carries_prefix k"
  shows "prefix_first True (tr @ [k])"
proof -
  from assms(1) obtain xs j ys where "list_all (\<lambda>k. carries_prefix k \<and> \<not> persists_prefix k) xs"
    "tr = xs @ j # ys" "persists_prefix j" "list_all (\<lambda>k. \<not> carries_prefix k) ys"
    by (auto simp: prefix_first_def)
  with assms(2) have "list_all (\<lambda>k. carries_prefix k \<and> \<not> persists_prefix k) xs \<and>
    tr @ [k] = xs @ j # (ys @ [k]) \<and> persists_prefix j \<and> list_all (\<lambda>k. \<not> carries_prefix k) (ys @ [k])" by simp
  then show ?thesis unfolding prefix_first_def by (simp only: if_True) blast
qed

lemma noted_result: "noted call tr r = (w, x) \<longleftrightarrow> w = (fst r, tr @ [call (is_ok x)]) \<and> x = snd r"
  by (auto simp: noted_def)

lemma call_kinds [simp]:
  "carries_prefix (CallLineage b)" "carries_prefix (CallMergePending b)"
  "\<not> carries_prefix (CallChild b)" "\<not> carries_prefix (CallMergeBeside b)" "\<not> carries_prefix (CallActivate d b)"
  "persists_prefix (CallLineage b) = b" "persists_prefix (CallMergePending b) = b"
  by (auto simp: carries_prefix_def persists_prefix_def)

lemmas traced_simps = traced_def traced_coordinator_def merge_pending_def merge_beside_def noted_result

section \<open>What one lane does\<close>

definition outcome_lane :: "lane_outcome \<Rightarrow> string" where
  "outcome_lane lo = (case lo of
     LaneActivated r \<Rightarrow> lr_destination_id r | LaneMerged r \<Rightarrow> lr_destination_id r | LaneFailed f \<Rightarrow> lf_destination_id f)"

definition succeeded :: "lane_outcome \<Rightarrow> bool" where
  "succeeded lo = (case lo of LaneFailed _ \<Rightarrow> False | _ \<Rightarrow> True)"

lemma outcome_simps [simp]:
  "outcome_lane (LaneActivated (lane_activated lin)) = laneOfLineage lin"
  "outcome_lane (LaneMerged (lane_merged lin d)) = laneOfLineage lin"
  "outcome_lane (lane_failed lin did e) = laneOfLineage lin"
  "succeeded (LaneActivated r)" "succeeded (LaneMerged r)" "\<not> succeeded (lane_failed lin did e)"
  by (simp_all add: outcome_lane_def lane_activated_def lane_merged_def lane_failed_def succeeded_def)

lemma merge_lane_outcome:
  "merge_lane c selection p did lin w = (w', p', lo) \<Longrightarrow>
   outcome_lane lo = laneOfLineage lin \<and> (succeeded lo \<longrightarrow> p') \<and> (p \<longrightarrow> p')"
  by (auto simp: merge_lane_def split: prod.splits sum.splits if_splits)

lemma fanout_lane_outcome:
  "fanout_lane c selection lin w p = (w', p', lo) \<Longrightarrow>
   outcome_lane lo = laneOfLineage lin \<and> (succeeded lo \<longrightarrow> p') \<and> (p \<longrightarrow> p')"
  by (auto simp: fanout_lane_def Let_def split: prod.splits sum.splits if_splits dest: merge_lane_outcome)

lemma merge_lane_traced:
  assumes "merge_lane (traced_coordinator c) selection p did lin (w, tr) = ((w', tr'), p', lo)"
    and "prefix_first p tr"
  shows "prefix_first p' tr'"
proof (cases p)
  case True
  obtain v m where m: "merge_beside (traced_coordinator c) (w, tr) lin selection = ((v, tr @ [CallMergeBeside (is_ok m)]), m)"
    by (simp add: traced_simps noted_def)
  have "prefix_first True (tr @ [CallMergeBeside (is_ok m)])"
    using assms(2) True by (intro prefix_first_beside) simp_all
  with assms(1) True show ?thesis by (cases m) (auto simp: merge_lane_def m)
next
  case False
  obtain v m where m: "merge_pending (traced_coordinator c) (w, tr) lin selection = ((v, tr @ [CallMergePending (is_ok m)]), m)"
    by (simp add: traced_simps noted_def)
  show ?thesis
  proof (cases m)
    case (Inl e)
    with assms False m prefix_first_refused [of tr "CallMergePending False"] show ?thesis
      by (auto simp: merge_lane_def)
  next
    case (Inr d)
    with assms False m prefix_first_persisted [of tr "CallMergePending True"] show ?thesis
      by (auto simp: merge_lane_def)
  qed
qed

text \<open>The commit that a lane makes, by whether the prefix is durable.\<close>

lemma commit_traced:
  assumes "(if p then CommitFanoutChild (co_store (traced_coordinator c)) (w, tr) (ln_intent lin)
            else CommitLineage (co_store (traced_coordinator c)) (w, tr) lin) = ((w', tr'), r)"
    and "prefix_first p tr"
  shows "prefix_first (p \<or> is_ok r) tr'"
proof (cases p)
  case True
  then have "tr' = tr @ [CallChild (is_ok r)]" using assms(1) by (auto simp: traced_simps)
  with True assms(2) prefix_first_beside [of tr "CallChild (is_ok r)"] show ?thesis by simp
next
  case False
  then have "tr' = tr @ [CallLineage (is_ok r)]" using assms(1) by (auto simp: traced_simps)
  with False assms(2) prefix_first_persisted [of tr "CallLineage True"] prefix_first_refused [of tr "CallLineage False"]
  show ?thesis by (cases "is_ok r") simp_all
qed

lemma activate_traced:
  assumes "ActivateDispatch (co_store (traced_coordinator c)) (w, tr) did a n = ((w', tr'), r)" and "prefix_first True tr"
  shows "prefix_first True tr'"
proof -
  have "tr' = tr @ [CallActivate did (is_ok r)]" using assms(1) by (auto simp: traced_simps)
  with assms(2) show ?thesis by (auto intro: prefix_first_beside)
qed

lemma fanout_lane_traced:
  assumes lane: "fanout_lane (traced_coordinator c) selection lin (w, tr) p = ((w', tr'), p', lo)"
    and tr: "prefix_first p tr"
  shows "prefix_first p' tr'"
proof -
  let ?c = "traced_coordinator c"
  note unf = lane [unfolded fanout_lane_def Let_def]
  show ?thesis
  proof (cases "LoadLaneState (co_store ?c) (w, tr) (route_of lin) (laneOfLineage lin)")
    case (Inl e)
    with unf tr show ?thesis by simp
  next
    case (Inr snap)
    show ?thesis
    proof (cases "is_ok (CanActivateNormalDispatch snap) \<and>
        GroupSlotFree (co_store ?c) (w, tr) (route_of lin) (laneOfLineage lin) \<noteq> Inr False")
      case False
      with unf Inr have "merge_lane ?c selection p [] lin (w, tr) = ((w', tr'), p', lo)"
        by (auto split: if_splits)
      with tr show ?thesis by (rule merge_lane_traced [rotated])
    next
      case True
      obtain w1 tr1 r where com: "(if p then CommitFanoutChild (co_store ?c) (w, tr) (ln_intent lin)
          else CommitLineage (co_store ?c) (w, tr) lin) = ((w1, tr1), r)" by (metis prod.collapse)
      from commit_traced [OF com tr] have t1: "prefix_first (p \<or> is_ok r) tr1" .
      note unf1 = unf [unfolded com]
      show ?thesis
      proof (cases r)
        case (Inl e)
        with unf1 Inr True t1 merge_lane_traced [of c selection p "[]" lin w1 tr1] show ?thesis
          by (auto split: if_splits)
      next
        case ok: (Inr u)
        obtain w2 tr2 s where act: "ActivateDispatch (co_store ?c) (w1, tr1) (dispatch_of lin) (co_actor ?c) (co_now ?c (w1, tr1))
            = ((w2, tr2), s)" by (metis prod.collapse)
        have t2: "prefix_first True tr2" using activate_traced [OF act] t1 ok by simp
        with unf1 Inr True ok act merge_lane_traced [of c selection True "dispatch_of lin" lin w2 tr2] show ?thesis
          by (cases s) (auto split: if_splits)
      qed
    qed
  qed
qed


section \<open>What the whole fan-out does\<close>

definition outcome_lanes :: "FanoutOutcome \<Rightarrow> string multiset" where
  "outcome_lanes out = mset (map lr_destination_id (oo_activated out)) + mset (map lr_destination_id (oo_merged out)) +
     mset (map lf_destination_id (oo_failed out))"

definition some_success :: "FanoutOutcome \<Rightarrow> bool" where
  "some_success out = (oo_activated out \<noteq> [] \<or> oo_merged out \<noteq> [])"

lemma record_lane_lanes: "outcome_lanes (record_lane lo out) = add_mset (outcome_lane lo) (outcome_lanes out)"
  by (cases lo) (simp_all add: record_lane_def outcome_lanes_def outcome_lane_def)

lemma record_lane_success: "some_success (record_lane lo out) = (some_success out \<or> succeeded lo)"
  by (cases lo) (simp_all add: record_lane_def some_success_def succeeded_def)

lemma record_lane_failed: "oo_failed (record_lane lo out) = [] \<longleftrightarrow> oo_failed out = [] \<and> succeeded lo"
  by (cases lo) (simp_all add: record_lane_def succeeded_def)

lemma fanout_loop_lanes:
  "fanout_loop c selection lins w p out = (w', out') \<Longrightarrow>
   outcome_lanes out' = outcome_lanes out + mset (map laneOfLineage lins)"
proof (induction c selection lins w p out rule: fanout_loop.induct)
  case (2 c selection lin lins w p out)
  obtain w1 p1 lo where l: "fanout_lane c selection lin w p = (w1, p1, lo)" by (metis prod_cases3)
  with 2 fanout_lane_outcome [OF l] show ?case by (simp add: record_lane_lanes)
qed simp

lemma fanout_loop_settled:
  "fanout_loop c selection lins w p out = (w', out') \<Longrightarrow>
   (some_success out \<longrightarrow> some_success out') \<and> (oo_failed out' = [] \<longrightarrow> lins \<noteq> [] \<longrightarrow> some_success out')"
proof (induction c selection lins w p out rule: fanout_loop.induct)
  case (2 c selection lin lins w p out)
  obtain w1 p1 lo where l: "fanout_lane c selection lin w p = (w1, p1, lo)" by (metis prod_cases3)
  have mono: "oo_failed out2 = [] \<Longrightarrow> oo_failed out1 = []"
    if "fanout_loop c selection ls v q out1 = (v', out2)" for ls v q out1 v' out2
    using that
  proof (induction c selection ls v q out1 rule: fanout_loop.induct)
    case (2 c selection lin ls v q out1)
    then show ?case by (auto split: prod.splits simp: record_lane_failed)
  qed simp
  show ?case
  proof (cases lins)
    case Nil
    with 2(2) l show ?thesis by (auto simp: record_lane_success record_lane_failed)
  next
    case (Cons lin' lins')
    with 2 l show ?thesis by (auto simp: record_lane_success)
  qed
qed simp

lemma fanout_loop_traced:
  "fanout_loop (traced_coordinator c) selection lins (w, tr) p out = ((w', tr'), out') \<Longrightarrow> prefix_first p tr \<Longrightarrow>
   (some_success out \<longrightarrow> p) \<Longrightarrow> \<exists>p'. prefix_first p' tr' \<and> (some_success out' \<longrightarrow> p')"
proof (induction "traced_coordinator c" selection lins "(w, tr)" p out arbitrary: w tr rule: fanout_loop.induct)
  case (2 selection lin lins p out w tr)
  obtain w1 tr1 p1 lo where l: "fanout_lane (traced_coordinator c) selection lin (w, tr) p = ((w1, tr1), p1, lo)"
    by (metis prod.collapse)
  have "prefix_first p1 tr1" by (rule fanout_lane_traced [OF l 2(3)])
  moreover have "some_success (record_lane lo out) \<longrightarrow> p1"
    using fanout_lane_outcome [OF l] 2(4) by (auto simp: record_lane_success)
  ultimately show ?case using 2(1) [OF l [symmetric] refl] 2(2) l by simp
qed auto

section \<open>Properties of arrivals\<close>

text \<open>C3: one sibling never blocks another: every selected lane has exactly one outcome, activated,
  merged or failed, in the order-free count, and the call reports an error exactly when no lane
  succeeded (FAN-002, CON-007).\<close>

theorem fanout_accounts_for_every_lane:
  assumes "ArrivalFanout c w lins = (w', out, err)" and "lins \<noteq> []"
  shows "outcome_lanes out = mset (map laneOfLineage lins) \<and> (err = None) = some_success out"
proof -
  obtain v o1 where l: "fanout_loop c (map laneOfLineage lins) lins w False no_outcome = (v, o1)" by (metis prod.collapse)
  with assms have out: "out = o1" by (auto simp: ArrivalFanout_def)
  have "outcome_lanes no_outcome = {#}" by (simp add: outcome_lanes_def no_outcome_def)
  with fanout_loop_lanes [OF l] fanout_loop_settled [OF l] assms l out show ?thesis
    by (auto simp: ArrivalFanout_def some_success_def split: if_splits)
qed

text \<open>C4: the shared observation, batch and decision of an occurrence are persisted at most once and
  before anything else: every call before that is a refused attempt to persist them, no call
  after it carries them again, and no lane succeeds without it (FAN-003).\<close>

theorem shared_prefix_persists_once:
  assumes "ArrivalFanout (traced_coordinator c) (w, []) lins = ((w', tr), out, err)"
  shows "\<exists>persisted. prefix_first persisted tr \<and> (some_success out \<longrightarrow> persisted)"
proof (cases "lins = []")
  case True
  with assms show ?thesis
    using prefix_first_Nil by (auto simp: ArrivalFanout_def some_success_def no_outcome_def)
next
  case False
  obtain v o1 where l: "fanout_loop (traced_coordinator c) (map laneOfLineage lins) lins (w, []) False no_outcome = (v, o1)"
    by (metis prod.collapse)
  with assms False have "v = (w', tr)" "out = o1" by (auto simp: ArrivalFanout_def)
  moreover have "\<not> some_success no_outcome" by (simp add: some_success_def no_outcome_def)
  ultimately show ?thesis using fanout_loop_traced [OF l [unfolded \<open>v = (w', tr)\<close>] prefix_first_Nil] by blast
qed

text \<open>a lane that holds unresolved work, or whose serialization group is taken, never gets a
  second dispatch: the arrival makes one store call, the merge into its dirty generation
  (CON-001, CON-012).\<close>

theorem busy_lane_merges_only:
  assumes "LoadLaneState (co_store c) w (route_of lin) (laneOfLineage lin) = Inr snap"
    and "\<not> is_ok (CanActivateNormalDispatch snap) \<or>
      GroupSlotFree (co_store c) w (route_of lin) (laneOfLineage lin) = Inr False"
    and "Arrival (traced_coordinator c) (w, []) lin = ((w', tr), merged, err)"
  shows "tr = [CallMergePending (err = None)] \<and> merged = (err = None)"
proof -
  let ?c = "traced_coordinator c"
  have s: "LoadLaneState (co_store ?c) (w, []) = LoadLaneState (co_store c) w"
    "GroupSlotFree (co_store ?c) (w, []) = GroupSlotFree (co_store c) w"
    by (simp_all add: traced_simps)
  obtain v m where m: "merge_pending ?c (w, []) lin [laneOfLineage lin] = ((v, [CallMergePending (is_ok m)]), m)"
    by (simp add: traced_simps noted_def)
  have "arrivalOne ?c (w, []) lin = ((v, [CallMergePending (is_ok m)]), bindE m (\<lambda>d. Inr (lane_merged lin d)))"
    using assms(1,2) by (auto simp: arrivalOne_def Let_def s m)
  with assms(3) show ?thesis by (cases m) (auto simp: Arrival_def lane_merged_def)
qed


section \<open>Concrete arrivals\<close>

definition sample_lineage :: "string \<Rightarrow> string \<Rightarrow> Lineage" where
  "sample_lineage lane did =
     \<lparr>ln_observation = \<lparr>ob_observation_id = ''o'', ob_schema_version = [], ob_source_type = [], ob_source_id = [],
        ob_source_event_key = [], ob_trigger_name = [], ob_resource_id = ''vault'', ob_observed_at = [], ob_received_at = [],
        ob_raw_payload_digest = [], ob_ingest_status = [], ob_flags_json = [], ob_position_json = [], ob_changes = [],
        ob_import_attributions = []\<rparr>,
      ln_batch = \<lparr>ba_batch_id = ''b'', ba_route_id = ''r'', ba_route_revision = ''rev'', ba_resource_id = ''vault'',
        ba_created_at = [], ba_content_fingerprint = [], ba_observation_ids = [''o''], ba_selected_destinations = []\<rparr>,
      ln_decision = \<lparr>de_decision_id = ''x'', de_batch_id = ''b'', de_route_id = ''r'', de_route_revision = ''rev'',
        de_policy_revision = [], de_disposition = ''dispatch'', de_classification = ''normal'', de_reason_codes_json = [],
        de_created_at = [], de_actor = [], de_generation_lineage_json = []\<rparr>,
      ln_intent = \<lparr>in_target_scope = [], in_dispatch_id = did, in_decision_id = ''x'', in_route_id = ''r'',
        in_route_revision = ''rev'', in_target_id = ''t'', in_target_type = [], in_resource_id = ''vault'', in_generation = 1,
        in_idempotency_key = did, in_content_fingerprint = [], in_manifest_digest = [], in_request_version = [],
        in_request_json = [], in_created_at = [],
        in_fanout = Some (SingleLaneFanout ''agg'' OriginArrival \<lparr>td_id = lane, td_revision = ''dst-1'', td_workstream = ''w''\<rparr>
          ''unconditional'' [])\<rparr>\<rparr>"

text \<open>A store that counts its commits: the lane \<open>busy\<close> has an active task, and the dispatches of
  \<open>stuck\<close> cannot be activated.\<close>

definition sample_store :: "string list \<Rightarrow> nat CoordinatorStore" where
  "sample_store stuck = \<lparr>
     LoadRouteState = (\<lambda>w r. Inr (enabled_snap RouteIdle)),
     LoadLaneState = (\<lambda>w r d. Inr (enabled_snap (if d = ''busy'' then RouteActiveClean else RouteIdle))),
     GroupSlotFree = (\<lambda>w r d. Inr True),
     CommitLineage = (\<lambda>w lin. (w + 1, Inr ())),
     CommitFanoutChild = (\<lambda>w i. (w + 1, Inr ())),
     CommitMergePending = (\<lambda>w lin m s a n. (w + 1, Inr 1)),
     MergeSelectedLanes = (\<lambda>w r b m s a n. (w + 1, Inr 1)),
     ActivateDispatch = (\<lambda>w did a n. (w, if did \<in> set stuck then Inl \<lparr>se_class = OtherFailure, se_text = ''io''\<rparr> else Inr ())),
     ActivateFollowup = (\<lambda>w did a n. (w, Inr ())),
     CompleteActive = (\<lambda>w req. (w, Inr \<lparr>fu_route_to = RouteIdle, fu_followup_dispatch_id = [], fu_dirty_generation = 0\<rparr>))\<rparr>"

definition sample_coordinator :: "string list \<Rightarrow> nat Coordinator" where
  "sample_coordinator stuck = \<lparr>co_store = sample_store stuck, co_now = (\<lambda>w. ''now''), co_actor = ''cli''\<rparr>"

definition sample_arrivals :: "Lineage list" where
  "sample_arrivals = [sample_lineage ''stuck'' ''one'', sample_lineage ''busy'' ''two'', sample_lineage ''idle'' ''three'']"

definition sample_fanout :: "(nat \<times> store_call list) \<times> FanoutOutcome \<times> store_error option" where
  "sample_fanout = ArrivalFanout (traced_coordinator (sample_coordinator [''one''])) (0, []) sample_arrivals"

lemma sample_fanout_calls:
  "snd (fst sample_fanout) = [CallLineage True, CallActivate ''one'' False, CallMergeBeside True, CallChild True, CallActivate ''three'' True]"
  by code_simp

lemma sample_fanout_outcome:
  "map lr_destination_id (oo_activated (fst (snd sample_fanout))) = [''idle''] \<and>
   map lr_destination_id (oo_merged (fst (snd sample_fanout))) = [''busy''] \<and>
   map lf_destination_id (oo_failed (fst (snd sample_fanout))) = [''stuck''] \<and> snd (snd sample_fanout) = None"
  by code_simp

theorem fanout_accounts_for_every_lane_witness:
  "outcome_lanes (fst (snd sample_fanout)) = {#''stuck'', ''busy'', ''idle''#} \<and> some_success (fst (snd sample_fanout))"
proof -
  obtain w out err where s: "sample_fanout = (w, out, err)" by (metis prod_cases3)
  have "map laneOfLineage sample_arrivals = [''stuck'', ''busy'', ''idle'']" by code_simp
  moreover have "err = None" using sample_fanout_outcome unfolding s by simp
  moreover have "sample_arrivals \<noteq> []" by (simp add: sample_arrivals_def)
  ultimately show ?thesis using fanout_accounts_for_every_lane [OF s [unfolded sample_fanout_def]] by (simp add: s)
qed

theorem shared_prefix_persists_once_witness:
  "\<exists>persisted. prefix_first persisted (snd (fst sample_fanout)) \<and> persisted"
proof -
  obtain w tr out err where s: "sample_fanout = ((w, tr), out, err)" by (metis prod.collapse)
  have "some_success out" using sample_fanout_outcome unfolding s by (auto simp: some_success_def)
  with shared_prefix_persists_once [OF s [unfolded sample_fanout_def]] show ?thesis by (simp add: s)
qed

theorem busy_lane_merges_only_witness:
  "Arrival (traced_coordinator (sample_coordinator [])) (0, []) (sample_lineage ''busy'' ''two'') =
     ((1, [CallMergePending True]), True, None) \<and> CallMergePending True = CallMergePending (None = (None :: store_error option))"
proof -
  have a: "Arrival (traced_coordinator (sample_coordinator [])) (0, []) (sample_lineage ''busy'' ''two'') =
     ((1, [CallMergePending True]), True, None)" by code_simp
  have l: "LoadLaneState (co_store (sample_coordinator [])) 0 (route_of (sample_lineage ''busy'' ''two''))
      (laneOfLineage (sample_lineage ''busy'' ''two'')) = Inr (enabled_snap RouteActiveClean)" by code_simp
  have n: "\<not> is_ok (CanActivateNormalDispatch (enabled_snap RouteActiveClean))" by code_simp
  from busy_lane_merges_only [OF l disjI1 [OF n] a] a show ?thesis by simp
qed

text \<open>a fan-out whose every lane failed is reported as an error with the comment that the
  occurrence did not happen, yet it can leave a committed lineage and a reserved dispatch behind:
  the child is durable when only its activation failed.\<close>

theorem failed_fanout_can_be_durable:
  "\<exists>c lins w tr out e f. ArrivalFanout (traced_coordinator (c :: nat Coordinator)) (0, []) lins = ((w, tr), out, Some e) \<and>
     CallLineage True \<in> set tr \<and> oo_activated out = [] \<and> oo_merged out = [] \<and> oo_failed out = [f] \<and> lf_dispatch_id f \<noteq> []"
proof -
  let ?r = "ArrivalFanout (traced_coordinator (sample_coordinator [''one''])) (0, []) [sample_lineage ''stuck'' ''one'']"
  have "snd (fst ?r) = [CallLineage True, CallActivate ''one'' False] \<and> oo_activated (fst (snd ?r)) = [] \<and>
    oo_merged (fst (snd ?r)) = [] \<and> map lf_dispatch_id (oo_failed (fst (snd ?r))) = [''one''] \<and> snd (snd ?r) \<noteq> None" by code_simp
  then show ?thesis
    by (intro exI [of _ "sample_coordinator [''one'']"] exI [of _ "[sample_lineage ''stuck'' ''one'']"]) (cases ?r, auto)
qed


section \<open>Follow-ups\<close>

text \<open>The parts of a built follow-up.\<close>

lemma BuildFollowupRequest_parts:
  assumes "BuildFollowupRequest decode newids original cs flags resolver = Inr i"
  obtains req lane proj did agg fp r k where
    "decode (is_request_json original) = Inr req"
    and "ResolveDestinationLane (is_route_id original) (tq_destination req) (snapshot_lane original) resolver = Inr (lane, proj)"
    and "BuildRequest (followup_input original req lane did fp cs flags) = Inr (r, k)"
    and "in_generation i = is_generation original + 1" and "in_idempotency_key i = k"
    and "in_request_json i = MarshalRequest r" and "in_manifest_digest i = ManifestDigest cs"
    and "in_fanout i = Some (SingleLaneFanout agg OriginFollowup lane (''followup:'' @ is_dispatch_id original) (live_revision lane proj))"
  using assms unfolding BuildFollowupRequest_def by (auto simp: result_simps split: prod.splits)

text \<open>a follow-up continues its parent's lane: it lies one generation later, on the destination of
  the stored request, and its stored text is a complete request over the delivered manifest.\<close>

theorem followup_continues_the_lane:
  assumes "BuildFollowupRequest decode newids original cs flags resolver = Inr i"
    and "decode (is_request_json original) = Inr req" and "tq_destination req = Some d"
  shows "in_generation i = is_generation original + 1 \<and> in_manifest_digest i = ManifestDigest cs \<and>
    (\<exists>f. in_fanout i = Some f \<and> fo_destination_id f = td_id d \<and> fo_destination_revision f = td_revision d \<and>
       fo_workstream f = td_workstream d \<and> fo_revisions f = []) \<and>
    (\<exists>r. in_request_json i = MarshalRequest r \<and> tq_idempotency_key r = in_idempotency_key i \<and>
       tq_destination r = Some d \<and> tq_route r = tq_route req \<and> tn_manifest (tq_activation r) = manifest cs \<and>
       tn_generation (tq_activation r) = is_generation original + 1)"
  using assms(1)
proof (rule BuildFollowupRequest_parts)
  fix q lane proj did agg fp r k
  assume q: "decode (is_request_json original) = Inr q"
    and l: "ResolveDestinationLane (is_route_id original) (tq_destination q) (snapshot_lane original) resolver = Inr (lane, proj)"
    and b: "BuildRequest (followup_input original q lane did fp cs flags) = Inr (r, k)"
    and i: "in_generation i = is_generation original + 1" "in_idempotency_key i = k"
      "in_request_json i = MarshalRequest r" "in_manifest_digest i = ManifestDigest cs"
      "in_fanout i = Some (SingleLaneFanout agg OriginFollowup lane (''followup:'' @ is_dispatch_id original) (live_revision lane proj))"
  from q assms(2) have [simp]: "q = req" by simp
  from l assms(3) have [simp]: "lane = d" "proj = []" by (simp_all add: ResolveDestinationLane_def)
  from b have "r = request_of (followup_input original req d did fp cs flags) k" by (simp add: BuildRequest_Inr_iff)
  then have "tq_idempotency_key r = k \<and> tq_destination r = Some d \<and> tq_route r = tq_route req \<and>
      tn_manifest (tq_activation r) = manifest cs \<and> tn_generation (tq_activation r) = is_generation original + 1"
    by (simp add: request_of_def followup_input_def)
  with i show ?thesis by (auto simp: SingleLaneFanout_def live_revision_def)
qed

text \<open>a follow-up never reuses its parent's idempotency key: the two keys are hashes of different
  texts, because the generations differ.\<close>

theorem followup_key_is_fresh:
  assumes "BuildFollowupRequest decode newids original cs flags resolver = Inr i"
    and "BuildRequest p = Inr (r, k)" and "is_generation original = ri_generation p"
  shows "\<exists>t u. t \<noteq> u \<and> in_idempotency_key i = child_key_prefix @ sha256_hex t \<and> k = child_key_prefix @ sha256_hex u"
  using assms(1)
proof (rule BuildFollowupRequest_parts)
  fix q lane proj did agg fp r' k'
  assume b: "BuildRequest (followup_input original q lane did fp cs flags) = Inr (r', k')" and k: "in_idempotency_key i = k'"
  let ?q = "followup_input original q lane did fp cs flags"
  from b assms(2) have c: "ChildIdempotency (key_input ?q) = Inr k'" "ChildIdempotency (key_input p) = Inr k"
    by (simp_all add: BuildRequest_Inr_iff)
  have "key_input ?q \<noteq> key_input p"
    using assms(3) by (auto simp: key_input_def followup_input_def)
  then have "child_text (key_input ?q) \<noteq> child_text (key_input p)"
    by (simp add: child_text_eq_iff [OF c])
  with c k show ?thesis by (auto simp: ChildIdempotency_Inr_iff)
qed

definition stored_snapshot :: "int \<Rightarrow> IntentSnapshot" where
  "stored_snapshot g =
     \<lparr>is_dispatch_id = ''one'', is_route_id = ''r'', is_route_revision = ''rev'', is_request_version = [], is_target_id = ''t'',
      is_target_scope = [], is_target_type = [], is_resource_id = ''vault'', is_generation = g, is_idempotency_key = [],
      is_state = ''accepted'', is_request_json = ''{}'', is_manifest_digest = [], is_external_ref = [], is_lease_owner = [],
      is_lease_expires_at = [], is_attempt_count = 1, is_next_attempt_at = [], is_created_at = [], is_updated_at = [],
      is_aggregate_id = [], is_destination_id = ''d'', is_destination_revision = ''dst-1'', is_workstream = ''w''\<rparr>"

definition stored_request :: TaskRequest where
  "stored_request = request_of (sample_request_input ''one'') ''key''"

definition sample_decode :: "string \<Rightarrow> string + TaskRequest" where
  "sample_decode t = (if t = ''{}'' then Inr stored_request else Inl ''unexpected end of JSON input'')"

lemma sample_followup:
  "\<exists>i. BuildFollowupRequest sample_decode (Inr ''two'', Inr ''agg'') (stored_snapshot 1) [] [] None = Inr i"
proof -
  let ?c = "\<lparr>fi_changes = followupFingerprintChanges [], fi_resource_id = tc_id (tq_resource stored_request), fi_fresh = False,
    fi_has_relative = False, fi_overflow = False, fi_relative_root = []\<rparr>"
  have "validateContentInput ?c = Inr ()" by code_simp
  then obtain fp where fp: "Content ?c = Inr fp" "fp = SumDigest (content_text ?c)"
    by (simp add: Content_Inr_iff)
  let ?d = "\<lparr>td_id = ''d'', td_revision = ''dst-1'', td_workstream = ''w''\<rparr>"
  let ?q = "followup_input (stored_snapshot 1) stored_request ?d ''two'' fp [] []"
  have "is_ok (ParseDigest fp)" unfolding fp(2) by (simp add: ParseDigest_SumDigest)
  moreover have "workspaceBindingForm (tc_workspace (ri_resource ?q))" by code_simp
  moreover have "valid_utf8 TaskRequestContractVersion" "TaskRequestContractVersion \<noteq> []"
    by (simp_all add: TaskRequestContractVersion_def byte_def)
  ultimately have "\<exists>k. BuildRequest ?q = Inr (request_of ?q k, k)"
    by (simp add: BuildRequest_Inr_iff ChildIdempotency_Inr_iff key_input_def followup_input_def stored_snapshot_def
        stored_request_def request_of_def sample_request_input_def byte_def)
  then show ?thesis using fp(1)
    by (auto simp: BuildFollowupRequest_def sample_decode_def stored_snapshot_def ResolveDestinationLane_def
        stored_request_def request_of_def sample_request_input_def)
qed

theorem followup_continues_the_lane_witness:
  "\<exists>i. BuildFollowupRequest sample_decode (Inr ''two'', Inr ''agg'') (stored_snapshot 1) [] [] None = Inr i \<and>
     in_generation i = 2 \<and> (\<exists>f. in_fanout i = Some f \<and> fo_destination_id f = ''d'')"
proof -
  obtain i where i: "BuildFollowupRequest sample_decode (Inr ''two'', Inr ''agg'') (stored_snapshot 1) [] [] None = Inr i"
    using sample_followup by blast
  have d: "sample_decode (is_request_json (stored_snapshot 1)) = Inr stored_request"
    by (simp add: sample_decode_def stored_snapshot_def)
  have t: "tq_destination stored_request = Some \<lparr>td_id = ''d'', td_revision = ''dst-1'', td_workstream = ''w''\<rparr>"
    by (simp add: stored_request_def request_of_def sample_request_input_def)
  from followup_continues_the_lane [OF i d t]
  have "in_generation i = is_generation (stored_snapshot 1) + 1 \<and> (\<exists>f. in_fanout i = Some f \<and> fo_destination_id f = ''d'')"
    by auto
  with i show ?thesis by (auto simp: stored_snapshot_def)
qed

theorem followup_key_is_fresh_witness:
  "\<exists>i k t u. BuildFollowupRequest sample_decode (Inr ''two'', Inr ''agg'') (stored_snapshot 1) [] [] None = Inr i \<and>
     t \<noteq> u \<and> in_idempotency_key i = child_key_prefix @ sha256_hex t \<and> k = child_key_prefix @ sha256_hex u"
proof -
  obtain i where i: "BuildFollowupRequest sample_decode (Inr ''two'', Inr ''agg'') (stored_snapshot 1) [] [] None = Inr i"
    using sample_followup by blast
  obtain k where "BuildRequest (sample_request_input ''one'') = Inr (request_of (sample_request_input ''one'') k, k)"
    using sample_request_built by blast
  moreover have "is_generation (stored_snapshot 1) = ri_generation (sample_request_input ''one'')"
    by (simp add: stored_snapshot_def sample_request_input_def)
  ultimately show ?thesis using followup_key_is_fresh [OF i] i by metis
qed

section \<open>Reconciliation siblings\<close>

definition one_verdict :: "ReconcileLaneCommit \<Rightarrow> bool" where
  "one_verdict k = (length (filter (\<lambda>b. b) [rk_committed k, rk_note k \<noteq> [], rk_err k \<noteq> None]) = 1)"

lemma commit_sibling_verdict:
  "commit_sibling commit v s = (v', k) \<Longrightarrow>
   rk_dispatch_id k = in_dispatch_id s \<and> one_verdict k"
  by (auto simp: one_verdict_def commit_sibling_def Let_def note_slot_held_def note_duplicate_def
      split: option.splits prod.splits sum.splits if_splits)

text \<open>no sibling's failure stops the reconciliation loop: every sibling is attempted, in order,
  and has exactly one verdict, committed, skipped with a note, or failed; the journal reports a
  failure exactly when some sibling failed.\<close>

theorem every_sibling_has_a_verdict:
  assumes "CommitReconcileSiblings commit w ss = (w', ks)"
  shows "map rk_dispatch_id ks = map in_dispatch_id ss \<and>
    list_all one_verdict ks \<and>
    (Journal_Failure ks = None) = list_all (\<lambda>k. rk_err k = None) ks"
proof -
  have "map rk_dispatch_id ks = map in_dispatch_id ss \<and>
    list_all one_verdict ks"
    using assms
  proof (induction commit w ss arbitrary: ks w' rule: CommitReconcileSiblings.induct)
    case (2 commit w s ss ks w')
    obtain w1 k where k: "commit_sibling commit w s = (w1, k)" by (metis prod.collapse)
    obtain w2 ks' where r: "CommitReconcileSiblings commit w1 ss = (w2, ks')" by (metis prod.collapse)
    from 2(2) k r have "ks = k # ks'" by simp
    with 2(1) [OF k [symmetric] r] commit_sibling_verdict [OF k] show ?case by simp
  qed simp
  moreover have "(Journal_Failure ks = None) = list_all (\<lambda>k. rk_err k = None) ks"
    by (auto simp: Journal_Failure_def find_None_iff list_all_iff)
  ultimately show ?thesis by blast
qed

theorem every_sibling_has_a_verdict_witness:
  "map rk_dispatch_id (snd (CommitReconcileSiblings (\<lambda>w i. (w + 1, if w = (0::nat) then Inl \<lparr>se_class = GroupSlotHeld, se_text = []\<rparr> else Inr ()))
     0 (map ln_intent sample_arrivals))) = [''one'', ''two'', ''three'']"
proof -
  let ?f = "\<lambda>w i. (w + 1, if w = (0::nat) then Inl \<lparr>se_class = GroupSlotHeld, se_text = []\<rparr> else Inr ())"
  obtain w' ks where k: "CommitReconcileSiblings ?f 0 (map ln_intent sample_arrivals) = (w', ks)" by (rule prod.exhaust)
  have "map in_dispatch_id (map ln_intent sample_arrivals) = [''one'', ''two'', ''three'']"
    by (simp add: sample_arrivals_def sample_lineage_def)
  with every_sibling_has_a_verdict [OF k] show ?thesis unfolding k by simp
qed

end
