(* ===== verification/GoTime.thy ===== *)
theory GoTime
  imports GoText
begin

text \<open>
  The canonical timestamps (\<open>ids.CanonicalTimestamp\<close>, \<open>dispatch.Timestamp\<close>): package
  \<open>time\<close>'s UTC calendar and its RFC 3339 layout at second precision. A time is its number
  of nanoseconds since the Unix epoch. Days are counted from 1 January of the year 0, and the
  calendar repeats every 400 years of 146097 days; \<open>peel\<close> takes off whole years and
  months. The lemmas show that the decomposition is a mixed-radix numeral, so the text sorts
  as the time does.
\<close>

section \<open>Mixed-radix decomposition\<close>

text \<open>\<open>peel ls k n\<close> peels the lengths \<open>ls\<close> off \<open>n\<close>: the number of whole pieces and the rest.\<close>

fun peel :: "int list \<Rightarrow> int \<Rightarrow> int \<Rightarrow> int \<times> int" where
  "peel [] k n = (k, n)"
| "peel (l # ls) k n = (if n < l then (k, n) else peel ls (k + 1) (n - l))"

text \<open>A later day lies in the same piece with a greater rest, or in a later piece.\<close>

lemma peel_ge: "peel ls k n = (j, r) \<Longrightarrow> k \<le> j"
  by (induction ls k n rule: peel.induct) (auto split: if_splits)

lemma peel_mono:
  assumes "m < n" and "peel ls k m = (i, r)" and "peel ls k n = (j, s)"
  shows "i < j \<or> i = j \<and> r < s"
  using assms
proof (induction ls k m arbitrary: n rule: peel.induct)
  case (2 l ls k m)
  show ?case
  proof (cases "m < l")
    case True
    show ?thesis
    proof (cases "n < l")
      case False
      with 2(4) have "peel ls (k + 1) (n - l) = (j, s)" by simp
      from peel_ge [OF this] True 2(3) show ?thesis by simp
    qed (use True 2 in auto)
  next
    case False
    with 2(2) have "m - l < n - l" "\<not> n < l" by simp_all
    with 2(1) [OF False this(1)] 2(3,4) False show ?thesis by simp
  qed
qed auto

lemma peel_bounds:
  "0 \<le> n \<Longrightarrow> n < sum_list ls \<Longrightarrow> peel ls k n = (j, r) \<Longrightarrow>
   k \<le> j \<and> j < k + int (length ls) \<and> 0 \<le> r \<and> r < ls ! nat (j - k)"
proof (induction ls k n rule: peel.induct)
  case (2 l ls k n)
  show ?case
  proof (cases "n < l")
    case False
    with 2 have "k + 1 \<le> j \<and> j < k + 1 + int (length ls) \<and> 0 \<le> r \<and> r < ls ! nat (j - (k + 1))" by simp
    moreover from this have "nat (j - k) = Suc (nat (j - (k + 1)))" by arith
    ultimately show ?thesis by simp
  qed (use 2 in auto)
qed simp

section \<open>The calendar\<close>

definition leap :: "int \<Rightarrow> bool" where
  "leap y = (y mod 4 = 0 \<and> (y mod 100 \<noteq> 0 \<or> y mod 400 = 0))"

definition year_days :: "int list" where
  "year_days = map (\<lambda>y. if leap y then 366 else 365) [0..399]"

definition month_days :: "int \<Rightarrow> int list" where
  "month_days y = [31, if leap y then 29 else 28, 31, 30, 31, 30, 31, 31, 30, 31, 30, 31]"

text \<open>Days from 1 January of the year 0 to the epoch, and per 400 years.\<close>

definition epoch_days :: int where
  "epoch_days = 719528"

definition cycle_days :: int where
  "cycle_days = 146097"

text \<open>Year, month and day of a day number since the epoch.\<close>

definition civil :: "int \<Rightarrow> int \<times> int \<times> int" where
  "civil day =
     (let n = day + epoch_days; (y, doy) = peel year_days 0 (n mod cycle_days);
          (m, d) = peel (month_days y) 1 doy
      in (400 * (n div cycle_days) + y, m, d + 1))"

lemma sum_year_days: "sum_list year_days = cycle_days"
  by code_simp

lemma length_year_days: "length year_days = 400"
  by code_simp

lemma sum_month_days: "sum_list (month_days y) = (if leap y then 366 else 365)"
  by (simp add: month_days_def)

lemma year_days_nth: "0 \<le> y \<Longrightarrow> y < 400 \<Longrightarrow> year_days ! nat y = sum_list (month_days y)"
  unfolding year_days_def sum_month_days by (subst nth_map) (simp_all add: nth_upto)

lemma civil_bounds:
  assumes "civil day = (y, m, d)"
  shows "1 \<le> m \<and> m \<le> 12 \<and> 1 \<le> d \<and> d \<le> 31"
proof -
  let ?n = "(day + epoch_days) mod cycle_days"
  obtain y0 doy where y0: "peel year_days 0 ?n = (y0, doy)" by (rule prod.exhaust)
  obtain m0 d0 where m0: "peel (month_days y0) 1 doy = (m0, d0)" by (rule prod.exhaust)
  have n: "0 \<le> ?n" "?n < sum_list year_days" unfolding sum_year_days by (simp_all add: cycle_days_def)
  from peel_bounds [OF n y0] have y: "0 \<le> y0" "y0 < 400" "0 \<le> doy" "doy < sum_list (month_days y0)"
    by (auto simp: length_year_days year_days_nth)
  from peel_bounds [OF y(3,4) m0] have "1 \<le> m0" "m0 \<le> 12" "0 \<le> d0" "d0 < month_days y0 ! nat (m0 - 1)"
    by (simp_all add: month_days_def)
  moreover have "month_days y0 ! nat (m0 - 1) \<le> 31"
  proof -
    have "list_all (\<lambda>x. x \<le> 31) (month_days y0)" by (simp add: month_days_def)
    moreover have "nat (m0 - 1) < length (month_days y0)" using \<open>m0 \<le> 12\<close> \<open>1 \<le> m0\<close> by (simp add: month_days_def)
    ultimately show ?thesis by (simp add: list_all_length)
  qed
  ultimately show ?thesis using assms y0 m0 by (simp add: civil_def Let_def)
qed

lemma civil_mono:
  assumes "a < b" and "civil a = (y, m, d)" and "civil b = (z, k, e)"
  shows "y < z \<or> y = z \<and> (m < k \<or> m = k \<and> d < e)"
proof -
  let ?a = "a + epoch_days" and ?b = "b + epoch_days"
  obtain y0 doy where y0: "peel year_days 0 (?a mod cycle_days) = (y0, doy)" by (rule prod.exhaust)
  obtain z0 eoy where z0: "peel year_days 0 (?b mod cycle_days) = (z0, eoy)" by (rule prod.exhaust)
  obtain m0 d0 where m0: "peel (month_days y0) 1 doy = (m0, d0)" by (rule prod.exhaust)
  obtain k0 e0 where k0: "peel (month_days z0) 1 eoy = (k0, e0)" by (rule prod.exhaust)
  have n: "0 \<le> x mod cycle_days" "x mod cycle_days < sum_list year_days" for x
    unfolding sum_year_days by (simp_all add: cycle_days_def)
  have yz: "0 \<le> y0" "y0 < 400" "0 \<le> z0" "z0 < 400"
    using peel_bounds [OF n y0] peel_bounds [OF n z0] by (simp_all add: length_year_days)
  have eq: "y = 400 * (?a div cycle_days) + y0" "m = m0" "d = d0 + 1" "z = 400 * (?b div cycle_days) + z0" "k = k0" "e = e0 + 1"
    using assms(2,3) y0 z0 m0 k0 by (simp_all add: civil_def Let_def)
  have c: "?a div cycle_days \<le> ?b div cycle_days"
    using assms(1) by (simp add: zdiv_mono1 cycle_days_def)
  show ?thesis
  proof (cases "?a div cycle_days = ?b div cycle_days")
    case True
    then have "?a mod cycle_days < ?b mod cycle_days"
      using assms(1) by (metis add_less_cancel_right div_mult_mod_eq add_less_cancel_left)
    from peel_mono [OF this y0 z0] consider "y0 < z0" | "y0 = z0" "doy < eoy" by blast
    then show ?thesis
    proof cases
      case 2
      from peel_mono [OF 2(2) m0 k0 [folded 2(1)]] 2 True show ?thesis by (auto simp: eq)
    qed (use True in \<open>simp add: eq\<close>)
  next
    case False
    with c have "?a div cycle_days + 1 \<le> ?b div cycle_days" by linarith
    then have "400 * (?a div cycle_days) + 400 \<le> 400 * (?b div cycle_days)" by linarith
    with yz show ?thesis by (simp add: eq)
  qed
qed

section \<open>The text\<close>

fun digits :: "nat \<Rightarrow> int \<Rightarrow> string" where
  "digits 0 n = []"
| "digits (Suc w) n = digits w (n div 10) @ [digit (nat (n mod 10))]"

text \<open>\<open>t.UTC().Truncate(time.Second).Format(time.RFC3339)\<close>, for the years 0 to 9999 the layout has
  four digits for.\<close>

definition second_of :: "int \<Rightarrow> int" where
  "second_of t = t div 10 ^ 9"

definition CanonicalTimestamp :: "int \<Rightarrow> string" where
  "CanonicalTimestamp t =
     (let s = second_of t; (y, m, d) = civil (s div 86400); r = s mod 86400
      in digits 4 y @ ''-'' @ digits 2 m @ ''-'' @ digits 2 d @ ''T'' @ digits 2 (r div 3600) @ '':''
         @ digits 2 (r div 60 mod 60) @ '':'' @ digits 2 (r mod 60) @ ''Z'')"

lemma length_digits [simp]: "length (digits w n) = w"
  by (induction w arbitrary: n) simp_all


lemma digits_Suc: "digits (Suc w) n = digit (nat (n div 10 ^ w mod 10)) # digits w (n mod 10 ^ w)"
proof (induction w arbitrary: n)
  case (Suc w)
  have "digits (Suc (Suc w)) n = digits (Suc w) (n div 10) @ [digit (nat (n mod 10))]" by simp
  also have "\<dots> = digit (nat (n div 10 div 10 ^ w mod 10)) # digits w (n div 10 mod 10 ^ w) @ [digit (nat (n mod 10))]"
    unfolding Suc.IH by simp
  also have "n div 10 div 10 ^ w = n div 10 ^ Suc w" by (simp add: zdiv_zmult2_eq)
  also have "n div 10 mod 10 ^ w = n mod 10 ^ Suc w div 10" by (simp add: zmod_zmult2_eq)
  also have "n mod 10 = n mod 10 ^ Suc w mod 10" by (simp add: mod_mod_cancel)
  finally show ?case by simp
qed simp

lemma digit_mono: "i < j \<Longrightarrow> j < 10 \<Longrightarrow> digit i < digit j"
  by (auto simp: digit_def less_char_def)

lemma digits_mono: "0 \<le> m \<Longrightarrow> m < n \<Longrightarrow> n < 10 ^ w \<Longrightarrow> digits w m < digits w n"
proof (induction w arbitrary: m n)
  case (Suc w)
  let ?p = "10 ^ w :: int"
  have "n div ?p * ?p \<le> n" by (simp add: minus_mod_eq_div_mult [symmetric])
  also have "\<dots> < 10 * ?p" using Suc.prems(3) by simp
  finally have "n div ?p < 10" by (rule mult_right_less_imp_less) simp
  with Suc.prems have q: "0 \<le> m div ?p" "m div ?p \<le> n div ?p" "n div ?p < 10"
    by (simp_all add: pos_imp_zdiv_nonneg_iff zdiv_mono1)
  show ?case
  proof (cases "m div ?p = n div ?p")
    case True
    then have "m mod ?p < n mod ?p" using Suc.prems(2)
      by (metis add_less_cancel_left mult_div_mod_eq)
    with Suc.IH [of "m mod ?p" "n mod ?p"] True show ?thesis unfolding digits_Suc by simp
  next
    case False
    with q have "nat (m div ?p mod 10) < nat (n div ?p mod 10)" "nat (n div ?p mod 10) < 10" by simp_all
    then show ?thesis unfolding digits_Suc by (simp add: digit_mono)
  qed
qed simp

lemma digits_append_mono: "0 \<le> m \<Longrightarrow> m < n \<Longrightarrow> n < 10 ^ w \<Longrightarrow> digits w m @ x < digits w n @ y"
  by (rule list_less_append) (simp_all add: digits_mono)

text \<open>The first and the last second whose year has four digits.\<close>

definition first_second :: int where
  "first_second = -62167219200"

definition last_second :: int where
  "last_second = 253402300799"

definition four_digit_year :: "int \<Rightarrow> bool" where
  "four_digit_year t = (first_second \<le> second_of t \<and> second_of t \<le> last_second)"

lemma civil_first: "civil (first_second div 86400) = (0, 1, 1)"
  by code_simp

lemma civil_last: "civil (last_second div 86400) = (9999, 12, 31)"
  by code_simp

lemma civil_year:
  assumes "four_digit_year t" and c: "civil (second_of t div 86400) = (y, m, d)"
  shows "0 \<le> y \<and> y \<le> 9999"
proof -
  from assms(1) have "first_second div 86400 \<le> second_of t div 86400"
    "second_of t div 86400 \<le> last_second div 86400"
    unfolding four_digit_year_def by (simp_all add: zdiv_mono1)
  with civil_mono [OF _ civil_first c] civil_mono [OF _ c civil_last] c civil_first civil_last
  show ?thesis by (cases "first_second div 86400 = second_of t div 86400";
      cases "second_of t div 86400 = last_second div 86400") auto
qed

definition clock_text :: "int \<Rightarrow> string" where
  "clock_text r = digits 2 (r div 3600) @ '':'' @ digits 2 (r div 60 mod 60) @ '':'' @ digits 2 (r mod 60) @ ''Z''"

lemma CanonicalTimestamp_parts:
  "civil (second_of t div 86400) = (y, m, d) \<Longrightarrow>
   CanonicalTimestamp t = digits 4 y @ ''-'' @ digits 2 m @ ''-'' @ digits 2 d @ ''T'' @ clock_text (second_of t mod 86400)"
  by (simp add: CanonicalTimestamp_def clock_text_def Let_def)

lemma div_mod_less: "m < n \<Longrightarrow> 0 < k \<Longrightarrow> m div k < n div k \<or> m div k = n div k \<and> m mod k < n mod (k :: int)"
  using zdiv_mono1 [of m n k] by (metis add_less_cancel_left mult_div_mod_eq order_le_less order_less_imp_le)

lemma clock_text_mono:
  assumes "0 \<le> r" "r < s" "s < 86400"
  shows "clock_text r < clock_text s"
proof -
  have d: "s div 3600 < 10 ^ 2" using zdiv_mono1 [of s 86399 3600] assms by simp
  have sixty: "0 \<le> x mod 60" "x mod 60 < 10 ^ 2" for x :: int
    using pos_mod_bound [of 60 x] by simp_all
  have hour: "x div 60 div 60 = x div 3600" for x :: int by (simp add: zdiv_zmult2_eq [symmetric])
  have minutes: "r div 60 < s div 60 \<or> r div 60 = s div 60 \<and> r mod 60 < s mod 60"
    by (rule div_mod_less [OF assms(2)]) simp
  have hours: "r div 3600 < s div 3600 \<or> r div 3600 = s div 3600 \<and> r div 60 mod 60 < s div 60 mod 60" if "r div 60 < s div 60"
    by (rule div_mod_less [OF that, of 60, unfolded hour]) simp
  have same: "r div 3600 = s div 3600 \<and> r div 60 mod 60 = s div 60 mod 60" if "r div 60 = s div 60"
    unfolding hour [symmetric] that by simp
  consider "r div 3600 < s div 3600" | "r div 3600 = s div 3600" "r div 60 mod 60 < s div 60 mod 60"
    | "r div 3600 = s div 3600" "r div 60 mod 60 = s div 60 mod 60" "r mod 60 < s mod 60"
    using minutes hours same by blast
  then show ?thesis
  proof cases
    case 1
    have "0 \<le> r div 3600" using assms(1) by (simp add: pos_imp_zdiv_nonneg_iff)
    from digits_append_mono [OF this 1 d] show ?thesis unfolding clock_text_def .
  next
    case 2
    show ?thesis unfolding clock_text_def 2(1)
      by (rule list_less_same)+ (rule digits_append_mono [OF sixty(1) 2(2) sixty(2)])
  next
    case 3
    show ?thesis unfolding clock_text_def 3(1,2)
      by (rule list_less_same)+ (rule digits_append_mono [OF sixty(1) 3(3) sixty(2)])
  qed
qed

lemma CanonicalTimestamp_less:
  assumes "four_digit_year a" and "four_digit_year b" and "second_of a < second_of b"
  shows "CanonicalTimestamp a < CanonicalTimestamp b"
proof -
  obtain y m d where a: "civil (second_of a div 86400) = (y, m, d)" by (rule prod_cases3)
  obtain z k e where b: "civil (second_of b div 86400) = (z, k, e)" by (rule prod_cases3)
  have range: "0 \<le> y" "z < 10 ^ 4" "0 \<le> m" "k < 10 ^ 2" "0 \<le> d" "e < 10 ^ 2"
    using civil_year [OF assms(1) a] civil_year [OF assms(2) b] civil_bounds [OF a] civil_bounds [OF b] by simp_all
  have "second_of a div 86400 \<le> second_of b div 86400" using assms(3) by (simp add: zdiv_mono1)
  then consider "second_of a div 86400 < second_of b div 86400" | "second_of a div 86400 = second_of b div 86400" by linarith
  then show ?thesis
  proof cases
    case 1
    from civil_mono [OF 1 a b] consider "y < z" | "y = z" "m < k" | "y = z" "m = k" "d < e" by blast
    then show ?thesis
    proof cases
      case 1
      with range show ?thesis
        unfolding CanonicalTimestamp_parts [OF a] CanonicalTimestamp_parts [OF b] by (intro digits_append_mono)
    next
      case 2
      show ?thesis unfolding CanonicalTimestamp_parts [OF a] CanonicalTimestamp_parts [OF b] 2(1)
        by (rule list_less_same)+ (rule digits_append_mono; use 2 range in simp)
    next
      case 3
      show ?thesis unfolding CanonicalTimestamp_parts [OF a] CanonicalTimestamp_parts [OF b] 3(1,2)
        by (rule list_less_same)+ (rule digits_append_mono; use 3 range in simp)
    qed
  next
    case 2
    then have "second_of a mod 86400 < second_of b mod 86400"
      using assms(3) by (metis add_less_cancel_left mult_div_mod_eq)
    then have "clock_text (second_of a mod 86400) < clock_text (second_of b mod 86400)"
      by (intro clock_text_mono) simp_all
    moreover have "y = z" "m = k" "d = e" using 2 a b by simp_all
    ultimately show ?thesis
      unfolding CanonicalTimestamp_parts [OF a] CanonicalTimestamp_parts [OF b] by (simp add: list_less_same)
  qed
qed

lemma CanonicalTimestamp_eq: "second_of a = second_of b \<Longrightarrow> CanonicalTimestamp a = CanonicalTimestamp b"
  by (simp add: CanonicalTimestamp_def)

text \<open>the store compares timestamps as texts. For the years the layout covers this is the order
  of time: one canonical timestamp is below another exactly when its second is, and two are the
  same text exactly when they name the same second, whatever the nanoseconds.\<close>

theorem timestamps_sort_like_time:
  assumes "four_digit_year a" and "four_digit_year b"
  shows "(CanonicalTimestamp a < CanonicalTimestamp b \<longleftrightarrow> second_of a < second_of b) \<and>
    (CanonicalTimestamp a = CanonicalTimestamp b \<longleftrightarrow> second_of a = second_of b)"
  using CanonicalTimestamp_less [OF assms] CanonicalTimestamp_less [OF assms(2,1)]
    CanonicalTimestamp_eq [of a b] by (metis linorder_neqE order_less_asym order_less_irrefl)

theorem timestamps_sort_like_time_witness:
  "CanonicalTimestamp 951782400000000000 < CanonicalTimestamp 951868800000000000 \<and>
   CanonicalTimestamp 951782400000000000 = ''2000-02-29T00:00:00Z''"
proof -
  have "CanonicalTimestamp 951782400000000000 = ''2000-02-29T00:00:00Z''" by code_simp
  with timestamps_sort_like_time [of 951782400000000000 951868800000000000] show ?thesis
    by (simp add: four_digit_year_def second_of_def first_second_def last_second_def)
qed

end
