(* ===== verification/Backoff.thy ===== *)
theory Backoff
  imports Complex_Main Prelude
begin

text \<open>
  The retry policy (\<open>src/internal/app/dispatch/backoff.go\<close>). A duration is its number of
  nanoseconds. \<open>float64\<close> is a type \<open>'f\<close> with the operations of a \<open>Float64\<close>
  record: the model says which operations the code applies in which order, and leaves the
  rounding of the hardware open.
\<close>

record 'f Float64 =
  fl_of_int :: "int \<Rightarrow> 'f"
  fl_to_int :: "'f \<Rightarrow> int"
  fl_less :: "'f \<Rightarrow> 'f \<Rightarrow> bool"
  fl_le :: "'f \<Rightarrow> 'f \<Rightarrow> bool"
  fl_eq :: "'f \<Rightarrow> 'f \<Rightarrow> bool"
  fl_add :: "'f \<Rightarrow> 'f \<Rightarrow> 'f"
  fl_mul :: "'f \<Rightarrow> 'f \<Rightarrow> 'f"
  fl_pow :: "'f \<Rightarrow> 'f \<Rightarrow> 'f"
  fl_min :: "'f \<Rightarrow> 'f \<Rightarrow> 'f"
  fl_zero :: 'f
  fl_half :: 'f
  fl_one :: 'f

record 'f Backoff =
  bo_max_attempts :: int
  bo_initial_backoff :: int
  bo_max_backoff :: int
  bo_multiplier :: 'f
  bo_jitter_fraction :: 'f

datatype 'f backoff_error =
    AttemptsOutside int
  | BoundsInvalid int int
  | MultiplierTooSmall 'f
  | JitterOutside 'f
  | AttemptCountBelowOne int
  | JitterUnitOutside 'f

definition no_backoff :: "'f Float64 \<Rightarrow> 'f Backoff" where
  "no_backoff F = \<lparr>bo_max_attempts = 0, bo_initial_backoff = 0, bo_max_backoff = 0,
     bo_multiplier = fl_zero F, bo_jitter_fraction = fl_zero F\<rparr>"

text \<open>\<open>b != (Backoff{})\<close>: some field differs from its zero value.\<close>

definition backoff_set :: "'f Float64 \<Rightarrow> 'f Backoff \<Rightarrow> bool" where
  "backoff_set F b =
     (bo_max_attempts b \<noteq> 0 \<or> bo_initial_backoff b \<noteq> 0 \<or> bo_max_backoff b \<noteq> 0 \<or>
      \<not> fl_eq F (bo_multiplier b) (fl_zero F) \<or> \<not> fl_eq F (bo_jitter_fraction b) (fl_zero F))"

definition Backoff_Validate :: "'f Float64 \<Rightarrow> 'f Backoff \<Rightarrow> 'f backoff_error + unit" where
  "Backoff_Validate F b =
     bindE (guardE (1 \<le> bo_max_attempts b \<and> bo_max_attempts b \<le> 10) (AttemptsOutside (bo_max_attempts b))) (\<lambda>_.
     bindE (guardE (0 < bo_initial_backoff b \<and> bo_initial_backoff b \<le> bo_max_backoff b)
       (BoundsInvalid (bo_initial_backoff b) (bo_max_backoff b))) (\<lambda>_.
     bindE (guardE (\<not> fl_le F (bo_multiplier b) (fl_one F)) (MultiplierTooSmall (bo_multiplier b))) (\<lambda>_.
     guardE (\<not> (fl_less F (bo_jitter_fraction b) (fl_zero F) \<or> fl_less F (fl_half F) (bo_jitter_fraction b)))
       (JitterOutside (bo_jitter_fraction b)))))"

text \<open>The delay before the jittered value is capped.\<close>

definition jittered :: "'f Float64 \<Rightarrow> 'f Backoff \<Rightarrow> int \<Rightarrow> 'f \<Rightarrow> 'f" where
  "jittered F b attemptCount jitterUnit =
     (let exp = fl_mul F (fl_of_int F (bo_initial_backoff b)) (fl_pow F (bo_multiplier b) (fl_of_int F (attemptCount - 1)));
          capped = fl_min F exp (fl_of_int F (bo_max_backoff b))
      in fl_mul F capped (fl_add F (fl_one F) (fl_mul F (bo_jitter_fraction b) jitterUnit)))"

definition Delay :: "'f Float64 \<Rightarrow> 'f Backoff \<Rightarrow> int \<Rightarrow> 'f \<Rightarrow> 'f backoff_error + int" where
  "Delay F b attemptCount jitterUnit =
     bindE (Backoff_Validate F b) (\<lambda>_.
     bindE (guardE (1 \<le> attemptCount) (AttemptCountBelowOne attemptCount)) (\<lambda>_.
     bindE (guardE (\<not> (fl_less F jitterUnit (fl_zero F) \<or> fl_less F (fl_one F) jitterUnit)) (JitterUnitOutside jitterUnit)) (\<lambda>_.
       let limit = fl_of_int F (bo_max_backoff b); j = jittered F b attemptCount jitterUnit
       in Inr (fl_to_int F (if fl_less F limit j then limit else j)))))"

definition Exhausted :: "'f Backoff \<Rightarrow> int \<Rightarrow> bool" where
  "Exhausted b attemptCount = (bo_max_attempts b \<le> attemptCount)"

section \<open>Properties\<close>

text \<open>a retry is never scheduled later than the policy's maximum, and a delay exists only for a
  valid policy. The hypotheses are of the arithmetic: converting the maximum to \<open>float64\<close> and back
  keeps it, and the conversion of a smaller number is no larger; the jittered delay is a number, so it
  compares with the maximum.\<close>

theorem retry_delay_is_capped:
  assumes "Delay F b n u = Inr d"
    and "\<And>x. fl_le F x (fl_of_int F (bo_max_backoff b)) \<Longrightarrow> fl_to_int F x \<le> bo_max_backoff b"
    and "fl_to_int F (fl_of_int F (bo_max_backoff b)) = bo_max_backoff b"
    and "fl_less F (fl_of_int F (bo_max_backoff b)) (jittered F b n u) \<or>
      fl_le F (jittered F b n u) (fl_of_int F (bo_max_backoff b))"
  shows "d \<le> bo_max_backoff b \<and> 1 \<le> n \<and> bo_max_attempts b \<in> {1..10} \<and>
    0 < bo_initial_backoff b \<and> bo_initial_backoff b \<le> bo_max_backoff b"
  using assms by (auto simp: Delay_def Backoff_Validate_def result_simps Let_def)

text \<open>Exact arithmetic is one such arithmetic.\<close>

definition exact_float :: "rat Float64" where
  "exact_float = \<lparr>fl_of_int = rat_of_int, fl_to_int = (\<lambda>x. \<lfloor>x\<rfloor>), fl_less = (<), fl_le = (\<le>), fl_eq = (=),
     fl_add = (+), fl_mul = (*), fl_pow = (\<lambda>x k. x ^ nat \<lfloor>k\<rfloor>), fl_min = min, fl_zero = 0, fl_half = 1 / 2, fl_one = 1\<rparr>"

definition sample_policy :: "rat Backoff" where
  "sample_policy = \<lparr>bo_max_attempts = 5, bo_initial_backoff = 2000, bo_max_backoff = 9000, bo_multiplier = 2,
     bo_jitter_fraction = 1 / 4\<rparr>"

lemma sample_delays:
  "Delay exact_float sample_policy 1 0 = Inr 2000" "Delay exact_float sample_policy 2 (1 / 2) = Inr 4500"
  "Delay exact_float sample_policy 4 (1 / 2) = Inr 9000"
  by (simp_all add: Delay_def Backoff_Validate_def jittered_def exact_float_def sample_policy_def)

theorem retry_delay_is_capped_witness:
  "Delay exact_float sample_policy 4 (1 / 2) = Inr 9000 \<and> (9000::int) \<le> bo_max_backoff sample_policy"
  using retry_delay_is_capped [OF sample_delays(3)] sample_delays(3)
  by (auto simp: exact_float_def floor_le_iff sample_policy_def)

end
