(* ===== verification/Runtime.thy ===== *)
theory Runtime
  imports Coordination GoTime Backoff
begin

text \<open>
  The submission runtime (\<open>src/internal/app/dispatch/runtime.go\<close>, \<open>classify.go\<close>): one
  attempt at a durable intent, the bounded drain of a route, and the recovery of expired
  leases.

  Store, sink, clock, staleness check, rebuilder and log are records of functions over a
  world \<open>'s\<close>; nothing is assumed about them. What Go detects with a type assertion or a
  nil check is an option: the lane view, the group slot checker, the staleness check, the
  rebuilder, the jitter and the log. \<open>decode\<close> is \<open>json.Unmarshal\<close> of a stored request.
  An error of the sink is known only by its type name.
\<close>

section \<open>Classification\<close>

record Classified =
  cl_attempt_outcome :: string
  cl_error_code :: string
  cl_to :: IntentState
  cl_reason :: IntentReason
  cl_durable_acceptance :: bool
  cl_receipt_worthy :: bool

definition ClassifyResult :: "SubmitResult \<Rightarrow> string option \<Rightarrow> Classified" where
  "ClassifyResult res sinkErr =
     (let unknown = \<lparr>cl_attempt_outcome = ''unknown'', cl_error_code = [], cl_to = IntentUnknown,
            cl_reason = ReasonAmbiguousOutcome, cl_durable_acceptance = False, cl_receipt_worthy = False\<rparr>
      in if sinkErr \<noteq> None then unknown
         else if sr_classification res = SubmitAccepted
         then \<lparr>cl_attempt_outcome = ''accepted'', cl_error_code = [], cl_to = IntentAccepted,
           cl_reason = ReasonDurableAcceptance, cl_durable_acceptance = (sr_durable res = DurableTrue), cl_receipt_worthy = True\<rparr>
         else if sr_classification res = SubmitRejected
         then \<lparr>cl_attempt_outcome = ''rejected'', cl_error_code = [], cl_to = IntentRejected,
           cl_reason = ReasonDefiniteRejection, cl_durable_acceptance = False, cl_receipt_worthy = True\<rparr>
         else if sr_classification res = SubmitDefiniteNotSubmitted
         then \<lparr>cl_attempt_outcome = ''transport_failure'', cl_error_code = ''definite_not_submitted'',
           cl_to = IntentRetryWait, cl_reason = ReasonTransientFailure, cl_durable_acceptance = False,
           cl_receipt_worthy = False\<rparr>
         else unknown)"

section \<open>The runtime\<close>

datatype Level = LevelDebug | LevelInfo | LevelWarn | LevelError

text \<open>A log event with its correlation fields and its data.\<close>

record LogEvent =
  ev_level :: Level
  ev_event :: string
  ev_trace_id :: string
  ev_dispatch_id :: string
  ev_attempt_id :: string
  ev_route_id :: string
  ev_target_id :: string
  ev_message :: string
  ev_data :: "(string \<times> string) list"

record 's LaneView =
  lv_load_intent_lane :: "'s \<Rightarrow> string \<Rightarrow> store_error + RouteSnapshot"
  lv_activate_followup :: "'s \<Rightarrow> string \<Rightarrow> string \<Rightarrow> string \<Rightarrow> 's \<times> (store_error + unit)"

record 's RuntimeStore =
  st_load_intent :: "'s \<Rightarrow> string \<Rightarrow> store_error + IntentSnapshot"
  st_acquire_attempt :: "'s \<Rightarrow> AcquireAttempt \<Rightarrow> 's \<times> (store_error + string)"
  st_complete_attempt :: "'s \<Rightarrow> AttemptResult \<Rightarrow> 's \<times> (store_error + unit)"
  st_dead_letter_rejected :: "'s \<Rightarrow> string \<Rightarrow> string \<Rightarrow> string \<Rightarrow> 's \<times> (store_error + unit)"
  st_recover_expired :: "'s \<Rightarrow> string \<Rightarrow> string \<Rightarrow> 's \<times> (store_error + RecoveredLease list)"
  st_view :: "'s LaneView option"

record ('s, 'f) Runtime =
  rt_store :: "'s RuntimeStore"
  rt_sink :: "'s \<Rightarrow> TaskRequest \<Rightarrow> 's \<times> SubmitResult \<times> string option"
  rt_now :: "'s \<Rightarrow> 's \<times> int"
  rt_lease_ttl :: int
  rt_float :: "'f Float64"
  rt_backoff :: "'f Backoff"
  rt_jitter_unit :: "('s \<Rightarrow> 's \<times> 'f) option"
  rt_actor :: string
  rt_log :: "('s \<Rightarrow> LogEvent \<Rightarrow> 's) option"
  rt_trace_id :: string
  rt_staleness_check :: "('s \<Rightarrow> IntentSnapshot \<Rightarrow> 's \<times> (store_error + bool \<times> string)) option"
  rt_stale_rebuilder :: "('s \<Rightarrow> string \<Rightarrow> 's \<times> (store_error + string)) option"
  rt_decode :: "string \<Rightarrow> string + TaskRequest"

record SubmitReport =
  su_dispatch_id :: string
  su_attempt_id :: string
  su_from :: string
  su_to :: string
  su_reason :: "IntentReason option"
  su_classification :: string
  su_next_attempt_at :: string

definition no_report :: SubmitReport where
  "no_report = \<lparr>su_dispatch_id = [], su_attempt_id = [], su_from = [], su_to = [], su_reason = None,
     su_classification = [], su_next_attempt_at = []\<rparr>"

text \<open>Why a submission stopped. \<open>submit_class\<close> is the sentinel that \<open>errors.Is\<close> finds.\<close>

datatype 'f submit_error =
    StoreFailed store_error
  | HeldLease string string
  | NotSubmittable string string
  | CheckFailed store_error
  | ReplacementStale string string
  | StalePlan string string
  | RebuildFailed string store_error
  | NoReplacement string string
  | SlotRefused string RouteState string string
  | RevisionNotAcknowledged string string string string
  | StoredRequestMalformed string
  | DelayFailed "'f backoff_error"

primrec submit_class :: "'f submit_error \<Rightarrow> store_class" where
  "submit_class (StoreFailed e) = se_class e"
| "submit_class (HeldLease d ow) = LeaseHeld"
| "submit_class (NotSubmittable d s) = OtherFailure"
| "submit_class (CheckFailed e) = se_class e"
| "submit_class (ReplacementStale d t) = StaleRouteRevision"
| "submit_class (StalePlan d t) = StaleRouteRevision"
| "submit_class (RebuildFailed d e) = StaleRouteRevision"
| "submit_class (NoReplacement d t) = StaleRouteRevision"
| "submit_class (SlotRefused r s a d) = StateNotEligible"
| "submit_class (RevisionNotAcknowledged r a d v) = StaleRouteRevision"
| "submit_class (StoredRequestMalformed t) = OtherFailure"
| "submit_class (DelayFailed e) = OtherFailure"

definition logEvent ::
  "('s, 'f) Runtime \<Rightarrow> 's \<Rightarrow> Level \<Rightarrow> string \<Rightarrow> string \<Rightarrow> string \<Rightarrow> string \<Rightarrow> string \<Rightarrow> string \<Rightarrow> (string \<times> string) list \<Rightarrow> 's" where
  "logEvent r w level event did att route target msg dat =
     (case rt_log r of
        None \<Rightarrow> w
      | Some emit \<Rightarrow> emit w \<lparr>ev_level = level, ev_event = event, ev_trace_id = rt_trace_id r, ev_dispatch_id = did,
          ev_attempt_id = att, ev_route_id = route, ev_target_id = target, ev_message = msg, ev_data = dat\<rparr>)"

text \<open>\<open>Timestamp(r.Now())\<close>\<close>

definition stamp :: "('s, 'f) Runtime \<Rightarrow> 's \<Rightarrow> 's \<times> string" where
  "stamp r w = (case rt_now r w of (w1, t) \<Rightarrow> (w1, CanonicalTimestamp t))"

definition slotAdmissible :: "RouteSnapshot \<Rightarrow> string \<Rightarrow> bool" where
  "slotAdmissible rs did =
     (\<not> (rs_state rs = RouteUncertain \<or> rs_state rs = RouteQuarantined) \<and>
      rs_activation_state rs = ''enabled'' \<and>
      (rs_active_dispatch_id rs = [] \<or> rs_active_dispatch_id rs = did))"

definition boundedDiagnostic :: "string \<Rightarrow> string" where
  "boundedDiagnostic d = boundTruncate d 2000"

definition boundedPayload :: "string \<Rightarrow> string" where
  "boundedPayload p =
     (if 4096 < length p then render False (JObj [(''truncated'', JBool True), (''bytes'', JInt (int (length p)))]) else if p = [] then ''{}'' else p)"


section \<open>One attempt\<close>

type_synonym ('s, 'f) submitted = "'s \<times> SubmitReport \<times> 'f submit_error option"

text \<open>\<open>promoteFollowup\<close>: best effort after an acceptance; the store's own guard is the authority.\<close>

definition promoteFollowup :: "('s, 'f) Runtime \<Rightarrow> 's \<Rightarrow> string \<Rightarrow> string \<Rightarrow> 's" where
  "promoteFollowup r w route did =
     (case st_view (rt_store r) of
        None \<Rightarrow> w
      | Some view \<Rightarrow>
          (case lv_load_intent_lane view w did of
             Inl e \<Rightarrow> logEvent r w LevelWarn ''dispatch.unknown'' did [] route []
               ''follow-up promotion skipped: lane state unreadable'' [(''error'', se_text e)]
           | Inr rs \<Rightarrow>
               if rs_state rs \<noteq> RouteFollowupReady then w
               else if rs_active_dispatch_id rs \<noteq> [] \<and> rs_active_dispatch_id rs \<noteq> did
               then logEvent r w LevelWarn ''dispatch.unknown'' did [] route []
                 ''follow-up promotion skipped: slot held by another dispatch'' [(''active'', rs_active_dispatch_id rs)]
               else (case stamp r w of (w1, now) \<Rightarrow>
                 (case lv_activate_followup view w1 did (rt_actor r) now of
                    (w2, Inl e) \<Rightarrow> logEvent r w2 LevelWarn ''dispatch.unknown'' did [] route []
                      ''follow-up promotion failed after acceptance; the next drain promotes it'' [(''error'', se_text e)]
                  | (w2, Inr _) \<Rightarrow> logEvent r w2 LevelInfo ''dispatch.accepted'' did [] route []
                      ''accepted follow-up promoted to the active slot'' []))))"

definition receipt :: "('s, 'f) Runtime \<Rightarrow> 's \<Rightarrow> string \<Rightarrow> SubmitResult \<Rightarrow> AcceptanceState \<Rightarrow> 's \<times> ReceiptInput" where
  "receipt r w att res acceptance =
     (case stamp r w of (w1, now) \<Rightarrow>
       (w1, \<lparr>rc_receipt_id = ''rcpt-'' @ att, rc_acceptance = acceptance, rc_durable = (sr_durable res = DurableTrue),
         rc_external_ref = sr_external_ref res, rc_target_observed_at = sr_target_observed_at res, rc_received_at = now,
         rc_payload_version = (if sr_payload_version res = [] then TaskRequestContractVersion else sr_payload_version res),
         rc_bounded_payload = boundedPayload (sr_structured_payload res)\<rparr>))"

text \<open>The guard over the lane and the acknowledged revision, before the lease.\<close>

definition slot_guard :: "('s, 'f) Runtime \<Rightarrow> 's \<Rightarrow> IntentSnapshot \<Rightarrow> string \<Rightarrow> 'f submit_error + unit" where
  "slot_guard r w snap did =
     (case st_view (rt_store r) of
        None \<Rightarrow> Inr ()
      | Some view \<Rightarrow> bindE (map_err StoreFailed (lv_load_intent_lane view w did)) (\<lambda>rs.
          if \<not> slotAdmissible rs did
          then Inl (SlotRefused (is_route_id snap) (rs_state rs) (rs_active_dispatch_id rs) did)
          else if rs_activation_state rs = ''enabled'' \<and> rs_acknowledged_revision rs \<noteq> is_route_revision snap
          then Inl (RevisionNotAcknowledged (is_route_id snap) (rs_acknowledged_revision rs) did (is_route_revision snap))
          else Inr ()))"

text \<open>A stored request that does not decode: the leased attempt completes as a definite failure before
  the sink was called.\<close>

definition malformed_result :: "string \<Rightarrow> string \<Rightarrow> string \<Rightarrow> string \<Rightarrow> AttemptResult" where
  "malformed_result acquired did completed nxt =
     \<lparr>ar_attempt_id = acquired, ar_dispatch_id = did, ar_outcome = ''transport_failure'',
      ar_error_code = ''stored_request_invalid'', ar_response_digest = [],
      ar_diagnostic = ''stored request is not the task contract shape'', ar_completed_at = completed,
      ar_next_attempt_at = nxt,
      ar_transition = \<lparr>at_to = IntentRetryWait, at_reason = ReasonTransientFailure, at_evidence = no_intent_evidence,
        at_transition_id = acquired @ '':'' @ IntentReason_str ReasonTransientFailure\<rparr>,
      ar_receipt = None\<rparr>"

definition complete_malformed ::
  "('s, 'f) Runtime \<Rightarrow> 's \<Rightarrow> IntentSnapshot \<Rightarrow> string \<Rightarrow> string \<Rightarrow> SubmitReport \<Rightarrow> string \<Rightarrow> ('s, 'f) submitted" where
  "complete_malformed r w snap did acquired report err =
     (let report1 = report\<lparr>su_classification := SubmitDefiniteNotSubmitted\<rparr>; (w1, completed) = stamp r w;
          (w2, nxt) =
            (if backoff_set (rt_float r) (rt_backoff r)
             then (case Delay (rt_float r) (rt_backoff r) (is_attempt_count snap + 1) (fl_zero (rt_float r)) of
                Inl _ \<Rightarrow> (w1, [])
              | Inr delay \<Rightarrow> (case rt_now r w1 of (w2, t) \<Rightarrow> (w2, CanonicalTimestamp (t + delay))))
             else (w1, []))
      in case st_complete_attempt (rt_store r) w2 (malformed_result acquired did completed nxt) of
        (w3, Inl e) \<Rightarrow> (w3, report1, Some (StoreFailed e))
      | (w3, Inr _) \<Rightarrow>
          (w3, report1\<lparr>su_to := IntentState_str IntentRetryWait, su_reason := Some ReasonTransientFailure\<rparr>,
           Some (StoredRequestMalformed err)))"

text \<open>The record of a classified result; the receipt and the retry deadline are added when due.\<close>

definition classified_result :: "string \<Rightarrow> string \<Rightarrow> Classified \<Rightarrow> string \<Rightarrow> string \<Rightarrow> ReceiptInput option \<Rightarrow> string \<Rightarrow> AttemptResult" where
  "classified_result acquired did cls diagnostic completed rc nxt =
     \<lparr>ar_attempt_id = acquired, ar_dispatch_id = did, ar_outcome = cl_attempt_outcome cls,
      ar_error_code = cl_error_code cls, ar_response_digest = [], ar_diagnostic = boundedDiagnostic diagnostic,
      ar_completed_at = completed, ar_next_attempt_at = nxt,
      ar_transition = \<lparr>at_to = cl_to cls, at_reason = cl_reason cls,
        at_evidence = no_intent_evidence\<lparr>ie_receipt_ref := (case rc of None \<Rightarrow> [] | Some x \<Rightarrow> rc_receipt_id x)\<rparr>,
        at_transition_id = acquired @ '':'' @ IntentReason_str (cl_reason cls)\<rparr>,
      ar_receipt = rc\<rparr>"

definition logSubmitOutcome ::
  "('s, 'f) Runtime \<Rightarrow> 's \<Rightarrow> string \<Rightarrow> string \<Rightarrow> string \<Rightarrow> string \<Rightarrow> Classified \<Rightarrow> SubmitResult \<Rightarrow> 's" where
  "logSubmitOutcome r w did att route target cls res =
     (let dat = [(''classification'', sr_classification res), (''outcome'', cl_attempt_outcome cls)];
          emit = (\<lambda>level event msg. logEvent r w level event did att route target msg dat)
      in case cl_to cls of
        IntentAccepted \<Rightarrow> emit LevelInfo ''dispatch.accepted'' ''dispatch accepted''
      | IntentRejected \<Rightarrow> emit LevelWarn ''dispatch.rejected'' ''dispatch rejected by the target''
      | IntentUnknown \<Rightarrow> emit LevelWarn ''dispatch.unknown'' ''delivery outcome unknown''
      | IntentRetryWait \<Rightarrow> emit LevelInfo ''dispatch.retry_scheduled'' ''transport failure scheduled for retry''
      | _ \<Rightarrow> w)"

text \<open>The deadline of a retryable outcome.\<close>

definition retry_deadline ::
  "('s, 'f) Runtime \<Rightarrow> 's \<Rightarrow> IntentSnapshot \<Rightarrow> Classified \<Rightarrow> 's \<times> ('f backoff_error + string)" where
  "retry_deadline r w snap cls =
     (if cl_to cls = IntentRetryWait \<and> backoff_set (rt_float r) (rt_backoff r) then
        (case (case rt_jitter_unit r of None \<Rightarrow> (w, fl_zero (rt_float r)) | Some j \<Rightarrow> j w) of (w1, u) \<Rightarrow>
          (case Delay (rt_float r) (rt_backoff r) (is_attempt_count snap + 1) u of
             Inl e \<Rightarrow> (w1, Inl e)
           | Inr delay \<Rightarrow> (case rt_now r w1 of (w2, t) \<Rightarrow> (w2, Inr (CanonicalTimestamp (t + delay))))))
      else (w, Inr []))"

definition acceptance_receipt ::
  "('s, 'f) Runtime \<Rightarrow> 's \<Rightarrow> string \<Rightarrow> SubmitResult \<Rightarrow> Classified \<Rightarrow> 's \<times> ReceiptInput option" where
  "acceptance_receipt r w acquired res cls =
     (if cl_receipt_worthy cls
      then (case receipt r w acquired res (if cl_to cls = IntentRejected then AcceptanceRejected else AcceptanceAccepted) of
         (w1, rc) \<Rightarrow> (w1, Some rc))
      else (w, None))"

text \<open>What follows a recorded outcome: a rejection is dead-lettered, an acceptance promotes a follow-up.\<close>

definition settle ::
  "('s, 'f) Runtime \<Rightarrow> 's \<Rightarrow> IntentSnapshot \<Rightarrow> string \<Rightarrow> string \<Rightarrow> Classified \<Rightarrow> SubmitResult \<Rightarrow> 's" where
  "settle r w snap did acquired cls res =
     (let w1 = logSubmitOutcome r w did acquired (is_route_id snap) (is_target_id snap) cls res;
          w2 = (if cl_to cls = IntentRejected then
              (case stamp r w1 of (w2, now) \<Rightarrow>
                (case st_dead_letter_rejected (rt_store r) w2 did (rt_actor r) now of
                   (w3, Inl e) \<Rightarrow> logEvent r w3 LevelWarn ''dispatch.rejected'' did acquired (is_route_id snap)
                     (is_target_id snap) ''definite rejection did not dead-letter''
                     [(''error'', boundedDiagnostic (se_text e))]
                 | (w3, Inr _) \<Rightarrow> w3))
            else w1)
      in if cl_to cls = IntentAccepted then promoteFollowup r w2 (is_route_id snap) did else w2)"

definition sink_diagnostic :: "SubmitResult \<Rightarrow> string option \<Rightarrow> string" where
  "sink_diagnostic res sinkErr =
     (case sinkErr of None \<Rightarrow> sr_diagnostic res | Some t \<Rightarrow> ''sink error ('' @ t @ ''); message redacted'')"

text \<open>From the held lease on: the sink call, its classification and the completion.\<close>

definition submit_leased ::
  "('s, 'f) Runtime \<Rightarrow> 's \<Rightarrow> IntentSnapshot \<Rightarrow> string \<Rightarrow> string \<Rightarrow> SubmitReport \<Rightarrow> TaskRequest \<Rightarrow> ('s, 'f) submitted" where
  "submit_leased r w snap did acquired report req =
     (let (w1, res, sinkErr) = rt_sink r w req; cls = ClassifyResult res sinkErr;
          diagnostic = sink_diagnostic res sinkErr;
          report1 = report\<lparr>su_classification := sr_classification res\<rparr>;
          (w2, completed) = stamp r w1;
          (w3, rc) = acceptance_receipt r w2 acquired res cls
      in case retry_deadline r w3 snap cls of
        (w4, Inl e) \<Rightarrow> (w4, report1, Some (DelayFailed e))
      | (w4, Inr deadline) \<Rightarrow>
          (let report2 = report1\<lparr>su_next_attempt_at := deadline\<rparr>
           in case st_complete_attempt (rt_store r) w4 (classified_result acquired did cls diagnostic completed rc deadline) of
             (w5, Inl e) \<Rightarrow> (w5, report2, Some (StoreFailed e))
           | (w5, Inr _) \<Rightarrow>
               (settle r w5 snap did acquired cls (res\<lparr>sr_diagnostic := diagnostic\<rparr>),
                report2\<lparr>su_to := IntentState_str (cl_to cls), su_reason := Some (cl_reason cls)\<rparr>, None)))"

text \<open>A submittable intent that is not stale: guard, lease, attempt.\<close>

definition submit_current ::
  "('s, 'f) Runtime \<Rightarrow> 's \<Rightarrow> IntentSnapshot \<Rightarrow> string \<Rightarrow> string \<Rightarrow> ('s, 'f) submitted" where
  "submit_current r w snap did owner =
     (case slot_guard r w snap did of
        Inl e \<Rightarrow> (w, no_report, Some e)
      | Inr _ \<Rightarrow>
          (let (w1, now) = rt_now r w; report = no_report\<lparr>su_dispatch_id := did, su_from := is_state snap\<rparr>
           in case st_acquire_attempt (rt_store r) w1 \<lparr>aa_dispatch_id = did, aa_attempt_id = did @ ''-'' @ show_int now,
                aa_owner = owner, aa_now = CanonicalTimestamp now,
                aa_lease_expires_at = CanonicalTimestamp (now + rt_lease_ttl r), aa_next_attempt_at = []\<rparr> of
             (w2, Inl e) \<Rightarrow> (w2, report, Some (StoreFailed e))
           | (w2, Inr acquired) \<Rightarrow>
               (let report1 = report\<lparr>su_attempt_id := acquired\<rparr>;
                    w3 = logEvent r w2 LevelInfo ''dispatch.attempt_started'' did acquired (is_route_id snap)
                      (is_target_id snap) ''attempt leased'' []
                in case rt_decode r (is_request_json snap) of
                  Inl err \<Rightarrow> complete_malformed r w3 snap did acquired report1 err
                | Inr req \<Rightarrow> submit_leased r w3 snap did acquired report1 req)))"

definition stale_detail :: "('s, 'f) Runtime \<Rightarrow> 's \<Rightarrow> IntentSnapshot \<Rightarrow> 's \<times> ('f submit_error + string option)" where
  "stale_detail r w snap =
     (case rt_staleness_check r of
        None \<Rightarrow> (w, Inr None)
      | Some check \<Rightarrow>
          (case check w snap of
             (w1, Inl e) \<Rightarrow> (w1, Inl (CheckFailed e))
           | (w1, Inr (stale, detail)) \<Rightarrow> (w1, Inr (if stale then Some detail else None))))"

definition replacement ::
  "('s, 'f) Runtime \<Rightarrow> 's \<Rightarrow> string \<Rightarrow> string \<Rightarrow> 's \<times> ('f submit_error + string)" where
  "replacement r w did detail =
     (case rt_stale_rebuilder r of
        None \<Rightarrow> (w, Inl (StalePlan did detail))
      | Some rebuild \<Rightarrow>
          (case rebuild w did of
             (w1, Inl e) \<Rightarrow> (w1, Inl (RebuildFailed did e))
           | (w1, Inr nxt) \<Rightarrow> (w1, if nxt = [] \<or> nxt = did then Inl (NoReplacement did detail) else Inr nxt)))"

function submitOnce ::
  "('s, 'f) Runtime \<Rightarrow> nat \<Rightarrow> 's \<Rightarrow> string \<Rightarrow> string \<Rightarrow> ('s, 'f) submitted" where
  "submitOnce r rebuildDepth w did owner =
     (case st_load_intent (rt_store r) w did of
        Inl e \<Rightarrow> (w, no_report, Some (StoreFailed e))
      | Inr snap \<Rightarrow>
          if is_state snap = IntentState_str IntentSubmitting
          then (w, no_report, Some (HeldLease did (is_lease_owner snap)))
          else if is_state snap \<notin> {IntentState_str IntentReady, IntentState_str IntentRetryWait}
          then (w, no_report, Some (NotSubmittable did (is_state snap)))
          else
            (case stale_detail r w snap of
               (w1, Inl e) \<Rightarrow> (w1, no_report, Some e)
             | (w1, Inr None) \<Rightarrow> submit_current r w1 snap did owner
             | (w1, Inr (Some detail)) \<Rightarrow>
                 if 1 \<le> rebuildDepth then (w1, no_report, Some (ReplacementStale did detail))
                 else (case replacement r w1 did detail of
                    (w2, Inl e) \<Rightarrow> (w2, no_report, Some e)
                  | (w2, Inr nxt) \<Rightarrow>
                      submitOnce r (rebuildDepth + 1)
                        (logEvent r w2 LevelInfo ''dispatch.retry_scheduled'' did [] (is_route_id snap) (is_target_id snap)
                          ''stale intent superseded and rebuilt under the active configuration''
                          [(''replacement'', nxt), (''stale_detail'', detail)])
                        nxt owner)))"
  by pat_completeness auto

termination
  by (relation "measure (\<lambda>(r, rebuildDepth, w, did, owner). 1 - rebuildDepth)") auto

definition SubmitOnce :: "('s, 'f) Runtime \<Rightarrow> 's \<Rightarrow> string \<Rightarrow> string \<Rightarrow> ('s, 'f) submitted" where
  "SubmitOnce r w did owner = submitOnce r 0 w did owner"

declare submitOnce.simps [simp del]


section \<open>Draining a route\<close>

definition route_filter :: "string \<Rightarrow> string \<Rightarrow> int \<Rightarrow> IntentFilter" where
  "route_filter route st limit = \<lparr>fi_route_id = route, fi_state = st, fi_target_id = [], fi_dispatch_id = [],
     fi_limit = limit, fi_older_than = [], fi_external_ref = [], fi_causal_prefix = [], fi_offset = 0\<rparr>"

record 's DrainLister = "'s LaneView" +
  dl_list_intents :: "'s \<Rightarrow> IntentFilter \<Rightarrow> store_error + IntentSummary list"
  dl_group_slot_free :: "('s \<Rightarrow> string \<Rightarrow> string \<Rightarrow> store_error + bool) option"

text \<open>A warning carries the dispatch that was skipped and why.\<close>

record 'f DrainReport =
  dr_processed :: int
  dr_skipped :: int
  dr_reports :: "SubmitReport list"
  dr_warnings :: "(string \<times> 'f submit_error) list"

datatype 'f drain_error =
    MaxBelowOne
  | ListFailed store_error
  | LaneUnreadable string store_error
  | GroupUnreadable string store_error
  | DrainStopped string "'f submit_error"

definition intentLaneID :: "string \<Rightarrow> string" where
  "intentLaneID destinationID = (if destinationID = [] then LegacyDestinationLaneID else destinationID)"

text \<open>The checks before one listed intent is submitted: an unreadable lane stops the drain, a
  failed check skips the intent.\<close>

definition group_free :: "'s DrainLister \<Rightarrow> 's \<Rightarrow> IntentSummary \<Rightarrow> store_error + bool" where
  "group_free lister w item =
     (case dl_group_slot_free lister of
        None \<Rightarrow> Inr True
      | Some free \<Rightarrow> free w (sm_route_id item) (intentLaneID (sm_destination_id item)))"

definition drain_due :: "('s, 'f) Runtime \<Rightarrow> 's DrainLister \<Rightarrow> string \<Rightarrow> 's \<Rightarrow> IntentSummary \<Rightarrow> 'f drain_error + bool" where
  "drain_due r lister now w item =
     bindE (map_err (LaneUnreadable (sm_dispatch_id item)) (lv_load_intent_lane lister w (sm_dispatch_id item))) (\<lambda>rs.
     if \<not> slotAdmissible rs (sm_dispatch_id item) then Inr False
     else bindE (map_err (GroupUnreadable (sm_dispatch_id item)) (group_free lister w item)) (\<lambda>free.
       Inr (free \<and> \<not> (sm_next_attempt_at item \<noteq> [] \<and> now < sm_next_attempt_at item) \<and>
         \<not> (backoff_set (rt_float r) (rt_backoff r) \<and> Exhausted (rt_backoff r) (sm_attempt_count item)))))"

fun drain_loop ::
  "('s, 'f) Runtime \<Rightarrow> 's DrainLister \<Rightarrow> int \<Rightarrow> string \<Rightarrow> 's \<Rightarrow> 'f DrainReport \<Rightarrow> IntentSummary list \<Rightarrow>
   's \<times> 'f DrainReport \<times> 'f drain_error option" where
  "drain_loop r lister m now w out [] = (w, out, None)"
| "drain_loop r lister m now w out (item # items) =
     (if m \<le> dr_processed out then (w, out, None)
      else if sm_state item \<notin> {IntentState_str IntentReady, IntentState_str IntentRetryWait}
      then drain_loop r lister m now w out items
      else case drain_due r lister now w item of
        Inl e \<Rightarrow> (w, out, Some e)
      | Inr False \<Rightarrow> drain_loop r lister m now w (out\<lparr>dr_skipped := dr_skipped out + 1\<rparr>) items
      | Inr True \<Rightarrow>
          (case SubmitOnce r w (sm_dispatch_id item) ''drain'' of
             (w1, report, None) \<Rightarrow>
               drain_loop r lister m now w1
                 (out\<lparr>dr_processed := dr_processed out + 1, dr_reports := dr_reports out @ [report]\<rparr>) items
           | (w1, report, Some e) \<Rightarrow>
               if submit_class e = GroupSlotHeld
               then drain_loop r lister m now w1 (out\<lparr>dr_skipped := dr_skipped out + 1\<rparr>) items
               else if submit_class e = StaleRouteRevision
               then drain_loop r lister m now w1
                 (out\<lparr>dr_skipped := dr_skipped out + 1, dr_warnings := dr_warnings out @ [(sm_dispatch_id item, e)]\<rparr>) items
               else (w1, out, Some (DrainStopped (sm_dispatch_id item) e))))"

text \<open>The sweep for an accepted follow-up that was never promoted: the first that activates ends it.\<close>

fun promote_loop :: "('s, 'f) Runtime \<Rightarrow> 's DrainLister \<Rightarrow> string \<Rightarrow> 's \<Rightarrow> IntentSummary list \<Rightarrow> 's" where
  "promote_loop r lister route w [] = w"
| "promote_loop r lister route w (item # items) =
     (case lv_load_intent_lane lister w (sm_dispatch_id item) of
        Inl _ \<Rightarrow> promote_loop r lister route w items
      | Inr rs \<Rightarrow>
          if rs_state rs \<noteq> RouteFollowupReady \<or>
             (rs_active_dispatch_id rs \<noteq> [] \<and> rs_active_dispatch_id rs \<noteq> sm_dispatch_id item) \<or>
             group_free lister w item \<noteq> Inr True
          then promote_loop r lister route w items
          else (case stamp r w of (w1, now) \<Rightarrow>
            (case lv_activate_followup lister w1 (sm_dispatch_id item) (rt_actor r) now of
               (w2, Inl e) \<Rightarrow> promote_loop r lister route
                 (logEvent r w2 LevelWarn ''dispatch.unknown'' (sm_dispatch_id item) [] route []
                    ''drain-time follow-up promotion failed'' [(''error'', se_text e)]) items
             | (w2, Inr _) \<Rightarrow> logEvent r w2 LevelInfo ''dispatch.accepted'' (sm_dispatch_id item) [] route []
                 ''accepted follow-up promoted to the active slot by the drain'' [])))"

definition promoteAcceptedFollowup :: "('s, 'f) Runtime \<Rightarrow> 's DrainLister \<Rightarrow> 's \<Rightarrow> string \<Rightarrow> 's" where
  "promoteAcceptedFollowup r lister w route =
     (case dl_list_intents lister w (route_filter route (IntentState_str IntentAccepted) 10) of
        Inl _ \<Rightarrow> w
      | Inr items \<Rightarrow> promote_loop r lister route w items)"

definition no_drain :: "'f DrainReport" where
  "no_drain = \<lparr>dr_processed = 0, dr_skipped = 0, dr_reports = [], dr_warnings = []\<rparr>"

definition Drain ::
  "('s, 'f) Runtime \<Rightarrow> 's \<Rightarrow> string \<Rightarrow> int \<Rightarrow> 's DrainLister \<Rightarrow> 's \<times> 'f DrainReport \<times> 'f drain_error option" where
  "Drain r w route m lister =
     (if m < 1 then (w, no_drain, Some MaxBelowOne)
      else case dl_list_intents lister w (route_filter route [] 1000) of
        Inl e \<Rightarrow> (w, no_drain, Some (ListFailed e))
      | Inr items \<Rightarrow>
          (case stamp r w of (w1, now) \<Rightarrow>
            (case drain_loop r lister m now w1 no_drain items of
               (w2, out, Some e) \<Rightarrow> (w2, out, Some e)
             | (w2, out, None) \<Rightarrow> (promoteAcceptedFollowup r lister w2 route, out, None))))"

definition Recover :: "('s, 'f) Runtime \<Rightarrow> 's \<Rightarrow> string \<Rightarrow> 's \<times> (store_error + RecoveredLease list)" where
  "Recover r w route = (case stamp r w of (w1, now) \<Rightarrow> st_recover_expired (rt_store r) w1 route now)"

end
