(* ===== verification/RuntimeProtocol.thy ===== *)
theory RuntimeProtocol
  imports Runtime
begin

text \<open>
  What the runtime does to the store and the sink: the calls of one submission and of one drain,
  in order, for every store, sink, clock, staleness check, rebuilder and log. A traced runtime
  is the same code over a world that also keeps the list of calls; \<open>attempt\<close> says which lists
  one submission can leave.
\<close>

section \<open>A runtime that keeps the calls it makes\<close>

text \<open>The world is paired with the list of the calls that change the store or reach the sink; reads,
  the clock and the log do not count.\<close>

datatype runtime_call =
    Leased AcquireAttempt bool
  | Sent TaskRequest SubmitResult "string option"
  | Completed AttemptResult bool
  | DeadLettered string bool
  | Promoted string bool

type_synonym 's traced = "('s, runtime_call) recorded"

definition traced_view :: "'s LaneView \<Rightarrow> 's traced LaneView" where
  "traced_view v = \<lparr>lv_load_intent_lane = lift_read (lv_load_intent_lane v),
     lv_activate_followup = (\<lambda>w did a n. note_step (\<lambda>w. lv_activate_followup v w did a n) (Promoted did \<circ> is_ok) w)\<rparr>"

definition traced_lister :: "'s DrainLister \<Rightarrow> 's traced DrainLister" where
  "traced_lister l = \<lparr>lv_load_intent_lane = lift_read (lv_load_intent_lane l),
     lv_activate_followup = (\<lambda>w did a n. note_step (\<lambda>w. lv_activate_followup l w did a n) (Promoted did \<circ> is_ok) w),
     dl_list_intents = lift_read (dl_list_intents l),
     dl_group_slot_free = map_option lift_read (dl_group_slot_free l)\<rparr>"

definition traced_store :: "'s RuntimeStore \<Rightarrow> 's traced RuntimeStore" where
  "traced_store st = \<lparr>
     st_load_intent = lift_read (st_load_intent st),
     st_acquire_attempt = (\<lambda>w a. note_step (\<lambda>w. st_acquire_attempt st w a) (Leased a \<circ> is_ok) w),
     st_complete_attempt = (\<lambda>w c. note_step (\<lambda>w. st_complete_attempt st w c) (Completed c \<circ> is_ok) w),
     st_dead_letter_rejected = (\<lambda>w did a n. note_step (\<lambda>w. st_dead_letter_rejected st w did a n) (DeadLettered did \<circ> is_ok) w),
     st_recover_expired = (\<lambda>w route n. lift_step (\<lambda>w. st_recover_expired st w route n) w),
     st_view = map_option traced_view (st_view st)\<rparr>"

definition traced_runtime :: "('s, 'f) Runtime \<Rightarrow> ('s traced, 'f) Runtime" where
  "traced_runtime r = \<lparr>
     rt_store = traced_store (rt_store r),
     rt_sink = (\<lambda>w q. note_step (\<lambda>w. rt_sink r w q) (\<lambda>(res, err). Sent q res err) w),
     rt_now = lift_step (rt_now r), rt_lease_ttl = rt_lease_ttl r, rt_float = rt_float r, rt_backoff = rt_backoff r,
     rt_jitter_unit = map_option lift_step (rt_jitter_unit r), rt_actor = rt_actor r,
     rt_log = map_option (\<lambda>emit w ev. (emit (fst w) ev, snd w)) (rt_log r), rt_trace_id = rt_trace_id r,
     rt_staleness_check = map_option (\<lambda>check w snap. lift_step (\<lambda>w. check w snap) w) (rt_staleness_check r),
     rt_stale_rebuilder = map_option (\<lambda>rebuild w did. lift_step (\<lambda>w. rebuild w did) w) (rt_stale_rebuilder r),
     rt_decode = rt_decode r\<rparr>"

section \<open>What a submission does to the calls\<close>

named_theorems quiet \<open>steps that make no call\<close>

lemma logEvent_quiet [simp]: "snd (logEvent (traced_runtime r) w lv ev d a ro ta msg dat) = snd w"
  by (simp add: logEvent_def traced_runtime_def split: option.split)

lemma stamp_quiet [quiet]: "stamp (traced_runtime r) w = (w1, t) \<Longrightarrow> snd w1 = snd w"
  by (auto simp: stamp_def traced_runtime_def split: prod.splits dest: lift_step_eq)

lemma now_quiet [quiet]: "rt_now (traced_runtime r) w = (w1, t) \<Longrightarrow> snd w1 = snd w"
  by (simp add: traced_runtime_def lift_step_eq)

lemma receipt_quiet [quiet]: "receipt (traced_runtime r) w att res acc = (w1, rc) \<Longrightarrow> snd w1 = snd w"
  by (auto simp: receipt_def split: prod.splits dest: quiet)

lemma acceptance_receipt_quiet [quiet]:
  "acceptance_receipt (traced_runtime r) w acquired res cls = (w1, rc) \<Longrightarrow> snd w1 = snd w"
  by (auto simp: acceptance_receipt_def split: prod.splits if_splits dest: quiet)

lemma retry_deadline_quiet [quiet]: "retry_deadline (traced_runtime r) w snap cls = (w1, x) \<Longrightarrow> snd w1 = snd w"
  by (auto simp: retry_deadline_def traced_runtime_def split: prod.splits if_splits option.splits sum.splits
      dest!: lift_step_eq)

lemma stale_detail_quiet [quiet]: "stale_detail (traced_runtime r) w snap = (w1, x) \<Longrightarrow> snd w1 = snd w"
  by (auto simp: stale_detail_def traced_runtime_def split: prod.splits option.splits sum.splits dest!: lift_step_eq)

lemma replacement_quiet [quiet]: "replacement (traced_runtime r) w did detail = (w1, x) \<Longrightarrow> snd w1 = snd w"
  by (auto simp: replacement_def traced_runtime_def split: prod.splits option.splits sum.splits if_splits
      dest!: lift_step_eq)

lemma traced_store_simps:
  "rt_store (traced_runtime r) = traced_store (rt_store r)"
  "st_load_intent (traced_store st) w did = st_load_intent st (fst w) did"
  "st_view (traced_store st) = map_option traced_view (st_view st)"
  "lv_load_intent_lane (traced_view v) w did = lv_load_intent_lane v (fst w) did"
  "rt_decode (traced_runtime r) = rt_decode r"
  by (simp_all add: traced_runtime_def traced_store_def traced_view_def lift_read_def)

lemma acquire_called:
  "st_acquire_attempt (traced_store st) w a = (w1, x) \<Longrightarrow> snd w1 = snd w @ [Leased a (is_ok x)]"
  by (auto simp: traced_store_def dest: note_step_eq)

lemma complete_called:
  "st_complete_attempt (traced_store st) w c = (w1, x) \<Longrightarrow> snd w1 = snd w @ [Completed c (is_ok x)]"
  by (auto simp: traced_store_def dest: note_step_eq)

lemma dead_letter_called:
  "st_dead_letter_rejected (traced_store st) w did a n = (w1, x) \<Longrightarrow> snd w1 = snd w @ [DeadLettered did (is_ok x)]"
  by (auto simp: traced_store_def dest: note_step_eq)

lemma activate_called:
  "lv_activate_followup (traced_view v) w did a n = (w1, x) \<Longrightarrow> snd w1 = snd w @ [Promoted did (is_ok x)]"
  by (auto simp: traced_view_def dest: note_step_eq)

lemma sink_called: "rt_sink (traced_runtime r) w q = (w1, res, err) \<Longrightarrow> snd w1 = snd w @ [Sent q res err]"
  by (auto simp: traced_runtime_def dest: note_step_eq)

text \<open>After a recorded outcome: a rejection is dead-lettered, an acceptance may promote, nothing else.\<close>

definition follow_up :: "string \<Rightarrow> IntentState \<Rightarrow> runtime_call list \<Rightarrow> bool" where
  "follow_up did to calls =
     (if to = IntentRejected then calls \<in> {[DeadLettered did True], [DeadLettered did False]}
      else if to = IntentAccepted then calls \<in> {[], [Promoted did True], [Promoted did False]}
      else calls = [])"

lemma promoteFollowup_calls:
  "\<exists>calls. snd (promoteFollowup (traced_runtime r) w route did) = snd w @ calls \<and>
     calls \<in> {[], [Promoted did True], [Promoted did False]}"
proof (cases "st_view (rt_store r)")
  case (Some v)
  then have v: "st_view (rt_store (traced_runtime r)) = Some (traced_view v)" by (simp add: traced_store_simps)
  obtain w1 now where s: "stamp (traced_runtime r) w = (w1, now)" by (rule prod.exhaust)
  obtain w2 x where a: "lv_activate_followup (traced_view v) w1 did (rt_actor (traced_runtime r)) now = (w2, x)"
    by (rule prod.exhaust)
  from activate_called [OF a] stamp_quiet [OF s] have "snd w2 = snd w @ [Promoted did (is_ok x)]" by simp
  then show ?thesis
    unfolding promoteFollowup_def v option.case s prod.case a
    by (cases "lv_load_intent_lane (traced_view v) w did"; cases x) auto
qed (simp add: promoteFollowup_def traced_store_simps)

text \<open>How often the sink was called.\<close>

definition sends :: "runtime_call list \<Rightarrow> nat" where
  "sends calls = length (filter (\<lambda>k. case k of Sent q res err \<Rightarrow> True | _ \<Rightarrow> False) calls)"

lemma sends_simps [simp]:
  "sends [] = 0" "sends (xs @ ys) = sends xs + sends ys"
  "sends (Leased a b # xs) = sends xs" "sends (Completed c b # xs) = sends xs"
  "sends (DeadLettered d b # xs) = sends xs" "sends (Promoted d b # xs) = sends xs"
  "sends (Sent q res err # xs) = Suc (sends xs)"
  by (simp_all add: sends_def)

text \<open>A completion that the intent state machine admits from \<open>submitting\<close>.\<close>

definition admitted :: "AttemptResult \<Rightarrow> bool" where
  "admitted c = is_ok (ValidateIntentTransition IntentSubmitting (at_to (ar_transition c)) (at_reason (ar_transition c))
     (at_evidence (ar_transition c)))"

text \<open>A completion that records what the sink answered.\<close>

definition answers :: "string \<Rightarrow> SubmitResult \<Rightarrow> string option \<Rightarrow> AttemptResult \<Rightarrow> bool" where
  "answers did res err c =
     (ar_dispatch_id c = did \<and> at_to (ar_transition c) = cl_to (ClassifyResult res err) \<and> admitted c \<and>
      (ar_receipt c \<noteq> None) = (at_to (ar_transition c) \<in> {IntentAccepted, IntentRejected}))"

inductive attempt :: "string \<Rightarrow> runtime_call list \<Rightarrow> SubmitReport \<Rightarrow> bool \<Rightarrow> bool" for did where
  idle: "attempt did [] rep False"
| refused: "aa_dispatch_id a = did \<Longrightarrow> attempt did [Leased a False] rep False"
| malformed: "aa_dispatch_id a = did \<Longrightarrow> ar_dispatch_id c = did \<Longrightarrow> admitted c \<Longrightarrow>
    at_to (ar_transition c) = IntentRetryWait \<Longrightarrow> attempt did [Leased a True, Completed c ok] rep False"
| unscheduled: "aa_dispatch_id a = did \<Longrightarrow> cl_to (ClassifyResult res err) = IntentRetryWait \<Longrightarrow>
    attempt did [Leased a True, Sent q res err] rep False"
| unrecorded: "aa_dispatch_id a = did \<Longrightarrow> answers did res err c \<Longrightarrow>
    attempt did [Leased a True, Sent q res err, Completed c False] rep False"
| recorded: "aa_dispatch_id a = did \<Longrightarrow> answers did res err c \<Longrightarrow>
    follow_up did (at_to (ar_transition c)) fs \<Longrightarrow> su_dispatch_id rep = did \<Longrightarrow> su_attempt_id rep = ar_attempt_id c \<Longrightarrow>
    su_to rep = IntentState_str (at_to (ar_transition c)) \<Longrightarrow>
    attempt did ([Leased a True, Sent q res err, Completed c True] @ fs) rep True"

inductive_cases attempt_doneE: "attempt did calls rep True"

lemma malformed_admitted: "admitted (malformed_result acquired did completed nxt)"
  by (simp add: admitted_def malformed_result_def ValidateIntentTransition_def intentTable_def intent_edges_def
      intent_guard_def)

lemma classify_cases:
  "cl_to (ClassifyResult res err) \<in> {IntentAccepted, IntentRejected, IntentUnknown, IntentRetryWait} \<and>
   cl_reason (ClassifyResult res err) =
     (case cl_to (ClassifyResult res err) of
        IntentAccepted \<Rightarrow> ReasonDurableAcceptance | IntentRejected \<Rightarrow> ReasonDefiniteRejection
      | IntentRetryWait \<Rightarrow> ReasonTransientFailure | _ \<Rightarrow> ReasonAmbiguousOutcome) \<and>
   cl_receipt_worthy (ClassifyResult res err) = (cl_to (ClassifyResult res err) \<in> {IntentAccepted, IntentRejected})"
  by (simp add: ClassifyResult_def Let_def)

lemma transition_admitted:
  assumes "cl_to cls \<in> {IntentAccepted, IntentRejected, IntentUnknown, IntentRetryWait}"
    and "cl_reason cls = (case cl_to cls of
        IntentAccepted \<Rightarrow> ReasonDurableAcceptance | IntentRejected \<Rightarrow> ReasonDefiniteRejection
      | IntentRetryWait \<Rightarrow> ReasonTransientFailure | _ \<Rightarrow> ReasonAmbiguousOutcome)"
    and "cl_to cls \<in> {IntentAccepted, IntentRejected} \<Longrightarrow> ref \<noteq> []"
  shows "ValidateIntentTransition IntentSubmitting (cl_to cls) (cl_reason cls) (no_intent_evidence\<lparr>ie_receipt_ref := ref\<rparr>) = Inr ()"
  using assms by (auto simp: ValidateIntentTransition_def intentTable_def intent_edges_def intent_guard_def)

lemma acceptance_receipt_some:
  "acceptance_receipt r w acquired res cls = (w1, rc) \<Longrightarrow>
   (rc \<noteq> None) = cl_receipt_worthy cls \<and> (\<forall>x. rc = Some x \<longrightarrow> rc_receipt_id x = ''rcpt-'' @ acquired)"
  by (auto simp: acceptance_receipt_def receipt_def split: if_splits prod.splits)

lemma classified_answers:
  assumes "acceptance_receipt r w acquired res (ClassifyResult res err) = (w1, rc)"
  shows "answers did res err (classified_result acquired did (ClassifyResult res err) diag completed rc nxt)"
proof -
  note c = classify_cases [of res err] and a = acceptance_receipt_some [OF assms]
  have "ValidateIntentTransition IntentSubmitting (cl_to (ClassifyResult res err)) (cl_reason (ClassifyResult res err))
     (no_intent_evidence\<lparr>ie_receipt_ref := case rc of None \<Rightarrow> [] | Some x \<Rightarrow> rc_receipt_id x\<rparr>) = Inr ()"
    by (rule transition_admitted) (use c a in \<open>auto split: option.split\<close>)
  with c a show ?thesis by (auto simp: answers_def admitted_def classified_result_def)
qed

lemma settle_calls:
  assumes "cl_to cls \<in> {IntentAccepted, IntentRejected, IntentUnknown, IntentRetryWait}"
  shows "\<exists>fs. snd (settle (traced_runtime r) w snap did acquired cls res) = snd w @ fs \<and> follow_up did (cl_to cls) fs"
proof -
  let ?r = "traced_runtime r" and ?w = "logSubmitOutcome (traced_runtime r) w did acquired (is_route_id snap) (is_target_id snap) cls res"
  have l: "snd ?w = snd w" by (simp add: logSubmitOutcome_def Let_def split: IntentState.split)
  show ?thesis
  proof (cases "cl_to cls = IntentRejected")
    case True
    obtain w2 now where s: "stamp ?r ?w = (w2, now)" by (rule prod.exhaust)
    obtain w3 x where d: "st_dead_letter_rejected (rt_store ?r) w2 did (rt_actor ?r) now = (w3, x)" by (rule prod.exhaust)
    have "snd w3 = snd w @ [DeadLettered did (is_ok x)]"
      using dead_letter_called [OF d [unfolded traced_store_simps]] stamp_quiet [OF s] l by simp
    with True s d show ?thesis by (cases x) (simp_all add: settle_def Let_def follow_up_def)
  next
    case False
    with assms l promoteFollowup_calls [of r ?w "is_route_id snap" did] show ?thesis
      by (auto simp: settle_def Let_def follow_up_def)
  qed
qed

lemma submit_leased_calls:
  assumes "submit_leased (traced_runtime r) w snap did acquired report req = (w', rep, e)"
    and "aa_dispatch_id a = did" and "su_dispatch_id report = did" and "su_attempt_id report = acquired"
  shows "\<exists>calls. snd w' = snd w @ calls \<and> attempt did (Leased a True # calls) rep (e = None)"
proof -
  let ?r = "traced_runtime r"
  obtain w1 res err where s: "rt_sink ?r w req = (w1, res, err)" by (rule prod_cases3)
  let ?cls = "ClassifyResult res err" and ?d = "sink_diagnostic res err"
  obtain w2 completed where t: "stamp ?r w1 = (w2, completed)" by (rule prod.exhaust)
  obtain w3 rc where c: "acceptance_receipt ?r w2 acquired res ?cls = (w3, rc)" by (rule prod.exhaust)
  obtain w4 dl where b: "retry_deadline ?r w3 snap ?cls = (w4, dl)" by (rule prod.exhaust)
  have w4: "snd w4 = snd w @ [Sent req res err]"
    using sink_called [OF s] stamp_quiet [OF t] acceptance_receipt_quiet [OF c] retry_deadline_quiet [OF b] by simp
  note eq = assms(1) [unfolded submit_leased_def Let_def s prod.case t c b]
  show ?thesis
  proof (cases dl)
    case (Inl x)
    with b have "cl_to ?cls = IntentRetryWait" by (auto simp: retry_deadline_def split: if_splits)
    with eq Inl w4 assms(2) show ?thesis by (auto intro: attempt.unscheduled)
  next
    case (Inr deadline)
    let ?c = "classified_result acquired did ?cls ?d completed rc deadline"
    obtain w5 x where k: "st_complete_attempt (rt_store ?r) w4 ?c = (w5, x)" by (rule prod.exhaust)
    have w5: "snd w5 = snd w @ [Sent req res err, Completed ?c (is_ok x)]"
      using complete_called [OF k [unfolded traced_store_simps]] w4 by simp
    note ans = classified_answers [OF c, of did ?d completed deadline]
    show ?thesis
    proof (cases x)
      case (Inl e')
      with eq Inr k w5 assms(2) ans show ?thesis by (auto intro: attempt.unrecorded)
    next
      case (Inr u)
      have cl: "cl_to ?cls \<in> {IntentAccepted, IntentRejected, IntentUnknown, IntentRetryWait}" using classify_cases by blast
      obtain fs where fs: "snd (settle ?r w5 snap did acquired ?cls (res\<lparr>sr_diagnostic := ?d\<rparr>)) = snd w5 @ fs"
        "follow_up did (cl_to ?cls) fs" using settle_calls [OF cl] by blast
      have "w' = settle ?r w5 snap did acquired ?cls (res\<lparr>sr_diagnostic := ?d\<rparr>)" "e = None"
        "rep = report\<lparr>su_classification := sr_classification res, su_next_attempt_at := deadline,
           su_to := IntentState_str (cl_to ?cls), su_reason := Some (cl_reason ?cls)\<rparr>"
        using eq \<open>dl = Inr deadline\<close> k Inr by (simp_all split: if_splits)
      moreover have "attempt did ([Leased a True, Sent req res err, Completed ?c True] @ fs) rep True"
        by (rule attempt.recorded [OF assms(2) ans])
          (use fs assms(3,4) calculation in \<open>simp_all add: classified_result_def\<close>)
      ultimately show ?thesis using fs(1) w5 Inr by (intro exI [of _ "Sent req res err # Completed ?c True # fs"]) simp
    qed
  qed
qed

lemma complete_malformed_calls:
  assumes "complete_malformed (traced_runtime r) w snap did acquired report err = (w', rep, e)"
    and "aa_dispatch_id a = did"
  shows "\<exists>calls. snd w' = snd w @ calls \<and> attempt did (Leased a True # calls) rep False \<and> e \<noteq> None \<and>
    sends calls = 0"
proof -
  let ?r = "traced_runtime r"
  obtain w1 completed where t: "stamp ?r w = (w1, completed)" by (rule prod.exhaust)
  obtain w2 nxt where n: "(if backoff_set (rt_float ?r) (rt_backoff ?r)
             then (case Delay (rt_float ?r) (rt_backoff ?r) (is_attempt_count snap + 1) (fl_zero (rt_float ?r)) of
                Inl _ \<Rightarrow> (w1, [])
              | Inr delay \<Rightarrow> (case rt_now ?r w1 of (w2, t) \<Rightarrow> (w2, CanonicalTimestamp (t + delay))))
             else (w1, [])) = (w2, nxt)" by (rule prod.exhaust)
  have w2: "snd w2 = snd w"
    using n stamp_quiet [OF t] by (auto split: if_splits sum.splits prod.splits dest: now_quiet)
  let ?c = "malformed_result acquired did completed nxt"
  obtain w3 x where k: "st_complete_attempt (rt_store ?r) w2 ?c = (w3, x)" by (rule prod.exhaust)
  have "snd w3 = snd w @ [Completed ?c (is_ok x)]"
    using complete_called [OF k [unfolded traced_store_simps]] w2 by simp
  moreover have "w' = w3 \<and> e \<noteq> None"
    using assms(1) by (auto simp: complete_malformed_def Let_def t n k split: sum.splits)
  moreover have "attempt did [Leased a True, Completed ?c (is_ok x)] rep False"
    by (rule attempt.malformed [OF assms(2)]) (simp_all add: malformed_admitted, simp_all add: malformed_result_def)
  ultimately show ?thesis by auto
qed

lemma submit_current_calls:
  assumes "submit_current (traced_runtime r) w snap did owner = (w', rep, e)"
  shows "\<exists>calls. snd w' = snd w @ calls \<and> attempt did calls rep (e = None) \<and>
    (calls \<noteq> []) = is_ok (slot_guard (traced_runtime r) w snap did)"
proof (cases "slot_guard (traced_runtime r) w snap did")
  case (Inl x)
  with assms show ?thesis by (auto simp: submit_current_def intro: attempt.idle)
next
  case (Inr u)
  let ?r = "traced_runtime r"
  obtain w1 now where t: "rt_now ?r w = (w1, now)" by (rule prod.exhaust)
  let ?a = "\<lparr>aa_dispatch_id = did, aa_attempt_id = did @ ''-'' @ show_int now, aa_owner = owner,
    aa_now = CanonicalTimestamp now, aa_lease_expires_at = CanonicalTimestamp (now + rt_lease_ttl ?r), aa_next_attempt_at = []\<rparr>"
  obtain w2 x where l: "st_acquire_attempt (rt_store ?r) w1 ?a = (w2, x)" by (rule prod.exhaust)
  have w2: "snd w2 = snd w @ [Leased ?a (is_ok x)]"
    using acquire_called [OF l [unfolded traced_store_simps]] now_quiet [OF t] by simp
  note eq = assms [unfolded submit_current_def Inr sum.case t prod.case Let_def l]
  show ?thesis
  proof (cases x)
    case (Inl e')
    with eq w2 Inr show ?thesis by (auto intro!: attempt.refused)
  next
    case (Inr acquired)
    let ?w3 = "logEvent ?r w2 LevelInfo ''dispatch.attempt_started'' did acquired (is_route_id snap)
                      (is_target_id snap) ''attempt leased'' []"
    have w3: "snd ?w3 = snd w @ [Leased ?a True]" using w2 Inr by simp
    have ad: "aa_dispatch_id ?a = did" by simp
    have "\<exists>calls. snd w' = snd ?w3 @ calls \<and> attempt did (Leased ?a True # calls) rep (e = None)"
    proof (cases "rt_decode ?r (is_request_json snap)")
      case (Inl err)
      with eq Inr have "complete_malformed ?r ?w3 snap did acquired
        (no_report\<lparr>su_dispatch_id := did, su_from := is_state snap, su_attempt_id := acquired\<rparr>) err = (w', rep, e)" by simp
      from complete_malformed_calls [OF this ad] show ?thesis by auto
    next
      case (Inr req)
      with eq \<open>x = Inr acquired\<close> have s: "submit_leased ?r ?w3 snap did acquired
        (no_report\<lparr>su_dispatch_id := did, su_from := is_state snap, su_attempt_id := acquired\<rparr>) req = (w', rep, e)" by simp
      show ?thesis by (rule submit_leased_calls [OF s ad]) simp_all
    qed
    with w3 \<open>slot_guard ?r w snap did = Inr u\<close> show ?thesis by auto
  qed
qed

lemma submitOnce_calls:
  "R = traced_runtime r \<Longrightarrow> submitOnce R depth w did owner = (w', rep, e) \<Longrightarrow>
   \<exists>d calls. snd w' = snd w @ calls \<and> attempt d calls rep (e = None)"
proof (induction R depth w did owner rule: submitOnce.induct)
  case (1 R depth w did owner)
  have idle: "?case" if "snd w' = snd w" "e \<noteq> None"
    using that attempt.idle [of did rep] by (intro exI [of _ did] exI [of _ "[]"]) auto
  show ?case
  proof (cases "st_load_intent (rt_store R) w did")
    case (Inl x)
    with "1.prems"(2) show ?thesis by (intro idle) (auto simp: submitOnce.simps)
  next
    case (Inr snap)
    note eq = "1.prems"(2) [unfolded submitOnce.simps [of R depth w did owner] Inr sum.case]
    show ?thesis
    proof (cases "is_state snap \<in> {IntentState_str IntentReady, IntentState_str IntentRetryWait} \<and>
        is_state snap \<noteq> IntentState_str IntentSubmitting")
      case False
      with eq show ?thesis by (intro idle) (auto split: if_splits)
    next
      case True
      obtain w1 x where s: "stale_detail R w snap = (w1, x)" by (rule prod.exhaust)
      have w1: "snd w1 = snd w" using stale_detail_quiet s "1.prems"(1) by blast
      note eq' = eq [unfolded s prod.case]
      show ?thesis
      proof (cases "\<exists>detail. x = Inr (Some detail) \<and> \<not> 1 \<le> depth")
        case False
        show ?thesis
        proof (cases "x = Inr None")
          case None: True
          with eq' True have "submit_current R w1 snap did owner = (w', rep, e)" by auto
          from submit_current_calls [OF this [unfolded "1.prems"(1)]] w1 show ?thesis by auto
        next
          case stop: False
          with False eq' True w1 show ?thesis
            by (intro idle) (auto split: sum.splits option.splits if_splits)
        qed
      next
        case again: True
        then obtain detail where d: "x = Inr (Some detail)" "\<not> 1 \<le> depth" by blast
        obtain w2 y where p: "replacement R w1 did detail = (w2, y)" by (rule prod.exhaust)
        have w2: "snd w2 = snd w" using replacement_quiet p "1.prems"(1) w1 by metis
        show ?thesis
        proof (cases y)
          case (Inl z)
          with eq' True d p w2 show ?thesis by (intro idle) auto
        next
          case (Inr nxt)
          let ?w3 = "logEvent R w2 LevelInfo ''dispatch.retry_scheduled'' did [] (is_route_id snap) (is_target_id snap)
                          ''stale intent superseded and rebuilt under the active configuration''
                          [(''replacement'', nxt), (''stale_detail'', detail)]"
          from eq' True d p Inr have "submitOnce R (depth + 1) ?w3 nxt owner = (w', rep, e)" by auto
          from "1.IH" [OF \<open>st_load_intent (rt_store R) w did = Inr snap\<close> _ _ s [symmetric] d(1) refl d(2) p [symmetric] Inr
              "1.prems"(1) this] True
          obtain dd calls where "snd w' = snd ?w3 @ calls" "attempt dd calls rep (e = None)" by auto
          with w2 "1.prems"(1) show ?thesis by auto
        qed
      qed
    qed
  qed
qed

lemma SubmitOnce_calls:
  "SubmitOnce (traced_runtime r) w did owner = (w', rep, e) \<Longrightarrow> \<exists>d calls. snd w' = snd w @ calls \<and> attempt d calls rep (e = None)"
  unfolding SubmitOnce_def by (rule submitOnce_calls [OF refl])

lemma attempt_answers:
  "attempt d calls rep ok \<Longrightarrow> Sent q res err \<in> set calls \<Longrightarrow> Completed c b \<in> set calls \<Longrightarrow> answers d res err c"
  by (induction rule: attempt.induct) (auto simp: follow_up_def split: if_splits)

lemma ClassifyResult_to:
  "cl_to (ClassifyResult res err) = IntentRetryWait \<longleftrightarrow> err = None \<and> sr_classification res = SubmitDefiniteNotSubmitted"
  "cl_to (ClassifyResult res err) = IntentAccepted \<longleftrightarrow> err = None \<and> sr_classification res = SubmitAccepted"
  "cl_to (ClassifyResult res err) = IntentRejected \<longleftrightarrow> err = None \<and> sr_classification res = SubmitRejected"
  by (simp_all add: ClassifyResult_def Let_def SubmitDefiniteNotSubmitted_def SubmitAccepted_def SubmitRejected_def)

lemma stale_detail_traced:
  "stale_detail r (fst w) snap = (w1, Inr None) \<Longrightarrow> stale_detail (traced_runtime r) w snap = ((w1, snd w), Inr None)"
  by (auto simp: stale_detail_def traced_runtime_def lift_step_def split: option.splits prod.splits sum.splits if_splits)

lemma slot_guard_ok:
  "is_ok (slot_guard (traced_runtime r) w snap did) \<longleftrightarrow>
   (case st_view (rt_store r) of None \<Rightarrow> True
    | Some view \<Rightarrow> (\<exists>lane. lv_load_intent_lane view (fst w) did = Inr lane \<and> slotAdmissible lane did \<and>
        rs_acknowledged_revision lane = is_route_revision snap))"
  by (auto simp: slot_guard_def traced_store_simps is_ok_def slotAdmissible_def bindE_def map_err_def
      split: option.split sum.splits if_splits)

section \<open>Properties\<close>

text \<open>C5: every submission keeps the protocol of one attempt, whatever store, sink, clock, rebuilder and log do:
  the sink is called at most once and only under a lease that was granted, at most one completion
  follows and the intent state machine admits its transition from \<open>submitting\<close>, a definite rejection
  is dead-lettered, a promotion only follows a recorded acceptance, and the submission reports
  success exactly when the outcome of its sink call was recorded, with that outcome (DUR-001,
  DUR-002).\<close>

theorem submission_keeps_the_protocol:
  "\<exists>d calls. snd (fst (SubmitOnce (traced_runtime r) (w, past) did owner)) = past @ calls \<and>
     attempt d calls (fst (snd (SubmitOnce (traced_runtime r) (w, past) did owner)))
       (snd (snd (SubmitOnce (traced_runtime r) (w, past) did owner)) = None)"
proof -
  obtain w' rep e where s: "SubmitOnce (traced_runtime r) (w, past) did owner = (w', rep, e)" by (rule prod_cases3)
  from SubmitOnce_calls [OF s] show ?thesis by (simp add: s)
qed

text \<open>C12: only a proven failure is retried. When a sink call was completed, the intent is accepted,
  rejected or set to retry exactly when the sink returned no error and said so; anything else, an
  error included, becomes unknown. A receipt is stored exactly for an acceptance or a rejection
  (DUR-004, DUR-005, DUR-008).\<close>

theorem retry_needs_proof:
  assumes "snd (fst (SubmitOnce (traced_runtime r) (w, []) did owner)) = calls"
    and "Sent q res err \<in> set calls" and "Completed c ok \<in> set calls"
  shows "(at_to (ar_transition c) = IntentRetryWait) = (err = None \<and> sr_classification res = SubmitDefiniteNotSubmitted) \<and>
    (at_to (ar_transition c) = IntentAccepted) = (err = None \<and> sr_classification res = SubmitAccepted) \<and>
    (at_to (ar_transition c) = IntentRejected) = (err = None \<and> sr_classification res = SubmitRejected) \<and>
    at_to (ar_transition c) \<in> {IntentRetryWait, IntentAccepted, IntentRejected, IntentUnknown} \<and>
    (ar_receipt c \<noteq> None) = (at_to (ar_transition c) \<in> {IntentAccepted, IntentRejected})"
proof -
  obtain w' rep e where s: "SubmitOnce (traced_runtime r) (w, []) did owner = (w', rep, e)" by (rule prod_cases3)
  from SubmitOnce_calls [OF s] s assms(1) obtain d where "attempt d calls rep (e = None)" by auto
  from attempt_answers [OF this assms(2,3)] classify_cases [of res err] show ?thesis
    by (auto simp: answers_def ClassifyResult_to)
qed

text \<open>a submission never runs beside another task of its lane. For an intent whose plan is current
  a lease is asked for exactly when the intent is ready or waits for a retry, its lane is neither
  uncertain nor quarantined, the route is enabled, the lane's slot is empty or held by this very
  dispatch, and the acknowledged revision is the one the intent was planned under; otherwise no
  call is made at all (CON-001, CON-007).\<close>

theorem no_submission_beside_another:
  assumes "st_view (rt_store r) = Some view" and "st_load_intent (rt_store r) w did = Inr snap"
    and "stale_detail r w snap = (w1, Inr None)"
  shows "(snd (fst (SubmitOnce (traced_runtime r) (w, past) did owner)) \<noteq> past) =
    (is_state snap \<in> {IntentState_str IntentReady, IntentState_str IntentRetryWait} \<and>
     (\<exists>lane. lv_load_intent_lane view w1 did = Inr lane \<and> slotAdmissible lane did \<and>
        rs_acknowledged_revision lane = is_route_revision snap))"
proof (cases "is_state snap \<in> {IntentState_str IntentReady, IntentState_str IntentRetryWait}")
  case False
  then show ?thesis
    by (simp add: SubmitOnce_def submitOnce.simps [of "traced_runtime r"] traced_store_simps assms(2))
next
  case True
  let ?r = "traced_runtime r"
  have st: "stale_detail ?r (w, past) snap = ((w1, past), Inr None)"
    using stale_detail_traced [of r "(w, past)"] assms(3) by simp
  have "is_state snap \<noteq> IntentState_str IntentSubmitting" using True by auto
  with True have eq: "SubmitOnce ?r (w, past) did owner = submit_current ?r (w1, past) snap did owner"
    by (simp add: SubmitOnce_def submitOnce.simps [of ?r] traced_store_simps assms(2) st)
  obtain w' rep e where s: "submit_current ?r (w1, past) snap did owner = (w', rep, e)" by (rule prod_cases3)
  from submit_current_calls [OF s] slot_guard_ok [of r "(w1, past)" snap did] True show ?thesis
    by (auto simp: eq s assms(1))
qed

section \<open>Draining\<close>

lemma follow_up_sends: "follow_up did to calls \<Longrightarrow> sends calls = 0"
  by (auto simp: follow_up_def split: if_splits)

lemma attempt_sends: "attempt d calls rep ok \<Longrightarrow> sends calls \<le> 1"
  by (induction rule: attempt.induct) (auto simp: follow_up_sends)

text \<open>A store whose completion never fails for a held group slot or a stale revision.\<close>

definition completes_plainly :: "'s RuntimeStore \<Rightarrow> bool" where
  "completes_plainly st = (\<forall>w c. case snd (st_complete_attempt st w c) of
     Inl e \<Rightarrow> se_class e \<notin> {GroupSlotHeld, StaleRouteRevision} | Inr _ \<Rightarrow> True)"

lemma submit_leased_class:
  assumes "submit_leased r w snap did acquired report req = (w', rep, Some e)" and "completes_plainly (rt_store r)"
  shows "submit_class e \<notin> {GroupSlotHeld, StaleRouteRevision}"
  using assms by (auto simp: submit_leased_def Let_def completes_plainly_def split: prod.splits sum.splits)
    (metis old.sum.simps(5) snd_conv)+

lemma completes_plainly_traced: "completes_plainly st \<Longrightarrow> completes_plainly (traced_store st)"
  by (auto simp: completes_plainly_def traced_store_def note_step_def split: prod.split sum.splits)
    (metis old.sum.simps(5) snd_conv)+

lemma submit_current_skipped:
  assumes "submit_current (traced_runtime r) w snap did owner = (w', rep, Some e)"
    and "completes_plainly (rt_store r)" and "submit_class e \<in> {GroupSlotHeld, StaleRouteRevision}"
  shows "sends (snd w') = sends (snd w)"
proof (cases "slot_guard (traced_runtime r) w snap did")
  case (Inl x)
  with assms(1) show ?thesis by (simp add: submit_current_def)
next
  case (Inr u)
  let ?r = "traced_runtime r"
  obtain w1 now where t: "rt_now ?r w = (w1, now)" by (rule prod.exhaust)
  let ?a = "\<lparr>aa_dispatch_id = did, aa_attempt_id = did @ ''-'' @ show_int now, aa_owner = owner,
    aa_now = CanonicalTimestamp now, aa_lease_expires_at = CanonicalTimestamp (now + rt_lease_ttl ?r), aa_next_attempt_at = []\<rparr>"
  obtain w2 x where l: "st_acquire_attempt (rt_store ?r) w1 ?a = (w2, x)" by (rule prod.exhaust)
  have w2: "sends (snd w2) = sends (snd w)"
    using acquire_called [OF l [unfolded traced_store_simps]] now_quiet [OF t] by simp
  note eq = assms(1) [unfolded submit_current_def Inr sum.case t prod.case Let_def l]
  show ?thesis
  proof (cases x)
    case (Inl e')
    with eq w2 show ?thesis by simp
  next
    case (Inr acquired)
    have ad: "aa_dispatch_id ?a = did" by simp
    show ?thesis
    proof (cases "rt_decode ?r (is_request_json snap)")
      case (Inl err)
      with eq Inr have "complete_malformed ?r (logEvent ?r w2 LevelInfo ''dispatch.attempt_started'' did acquired (is_route_id snap)
                      (is_target_id snap) ''attempt leased'' []) snap did acquired
        (no_report\<lparr>su_dispatch_id := did, su_from := is_state snap, su_attempt_id := acquired\<rparr>) err = (w', rep, Some e)" by simp
      from complete_malformed_calls [OF this ad] w2 show ?thesis by auto
    next
      case (Inr req)
      with eq \<open>x = Inr acquired\<close> have "submit_leased ?r (logEvent ?r w2 LevelInfo ''dispatch.attempt_started'' did acquired
          (is_route_id snap) (is_target_id snap) ''attempt leased'' []) snap did acquired
        (no_report\<lparr>su_dispatch_id := did, su_from := is_state snap, su_attempt_id := acquired\<rparr>) req = (w', rep, Some e)" by simp
      from submit_leased_class [OF this] completes_plainly_traced [OF assms(2)] assms(3) show ?thesis
        by (simp add: traced_store_simps)
    qed
  qed
qed

lemma submitOnce_skipped:
  "R = traced_runtime r \<Longrightarrow> submitOnce R depth w did owner = (w', rep, Some e) \<Longrightarrow> completes_plainly (rt_store r) \<Longrightarrow>
   submit_class e \<in> {GroupSlotHeld, StaleRouteRevision} \<Longrightarrow> sends (snd w') = sends (snd w)"
proof (induction R depth w did owner rule: submitOnce.induct)
  case (1 R depth w did owner)
  show ?case
  proof (cases "st_load_intent (rt_store R) w did")
    case (Inl x)
    with "1.prems"(2) show ?thesis by (simp add: submitOnce.simps)
  next
    case (Inr snap)
    note eq = "1.prems"(2) [unfolded submitOnce.simps [of R depth w did owner] Inr sum.case]
    show ?thesis
    proof (cases "is_state snap \<in> {IntentState_str IntentReady, IntentState_str IntentRetryWait} \<and>
        is_state snap \<noteq> IntentState_str IntentSubmitting")
      case False
      with eq show ?thesis by (auto split: if_splits)
    next
      case True
      obtain w1 x where s: "stale_detail R w snap = (w1, x)" by (rule prod.exhaust)
      have w1: "snd w1 = snd w" using stale_detail_quiet s "1.prems"(1) by blast
      note eq' = eq [unfolded s prod.case]
      consider (stop) y where "x = Inl y" | (current) "x = Inr None" | (stale) detail where "x = Inr (Some detail)"
        by (cases x) auto
      then show ?thesis
      proof cases
        case stop
        with eq' True w1 show ?thesis by auto
      next
        case current
        with eq' True have "submit_current R w1 snap did owner = (w', rep, Some e)" by auto
        from submit_current_skipped [OF this [unfolded "1.prems"(1)] "1.prems"(3,4)] w1 show ?thesis by simp
      next
        case stale
        obtain w2 y where p: "replacement R w1 did detail = (w2, y)" by (rule prod.exhaust)
        have w2: "snd w2 = snd w" using replacement_quiet p "1.prems"(1) w1 by metis
        show ?thesis
        proof (cases "1 \<le> depth \<or> \<not> is_ok y")
          case True
          with eq' \<open>is_state snap \<in> _ \<and> _\<close> stale p w1 w2 show ?thesis by (auto split: if_splits sum.splits)
        next
          case False
          then obtain nxt where y: "\<not> 1 \<le> depth" "y = Inr nxt" by (auto simp: is_ok_iff)
          let ?w3 = "logEvent R w2 LevelInfo ''dispatch.retry_scheduled'' did [] (is_route_id snap) (is_target_id snap)
                          ''stale intent superseded and rebuilt under the active configuration''
                          [(''replacement'', nxt), (''stale_detail'', detail)]"
          from eq' True stale p y have n: "submitOnce R (depth + 1) ?w3 nxt owner = (w', rep, Some e)" by auto
          from "1.IH" [OF Inr _ _ s [symmetric] stale refl y(1) p [symmetric] y(2) "1.prems"(1) n "1.prems"(3,4)] True
            w2 "1.prems"(1) show ?thesis by auto
        qed
      qed
    qed
  qed
qed

lemma SubmitOnce_sends:
  assumes "SubmitOnce (traced_runtime r) w did owner = (w', rep, e)" and "completes_plainly (rt_store r)"
  shows "sends (snd w') \<le> sends (snd w) + 1 \<and>
    (\<forall>x. e = Some x \<longrightarrow> submit_class x \<in> {GroupSlotHeld, StaleRouteRevision} \<longrightarrow> sends (snd w') = sends (snd w))"
proof -
  from SubmitOnce_calls [OF assms(1)] obtain d calls where "snd w' = snd w @ calls" "attempt d calls rep (e = None)" by blast
  then have "sends (snd w') \<le> sends (snd w) + 1" using attempt_sends by fastforce
  moreover have "sends (snd w') = sends (snd w)" if "e = Some x" "submit_class x \<in> {GroupSlotHeld, StaleRouteRevision}" for x
    using submitOnce_skipped [OF refl _ assms(2) that(2)] assms(1) that(1) by (simp add: SubmitOnce_def)
  ultimately show ?thesis by blast
qed

lemma drain_loop_sends:
  assumes "drain_loop (traced_runtime r) lister m now w out items = (w', out', e)"
    and "completes_plainly (rt_store r)" and "dr_processed out \<le> m" and "dr_processed out = int (length (dr_reports out))"
  shows "int (sends (snd w')) + dr_processed out \<le> int (sends (snd w)) + m \<and> dr_processed out' \<le> m \<and>
    dr_processed out' = int (length (dr_reports out')) \<and>
    dr_processed out' + dr_skipped out' \<le> dr_processed out + dr_skipped out + int (length items)"
  using assms
proof (induction items arbitrary: w out)
  case (Cons item items)
  let ?r = "traced_runtime r"
  show ?case
  proof (cases "m \<le> dr_processed out \<or> sm_state item \<notin> {IntentState_str IntentReady, IntentState_str IntentRetryWait}")
    case True
    show ?thesis
    proof (cases "m \<le> dr_processed out")
      case False
      with True Cons.prems(1) have "drain_loop ?r lister m now w out items = (w', out', e)" by simp
      from Cons.IH [OF this Cons.prems(2-4)] show ?thesis by simp
    qed (use Cons.prems in auto)
  next
    case False
    note eq = Cons.prems(1) [unfolded drain_loop.simps]
    consider (stop) y where "drain_due ?r lister now w item = Inl y" | (skip) "drain_due ?r lister now w item = Inr False"
      | (due) "drain_due ?r lister now w item = Inr True" by (metis (full_types) sum.exhaust)
    then show ?thesis
    proof cases
      case stop
      with eq False Cons.prems show ?thesis by auto
    next
      case skip
      with eq False have "drain_loop ?r lister m now w (out\<lparr>dr_skipped := dr_skipped out + 1\<rparr>) items = (w', out', e)" by simp
      from Cons.IH [OF this Cons.prems(2)] Cons.prems(3,4) show ?thesis by simp
    next
      case due
      obtain w1 report x where s: "SubmitOnce ?r w (sm_dispatch_id item) ''drain'' = (w1, report, x)" by (rule prod_cases3)
      note sends = SubmitOnce_sends [OF s Cons.prems(2)]
      show ?thesis
      proof (cases x)
        case None
        with eq False due s have "drain_loop ?r lister m now w1
            (out\<lparr>dr_processed := dr_processed out + 1, dr_reports := dr_reports out @ [report]\<rparr>) items = (w', out', e)" by simp
        from Cons.IH [OF this Cons.prems(2)] Cons.prems(3,4) False sends show ?thesis by auto
      next
        case (Some y)
        show ?thesis
        proof (cases "submit_class y \<in> {GroupSlotHeld, StaleRouteRevision}")
          case True
          then obtain out1 where "drain_loop ?r lister m now w1 out1 items = (w', out', e)"
            "dr_processed out1 = dr_processed out" "dr_reports out1 = dr_reports out" "dr_skipped out1 = dr_skipped out + 1"
            using eq False due s Some by (cases "submit_class y = GroupSlotHeld") simp_all
          with Cons.IH [OF this(1) Cons.prems(2)] Cons.prems(3,4) sends Some True show ?thesis by auto
        next
          case stop: False
          with eq False due s Some have "w' = w1" "out' = out" by auto
          with sends Cons.prems(3,4) False show ?thesis by auto
        qed
      qed
    qed
  qed
qed auto

lemma promote_loop_sends: "sends (snd (promote_loop (traced_runtime r) (traced_lister l) route w items)) = sends (snd w)"
proof (induction items arbitrary: w)
  case (Cons item items)
  let ?r = "traced_runtime r" and ?l = "traced_lister l"
  obtain w1 now where s: "stamp ?r w = (w1, now)" by (rule prod.exhaust)
  obtain w2 x where a: "lv_activate_followup ?l w1 (sm_dispatch_id item) (rt_actor ?r) now = (w2, x)" by (rule prod.exhaust)
  from a have "snd w2 = snd w1 @ [Promoted (sm_dispatch_id item) (is_ok x)]" by (auto simp: traced_lister_def dest: note_step_eq)
  then have "sends (snd w2) = sends (snd w)" using stamp_quiet [OF s] by simp
  with Cons.IH show ?case by (simp add: s a split: sum.split)
qed simp

lemma promoteAcceptedFollowup_sends:
  "sends (snd (promoteAcceptedFollowup (traced_runtime r) (traced_lister l) w route)) = sends (snd w)"
  by (simp add: promoteAcceptedFollowup_def promote_loop_sends split: sum.split)

text \<open>C19: a drain is bounded. It calls the sink at most as often as its maximum, counts exactly the
  submissions it reports, and never more than the maximum. The hypothesis is what the store
  promises: a completion does not fail for a held group slot or a stale revision, which the drain
  takes for an intent that was not submitted.\<close>

theorem drain_is_bounded:
  assumes "completes_plainly (rt_store r)" and "1 \<le> m"
    and "Drain (traced_runtime r) (w, []) route m (traced_lister l) = (w', out, e)"
  shows "int (sends (snd w')) \<le> m \<and> dr_processed out \<le> m \<and> dr_processed out = int (length (dr_reports out))"
proof (cases "dl_list_intents (traced_lister l) (w, []) (route_filter route [] 1000)")
  case (Inl x)
  with assms(2,3) show ?thesis by (auto simp: Drain_def no_drain_def)
next
  case (Inr items)
  let ?r = "traced_runtime r" and ?l = "traced_lister l"
  obtain w1 now where s: "stamp ?r (w, []) = (w1, now)" by (rule prod.exhaust)
  obtain w2 out2 e2 where d: "drain_loop ?r ?l m now w1 no_drain items = (w2, out2, e2)" by (rule prod_cases3)
  have "int (sends (snd w2)) \<le> m \<and> dr_processed out2 \<le> m \<and> dr_processed out2 = int (length (dr_reports out2))"
    using drain_loop_sends [OF d assms(1)] assms(2) stamp_quiet [OF s] by (auto simp: no_drain_def)
  moreover have "out = out2 \<and> sends (snd w') = sends (snd w2)"
    using assms(2,3) s d Inr promoteAcceptedFollowup_sends [of r l w2 route]
    by (auto simp: Drain_def split: option.splits)
  ultimately show ?thesis by simp
qed

section \<open>A sample runtime\<close>

definition ready_snapshot :: IntentSnapshot where
  "ready_snapshot = (stored_snapshot 1)\<lparr>is_state := ''ready''\<rparr>"

definition sample_lane :: "string \<Rightarrow> RouteSnapshot" where
  "sample_lane holder = \<lparr>rs_route_id = ''r'', rs_activation_state = ''enabled'', rs_state = RouteActiveClean,
     rs_active_dispatch_id = holder, rs_dirty_generation = 0, rs_pending_reconcile = False,
     rs_acknowledged_revision = ''rev'', rs_capability_fingerprint = [], rs_failure_budget = 3\<rparr>"

definition sample_view :: "nat LaneView" where
  "sample_view = \<lparr>lv_load_intent_lane = (\<lambda>w did. Inr (sample_lane ''one'')),
     lv_activate_followup = (\<lambda>w did a n. (w, Inr ()))\<rparr>"

definition sample_runtime_store :: "nat RuntimeStore" where
  "sample_runtime_store = \<lparr>st_load_intent = (\<lambda>w did. Inr ready_snapshot),
     st_acquire_attempt = (\<lambda>w a. (w + 1, Inr (aa_attempt_id a))), st_complete_attempt = (\<lambda>w c. (w + 1, Inr ())),
     st_dead_letter_rejected = (\<lambda>w did a n. (w + 1, Inr ())), st_recover_expired = (\<lambda>w route n. (w, Inr [])),
     st_view = Some sample_view\<rparr>"

text \<open>The sink answers with the given classification, or fails.\<close>

definition sample_runtime :: "string \<Rightarrow> string option \<Rightarrow> (nat, rat) Runtime" where
  "sample_runtime answer err = \<lparr>rt_store = sample_runtime_store,
     rt_sink = (\<lambda>w q. (w + 1, \<lparr>sr_classification = answer, sr_durable = DurableTrue, sr_external_ref = ''x-1'',
       sr_target_observed_at = [], sr_structured_payload = [], sr_diagnostic = [], sr_payload_version = []\<rparr>, err)),
     rt_now = (\<lambda>w. (w, 0)), rt_lease_ttl = 60000000000, rt_float = exact_float, rt_backoff = no_backoff exact_float,
     rt_jitter_unit = None, rt_actor = ''runtime'', rt_log = None, rt_trace_id = [], rt_staleness_check = None,
     rt_stale_rebuilder = None, rt_decode = sample_decode\<rparr>"

definition sample_calls :: "string \<Rightarrow> string option \<Rightarrow> runtime_call list" where
  "sample_calls answer err = snd (fst (SubmitOnce (traced_runtime (sample_runtime answer err)) (0, []) ''one'' ''me''))"

definition call_outcome :: "runtime_call \<Rightarrow> string" where
  "call_outcome k = (case k of
     Leased a b \<Rightarrow> ''lease'' | Sent q res err \<Rightarrow> ''send'' | Completed c b \<Rightarrow> IntentState_str (at_to (ar_transition c))
   | DeadLettered d b \<Rightarrow> ''dead-letter'' | Promoted d b \<Rightarrow> ''promote'')"

lemma no_backoff_unset: "backoff_set exact_float (no_backoff exact_float) = False"
  by (simp add: backoff_set_def no_backoff_def exact_float_def)

fun plain_failure :: "runtime_call list \<Rightarrow> bool" where
  "plain_failure [a, Sent q res err, Completed c ok] =
     (err = None \<and> sr_classification res = SubmitDefiniteNotSubmitted \<and> ok)"
| "plain_failure calls = False"

fun_cases plain_failureE: "plain_failure calls"

theorem retry_needs_proof_witness:
  "\<exists>q res c. Sent q res None \<in> set (sample_calls ''definite_not_submitted'' None) \<and>
     Completed c True \<in> set (sample_calls ''definite_not_submitted'' None) \<and> at_to (ar_transition c) = IntentRetryWait \<and>
     ar_receipt c = None"
proof -
  let ?calls = "sample_calls ''definite_not_submitted'' None"
  have "plain_failure ?calls" by code_simp
  then obtain a q res x where c: "?calls = [a, Sent q res None, Completed x True]"
    and q: "sr_classification res = SubmitDefiniteNotSubmitted"
    by (auto elim: plain_failureE)
  have m: "Sent q res None \<in> set ?calls" "Completed x True \<in> set ?calls"
    by (simp_all add: c)
  from retry_needs_proof [OF sample_calls_def [symmetric] m] q m show ?thesis by auto
qed

theorem no_submission_beside_another_witness:
  "sample_calls ''accepted'' None \<noteq> [] \<and>
   snd (fst (SubmitOnce (traced_runtime (sample_runtime ''accepted'' None)) (0, []) ''two'' ''me'')) = []"
proof -
  let ?r = "sample_runtime ''accepted'' None"
  have v: "st_view (rt_store ?r) = Some sample_view" by (simp add: sample_runtime_def sample_runtime_store_def)
  have l: "st_load_intent (rt_store ?r) 0 d = Inr ready_snapshot" for d
    by (simp add: sample_runtime_def sample_runtime_store_def)
  have s: "stale_detail ?r 0 ready_snapshot = (0, Inr None)" by (simp add: stale_detail_def sample_runtime_def)
  have "(snd (fst (SubmitOnce (traced_runtime ?r) (0, []) d ''me'')) \<noteq> []) = (d = ''one'')" for d
    unfolding no_submission_beside_another [OF v l s]
    by (auto simp: sample_view_def sample_lane_def slotAdmissible_def ready_snapshot_def stored_snapshot_def)
  from this [of "''one''"] this [of "''two''"] show ?thesis by (simp add: sample_calls_def)
qed

definition sample_listed :: "string \<Rightarrow> IntentSummary" where
  "sample_listed did = \<lparr>sm_dispatch_id = did, sm_decision_id = [], sm_route_id = ''r'', sm_route_revision = ''rev'',
     sm_target_id = ''t'', sm_resource_id = ''vault'', sm_generation = 1, sm_idempotency_key = [],
     sm_content_fingerprint = [], sm_state = ''ready'', sm_request = ''{}'', sm_aggregate_id = [],
     sm_destination_id = ''d'', sm_attempt_count = 0, sm_next_attempt_at = [], sm_updated_at = [], sm_created_at = []\<rparr>"

definition sample_lister :: "nat DrainLister" where
  "sample_lister = \<lparr>lv_load_intent_lane = lv_load_intent_lane sample_view,
     lv_activate_followup = lv_activate_followup sample_view,
     dl_list_intents = (\<lambda>w f. Inr [sample_listed ''two'', sample_listed ''one'', sample_listed ''one'']),
     dl_group_slot_free = None\<rparr>"

definition sample_drain :: "nat traced \<times> rat DrainReport \<times> rat drain_error option" where
  "sample_drain = Drain (traced_runtime (sample_runtime ''accepted'' None)) (0, []) ''r'' 1 (traced_lister sample_lister)"

theorem drain_is_bounded_witness:
  "dr_processed (fst (snd sample_drain)) = 1 \<and> dr_skipped (fst (snd sample_drain)) = 1 \<and> sends (snd (fst sample_drain)) \<le> 1"
proof -
  have p: "completes_plainly (rt_store (sample_runtime ''accepted'' None))"
    by (simp add: completes_plainly_def sample_runtime_def sample_runtime_store_def)
  obtain w' out e where d: "sample_drain = (w', out, e)" by (rule prod_cases3)
  from drain_is_bounded [OF p _ d [unfolded sample_drain_def]] have "int (sends (snd w')) \<le> 1" by simp
  moreover have "case sample_drain of (w, out, e) \<Rightarrow> dr_processed out = 1 \<and> dr_skipped out = 1" by code_simp
  ultimately show ?thesis by (simp add: d)
qed

end
