(* ===== verification/Operator.thy ===== *)
theory Operator
  imports Coordination
begin

text \<open>
  The operator's actions (\<open>src/internal/app/dispatch/operator.go\<close>): retry, rerun, and the
  rebuild of a stale intent. The store, the clock and the identifier source are records of
  functions over a world \<open>'s\<close>; the resolvers read the configuration and may be absent. Of an
  intent's lineage only the intent itself is looked at. \<open>decode\<close> is \<open>json.Unmarshal\<close>.
\<close>

section \<open>The service\<close>

record RerunInput =
  rr_original_dispatch_id :: string
  rr_original_decision_id :: string
  rr_new :: IntentInput
  rr_actor :: string
  rr_reason :: string
  rr_reason_codes :: "string list"

record 's OperatorStore =
  op_load_lineage_intent :: "'s \<Rightarrow> string \<Rightarrow> store_error + IntentSummary"
  op_load_intent :: "'s \<Rightarrow> string \<Rightarrow> store_error + IntentSnapshot"
  op_apply_operator_retry :: "'s \<Rightarrow> string \<Rightarrow> string \<Rightarrow> string \<Rightarrow> string \<Rightarrow> 's \<times> (store_error + unit)"
  op_make_retry_due :: "'s \<Rightarrow> string \<Rightarrow> string \<Rightarrow> string \<Rightarrow> 's \<times> (store_error + unit)"
  op_rerun_intent :: "'s \<Rightarrow> RerunInput \<Rightarrow> 's \<times> (store_error + IntentSummary)"

record 's OperatorService =
  os_store :: "'s OperatorStore"
  os_now :: "'s \<Rightarrow> 's \<times> string"
  os_new_id :: "'s \<Rightarrow> 's \<times> (id_error + string)"
  os_target_scope_resolver :: "(string \<Rightarrow> string) option"
  os_destination_resolver :: "lane_resolver option"
  os_revision_resolver :: "(string \<Rightarrow> string option) option"
  os_target_resolver :: "(string \<Rightarrow> (string \<times> string \<times> string) option) option"
  os_decode :: "string \<Rightarrow> string + TaskRequest"

datatype operator_error =
    StoreRefused store_error
  | ReasonMissing string
  | NotEligibleFor string string
  | NoActiveRevision string
  | NoActiveTarget string
  | RequestMalformed string
  | NoLane string store_error
  | NoIdentity id_error
  | RequestRefused request_error

primrec operator_class :: "operator_error \<Rightarrow> store_class" where
  "operator_class (StoreRefused e) = se_class e"
| "operator_class (ReasonMissing d) = ReasonRequired"
| "operator_class (NotEligibleFor d s) = StateNotEligible"
| "operator_class (NoActiveRevision r) = OtherFailure"
| "operator_class (NoActiveTarget r) = OtherFailure"
| "operator_class (RequestMalformed t) = OtherFailure"
| "operator_class (NoLane d e) = se_class e"
| "operator_class (NoIdentity e) = OtherFailure"
| "operator_class (RequestRefused e) = OtherFailure"

section \<open>Retry\<close>

definition Retry :: "'s OperatorService \<Rightarrow> 's \<Rightarrow> string \<Rightarrow> string \<Rightarrow> string \<Rightarrow> 's \<times> (operator_error + string)" where
  "Retry s w did actor reason =
     (case op_load_lineage_intent (os_store s) w did of
        Inl e \<Rightarrow> (w, Inl (StoreRefused e))
      | Inr intent \<Rightarrow>
          if sm_state intent = IntentState_str IntentDeadLettered then
            (if trim_space reason = [] then (w, Inl (ReasonMissing did))
             else case os_now s w of (w1, now) \<Rightarrow>
               (case op_apply_operator_retry (os_store s) w1 did actor reason now of
                  (w2, Inl e) \<Rightarrow> (w2, Inl (StoreRefused e))
                | (w2, Inr _) \<Rightarrow> (w2, Inr (IntentState_str IntentReady))))
          else if sm_state intent = IntentState_str IntentRetryWait then
            (case os_now s w of (w1, now) \<Rightarrow>
               (case op_make_retry_due (os_store s) w1 did actor now of
                  (w2, Inl e) \<Rightarrow> (w2, Inl (StoreRefused e))
                | (w2, Inr _) \<Rightarrow> (w2, Inr (IntentState_str IntentRetryWait))))
          else (w, Inl (NotEligibleFor did (sm_state intent))))"

section \<open>A new request for old work\<close>

definition laneOf :: "'s OperatorService \<Rightarrow> IntentSnapshot \<Rightarrow> TaskRequest \<Rightarrow> operator_error + TaskDestinationRef \<times> string" where
  "laneOf s snap req =
     map_err (NoLane (is_dispatch_id snap))
       (ResolveDestinationLane (is_route_id snap) (tq_destination req) (snapshot_lane snap) (os_destination_resolver s))"

definition activeRevision :: "'s OperatorService \<Rightarrow> string \<Rightarrow> string \<Rightarrow> string" where
  "activeRevision s route stored =
     (case os_revision_resolver s of
        None \<Rightarrow> stored
      | Some f \<Rightarrow> (case f route of None \<Rightarrow> stored | Some v \<Rightarrow> if v = [] then stored else v))"

definition compact_time :: "string \<Rightarrow> string" where
  "compact_time now = filter (\<lambda>c. c \<noteq> CHR '':'' \<and> c \<noteq> CHR ''-'') now"

definition renewed_input ::
  "IntentSnapshot \<Rightarrow> TaskRequest \<Rightarrow> TaskDestinationRef \<Rightarrow> string \<Rightarrow> string \<Rightarrow> string \<times> string \<times> string \<Rightarrow> RequestInput" where
  "renewed_input snap req lane did revision target =
     (case target of (targetID, targetType, scope) \<Rightarrow>
       \<lparr>ri_dispatch_id = did, ri_route = \<lparr>tr_id = is_route_id snap, tr_revision = revision\<rparr>, ri_resource = tq_resource req,
        ri_target_id = targetID, ri_target_scope = scope, ri_destination = lane, ri_generation = is_generation snap + 1,
        ri_fingerprint = tn_content_fingerprint (tq_activation req),
        ri_changes = manifestToChanges (tn_manifest (tq_activation req)), ri_flags = tn_flags (tq_activation req),
        ri_acceptance_criteria = tq_acceptance_criteria req, ri_assignment = tq_assignment req,
        ri_execution_hints = tq_execution_hints req\<rparr>)"

definition renewed_intent ::
  "IntentSnapshot \<Rightarrow> TaskRequest \<Rightarrow> TaskDestinationRef \<Rightarrow> string \<Rightarrow> string \<times> string \<times> string \<Rightarrow> TaskRequest \<Rightarrow> string \<Rightarrow>
   FanoutInput \<Rightarrow> IntentInput" where
  "renewed_intent snap req lane revision target nxt now fan =
     (case target of (targetID, targetType, scope) \<Rightarrow>
       \<lparr>in_target_scope = scope, in_dispatch_id = tq_dispatch_id nxt, in_decision_id = [], in_route_id = is_route_id snap,
        in_route_revision = revision, in_target_id = targetID, in_target_type = targetType,
        in_resource_id = tc_id (tq_resource req), in_generation = tn_generation (tq_activation nxt),
        in_idempotency_key = tq_idempotency_key nxt, in_content_fingerprint = tn_content_fingerprint (tq_activation nxt),
        in_manifest_digest = is_manifest_digest snap, in_request_version = TaskRequestContractVersion,
        in_request_json = MarshalRequest nxt, in_created_at = now, in_fanout = Some fan\<rparr>)"

text \<open>What rerun and rebuild share: the lane, the new identities, the request and the intent. \<open>label\<close>
  names the action in the new dispatch id and in the selection reason.\<close>

definition renew ::
  "'s OperatorService \<Rightarrow> 's \<Rightarrow> string \<Rightarrow> IntentSnapshot \<Rightarrow> TaskRequest \<Rightarrow> string \<Rightarrow> string \<Rightarrow> AggregateOrigin \<Rightarrow>
   string \<times> string \<times> string \<Rightarrow> 's \<times> (operator_error + IntentInput)" where
  "renew s w did snap req label reason origin target =
     (case laneOf s snap req of
        Inl e \<Rightarrow> (w, Inl e)
      | Inr (lane, proj) \<Rightarrow>
          (let (w1, now) = os_now s w; newid = did @ ''-'' @ label @ ''-'' @ compact_time now; (w2, aggregate) = os_new_id s w1
           in case aggregate of
             Inl e \<Rightarrow> (w2, Inl (NoIdentity e))
           | Inr aggregateID \<Rightarrow>
               (let revision = activeRevision s (is_route_id snap) (tr_revision (tq_route req))
                in (w2, bindE (map_err RequestRefused (BuildRequest (renewed_input snap req lane newid revision target))) (\<lambda>(nxt, key).
                     Inr (renewed_intent snap req lane revision target nxt now
                       (SingleLaneFanout aggregateID origin lane (reason @ did) (live_revision lane proj))))))))"

definition stored_target :: "IntentSnapshot \<Rightarrow> string \<times> string \<times> string" where
  "stored_target snap = (is_target_id snap, is_target_type snap, is_target_scope snap)"

section \<open>Rerun\<close>

definition Rerun :: "'s OperatorService \<Rightarrow> 's \<Rightarrow> string \<Rightarrow> string \<Rightarrow> string \<Rightarrow> 's \<times> (operator_error + IntentSummary)" where
  "Rerun s w did actor reason =
     (if trim_space reason = [] then (w, Inl (ReasonMissing did))
      else case op_load_intent (os_store s) w did of
        Inl e \<Rightarrow> (w, Inl (StoreRefused e))
      | Inr snap \<Rightarrow>
          if is_state snap \<notin> {IntentState_str IntentReady, IntentState_str IntentDeadLettered}
          then (w, Inl (NotEligibleFor did (is_state snap)))
          else case os_decode s (is_request_json snap) of
            Inl t \<Rightarrow> (w, Inl (RequestMalformed t))
          | Inr req \<Rightarrow>
              (case renew s w did snap req ''rerun'' ''rerun:'' OriginRerun (stored_target snap) of
                 (w1, Inl e) \<Rightarrow> (w1, Inl e)
               | (w1, Inr intent) \<Rightarrow>
                   (case op_rerun_intent (os_store s) w1 \<lparr>rr_original_dispatch_id = did, rr_original_decision_id = [],
                      rr_new = intent, rr_actor = actor, rr_reason = reason, rr_reason_codes = []\<rparr> of
                      (w2, x) \<Rightarrow> (w2, map_err StoreRefused x))))"

section \<open>Rebuilding a stale intent\<close>

definition live_target :: "'s OperatorService \<Rightarrow> IntentSnapshot \<Rightarrow> string \<times> string \<times> string" where
  "live_target s snap =
     (case os_target_resolver s of
        None \<Rightarrow> stored_target snap
      | Some f \<Rightarrow> (case f (is_route_id snap) of None \<Rightarrow> stored_target snap | Some t \<Rightarrow> t))"

definition unresolved :: "('a \<Rightarrow> 'b option) option \<Rightarrow> 'a \<Rightarrow> bool" where
  "unresolved resolver route = (case resolver of None \<Rightarrow> False | Some f \<Rightarrow> f route = None)"

definition RebuildStale :: "'s OperatorService \<Rightarrow> 's \<Rightarrow> string \<Rightarrow> string \<Rightarrow> 's \<times> (operator_error + string)" where
  "RebuildStale s w did actor =
     (case op_load_intent (os_store s) w did of
        Inl e \<Rightarrow> (w, Inl (StoreRefused e))
      | Inr snap \<Rightarrow>
          if is_state snap \<noteq> IntentState_str IntentReady then (w, Inl (NotEligibleFor did (is_state snap)))
          else if unresolved (os_revision_resolver s) (is_route_id snap) then (w, Inl (NoActiveRevision (is_route_id snap)))
          else if unresolved (os_target_resolver s) (is_route_id snap) then (w, Inl (NoActiveTarget (is_route_id snap)))
          else case os_decode s (is_request_json snap) of
            Inl t \<Rightarrow> (w, Inl (RequestMalformed t))
          | Inr req \<Rightarrow>
              (case renew s w did snap req ''rebuilt'' ''rebuild:'' OriginRebuild (live_target s snap) of
                 (w1, Inl e) \<Rightarrow> (w1, Inl e)
               | (w1, Inr intent) \<Rightarrow>
                   (case op_rerun_intent (os_store s) w1 \<lparr>rr_original_dispatch_id = did, rr_original_decision_id = [],
                      rr_new = intent, rr_actor = actor,
                      rr_reason = ''stored plan invalidated by the active route revision or target'',
                      rr_reason_codes = [IntentReason_str ReasonRouteInvalidated]\<rparr> of
                      (w2, Inl e) \<Rightarrow> (w2, Inl (StoreRefused e))
                    | (w2, Inr summary) \<Rightarrow> (w2, Inr (sm_dispatch_id summary)))))"


section \<open>A service that keeps the calls it makes\<close>

datatype operator_call =
    RetryApplied string string bool
  | RetryMadeDue string bool
  | Reran RerunInput bool

definition traced_operator_store :: "'s OperatorStore \<Rightarrow> ('s, operator_call) recorded OperatorStore" where
  "traced_operator_store st = \<lparr>
     op_load_lineage_intent = lift_read (op_load_lineage_intent st), op_load_intent = lift_read (op_load_intent st),
     op_apply_operator_retry = (\<lambda>w did a why n. note_step (\<lambda>w. op_apply_operator_retry st w did a why n)
       (RetryApplied did why \<circ> is_ok) w),
     op_make_retry_due = (\<lambda>w did a n. note_step (\<lambda>w. op_make_retry_due st w did a n) (RetryMadeDue did \<circ> is_ok) w),
     op_rerun_intent = (\<lambda>w x. note_step (\<lambda>w. op_rerun_intent st w x) (Reran x \<circ> is_ok) w)\<rparr>"

definition traced_operator :: "'s OperatorService \<Rightarrow> ('s, operator_call) recorded OperatorService" where
  "traced_operator s = \<lparr>os_store = traced_operator_store (os_store s), os_now = lift_step (os_now s),
     os_new_id = lift_step (os_new_id s), os_target_scope_resolver = os_target_scope_resolver s,
     os_destination_resolver = os_destination_resolver s, os_revision_resolver = os_revision_resolver s,
     os_target_resolver = os_target_resolver s, os_decode = os_decode s\<rparr>"

lemma traced_operator_simps:
  "os_store (traced_operator s) = traced_operator_store (os_store s)"
  "op_load_lineage_intent (traced_operator_store st) w did = op_load_lineage_intent st (fst w) did"
  "op_load_intent (traced_operator_store st) w did = op_load_intent st (fst w) did"
  "os_decode (traced_operator s) = os_decode s" "live_target (traced_operator s) = live_target s"
  "activeRevision (traced_operator s) = activeRevision s" "laneOf (traced_operator s) = laneOf s"
  "os_revision_resolver (traced_operator s) = os_revision_resolver s"
  "os_target_resolver (traced_operator s) = os_target_resolver s"
  by (simp_all add: traced_operator_def traced_operator_store_def lift_read_def live_target_def activeRevision_def
      laneOf_def fun_eq_iff)

lemma now_no_call: "os_now (traced_operator s) w = (w1, t) \<Longrightarrow> snd w1 = snd w"
  by (simp add: traced_operator_def lift_step_eq)

lemma retry_called:
  "op_apply_operator_retry (traced_operator_store st) w did a why n = (w1, x) \<Longrightarrow> snd w1 = snd w @ [RetryApplied did why (is_ok x)]"
  "op_make_retry_due (traced_operator_store st) w did a n = (w1, x) \<Longrightarrow> snd w1 = snd w @ [RetryMadeDue did (is_ok x)]"
  by (auto simp: traced_operator_store_def dest: note_step_eq)

lemma rerun_called:
  "op_rerun_intent (traced_operator_store st) w y = (w1, x) \<Longrightarrow> snd w1 = snd w @ [Reran y (is_ok x)]"
  by (auto simp: traced_operator_store_def dest: note_step_eq)

text \<open>The intent that \<open>renew\<close> builds, and that it makes no call.\<close>

lemma renew_no_call: "renew (traced_operator s) w did snap req label reason origin target = (w1, x) \<Longrightarrow> snd w1 = snd w"
  by (auto simp: renew_def traced_operator_def Let_def split: sum.splits prod.splits dest!: lift_step_eq)

lemma renew_Inr:
  assumes "renew s w did snap req label reason origin target = (w1, Inr intent)"
  shows "\<exists>lane proj newid nxt key. laneOf s snap req = Inr (lane, proj) \<and>
     BuildRequest (renewed_input snap req lane newid (activeRevision s (is_route_id snap) (tr_revision (tq_route req))) target)
       = Inr (nxt, key) \<and>
     in_idempotency_key intent = key \<and> in_generation intent = is_generation snap + 1 \<and>
     in_content_fingerprint intent = tn_content_fingerprint (tq_activation req) \<and>
     in_manifest_digest intent = is_manifest_digest snap \<and>
     in_route_revision intent = activeRevision s (is_route_id snap) (tr_revision (tq_route req)) \<and>
     (in_target_id intent, in_target_type intent, in_target_scope intent) = target \<and>
     in_request_json intent = MarshalRequest nxt \<and>
     tn_manifest (tq_activation nxt) = manifest (manifestToChanges (tn_manifest (tq_activation req)))"
  using assms
  by (auto simp: renew_def Let_def result_simps renewed_intent_def renewed_input_def BuildRequest_Inr_iff request_of_def
      split: sum.splits prod.splits)

text \<open>The key of a built request is the hash of a text that no request of another generation has.\<close>

lemma fresh_key:
  assumes "BuildRequest i = Inr (r, k)"
  shows "\<exists>t. k = child_key_prefix @ sha256_hex t \<and>
     (\<forall>p q l. BuildRequest p = Inr (q, l) \<longrightarrow> ri_generation p \<noteq> ri_generation i \<longrightarrow> child_text (key_input p) \<noteq> t)"
proof -
  from assms have k: "ChildIdempotency (key_input i) = Inr k" by (simp add: BuildRequest_Inr_iff)
  have "child_text (key_input p) \<noteq> child_text (key_input i)"
    if "BuildRequest p = Inr (q, l)" "ri_generation p \<noteq> ri_generation i" for p q l
  proof -
    from that(1) have "ChildIdempotency (key_input p) = Inr l" by (simp add: BuildRequest_Inr_iff)
    from child_text_eq_iff [OF this k] that(2) show ?thesis by (auto simp: key_input_def)
  qed
  moreover from k have "k = child_key_prefix @ sha256_hex (child_text (key_input i))" by (simp add: ChildIdempotency_Inr_iff)
  ultimately show ?thesis by blast
qed

section \<open>Properties\<close>

text \<open>an explicit retry touches only stopped work. It returns dead-lettered work to ready only with
  a reason, makes a waiting retry due, and makes no call for any other state; its answer names the
  state it asked for exactly when the store agreed (DUR-009).\<close>

theorem retry_touches_stopped_work_only:
  assumes "op_load_lineage_intent (os_store s) w did = Inr intent"
    and "Retry (traced_operator s) (w, []) did actor reason = ((w', calls), result)"
  shows "calls =
      (if sm_state intent = IntentState_str IntentDeadLettered \<and> trim_space reason \<noteq> [] then [RetryApplied did reason (is_ok result)]
       else if sm_state intent = IntentState_str IntentRetryWait then [RetryMadeDue did (is_ok result)] else []) \<and>
    (result = Inr (IntentState_str IntentReady) \<or> result = Inr (IntentState_str IntentRetryWait) \<or> (\<exists>e. result = Inl e)) \<and>
    (calls = [] \<longrightarrow> \<not> is_ok result)"
proof -
  let ?s = "traced_operator s"
  obtain w1 now where n: "os_now ?s (w, []) = (w1, now)" by (rule prod.exhaust)
  obtain w2 x where a: "op_apply_operator_retry (os_store ?s) w1 did actor reason now = (w2, x)" by (rule prod.exhaust)
  obtain w3 y where m: "op_make_retry_due (os_store ?s) w1 did actor now = (w3, y)" by (rule prod.exhaust)
  note calls = retry_called(1) [OF a [unfolded traced_operator_simps]] retry_called(2) [OF m [unfolded traced_operator_simps]]
    now_no_call [OF n]
  have "op_load_lineage_intent (os_store ?s) (w, []) did = Inr intent"
    using assms(1) by (simp add: traced_operator_simps)
  from assms(2) [unfolded Retry_def this sum.case n prod.case a m] calls show ?thesis
    by (cases x; cases y) (auto split: if_splits)
qed

lemma Rerun_calls:
  assumes "Rerun (traced_operator s) (w, []) did actor reason = ((w', calls), result)"
  shows "calls = [] \<and> \<not> is_ok result \<or>
    (\<exists>snap req w1 w2 intent x. op_load_intent (os_store s) w did = Inr snap \<and> trim_space reason \<noteq> [] \<and>
       is_state snap \<in> {IntentState_str IntentReady, IntentState_str IntentDeadLettered} \<and>
       os_decode s (is_request_json snap) = Inr req \<and>
       renew (traced_operator s) w1 did snap req ''rerun'' ''rerun:'' OriginRerun (stored_target snap) = (w2, Inr intent) \<and>
       x = \<lparr>rr_original_dispatch_id = did, rr_original_decision_id = [], rr_new = intent, rr_actor = actor,
         rr_reason = reason, rr_reason_codes = []\<rparr> \<and>
       calls = [Reran x (is_ok result)])"
proof (cases "trim_space reason = [] \<or> \<not> is_ok (op_load_intent (os_store s) w did)")
  case True
  with assms show ?thesis
    by (cases "op_load_intent (os_store s) w did") (auto simp: Rerun_def traced_operator_simps split: if_splits)
next
  case False
  then obtain snap where l: "op_load_intent (os_store s) w did = Inr snap" by (auto simp: is_ok_iff)
  show ?thesis
  proof (cases "is_state snap \<in> {IntentState_str IntentReady, IntentState_str IntentDeadLettered} \<and>
      is_ok (os_decode s (is_request_json snap))")
    case no: False
    with assms False l show ?thesis
      by (cases "os_decode s (is_request_json snap)") (auto simp: Rerun_def traced_operator_simps split: if_splits)
  next
    case True
    then obtain req where d: "os_decode s (is_request_json snap) = Inr req" by (auto simp: is_ok_iff)
    obtain w1 y where r: "renew (traced_operator s) (w, []) did snap req ''rerun'' ''rerun:'' OriginRerun (stored_target snap) = (w1, y)"
      by (rule prod.exhaust)
    have eq: "(case y of Inl e \<Rightarrow> (w1, Inl e)
        | Inr intent \<Rightarrow> (case op_rerun_intent (traced_operator_store (os_store s)) w1
            \<lparr>rr_original_dispatch_id = did, rr_original_decision_id = [], rr_new = intent, rr_actor = actor,
             rr_reason = reason, rr_reason_codes = []\<rparr> of (w2, x) \<Rightarrow> (w2, map_err StoreRefused x))) = ((w', calls), result)"
      using assms True False by (cases y) (simp_all add: Rerun_def traced_operator_simps l d r)
    show ?thesis
    proof (cases y)
      case (Inl e)
      with eq renew_no_call [OF r] show ?thesis by auto
    next
      case (Inr intent)
      let ?x = "\<lparr>rr_original_dispatch_id = did, rr_original_decision_id = [], rr_new = intent, rr_actor = actor,
         rr_reason = reason, rr_reason_codes = []\<rparr>"
      obtain w2 z where k: "op_rerun_intent (traced_operator_store (os_store s)) w1 ?x = (w2, z)" by (rule prod.exhaust)
      have "calls = [Reran ?x (is_ok z)] \<and> is_ok result = is_ok z"
        using eq Inr rerun_called [OF k] renew_no_call [OF r] k by (cases z) auto
      moreover have "trim_space reason \<noteq> []" using False by blast
      ultimately show ?thesis using True
        by (intro disjI2 exI [of _ snap] exI [of _ req] exI [of _ "(w, [])"] exI [of _ w1] exI [of _ intent] exI [of _ ?x] conjI)
          (simp_all add: l d r Inr)
    qed
  qed
qed

text \<open>C20: a rerun is a new generation of the same work. The store is asked to replace an intent only
  when that intent is ready or dead-lettered and a reason is given; the replacement has the next
  generation, keeps the content fingerprint and the manifest digest on record, runs under the
  currently active revision, and its idempotency key is the hash of a text that no request of
  the old generation has (CLI-005, CON-001).\<close>

theorem rerun_is_a_new_generation:
  assumes "Rerun (traced_operator s) (w, []) did actor reason = ((w', calls), result)" and "Reran x ok \<in> set calls"
  shows "\<exists>snap req. calls = [Reran x ok] \<and> ok = is_ok result \<and> op_load_intent (os_store s) w did = Inr snap \<and>
     is_state snap \<in> {IntentState_str IntentReady, IntentState_str IntentDeadLettered} \<and>
     trim_space reason \<noteq> [] \<and> rr_reason x = reason \<and> rr_original_dispatch_id x = did \<and>
     os_decode s (is_request_json snap) = Inr req \<and> in_generation (rr_new x) = is_generation snap + 1 \<and>
     in_content_fingerprint (rr_new x) = tn_content_fingerprint (tq_activation req) \<and>
     in_manifest_digest (rr_new x) = is_manifest_digest snap \<and>
     in_route_revision (rr_new x) = activeRevision s (is_route_id snap) (tr_revision (tq_route req)) \<and>
     (\<exists>t. in_idempotency_key (rr_new x) = child_key_prefix @ sha256_hex t \<and>
        t \<notin> {child_text (key_input p) | p r k. BuildRequest p = Inr (r, k) \<and> ri_generation p = is_generation snap})"
proof -
  from Rerun_calls [OF assms(1)] assms(2) obtain snap req w1 w2 intent where
    l: "op_load_intent (os_store s) w did = Inr snap" "trim_space reason \<noteq> []"
      "is_state snap \<in> {IntentState_str IntentReady, IntentState_str IntentDeadLettered}"
      "os_decode s (is_request_json snap) = Inr req"
    and r: "renew (traced_operator s) w1 did snap req ''rerun'' ''rerun:'' OriginRerun (stored_target snap) = (w2, Inr intent)"
    and x: "x = \<lparr>rr_original_dispatch_id = did, rr_original_decision_id = [], rr_new = intent, rr_actor = actor,
         rr_reason = reason, rr_reason_codes = []\<rparr>" "calls = [Reran x (is_ok result)]"
    by auto
  from renew_Inr [OF r] obtain lane newid nxt key where
    b: "BuildRequest (renewed_input snap req lane newid (activeRevision s (is_route_id snap) (tr_revision (tq_route req)))
        (stored_target snap)) = Inr (nxt, key)" and i: "in_idempotency_key intent = key"
      "in_generation intent = is_generation snap + 1" "in_content_fingerprint intent = tn_content_fingerprint (tq_activation req)"
      "in_manifest_digest intent = is_manifest_digest snap"
      "in_route_revision intent = activeRevision s (is_route_id snap) (tr_revision (tq_route req))"
    by (auto simp: traced_operator_simps)
  from fresh_key [OF b] obtain t where t: "key = child_key_prefix @ sha256_hex t"
    "\<forall>p q k. BuildRequest p = Inr (q, k) \<longrightarrow> ri_generation p \<noteq> is_generation snap + 1 \<longrightarrow> child_text (key_input p) \<noteq> t"
    by (auto simp: renewed_input_def stored_target_def)
  have "t \<notin> {child_text (key_input p) | p r k. BuildRequest p = Inr (r, k) \<and> ri_generation p = is_generation snap}"
    using t(2) by force
  with t(1) have "\<exists>t. key = child_key_prefix @ sha256_hex t \<and>
      t \<notin> {child_text (key_input p) | p r k. BuildRequest p = Inr (r, k) \<and> ri_generation p = is_generation snap}" by blast
  with l x i assms(2) show ?thesis by auto
qed

lemma RebuildStale_calls:
  assumes "RebuildStale (traced_operator s) (w, []) did actor = ((w', calls), result)" and "Reran x ok \<in> set calls"
  shows "\<exists>snap req w1 w2. op_load_intent (os_store s) w did = Inr snap \<and> is_state snap = IntentState_str IntentReady \<and>
     \<not> unresolved (os_revision_resolver s) (is_route_id snap) \<and> \<not> unresolved (os_target_resolver s) (is_route_id snap) \<and>
     os_decode s (is_request_json snap) = Inr req \<and> rr_original_dispatch_id x = did \<and>
     rr_reason_codes x = [IntentReason_str ReasonRouteInvalidated] \<and>
     renew (traced_operator s) w1 did snap req ''rebuilt'' ''rebuild:'' OriginRebuild (live_target s snap) = (w2, Inr (rr_new x))"
proof -
  obtain snap where l: "op_load_intent (os_store s) w did = Inr snap"
    using assms by (cases "op_load_intent (os_store s) w did") (auto simp: RebuildStale_def traced_operator_simps)
  have ok: "is_state snap = IntentState_str IntentReady \<and> \<not> unresolved (os_revision_resolver s) (is_route_id snap) \<and>
      \<not> unresolved (os_target_resolver s) (is_route_id snap)"
    using assms l by (simp add: RebuildStale_def traced_operator_simps split: if_splits)
  obtain req where d: "os_decode s (is_request_json snap) = Inr req"
    using assms l ok by (cases "os_decode s (is_request_json snap)") (auto simp: RebuildStale_def traced_operator_simps)
  obtain w1 y where r: "renew (traced_operator s) (w, []) did snap req ''rebuilt'' ''rebuild:'' OriginRebuild (live_target s snap) = (w1, y)"
    by (rule prod.exhaust)
  let ?x = "\<lambda>intent. \<lparr>rr_original_dispatch_id = did, rr_original_decision_id = [], rr_new = intent, rr_actor = actor,
     rr_reason = ''stored plan invalidated by the active route revision or target'',
     rr_reason_codes = [IntentReason_str ReasonRouteInvalidated]\<rparr>"
  have eq: "(case y of Inl e \<Rightarrow> (w1, Inl e)
      | Inr intent \<Rightarrow> (case op_rerun_intent (traced_operator_store (os_store s)) w1 (?x intent) of
           (w2, Inl e) \<Rightarrow> (w2, Inl (StoreRefused e)) | (w2, Inr summary) \<Rightarrow> (w2, Inr (sm_dispatch_id summary))))
      = ((w', calls), result)"
    using assms(1) ok by (cases y) (simp_all add: RebuildStale_def traced_operator_simps l d r)
  show ?thesis
  proof (cases y)
    case (Inl e)
    with eq renew_no_call [OF r] assms(2) show ?thesis by auto
  next
    case (Inr intent)
    obtain w2 z where k: "op_rerun_intent (traced_operator_store (os_store s)) w1 (?x intent) = (w2, z)" by (rule prod.exhaust)
    have "calls = [Reran (?x intent) (is_ok z)]"
      using eq Inr rerun_called [OF k] renew_no_call [OF r] k by (cases z) auto
    with assms(2) have "x = ?x intent" by simp
    with l ok d r Inr show ?thesis
      by (intro exI [of _ snap] exI [of _ req] exI [of _ "(w, [])"] exI [of _ w1]) simp
  qed
qed

text \<open>a stale intent is rebuilt only under the live configuration. Only a ready intent is replaced,
  and only when every resolver that is wired resolves its route; the replacement then carries the
  active revision and the configured target, so it is not stale in turn, and its request has
  the recorded manifest (POL-008, SEC-010).\<close>

theorem rebuild_uses_the_live_configuration:
  assumes "RebuildStale (traced_operator s) (w, []) did actor = ((w', calls), result)" and "Reran x ok \<in> set calls"
    and "os_revision_resolver s = Some revision" and "os_target_resolver s = Some target"
    and "\<And>route v. revision route = Some v \<Longrightarrow> v \<noteq> []"
  shows "\<exists>snap. op_load_intent (os_store s) w did = Inr snap \<and> is_state snap = IntentState_str IntentReady \<and>
     revision (is_route_id snap) = Some (in_route_revision (rr_new x)) \<and>
     target (is_route_id snap) = Some (in_target_id (rr_new x), in_target_type (rr_new x), in_target_scope (rr_new x)) \<and>
     in_manifest_digest (rr_new x) = is_manifest_digest snap \<and> in_generation (rr_new x) = is_generation snap + 1 \<and>
     rr_reason_codes x = [IntentReason_str ReasonRouteInvalidated]"
proof -
  from RebuildStale_calls [OF assms(1,2)] obtain snap req w1 w2 where
    l: "op_load_intent (os_store s) w did = Inr snap" "is_state snap = IntentState_str IntentReady"
      "\<not> unresolved (os_revision_resolver s) (is_route_id snap)" "\<not> unresolved (os_target_resolver s) (is_route_id snap)"
      "rr_reason_codes x = [IntentReason_str ReasonRouteInvalidated]"
    and r: "renew (traced_operator s) w1 did snap req ''rebuilt'' ''rebuild:'' OriginRebuild (live_target s snap) = (w2, Inr (rr_new x))"
    by blast
  from l(3,4) assms(3,4) obtain v t where v: "revision (is_route_id snap) = Some v" "target (is_route_id snap) = Some t"
    by (auto simp: unresolved_def)
  have "activeRevision s (is_route_id snap) (tr_revision (tq_route req)) = v" "live_target s snap = t"
    using v assms(3,4,5) by (simp_all add: activeRevision_def live_target_def)
  with renew_Inr [OF r] l v show ?thesis by (auto simp: traced_operator_simps)
qed

text \<open>a rerun keeps the target scope of its predecessor. The service holds a resolver for the scope that
  is configured now, documented as the scope a rerun records, but no operation reads it: the
  rerun is the same whatever the resolver says.\<close>

theorem rerun_ignores_the_configured_scope:
  "Rerun (s\<lparr>os_target_scope_resolver := f\<rparr>) w did actor reason = Rerun s w did actor reason"
proof -
  let ?t = "s\<lparr>os_target_scope_resolver := f\<rparr>"
  have same: "laneOf ?t = laneOf s" "activeRevision ?t = activeRevision s" "os_now ?t = os_now s" "os_new_id ?t = os_new_id s"
    "os_store ?t = os_store s" "os_decode ?t = os_decode s"
    by (simp_all add: laneOf_def activeRevision_def fun_eq_iff)
  have renew: "renew ?t w did snap req label reason origin target = renew s w did snap req label reason origin target"
    for w did snap req label reason origin target
    unfolding renew_def same ..
  show ?thesis unfolding Rerun_def same renew ..
qed

section \<open>A sample service\<close>

definition sample_summary :: "string \<Rightarrow> string \<Rightarrow> IntentSummary" where
  "sample_summary did st = \<lparr>sm_dispatch_id = did, sm_decision_id = [], sm_route_id = ''r'', sm_route_revision = ''rev'',
     sm_target_id = ''t'', sm_resource_id = ''vault'', sm_generation = 1, sm_idempotency_key = [],
     sm_content_fingerprint = [], sm_state = st, sm_request = ''{}'', sm_aggregate_id = [],
     sm_destination_id = ''d'', sm_attempt_count = 0, sm_next_attempt_at = [], sm_updated_at = [], sm_created_at = []\<rparr>"

definition sample_service :: "string \<Rightarrow> nat OperatorService" where
  "sample_service st = \<lparr>
     os_store = \<lparr>op_load_lineage_intent = (\<lambda>w did. Inr (sample_summary did st)),
       op_load_intent = (\<lambda>w did. Inr ((stored_snapshot 1)\<lparr>is_state := st\<rparr>)),
       op_apply_operator_retry = (\<lambda>w did a why n. (w + 1, Inr ())), op_make_retry_due = (\<lambda>w did a n. (w + 1, Inr ())),
       op_rerun_intent = (\<lambda>w x. (w + 1, Inr (sample_summary (in_dispatch_id (rr_new x)) ''ready'')))\<rparr>,
     os_now = (\<lambda>w. (w, ''2026-01-01T00:00:00Z'')), os_new_id = (\<lambda>w. (w, Inr ''agg'')),
     os_target_scope_resolver = None, os_destination_resolver = None,
     os_revision_resolver = Some (\<lambda>route. Some ''rev-2''), os_target_resolver = Some (\<lambda>route. Some (''t2'', ''board'', ''x'')),
     os_decode = sample_decode\<rparr>"

theorem retry_touches_stopped_work_only_witness:
  "snd (fst (Retry (traced_operator (sample_service ''dead_lettered'')) (0, []) ''one'' ''op'' ''fixed'')) =
     [RetryApplied ''one'' ''fixed'' True]"
proof -
  let ?s = "sample_service ''dead_lettered''"
  obtain w' calls result where r: "Retry (traced_operator ?s) (0, []) ''one'' ''op'' ''fixed'' = ((w', calls), result)"
    by (metis prod.collapse)
  have l: "op_load_lineage_intent (os_store ?s) 0 ''one'' = Inr (sample_summary ''one'' ''dead_lettered'')"
    by (simp add: sample_service_def)
  have "is_ok (snd (Retry (traced_operator ?s) (0, []) ''one'' ''op'' ''fixed''))" by code_simp
  moreover have "trim_space ''fixed'' \<noteq> []" by code_simp
  ultimately show ?thesis using retry_touches_stopped_work_only [OF l r] r by (simp add: sample_summary_def)
qed

lemma sample_renewed:
  assumes "target = stored_target ((stored_snapshot 1)\<lparr>is_state := st\<rparr>) \<or> target = (''t2'', ''board'', ''x'')"
  shows "\<exists>intent. renew (traced_operator (sample_service st')) (0, []) ''one'' ((stored_snapshot 1)\<lparr>is_state := st\<rparr>)
     stored_request label why origin target = ((0, []), Inr intent)"
proof -
  let ?snap = "(stored_snapshot 1)\<lparr>is_state := st\<rparr>" and ?lane = "\<lparr>td_id = ''d'', td_revision = ''dst-1'', td_workstream = ''w''\<rparr>"
  let ?i = "renewed_input ?snap stored_request ?lane (''one'' @ ''-'' @ label @ ''-'' @ compact_time ''2026-01-01T00:00:00Z'') ''rev-2'' target"
  have d: "is_ok (ParseDigest (''sha256:'' @ replicate 64 (CHR ''0'')))" by code_simp
  have "workspaceBindingForm ''dir:/vault''" by code_simp
  moreover have "valid_utf8 TaskRequestContractVersion" "TaskRequestContractVersion \<noteq> []"
    by (simp_all add: TaskRequestContractVersion_def byte_def)
  ultimately have "\<exists>k. BuildRequest ?i = Inr (request_of ?i k, k)"
    using d assms by (auto simp: BuildRequest_Inr_iff ChildIdempotency_Inr_iff key_input_def renewed_input_def stored_snapshot_def
        stored_request_def request_of_def sample_request_input_def stored_target_def byte_def)
  then obtain k where "BuildRequest ?i = Inr (request_of ?i k, k)" by blast
  moreover have "laneOf (traced_operator (sample_service st')) ?snap stored_request = Inr (?lane, [])"
    by (simp add: traced_operator_simps laneOf_def ResolveDestinationLane_def stored_request_def request_of_def
        sample_request_input_def)
  moreover have "activeRevision (traced_operator (sample_service st')) (is_route_id ?snap) v = ''rev-2''" for v
    by (simp add: traced_operator_simps activeRevision_def sample_service_def)
  ultimately show ?thesis
    by (simp add: renew_def Let_def traced_operator_def lift_step_def sample_service_def)
qed


lemma sample_rerun:
  "\<exists>w' x. Rerun (traced_operator (sample_service ''ready'')) (0, []) ''one'' ''op'' ''again'' =
     ((w', [Reran x True]), Inr (sample_summary (in_dispatch_id (rr_new x)) ''ready''))"
proof -
  let ?s = "sample_service ''ready''" and ?snap = "(stored_snapshot 1)\<lparr>is_state := ''ready''\<rparr>"
  obtain intent where i: "renew (traced_operator ?s) (0, []) ''one'' ?snap stored_request ''rerun'' ''rerun:'' OriginRerun
      (stored_target ?snap) = ((0, []), Inr intent)"
    using sample_renewed by blast
  have "trim_space ''again'' \<noteq> []" by code_simp
  moreover have "os_decode ?s (is_request_json ?snap) = Inr stored_request"
    by (simp add: sample_service_def sample_decode_def stored_snapshot_def)
  moreover have "op_load_intent (os_store ?s) 0 ''one'' = Inr ?snap" by (simp add: sample_service_def)
  ultimately show ?thesis
    by (simp add: Rerun_def traced_operator_simps i)
      (simp add: traced_operator_store_def note_step_def sample_service_def)
qed

theorem rerun_is_a_new_generation_witness:
  "\<exists>x. snd (fst (Rerun (traced_operator (sample_service ''ready'')) (0, []) ''one'' ''op'' ''again'')) = [Reran x True] \<and>
     in_generation (rr_new x) = 2 \<and> in_route_revision (rr_new x) = ''rev-2''"
proof -
  obtain w' x where r: "Rerun (traced_operator (sample_service ''ready'')) (0, []) ''one'' ''op'' ''again'' =
     ((w', [Reran x True]), Inr (sample_summary (in_dispatch_id (rr_new x)) ''ready''))"
    using sample_rerun by blast
  have m: "Reran x True \<in> set [Reran x True]" by simp
  from rerun_is_a_new_generation [OF r m] obtain snap and req :: TaskRequest where
    "op_load_intent (os_store (sample_service ''ready'')) 0 ''one'' = Inr snap"
    "in_generation (rr_new x) = is_generation snap + 1"
    "in_route_revision (rr_new x) = activeRevision (sample_service ''ready'') (is_route_id snap) (tr_revision (tq_route req))"
    by blast
  with r show ?thesis by (auto simp: sample_service_def activeRevision_def stored_snapshot_def)
qed

lemma sample_rebuild:
  "\<exists>w' x. RebuildStale (traced_operator (sample_service ''ready'')) (0, []) ''one'' ''op'' =
     ((w', [Reran x True]), Inr (in_dispatch_id (rr_new x)))"
proof -
  let ?s = "sample_service ''ready''" and ?snap = "(stored_snapshot 1)\<lparr>is_state := ''ready''\<rparr>"
  obtain intent where i: "renew (traced_operator ?s) (0, []) ''one'' ?snap stored_request ''rebuilt'' ''rebuild:'' OriginRebuild
      (''t2'', ''board'', ''x'') = ((0, []), Inr intent)"
    using sample_renewed by blast
  have "os_decode ?s (is_request_json ?snap) = Inr stored_request" "op_load_intent (os_store ?s) 0 ''one'' = Inr ?snap"
    by (simp_all add: sample_service_def sample_decode_def stored_snapshot_def)
  moreover have "\<not> unresolved (os_revision_resolver ?s) (is_route_id ?snap)"
    "\<not> unresolved (os_target_resolver ?s) (is_route_id ?snap)" "live_target ?s ?snap = (''t2'', ''board'', ''x'')"
    by (simp_all add: sample_service_def unresolved_def live_target_def)
  ultimately show ?thesis
    by (simp add: RebuildStale_def traced_operator_simps i)
      (simp add: traced_operator_store_def note_step_def sample_service_def sample_summary_def)
qed

theorem rebuild_uses_the_live_configuration_witness:
  "\<exists>x. snd (fst (RebuildStale (traced_operator (sample_service ''ready'')) (0, []) ''one'' ''op'')) = [Reran x True] \<and>
     in_route_revision (rr_new x) = ''rev-2'' \<and> in_target_id (rr_new x) = ''t2'' \<and> in_generation (rr_new x) = 2"
proof -
  let ?s = "sample_service ''ready''"
  obtain w' x where r: "RebuildStale (traced_operator ?s) (0, []) ''one'' ''op'' = ((w', [Reran x True]), Inr (in_dispatch_id (rr_new x)))"
    using sample_rebuild by blast
  have c: "os_revision_resolver ?s = Some (\<lambda>route. Some ''rev-2'')"
    "os_target_resolver ?s = Some (\<lambda>route. Some (''t2'', ''board'', ''x''))" by (simp_all add: sample_service_def)
  from rebuild_uses_the_live_configuration [OF r _ c, of x True] obtain snap where
    "op_load_intent (os_store ?s) 0 ''one'' = Inr snap" "in_route_revision (rr_new x) = ''rev-2''"
    "in_target_id (rr_new x) = ''t2''" "in_generation (rr_new x) = is_generation snap + 1"
    by auto
  with r show ?thesis by (auto simp: sample_service_def stored_snapshot_def)
qed

end
