(* ===== verification/SyncMembership.thy ===== *)
theory SyncMembership
  imports Fingerprint GoJson
begin

text \<open>
  The signed membership of a synchronisation group
  (\<open>src/internal/domain/syncrecords/membership.go\<close>, \<open>endpoint.go\<close>): what a valid membership
  is, how a plan is built from its predecessor, which plans are transitions, and which
  publishers a revision authorises. Regular expressions are written out as predicates.
  \<open>url.Parse\<close> is an argument. A nil slice and an empty one are the same list: the code
  compares decoded and normalised records only, which have no nil slice.
\<close>

section \<open>Identities\<close>

definition is_lower :: "char \<Rightarrow> bool" where
  "is_lower c = (97 \<le> byte c \<and> byte c \<le> 122)"

definition is_upper :: "char \<Rightarrow> bool" where
  "is_upper c = (65 \<le> byte c \<and> byte c \<le> 90)"

definition id_char :: "char \<Rightarrow> bool" where
  "id_char c = (is_lower c \<or> is_digit c \<or> c = CHR ''-'')"

definition alnum :: "char \<Rightarrow> bool" where
  "alnum c = (is_lower c \<or> is_upper c \<or> is_digit c)"

definition identityPattern :: "string \<Rightarrow> bool" where
  "identityPattern s = (s \<noteq> [] \<and> length s \<le> 63 \<and> is_lower (hd s) \<and> list_all id_char s)"

definition incarnationPattern :: "string \<Rightarrow> bool" where
  "incarnationPattern s =
     (8 \<le> length s \<and> length s \<le> 128 \<and> (is_lower (hd s) \<or> is_digit (hd s)) \<and> list_all id_char s)"

definition oidPattern :: "string \<Rightarrow> bool" where
  "oidPattern s = ((length s = 40 \<or> length s = 64) \<and> list_all is_lower_hex s)"

definition digestPattern :: "string \<Rightarrow> bool" where
  "digestPattern s = (take 7 s = ''sha256:'' \<and> length s = 71 \<and> list_all is_lower_hex (drop 7 s))"

definition fingerprintPattern :: "string \<Rightarrow> bool" where
  "fingerprintPattern s =
     (take 7 s = ''SHA256:'' \<and> length s = 50 \<and>
      list_all (\<lambda>c. alnum c \<or> c = CHR ''+'' \<or> c = CHR ''/'') (take 42 (drop 7 s)) \<and> last s \<in> set ''AEIMQUYcgkosw048'')"

definition endpointHostPattern :: "string \<Rightarrow> bool" where
  "endpointHostPattern s =
     (let host = take (length s - 7) s
      in 7 < length s \<and> drop (length s - 7) s = ''.ts.net'' \<and> alnum (hd host) \<and> alnum (last host) \<and>
         list_all (\<lambda>c. alnum c \<or> c = CHR ''.'' \<or> c = CHR ''-'') host)"

definition endpointPortPattern :: "string \<Rightarrow> bool" where
  "endpointPortPattern s = (s \<noteq> [] \<and> is_digit (hd s) \<and> hd s \<noteq> CHR ''0'' \<and> list_all is_digit s)"

definition has_prefix :: "string \<Rightarrow> string \<Rightarrow> bool" where
  "has_prefix p s = (take (length p) s = p)"

definition has_suffix :: "string \<Rightarrow> string \<Rightarrow> bool" where
  "has_suffix q s = (length q \<le> length s \<and> drop (length s - length q) s = q)"

fun contains :: "string \<Rightarrow> string \<Rightarrow> bool" where
  "contains p s = (has_prefix p s \<or> (case s of [] \<Rightarrow> False | c # t \<Rightarrow> contains p t))"

definition validContentRef :: "string \<Rightarrow> bool" where
  "validContentRef ref =
     (has_prefix ''refs/heads/'' ref \<and> length ''refs/heads/'' < length ref \<and>
      \<not> has_suffix ''/'' ref \<and> \<not> has_suffix ''.'' ref \<and> \<not> contains ''..'' ref \<and> \<not> contains [CHR ''@'', CHR ''{''] ref \<and>
      \<not> contains ''//'' ref \<and> list_all (\<lambda>c. c \<notin> set '' ~^:?*['' \<and> c \<noteq> bs) ref \<and>
      list_all (\<lambda>c. 32 \<le> byte c \<and> byte c \<noteq> 127) ref \<and>
      list_all (\<lambda>part. \<not> has_prefix ''.'' part \<and> \<not> has_suffix ''.lock'' part) (split_on (CHR ''/'') ref))"

section \<open>Endpoints\<close>

text \<open>What the code reads of a parsed URL.\<close>

record URL =
  ur_scheme :: string
  ur_host :: string
  ur_hostname :: string
  ur_port :: string
  ur_opaque :: string
  ur_has_user :: bool
  ur_raw_query :: string
  ur_force_query :: bool
  ur_fragment :: string
  ur_raw_path :: string
  ur_path :: string

datatype endpoint_error =
    ErrEndpointURL
  | ErrEndpointData
  | ErrEndpointPort
  | ErrEndpointPath
  | ErrEndpointHost

type_synonym url_parser = "string \<Rightarrow> string + URL"

definition ParseTailnetEndpoint :: "url_parser \<Rightarrow> string \<Rightarrow> endpoint_error + URL" where
  "ParseTailnetEndpoint parse raw =
     (if \<not> has_prefix ''https://'' raw then Inl ErrEndpointURL
      else case parse raw of
        Inl _ \<Rightarrow> Inl ErrEndpointURL
      | Inr u \<Rightarrow>
          if ur_scheme u \<noteq> ''https'' \<or> ur_host u = [] \<or> ur_hostname u = [] \<or> ur_opaque u \<noteq> [] then Inl ErrEndpointURL
          else if ur_has_user u \<or> ur_raw_query u \<noteq> [] \<or> ur_force_query u \<or> ur_fragment u \<noteq> [] \<or> CHR ''#'' \<in> set raw
          then Inl ErrEndpointData
          else if has_suffix '':'' (ur_host u) then Inl ErrEndpointPort
          else if ur_port u \<noteq> [] \<and> \<not> (endpointPortPattern (ur_port u) \<and> read_nat (ur_port u) \<le> 65535)
          then Inl ErrEndpointPort
          else if ur_raw_path u \<noteq> [] \<or> (ur_path u \<noteq> [] \<and> ur_path u \<noteq> ''/'') then Inl ErrEndpointPath
          else if \<not> endpointHostPattern (ur_hostname u) then Inl ErrEndpointHost
          else Inr u)"

section \<open>Records\<close>

record ActiveMember =
  am_instance_id :: string
  am_state_incarnation_id :: string
  am_publisher_key :: string
  am_endpoint :: string

record HistoricalMember =
  hm_instance_id :: string
  hm_state_incarnation_id :: string
  hm_state :: string
  hm_publisher_key :: string
  hm_reason :: string

record Membership =
  mb_schema_version :: string
  mb_group_id :: string
  mb_predecessor :: "string option"
  mb_content_ref :: string
  mb_content_binding :: string
  mb_contract_digest :: string
  mb_mode :: string
  mb_block_reason :: string
  mb_administrator_key :: string
  mb_active_members :: "ActiveMember list"
  mb_historical_members :: "HistoricalMember list"

record MembershipPlan =
  mp_schema_version :: string
  mp_plan_id :: string
  mp_group_id :: string
  mp_change_kind :: string
  mp_target_instance :: string
  mp_expected_predecessor :: "string option"
  mp_proposed_membership :: Membership
  mp_administrator_key :: string

record Binding =
  bd_group_id :: string
  bd_content_ref :: string
  bd_content_binding :: string
  bd_contract_digest :: string
  bd_administrator_key :: string

datatype sync_error =
    InvalidRecord string
  | InvalidTransition string
  | RemovedKeyFirstSeen

definition MembershipSchema :: string where
  "MembershipSchema = ''agent-dispatch.sync-membership/v1''"

definition PlanSchema :: string where
  "PlanSchema = ''agent-dispatch.sync-membership-plan/v1''"

section \<open>Validation\<close>

definition validActive :: "url_parser \<Rightarrow> ActiveMember \<Rightarrow> bool" where
  "validActive parse m =
     (identityPattern (am_instance_id m) \<and> incarnationPattern (am_state_incarnation_id m) \<and>
      fingerprintPattern (am_publisher_key m) \<and> is_ok (ParseTailnetEndpoint parse (am_endpoint m)))"

definition validHistorical :: "HistoricalMember \<Rightarrow> bool" where
  "validHistorical m =
     (identityPattern (hm_instance_id m) \<and> incarnationPattern (hm_state_incarnation_id m) \<and>
      fingerprintPattern (hm_publisher_key m) \<and> hm_state m \<in> {''retired'', ''revoked''} \<and>
      hm_reason m \<in> {''planned_replacement'', ''incarnation_rotation'', ''key_rotation'', ''credential_compromise'',
        ''operator_revocation''})"

text \<open>The scan of the active members, with the identities seen so far.\<close>

fun active_ok :: "url_parser \<Rightarrow> string \<Rightarrow> string list \<Rightarrow> string list \<Rightarrow> string list \<Rightarrow> ActiveMember list \<Rightarrow> bool" where
  "active_ok parse admin instances incarnations keys [] = True"
| "active_ok parse admin instances incarnations keys (m # ms) =
     (validActive parse m \<and> am_instance_id m \<notin> set instances \<and> am_state_incarnation_id m \<notin> set incarnations \<and>
      am_publisher_key m \<notin> set keys \<and> am_publisher_key m \<noteq> admin \<and>
      active_ok parse admin (am_instance_id m # instances) (am_state_incarnation_id m # incarnations)
        (am_publisher_key m # keys) ms)"

definition history_key :: "HistoricalMember \<Rightarrow> string" where
  "history_key m = hm_instance_id m @ [CHR 0x00] @ hm_state_incarnation_id m @ [CHR 0x00] @ hm_publisher_key m"

fun historical_ok :: "string \<Rightarrow> string list \<Rightarrow> string list \<Rightarrow> HistoricalMember list \<Rightarrow> bool" where
  "historical_ok admin incarnations seen [] = True"
| "historical_ok admin incarnations seen (m # ms) =
     (validHistorical m \<and> hm_state_incarnation_id m \<notin> set incarnations \<and> history_key m \<notin> set seen \<and>
      hm_publisher_key m \<noteq> admin \<and> historical_ok admin (hm_state_incarnation_id m # incarnations) (history_key m # seen) ms)"

definition mode_error :: "Membership \<Rightarrow> sync_error option" where
  "mode_error m =
     (if mb_mode m = ''normal'' then
        (if length (mb_active_members m) \<noteq> 2 \<or> mb_block_reason m \<noteq> []
         then Some (InvalidRecord ''normal membership requires exactly two active members and no block reason'') else None)
      else if mb_mode m = ''blocked_emergency'' then
        (if 1 < length (mb_active_members m) \<or> mb_block_reason m \<notin> {''emergency_revocation'', ''active_member_shortfall''}
         then Some (InvalidRecord ''blocked emergency membership requires at most one active member and a closed block reason'')
         else None)
      else Some (InvalidRecord ''invalid membership mode''))"

definition Membership_Validate :: "url_parser \<Rightarrow> Membership \<Rightarrow> sync_error + unit" where
  "Membership_Validate parse m =
     (if mb_schema_version m \<noteq> MembershipSchema \<or> \<not> identityPattern (mb_group_id m) \<or> \<not> validContentRef (mb_content_ref m) \<or>
         \<not> digestPattern (mb_content_binding m) \<or> \<not> digestPattern (mb_contract_digest m) \<or>
         \<not> fingerprintPattern (mb_administrator_key m)
      then Inl (InvalidRecord ''invalid membership binding'')
      else if (case mb_predecessor m of None \<Rightarrow> False | Some p \<Rightarrow> \<not> oidPattern p) then Inl (InvalidRecord ''invalid predecessor'')
      else if 1000 < length (mb_historical_members m) then Inl (InvalidRecord ''historical membership exceeds 1000 entries'')
      else case mode_error m of
        Some e \<Rightarrow> Inl e
      | None \<Rightarrow>
          if \<not> active_ok parse (mb_administrator_key m) [] [] [] (mb_active_members m)
          then Inl (InvalidRecord ''active member identities, incarnations, and key roles must be valid and distinct'')
          else if \<not> historical_ok (mb_administrator_key m) (map am_state_incarnation_id (mb_active_members m)) []
            (mb_historical_members m)
          then Inl (InvalidRecord ''historical member identities, incarnations, and key roles must be valid and unique'')
          else Inr ())"

section \<open>Normal form and plan identity\<close>

definition active_less :: "ActiveMember \<Rightarrow> ActiveMember \<Rightarrow> bool" where
  "active_less a b = (am_instance_id a < am_instance_id b)"

definition historical_less :: "HistoricalMember \<Rightarrow> HistoricalMember \<Rightarrow> bool" where
  "historical_less a b =
     (if hm_instance_id a \<noteq> hm_instance_id b then hm_instance_id a < hm_instance_id b
      else hm_state_incarnation_id a < hm_state_incarnation_id b)"

definition normalizeMembership :: "Membership \<Rightarrow> Membership" where
  "normalizeMembership m =
     m\<lparr>mb_active_members := sort_by active_less (mb_active_members m),
       mb_historical_members := sort_by historical_less (mb_historical_members m)\<rparr>"

text \<open>What the decoder returns for an encoded string: an invalid byte has become U+FFFD.\<close>

definition recoded :: "string \<Rightarrow> string" where
  "recoded s = concat (runes_of s)"

fun recode :: "json \<Rightarrow> json" where
  "recode (JStr s) = JStr (recoded s)"
| "recode (JObj fs) = JObj (map (\<lambda>(k, v). (k, recode v)) fs)"
| "recode (JArr vs) = JArr (map recode vs)"
| "recode v = v"

definition sorted_json :: "json \<Rightarrow> string" where
  "sorted_json v = render True (sort_keys (recode v))"

definition nullable :: "string option \<Rightarrow> json" where
  "nullable v = (case v of None \<Rightarrow> JNull | Some s \<Rightarrow> JStr s)"

definition active_json :: "ActiveMember \<Rightarrow> json" where
  "active_json m = JObj [(''instance_id'', JStr (am_instance_id m)), (''state_incarnation_id'', JStr (am_state_incarnation_id m)),
     (''publisher_key'', JStr (am_publisher_key m)), (''endpoint'', JStr (am_endpoint m))]"

definition historical_json :: "HistoricalMember \<Rightarrow> json" where
  "historical_json m = JObj [(''instance_id'', JStr (hm_instance_id m)),
     (''state_incarnation_id'', JStr (hm_state_incarnation_id m)), (''state'', JStr (hm_state m)),
     (''publisher_key'', JStr (hm_publisher_key m)), (''reason'', JStr (hm_reason m))]"

definition membership_json :: "Membership \<Rightarrow> json" where
  "membership_json m = JObj ([(''schema_version'', JStr (mb_schema_version m)), (''group_id'', JStr (mb_group_id m)),
     (''predecessor'', nullable (mb_predecessor m)), (''content_ref'', JStr (mb_content_ref m)),
     (''content_binding'', JStr (mb_content_binding m)), (''contract_digest'', JStr (mb_contract_digest m)),
     (''mode'', JStr (mb_mode m))] @ omit_empty ''block_reason'' (mb_block_reason m) @
    [(''administrator_key'', JStr (mb_administrator_key m)), (''active_members'', JArr (map active_json (mb_active_members m))),
     (''historical_members'', JArr (map historical_json (mb_historical_members m)))])"

definition plan_json :: "MembershipPlan \<Rightarrow> json" where
  "plan_json p = JObj ([(''schema_version'', JStr (mp_schema_version p)), (''plan_id'', JStr (mp_plan_id p)),
     (''group_id'', JStr (mp_group_id p)), (''change_kind'', JStr (mp_change_kind p))] @
     omit_empty ''target_instance'' (mp_target_instance p) @
    [(''expected_predecessor'', nullable (mp_expected_predecessor p)),
     (''proposed_membership'', membership_json (mp_proposed_membership p)),
     (''administrator_key'', JStr (mp_administrator_key p))])"

definition plan_id_text :: "MembershipPlan \<Rightarrow> string" where
  "plan_id_text p =
     sorted_json (plan_json (p\<lparr>mp_plan_id := [], mp_proposed_membership := normalizeMembership (mp_proposed_membership p)\<rparr>))"

definition planID :: "MembershipPlan \<Rightarrow> string" where
  "planID p = ''membership-'' @
     sha256_hex (''agent-dispatch.sync-membership-plan-id/v1'' @ [CHR 0x00] @ plan_id_text p @ [CHR 0x0A])"

definition validChange :: "string \<Rightarrow> bool" where
  "validChange kind = (kind \<in> {''bootstrap'', ''endpoint_update'', ''key_rotation'', ''replacement'', ''retirement'',
     ''emergency_revocation'', ''incarnation_registration''})"

definition MembershipPlan_Validate :: "url_parser \<Rightarrow> MembershipPlan \<Rightarrow> sync_error + unit" where
  "MembershipPlan_Validate parse p =
     (let proposed = mp_proposed_membership p in
      if mp_schema_version p \<noteq> PlanSchema \<or> \<not> identityPattern (mp_group_id p) \<or> mp_group_id p \<noteq> mb_group_id proposed \<or>
         mp_administrator_key p \<noteq> mb_administrator_key proposed \<or> \<not> fingerprintPattern (mp_administrator_key p)
      then Inl (InvalidRecord ''plan binding mismatch'')
      else if \<not> validChange (mp_change_kind p) \<or> (mp_target_instance p \<noteq> [] \<and> \<not> identityPattern (mp_target_instance p))
      then Inl (InvalidRecord ''invalid change kind or target instance'')
      else if mp_change_kind p = ''bootstrap'' \<and>
        (mp_expected_predecessor p \<noteq> None \<or> mb_predecessor proposed \<noteq> None \<or> mp_target_instance p \<noteq> [])
      then Inl (InvalidRecord ''bootstrap must not name a predecessor or target'')
      else if mp_change_kind p \<noteq> ''bootstrap'' \<and>
        (mp_target_instance p = [] \<or> mp_expected_predecessor p = None \<or> mb_predecessor proposed = None \<or>
         mp_expected_predecessor p \<noteq> mb_predecessor proposed \<or>
         (case mp_expected_predecessor p of None \<Rightarrow> True | Some oid \<Rightarrow> \<not> oidPattern oid))
      then Inl (InvalidRecord ''update requires one target and exact predecessor'')
      else bindE (Membership_Validate parse proposed) (\<lambda>_.
        if mp_plan_id p \<noteq> planID p then Inl (InvalidRecord ''plan_id does not match canonical plan'') else Inr ()))"


section \<open>Building a plan\<close>

definition activeByID :: "ActiveMember list \<Rightarrow> string \<Rightarrow> ActiveMember option" where
  "activeByID members did = find (\<lambda>m. am_instance_id m = did) members"

definition activeKey :: "Membership \<Rightarrow> string \<Rightarrow> bool" where
  "activeKey m key = list_ex (\<lambda>a. am_publisher_key a = key) (mb_active_members m)"

definition removeActive :: "ActiveMember list \<Rightarrow> string \<Rightarrow> ActiveMember list" where
  "removeActive members did = filter (\<lambda>m. am_instance_id m \<noteq> did) members"

definition historical :: "ActiveMember \<Rightarrow> string \<Rightarrow> string \<Rightarrow> HistoricalMember" where
  "historical m st reason = \<lparr>hm_instance_id = am_instance_id m, hm_state_incarnation_id = am_state_incarnation_id m,
     hm_state = st, hm_publisher_key = am_publisher_key m, hm_reason = reason\<rparr>"

text \<open>The one member that may differ, and how.\<close>

definition changed_only :: "string \<Rightarrow> ActiveMember \<Rightarrow> ActiveMember \<Rightarrow> bool" where
  "changed_only allowed before after =
     (if allowed = ''endpoint'' then
        am_endpoint before \<noteq> am_endpoint after \<and> am_state_incarnation_id before = am_state_incarnation_id after \<and>
        am_publisher_key before = am_publisher_key after
      else if allowed = ''key'' then
        am_publisher_key before \<noteq> am_publisher_key after \<and> am_state_incarnation_id before \<noteq> am_state_incarnation_id after \<and>
        am_endpoint before = am_endpoint after
      else if allowed = ''incarnation'' then
        am_state_incarnation_id before \<noteq> am_state_incarnation_id after \<and> am_publisher_key before = am_publisher_key after \<and>
        am_endpoint before = am_endpoint after
      else True)"

definition same_member :: "ActiveMember list \<Rightarrow> string \<Rightarrow> string \<Rightarrow> ActiveMember \<Rightarrow> bool" where
  "same_member desired target allowed before =
     (case activeByID desired (am_instance_id before) of
        None \<Rightarrow> False
      | Some after \<Rightarrow>
          if am_instance_id before \<noteq> target then before = after else changed_only allowed before after)"

definition sameExcept :: "ActiveMember list \<Rightarrow> ActiveMember list \<Rightarrow> string \<Rightarrow> string \<Rightarrow> bool" where
  "sameExcept old desired target allowed =
     (length old = length desired \<and> list_all (same_member desired target allowed) old \<and>
      list_ex (\<lambda>m. am_instance_id m = target) old)"

definition retained_in :: "ActiveMember list \<Rightarrow> ActiveMember \<Rightarrow> bool" where
  "retained_in desired m = (activeByID desired (am_instance_id m) = Some m)"

definition validReplacement :: "ActiveMember list \<Rightarrow> ActiveMember list \<Rightarrow> string \<Rightarrow> bool" where
  "validReplacement old desired target =
     (length old = 2 \<and> length desired = 2 \<and> list_all (retained_in desired) (removeActive old target) \<and>
      length (removeActive old target) = 1 \<and> activeByID desired target = None)"

definition validRecovery :: "url_parser \<Rightarrow> ActiveMember list \<Rightarrow> ActiveMember list \<Rightarrow> string \<Rightarrow> bool" where
  "validRecovery parse old desired target =
     (length old \<le> 1 \<and> length desired = 2 \<and>
      (case activeByID desired target of None \<Rightarrow> False | Some added \<Rightarrow> validActive parse added) \<and>
      list_all (retained_in desired) old)"

definition remember :: "HistoricalMember \<Rightarrow> Membership \<Rightarrow> Membership" where
  "remember h m = m\<lparr>mb_historical_members := mb_historical_members m @ [h]\<rparr>"

text \<open>The change of one kind to the proposed membership, before its validation.\<close>

definition change_of ::
  "url_parser \<Rightarrow> string \<Rightarrow> string \<Rightarrow> Membership \<Rightarrow> Membership \<Rightarrow> sync_error + Membership" where
  "change_of parse kind target current proposed =
     (let old = activeByID (mb_active_members current) target; two = (length (mb_active_members current) = 2);
          same = sameExcept (mb_active_members current) (mb_active_members proposed) target in
      if kind = ''retirement'' \<or> kind = ''emergency_revocation'' then
        (case old of
           None \<Rightarrow> Inl (InvalidTransition ''target instance is not active'')
         | Some m \<Rightarrow>
             (let (st, reason, block) =
                (if kind = ''emergency_revocation'' then (''revoked'', ''credential_compromise'', ''emergency_revocation'')
                 else (''retired'', ''planned_replacement'', ''active_member_shortfall''))
              in Inr (remember (historical m st reason)
                   (proposed\<lparr>mb_active_members := removeActive (mb_active_members current) target,
                      mb_mode := ''blocked_emergency'', mb_block_reason := block\<rparr>))))
      else if kind = ''endpoint_update'' then
        (if old = None \<or> \<not> two \<or> \<not> same ''endpoint''
         then Inl (InvalidTransition ''endpoint update must change only the target endpoint'') else Inr proposed)
      else if kind = ''key_rotation'' then
        (case old of
           None \<Rightarrow> Inl (InvalidTransition ''key rotation must change only target publisher key and incarnation'')
         | Some m \<Rightarrow>
             if \<not> two \<or> \<not> same ''key''
             then Inl (InvalidTransition ''key rotation must change only target publisher key and incarnation'')
             else Inr (remember (historical m ''retired'' ''key_rotation'') proposed))
      else if kind = ''incarnation_registration'' then
        (case old of
           None \<Rightarrow> Inl (InvalidTransition ''incarnation registration must change only the target incarnation'')
         | Some m \<Rightarrow>
             if \<not> two \<or> \<not> same ''incarnation''
             then Inl (InvalidTransition ''incarnation registration must change only the target incarnation'')
             else Inr (remember (historical m ''retired'' ''incarnation_rotation'') proposed))
      else if kind = ''replacement'' then
        (if mb_mode current = ''normal'' then
           (case old of
              None \<Rightarrow> Inl (InvalidTransition ''replacement must remove the target and add exactly one configured member'')
            | Some m \<Rightarrow>
                if \<not> validReplacement (mb_active_members current) (mb_active_members proposed) target
                then Inl (InvalidTransition ''replacement must remove the target and add exactly one configured member'')
                else Inr (remember (historical m ''retired'' ''planned_replacement'') proposed))
         else if mb_mode current = ''blocked_emergency'' then
           (if old \<noteq> None \<or> \<not> validRecovery parse (mb_active_members current) (mb_active_members proposed) target
            then Inl (InvalidTransition ''blocked recovery must add the target beside the retained member'') else Inr proposed)
         else Inl (InvalidTransition ''unsupported current membership mode''))
      else Inl (InvalidTransition ''unsupported membership change''))"

definition applyChange ::
  "url_parser \<Rightarrow> string \<Rightarrow> string \<Rightarrow> Membership option \<Rightarrow> Membership \<Rightarrow> sync_error + Membership" where
  "applyChange parse kind target current proposed =
     (if kind = ''bootstrap'' then
        (if current \<noteq> None \<or> target \<noteq> [] \<or> length (mb_active_members proposed) \<noteq> 2
         then Inl (InvalidTransition ''bootstrap requires an absent history and two configured members'')
         else bindE (Membership_Validate parse proposed) (\<lambda>_. Inr proposed))
      else case current of
        None \<Rightarrow> Inl (InvalidTransition ''a non-bootstrap change requires current membership'')
      | Some cur \<Rightarrow>
          if mb_predecessor proposed = None then Inl (InvalidTransition ''a non-bootstrap change requires current membership'')
          else if target = [] then Inl (InvalidTransition ''a non-bootstrap change requires --instance'')
          else bindE (change_of parse kind target cur proposed) (\<lambda>m.
            bindE (Membership_Validate parse m) (\<lambda>_. Inr m)))"

definition proposed_from :: "Membership option \<Rightarrow> string option \<Rightarrow> ActiveMember list \<Rightarrow> Binding \<Rightarrow> Membership" where
  "proposed_from current predecessor desired binding =
     \<lparr>mb_schema_version = MembershipSchema, mb_group_id = bd_group_id binding, mb_predecessor = predecessor,
      mb_content_ref = bd_content_ref binding, mb_content_binding = bd_content_binding binding,
      mb_contract_digest = bd_contract_digest binding, mb_mode = ''normal'', mb_block_reason = [],
      mb_administrator_key = bd_administrator_key binding, mb_active_members = desired,
      mb_historical_members = (case current of None \<Rightarrow> [] | Some cur \<Rightarrow> mb_historical_members cur)\<rparr>"

definition NewPlan ::
  "url_parser \<Rightarrow> string \<Rightarrow> string \<Rightarrow> Membership option \<Rightarrow> string option \<Rightarrow> ActiveMember list \<Rightarrow> Binding \<Rightarrow>
   sync_error + MembershipPlan" where
  "NewPlan parse kind target current predecessor desired binding =
     bindE (applyChange parse kind target current (proposed_from current predecessor desired binding)) (\<lambda>m.
       let plan = \<lparr>mp_schema_version = PlanSchema, mp_plan_id = [], mp_group_id = bd_group_id binding, mp_change_kind = kind,
             mp_target_instance = target, mp_expected_predecessor = predecessor,
             mp_proposed_membership = normalizeMembership m, mp_administrator_key = bd_administrator_key binding\<rparr>;
           named = plan\<lparr>mp_plan_id := planID plan\<rparr>
       in bindE (MembershipPlan_Validate parse named) (\<lambda>_. Inr named))"

definition RebuildPlan ::
  "url_parser \<Rightarrow> MembershipPlan \<Rightarrow> Membership option \<Rightarrow> ActiveMember list \<Rightarrow> Binding \<Rightarrow> sync_error + MembershipPlan" where
  "RebuildPlan parse plan current desired binding =
     NewPlan parse (mp_change_kind plan) (mp_target_instance plan) current (mp_expected_predecessor plan) desired binding"

definition binding_of :: "Membership \<Rightarrow> Binding" where
  "binding_of m = \<lparr>bd_group_id = mb_group_id m, bd_content_ref = mb_content_ref m, bd_content_binding = mb_content_binding m,
     bd_contract_digest = mb_contract_digest m, bd_administrator_key = mb_administrator_key m\<rparr>"

definition ValidateTransition :: "url_parser \<Rightarrow> Membership \<Rightarrow> MembershipPlan \<Rightarrow> sync_error + unit" where
  "ValidateTransition parse current plan =
     bindE (NewPlan parse (mp_change_kind plan) (mp_target_instance plan) (Some current) (mp_expected_predecessor plan)
         (mb_active_members (mp_proposed_membership plan)) (binding_of current)) (\<lambda>rebuilt.
       if rebuilt \<noteq> plan then Inl (InvalidTransition ''plan is not the unique transition from its predecessor'') else Inr ())"

definition AuthorizePublisher :: "Membership \<Rightarrow> Membership \<Rightarrow> string \<Rightarrow> bool \<Rightarrow> bool \<Rightarrow> sync_error + unit" where
  "AuthorizePublisher atRevision currentRevision key previouslyVerified administratorCheckpoint =
     (if \<not> activeKey atRevision key then Inl (InvalidTransition ''publisher key was not active at the named revision'')
      else if activeKey currentRevision key \<or> previouslyVerified \<or> administratorCheckpoint then Inr ()
      else Inl RemovedKeyFirstSeen)"

section \<open>What a valid membership is\<close>

lemma active_ok_iff:
  "active_ok parse admin is cs ks ms \<longleftrightarrow>
     list_all (validActive parse) ms \<and>
     distinct (map am_instance_id ms) \<and> set (map am_instance_id ms) \<inter> set is = {} \<and>
     distinct (map am_state_incarnation_id ms) \<and> set (map am_state_incarnation_id ms) \<inter> set cs = {} \<and>
     distinct (map am_publisher_key ms) \<and> set (map am_publisher_key ms) \<inter> set ks = {} \<and>
     admin \<notin> set (map am_publisher_key ms)"
  by (induction parse admin "is" cs ks ms rule: active_ok.induct) auto

lemma historical_ok_D:
  "historical_ok admin cs seen ms \<Longrightarrow> list_all validHistorical ms \<and> distinct (map hm_state_incarnation_id ms) \<and>
     set (map hm_state_incarnation_id ms) \<inter> set cs = {} \<and> admin \<notin> set (map hm_publisher_key ms)"
  by (induction admin cs seen ms rule: historical_ok.induct) auto

lemma Membership_Validate_D:
  assumes "Membership_Validate parse m = Inr ()"
  shows "list_all (validActive parse) (mb_active_members m)" "distinct (map am_instance_id (mb_active_members m))"
    "distinct (map am_publisher_key (mb_active_members m))"
    "distinct (map am_state_incarnation_id (mb_active_members m) @ map hm_state_incarnation_id (mb_historical_members m))"
    "mb_administrator_key m \<notin> set (map am_publisher_key (mb_active_members m) @ map hm_publisher_key (mb_historical_members m))"
    "length (mb_active_members m) \<le> 2" "mode_error m = None"
  using assms historical_ok_D [of "mb_administrator_key m" "map am_state_incarnation_id (mb_active_members m)" "[]"
      "mb_historical_members m"]
  by (auto simp: Membership_Validate_def active_ok_iff mode_error_def split: if_splits option.splits)

lemma normalize_members [simp]:
  "set (mb_active_members (normalizeMembership m)) = set (mb_active_members m)"
  "mset (mb_historical_members (normalizeMembership m)) = mset (mb_historical_members m)"
  "set (mb_historical_members (normalizeMembership m)) = set (mb_historical_members m)"
  "mb_group_id (normalizeMembership m) = mb_group_id m"
  "mb_administrator_key (normalizeMembership m) = mb_administrator_key m"
  "mb_predecessor (normalizeMembership m) = mb_predecessor m"
  by (simp_all add: normalizeMembership_def)

text \<open>The two comparison closures compare keys.\<close>

interpretation active_order: key_order active_less am_instance_id
  by unfold_locales (simp add: active_less_def)

interpretation historical_order: key_order historical_less "\<lambda>h. (hm_instance_id h, hm_state_incarnation_id h)"
  by unfold_locales (auto simp: historical_less_def)

section \<open>Transitions\<close>

lemma NewPlan_D:
  assumes "NewPlan parse kind target current predecessor desired binding = Inr plan"
  shows "\<exists>m. applyChange parse kind target current (proposed_from current predecessor desired binding) = Inr m \<and>
     mp_proposed_membership plan = normalizeMembership m \<and> Membership_Validate parse (normalizeMembership m) = Inr () \<and>
     mp_change_kind plan = kind \<and> mp_target_instance plan = target \<and> mp_expected_predecessor plan = predecessor"
proof -
  let ?q = "\<lambda>m. \<lparr>mp_schema_version = PlanSchema, mp_plan_id = [], mp_group_id = bd_group_id binding, mp_change_kind = kind,
     mp_target_instance = target, mp_expected_predecessor = predecessor,
     mp_proposed_membership = normalizeMembership m, mp_administrator_key = bd_administrator_key binding\<rparr>"
  from assms obtain m where m: "applyChange parse kind target current (proposed_from current predecessor desired binding) = Inr m"
    and v: "MembershipPlan_Validate parse ((?q m)\<lparr>mp_plan_id := planID (?q m)\<rparr>) = Inr ()"
    and p: "(?q m)\<lparr>mp_plan_id := planID (?q m)\<rparr> = plan"
    unfolding NewPlan_def Let_def by (auto simp: bindE_Inr_iff)
  from v have "Membership_Validate parse (normalizeMembership m) = Inr ()"
    by (simp add: MembershipPlan_Validate_def Let_def bindE_Inr_iff split: if_splits)
  with m show ?thesis unfolding p [symmetric] by simp
qed

text \<open>An admitted transition is a change of one kind, applied to the current membership.\<close>

lemma ValidateTransition_D:
  assumes "ValidateTransition parse cur plan = Inr ()"
  shows "\<exists>m. change_of parse (mp_change_kind plan) (mp_target_instance plan) cur
       (proposed_from (Some cur) (mp_expected_predecessor plan) (mb_active_members (mp_proposed_membership plan)) (binding_of cur)) = Inr m \<and>
     mp_proposed_membership plan = normalizeMembership m \<and> Membership_Validate parse (mp_proposed_membership plan) = Inr () \<and>
     mp_change_kind plan \<noteq> ''bootstrap''"
proof -
  from assms have n: "NewPlan parse (mp_change_kind plan) (mp_target_instance plan) (Some cur) (mp_expected_predecessor plan)
         (mb_active_members (mp_proposed_membership plan)) (binding_of cur) = Inr plan"
    by (auto simp: ValidateTransition_def result_simps split: if_splits)
  from NewPlan_D [OF n] show ?thesis by (auto simp: applyChange_def result_simps split: if_splits)
qed

text \<open>Effect of a change on the members: which kinds remember the target, and who stays.\<close>

lemma activeByID_Some: "activeByID ms did = Some b \<Longrightarrow> b \<in> set ms \<and> am_instance_id b = did"
  by (auto simp: activeByID_def find_Some_iff)

lemma sameExcept_keeps:
  "sameExcept old desired target allowed \<Longrightarrow> a \<in> set old \<Longrightarrow> am_instance_id a \<noteq> target \<Longrightarrow> a \<in> set desired"
  by (auto simp: sameExcept_def same_member_def list_all_iff split: option.splits dest!: bspec dest: activeByID_Some)

lemma retained_keeps: "list_all (retained_in desired) old \<Longrightarrow> a \<in> set old \<Longrightarrow> a \<in> set desired"
  by (auto simp: retained_in_def list_all_iff dest: activeByID_Some)

lemma change_keeps_others:
  assumes "change_of parse kind target cur proposed = Inr m" and "a \<in> set (mb_active_members cur)"
    and "am_instance_id a \<noteq> target"
  shows "a \<in> set (mb_active_members m)"
  using assms sameExcept_keeps [OF _ assms(2,3)] retained_keeps [OF _ assms(2)]
    retained_keeps [of "mb_active_members proposed" "removeActive (mb_active_members cur) target" a]
  by (auto simp: change_of_def Let_def remember_def removeActive_def validReplacement_def validRecovery_def
      split: if_splits option.splits)

lemma change_remembers_history:
  assumes "change_of parse kind target cur proposed = Inr m"
  shows "mset (mb_historical_members proposed) \<subseteq># mset (mb_historical_members m)"
  using assms by (auto simp: change_of_def Let_def remember_def split: if_splits option.splits)

lemma find_distinct: "distinct (map f xs) \<Longrightarrow> a \<in> set xs \<Longrightarrow> f a = x \<Longrightarrow> find (\<lambda>m. f m = x) xs = Some a"
  by (induction xs) auto

lemma change_remembers_target:
  assumes "change_of parse kind target cur proposed = Inr m" and "distinct (map am_instance_id (mb_active_members cur))"
    and "a \<in> set (mb_active_members cur)" and "am_instance_id a = target"
  shows "(\<exists>b \<in> set (mb_active_members m). am_instance_id b = target \<and> am_state_incarnation_id b = am_state_incarnation_id a \<and>
      am_publisher_key b = am_publisher_key a) \<or> (\<exists>st why. historical a st why \<in> set (mb_historical_members m))"
proof -
  have old: "activeByID (mb_active_members cur) target = Some a"
    unfolding activeByID_def by (rule find_distinct [OF assms(2-4)])
  have same: "\<exists>b \<in> set desired. am_instance_id b = target \<and> changed_only allowed a b"
    if "sameExcept (mb_active_members cur) desired target allowed" for desired allowed
    using that assms(3,4)
    by (fastforce simp: sameExcept_def same_member_def list_all_iff split: option.splits dest: activeByID_Some)
  show ?thesis
  proof (cases "kind = ''endpoint_update''")
    case True
    with assms(1) old same [of "mb_active_members proposed" "''endpoint''"] show ?thesis
      by (auto simp: change_of_def Let_def changed_only_def split: if_splits)
  next
    case False
    with assms(1) old have "\<exists>st why. mb_historical_members m = mb_historical_members proposed @ [historical a st why]"
      by (auto simp: change_of_def Let_def remember_def historical_def split: if_splits)
    then obtain st why where "mb_historical_members m = mb_historical_members proposed @ [historical a st why]" by blast
    then have "historical a st why \<in> set (mb_historical_members m)" by simp
    then show ?thesis by blast
  qed
qed

section \<open>Verified histories\<close>

text \<open>A member as the history remembers it.\<close>

definition identity_of :: "ActiveMember \<Rightarrow> string \<times> string \<times> string" where
  "identity_of a = (am_instance_id a, am_state_incarnation_id a, am_publisher_key a)"

definition past_identity :: "HistoricalMember \<Rightarrow> string \<times> string \<times> string" where
  "past_identity h = (hm_instance_id h, hm_state_incarnation_id h, hm_publisher_key h)"

definition known_identities :: "Membership \<Rightarrow> (string \<times> string \<times> string) set" where
  "known_identities m = identity_of ` set (mb_active_members m) \<union> past_identity ` set (mb_historical_members m)"

lemma past_identity_historical [simp]: "past_identity (historical a st why) = identity_of a"
  by (simp add: past_identity_def identity_of_def historical_def)

lemma transition_remembers:
  assumes "Membership_Validate parse cur = Inr ()" and "ValidateTransition parse cur plan = Inr ()"
  shows "known_identities cur \<subseteq> known_identities (mp_proposed_membership plan)"
    "mset (mb_historical_members cur) \<subseteq># mset (mb_historical_members (mp_proposed_membership plan))"
proof -
  from ValidateTransition_D [OF assms(2)] obtain m where
    c: "change_of parse (mp_change_kind plan) (mp_target_instance plan) cur
       (proposed_from (Some cur) (mp_expected_predecessor plan) (mb_active_members (mp_proposed_membership plan)) (binding_of cur)) = Inr m"
    and p: "mp_proposed_membership plan = normalizeMembership m" by blast
  have hist: "mset (mb_historical_members cur) \<subseteq># mset (mb_historical_members m)"
    using change_remembers_history [OF c] by (simp add: proposed_from_def)
  then show "mset (mb_historical_members cur) \<subseteq># mset (mb_historical_members (mp_proposed_membership plan))"
    by (simp add: p)
  have "identity_of a \<in> known_identities m" if a: "a \<in> set (mb_active_members cur)" for a
  proof (cases "am_instance_id a = mp_target_instance plan")
    case True
    from change_remembers_target [OF c Membership_Validate_D(2) [OF assms(1)] a True] show ?thesis
    proof (elim disjE bexE exE conjE)
      fix b assume "b \<in> set (mb_active_members m)" "am_instance_id b = mp_target_instance plan"
        "am_state_incarnation_id b = am_state_incarnation_id a" "am_publisher_key b = am_publisher_key a"
      with True have "b \<in> set (mb_active_members m)" "identity_of a = identity_of b" by (simp_all add: identity_of_def)
      then show ?thesis unfolding known_identities_def by blast
    next
      fix st why assume h: "historical a st why \<in> set (mb_historical_members m)"
      have "past_identity (historical a st why) = identity_of a" by simp
      with h show ?thesis unfolding known_identities_def by (metis UnI2 image_eqI)
    qed
  next
    case False
    from change_keeps_others [OF c a False] show ?thesis unfolding known_identities_def by blast
  qed
  moreover have "past_identity h \<in> known_identities m" if "h \<in> set (mb_historical_members cur)" for h
    using mset_subset_eqD [OF hist, of h] that by (auto simp: known_identities_def)
  moreover have "known_identities (mp_proposed_membership plan) = known_identities m"
    by (simp add: known_identities_def p)
  ultimately show "known_identities cur \<subseteq> known_identities (mp_proposed_membership plan)"
    unfolding known_identities_def [of cur] by (simp add: image_subset_iff)
qed

section \<open>Properties\<close>

text \<open>C29: a membership change forgets nobody and touches one member only. After an admitted transition
  every identity (instance, incarnation, key) that was active or historical is active or
  historical still, the old history is contained in the new one, every active member but the
  target is unchanged, and the group, the content binding and the administrator key are the
  same (SYN-005).\<close>

theorem membership_forgets_nobody:
  assumes "Membership_Validate parse cur = Inr ()" and "ValidateTransition parse cur plan = Inr ()"
  shows "known_identities cur \<subseteq> known_identities (mp_proposed_membership plan) \<and>
    mset (mb_historical_members cur) \<subseteq># mset (mb_historical_members (mp_proposed_membership plan)) \<and>
    {a \<in> set (mb_active_members cur). am_instance_id a \<noteq> mp_target_instance plan}
      \<subseteq> set (mb_active_members (mp_proposed_membership plan)) \<and>
    binding_of (mp_proposed_membership plan) = binding_of cur"
proof -
  from ValidateTransition_D [OF assms(2)] obtain m where
    c: "change_of parse (mp_change_kind plan) (mp_target_instance plan) cur
       (proposed_from (Some cur) (mp_expected_predecessor plan) (mb_active_members (mp_proposed_membership plan)) (binding_of cur)) = Inr m"
    and p: "mp_proposed_membership plan = normalizeMembership m" by blast
  have "binding_of m = binding_of (proposed_from (Some cur) (mp_expected_predecessor plan)
      (mb_active_members (mp_proposed_membership plan)) (binding_of cur))"
    using c by (auto simp: change_of_def Let_def remember_def binding_of_def split: if_splits option.splits)
  then have "binding_of (mp_proposed_membership plan) = binding_of cur"
    by (simp add: p binding_of_def proposed_from_def normalizeMembership_def)
  moreover have "{a \<in> set (mb_active_members cur). am_instance_id a \<noteq> mp_target_instance plan}
      \<subseteq> set (mb_active_members (mp_proposed_membership plan))"
    using change_keeps_others [OF c] by (auto simp: p)
  ultimately show ?thesis using transition_remembers [OF assms] by blast
qed

lemma removed_key_inactive:
  assumes v: "Membership_Validate parse cur = Inr ()" and a: "a \<in> set (mb_active_members cur)" "am_instance_id a = target"
    and others: "\<And>b. b \<in> set next \<Longrightarrow> am_instance_id b = target \<Longrightarrow> am_publisher_key b \<noteq> am_publisher_key a"
    and kept: "\<And>b. b \<in> set next \<Longrightarrow> am_instance_id b \<noteq> target \<Longrightarrow> b \<in> set (mb_active_members cur)"
  shows "am_publisher_key a \<notin> am_publisher_key ` set next"
proof
  assume "am_publisher_key a \<in> am_publisher_key ` set next"
  then obtain b where b: "b \<in> set next" "am_publisher_key b = am_publisher_key a" by auto
  then have n: "am_instance_id b \<noteq> target" using others by blast
  with b kept have "b \<in> set (mb_active_members cur)" by blast
  with a(1) b(2) Membership_Validate_D(3) [OF v] have "b = a" by (auto simp: distinct_map inj_on_def)
  with n a(2) show False by simp
qed

lemma sameExcept_members:
  assumes s: "sameExcept old desired target allowed" and d: "distinct (map am_instance_id desired)"
    and o': "distinct (map am_instance_id old)" and b: "b \<in> set desired"
  shows "am_instance_id b \<noteq> target \<Longrightarrow> b \<in> set old"
    "a \<in> set old \<Longrightarrow> am_instance_id a = target \<Longrightarrow> am_instance_id b = target \<Longrightarrow> changed_only allowed a b"
proof -
  have same: "\<exists>c \<in> set desired. am_instance_id c = am_instance_id a \<and>
      (if am_instance_id a \<noteq> target then a = c else changed_only allowed a c)" if "a \<in> set old" for a
    using s that by (fastforce simp: sameExcept_def same_member_def list_all_iff split: option.splits dest: activeByID_Some)
  have one: "c = b" if "c \<in> set desired" "am_instance_id c = am_instance_id b" for c
    using that b d by (auto simp: distinct_map inj_on_def)
  have "am_instance_id a \<in> set (map am_instance_id desired)" if "a \<in> set old" for a
    using same [OF that] by (metis image_eqI list.set_map)
  then have "set (map am_instance_id old) \<subseteq> set (map am_instance_id desired)" by auto
  moreover have "card (set (map am_instance_id old)) = card (set (map am_instance_id desired))"
    using s d o' by (simp only: distinct_card length_map sameExcept_def)
  ultimately have "set (map am_instance_id old) = set (map am_instance_id desired)" by (intro card_subset_eq) auto
  then obtain a where a: "a \<in> set old" "am_instance_id a = am_instance_id b" using b by (metis (no_types) image_iff image_eqI list.set_map)
  show "b \<in> set old" if "am_instance_id b \<noteq> target" using same [OF a(1)] a that one by auto
  show "changed_only allowed a b" if "a \<in> set old" "am_instance_id a = target" "am_instance_id b = target" for a
    using same [OF that(1)] that one by auto
qed

lemma change_removes:
  "change_of parse kind target cur proposed = Inr m \<Longrightarrow> kind \<in> {''emergency_revocation'', ''retirement''} \<Longrightarrow>
   mb_active_members m = removeActive (mb_active_members cur) target"
  by (auto simp: change_of_def Let_def remember_def split: option.splits if_splits)

lemma removal_deactivates:
  assumes v: "Membership_Validate parse cur = Inr ()" and t: "ValidateTransition parse cur plan = Inr ()"
    and k: "mp_change_kind plan \<in> {''emergency_revocation'', ''retirement'', ''key_rotation''}"
    and a: "a \<in> set (mb_active_members cur)" "am_instance_id a = mp_target_instance plan"
  shows "\<not> activeKey (mp_proposed_membership plan) (am_publisher_key a)"
proof -
  let ?desired = "mb_active_members (mp_proposed_membership plan)" and ?t = "mp_target_instance plan"
  from ValidateTransition_D [OF t] obtain m where
    c: "change_of parse (mp_change_kind plan) ?t cur
       (proposed_from (Some cur) (mp_expected_predecessor plan) ?desired (binding_of cur)) = Inr m"
    and p: "mp_proposed_membership plan = normalizeMembership m"
    and n: "Membership_Validate parse (mp_proposed_membership plan) = Inr ()" by blast
  have "am_publisher_key a \<notin> am_publisher_key ` set ?desired"
  proof (rule removed_key_inactive [OF v a])
    fix b assume b: "b \<in> set ?desired"
    show "am_instance_id b = ?t \<Longrightarrow> am_publisher_key b \<noteq> am_publisher_key a"
    proof (cases "mp_change_kind plan = ''key_rotation''")
      case True
      with c have s: "sameExcept (mb_active_members cur) ?desired ?t ''key''"
        by (auto simp: change_of_def Let_def proposed_from_def split: option.splits if_splits)
      assume "am_instance_id b = ?t"
      from sameExcept_members(2) [OF s Membership_Validate_D(2) [OF n] Membership_Validate_D(2) [OF v] b a this]
      show ?thesis by (auto simp: changed_only_def)
    next
      case False
      assume "am_instance_id b = ?t"
      with b k False change_removes [OF c] show ?thesis by (auto simp: p removeActive_def)
    qed
    show "am_instance_id b \<noteq> ?t \<Longrightarrow> b \<in> set (mb_active_members cur)"
    proof (cases "mp_change_kind plan = ''key_rotation''")
      case True
      with c have s: "sameExcept (mb_active_members cur) ?desired ?t ''key''"
        by (auto simp: change_of_def Let_def proposed_from_def split: option.splits if_splits)
      assume "am_instance_id b \<noteq> ?t"
      with sameExcept_members(1) [OF s Membership_Validate_D(2) [OF n] Membership_Validate_D(2) [OF v] b] show ?thesis .
    next
      case False
      with b k change_removes [OF c] show ?thesis by (auto simp: p removeActive_def)
    qed
  qed
  then show ?thesis unfolding activeKey_def list_ex_iff by (metis image_eqI)
qed

text \<open>C30: a removed key authorises nothing new. Once a member was revoked or retired, or its key was rotated,
  its old key is no publisher any more, and evidence that names the revision where it still was
  one is refused unless it was verified before or an administrator checkpoint covers it
  (SYN-005).\<close>

theorem removed_key_authorises_nothing_new:
  assumes "Membership_Validate parse cur = Inr ()" and "ValidateTransition parse cur plan = Inr ()"
    and "mp_change_kind plan \<in> {''emergency_revocation'', ''retirement'', ''key_rotation''}"
    and "a \<in> set (mb_active_members cur)" and "am_instance_id a = mp_target_instance plan"
  shows "\<not> activeKey (mp_proposed_membership plan) (am_publisher_key a) \<and>
    AuthorizePublisher cur (mp_proposed_membership plan) (am_publisher_key a) seen checkpoint =
      (if seen \<or> checkpoint then Inr () else Inl RemovedKeyFirstSeen)"
proof -
  have "activeKey cur (am_publisher_key a)" using assms(4) by (auto simp: activeKey_def list_ex_iff)
  with removal_deactivates [OF assms] show ?thesis by (simp add: AuthorizePublisher_def)
qed

section \<open>A sample membership and its successor\<close>

definition sample_url :: url_parser where
  "sample_url raw = (if raw = ''https://a.ts.net'' then Inr \<lparr>ur_scheme = ''https'', ur_host = ''a.ts.net'',
     ur_hostname = ''a.ts.net'', ur_port = [], ur_opaque = [], ur_has_user = False, ur_raw_query = [],
     ur_force_query = False, ur_fragment = [], ur_raw_path = [], ur_path = []\<rparr> else Inl ''parse'')"

definition sample_member :: "char \<Rightarrow> ActiveMember" where
  "sample_member c = \<lparr>am_instance_id = [c], am_state_incarnation_id = ''incarnation-'' @ [c],
     am_publisher_key = ''SHA256:'' @ replicate 42 c @ ''A'', am_endpoint = ''https://a.ts.net''\<rparr>"

definition admin_key :: string where
  "admin_key = ''SHA256:'' @ replicate 43 (CHR ''A'')"

definition sample_binding :: Binding where
  "sample_binding = \<lparr>bd_group_id = ''wiki'', bd_content_ref = ''refs/heads/main'',
     bd_content_binding = ''sha256:'' @ replicate 64 (CHR ''0''), bd_contract_digest = ''sha256:'' @ replicate 64 (CHR ''1''),
     bd_administrator_key = admin_key\<rparr>"

definition root_oid :: string where
  "root_oid = replicate 40 (CHR ''0'')"

definition next_oid :: string where
  "next_oid = replicate 40 (CHR ''1'')"

definition root_document :: Membership where
  "root_document = proposed_from None None [sample_member (CHR ''a''), sample_member (CHR ''b'')] sample_binding"

definition next_document :: Membership where
  "next_document = remember (historical (sample_member (CHR ''a'')) ''revoked'' ''credential_compromise'')
     ((proposed_from (Some root_document) (Some root_oid) [] sample_binding)
        \<lparr>mb_active_members := [sample_member (CHR ''b'')], mb_mode := ''blocked_emergency'',
         mb_block_reason := ''emergency_revocation''\<rparr>)"

definition unnamed_plan :: "string \<Rightarrow> string \<Rightarrow> string option \<Rightarrow> Membership \<Rightarrow> MembershipPlan" where
  "unnamed_plan kind target predecessor document =
     \<lparr>mp_schema_version = PlanSchema, mp_plan_id = [], mp_group_id = ''wiki'', mp_change_kind = kind,
       mp_target_instance = target, mp_expected_predecessor = predecessor, mp_proposed_membership = document,
       mp_administrator_key = admin_key\<rparr>"

definition named_plan :: "string \<Rightarrow> string \<Rightarrow> string option \<Rightarrow> Membership \<Rightarrow> MembershipPlan" where
  "named_plan kind target predecessor document =
     (let p = unnamed_plan kind target predecessor document in p\<lparr>mp_plan_id := planID p\<rparr>)"

lemma unnamed_plan_fields [simp]:
  "mp_schema_version (unnamed_plan k t p d) = PlanSchema" "mp_group_id (unnamed_plan k t p d) = ''wiki''"
  "mp_change_kind (unnamed_plan k t p d) = k" "mp_target_instance (unnamed_plan k t p d) = t"
  "mp_expected_predecessor (unnamed_plan k t p d) = p" "mp_proposed_membership (unnamed_plan k t p d) = d"
  "mp_administrator_key (unnamed_plan k t p d) = admin_key"
  by (simp_all add: unnamed_plan_def)

definition root_plan :: MembershipPlan where
  "root_plan = named_plan ''bootstrap'' [] None root_document"

definition next_plan :: MembershipPlan where
  "next_plan = named_plan ''emergency_revocation'' ''a'' (Some root_oid) next_document"

lemma planID_named: "planID (p\<lparr>mp_plan_id := x\<rparr>) = planID p"
  by (simp add: planID_def plan_id_text_def)

lemma sample_documents:
  "Membership_Validate sample_url root_document = Inr ()" "Membership_Validate sample_url next_document = Inr ()"
  "normalizeMembership root_document = root_document" "normalizeMembership next_document = next_document"
  by code_simp+

lemma sample_changes:
  "applyChange sample_url ''bootstrap'' [] None root_document = Inr root_document"
  "applyChange sample_url ''emergency_revocation'' ''a'' (Some root_document)
     (proposed_from (Some root_document) (Some root_oid) (mb_active_members next_document) sample_binding) = Inr next_document"
  by code_simp+

lemma sample_plan_valid:
  "MembershipPlan_Validate sample_url root_plan = Inr ()" "MembershipPlan_Validate sample_url next_plan = Inr ()"
proof -
  have g: "mb_group_id root_document = ''wiki''" "mb_group_id next_document = ''wiki''"
    "mb_administrator_key root_document = admin_key"
    "mb_administrator_key next_document = admin_key"
    "mb_predecessor root_document = None" "mb_predecessor next_document = Some root_oid"
    "identityPattern ''wiki''" "identityPattern ''a''" "fingerprintPattern (admin_key)"
    "oidPattern root_oid" by code_simp+
  show "MembershipPlan_Validate sample_url root_plan = Inr ()" "MembershipPlan_Validate sample_url next_plan = Inr ()"
    by (simp_all add: MembershipPlan_Validate_def root_plan_def next_plan_def named_plan_def Let_def g validChange_def
        sample_documents planID_named)
qed

lemma binding_of_sample: "binding_of root_document = sample_binding" "binding_of next_document = sample_binding"
  by code_simp+

lemma sample_NewPlan:
  "NewPlan sample_url ''bootstrap'' [] None None (mb_active_members root_document) sample_binding = Inr root_plan"
  "NewPlan sample_url ''emergency_revocation'' ''a'' (Some root_document) (Some root_oid) (mb_active_members next_document)
     sample_binding = Inr next_plan"
proof -
  have r: "proposed_from None None (mb_active_members root_document) sample_binding = root_document"
    by (simp add: root_document_def proposed_from_def)
  have b: "bd_group_id sample_binding = ''wiki''" "bd_administrator_key sample_binding = admin_key"
    by (simp_all add: sample_binding_def)
  show "NewPlan sample_url ''bootstrap'' [] None None (mb_active_members root_document) sample_binding = Inr root_plan"
    using sample_plan_valid(1)
    unfolding NewPlan_def r sample_changes(1) bindE_simps sample_documents(3) b
    by (simp add: Let_def root_plan_def named_plan_def unnamed_plan_def)
  show "NewPlan sample_url ''emergency_revocation'' ''a'' (Some root_document) (Some root_oid) (mb_active_members next_document)
     sample_binding = Inr next_plan"
    using sample_plan_valid(2)
    unfolding NewPlan_def sample_changes(2) bindE_simps sample_documents(4) b
    by (simp add: Let_def next_plan_def named_plan_def unnamed_plan_def)
qed

lemma sample_transition: "ValidateTransition sample_url root_document next_plan = Inr ()"
proof -
  have p: "mp_change_kind next_plan = ''emergency_revocation''" "mp_target_instance next_plan = ''a''"
    "mp_expected_predecessor next_plan = Some root_oid" "mp_proposed_membership next_plan = next_document"
    by (simp_all add: next_plan_def named_plan_def Let_def)
  show ?thesis unfolding ValidateTransition_def p binding_of_sample sample_NewPlan(2) by simp
qed

theorem membership_forgets_nobody_witness:
  "known_identities root_document \<subseteq> known_identities (mp_proposed_membership next_plan) \<and>
   binding_of (mp_proposed_membership next_plan) = sample_binding"
  using membership_forgets_nobody [OF sample_documents(1) sample_transition] by (simp add: binding_of_sample)

theorem removed_key_authorises_nothing_new_witness:
  "AuthorizePublisher root_document (mp_proposed_membership next_plan) (am_publisher_key (sample_member (CHR ''a''))) False False
     = Inl RemovedKeyFirstSeen"
proof -
  have k: "mp_change_kind next_plan \<in> {''emergency_revocation'', ''retirement'', ''key_rotation''}"
    by (simp add: next_plan_def named_plan_def Let_def)
  have a: "sample_member (CHR ''a'') \<in> set (mb_active_members root_document)" by (simp add: root_document_def proposed_from_def)
  have t: "am_instance_id (sample_member (CHR ''a'')) = mp_target_instance next_plan"
    by (simp add: sample_member_def next_plan_def named_plan_def Let_def)
  from removed_key_authorises_nothing_new [OF sample_documents(1) sample_transition k a t, of False False] show ?thesis by simp
qed


end
