(* ===== verification/SyncHistory.thy ===== *)
theory SyncHistory
  imports SyncMembership
begin

text \<open>
  The membership history of a synchronisation group (\<open>src/internal/app/syncmembership/history.go\<close>):
  the walk from a head to the bootstrap revision over an abstract Git object store, the check of
  every transition on the way, and what a loaded history guarantees.
\<close>

section \<open>History (syncmembership)\<close>

text \<open>Git objects are immutable: reading a revision, its parents and its signature are functions of the
  object id. A reading error is a text. \<open>rd_membership\<close> and \<open>rd_plan\<close> are the strict decoders
  before validation.\<close>

record Repository =
  ry_read_membership_commit :: "string \<Rightarrow> string + string \<times> string"
  ry_commit_parents :: "string \<Rightarrow> string + string list"
  ry_verify_ssh_signature :: "string \<Rightarrow> string \<Rightarrow> string + unit"
  ry_decode_membership :: "string \<Rightarrow> string + Membership"
  ry_decode_plan :: "string \<Rightarrow> string + MembershipPlan"
  ry_parse_url :: url_parser

record Revision =
  rv_oid :: string
  rv_document :: Membership
  rv_plan :: MembershipPlan

record History =
  hs_head :: string
  hs_order :: "Revision list"

datatype history_error =
    BoundOutside int
  | BoundExceeded int
  | ReadFailed string string
  | DocumentInvalid string sync_error
  | PlanInvalid string sync_error
  | PlanMismatch string
  | OutsideBinding string
  | SignatureFailed string string
  | ParentsFailed string
  | RootNotLinear string
  | RootNotConfigured string
  | StalePredecessor string
  | HistoryCycle
  | UnauthorizedTransition string sync_error
  | UnknownRevision
  | NoCurrentRevision
  | PublisherRefused sync_error

definition DecodeMembership :: "Repository \<Rightarrow> string \<Rightarrow> sync_error + Membership" where
  "DecodeMembership repo raw =
     bindE (map_err InvalidRecord (ry_decode_membership repo raw)) (\<lambda>m.
     bindE (Membership_Validate (ry_parse_url repo) m) (\<lambda>_. Inr m))"

definition DecodePlan :: "Repository \<Rightarrow> string \<Rightarrow> sync_error + MembershipPlan" where
  "DecodePlan repo raw =
     bindE (map_err InvalidRecord (ry_decode_plan repo raw)) (\<lambda>p.
     bindE (MembershipPlan_Validate (ry_parse_url repo) p) (\<lambda>_. Inr p))"

definition root_ok :: "Repository \<Rightarrow> Binding \<Rightarrow> string \<Rightarrow> Membership \<Rightarrow> MembershipPlan \<Rightarrow> string list \<Rightarrow> history_error + unit" where
  "root_ok repo binding oid document plan parents =
     (if parents \<noteq> [] \<or> mp_change_kind plan \<noteq> ''bootstrap'' then Inl (RootNotLinear oid)
      else if NewPlan (ry_parse_url repo) ''bootstrap'' [] None None (mb_active_members document) binding \<noteq> Inr plan
      then Inl (RootNotConfigured oid) else Inr ())"

text \<open>The checks of one revision.\<close>

definition load_revision :: "Repository \<Rightarrow> Binding \<Rightarrow> string \<Rightarrow> history_error + Revision" where
  "load_revision repo binding oid =
     bindE (map_err (ReadFailed oid) (ry_read_membership_commit repo oid)) (\<lambda>(documentRaw, planRaw).
     bindE (map_err (DocumentInvalid oid) (DecodeMembership repo documentRaw)) (\<lambda>document.
     bindE (map_err (PlanInvalid oid) (DecodePlan repo planRaw)) (\<lambda>plan.
     bindE (guardE (document = mp_proposed_membership plan) (PlanMismatch oid)) (\<lambda>_.
     bindE (guardE (binding_of document = binding) (OutsideBinding oid)) (\<lambda>_.
     bindE (map_err (SignatureFailed oid) (ry_verify_ssh_signature repo oid (bd_administrator_key binding))) (\<lambda>_.
     bindE (map_err ParentsFailed (ry_commit_parents repo oid)) (\<lambda>parents.
     bindE (case mb_predecessor document of
         None \<Rightarrow> root_ok repo binding oid document plan parents
       | Some p \<Rightarrow> guardE (parents = [p] \<and> mp_expected_predecessor plan = Some p) (StalePredecessor oid)) (\<lambda>_.
     Inr \<lparr>rv_oid = oid, rv_document = document, rv_plan = plan\<rparr>))))))))"

text \<open>The walk from the head to the root; \<open>n\<close> is how many revisions the bound still allows.\<close>

fun load_loop :: "Repository \<Rightarrow> Binding \<Rightarrow> int \<Rightarrow> nat \<Rightarrow> string \<Rightarrow> Revision list \<Rightarrow> history_error + Revision list" where
  "load_loop repo binding maxCommits 0 oid order = (if oid = [] then Inr order else Inl (BoundExceeded maxCommits))"
| "load_loop repo binding maxCommits (Suc n) oid order =
     (if oid = [] then Inr order
      else bindE (load_revision repo binding oid) (\<lambda>rev.
        if oid \<in> set (map rv_oid order) then Inl HistoryCycle
        else case mb_predecessor (rv_document rev) of
          None \<Rightarrow> Inr (order @ [rev])
        | Some p \<Rightarrow> load_loop repo binding maxCommits n p (order @ [rev])))"

fun check_transitions :: "url_parser \<Rightarrow> Revision list \<Rightarrow> history_error + unit" where
  "check_transitions parse (child # parent # revs) =
     bindE (map_err (UnauthorizedTransition (rv_oid child))
       (ValidateTransition parse (rv_document parent) (rv_plan child))) (\<lambda>_.
     check_transitions parse (parent # revs))"
| "check_transitions parse revs = Inr ()"

definition LoadHistory :: "Repository \<Rightarrow> string \<Rightarrow> Binding \<Rightarrow> int \<Rightarrow> history_error + History" where
  "LoadHistory repo head binding maxCommits =
     (if maxCommits < 1 \<or> 10000 < maxCommits then Inl (BoundOutside maxCommits)
      else bindE (load_loop repo binding maxCommits (nat maxCommits) head []) (\<lambda>order.
        bindE (check_transitions (ry_parse_url repo) order) (\<lambda>_. Inr \<lparr>hs_head = head, hs_order = order\<rparr>)))"

definition revision_at :: "History \<Rightarrow> string \<Rightarrow> Membership option" where
  "revision_at h oid = map_of (map (\<lambda>r. (rv_oid r, rv_document r)) (hs_order h)) oid"

definition Current :: "History \<Rightarrow> Membership option" where
  "Current h = revision_at h (hs_head h)"

definition History_AuthorizePublisher :: "History \<Rightarrow> string \<Rightarrow> string \<Rightarrow> bool \<Rightarrow> bool \<Rightarrow> history_error + unit" where
  "History_AuthorizePublisher h revision key previouslyVerified administratorCheckpoint =
     (case revision_at h revision of
        None \<Rightarrow> Inl UnknownRevision
      | Some at \<Rightarrow>
          (case Current h of
             None \<Rightarrow> Inl NoCurrentRevision
           | Some current \<Rightarrow>
               map_err PublisherRefused (AuthorizePublisher at current key previouslyVerified administratorCheckpoint)))"

section \<open>What a loaded history guarantees\<close>

definition verified_revision :: "Repository \<Rightarrow> Binding \<Rightarrow> Revision \<Rightarrow> bool" where
  "verified_revision repo binding r =
     (Membership_Validate (ry_parse_url repo) (rv_document r) = Inr () \<and> rv_document r = mp_proposed_membership (rv_plan r) \<and>
      binding_of (rv_document r) = binding \<and>
      ry_verify_ssh_signature repo (rv_oid r) (bd_administrator_key binding) = Inr ())"

lemma load_revision_D:
  assumes "load_revision repo binding oid = Inr r"
  shows "rv_oid r = oid" "verified_revision repo binding r"
    "mb_predecessor (rv_document r) = None \<Longrightarrow> ry_commit_parents repo oid = Inr [] \<and>
       NewPlan (ry_parse_url repo) ''bootstrap'' [] None None (mb_active_members (rv_document r)) binding = Inr (rv_plan r)"
    "mb_predecessor (rv_document r) = Some p \<Longrightarrow> ry_commit_parents repo oid = Inr [p]"
  using assms by (auto simp: load_revision_def result_simps verified_revision_def DecodeMembership_def root_ok_def
      split: option.splits if_splits)

lemma nth_snoc_chain:
  "(\<And>i. Suc i < length xs \<Longrightarrow> P (xs ! i) (xs ! Suc i)) \<Longrightarrow> (xs \<noteq> [] \<Longrightarrow> P (last xs) r) \<Longrightarrow>
   Suc i < length (xs @ [r]) \<Longrightarrow> P ((xs @ [r]) ! i) ((xs @ [r]) ! Suc i)"
proof (cases "Suc i < length xs")
  case False
  assume "xs \<noteq> [] \<Longrightarrow> P (last xs) r" and "Suc i < length (xs @ [r])"
  moreover from this False have "Suc i = length xs" by simp
  then have "xs \<noteq> []" "i = length xs - 1" "i < length xs" by auto
  ultimately show ?thesis by (simp add: nth_append last_conv_nth)
qed (simp add: nth_append)

text \<open>The invariant of the walk: verified revisions, each the predecessor of the one before.\<close>

definition walked :: "Repository \<Rightarrow> Binding \<Rightarrow> string \<Rightarrow> string option \<Rightarrow> Revision list \<Rightarrow> bool" where
  "walked repo binding head nxt order =
     (list_all (verified_revision repo binding) order \<and>
      (\<forall>i. Suc i < length order \<longrightarrow> mb_predecessor (rv_document (order ! i)) = Some (rv_oid (order ! Suc i))) \<and>
      (order = [] \<longrightarrow> nxt = Some head) \<and>
      (order \<noteq> [] \<longrightarrow> rv_oid (hd order) = head \<and> mb_predecessor (rv_document (last order)) = nxt))"

lemma walked_snoc:
  assumes "walked repo binding head (Some oid) order" and "load_revision repo binding oid = Inr r"
  shows "walked repo binding head (mb_predecessor (rv_document r)) (order @ [r])"
proof -
  from load_revision_D [OF assms(2)] have r: "rv_oid r = oid" "verified_revision repo binding r" by blast+
  have "mb_predecessor (rv_document ((order @ [r]) ! i)) = Some (rv_oid ((order @ [r]) ! Suc i))"
    if "Suc i < length (order @ [r])" for i
    by (rule nth_snoc_chain [OF _ _ that]) (use assms(1) r(1) in \<open>auto simp: walked_def\<close>)
  with assms(1) r show ?thesis by (auto simp: walked_def hd_append)
qed

lemma load_loop_walked:
  "load_loop repo binding m n oid order = Inr order' \<Longrightarrow> walked repo binding head (Some oid) order \<Longrightarrow> oid \<noteq> [] \<Longrightarrow>
   (\<And>p r oid'. load_revision repo binding oid' = Inr r \<Longrightarrow> mb_predecessor (rv_document r) = Some p \<Longrightarrow> p \<noteq> []) \<Longrightarrow>
   walked repo binding head None order' \<and> order' \<noteq> [] \<and> length order' \<le> length order + n \<and>
   (\<exists>oid. load_revision repo binding oid = Inr (last order'))"
proof (induction n arbitrary: oid order)
  case (Suc n)
  from Suc.prems(1,3) obtain r where r: "load_revision repo binding oid = Inr r"
    and l: "(case mb_predecessor (rv_document r) of None \<Rightarrow> Inr (order @ [r])
        | Some p \<Rightarrow> load_loop repo binding m n p (order @ [r])) = Inr order'"
    by (auto simp: bindE_Inr_iff split: if_splits)
  from walked_snoc [OF Suc.prems(2) r] have w: "walked repo binding head (mb_predecessor (rv_document r)) (order @ [r])" .
  show ?case
  proof (cases "mb_predecessor (rv_document r)")
    case None
    with l w r show ?thesis by auto
  next
    case (Some p)
    with l have "load_loop repo binding m n p (order @ [r]) = Inr order'" by simp
    from Suc.IH [OF this w [unfolded Some] Suc.prems(4) [OF r Some] Suc.prems(4)] show ?thesis by auto
  qed
qed simp

lemma predecessor_not_empty:
  assumes "load_revision repo binding oid = Inr r" and "mb_predecessor (rv_document r) = Some p"
  shows "p \<noteq> []"
proof -
  from load_revision_D(2) [OF assms(1)] have "Membership_Validate (ry_parse_url repo) (rv_document r) = Inr ()"
    unfolding verified_revision_def by blast
  with assms(2) show ?thesis by (auto simp: Membership_Validate_def oidPattern_def split: if_splits)
qed

lemma check_transitions_nth:
  "check_transitions parse order = Inr () \<Longrightarrow> Suc i < length order \<Longrightarrow>
   ValidateTransition parse (rv_document (order ! Suc i)) (rv_plan (order ! i)) = Inr ()"
proof (induction parse order arbitrary: i rule: check_transitions.induct)
  case (1 parse child parent revs)
  then show ?case by (cases i) (auto simp: bindE_Inr_iff map_err_Inr_iff)
qed auto

lemma LoadHistory_D:
  assumes "LoadHistory repo head binding m = Inr h" and "head \<noteq> []"
  shows "walked repo binding head None (hs_order h)" "hs_order h \<noteq> []" "int (length (hs_order h)) \<le> m" "hs_head h = head"
    "Suc i < length (hs_order h) \<Longrightarrow>
       ValidateTransition (ry_parse_url repo) (rv_document (hs_order h ! Suc i)) (rv_plan (hs_order h ! i)) = Inr ()"
    "\<exists>oid. load_revision repo binding oid = Inr (last (hs_order h))"
proof -
  from assms(1) have l: "load_loop repo binding m (nat m) head [] = Inr (hs_order h)" and b: "1 \<le> m"
    and c: "check_transitions (ry_parse_url repo) (hs_order h) = Inr ()" and hd: "hs_head h = head"
    by (auto simp: LoadHistory_def bindE_Inr_iff split: if_splits)
  have "walked repo binding head (Some head) []" by (simp add: walked_def)
  with load_loop_walked [OF l _ assms(2)] predecessor_not_empty
  have "walked repo binding head None (hs_order h) \<and> hs_order h \<noteq> [] \<and> length (hs_order h) \<le> length ([] :: Revision list) + nat m \<and>
      (\<exists>oid. load_revision repo binding oid = Inr (last (hs_order h)))" by blast
  with b show "walked repo binding head None (hs_order h)" "hs_order h \<noteq> []" "int (length (hs_order h)) \<le> m"
    "\<exists>oid. load_revision repo binding oid = Inr (last (hs_order h))" by auto
  show "hs_head h = head" by (rule hd)
  show "Suc i < length (hs_order h) \<Longrightarrow>
       ValidateTransition (ry_parse_url repo) (rv_document (hs_order h ! Suc i)) (rv_plan (hs_order h ! i)) = Inr ()"
    by (rule check_transitions_nth [OF c])
qed

text \<open>C31: a loaded membership history is authorised from end to end. It starts at the head, is no longer
  than the bound, and every revision in it is valid, matches its reviewed plan, lies inside the
  configured trust binding and carries the pinned administrator's signature; each revision is an
  admitted transition from the one that follows it, which is its only parent; and the last one is
  the unique bootstrap of the configuration, without a parent (SYN-005).\<close>

theorem loaded_history_is_authorised:
  assumes "LoadHistory repo head binding m = Inr h" and "head \<noteq> []"
  shows "rv_oid (hd (hs_order h)) = head \<and> int (length (hs_order h)) \<le> m \<and>
    list_all (verified_revision repo binding) (hs_order h) \<and>
    (\<forall>i. Suc i < length (hs_order h) \<longrightarrow>
       mb_predecessor (rv_document (hs_order h ! i)) = Some (rv_oid (hs_order h ! Suc i)) \<and>
       ValidateTransition (ry_parse_url repo) (rv_document (hs_order h ! Suc i)) (rv_plan (hs_order h ! i)) = Inr ()) \<and>
    ry_commit_parents repo (rv_oid (last (hs_order h))) = Inr [] \<and>
    NewPlan (ry_parse_url repo) ''bootstrap'' [] None None (mb_active_members (rv_document (last (hs_order h)))) binding
      = Inr (rv_plan (last (hs_order h)))"
proof -
  note l = LoadHistory_D [OF assms]
  from l(6) obtain oid where r: "load_revision repo binding oid = Inr (last (hs_order h))" by blast
  have "mb_predecessor (rv_document (last (hs_order h))) = None" using l(1,2) by (auto simp: walked_def)
  with load_revision_D(1,3) [OF r] l show ?thesis by (auto simp: walked_def)
qed

lemma history_valid:
  assumes "LoadHistory repo head binding m = Inr h" and "head \<noteq> []" and "i < length (hs_order h)"
  shows "Membership_Validate (ry_parse_url repo) (rv_document (hs_order h ! i)) = Inr ()"
    "rv_document (hs_order h ! i) = mp_proposed_membership (rv_plan (hs_order h ! i))"
  using LoadHistory_D(1) [OF assms(1,2)] assms(3) by (auto simp: walked_def list_all_length verified_revision_def)

lemma history_monotone:
  assumes "LoadHistory repo head binding m = Inr h" and "head \<noteq> []"
  shows "i + k < length (hs_order h) \<Longrightarrow>
    known_identities (rv_document (hs_order h ! (i + k))) \<subseteq> known_identities (rv_document (hs_order h ! i)) \<and>
    mset (mb_historical_members (rv_document (hs_order h ! (i + k))))
      \<subseteq># mset (mb_historical_members (rv_document (hs_order h ! i)))"
proof (induction k)
  case (Suc k)
  let ?d = "\<lambda>i. rv_document (hs_order h ! i)"
  from Suc.prems have n: "Suc (i + k) < length (hs_order h)" by simp
  note v = history_valid(1) [OF assms n] and t = LoadHistory_D(5) [OF assms n]
  have d: "mp_proposed_membership (rv_plan (hs_order h ! (i + k))) = ?d (i + k)"
    using history_valid(2) [OF assms, of "i + k"] n by simp
  from transition_remembers [OF v t] have "known_identities (?d (Suc (i + k))) \<subseteq> known_identities (?d (i + k))"
    "mset (mb_historical_members (?d (Suc (i + k)))) \<subseteq># mset (mb_historical_members (?d (i + k)))"
    unfolding d .
  with Suc.IH n show ?case using subset_mset.order_trans by auto
qed simp

text \<open>C32: what left a membership never comes back. For two revisions of a loaded history, the older one
  later in the list, every identity the older one knows is known to the newer one, and no
  incarnation that was historical at the older one is active at the newer one (SYN-005).\<close>

theorem past_incarnations_never_return:
  assumes "LoadHistory repo head binding m = Inr h" and "head \<noteq> []" and "i \<le> j" and "j < length (hs_order h)"
  shows "known_identities (rv_document (hs_order h ! j)) \<subseteq> known_identities (rv_document (hs_order h ! i)) \<and>
    set (map hm_state_incarnation_id (mb_historical_members (rv_document (hs_order h ! j)))) \<inter>
      set (map am_state_incarnation_id (mb_active_members (rv_document (hs_order h ! i)))) = {}"
proof -
  let ?d = "\<lambda>i. rv_document (hs_order h ! i)"
  have j: "i + (j - i) = j" using assms(3) by simp
  note mono = history_monotone [OF assms(1,2), of i "j - i", unfolded j, OF assms(4)]
  have "set (mb_historical_members (?d j)) \<subseteq> set (mb_historical_members (?d i))"
    using mono by (metis set_mset_mono set_mset_mset)
  moreover have "set (map hm_state_incarnation_id (mb_historical_members (?d i))) \<inter>
      set (map am_state_incarnation_id (mb_active_members (?d i))) = {}"
    using Membership_Validate_D(4) [OF history_valid(1) [OF assms(1,2), of i]] assms(3,4) by auto
  ultimately have "set (map hm_state_incarnation_id (mb_historical_members (?d j))) \<inter>
      set (map am_state_incarnation_id (mb_active_members (?d i))) = {}" by (auto simp: image_iff)
  with mono show ?thesis by blast
qed

section \<open>A sample history\<close>

definition sample_repository :: Repository where
  "sample_repository = \<lparr>
     ry_read_membership_commit = (\<lambda>oid. if oid = root_oid then Inr (''root'', ''root'')
       else if oid = next_oid then Inr (''next'', ''next'') else Inl ''missing''),
     ry_commit_parents = (\<lambda>oid. Inr (if oid = next_oid then [root_oid] else [])),
     ry_verify_ssh_signature = (\<lambda>oid key. Inr ()),
     ry_decode_membership = (\<lambda>raw. Inr (if raw = ''root'' then root_document else next_document)),
     ry_decode_plan = (\<lambda>raw. Inr (if raw = ''root'' then root_plan else next_plan)),
     ry_parse_url = sample_url\<rparr>"

definition sample_history :: History where
  "sample_history = \<lparr>hs_head = next_oid, hs_order =
     [\<lparr>rv_oid = next_oid, rv_document = next_document, rv_plan = next_plan\<rparr>,
      \<lparr>rv_oid = root_oid, rv_document = root_document, rv_plan = root_plan\<rparr>]\<rparr>"

lemma sample_oids: "root_oid \<noteq> next_oid" "root_oid \<noteq> []" "next_oid \<noteq> []"
  by code_simp+

lemma sample_plan_fields:
  "mp_proposed_membership root_plan = root_document" "mp_proposed_membership next_plan = next_document"
  "mp_change_kind root_plan = ''bootstrap''" "mp_expected_predecessor next_plan = Some root_oid"
  "mb_predecessor root_document = None" "mb_predecessor next_document = Some root_oid"
  by (simp_all add: root_plan_def next_plan_def named_plan_def Let_def root_document_def next_document_def proposed_from_def
      remember_def)

lemma sample_loaded: "LoadHistory sample_repository next_oid sample_binding 10 = Inr sample_history"
proof -
  have n: "load_revision sample_repository sample_binding next_oid =
      Inr \<lparr>rv_oid = next_oid, rv_document = next_document, rv_plan = next_plan\<rparr>"
    by (simp add: load_revision_def sample_repository_def sample_oids DecodeMembership_def DecodePlan_def sample_documents
        sample_plan_valid sample_plan_fields binding_of_sample sample_oids(1) [symmetric])
  have r: "load_revision sample_repository sample_binding root_oid =
      Inr \<lparr>rv_oid = root_oid, rv_document = root_document, rv_plan = root_plan\<rparr>"
    by (simp add: load_revision_def sample_repository_def sample_oids DecodeMembership_def DecodePlan_def sample_documents
        sample_plan_valid sample_plan_fields binding_of_sample root_ok_def sample_NewPlan)
  have u: "ry_parse_url sample_repository = sample_url" by (simp add: sample_repository_def)
  have ten: "nat 10 = Suc (Suc 8)" by simp
  show ?thesis
    unfolding LoadHistory_def ten load_loop.simps u
    by (simp add: sample_oids n r sample_plan_fields sample_transition sample_history_def)
qed

theorem loaded_history_is_authorised_witness:
  "LoadHistory sample_repository next_oid sample_binding 10 = Inr sample_history \<and>
   list_all (verified_revision sample_repository sample_binding) (hs_order sample_history) \<and>
   ry_commit_parents sample_repository root_oid = Inr []"
  using loaded_history_is_authorised [OF sample_loaded sample_oids(3)] sample_loaded by (simp add: sample_history_def)

theorem past_incarnations_never_return_witness:
  "known_identities root_document \<subseteq> known_identities next_document"
  using past_incarnations_never_return [OF sample_loaded sample_oids(3), of 0 1] by (simp add: sample_history_def)

end
