(* ===== verification/TimeText.thy ===== *)
theory TimeText
  imports GoTime
begin

text \<open>
  Reading timestamps back: \<open>time.Parse(time.RFC3339, s)\<close>, the layout \<open>time.RFC3339Nano\<close>, and
  the store's \<open>normalizeTimestamp\<close> (\<open>src/internal/adapters/sqlite/store.go\<close>), through which
  every timestamp passes before it is written. The parser is the lenient one of package \<open>time\<close>:
  a one-digit hour and a fraction after the seconds, with a point or a comma, are accepted. The lemmas
  show that parsing undoes formatting.
\<close>

section \<open>Day numbers\<close>

text \<open>The day number of a date, the inverse of \<open>civil\<close>.\<close>

definition days_of :: "int \<Rightarrow> int \<Rightarrow> int \<Rightarrow> int" where
  "days_of y m d = cycle_days * (y div 400) + sum_list (take (nat (y mod 400)) year_days) +
     sum_list (take (nat (m - 1)) (month_days y)) + d - 1 - epoch_days"

lemma peel_sum:
  "peel ls k n = (j, r) \<Longrightarrow> k \<le> j \<and> n = sum_list (take (nat (j - k)) ls) + r"
proof (induction ls k n rule: peel.induct)
  case (2 l ls k n)
  show ?case
  proof (cases "n < l")
    case False
    with 2 have "k + 1 \<le> j \<and> n - l = sum_list (take (nat (j - (k + 1))) ls) + r" by simp
    moreover from this have "nat (j - k) = Suc (nat (j - (k + 1)))" by arith
    ultimately show ?thesis by simp
  qed (use 2(2) in simp)
qed simp

lemma leap_mod: "leap (400 * q + y) = leap y"
proof -
  have "(y + 4 * (100 * q)) mod 4 = y mod 4" "(y + 100 * (4 * q)) mod 100 = y mod 100" "(y + 400 * q) mod 400 = y mod 400"
    by (rule mod_mult_self2)+
  then have "(400 * q + y) mod 4 = y mod 4" "(400 * q + y) mod 100 = y mod 100" "(400 * q + y) mod 400 = y mod 400"
    by (simp_all add: add.commute)
  then show ?thesis by (simp add: leap_def)
qed

lemma days_of_civil:
  assumes "civil day = (y, m, d)"
  shows "days_of y m d = day"
proof -
  let ?n = "day + epoch_days"
  obtain y0 doy where y0: "peel year_days 0 (?n mod cycle_days) = (y0, doy)" by (rule prod.exhaust)
  obtain m0 d0 where m0: "peel (month_days y0) 1 doy = (m0, d0)" by (rule prod.exhaust)
  have n: "0 \<le> ?n mod cycle_days" "?n mod cycle_days < sum_list year_days"
    unfolding sum_year_days by (simp_all add: cycle_days_def)
  from peel_bounds [OF n y0] have y: "0 \<le> y0" "y0 < 400" by (simp_all add: length_year_days)
  have e: "y = 400 * (?n div cycle_days) + y0" "m = m0" "d = d0 + 1"
    using assms y0 m0 by (simp_all add: civil_def Let_def)
  have q: "y div 400 = ?n div cycle_days" "y mod 400 = y0" using y by (simp_all add: e(1))
  have md: "month_days y = month_days y0" unfolding e(1) by (simp add: month_days_def leap_mod)
  have "?n mod cycle_days = sum_list (take (nat y0) year_days) + doy" using peel_sum [OF y0] by simp
  moreover have "doy = sum_list (take (nat (m0 - 1)) (month_days y0)) + d0" using peel_sum [OF m0] by simp
  moreover have "cycle_days * (?n div cycle_days) + ?n mod cycle_days = ?n" by simp
  ultimately show ?thesis unfolding days_of_def q md e(2,3) by linarith
qed

section \<open>Parsing\<close>

text \<open>The pieces of the layout; each returns the value and the rest of the text.\<close>

definition take_lit :: "char \<Rightarrow> string \<Rightarrow> string option" where
  "take_lit c s = (case s of [] \<Rightarrow> None | d # t \<Rightarrow> if d = c then Some t else None)"

definition take_num :: "nat \<Rightarrow> string \<Rightarrow> (int \<times> string) option" where
  "take_num w s =
     (if w \<le> length s \<and> list_all is_digit (take w s) then Some (int (read_nat (take w s)), drop w s) else None)"

definition take_hour :: "string \<Rightarrow> (int \<times> string) option" where
  "take_hour s = (case take_num 2 s of None \<Rightarrow> take_num 1 s | r \<Rightarrow> r)"

text \<open>A fraction after the seconds: at most nine digits count.\<close>

definition nanos_of :: "string \<Rightarrow> int" where
  "nanos_of ds = int (read_nat (take 9 ds)) * 10 ^ (9 - length (take 9 ds))"

definition take_fraction :: "string \<Rightarrow> int \<times> string" where
  "take_fraction s =
     (case s of
        c # d # t \<Rightarrow>
          if (c = CHR ''.'' \<or> c = CHR '','') \<and> is_digit d
          then (nanos_of (takeWhile is_digit (d # t)), dropWhile is_digit (d # t)) else (0, s)
      | _ \<Rightarrow> (0, s))"

text \<open>The zone, as its offset in seconds: \<open>Z\<close> or \<open>+hh:mm\<close>.\<close>

definition take_zone :: "string \<Rightarrow> (int \<times> string) option" where
  "take_zone s =
     (case s of
        [] \<Rightarrow> None
      | c # t \<Rightarrow>
          if c = CHR ''Z'' then Some (0, t)
          else if c \<noteq> CHR ''+'' \<and> c \<noteq> CHR ''-'' then None
          else Option.bind (take_num 2 t) (\<lambda>(h, t).
            Option.bind (take_lit (CHR '':'') t) (\<lambda>t.
            Option.bind (take_num 2 t) (\<lambda>(m, t).
              if h > 24 \<or> m > 60 then None
              else Some ((if c = CHR ''-'' then - 1 else 1) * (h * 60 + m) * 60, t)))))"

definition days_in :: "int \<Rightarrow> int \<Rightarrow> int" where
  "days_in y m = month_days y ! nat (m - 1)"

definition parse_date :: "string \<Rightarrow> ((int \<times> int \<times> int) \<times> string) option" where
  "parse_date s =
     Option.bind (take_num 4 s) (\<lambda>(y, s). Option.bind (take_lit (CHR ''-'') s) (\<lambda>s.
     Option.bind (take_num 2 s) (\<lambda>(m, s). Option.bind (take_lit (CHR ''-'') s) (\<lambda>s.
     Option.bind (take_num 2 s) (\<lambda>(d, s).
       if m < 1 \<or> 12 < m \<or> d < 1 \<or> days_in y m < d then None else Some ((y, m, d), s))))))"

definition parse_clock :: "string \<Rightarrow> (int \<times> string) option" where
  "parse_clock s =
     Option.bind (take_hour s) (\<lambda>(h, s). Option.bind (take_lit (CHR '':'') s) (\<lambda>s.
     Option.bind (take_num 2 s) (\<lambda>(mi, s). Option.bind (take_lit (CHR '':'') s) (\<lambda>s.
     Option.bind (take_num 2 s) (\<lambda>(sec, s).
       if 24 \<le> h \<or> 60 \<le> mi \<or> 60 \<le> sec then None else Some (h * 3600 + mi * 60 + sec, s))))))"

text \<open>\<open>time.Parse(time.RFC3339, s)\<close>\<close>

definition parse_rfc3339 :: "string \<Rightarrow> int option" where
  "parse_rfc3339 s =
     Option.bind (parse_date s) (\<lambda>((y, m, d), s). Option.bind (take_lit (CHR ''T'') s) (\<lambda>s.
     Option.bind (parse_clock s) (\<lambda>(secs, s). case take_fraction s of (ns, s) \<Rightarrow>
     Option.bind (take_zone s) (\<lambda>(off, s).
       if s \<noteq> [] then None else Some ((days_of y m d * 86400 + secs - off) * 10 ^ 9 + ns)))))"

text \<open>The layout \<open>time.RFC3339Nano\<close> in UTC: the fraction without its trailing zeros.\<close>

definition fraction_text :: "int \<Rightarrow> string" where
  "fraction_text ns =
     (if ns = 0 then [] else CHR ''.'' # rev (dropWhile (\<lambda>c. c = CHR ''0'') (rev (digits 9 ns))))"

definition NanoTimestamp :: "int \<Rightarrow> string" where
  "NanoTimestamp t = butlast (CanonicalTimestamp t) @ fraction_text (t mod 10 ^ 9) @ ''Z''"

definition normalizeTimestamp :: "string \<Rightarrow> string" where
  "normalizeTimestamp ts =
     (if ts = [] then ts
      else case parse_rfc3339 ts of None \<Rightarrow> ts | Some t \<Rightarrow> CanonicalTimestamp t)"

section \<open>Parsing undoes formatting\<close>

lemma read_nat_snoc: "read_nat (s @ [c]) = 10 * read_nat s + (byte c - 48)"
  by (simp add: read_nat_def)

lemma digits_read:
  "0 \<le> n \<Longrightarrow> n < 10 ^ w \<Longrightarrow> list_all is_digit (digits w n) \<and> int (read_nat (digits w n)) = n"
proof (induction w arbitrary: n)
  case 0
  then show ?case by (simp add: read_nat_def)
next
  case (Suc w)
  from Suc.prems have q: "0 \<le> n div 10" "n div 10 < 10 ^ w" "nat (n mod 10) < 10"
    by (simp_all add: pos_imp_zdiv_nonneg_iff div_less_iff_less_mult)
  with Suc.IH [of "n div 10"] show ?case
    by (simp add: read_nat_snoc is_digit_digit byte_digit)
qed

lemma take_num_digits: "0 \<le> n \<Longrightarrow> n < 10 ^ w \<Longrightarrow> take_num w (digits w n @ s) = Some (n, s)"
  using digits_read [of n w] by (simp add: take_num_def)

lemma take_lit_same [simp]: "take_lit c (c # s) = Some s"
  by (simp add: take_lit_def)

lemma take_hour_digits: "0 \<le> n \<Longrightarrow> n < 100 \<Longrightarrow> take_hour (digits 2 n @ s) = Some (n, s)"
  unfolding take_hour_def by (subst take_num_digits) simp_all

lemma civil_day_in_month:
  assumes "civil day = (y, m, d)"
  shows "d \<le> days_in y m"
proof -
  let ?n = "(day + epoch_days) mod cycle_days"
  obtain y0 doy where y0: "peel year_days 0 ?n = (y0, doy)" by (rule prod.exhaust)
  obtain m0 d0 where m0: "peel (month_days y0) 1 doy = (m0, d0)" by (rule prod.exhaust)
  have n: "0 \<le> ?n" "?n < sum_list year_days" unfolding sum_year_days by (simp_all add: cycle_days_def)
  from peel_bounds [OF n y0] have y: "0 \<le> y0" "y0 < 400" "0 \<le> doy" "doy < sum_list (month_days y0)"
    by (auto simp: length_year_days year_days_nth)
  have e: "y = 400 * ((day + epoch_days) div cycle_days) + y0" "m = m0" "d = d0 + 1"
    using assms y0 m0 by (simp_all add: civil_def Let_def)
  have "month_days y = month_days y0" unfolding e(1) by (simp add: month_days_def leap_mod)
  with peel_bounds [OF y(3,4) m0] show ?thesis by (simp add: days_in_def e)
qed

lemma parse_date_text:
  assumes "civil day = (y, m, d)" and "0 \<le> y" and "y \<le> 9999"
  shows "parse_date (digits 4 y @ ''-'' @ digits 2 m @ ''-'' @ digits 2 d @ s) = Some ((y, m, d), s)"
proof -
  from civil_bounds [OF assms(1)] civil_day_in_month [OF assms(1)] have b: "1 \<le> m" "m \<le> 12" "1 \<le> d" "d \<le> 31" "d \<le> days_in y m"
    by simp_all
  with assms(2,3) show ?thesis by (simp add: parse_date_def take_num_digits del: digits.simps)
qed

definition clock_digits :: "int \<Rightarrow> string" where
  "clock_digits r = digits 2 (r div 3600) @ '':'' @ digits 2 (r div 60 mod 60) @ '':'' @ digits 2 (r mod 60)"

lemma parse_clock_text:
  assumes "0 \<le> r" and "r < 86400"
  shows "parse_clock (clock_digits r @ s) = Some (r, s)"
proof -
  have h: "0 \<le> r div 3600" "r div 3600 < 24" using assms by (simp_all add: pos_imp_zdiv_nonneg_iff div_less_iff_less_mult)
  have m: "0 \<le> x mod 60" "x mod 60 < 60" "x mod 60 < 100" for x :: int using pos_mod_bound [of 60 x] by simp_all
  have l: "\<not> 60 \<le> x mod 60" for x :: int using pos_mod_bound [of 60 x] by linarith
  have "r div 3600 = r div 60 div 60" by (simp add: zdiv_zmult2_eq [symmetric])
  with div_mult_mod_eq [of "r div 60" 60] div_mult_mod_eq [of r 60]
  have "r div 3600 * 3600 + r div 60 mod 60 * 60 + r mod 60 = r" by linarith
  with h m l show ?thesis by (simp add: parse_clock_def clock_digits_def take_hour_digits take_num_digits del: digits.simps)
qed

lemma timestamp_text:
  assumes "four_digit_year t" and "civil (second_of t div 86400) = (y, m, d)"
  shows "CanonicalTimestamp t = digits 4 y @ ''-'' @ digits 2 m @ ''-'' @ digits 2 d @ ''T'' @
    clock_digits (second_of t mod 86400) @ ''Z''"
  unfolding CanonicalTimestamp_parts [OF assms(2)] by (simp add: clock_text_def clock_digits_def)

lemma parse_timestamp_text:
  assumes "four_digit_year t" and "civil (second_of t div 86400) = (y, m, d)"
    and "take_fraction (f @ ''Z'') = (ns, ''Z'')"
  shows "parse_rfc3339 (digits 4 y @ ''-'' @ digits 2 m @ ''-'' @ digits 2 d @ ''T'' @
    clock_digits (second_of t mod 86400) @ f @ ''Z'') = Some (second_of t * 10 ^ 9 + ns)"
proof -
  have y: "0 \<le> y" "y \<le> 9999" using civil_year [OF assms(1,2)] by simp_all
  have clock_range: "0 \<le> second_of t mod 86400" "second_of t mod 86400 < 86400" by simp_all
  have "second_of t div 86400 * 86400 + second_of t mod 86400 = second_of t" by simp
  then show ?thesis
    unfolding parse_rfc3339_def parse_date_text [OF assms(2) y]
    unfolding Option.bind.bind_lunit prod.case append_Cons append_Nil
      take_lit_same parse_clock_text [OF clock_range] assms(3) [unfolded append_Nil append_Cons] days_of_civil [OF assms(2)]
    by (simp add: take_zone_def)
qed

lemma parse_CanonicalTimestamp:
  assumes "four_digit_year t"
  shows "parse_rfc3339 (CanonicalTimestamp t) = Some (second_of t * 10 ^ 9)"
proof -
  obtain y m d where c: "civil (second_of t div 86400) = (y, m, d)" by (rule prod_cases3)
  have "take_fraction ([] @ ''Z'') = (0, ''Z'')" by (simp add: take_fraction_def)
  from parse_timestamp_text [OF assms c this] show ?thesis unfolding timestamp_text [OF assms c] by simp
qed


lemma read_nat_zeros: "read_nat (s @ replicate k (CHR ''0'')) = read_nat s * 10 ^ k"
proof (induction k)
  case (Suc k)
  have "s @ replicate (Suc k) (CHR ''0'') = (s @ replicate k (CHR ''0'')) @ [CHR ''0'']"
    by (simp add: replicate_append_same)
  then show ?case unfolding read_nat_snoc [of "s @ replicate k (CHR ''0'')", folded append_assoc] using Suc.IH
    by (simp add: read_nat_snoc byte_def del: append_assoc)
qed simp

lemma trim_zeros: "\<exists>k. s = rev (dropWhile (\<lambda>c. c = CHR ''0'') (rev s)) @ replicate k (CHR ''0'')"
proof (induction s rule: rev_induct)
  case (snoc c s)
  show ?case
  proof (cases "c = CHR ''0''")
    case True
    from snoc obtain k where "s = rev (dropWhile (\<lambda>c. c = CHR ''0'') (rev s)) @ replicate k (CHR ''0'')" by blast
    then have "s @ [c] = rev (dropWhile (\<lambda>c. c = CHR ''0'') (rev (s @ [c]))) @ replicate (Suc k) (CHR ''0'')"
      using True by (simp add: replicate_append_same [symmetric])
    then show ?thesis by blast
  next
    case False
    then have "s @ [c] = rev (dropWhile (\<lambda>c. c = CHR ''0'') (rev (s @ [c]))) @ replicate 0 (CHR ''0'')" by simp
    then show ?thesis by blast
  qed
qed simp

lemma zee_not_digit: "\<not> is_digit (CHR ''Z'')"
  by (simp add: is_digit_def byte_def)

lemma digits_before_zee:
  "list_all is_digit s \<Longrightarrow> takeWhile is_digit (s @ ''Z'') = s \<and> dropWhile is_digit (s @ ''Z'') = ''Z''"
  by (induction s) (simp_all add: zee_not_digit)

lemma fraction_read:
  assumes "0 \<le> ns" and "ns < 10 ^ 9"
  shows "take_fraction (fraction_text ns @ ''Z'') = (ns, ''Z'')"
proof (cases "ns = 0")
  case True
  then show ?thesis by (simp add: fraction_text_def take_fraction_def)
next
  case False
  let ?ds = "digits 9 ns" and ?tr = "rev (dropWhile (\<lambda>c. c = CHR ''0'') (rev (digits 9 ns)))"
  obtain k where k: "?ds = ?tr @ replicate k (CHR ''0'')" using trim_zeros by blast
  have len: "length ?tr = 9 - k" "k \<le> 9" using arg_cong [OF k, of length] by simp_all
  from digits_read [OF assms] have dg: "list_all is_digit ?ds" and rd: "int (read_nat ?ds) = ns" by simp_all
  have tr: "list_all is_digit ?tr" using dg by (subst (asm) k) simp
  have "?tr \<noteq> []"
  proof
    assume "?tr = []"
    with k have e: "?ds = [] @ replicate k (CHR ''0'')" by simp
    have "read_nat ?ds = read_nat [] * 10 ^ k" unfolding e by (rule read_nat_zeros)
    then have "read_nat ?ds = 0" by (simp add: read_nat_def)
    with rd False show False by simp
  qed
  then obtain d t where dt: "?tr = d # t" by (cases ?tr) auto
  have n: "nanos_of ?tr = ns"
    using rd len by (subst (asm) k) (simp add: read_nat_zeros nanos_of_def)
  have w: "takeWhile is_digit (?tr @ ''Z'') = ?tr" "dropWhile is_digit (?tr @ ''Z'') = ''Z''"
    using digits_before_zee [OF tr] by blast+
  show ?thesis
    using tr n w False unfolding fraction_text_def dt by (simp add: take_fraction_def)
qed

lemma CanonicalTimestamp_butlast: "butlast (CanonicalTimestamp t) @ ''Z'' = CanonicalTimestamp t"
  by (simp add: CanonicalTimestamp_def Let_def butlast_append split: prod.split)

lemma parse_NanoTimestamp:
  assumes "four_digit_year t"
  shows "parse_rfc3339 (NanoTimestamp t) = Some t"
proof -
  obtain y m d where c: "civil (second_of t div 86400) = (y, m, d)" by (rule prod_cases3)
  have t: "second_of t * 10 ^ 9 + t mod 10 ^ 9 = t" unfolding second_of_def by (rule div_mult_mod_eq)
  have f: "take_fraction (fraction_text (t mod 10 ^ 9) @ ''Z'') = (t mod 10 ^ 9, ''Z'')"
    by (rule fraction_read) simp_all
  have "NanoTimestamp t = digits 4 y @ ''-'' @ digits 2 m @ ''-'' @ digits 2 d @ ''T'' @
      clock_digits (second_of t mod 86400) @ fraction_text (t mod 10 ^ 9) @ ''Z''"
    unfolding NanoTimestamp_def timestamp_text [OF assms c] by (simp add: butlast_append del: digits.simps)
  with parse_timestamp_text [OF assms c f] t show ?thesis by simp
qed

lemma CanonicalTimestamp_second: "CanonicalTimestamp (second_of t * 10 ^ 9) = CanonicalTimestamp t"
  by (rule CanonicalTimestamp_eq) (simp add: second_of_def)

lemma normalize_canonical [simp]:
  assumes "four_digit_year t"
  shows "normalizeTimestamp (CanonicalTimestamp t) = CanonicalTimestamp t"
  unfolding normalizeTimestamp_def parse_CanonicalTimestamp [OF assms] option.case CanonicalTimestamp_second by simp

lemma normalize_nano [simp]: "four_digit_year t \<Longrightarrow> normalizeTimestamp (NanoTimestamp t) = CanonicalTimestamp t"
  by (simp add: normalizeTimestamp_def parse_NanoTimestamp) (simp add: NanoTimestamp_def)

text \<open>a timestamp can be read back. For the years the layout covers, parsing the nanosecond text returns
  the very instant and parsing the second text its second; and whichever of the two a caller hands the
  store, the store writes the canonical second text.\<close>

theorem timestamps_read_back:
  assumes "four_digit_year t"
  shows "parse_rfc3339 (NanoTimestamp t) = Some t \<and>
    parse_rfc3339 (CanonicalTimestamp t) = Some (second_of t * 10 ^ 9) \<and>
    normalizeTimestamp (NanoTimestamp t) = CanonicalTimestamp t \<and>
    normalizeTimestamp (CanonicalTimestamp t) = CanonicalTimestamp t"
  using assms by (simp add: parse_NanoTimestamp parse_CanonicalTimestamp)

theorem timestamps_read_back_witness:
  "parse_rfc3339 (NanoTimestamp 951782400120000000) = Some 951782400120000000 \<and>
   NanoTimestamp 951782400120000000 = ''2000-02-29T00:00:00.12Z'' \<and>
   normalizeTimestamp ''2000-02-29T01:00:00.5+01:00'' = ''2000-02-29T00:00:00Z''"
proof -
  have "four_digit_year 951782400120000000" by code_simp
  from timestamps_read_back [OF this]
  have "parse_rfc3339 (NanoTimestamp 951782400120000000) = Some 951782400120000000" by blast
  moreover have "NanoTimestamp 951782400120000000 = ''2000-02-29T00:00:00.12Z''"
    "normalizeTimestamp ''2000-02-29T01:00:00.5+01:00'' = ''2000-02-29T00:00:00Z''" by code_simp+
  ultimately show ?thesis by blast
qed

end
