(* ===== verification/Notification.thy ===== *)
theory Notification
  imports GoJson GoSha256 TimeText
begin

text \<open>
  The notification contract (\<open>src/internal/domain/records/notifications.go\<close>,
  \<open>src/internal/ports/notifications.go\<close>): the closed vocabularies, the identities derived from the
  content of a notification, the records that cross the ports, and the bounded payload
  (\<open>src/internal/adapters/sqlite/notifications.go\<close>, \<open>sanitizeNotificationSource\<close> and
  \<open>notificationPayloadJSON\<close>). A Go map of source fields is an association list with distinct
  keys; its order is never read.
\<close>

section \<open>Vocabularies\<close>

datatype notification_enum_error =
    UnknownNotificationEvent string
  | UnknownNotificationState string
  | UnknownNotificationOutcome string

datatype NotificationEventKind =
    EventWorkCompleted
  | EventWorkFailed
  | EventWorkExhausted
  | EventDeliveryUnknown
  | EventQuarantined
  | EventReconciliationRequired
  | EventIntegrationDrift
  | EventWatchmanDrift

primrec NotificationEventKind_str :: "NotificationEventKind \<Rightarrow> string" where
  "NotificationEventKind_str EventWorkCompleted = ''work_completed''"
| "NotificationEventKind_str EventWorkFailed = ''work_failed''"
| "NotificationEventKind_str EventWorkExhausted = ''work_exhausted''"
| "NotificationEventKind_str EventDeliveryUnknown = ''delivery_unknown''"
| "NotificationEventKind_str EventQuarantined = ''quarantined''"
| "NotificationEventKind_str EventReconciliationRequired = ''reconciliation_required''"
| "NotificationEventKind_str EventIntegrationDrift = ''integration_drift''"
| "NotificationEventKind_str EventWatchmanDrift = ''watchman_drift''"

definition ParseNotificationEventKind :: "string \<Rightarrow> notification_enum_error + NotificationEventKind" where
  "ParseNotificationEventKind s =
    (if s = ''work_completed'' then Inr EventWorkCompleted
     else if s = ''work_failed'' then Inr EventWorkFailed
     else if s = ''work_exhausted'' then Inr EventWorkExhausted
     else if s = ''delivery_unknown'' then Inr EventDeliveryUnknown
     else if s = ''quarantined'' then Inr EventQuarantined
     else if s = ''reconciliation_required'' then Inr EventReconciliationRequired
     else if s = ''integration_drift'' then Inr EventIntegrationDrift
     else if s = ''watchman_drift'' then Inr EventWatchmanDrift
     else Inl (UnknownNotificationEvent s))"

interpretation event_kind: closed_enum ParseNotificationEventKind NotificationEventKind_str
proof
  show "ParseNotificationEventKind (NotificationEventKind_str a) = Inr a" for a
    by (cases a) (simp_all add: ParseNotificationEventKind_def)
  show "ParseNotificationEventKind s = Inr a \<Longrightarrow> NotificationEventKind_str a = s" for s a
    by (auto simp: ParseNotificationEventKind_def split: if_splits)
qed

text \<open>\<open>SortUnique\<close> and \<open>Contains\<close> of a set of kinds.\<close>

definition SortUnique :: "NotificationEventKind list \<Rightarrow> NotificationEventKind list" where
  "SortUnique kinds = sort_by (\<lambda>a b. NotificationEventKind_str a < NotificationEventKind_str b) (remdups (rev kinds))"

definition Contains :: "NotificationEventKind list \<Rightarrow> NotificationEventKind \<Rightarrow> bool" where
  "Contains kinds k = list_ex (\<lambda>have. have = k) kinds"

datatype NotificationState =
    NotificationPending
  | NotificationDelivered
  | NotificationRefused

primrec NotificationState_str :: "NotificationState \<Rightarrow> string" where
  "NotificationState_str NotificationPending = ''pending''"
| "NotificationState_str NotificationDelivered = ''delivered''"
| "NotificationState_str NotificationRefused = ''refused''"

definition ParseNotificationState :: "string \<Rightarrow> notification_enum_error + NotificationState" where
  "ParseNotificationState s =
    (if s = ''pending'' then Inr NotificationPending
     else if s = ''delivered'' then Inr NotificationDelivered
     else if s = ''refused'' then Inr NotificationRefused
     else Inl (UnknownNotificationState s))"

interpretation notification_state: closed_enum ParseNotificationState NotificationState_str
proof
  show "ParseNotificationState (NotificationState_str a) = Inr a" for a
    by (cases a) (simp_all add: ParseNotificationState_def)
  show "ParseNotificationState s = Inr a \<Longrightarrow> NotificationState_str a = s" for s a
    by (auto simp: ParseNotificationState_def split: if_splits)
qed

datatype NotificationAttemptOutcome =
    NotificationDeliveredOutcome
  | NotificationRefusedOutcome
  | NotificationAmbiguousOutcome
  | NotificationRetryableOutcome

primrec NotificationAttemptOutcome_str :: "NotificationAttemptOutcome \<Rightarrow> string" where
  "NotificationAttemptOutcome_str NotificationDeliveredOutcome = ''delivered''"
| "NotificationAttemptOutcome_str NotificationRefusedOutcome = ''refused''"
| "NotificationAttemptOutcome_str NotificationAmbiguousOutcome = ''ambiguous''"
| "NotificationAttemptOutcome_str NotificationRetryableOutcome = ''retryable''"

definition ParseNotificationAttemptOutcome :: "string \<Rightarrow> notification_enum_error + NotificationAttemptOutcome" where
  "ParseNotificationAttemptOutcome s =
    (if s = ''delivered'' then Inr NotificationDeliveredOutcome
     else if s = ''refused'' then Inr NotificationRefusedOutcome
     else if s = ''ambiguous'' then Inr NotificationAmbiguousOutcome
     else if s = ''retryable'' then Inr NotificationRetryableOutcome
     else Inl (UnknownNotificationOutcome s))"

interpretation attempt_outcome: closed_enum ParseNotificationAttemptOutcome NotificationAttemptOutcome_str
proof
  show "ParseNotificationAttemptOutcome (NotificationAttemptOutcome_str a) = Inr a" for a
    by (cases a) (simp_all add: ParseNotificationAttemptOutcome_def)
  show "ParseNotificationAttemptOutcome s = Inr a \<Longrightarrow> NotificationAttemptOutcome_str a = s" for s a
    by (auto simp: ParseNotificationAttemptOutcome_def split: if_splits)
qed

definition Terminal :: "NotificationAttemptOutcome \<Rightarrow> bool" where
  "Terminal ou = (ou = NotificationDeliveredOutcome \<or> ou = NotificationRefusedOutcome)"

section \<open>Identities\<close>

definition dedup_json :: "NotificationEventKind \<Rightarrow> string \<Rightarrow> string \<Rightarrow> string \<Rightarrow> string \<Rightarrow> json" where
  "dedup_json event destination transition sink policy =
     JObj ([(''event'', JStr (NotificationEventKind_str event))] @ omit_empty ''destination'' destination @
       [(''transition'', JStr transition), (''sink_id'', JStr sink), (''notification_policy_revision'', JStr policy)])"

definition NotificationID :: "NotificationEventKind \<Rightarrow> string \<Rightarrow> string \<Rightarrow> string \<Rightarrow> string \<Rightarrow> string" where
  "NotificationID event destination transition sink policy =
     ''ntf-'' @ sha256_hex (render True (dedup_json event destination transition sink policy))"

definition NotificationIdempotencyKey :: "string \<Rightarrow> string" where
  "NotificationIdempotencyKey nid =
     ''ntfidem-'' @ sha256_hex (''agent-dispatch/notification-delivery/v1'' @ [CHR 0x00] @ nid)"

definition NotificationAttemptID :: "string \<Rightarrow> int \<Rightarrow> string" where
  "NotificationAttemptID nid n =
     ''ntfa-'' @ sha256_hex (''agent-dispatch/notification-attempt/v1'' @ [CHR 0x00] @ nid @ [CHR 0x00] @ show_int n)"

section \<open>Records of the ports\<close>

record NotificationSinkRef =
  sk_id :: string
  sk_type :: string

record NotificationPolicy =
  np_events :: "NotificationEventKind list"
  np_sinks :: "NotificationSinkRef list"
  np_revision :: string

record NotificationAttemptInput =
  ni_notification_id :: string
  ni_outcome :: string
  ni_error_code :: string
  ni_response_digest :: string
  ni_started_at :: string
  ni_completed_at :: string

record NotificationAttemptRecord =
  na_attempt_id :: string
  na_notification_id :: string
  na_attempt_number :: int
  na_outcome :: NotificationAttemptOutcome
  na_error_code :: string
  na_response_digest :: string
  na_started_at :: string
  na_completed_at :: string

text \<open>One stored notification with its lease columns. An empty text stands for a NULL column where the
  code writes one through \<open>nullString\<close> and reads it back as the empty text.\<close>

record NotificationEventRecord =
  ne_notification_id :: string
  ne_route_id :: string
  ne_event :: NotificationEventKind
  ne_destination_id :: string
  ne_transition :: string
  ne_sink_id :: string
  ne_sink_type :: string
  ne_policy_revision :: string
  ne_payload_json :: string
  ne_state :: NotificationState
  ne_idempotency_key :: string
  ne_created_at :: string
  ne_resolved_at :: string
  ne_due_at :: string
  ne_lease_owner :: string
  ne_lease_token :: int
  ne_lease_expires_at :: "string option"

record NotificationClaim =
  nc_record :: NotificationEventRecord
  nc_lease_token :: int

record NotificationClaimFilter =
  nf_route_id :: string
  nf_notification_id :: string
  nf_limit :: int
  nf_owner :: string
  nf_lease_until :: string

record 'f NotificationBackoff =
  nb_initial :: int
  nb_max :: int
  nb_multiplier :: 'f
  nb_jitter_fraction :: 'f

record DrainRunInput =
  dr_drain_id :: string
  dr_route_id :: string
  dr_trigger :: string
  dr_mode :: string
  dr_started_at :: string

record DrainRunCounts =
  dc_claimed :: int
  dc_delivered :: int
  dc_refused :: int
  dc_retry_scheduled :: int
  dc_budget_expired :: bool

section \<open>The bounded payload\<close>

definition notificationSourceBound :: nat where
  "notificationSourceBound = 12"

definition notificationSourceValueBound :: nat where
  "notificationSourceValueBound = 256"

definition notificationSourceKeyBound :: nat where
  "notificationSourceKeyBound = 64"

definition safe_field :: "string \<times> string \<Rightarrow> bool" where
  "safe_field = (\<lambda>(k, v). k \<noteq> [] \<and> v \<noteq> [] \<and> length k \<le> notificationSourceKeyBound \<and>
     length v \<le> notificationSourceValueBound \<and> valid_utf8 v \<and> list_all (\<lambda>c. 32 \<le> byte c \<and> byte c \<noteq> 127) v)"

definition sanitizeNotificationSource :: "(string \<times> string) list \<Rightarrow> (string \<times> string) list" where
  "sanitizeNotificationSource source =
     (let safe = filter safe_field source
      in if notificationSourceBound < length safe
         then filter (\<lambda>(k, v). k \<notin> set (drop notificationSourceBound (sort_by (<) (map fst safe)))) safe
         else safe)"

datatype payload_error = SourceExceedsBound

definition notificationPayloadJSON ::
  "string \<Rightarrow> string \<Rightarrow> NotificationEventKind \<Rightarrow> string \<Rightarrow> string \<Rightarrow> string \<Rightarrow> string \<Rightarrow> (string \<times> string) list \<Rightarrow> string \<Rightarrow>
   payload_error + string" where
  "notificationPayloadJSON nid route event destination transition sink revision source now =
     (let safe = filter (\<lambda>(k, v). v \<noteq> []) source
      in if notificationSourceBound < length safe then Inl SourceExceedsBound
         else Inr (render True (sort_keys (JObj ([
           (''schema_version'', JStr ''agent-dispatch.notification-event/v1''),
           (''notification_id'', JStr nid), (''route_id'', JStr route), (''event'', JStr (NotificationEventKind_str event)),
           (''transition'', JStr transition), (''sink_id'', JStr sink),
           (''notification_policy_revision'', JStr revision), (''created_at'', JStr now),
           (''source'', JObj (map (\<lambda>(k, v). (k, JStr v)) safe))] @ omit_empty ''destination_id'' destination)))))"

lemma filter_mem_take_drop:
  "distinct xs \<Longrightarrow> filter (\<lambda>x. x \<notin> set (drop n xs)) xs = take n xs"
proof (induction xs arbitrary: n)
  case (Cons x xs)
  show ?case
  proof (cases n)
    case 0
    then show ?thesis by (simp add: filter_empty_conv)
  next
    case (Suc m)
    with Cons have "x \<notin> set (drop m xs)" by (meson distinct.simps(2) in_set_dropD)
    with Cons Suc show ?thesis by simp
  qed
qed simp

interpretation key_text: key_order "(<) :: string \<Rightarrow> string \<Rightarrow> bool" "\<lambda>k. k"
  by unfold_locales simp

text \<open>At most twelve safe fields leave the projection, and only fields the caller gave.\<close>

lemma sanitize_bounded:
  assumes "distinct (map fst source)"
  shows "length (sanitizeNotificationSource source) \<le> notificationSourceBound"
    and "list_all safe_field (sanitizeNotificationSource source)"
    and "set (sanitizeNotificationSource source) \<subseteq> set source"
    and "distinct (map fst (sanitizeNotificationSource source))"
proof -
  let ?s = "filter safe_field source" and ?keys = "sort_by (<) (map fst (filter safe_field source))"
  have d: "distinct (map fst ?s)" using assms by (rule distinct_map_filter)
  then have dk: "distinct ?keys" by (metis mset_sort_by mset_eq_imp_distinct_iff)
  show "length (sanitizeNotificationSource source) \<le> notificationSourceBound"
  proof (cases "notificationSourceBound < length ?s")
    case True
    have "mset (map fst ?s) = mset ?keys" by simp
    then have "mset (filter (\<lambda>k. k \<notin> set (drop notificationSourceBound ?keys)) (map fst ?s)) =
        mset (filter (\<lambda>k. k \<notin> set (drop notificationSourceBound ?keys)) ?keys)"
      unfolding mset_filter by simp
    then have "length (filter (\<lambda>k. k \<notin> set (drop notificationSourceBound ?keys)) (map fst ?s)) =
        length (take notificationSourceBound ?keys)"
      unfolding filter_mem_take_drop [OF dk] by (metis size_mset)
    then have "length (filter ((\<lambda>k. k \<notin> set (drop notificationSourceBound ?keys)) \<circ> fst) ?s) \<le> notificationSourceBound"
      by (simp add: filter_map)
    with True show ?thesis by (simp add: sanitizeNotificationSource_def Let_def comp_def case_prod_unfold)
  qed (simp add: sanitizeNotificationSource_def Let_def)
  show "list_all safe_field (sanitizeNotificationSource source)" "set (sanitizeNotificationSource source) \<subseteq> set source"
    by (auto simp: sanitizeNotificationSource_def Let_def list_all_iff)
  show "distinct (map fst (sanitizeNotificationSource source))"
    by (auto simp: sanitizeNotificationSource_def Let_def intro: distinct_map_filter [OF assms])
qed

lemma payload_renders:
  assumes "length source \<le> notificationSourceBound"
  shows "\<exists>payload. notificationPayloadJSON nid route event destination transition sink revision source now = Inr payload"
proof -
  have "length (filter (\<lambda>(k, v). v \<noteq> []) source) \<le> notificationSourceBound"
    using assms le_trans [OF length_filter_le] by blast
  then show ?thesis by (simp add: notificationPayloadJSON_def Let_def)
qed

end
