(* ===== verification/Tables.thy ===== *)
theory Tables
  imports Prelude
begin

text \<open>
  What the models of the SQLite store share. A table is the list of its rows in the order of
  insertion. \<open>update_where\<close> is an \<open>UPDATE ... WHERE\<close>, \<open>affected\<close> its row count,
  \<open>row_of\<close> the row of a key. \<open>transact\<close> is the frame of every store method: \<open>BeginTx\<close> fails
  on a context that is done, a failing body rolls everything back, a body that returns commits. The
  database engine isolates transactions, so each method is one step on the tables.
\<close>

definition update_where :: "('r \<Rightarrow> bool) \<Rightarrow> ('r \<Rightarrow> 'r) \<Rightarrow> 'r list \<Rightarrow> 'r list" where
  "update_where P f rows = map (\<lambda>r. if P r then f r else r) rows"

definition affected :: "('r \<Rightarrow> bool) \<Rightarrow> 'r list \<Rightarrow> nat" where
  "affected P rows = length (filter P rows)"

definition row_of :: "('r \<Rightarrow> 'k) \<Rightarrow> 'k \<Rightarrow> 'r list \<Rightarrow> 'r option" where
  "row_of key k rows = find (\<lambda>r. key r = k) rows"

definition transact :: "bool \<Rightarrow> 'e \<Rightarrow> ('s \<Rightarrow> 'e + 's \<times> 'a) \<Rightarrow> 's \<Rightarrow> 's \<times> ('e + 'a)" where
  "transact ctx_done e body s =
     (if ctx_done then (s, Inl e) else case body s of Inl e \<Rightarrow> (s, Inl e) | Inr (s1, x) \<Rightarrow> (s1, Inr x))"

lemma transact_done [simp]: "transact True e body s = (s, Inl e)"
  by (simp add: transact_def)

lemma transact_live: "transact False e body s = (case body s of Inl e \<Rightarrow> (s, Inl e) | Inr (s1, x) \<Rightarrow> (s1, Inr x))"
  by (simp add: transact_def)

lemma transact_failed: "transact d e body s = (s1, Inl x) \<Longrightarrow> s1 = s"
  by (auto simp: transact_def split: if_splits sum.splits prod.splits)

lemma transact_committed: "transact d e body s = (s1, Inr x) \<Longrightarrow> body s = Inr (s1, x) \<and> \<not> d"
  by (auto simp: transact_def split: if_splits sum.splits prod.splits)

lemma affected_0: "affected P rows = 0 \<longleftrightarrow> list_all (\<lambda>r. \<not> P r) rows"
  by (auto simp: affected_def list_all_iff filter_empty_conv)

lemma update_where_none: "list_all (\<lambda>r. \<not> P r) rows \<Longrightarrow> update_where P f rows = rows"
  by (induction rows) (simp_all add: update_where_def)

lemma update_where_simps [simp]:
  "update_where P f [] = []" "update_where P f (r # rows) = (if P r then f r else r) # update_where P f rows"
  "length (update_where P f rows) = length rows"
  "update_where P f (xs @ ys) = update_where P f xs @ update_where P f ys"
  by (simp_all add: update_where_def)

lemma map_update_where:
  "(\<And>r. P r \<Longrightarrow> g (f r) = g r) \<Longrightarrow> map g (update_where P f rows) = map g rows"
  by (auto simp: update_where_def)

lemma in_update_where:
  "r \<in> set (update_where P f rows) \<longleftrightarrow> (\<exists>q \<in> set rows. r = (if P q then f q else q))"
  by (auto simp: update_where_def)

lemma row_of_None: "row_of key k rows = None \<longleftrightarrow> k \<notin> set (map key rows)"
  by (auto simp: row_of_def find_None_iff)

lemma row_of_Some: "row_of key k rows = Some r \<Longrightarrow> r \<in> set rows \<and> key r = k"
  by (auto simp: row_of_def find_Some_iff)

lemma row_of_Cons: "row_of key k (r # rows) = (if key r = k then Some r else row_of key k rows)"
  by (simp add: row_of_def)

lemma row_of_Nil [simp]: "row_of key k [] = None"
  by (simp add: row_of_def)

lemma row_of_append: "row_of key k (xs @ ys) = (case row_of key k xs of None \<Rightarrow> row_of key k ys | r \<Rightarrow> r)"
  by (induction xs) (simp_all add: row_of_Cons)

lemma row_of_in: "distinct (map key rows) \<Longrightarrow> r \<in> set rows \<Longrightarrow> row_of key (key r) rows = Some r"
  by (induction rows) (auto simp: row_of_Cons image_iff)

lemma row_of_update_where:
  "(\<And>r. P r \<Longrightarrow> key (f r) = key r) \<Longrightarrow>
   row_of key k (update_where P f rows) = map_option (\<lambda>r. if P r then f r else r) (row_of key k rows)"
  by (induction rows) (auto simp: row_of_Cons)

lemma row_of_appended: "row_of key k rows = Some r \<Longrightarrow> row_of key k (rows @ more) = Some r"
  by (simp add: row_of_append)

end
