(* ===== verification/Outbox.thy ===== *)
theory Outbox
  imports Notification Tables Backoff RouteMachine
begin

text \<open>
  The durable notification outbox (\<open>src/internal/adapters/sqlite/notifications.go\<close>): the tables
  \<open>notification_events\<close>, \<open>notification_attempts\<close> and \<open>drain_runs\<close>, and every
  statement that reads or writes them. A method takes the tables and returns them beside its result;
  \<open>ctx_done\<close> says whether the caller's context is over when the transaction would begin, \<open>t\<close>
  is the wall clock in nanoseconds. Failures of the database driver are not modelled: they roll back.
\<close>

section \<open>The tables\<close>

record DrainRun =
  du_drain_id :: string
  du_route_id :: string
  du_trigger :: string
  du_mode :: string
  du_started_at :: string
  du_completed_at :: "string option"
  du_counts :: DrainRunCounts

record Outbox =
  ox_events :: "NotificationEventRecord list"
  ox_attempts :: "NotificationAttemptRecord list"
  ox_runs :: "DrainRun list"

datatype outbox_error =
    NotificationNotFound string
  | DrainRunNotFound string
  | NotificationLeaseLost string int int
  | NotificationLeaseActive string
  | AlreadyDelivered string
  | OutcomeRefused notification_enum_error
  | ConstraintFailed
  | RowVanished
  | CompletedAtMalformed string
  | PayloadRefused payload_error
  | ContextDone

abbreviation event_of :: "string \<Rightarrow> Outbox \<Rightarrow> NotificationEventRecord option" where
  "event_of nid ox \<equiv> row_of ne_notification_id nid (ox_events ox)"

section \<open>The transactional enqueue\<close>

text \<open>The constraints of the schema (\<open>migrate.go\<close>): the two unique keys and the closed sink types.\<close>

definition insertable :: "NotificationEventRecord list \<Rightarrow> NotificationEventRecord \<Rightarrow> bool" where
  "insertable rows r =
     (ne_notification_id r \<notin> set (map ne_notification_id rows) \<and>
      ne_idempotency_key r \<notin> set (map ne_idempotency_key rows) \<and> ne_sink_type r \<in> {''webhook'', ''log''})"

definition event_row ::
  "string \<Rightarrow> NotificationEventKind \<Rightarrow> string \<Rightarrow> string \<Rightarrow> NotificationSinkRef \<Rightarrow> string \<Rightarrow> string \<Rightarrow> string \<Rightarrow> string \<Rightarrow>
   NotificationEventRecord" where
  "event_row nid event route destination sink transition revision payload now =
     \<lparr>ne_notification_id = nid, ne_route_id = route, ne_event = event, ne_destination_id = destination,
      ne_transition = transition, ne_sink_id = sk_id sink, ne_sink_type = sk_type sink, ne_policy_revision = revision,
      ne_payload_json = payload, ne_state = NotificationPending, ne_idempotency_key = NotificationIdempotencyKey nid,
      ne_created_at = now, ne_resolved_at = [], ne_due_at = now, ne_lease_owner = [], ne_lease_token = 0,
      ne_lease_expires_at = None\<rparr>"

text \<open>The loop over the sinks: a failed insert is tolerated only when the identity already exists.\<close>

fun enqueue_sinks ::
  "string \<Rightarrow> NotificationEventKind \<Rightarrow> string \<Rightarrow> string \<Rightarrow> string \<Rightarrow> (string \<times> string) list \<Rightarrow> string \<Rightarrow>
   NotificationSinkRef list \<Rightarrow> NotificationEventRecord list \<Rightarrow> int \<Rightarrow> outbox_error + NotificationEventRecord list \<times> int" where
  "enqueue_sinks route event transition destination revision source now [] rows created = Inr (rows, created)"
| "enqueue_sinks route event transition destination revision source now (sink # sinks) rows created =
     (let nid = NotificationID event destination transition (sk_id sink) revision
      in bindE (map_err PayloadRefused
           (notificationPayloadJSON nid route event destination transition (sk_id sink) revision source now)) (\<lambda>payload.
         let r = event_row nid event route destination sink transition revision payload now
         in if insertable rows r
            then enqueue_sinks route event transition destination revision source now sinks (rows @ [r]) (created + 1)
            else if nid \<in> set (map ne_notification_id rows)
            then enqueue_sinks route event transition destination revision source now sinks rows created
            else Inl ConstraintFailed))"

type_synonym policy_resolver = "(string \<Rightarrow> NotificationPolicy option) option"

definition enqueueNotificationTx ::
  "policy_resolver \<Rightarrow> string \<Rightarrow> NotificationEventKind \<Rightarrow> string \<Rightarrow> string \<Rightarrow> (string \<times> string) list \<Rightarrow> string \<Rightarrow> Outbox \<Rightarrow>
   outbox_error + Outbox \<times> int" where
  "enqueueNotificationTx resolver route event transition destination source now ox =
     (case resolver of None \<Rightarrow> Inr (ox, 0)
      | Some resolve \<Rightarrow>
     (case resolve route of None \<Rightarrow> Inr (ox, 0)
      | Some policy \<Rightarrow>
          if np_sinks policy = [] \<or> np_revision policy = [] \<or> \<not> Contains (np_events policy) event then Inr (ox, 0)
          else bindE (enqueue_sinks route event transition destination (np_revision policy)
              (sanitizeNotificationSource source) (normalizeTimestamp now)
              (sort_by (\<lambda>a b. sk_id a < sk_id b) (np_sinks policy)) (ox_events ox) 0)
            (\<lambda>(rows, created). Inr (ox\<lparr>ox_events := rows\<rparr>, created))))"

definition EnqueueRouteNotification ::
  "bool \<Rightarrow> policy_resolver \<Rightarrow> string \<Rightarrow> NotificationEventKind \<Rightarrow> string \<Rightarrow> string \<Rightarrow> (string \<times> string) list \<Rightarrow> string \<Rightarrow>
   Outbox \<Rightarrow> Outbox \<times> (outbox_error + int)" where
  "EnqueueRouteNotification ctx_done resolver route event transition destination source now =
     transact ctx_done ContextDone (enqueueNotificationTx resolver route event transition destination source now)"

text \<open>The route's pending flag is read from another table; \<open>None\<close> is a route without a row.\<close>

definition notifyPendingReconcileTx ::
  "policy_resolver \<Rightarrow> bool option \<Rightarrow> string \<Rightarrow> string \<Rightarrow> (string \<times> string) list \<Rightarrow> string \<Rightarrow> Outbox \<Rightarrow> outbox_error + Outbox" where
  "notifyPendingReconcileTx resolver pending route occurrence source now ox =
     (if resolver = None \<or> pending \<noteq> Some False then Inr ox
      else bindE (enqueueNotificationTx resolver route EventReconciliationRequired
          (''route:'' @ route @ '':pending_reconcile:'' @ occurrence) [] source now ox) (\<lambda>(ox1, created). Inr ox1))"

section \<open>Leases\<close>

definition lease_free :: "string \<Rightarrow> NotificationEventRecord \<Rightarrow> bool" where
  "lease_free now r =
     (ne_lease_owner r = [] \<or> (case ne_lease_expires_at r of None \<Rightarrow> True | Some expiry \<Rightarrow> expiry \<le> now))"

definition free_lease :: "NotificationEventRecord \<Rightarrow> NotificationEventRecord" where
  "free_lease r = r\<lparr>ne_lease_owner := [], ne_lease_expires_at := None\<rparr>"

text \<open>\<open>notificationDueSQL\<close> with the optional filters.\<close>

definition due :: "string \<Rightarrow> NotificationClaimFilter \<Rightarrow> NotificationEventRecord \<Rightarrow> bool" where
  "due now flt r =
     (ne_state r = NotificationPending \<and> ne_due_at r \<noteq> [] \<and> ne_due_at r \<le> now \<and> lease_free now r \<and>
      (nf_route_id flt = [] \<or> ne_route_id r = nf_route_id flt) \<and>
      (nf_notification_id flt = [] \<or> ne_notification_id r = nf_notification_id flt))"

definition bounded_limit :: "int \<Rightarrow> int" where
  "bounded_limit n = (if n \<le> 0 \<or> 500 < n then 100 else n)"

definition oldest_first :: "NotificationEventRecord \<Rightarrow> NotificationEventRecord \<Rightarrow> bool" where
  "oldest_first a b = ((ne_created_at a, ne_notification_id a) < (ne_created_at b, ne_notification_id b))"

definition lease_to :: "string \<Rightarrow> string \<Rightarrow> NotificationEventRecord \<Rightarrow> NotificationEventRecord" where
  "lease_to owner until r =
     r\<lparr>ne_lease_owner := owner, ne_lease_token := ne_lease_token r + 1, ne_lease_expires_at := Some until\<rparr>"

definition claimable :: "string \<Rightarrow> string \<Rightarrow> NotificationEventRecord \<Rightarrow> bool" where
  "claimable now nid r = (ne_notification_id r = nid \<and> ne_state r = NotificationPending \<and> lease_free now r)"

fun claim_rows ::
  "string \<Rightarrow> string \<Rightarrow> string \<Rightarrow> string list \<Rightarrow> NotificationEventRecord list \<Rightarrow> NotificationClaim list \<Rightarrow>
   outbox_error + NotificationEventRecord list \<times> NotificationClaim list" where
  "claim_rows owner until now [] rows claims = Inr (rows, claims)"
| "claim_rows owner until now (nid # nids) rows claims =
     (if affected (claimable now nid) rows = 0 then claim_rows owner until now nids rows claims
      else let rows1 = update_where (claimable now nid) (lease_to owner until) rows
           in case row_of ne_notification_id nid rows1 of
             None \<Rightarrow> Inl RowVanished
           | Some r \<Rightarrow> claim_rows owner until now nids rows1
               (claims @ [\<lparr>nc_record = r, nc_lease_token = ne_lease_token r\<rparr>]))"

text \<open>The margin of thirty seconds.\<close>

definition notificationLeaseMargin :: int where
  "notificationLeaseMargin = 30 * 10 ^ 9"

definition claim_due :: "int \<Rightarrow> NotificationClaimFilter \<Rightarrow> Outbox \<Rightarrow> outbox_error + Outbox \<times> NotificationClaim list" where
  "claim_due t flt ox =
     (let now = CanonicalTimestamp t;
          until = normalizeTimestamp (if nf_lease_until flt = [] then NanoTimestamp (t + notificationLeaseMargin)
            else nf_lease_until flt);
          nids = map ne_notification_id
            (take (nat (bounded_limit (nf_limit flt))) (sort_by oldest_first (filter (due now flt) (ox_events ox))))
      in bindE (claim_rows (nf_owner flt) until now nids (ox_events ox) []) (\<lambda>(rows, claims).
        Inr (ox\<lparr>ox_events := rows\<rparr>, claims)))"

definition ClaimDueNotifications ::
  "bool \<Rightarrow> int \<Rightarrow> NotificationClaimFilter \<Rightarrow> Outbox \<Rightarrow> Outbox \<times> (outbox_error + NotificationClaim list)" where
  "ClaimDueNotifications ctx_done t flt = transact ctx_done ContextDone (claim_due t flt)"

fun release_rows :: "string \<Rightarrow> NotificationClaim list \<Rightarrow> NotificationEventRecord list \<Rightarrow> NotificationEventRecord list" where
  "release_rows owner [] rows = rows"
| "release_rows owner (c # cs) rows = release_rows owner cs
     (update_where (\<lambda>r. ne_notification_id r = ne_notification_id (nc_record c) \<and> ne_lease_owner r = owner \<and>
        ne_lease_token r = nc_lease_token c) free_lease rows)"

definition ReleaseNotificationClaims ::
  "bool \<Rightarrow> string \<Rightarrow> NotificationClaim list \<Rightarrow> Outbox \<Rightarrow> Outbox \<times> (outbox_error + unit)" where
  "ReleaseNotificationClaims ctx_done owner claims =
     transact ctx_done ContextDone (\<lambda>ox. Inr (ox\<lparr>ox_events := release_rows owner claims (ox_events ox)\<rparr>, ()))"

section \<open>Attempts\<close>

definition last_number :: "string \<Rightarrow> NotificationAttemptRecord list \<Rightarrow> int" where
  "last_number nid rows = fold max (map na_attempt_number (filter (\<lambda>a. na_notification_id a = nid) rows)) 0"

definition attempt_row :: "NotificationAttemptInput \<Rightarrow> NotificationAttemptOutcome \<Rightarrow> int \<Rightarrow> NotificationAttemptRecord" where
  "attempt_row inp outcome n =
     \<lparr>na_attempt_id = NotificationAttemptID (ni_notification_id inp) n, na_notification_id = ni_notification_id inp,
      na_attempt_number = n, na_outcome = outcome, na_error_code = ni_error_code inp,
      na_response_digest = ni_response_digest inp, na_started_at = normalizeTimestamp (ni_started_at inp),
      na_completed_at = normalizeTimestamp (ni_completed_at inp)\<rparr>"

text \<open>The next attempt of a notification, appended under the unique attempt identity.\<close>

definition insert_attempt ::
  "NotificationAttemptInput \<Rightarrow> NotificationAttemptOutcome \<Rightarrow> Outbox \<Rightarrow> outbox_error + Outbox \<times> NotificationAttemptRecord" where
  "insert_attempt inp outcome ox =
     (let a = attempt_row inp outcome (last_number (ni_notification_id inp) (ox_attempts ox) + 1)
      in if na_attempt_id a \<in> set (map na_attempt_id (ox_attempts ox)) then Inl ConstraintFailed
         else Inr (ox\<lparr>ox_attempts := ox_attempts ox @ [a]\<rparr>, a))"

definition update_pending :: "string \<Rightarrow> (NotificationEventRecord \<Rightarrow> NotificationEventRecord) \<Rightarrow> Outbox \<Rightarrow> Outbox" where
  "update_pending nid f ox =
     ox\<lparr>ox_events := update_where (\<lambda>r. ne_notification_id r = nid \<and> ne_state r = NotificationPending) f (ox_events ox)\<rparr>"

definition resolved_state :: "NotificationAttemptOutcome \<Rightarrow> NotificationState" where
  "resolved_state outcome = (if outcome = NotificationRefusedOutcome then NotificationRefused else NotificationDelivered)"

definition record_attempt ::
  "NotificationAttemptInput \<Rightarrow> NotificationAttemptOutcome \<Rightarrow> Outbox \<Rightarrow> outbox_error + Outbox \<times> NotificationAttemptRecord" where
  "record_attempt inp outcome ox =
     bindE (case event_of (ni_notification_id inp) ox of
         None \<Rightarrow> Inl (NotificationNotFound (ni_notification_id inp)) | Some r \<Rightarrow> Inr r) (\<lambda>_.
     bindE (insert_attempt inp outcome ox) (\<lambda>(ox1, a).
       Inr (if Terminal outcome
            then update_pending (ni_notification_id inp)
              (\<lambda>r. r\<lparr>ne_state := resolved_state outcome, ne_resolved_at := na_completed_at a\<rparr>) ox1
            else ox1, a)))"

text \<open>An outcome outside the vocabulary is refused before the transaction begins.\<close>

definition RecordNotificationAttempt ::
  "bool \<Rightarrow> NotificationAttemptInput \<Rightarrow> Outbox \<Rightarrow> Outbox \<times> (outbox_error + NotificationAttemptRecord)" where
  "RecordNotificationAttempt ctx_done inp ox =
     (case ParseNotificationAttemptOutcome (ni_outcome inp) of
        Inl e \<Rightarrow> (ox, Inl (OutcomeRefused e))
      | Inr outcome \<Rightarrow> transact ctx_done ContextDone (record_attempt inp outcome) ox)"

fun backoff_loop :: "'f Float64 \<Rightarrow> 'f NotificationBackoff \<Rightarrow> nat \<Rightarrow> 'f \<Rightarrow> 'f" where
  "backoff_loop F b 0 delay = delay"
| "backoff_loop F b (Suc n) delay =
     (let d = fl_mul F delay (nb_multiplier b)
      in if 0 < nb_max b \<and> fl_less F (fl_of_int F (nb_max b)) d then fl_of_int F (nb_max b) else backoff_loop F b n d)"

definition capped_delay :: "'f Float64 \<Rightarrow> 'f NotificationBackoff \<Rightarrow> int \<Rightarrow> 'f" where
  "capped_delay F b attempt =
     (let d = backoff_loop F b (nat (attempt - 1)) (fl_of_int F (nb_initial b))
      in if 0 < nb_max b \<and> fl_less F (fl_of_int F (nb_max b)) d then fl_of_int F (nb_max b) else d)"

definition notificationBackoffDelay :: "'f Float64 \<Rightarrow> 'f NotificationBackoff \<Rightarrow> int \<Rightarrow> 'f \<Rightarrow> int" where
  "notificationBackoffDelay F b attempt draw =
     (let spread = fl_mul F (fl_add F (fl_mul F draw (fl_of_int F 2)) (fl_of_int F (- 1))) (nb_jitter_fraction b);
          jitter = fl_add F (fl_one F) spread;
          jitter1 = (if fl_less F jitter (fl_zero F) then fl_zero F else jitter)
      in fl_to_int F (fl_mul F (capped_delay F b attempt) jitter1))"

definition record_fenced ::
  "'f Float64 \<Rightarrow> 'f \<Rightarrow> NotificationAttemptInput \<Rightarrow> NotificationAttemptOutcome \<Rightarrow> NotificationClaim \<Rightarrow>
   'f NotificationBackoff \<Rightarrow> Outbox \<Rightarrow> outbox_error + Outbox \<times> NotificationAttemptRecord" where
  "record_fenced F draw inp outcome claim backoff ox =
     bindE (case event_of (ni_notification_id inp) ox of
         None \<Rightarrow> Inl (NotificationNotFound (ni_notification_id inp)) | Some r \<Rightarrow> Inr r) (\<lambda>r.
     bindE (guardE (\<not> (ne_lease_owner r = [] \<or> ne_lease_token r \<noteq> nc_lease_token claim))
       (NotificationLeaseLost (ni_notification_id inp) (nc_lease_token claim) (ne_lease_token r))) (\<lambda>_.
     bindE (insert_attempt inp outcome ox) (\<lambda>(ox1, a).
       if Terminal outcome
       then Inr (update_pending (ni_notification_id inp)
           (\<lambda>r. free_lease (r\<lparr>ne_state := resolved_state outcome, ne_resolved_at := na_completed_at a\<rparr>)) ox1, a)
       else case parse_rfc3339 (na_completed_at a) of
         None \<Rightarrow> Inl (CompletedAtMalformed (na_completed_at a))
       | Some completed \<Rightarrow>
           (let delay = notificationBackoffDelay F backoff (na_attempt_number a) draw
            in Inr (update_pending (ni_notification_id inp)
                (\<lambda>r. free_lease (r\<lparr>ne_due_at := normalizeTimestamp (NanoTimestamp (completed + delay))\<rparr>)) ox1, a)))))"

definition RecordNotificationAttemptFenced ::
  "bool \<Rightarrow> 'f Float64 \<Rightarrow> 'f \<Rightarrow> NotificationAttemptInput \<Rightarrow> NotificationClaim \<Rightarrow> 'f NotificationBackoff \<Rightarrow> Outbox \<Rightarrow>
   Outbox \<times> (outbox_error + NotificationAttemptRecord)" where
  "RecordNotificationAttemptFenced ctx_done F draw inp claim backoff ox =
     (case ParseNotificationAttemptOutcome (ni_outcome inp) of
        Inl e \<Rightarrow> (ox, Inl (OutcomeRefused e))
      | Inr outcome \<Rightarrow> transact ctx_done ContextDone (record_fenced F draw inp outcome claim backoff) ox)"

section \<open>The operator's retry\<close>

definition retry_row :: "int \<Rightarrow> string \<Rightarrow> Outbox \<Rightarrow> outbox_error + Outbox \<times> unit" where
  "retry_row t nid ox =
     (let now = CanonicalTimestamp t in
      case event_of nid ox of
        None \<Rightarrow> Inl (NotificationNotFound nid)
      | Some r \<Rightarrow>
          (case ne_state r of
             NotificationDelivered \<Rightarrow> Inl (AlreadyDelivered nid)
           | NotificationPending \<Rightarrow>
               (let expiry = normalizeTimestamp (case ne_lease_expires_at r of None \<Rightarrow> [] | Some e \<Rightarrow> e);
                    P = (\<lambda>r. ne_notification_id r = nid \<and> ne_state r = NotificationPending \<and> lease_free now r)
                in if ne_lease_owner r \<noteq> [] \<and> now < expiry then Inl (NotificationLeaseActive nid)
                   else if affected P (ox_events ox) = 0 then Inl (NotificationLeaseActive nid)
                   else Inr (ox\<lparr>ox_events := update_where P (\<lambda>r. r\<lparr>ne_due_at := now\<rparr>) (ox_events ox)\<rparr>, ()))
           | NotificationRefused \<Rightarrow>
               Inr (ox\<lparr>ox_events := update_where (\<lambda>r. ne_notification_id r = nid \<and> ne_state r = NotificationRefused)
                 (\<lambda>r. r\<lparr>ne_state := NotificationPending, ne_resolved_at := [], ne_due_at := now\<rparr>) (ox_events ox)\<rparr>, ())))"

definition RetryNotification :: "bool \<Rightarrow> int \<Rightarrow> string \<Rightarrow> Outbox \<Rightarrow> Outbox \<times> (outbox_error + unit)" where
  "RetryNotification ctx_done t nid = transact ctx_done ContextDone (retry_row t nid)"

section \<open>Drain runs\<close>

definition drain_modes :: "string set" where
  "drain_modes = {''manual'', ''after-command'', ''scheduled''}"

definition start_run :: "DrainRunInput \<Rightarrow> Outbox \<Rightarrow> outbox_error + Outbox \<times> unit" where
  "start_run inp ox =
     (if dr_drain_id inp \<in> set (map du_drain_id (ox_runs ox)) \<or> dr_trigger inp \<notin> drain_modes \<or> dr_mode inp \<notin> drain_modes
      then Inl ConstraintFailed
      else Inr (ox\<lparr>ox_runs := ox_runs ox @ [\<lparr>du_drain_id = dr_drain_id inp, du_route_id = dr_route_id inp,
        du_trigger = dr_trigger inp, du_mode = dr_mode inp, du_started_at = normalizeTimestamp (dr_started_at inp),
        du_completed_at = None, du_counts = \<lparr>dc_claimed = 0, dc_delivered = 0, dc_refused = 0, dc_retry_scheduled = 0,
          dc_budget_expired = False\<rparr>\<rparr>]\<rparr>, ()))"

definition StartDrainRun :: "bool \<Rightarrow> DrainRunInput \<Rightarrow> Outbox \<Rightarrow> Outbox \<times> (outbox_error + unit)" where
  "StartDrainRun ctx_done inp = transact ctx_done ContextDone (start_run inp)"

definition finish_run :: "string \<Rightarrow> DrainRunCounts \<Rightarrow> string \<Rightarrow> Outbox \<Rightarrow> outbox_error + Outbox \<times> unit" where
  "finish_run did counts completedAt ox =
     (let P = (\<lambda>r. du_drain_id r = did \<and> du_completed_at r = None)
      in if affected P (ox_runs ox) = 0 then Inl (DrainRunNotFound did)
         else Inr (ox\<lparr>ox_runs := update_where P (\<lambda>r. r\<lparr>du_completed_at := Some (normalizeTimestamp completedAt),
           du_counts := counts\<rparr>) (ox_runs ox)\<rparr>, ()))"

definition FinishDrainRun :: "bool \<Rightarrow> string \<Rightarrow> DrainRunCounts \<Rightarrow> string \<Rightarrow> Outbox \<Rightarrow> Outbox \<times> (outbox_error + unit)" where
  "FinishDrainRun ctx_done did counts completedAt = transact ctx_done ContextDone (finish_run did counts completedAt)"

section \<open>Inspection\<close>

record ListedNotification =
  nl_record :: NotificationEventRecord
  nl_attempt_count :: int
  nl_last_outcome :: "NotificationAttemptOutcome option"

text \<open>The attempt projection: the number of attempts and the outcome of the one with the highest number.\<close>

definition listed :: "NotificationAttemptRecord list \<Rightarrow> NotificationEventRecord \<Rightarrow> ListedNotification" where
  "listed attempts r =
     (let own = filter (\<lambda>a. na_notification_id a = ne_notification_id r) attempts
      in \<lparr>nl_record = r, nl_attempt_count = int (length own),
          nl_last_outcome = map_option na_outcome
            (find (\<lambda>a. na_attempt_number a = last_number (ne_notification_id r) attempts) own)\<rparr>)"

definition PendingNotifications :: "int \<Rightarrow> Outbox \<Rightarrow> ListedNotification list" where
  "PendingNotifications limit ox =
     map (listed (ox_attempts ox)) (take (nat (bounded_limit limit))
       (sort_by oldest_first (filter (\<lambda>r. ne_state r = NotificationPending) (ox_events ox))))"

record NotificationFilter =
  fl_route_id :: string
  fl_state :: string
  fl_sink_id :: string
  fl_event :: string
  fl_limit :: int

definition newest_first :: "NotificationEventRecord \<Rightarrow> NotificationEventRecord \<Rightarrow> bool" where
  "newest_first a b =
     (ne_created_at b < ne_created_at a \<or>
      (ne_created_at a = ne_created_at b \<and> ne_notification_id a < ne_notification_id b))"

definition matches_filter :: "NotificationFilter \<Rightarrow> NotificationEventRecord \<Rightarrow> bool" where
  "matches_filter flt r =
     ((fl_route_id flt = [] \<or> ne_route_id r = fl_route_id flt) \<and>
      (fl_state flt = [] \<or> NotificationState_str (ne_state r) = fl_state flt) \<and>
      (fl_sink_id flt = [] \<or> ne_sink_id r = fl_sink_id flt) \<and>
      (fl_event flt = [] \<or> NotificationEventKind_str (ne_event r) = fl_event flt))"

definition ListNotifications :: "NotificationFilter \<Rightarrow> Outbox \<Rightarrow> ListedNotification list" where
  "ListNotifications flt ox =
     map (listed (ox_attempts ox)) (take (nat (bounded_limit (fl_limit flt)))
       (sort_by newest_first (filter (matches_filter flt) (ox_events ox))))"

definition LoadNotification :: "string \<Rightarrow> Outbox \<Rightarrow> outbox_error + NotificationEventRecord" where
  "LoadNotification nid ox = (case event_of nid ox of None \<Rightarrow> Inl (NotificationNotFound nid) | Some r \<Rightarrow> Inr r)"

definition ListNotificationAttempts :: "string \<Rightarrow> Outbox \<Rightarrow> NotificationAttemptRecord list" where
  "ListNotificationAttempts nid ox =
     sort_by (\<lambda>a b. na_attempt_number a < na_attempt_number b) (filter (\<lambda>a. na_notification_id a = nid) (ox_attempts ox))"

definition CountNotificationsByTransition :: "string \<Rightarrow> string \<Rightarrow> Outbox \<Rightarrow> nat" where
  "CountNotificationsByTransition route transition ox =
     affected (\<lambda>r. ne_route_id r = route \<and> ne_transition r = transition) (ox_events ox)"

text \<open>\<open>None\<close> is a state without a row in the answer.\<close>

definition CountNotificationsByState :: "Outbox \<Rightarrow> NotificationState \<Rightarrow> nat option" where
  "CountNotificationsByState ox st =
     (let n = affected (\<lambda>r. ne_state r = st) (ox_events ox) in if n = 0 then None else Some n)"

text \<open>The reportable event of a completed unit of work.\<close>

definition notificationEventOfWork :: "RouteState \<Rightarrow> bool \<Rightarrow> NotificationEventKind" where
  "notificationEventOfWork to failed =
     (if to = RouteUncertain then EventWorkExhausted else if failed then EventWorkFailed else EventWorkCompleted)"

end
