(* ===== verification/Delivery.thy ===== *)
theory Delivery
  imports Outbox
begin

text \<open>
  The delivery services over the outbox (\<open>src/internal/app/notifications/delivery.go\<close>): the plain
  pass over the pending notifications, and the lease-safe drain with its claims, fenced outcomes and wall
  budget. Store, sink and clock are functions over a world \<open>'s\<close>; nothing is assumed about them. The
  caller's context is part of the world: \<open>ds_ctx_over\<close> is \<open>ctx.Err() != nil\<close>, and a store call
  says whether it was given the context or a copy that cannot be cancelled.
\<close>

section \<open>Sinks\<close>

record NotificationDelivery =
  nd_notification_id :: string
  nd_route_id :: string
  nd_event :: NotificationEventKind
  nd_destination_id :: string
  nd_sink_id :: string
  nd_idempotency_key :: string
  nd_payload_json :: string

definition delivery_of :: "NotificationEventRecord \<Rightarrow> NotificationDelivery" where
  "delivery_of r = \<lparr>nd_notification_id = ne_notification_id r, nd_route_id = ne_route_id r, nd_event = ne_event r,
     nd_destination_id = ne_destination_id r, nd_sink_id = ne_sink_id r, nd_idempotency_key = ne_idempotency_key r,
     nd_payload_json = ne_payload_json r\<rparr>"

definition sink_ref :: "NotificationEventRecord \<Rightarrow> NotificationSinkRef" where
  "sink_ref r = \<lparr>sk_id = ne_sink_id r, sk_type = ne_sink_type r\<rparr>"

type_synonym 's sink = "'s \<Rightarrow> NotificationDelivery \<Rightarrow> 's \<times> NotificationAttemptInput"
type_synonym 's sink_resolver = "string \<Rightarrow> NotificationSinkRef \<Rightarrow> string + 's sink"

text \<open>A defective declaration is told apart from a failure of the store.\<close>

datatype delivery_error =
    SinkConstructionError string
  | DeliveryStore outbox_error

section \<open>The plain pass\<close>

record 's NotificationStore =
  dn_pending :: "'s \<Rightarrow> int \<Rightarrow> 's \<times> (outbox_error + NotificationEventRecord list)"
  dn_record :: "'s \<Rightarrow> NotificationAttemptInput \<Rightarrow> 's \<times> (outbox_error + NotificationAttemptRecord)"

record 's Delivery =
  dl_store :: "'s NotificationStore"
  dl_resolver :: "'s sink_resolver"
  dl_now :: "'s \<Rightarrow> 's \<times> int"
  dl_max_per_run :: int

record DrainReport =
  re_delivered :: int
  re_refused :: int
  re_ambiguous :: int
  re_retryable :: int

definition DefaultMaxPerRun :: int where
  "DefaultMaxPerRun = 100"

definition empty_report :: DrainReport where
  "empty_report = \<lparr>re_delivered = 0, re_refused = 0, re_ambiguous = 0, re_retryable = 0\<rparr>"

definition Pending :: "DrainReport \<Rightarrow> bool" where
  "Pending r = (0 < re_ambiguous r \<or> 0 < re_retryable r)"

text \<open>The outcome is a text that a sink chose; only the four known ones count.\<close>

definition count_outcome :: "string \<Rightarrow> DrainReport \<Rightarrow> DrainReport" where
  "count_outcome outcome r =
     (if outcome = ''delivered'' then r\<lparr>re_delivered := re_delivered r + 1\<rparr>
      else if outcome = ''refused'' then r\<lparr>re_refused := re_refused r + 1\<rparr>
      else if outcome = ''ambiguous'' then r\<lparr>re_ambiguous := re_ambiguous r + 1\<rparr>
      else if outcome = ''retryable'' then r\<lparr>re_retryable := re_retryable r + 1\<rparr>
      else r)"

definition delivery_stamp :: "'s Delivery \<Rightarrow> 's \<Rightarrow> 's \<times> string" where
  "delivery_stamp d w = (case dl_now d w of (w1, t) \<Rightarrow> (w1, CanonicalTimestamp t))"

definition deliverThrough ::
  "'s Delivery \<Rightarrow> 's \<Rightarrow> NotificationEventRecord \<Rightarrow> 's sink \<Rightarrow> 's \<times> (delivery_error + string)" where
  "deliverThrough d w r sink =
     (let (w1, started) = delivery_stamp d w; (w2, attempt) = sink w1 (delivery_of r); (w3, completed) = delivery_stamp d w2
      in case dn_record (dl_store d) w3 (attempt\<lparr>ni_notification_id := ne_notification_id r, ni_started_at := started,
           ni_completed_at := completed\<rparr>) of
        (w4, Inl e) \<Rightarrow> (w4, Inl (DeliveryStore e))
      | (w4, Inr _) \<Rightarrow> (w4, Inr (ni_outcome attempt)))"

definition DeliverOne :: "'s Delivery \<Rightarrow> 's \<Rightarrow> NotificationEventRecord \<Rightarrow> 's \<times> (delivery_error + string)" where
  "DeliverOne d w r =
     (case dl_resolver d (ne_route_id r) (sink_ref r) of
        Inl e \<Rightarrow> (w, Inl (SinkConstructionError e))
      | Inr sink \<Rightarrow> deliverThrough d w r sink)"

definition unresolvable :: "string \<Rightarrow> string \<Rightarrow> string \<Rightarrow> NotificationAttemptInput" where
  "unresolvable nid started completed = \<lparr>ni_notification_id = nid, ni_outcome = ''retryable'', ni_error_code = ''sink_unresolvable'',
     ni_response_digest = [], ni_started_at = started, ni_completed_at = completed\<rparr>"

fun deliver_loop :: "'s Delivery \<Rightarrow> 's \<Rightarrow> NotificationEventRecord list \<Rightarrow> DrainReport \<Rightarrow> 's \<times> DrainReport \<times> outbox_error option" where
  "deliver_loop d w [] report = (w, report, None)"
| "deliver_loop d w (r # rs) report =
     (case DeliverOne d w r of
        (w1, Inr outcome) \<Rightarrow> deliver_loop d w1 rs (count_outcome outcome report)
      | (w1, Inl (DeliveryStore e)) \<Rightarrow> (w1, report, Some e)
      | (w1, Inl (SinkConstructionError e)) \<Rightarrow>
          (let (w2, started) = delivery_stamp d w1; (w3, completed) = delivery_stamp d w2
           in case dn_record (dl_store d) w3 (unresolvable (ne_notification_id r) started completed) of
             (w4, Inl e) \<Rightarrow> (w4, report, Some e)
           | (w4, Inr _) \<Rightarrow> deliver_loop d w4 rs (report\<lparr>re_retryable := re_retryable report + 1\<rparr>)))"

definition DeliverPending :: "'s Delivery \<Rightarrow> 's \<Rightarrow> 's \<times> DrainReport \<times> outbox_error option" where
  "DeliverPending d w =
     (case dn_pending (dl_store d) w (if dl_max_per_run d \<le> 0 then DefaultMaxPerRun else dl_max_per_run d) of
        (w1, Inl e) \<Rightarrow> (w1, empty_report, Some e)
      | (w1, Inr pending) \<Rightarrow> deliver_loop d w1 pending empty_report)"

section \<open>The lease-safe drain\<close>

datatype Ctx = WithCtx | WithoutCancel

record ('s, 'f) NotificationDrainStore =
  da_claim :: "'s \<Rightarrow> NotificationClaimFilter \<Rightarrow> 's \<times> (outbox_error + NotificationClaim list)"
  da_record_fenced :: "'s \<Rightarrow> NotificationAttemptInput \<Rightarrow> NotificationClaim \<Rightarrow> 'f NotificationBackoff \<Rightarrow>
    's \<times> (outbox_error + NotificationAttemptRecord)"
  da_release :: "'s \<Rightarrow> Ctx \<Rightarrow> string \<Rightarrow> NotificationClaim list \<Rightarrow> 's \<times> (outbox_error + unit)"

record ('s, 'f) DrainService =
  ds_store :: "('s, 'f) NotificationDrainStore"
  ds_resolver :: "'s sink_resolver"
  ds_now :: "'s \<Rightarrow> 's \<times> int"
  ds_limit :: int
  ds_retry :: "'f NotificationBackoff"
  ds_backoff_for :: "(string \<Rightarrow> 'f NotificationBackoff) option"
  ds_owner :: string
  ds_draw_owner :: "'s \<Rightarrow> 's \<times> string"
  ds_float :: "'f Float64"
  ds_default_multiplier :: 'f
  ds_default_jitter :: 'f
  ds_ctx_over :: "'s \<Rightarrow> bool"
  ds_ctx_deadline :: "int option"

record DrainClaimedReport =
  cr_claimed :: int
  cr_counts :: DrainReport
  cr_budget_expired :: bool

definition claimed_pending :: "DrainClaimedReport \<Rightarrow> bool" where
  "claimed_pending r = (0 < re_ambiguous (cr_counts r) \<or> 0 < re_retryable (cr_counts r))"

definition limit :: "('s, 'f) DrainService \<Rightarrow> int" where
  "limit d = (if ds_limit d \<le> 0 then DefaultMaxPerRun else ds_limit d)"

text \<open>\<open>env == (ports.NotificationBackoff{})\<close>\<close>

definition backoff_unset :: "'f Float64 \<Rightarrow> 'f NotificationBackoff \<Rightarrow> bool" where
  "backoff_unset F b = (nb_initial b = 0 \<and> nb_max b = 0 \<and> fl_eq F (nb_multiplier b) (fl_zero F) \<and>
     fl_eq F (nb_jitter_fraction b) (fl_zero F))"

definition retryFor :: "('s, 'f) DrainService \<Rightarrow> string \<Rightarrow> 'f NotificationBackoff" where
  "retryFor d route =
     (let F = ds_float d;
          env = (case ds_backoff_for d of
              None \<Rightarrow> ds_retry d
            | Some f \<Rightarrow> if backoff_unset F (f route) then ds_retry d else f route)
      in if backoff_unset F env
         then \<lparr>nb_initial = 30 * 10 ^ 9, nb_max = 15 * 60 * 10 ^ 9, nb_multiplier = ds_default_multiplier d,
           nb_jitter_fraction = ds_default_jitter d\<rparr>
         else env\<lparr>nb_initial := (if nb_initial env \<le> 0 then 30 * 10 ^ 9 else nb_initial env),
           nb_max := (if nb_max env \<le> 0 then 15 * 60 * 10 ^ 9 else nb_max env),
           nb_multiplier := (if fl_le F (nb_multiplier env) (fl_zero F) then ds_default_multiplier d else nb_multiplier env)\<rparr>)"

definition owner :: "('s, 'f) DrainService \<Rightarrow> 's \<Rightarrow> 's \<times> string" where
  "owner d w = (if ds_owner d \<noteq> [] then (w, ds_owner d) else ds_draw_owner d w)"

definition drain_stamp :: "('s, 'f) DrainService \<Rightarrow> 's \<Rightarrow> 's \<times> string" where
  "drain_stamp d w = (case ds_now d w of (w1, t) \<Rightarrow> (w1, CanonicalTimestamp t))"

definition attemptThroughSink ::
  "('s, 'f) DrainService \<Rightarrow> 's \<Rightarrow> NotificationEventRecord \<Rightarrow> 's \<times> (string + string)" where
  "attemptThroughSink d w r =
     (case ds_resolver d (ne_route_id r) (sink_ref r) of
        Inl e \<Rightarrow> (w, Inl e)
      | Inr sink \<Rightarrow> (case sink w (delivery_of r) of (w1, attempt) \<Rightarrow> (w1, Inr (ni_outcome attempt))))"

definition fenced_input :: "string \<Rightarrow> string \<Rightarrow> string \<Rightarrow> string \<Rightarrow> NotificationAttemptInput" where
  "fenced_input nid outcome started completed = \<lparr>ni_notification_id = nid, ni_outcome = outcome, ni_error_code = [],
     ni_response_digest = [], ni_started_at = started, ni_completed_at = completed\<rparr>"

definition deliverClaimed :: "('s, 'f) DrainService \<Rightarrow> 's \<Rightarrow> NotificationClaim \<Rightarrow> 's \<times> (outbox_error + string)" where
  "deliverClaimed d w c =
     (let r = nc_record c; (w1, started) = drain_stamp d w; (w2, attempt) = attemptThroughSink d w1 r;
          (w3, completed) = drain_stamp d w2;
          (inp, outcome) = (case attempt of
              Inl e \<Rightarrow> (unresolvable (ne_notification_id r) started completed, ''retryable'')
            | Inr ou \<Rightarrow> (fenced_input (ne_notification_id r) ou started completed, ou))
      in case da_record_fenced (ds_store d) w3 inp c (retryFor d (ne_route_id r)) of
        (w4, Inl e) \<Rightarrow> (w4, Inl e)
      | (w4, Inr _) \<Rightarrow> (w4, Inr outcome))"

definition is_lease_lost :: "outbox_error \<Rightarrow> bool" where
  "is_lease_lost e = (case e of NotificationLeaseLost n a b \<Rightarrow> True | _ \<Rightarrow> False)"

text \<open>The loop over the claims returns the ones it never started, and the error that stopped it.\<close>

fun drain_claims ::
  "('s, 'f) DrainService \<Rightarrow> 's \<Rightarrow> NotificationClaim list \<Rightarrow> DrainClaimedReport \<Rightarrow>
   's \<times> DrainClaimedReport \<times> NotificationClaim list \<times> outbox_error option" where
  "drain_claims d w [] report = (w, report, [], None)"
| "drain_claims d w (c # cs) report =
     (if ds_ctx_over d w then (w, report\<lparr>cr_budget_expired := True\<rparr>, c # cs, None)
      else case deliverClaimed d w c of
        (w1, Inl e) \<Rightarrow> if is_lease_lost e then drain_claims d w1 cs report else (w1, report, cs, Some e)
      | (w1, Inr outcome) \<Rightarrow> drain_claims d w1 cs (report\<lparr>cr_counts := count_outcome outcome (cr_counts report)\<rparr>))"

definition lease_until :: "('s, 'f) DrainService \<Rightarrow> int \<Rightarrow> int" where
  "lease_until d now =
     (case ds_ctx_deadline d of
        None \<Rightarrow> now + notificationLeaseMargin
      | Some deadline \<Rightarrow> if now < deadline then deadline + notificationLeaseMargin else now + notificationLeaseMargin)"

definition no_claims :: DrainClaimedReport where
  "no_claims = \<lparr>cr_claimed = 0, cr_counts = empty_report, cr_budget_expired = False\<rparr>"

definition drain_filter :: "('s, 'f) DrainService \<Rightarrow> string \<Rightarrow> string \<Rightarrow> int \<Rightarrow> NotificationClaimFilter" where
  "drain_filter d route ow now = \<lparr>nf_route_id = route, nf_notification_id = [], nf_limit = limit d, nf_owner = ow,
     nf_lease_until = NanoTimestamp (lease_until d now)\<rparr>"

definition DrainDue :: "('s, 'f) DrainService \<Rightarrow> 's \<Rightarrow> string \<Rightarrow> 's \<times> DrainClaimedReport \<times> outbox_error option" where
  "DrainDue d w route =
     (let (w1, now) = ds_now d w; (w2, ow) = owner d w1
      in case da_claim (ds_store d) w2 (drain_filter d route ow now) of
        (w3, Inl e) \<Rightarrow> (w3, no_claims, Some e)
      | (w3, Inr claims) \<Rightarrow>
          (case drain_claims d w3 claims (no_claims\<lparr>cr_claimed := int (length claims)\<rparr>) of
             (w4, report, unstarted, Some e) \<Rightarrow>
               (if unstarted = [] then w4 else fst (da_release (ds_store d) w4 WithoutCancel ow unstarted), report, Some e)
           | (w4, report, unstarted, None) \<Rightarrow>
               if unstarted = [] then (w4, report, None)
               else (case da_release (ds_store d) w4 WithCtx ow unstarted of
                   (w5, Inl e) \<Rightarrow> (w5, report, Some e)
                 | (w5, Inr _) \<Rightarrow> (w5, report, None))))"

definition DeliverOneFenced :: "('s, 'f) DrainService \<Rightarrow> 's \<Rightarrow> string \<Rightarrow> 's \<times> (outbox_error + string)" where
  "DeliverOneFenced d w nid =
     (let (w1, ow) = owner d w; (w2, now) = ds_now d w1
      in case da_claim (ds_store d) w2 \<lparr>nf_route_id = [], nf_notification_id = nid, nf_limit = 1, nf_owner = ow,
           nf_lease_until = NanoTimestamp (lease_until d now)\<rparr> of
        (w3, Inl e) \<Rightarrow> (w3, Inl e)
      | (w3, Inr []) \<Rightarrow> (w3, Inl (NotificationLeaseActive nid))
      | (w3, Inr (c # cs)) \<Rightarrow>
          (case deliverClaimed d w3 c of
             (w4, Inl e) \<Rightarrow> (w4, Inl (if is_lease_lost e then NotificationLeaseActive nid else e))
           | (w4, Inr outcome) \<Rightarrow> (w4, Inr outcome)))"

end
