(* ===== verification/OutboxProtocol.thy ===== *)
theory OutboxProtocol
  imports Outbox
begin

section \<open>What one row may become\<close>

text \<open>A stored notification keeps its identity and payload, its token never falls, and a delivery is final.\<close>

definition same_notification :: "NotificationEventRecord \<Rightarrow> NotificationEventRecord \<Rightarrow> bool" where
  "same_notification r q =
     (q\<lparr>ne_state := ne_state r, ne_resolved_at := ne_resolved_at r, ne_due_at := ne_due_at r, ne_lease_owner := ne_lease_owner r,
        ne_lease_token := ne_lease_token r, ne_lease_expires_at := ne_lease_expires_at r\<rparr> = r)"

definition later_row :: "NotificationEventRecord \<Rightarrow> NotificationEventRecord \<Rightarrow> bool" where
  "later_row r q =
     (same_notification r q \<and> ne_lease_token r \<le> ne_lease_token q \<and>
      (if ne_state r = NotificationDelivered
       then ne_state q = NotificationDelivered \<and> ne_resolved_at q = ne_resolved_at r else True))"

lemma later_row_refl [simp, intro]: "later_row r r"
  by (simp add: later_row_def same_notification_def)

lemma same_notification_trans: "same_notification r q \<Longrightarrow> same_notification q p \<Longrightarrow> same_notification r p"
  by (cases r; cases q; cases p) (auto simp: same_notification_def)

lemma later_row_trans: "later_row r q \<Longrightarrow> later_row q p \<Longrightarrow> later_row r p"
  by (auto simp: later_row_def intro: same_notification_trans split: if_splits)

lemma later_row_id: "later_row r q \<Longrightarrow> ne_notification_id q = ne_notification_id r"
  by (cases r; cases q) (auto simp: later_row_def same_notification_def)

lemma later_row_fields:
  "later_row r q \<Longrightarrow> ne_idempotency_key q = ne_idempotency_key r \<and> ne_payload_json q = ne_payload_json r \<and>
     ne_sink_type q = ne_sink_type r \<and> ne_lease_token r \<le> ne_lease_token q"
  by (cases r; cases q) (auto simp: later_row_def same_notification_def)

text \<open>The tables a method leaves: every row has become a later one in its place, and new rows follow.\<close>

definition evolved :: "NotificationEventRecord list \<Rightarrow> NotificationEventRecord list \<Rightarrow> bool" where
  "evolved rows rows1 \<longleftrightarrow> (\<exists>kept extra. rows1 = kept @ extra \<and> list_all2 later_row rows kept)"

lemma evolved_refl [simp, intro]: "evolved rows rows"
  unfolding evolved_def by (intro exI [of _ rows] exI [of _ "[]"]) (simp add: list_all2_refl)

lemma evolvedI: "list_all2 later_row rows rows1 \<Longrightarrow> evolved rows (rows1 @ extra)"
  by (auto simp: evolved_def)

lemma evolvedE:
  assumes "evolved rows rows1"
  obtains kept extra where "rows1 = kept @ extra" and "list_all2 later_row rows kept"
  using assms by (auto simp: evolved_def)

lemma list_all2_later_trans:
  "list_all2 later_row a b \<Longrightarrow> list_all2 later_row b c \<Longrightarrow> list_all2 later_row a c"
  by (rule list_all2_trans [OF later_row_trans])

lemma evolved_trans: "evolved a b \<Longrightarrow> evolved b c \<Longrightarrow> evolved a c"
proof (elim evolvedE)
  fix k1 m1 k2 m2
  assume b: "b = k1 @ m1" and ab: "list_all2 later_row a k1" and c: "c = k2 @ m2" and bc: "list_all2 later_row b k2"
  from bc [unfolded b] obtain u v where "k2 = u @ v" "list_all2 later_row k1 u" by (auto simp: list_all2_append1)
  with ab c show "evolved a c" by (metis append_assoc evolvedI list_all2_later_trans)
qed

abbreviation rewritten :: "NotificationEventRecord list \<Rightarrow> NotificationEventRecord list \<Rightarrow> bool" where
  "rewritten \<equiv> list_all2 later_row"

lemma rewritten_evolved: "rewritten rows rows1 \<Longrightarrow> evolved rows rows1"
  using evolvedI [of rows rows1 "[]"] by simp

lemma rewritten_refl [simp, intro]: "rewritten rows rows"
  by (simp add: list_all2_refl)

lemma rewritten_ids: "rewritten rows rows1 \<Longrightarrow> map ne_notification_id rows1 = map ne_notification_id rows"
  by (induction rule: list_all2_induct) (simp_all add: later_row_id)

lemma rewritten_update:
  "(\<And>r. P r \<Longrightarrow> later_row r (f r)) \<Longrightarrow> rewritten rows (update_where P f rows)"
  by (auto simp: update_where_def list_all2_conv_all_nth)

lemma evolved_append: "evolved rows (rows @ extra)"
  by (rule evolvedI) (auto intro: list_all2_refl)

lemma evolved_row:
  assumes "evolved rows rows1" and "row_of ne_notification_id n rows = Some r"
  obtains q where "row_of ne_notification_id n rows1 = Some q" and "later_row r q"
proof -
  from assms(1) obtain kept extra where k: "rows1 = kept @ extra" "list_all2 later_row rows kept" by (rule evolvedE)
  from k(2) assms(2) have "\<exists>q. row_of ne_notification_id n kept = Some q \<and> later_row r q"
    by (induction rule: list_all2_induct) (auto simp: row_of_Cons later_row_id split: if_splits)
  with k(1) that show ?thesis by (auto simp: row_of_append)
qed

lemma evolved_ids: "evolved rows rows1 \<Longrightarrow> set (map ne_notification_id rows) \<subseteq> set (map ne_notification_id rows1)"
proof
  fix n
  assume e: "evolved rows rows1" and "n \<in> set (map ne_notification_id rows)"
  then obtain r where "row_of ne_notification_id n rows = Some r" by (metis not_Some_eq row_of_None)
  from evolved_row [OF e this] show "n \<in> set (map ne_notification_id rows1)" by (metis option.distinct(1) row_of_None)
qed

section \<open>Each method evolves the rows\<close>

named_theorems row_rules \<open>the rows a method leaves\<close>

lemma lease_to_later: "later_row r (lease_to owner until r)" if "ne_state r = NotificationPending"
  using that by (cases r) (simp add: later_row_def same_notification_def lease_to_def)

lemma free_lease_later: "later_row r q \<Longrightarrow> later_row r (free_lease q)"
  by (cases r; cases q) (auto simp: later_row_def same_notification_def free_lease_def split: if_splits)

lemma pending_later:
  "ne_state r = NotificationPending \<Longrightarrow> later_row r (r\<lparr>ne_state := s, ne_resolved_at := x\<rparr>)"
  "ne_state r = NotificationPending \<Longrightarrow> later_row r (r\<lparr>ne_due_at := y\<rparr>)"
  "ne_state r = NotificationRefused \<Longrightarrow> later_row r (r\<lparr>ne_state := s, ne_resolved_at := x, ne_due_at := y\<rparr>)"
  by (cases r; simp add: later_row_def same_notification_def)+

lemma enqueue_sinks_Cons:
  assumes "enqueue_sinks route event tr dest revision source now (sink # sinks) rows n = Inr res"
  obtains payload r where "notificationPayloadJSON (NotificationID event dest tr (sk_id sink) revision) route event dest tr
      (sk_id sink) revision source now = Inr payload"
    and "r = event_row (NotificationID event dest tr (sk_id sink) revision) event route dest sink tr revision payload now"
    and "insertable rows r" and "enqueue_sinks route event tr dest revision source now sinks (rows @ [r]) (n + 1) = Inr res"
  | "NotificationID event dest tr (sk_id sink) revision \<in> set (map ne_notification_id rows)"
    and "enqueue_sinks route event tr dest revision source now sinks rows n = Inr res"
  using assms unfolding enqueue_sinks.simps Let_def bindE_Inr_iff map_err_Inr_iff by (auto split: if_split_asm)

lemma enqueue_sinks_evolves:
  "enqueue_sinks route event tr dest revision source now sinks rows n = Inr (rows1, k) \<Longrightarrow> evolved rows rows1"
proof (induction sinks arbitrary: rows n)
  case (Cons sink sinks)
  from Cons.prems show ?case
  proof (cases rule: enqueue_sinks_Cons)
    case (1 payload r)
    from Cons.IH [OF 1(4)] show ?thesis by (rule evolved_trans [OF evolved_append])
  next
    case 2
    from Cons.IH [OF 2(2)] show ?thesis .
  qed
qed simp

lemma enqueue_evolves:
  "enqueueNotificationTx resolver route event tr dest source now ox = Inr (ox1, k) \<Longrightarrow>
   evolved (ox_events ox) (ox_events ox1)"
  by (auto simp: enqueueNotificationTx_def bindE_Inr_iff split: option.splits if_splits intro: enqueue_sinks_evolves)

lemma claim_rows_rewrites:
  "claim_rows owner until now nids rows cs = Inr (rows1, cs1) \<Longrightarrow> rewritten rows rows1"
proof (induction owner until now nids rows cs rule: claim_rows.induct)
  case (2 owner until now nid nids rows claims)
  have "rewritten rows (update_where (claimable now nid) (lease_to owner until) rows)"
    by (rule rewritten_update) (simp add: claimable_def lease_to_later)
  with 2 show ?case by (auto simp: Let_def split: if_splits option.splits intro: list_all2_later_trans)
qed simp

lemma claim_due_rewrites [row_rules]: "claim_due t flt ox = Inr (ox1, cs) \<Longrightarrow> rewritten (ox_events ox) (ox_events ox1)"
  by (auto simp: claim_due_def Let_def bindE_Inr_iff intro: claim_rows_rewrites)

lemma release_rows_rewrites: "rewritten rows (release_rows owner cs rows)"
proof (induction cs arbitrary: rows)
  case (Cons c cs)
  let ?P = "\<lambda>r. ne_notification_id r = ne_notification_id (nc_record c) \<and> ne_lease_owner r = owner \<and>
    ne_lease_token r = nc_lease_token c"
  have "rewritten rows (update_where ?P free_lease rows)" by (rule rewritten_update) (rule free_lease_later [OF later_row_refl])
  with Cons show ?case by (auto intro: list_all2_later_trans)
qed simp

lemma insert_attempt_events: "insert_attempt inp outcome ox = Inr (ox1, a) \<Longrightarrow> ox_events ox1 = ox_events ox"
  by (auto simp: insert_attempt_def Let_def split: if_splits)

lemma record_attempt_rewrites [row_rules]:
  "record_attempt inp outcome ox = Inr (ox1, a) \<Longrightarrow> rewritten (ox_events ox) (ox_events ox1)"
  by (auto simp: record_attempt_def bindE_Inr_iff update_pending_def dest!: insert_attempt_events
      intro!: rewritten_update pending_later split: if_splits option.splits)

lemma record_fenced_rewrites [row_rules]:
  "record_fenced F u inp outcome c b ox = Inr (ox1, a) \<Longrightarrow> rewritten (ox_events ox) (ox_events ox1)"
  by (auto simp: record_fenced_def bindE_Inr_iff update_pending_def Let_def dest!: insert_attempt_events
      intro!: rewritten_update free_lease_later pending_later split: if_splits option.splits)

lemma retry_row_rewrites [row_rules]: "retry_row t nid ox = Inr (ox1, u) \<Longrightarrow> rewritten (ox_events ox) (ox_events ox1)"
  by (auto simp: retry_row_def Let_def intro!: rewritten_update pending_later
      split: if_splits option.splits NotificationState.splits)

lemma runs_rewrite [row_rules]:
  "start_run inp ox = Inr (ox1, u) \<Longrightarrow> rewritten (ox_events ox) (ox_events ox1)"
  "finish_run did counts completedAt ox = Inr (ox1, u) \<Longrightarrow> rewritten (ox_events ox) (ox_events ox1)"
  by (auto simp: start_run_def finish_run_def Let_def split: if_splits)


section \<open>Runs of the outbox\<close>

text \<open>Any number of commands share the tables; each method call is one step. \<open>F\<close> is the arithmetic of
  the retry delays.\<close>

inductive outbox_step :: "'f Float64 \<Rightarrow> Outbox \<Rightarrow> Outbox \<Rightarrow> bool" for F where
  enqueued: "EnqueueRouteNotification d resolver route event tr dest source now ox = (ox1, res) \<Longrightarrow> outbox_step F ox ox1"
| claimed: "ClaimDueNotifications d t flt ox = (ox1, got) \<Longrightarrow> outbox_step F ox ox1"
| recorded: "RecordNotificationAttempt d inp ox = (ox1, wrote) \<Longrightarrow> outbox_step F ox ox1"
| fenced: "RecordNotificationAttemptFenced d F u inp c b ox = (ox1, wrote) \<Longrightarrow> outbox_step F ox ox1"
| released: "ReleaseNotificationClaims d owner cs ox = (ox1, ok) \<Longrightarrow> outbox_step F ox ox1"
| retried: "RetryNotification d t nid ox = (ox1, ok) \<Longrightarrow> outbox_step F ox ox1"
| started: "StartDrainRun d start ox = (ox1, ok) \<Longrightarrow> outbox_step F ox ox1"
| finished: "FinishDrainRun d did counts completed ox = (ox1, ok) \<Longrightarrow> outbox_step F ox ox1"

definition empty_outbox :: Outbox where
  "empty_outbox = \<lparr>ox_events = [], ox_attempts = [], ox_runs = []\<rparr>"

abbreviation reached :: "'f Float64 \<Rightarrow> Outbox \<Rightarrow> bool" where
  "reached F ox \<equiv> (outbox_step F)\<^sup>*\<^sup>* empty_outbox ox"

text \<open>A method either leaves the tables or commits its body.\<close>

lemma transactE:
  assumes "transact d e body s = (s1, x)"
  obtains "s1 = s" | y where "body s = Inr (s1, y)"
  using assms by (auto simp: transact_def split: if_splits sum.splits prod.splits)

lemma outbox_step_cases:
  assumes "outbox_step F ox ox1"
  obtains (none) "ox1 = ox"
  | (enqueue) resolver route event tr dest source now k
    where "enqueueNotificationTx resolver route event tr dest source now ox = Inr (ox1, k)"
  | (claim) t flt cs where "claim_due t flt ox = Inr (ox1, cs)"
  | (attempt) inp outcome a where "record_attempt inp outcome ox = Inr (ox1, a)"
  | (fence) u inp outcome c b a where "record_fenced F u inp outcome c b ox = Inr (ox1, a)"
  | (release) owner cs where "ox1 = ox\<lparr>ox_events := release_rows owner cs (ox_events ox)\<rparr>"
  | (retry) t nid where "retry_row t nid ox = Inr (ox1, ())"
  | (run) start where "start_run start ox = Inr (ox1, ())"
  | (finish) did counts completed where "finish_run did counts completed ox = Inr (ox1, ())"
  using assms
proof cases
  case enqueued
  then show ?thesis unfolding EnqueueRouteNotification_def by (elim transactE) (use that in blast)+
next
  case claimed
  then show ?thesis unfolding ClaimDueNotifications_def by (elim transactE) (use that in blast)+
next
  case (recorded d inp wrote)
  then show ?thesis unfolding RecordNotificationAttempt_def
    by (cases "ParseNotificationAttemptOutcome (ni_outcome inp)") (auto elim!: transactE intro: that)
next
  case (fenced d u inp c b wrote)
  then show ?thesis unfolding RecordNotificationAttemptFenced_def
    by (cases "ParseNotificationAttemptOutcome (ni_outcome inp)") (auto elim!: transactE intro: that)
next
  case released
  then show ?thesis unfolding ReleaseNotificationClaims_def by (elim transactE) (use that in auto)
next
  case retried
  then show ?thesis unfolding RetryNotification_def by (elim transactE) (use that in auto)
next
  case started
  then show ?thesis unfolding StartDrainRun_def by (elim transactE) (use that in auto)
next
  case finished
  then show ?thesis unfolding FinishDrainRun_def by (elim transactE) (use that in auto)
qed

lemma step_evolves: "outbox_step F ox ox1 \<Longrightarrow> evolved (ox_events ox) (ox_events ox1)"
  by (erule outbox_step_cases)
    (auto intro: enqueue_evolves rewritten_evolved row_rules release_rows_rewrites)

lemma steps_evolve: "(outbox_step F)\<^sup>*\<^sup>* ox ox1 \<Longrightarrow> evolved (ox_events ox) (ox_events ox1)"
  by (induction rule: rtranclp_induct) (auto intro: evolved_trans dest: step_evolves)

section \<open>The invariant of the tables\<close>

definition own_attempts :: "string \<Rightarrow> NotificationAttemptRecord list \<Rightarrow> NotificationAttemptRecord list" where
  "own_attempts nid rows = filter (\<lambda>a. na_notification_id a = nid) rows"

text \<open>The identities are unique and derived, every attempt belongs to a stored notification, and the attempts of
  one notification are numbered from one without a gap, in the order they were written.\<close>

definition events_ok :: "NotificationEventRecord list \<Rightarrow> bool" where
  "events_ok rows \<longleftrightarrow>
     distinct (map ne_notification_id rows) \<and>
     list_all (\<lambda>r. ne_idempotency_key r = NotificationIdempotencyKey (ne_notification_id r) \<and>
       ne_sink_type r \<in> {''webhook'', ''log''} \<and> 0 \<le> ne_lease_token r) rows"

definition attempts_ok :: "NotificationAttemptRecord list \<Rightarrow> bool" where
  "attempts_ok rows \<longleftrightarrow>
     distinct (map na_attempt_id rows) \<and>
     (\<forall>nid. map na_attempt_number (own_attempts nid rows) = [1..int (length (own_attempts nid rows))])"

definition outbox_ok :: "Outbox \<Rightarrow> bool" where
  "outbox_ok ox \<longleftrightarrow> events_ok (ox_events ox) \<and> attempts_ok (ox_attempts ox) \<and>
     na_notification_id ` set (ox_attempts ox) \<subseteq> ne_notification_id ` set (ox_events ox) \<and>
     distinct (map du_drain_id (ox_runs ox))"

lemma rewritten_ok:
  assumes "rewritten rows rows1" and "events_ok rows"
  shows "events_ok rows1"
proof -
  have "list_all (\<lambda>r. ne_idempotency_key r = NotificationIdempotencyKey (ne_notification_id r) \<and>
       ne_sink_type r \<in> {''webhook'', ''log''} \<and> 0 \<le> ne_lease_token r) rows1"
    using assms(1) assms(2) [unfolded events_ok_def, THEN conjunct2]
  proof (induction rule: list_all2_induct)
    case (Cons r rows q rows1)
    from later_row_fields [OF Cons(1)] later_row_id [OF Cons(1)] Cons(3,4) show ?case by simp
  qed simp
  with rewritten_ids [OF assms(1)] assms(2) show ?thesis by (simp add: events_ok_def)
qed

lemma enqueue_sinks_ok:
  "enqueue_sinks route event tr dest revision source now sinks rows n = Inr (rows1, k) \<Longrightarrow> events_ok rows \<Longrightarrow> events_ok rows1"
proof (induction sinks arbitrary: rows n)
  case (Cons sink sinks)
  from Cons.prems(1) show ?case
  proof (cases rule: enqueue_sinks_Cons)
    case (1 payload r)
    then have "events_ok (rows @ [r])" using Cons.prems(2) by (auto simp: events_ok_def insertable_def event_row_def)
    from Cons.IH [OF 1(4) this] show ?thesis .
  next
    case 2
    from Cons.IH [OF 2(2) Cons.prems(2)] show ?thesis .
  qed
qed simp

lemma enqueue_ok:
  "enqueueNotificationTx resolver route event tr dest source now ox = Inr (ox1, k) \<Longrightarrow>
   events_ok (ox_events ox) \<Longrightarrow> events_ok (ox_events ox1) \<and> ox_attempts ox1 = ox_attempts ox \<and> ox_runs ox1 = ox_runs ox"
  by (auto simp: enqueueNotificationTx_def bindE_Inr_iff split: option.splits if_splits intro: enqueue_sinks_ok)

lemma fold_max_upto: "0 \<le> k \<Longrightarrow> fold max [1..k] (0::int) = k"
proof (induction "nat k" arbitrary: k)
  case (Suc n)
  then have "[1..k] = [1..k - 1] @ [k]" by (simp add: upto_rec2)
  with Suc(1) [of "k - 1"] Suc(2) show ?case by simp
qed simp

lemma last_number_ok: "attempts_ok rows \<Longrightarrow> last_number nid rows = int (length (own_attempts nid rows))"
  by (simp add: attempts_ok_def last_number_def own_attempts_def [symmetric] fold_max_upto)

lemma insert_attempt_D:
  assumes "insert_attempt inp outcome ox = Inr (ox1, a)"
  shows "ox1 = ox\<lparr>ox_attempts := ox_attempts ox @ [a]\<rparr>" "na_notification_id a = ni_notification_id inp"
    "na_attempt_number a = last_number (ni_notification_id inp) (ox_attempts ox) + 1" "na_outcome a = outcome"
    "na_attempt_id a \<notin> set (map na_attempt_id (ox_attempts ox))"
  using assms by (auto simp: insert_attempt_def Let_def attempt_row_def split: if_splits)

lemma insert_attempt_ok:
  assumes "insert_attempt inp outcome ox = Inr (ox1, a)" and "attempts_ok (ox_attempts ox)"
  shows "attempts_ok (ox_attempts ox1)"
proof -
  note d = insert_attempt_D [OF assms(1)]
  have "map na_attempt_number (own_attempts nid (ox_attempts ox @ [a])) =
      [1..int (length (own_attempts nid (ox_attempts ox @ [a])))]" for nid
  proof (cases "nid = ni_notification_id inp")
    case True
    then have n: "na_attempt_number a = int (length (own_attempts nid (ox_attempts ox))) + 1"
      using d(3) last_number_ok [OF assms(2)] by simp
    have "[1..1 + int (length (own_attempts nid (ox_attempts ox)))] =
        [1..int (length (own_attempts nid (ox_attempts ox)))] @ [int (length (own_attempts nid (ox_attempts ox))) + 1]"
      by (subst upto_rec2) simp_all
    with assms(2) n True d(2) show ?thesis by (simp add: attempts_ok_def own_attempts_def)
  next
    case False
    with assms(2) d(2) show ?thesis by (simp add: attempts_ok_def own_attempts_def)
  qed
  with assms(2) d(1,5) show ?thesis by (simp add: attempts_ok_def)
qed


lemma record_writes:
  "record_attempt inp outcome ox = Inr (ox1, a) \<Longrightarrow>
     (\<exists>ox2. insert_attempt inp outcome ox = Inr (ox2, a) \<and> ox_attempts ox1 = ox_attempts ox2) \<and>
     ox_runs ox1 = ox_runs ox \<and> event_of (ni_notification_id inp) ox \<noteq> None"
  "record_fenced F u inp outcome c b ox = Inr (ox1, a) \<Longrightarrow>
     (\<exists>ox2. insert_attempt inp outcome ox = Inr (ox2, a) \<and> ox_attempts ox1 = ox_attempts ox2) \<and>
     ox_runs ox1 = ox_runs ox \<and> event_of (ni_notification_id inp) ox \<noteq> None"
  by (auto simp: record_attempt_def record_fenced_def bindE_Inr_iff update_pending_def Let_def insert_attempt_def
      split: if_splits option.splits)

lemma other_writes:
  "claim_due t flt ox = Inr (ox1, cs) \<Longrightarrow> ox_attempts ox1 = ox_attempts ox \<and> ox_runs ox1 = ox_runs ox"
  "retry_row t nid ox = Inr (ox1, v) \<Longrightarrow> ox_attempts ox1 = ox_attempts ox \<and> ox_runs ox1 = ox_runs ox"
  "start_run start ox = Inr (ox1, v) \<Longrightarrow> ox_attempts ox1 = ox_attempts ox \<and> ox_events ox1 = ox_events ox"
  "finish_run did counts completed ox = Inr (ox1, v) \<Longrightarrow> ox_attempts ox1 = ox_attempts ox \<and> ox_events ox1 = ox_events ox"
  by (auto simp: claim_due_def retry_row_def start_run_def finish_run_def bindE_Inr_iff Let_def
      split: if_splits option.splits NotificationState.splits)

lemma runs_distinct:
  "start_run start ox = Inr (ox1, v) \<Longrightarrow> distinct (map du_drain_id (ox_runs ox)) \<Longrightarrow> distinct (map du_drain_id (ox_runs ox1))"
  "finish_run did counts completed ox = Inr (ox1, v) \<Longrightarrow>
     map du_drain_id (ox_runs ox1) = map du_drain_id (ox_runs ox)"
  by (auto simp: start_run_def finish_run_def Let_def map_update_where split: if_splits)

lemma ids_kept: "evolved rows rows1 \<Longrightarrow> ne_notification_id ` set rows \<subseteq> ne_notification_id ` set rows1"
  using evolved_ids by simp

lemma references_kept:
  "S \<subseteq> ne_notification_id ` set rows \<Longrightarrow> evolved rows rows1 \<Longrightarrow> S \<subseteq> ne_notification_id ` set rows1"
  by (rule subset_trans [OF _ ids_kept])

lemma attempt_step_ok:
  assumes "insert_attempt inp outcome ox = Inr (ox2, a)" and "ox_attempts ox1 = ox_attempts ox2"
    and "ox_runs ox1 = ox_runs ox" and "event_of (ni_notification_id inp) ox \<noteq> None"
    and "rewritten (ox_events ox) (ox_events ox1)" and "outbox_ok ox"
  shows "outbox_ok ox1"
proof -
  note d = insert_attempt_D [OF assms(1)]
  have "ni_notification_id inp \<in> ne_notification_id ` set (ox_events ox)"
    using assms(4) row_of_None [of ne_notification_id "ni_notification_id inp" "ox_events ox"] by auto
  with assms(6) d have "na_notification_id ` set (ox_attempts ox1) \<subseteq> ne_notification_id ` set (ox_events ox)"
    unfolding outbox_ok_def assms(2) by auto
  then have "na_notification_id ` set (ox_attempts ox1) \<subseteq> ne_notification_id ` set (ox_events ox1)"
    by (rule references_kept [OF _ rewritten_evolved [OF assms(5)]])
  with rewritten_ok [OF assms(5)] insert_attempt_ok [OF assms(1)] assms(2,3,6) show ?thesis by (simp add: outbox_ok_def)
qed

lemma quiet_step_ok:
  assumes "ox_attempts ox1 = ox_attempts ox" and "ox_runs ox1 = ox_runs ox" and "rewritten (ox_events ox) (ox_events ox1)"
    and "outbox_ok ox"
  shows "outbox_ok ox1"
proof -
  from assms(4) have "na_notification_id ` set (ox_attempts ox) \<subseteq> ne_notification_id ` set (ox_events ox)"
    by (simp add: outbox_ok_def)
  from references_kept [OF this rewritten_evolved [OF assms(3)]]
  have "na_notification_id ` set (ox_attempts ox1) \<subseteq> ne_notification_id ` set (ox_events ox1)" unfolding assms(1) .
  with rewritten_ok [OF assms(3)] assms show ?thesis by (simp add: outbox_ok_def)
qed

lemma step_ok:
  assumes "outbox_step F ox ox1" and ok: "outbox_ok ox"
  shows "outbox_ok ox1"
  using assms(1)
proof (cases rule: outbox_step_cases)
  case (enqueue resolver route event tr dest source now k)
  from references_kept [OF _ enqueue_evolves [OF enqueue]] enqueue_ok [OF enqueue] ok show ?thesis
    by (simp add: outbox_ok_def)
next
  case (claim t flt cs)
  from quiet_step_ok [OF _ _ row_rules(1) [OF claim] ok] other_writes(1) [OF claim] show ?thesis by blast
next
  case (attempt inp outcome a)
  from record_writes(1) [OF attempt] attempt_step_ok [OF _ _ _ _ row_rules(2) [OF attempt] ok] show ?thesis by blast
next
  case (fence u inp outcome c b a)
  from record_writes(2) [OF fence] attempt_step_ok [OF _ _ _ _ row_rules(3) [OF fence] ok] show ?thesis by blast
next
  case (release owner cs)
  then show ?thesis using quiet_step_ok [of ox1 ox] ok by (simp add: release_rows_rewrites)
next
  case (retry t nid)
  from quiet_step_ok [OF _ _ row_rules(4) [OF retry] ok] other_writes(2) [OF retry] show ?thesis by blast
next
  case (run start)
  from other_writes(3) [OF run] runs_distinct(1) [OF run] ok show ?thesis by (simp add: outbox_ok_def)
next
  case (finish did counts completed)
  from other_writes(4) [OF finish] runs_distinct(2) [OF finish] ok show ?thesis by (simp add: outbox_ok_def)
qed (use ok in simp)

lemma reached_ok: "reached F ox \<Longrightarrow> outbox_ok ox"
proof (induction rule: rtranclp_induct)
  case base
  then show ?case by (simp add: outbox_ok_def events_ok_def attempts_ok_def own_attempts_def empty_outbox_def)
qed (rule step_ok)

section \<open>Claims\<close>

text \<open>What the loop over the due identities returns: each claim is a row that was free, leased to the owner.\<close>

lemma claim_rows_D:
  assumes "claim_rows owner until now nids rows cs = Inr (rows1, cs1)"
    and "distinct (map ne_notification_id rows)" and "distinct nids"
  shows "\<exists>new. cs1 = cs @ new \<and> subseq (map (ne_notification_id \<circ> nc_record) new) nids \<and>
    (\<forall>n. row_of ne_notification_id n rows1 = map_option (\<lambda>r. if n \<in> set (map (ne_notification_id \<circ> nc_record) new)
        then lease_to owner until r else r) (row_of ne_notification_id n rows)) \<and>
    (\<forall>c \<in> set new. \<exists>r. row_of ne_notification_id (ne_notification_id (nc_record c)) rows = Some r \<and>
       claimable now (ne_notification_id (nc_record c)) r \<and> nc_record c = lease_to owner until r \<and>
       nc_lease_token c = ne_lease_token r + 1)"
  using assms
proof (induction nids arbitrary: rows cs)
  case Nil
  then show ?case by (intro exI [of _ "[]"]) (auto simp: option.map_ident)
next
  case (Cons nid nids)
  have dn: "distinct nids" "nid \<notin> set nids" using Cons.prems(3) by simp_all
  show ?case
  proof (cases "affected (claimable now nid) rows = 0")
    case True
    with Cons.prems(1) have "claim_rows owner until now nids rows cs = Inr (rows1, cs1)" by simp
    from Cons.IH [OF this Cons.prems(2) dn(1)] show ?thesis by (blast intro: list_emb_Cons)
  next
    case False
    let ?rows = "update_where (claimable now nid) (lease_to owner until) rows"
    have id_lease: "ne_notification_id (lease_to owner until r) = ne_notification_id r" for r by (simp add: lease_to_def)
    have row: "row_of ne_notification_id n ?rows = map_option (\<lambda>r. if claimable now nid r then lease_to owner until r else r)
        (row_of ne_notification_id n rows)" for n
      by (rule row_of_update_where) (rule id_lease)
    from False obtain r where r: "r \<in> set rows" "claimable now nid r" by (auto simp: affected_0 list_all_iff)
    then have nid: "ne_notification_id r = nid" by (simp add: claimable_def)
    have here: "row_of ne_notification_id nid rows = Some r" using row_of_in [OF Cons.prems(2) r(1)] nid by simp
    then have here1: "row_of ne_notification_id nid ?rows = Some (lease_to owner until r)" using row [of nid] r(2) by simp
    let ?c = "\<lparr>nc_record = lease_to owner until r, nc_lease_token = ne_lease_token (lease_to owner until r)\<rparr>"
    have rest: "claim_rows owner until now nids ?rows (cs @ [?c]) = Inr (rows1, cs1)"
      using Cons.prems(1) False here1 by (simp add: Let_def)
    have "distinct (map ne_notification_id ?rows)" using Cons.prems(2) by (simp add: map_update_where id_lease)
    from Cons.IH [OF rest this dn(1)] obtain new where new: "cs1 = (cs @ [?c]) @ new"
        "subseq (map (ne_notification_id \<circ> nc_record) new) nids"
      and rows1: "\<And>n. row_of ne_notification_id n rows1 = map_option (\<lambda>r. if n \<in> set (map (ne_notification_id \<circ> nc_record) new)
        then lease_to owner until r else r) (row_of ne_notification_id n ?rows)"
      and each: "\<And>c. c \<in> set new \<Longrightarrow> \<exists>r. row_of ne_notification_id (ne_notification_id (nc_record c)) ?rows = Some r \<and>
       claimable now (ne_notification_id (nc_record c)) r \<and> nc_record c = lease_to owner until r \<and>
       nc_lease_token c = ne_lease_token r + 1" by blast
    have idc: "(ne_notification_id \<circ> nc_record) ?c = nid" by (simp add: id_lease nid)
    have notnew: "nid \<notin> set (map (ne_notification_id \<circ> nc_record) new)"
      using list_emb_set [OF new(2)] dn(2) by blast
    have other: "row_of ne_notification_id n ?rows = row_of ne_notification_id n rows" if "n \<noteq> nid" for n
      using row [of n] that row_of_Some [of ne_notification_id n rows]
      by (cases "row_of ne_notification_id n rows") (auto simp: claimable_def)
    show ?thesis
    proof (intro exI [of _ "?c # new"] conjI allI ballI)
      show "cs1 = cs @ ?c # new" using new(1) by simp
      show "subseq (map (ne_notification_id \<circ> nc_record) (?c # new)) (nid # nids)" using new(2) idc by simp
    next
      fix n
      show "row_of ne_notification_id n rows1 = map_option (\<lambda>r. if n \<in> set (map (ne_notification_id \<circ> nc_record) (?c # new))
        then lease_to owner until r else r) (row_of ne_notification_id n rows)"
        using rows1 [of n] here here1 notnew idc other [of n] by (cases "n = nid") auto
    next
      fix c
      assume c: "c \<in> set (?c # new)"
      show "\<exists>r. row_of ne_notification_id (ne_notification_id (nc_record c)) rows = Some r \<and>
       claimable now (ne_notification_id (nc_record c)) r \<and> nc_record c = lease_to owner until r \<and>
       nc_lease_token c = ne_lease_token r + 1"
      proof (cases "c = ?c")
        case True
        then show ?thesis using here r(2) nid by (simp add: id_lease lease_to_def)
      next
        case False
        with c have "c \<in> set new" by simp
        moreover from this notnew have "ne_notification_id (nc_record c) \<noteq> nid" by auto
        ultimately show ?thesis using each [of c] other by auto
      qed
    qed
  qed
qed


abbreviation claim_id :: "NotificationClaim \<Rightarrow> string" where
  "claim_id c \<equiv> ne_notification_id (nc_record c)"

text \<open>Until when a claim of the filter holds the lease.\<close>

definition lease_end :: "int \<Rightarrow> NotificationClaimFilter \<Rightarrow> string" where
  "lease_end t flt = normalizeTimestamp (if nf_lease_until flt = [] then NanoTimestamp (t + notificationLeaseMargin)
     else nf_lease_until flt)"

lemma subseq_distinct: "subseq xs ys \<Longrightarrow> distinct ys \<Longrightarrow> distinct xs"
  by (metis distinct_nthsI subseq_conv_nths)

lemma claim_due_D:
  assumes "claim_due t flt ox = Inr (ox1, cs)" and "outbox_ok ox"
  shows "distinct (map claim_id cs)" "int (length cs) \<le> bounded_limit (nf_limit flt)"
    "\<And>n. event_of n ox1 = map_option (\<lambda>r. if n \<in> set (map claim_id cs)
       then lease_to (nf_owner flt) (lease_end t flt) r else r) (event_of n ox)"
    "\<And>c. c \<in> set cs \<Longrightarrow> \<exists>r. event_of (claim_id c) ox = Some r \<and> due (CanonicalTimestamp t) flt r \<and>
       nc_record c = lease_to (nf_owner flt) (lease_end t flt) r \<and> nc_lease_token c = ne_lease_token r + 1"
proof -
  let ?picked = "take (nat (bounded_limit (nf_limit flt))) (sort_by oldest_first (filter (due (CanonicalTimestamp t) flt) (ox_events ox)))"
  have d: "distinct (map ne_notification_id (ox_events ox))" using assms(2) by (simp add: outbox_ok_def events_ok_def)
  have "distinct (map ne_notification_id (sort_by oldest_first (filter (due (CanonicalTimestamp t) flt) (ox_events ox))))"
    using distinct_map_filter [OF d] by (metis mset_map mset_sort_by mset_eq_imp_distinct_iff)
  then have dp: "distinct (map ne_notification_id ?picked)" by (metis distinct_take take_map)
  from assms(1) have r: "claim_rows (nf_owner flt) (lease_end t flt) (CanonicalTimestamp t) (map ne_notification_id ?picked)
      (ox_events ox) [] = Inr (ox_events ox1, cs)"
    by (auto simp: claim_due_def Let_def bindE_Inr_iff lease_end_def)
  from claim_rows_D [OF r d dp]
  have sub: "subseq (map claim_id cs) (map ne_notification_id ?picked)"
    and rows1: "\<And>n. event_of n ox1 = map_option (\<lambda>r. if n \<in> set (map claim_id cs)
       then lease_to (nf_owner flt) (lease_end t flt) r else r) (event_of n ox)"
    and each: "\<And>c. c \<in> set cs \<Longrightarrow> \<exists>r. event_of (claim_id c) ox = Some r \<and> claimable (CanonicalTimestamp t) (claim_id c) r \<and>
       nc_record c = lease_to (nf_owner flt) (lease_end t flt) r \<and> nc_lease_token c = ne_lease_token r + 1"
    by (auto simp: comp_def)
  show "distinct (map claim_id cs)" by (rule subseq_distinct [OF sub dp])
  have "length (map claim_id cs) \<le> length (map ne_notification_id ?picked)" by (rule list_emb_length [OF sub])
  then have "length cs \<le> nat (bounded_limit (nf_limit flt))" by simp
  moreover have "0 \<le> bounded_limit (nf_limit flt)" by (simp add: bounded_limit_def)
  ultimately show "int (length cs) \<le> bounded_limit (nf_limit flt)" by linarith
  show "event_of n ox1 = map_option (\<lambda>r. if n \<in> set (map claim_id cs)
       then lease_to (nf_owner flt) (lease_end t flt) r else r) (event_of n ox)" for n by (rule rows1)
  fix c
  assume c: "c \<in> set cs"
  from each [OF c] obtain r where r: "event_of (claim_id c) ox = Some r" "nc_record c = lease_to (nf_owner flt) (lease_end t flt) r"
      "nc_lease_token c = ne_lease_token r + 1" by blast
  from c have "claim_id c \<in> set (map claim_id cs)" by simp
  from list_emb_set [OF sub this] have "claim_id c \<in> ne_notification_id ` set ?picked" unfolding set_map by auto
  then obtain q where q: "q \<in> set ?picked" "ne_notification_id q = claim_id c" by (metis imageE)
  then have "q \<in> set (sort_by oldest_first (filter (due (CanonicalTimestamp t) flt) (ox_events ox)))" by (meson in_set_takeD)
  then have "q \<in> set (ox_events ox)" "due (CanonicalTimestamp t) flt q" by simp_all
  with row_of_in [OF d this(1)] q(2) r(1) have "due (CanonicalTimestamp t) flt r" by simp
  with r show "\<exists>r. event_of (claim_id c) ox = Some r \<and> due (CanonicalTimestamp t) flt r \<and>
       nc_record c = lease_to (nf_owner flt) (lease_end t flt) r \<and> nc_lease_token c = ne_lease_token r + 1" by blast
qed

lemma ClaimDue_D:
  "ClaimDueNotifications d t flt ox = (ox1, Inr cs) \<Longrightarrow> claim_due t flt ox = Inr (ox1, cs)"
  unfolding ClaimDueNotifications_def by (drule transact_committed) simp

lemma claim_step: "claim_due t flt ox = Inr (ox1, cs) \<Longrightarrow> outbox_step F ox ox1"
  by (rule outbox_step.claimed [where d = False and t = t and flt = flt and got = "Inr cs"])
    (simp add: ClaimDueNotifications_def transact_live)

lemma claimed_token:
  assumes "claim_due t flt ox = Inr (ox1, cs)" and "outbox_ok ox" and "c \<in> set cs"
  obtains r where "event_of (claim_id c) ox1 = Some r" and "ne_lease_token r = nc_lease_token c"
    and "\<And>q. event_of (claim_id c) ox = Some q \<Longrightarrow> nc_lease_token c = ne_lease_token q + 1"
proof -
  from claim_due_D(4) [OF assms] obtain q where q: "event_of (claim_id c) ox = Some q" "nc_lease_token c = ne_lease_token q + 1"
    by blast
  have "claim_id c \<in> set (map claim_id cs)" using assms(3) by simp
  with claim_due_D(3) [OF assms(1,2), of "claim_id c"] q(1)
  have "event_of (claim_id c) ox1 = Some (lease_to (nf_owner flt) (lease_end t flt) q)" by simp
  from that [OF this] q show ?thesis by (simp add: lease_to_def)
qed

text \<open>C27: the invariant of the notification tables. In every state that method calls of any number of commands can
  reach, in any order and with any outcome, notification identities are unique and their idempotency keys
  derived from them, every attempt belongs to a stored notification, and the attempts of one
  notification are numbered from one without a gap, in the order they were written (NTF-004).\<close>

theorem outbox_stays_well_formed:
  assumes "reached F ox"
  shows "outbox_ok ox"
  by (rule reached_ok [OF assms])

text \<open>a claim pass takes at most the bound, each notification once, only work that is due, pending and
  free, and leases exactly that: every claimed row now carries the pass's owner, its expiry and the next token,
  and no other row changes (NTF-011).\<close>

theorem claims_lease_due_work:
  assumes "outbox_ok ox" and "ClaimDueNotifications d t flt ox = (ox1, Inr cs)"
  shows "distinct (map claim_id cs) \<and> int (length cs) \<le> bounded_limit (nf_limit flt) \<and>
    (\<forall>c \<in> set cs. \<exists>r. event_of (claim_id c) ox = Some r \<and> due (CanonicalTimestamp t) flt r \<and>
       nc_record c = lease_to (nf_owner flt) (lease_end t flt) r \<and> nc_lease_token c = ne_lease_token r + 1) \<and>
    (\<forall>n. event_of n ox1 = map_option (\<lambda>r. if n \<in> set (map claim_id cs)
       then lease_to (nf_owner flt) (lease_end t flt) r else r) (event_of n ox))"
  using claim_due_D [OF ClaimDue_D [OF assms(2)] assms(1)] by blast

text \<open>C25: two drainers never hold the same work. Until the lease of a pass ends, the next pass claims none of its
  notifications, whatever it asks for.\<close>

theorem drainers_claim_disjoint_work:
  assumes "outbox_ok ox" and "ClaimDueNotifications d1 t1 f1 ox = (ox1, Inr cs1)"
    and "ClaimDueNotifications d2 t2 f2 ox1 = (ox2, Inr cs2)"
    and "nf_owner f1 \<noteq> []" and "CanonicalTimestamp t2 < lease_end t1 f1"
  shows "set (map claim_id cs1) \<inter> set (map claim_id cs2) = {}"
proof -
  note c1 = ClaimDue_D [OF assms(2)] and c2 = ClaimDue_D [OF assms(3)]
  have ok1: "outbox_ok ox1" by (rule step_ok [OF claim_step [OF c1] assms(1)])
  have "n \<notin> set (map claim_id cs2)" if n: "n \<in> set (map claim_id cs1)" for n
  proof
    assume "n \<in> set (map claim_id cs2)"
    then obtain c where "c \<in> set cs2" "claim_id c = n" by auto
    from claim_due_D(4) [OF c2 ok1 this(1)] this(2) obtain r where
      r: "event_of n ox1 = Some r" "due (CanonicalTimestamp t2) f2 r" by auto
    from r(1) claim_due_D(3) [OF c1 assms(1), of n] n obtain q where "r = lease_to (nf_owner f1) (lease_end t1 f1) q" by auto
    moreover have "\<not> lease_end t1 f1 \<le> CanonicalTimestamp t2" using assms(5) by (simp add: not_le)
    ultimately show False using r(2) assms(4) by (simp add: due_def lease_free_def lease_to_def)
  qed
  then show ?thesis by blast
qed

text \<open>C24: a drainer whose claim was recovered cannot commit. Once another pass has claimed the notification
  again, the outcome of the first claim is refused whatever happened before, in between and after, nothing is
  written, and releasing the first claim changes nothing (NTF-012).\<close>

theorem stale_drainer_cannot_commit:
  assumes "outbox_ok ox" and "ClaimDueNotifications d1 t1 f1 ox = (ox1, Inr cs1)" and "c \<in> set cs1"
    and "(outbox_step F)\<^sup>*\<^sup>* ox1 ox2" and "ClaimDueNotifications d2 t2 f2 ox2 = (ox3, Inr cs2)" and "e \<in> set cs2"
    and "claim_id e = claim_id c" and "(outbox_step F)\<^sup>*\<^sup>* ox3 ox4"
    and "ni_notification_id inp = claim_id c" and "ParseNotificationAttemptOutcome (ni_outcome inp) = Inr outcome"
  shows "(\<exists>n. nc_lease_token c < n \<and> RecordNotificationAttemptFenced False F u inp c b ox4 =
      (ox4, Inl (NotificationLeaseLost (claim_id c) (nc_lease_token c) n))) \<and>
    ReleaseNotificationClaims False (nf_owner f1) [c] ox4 = (ox4, Inr ())"
proof -
  note c1 = ClaimDue_D [OF assms(2)] and c2 = ClaimDue_D [OF assms(5)]
  have steps_ok: "(outbox_step F)\<^sup>*\<^sup>* a b \<Longrightarrow> outbox_ok a \<Longrightarrow> outbox_ok b" for a b
    by (induction rule: rtranclp_induct) (auto intro: step_ok)
  have ok1: "outbox_ok ox1" by (rule step_ok [OF claim_step [OF c1] assms(1)])
  then have ok2: "outbox_ok ox2" by (rule steps_ok [OF assms(4)])
  then have "outbox_ok ox3" by (rule step_ok [OF claim_step [OF c2]])
  then have ok4: "outbox_ok ox4" by (rule steps_ok [OF assms(8)])
  obtain r1 where r1: "event_of (claim_id c) ox1 = Some r1" "ne_lease_token r1 = nc_lease_token c"
    using claimed_token [OF c1 assms(1,3)] by blast
  obtain r2 where r2: "event_of (claim_id c) ox2 = Some r2" "later_row r1 r2"
    using evolved_row [OF steps_evolve [OF assms(4)] r1(1)] by blast
  obtain r3 where r3: "event_of (claim_id c) ox3 = Some r3" "ne_lease_token r3 = nc_lease_token e"
      "nc_lease_token e = ne_lease_token r2 + 1"
    using claimed_token [OF c2 ok2 assms(6)] r2(1) unfolding assms(7) by blast
  obtain r4 where r4: "event_of (claim_id c) ox4 = Some r4" "later_row r3 r4"
    using evolved_row [OF steps_evolve [OF assms(8)] r3(1)] by blast
  have t: "nc_lease_token c < ne_lease_token r4"
    using r1(2) r3(2,3) later_row_fields [OF r2(2)] later_row_fields [OF r4(2)] by linarith
  have "RecordNotificationAttemptFenced False F u inp c b ox4 =
      (ox4, Inl (NotificationLeaseLost (claim_id c) (nc_lease_token c) (ne_lease_token r4)))"
    using t unfolding RecordNotificationAttemptFenced_def assms(10) sum.case transact_live record_fenced_def assms(9) r4(1)
    by (simp add: guardE_def)
  moreover have "list_all (\<lambda>r. \<not> (ne_notification_id r = claim_id c \<and> ne_lease_owner r = nf_owner f1 \<and>
      ne_lease_token r = nc_lease_token c)) (ox_events ox4)"
  proof -
    have d: "distinct (map ne_notification_id (ox_events ox4))" using ok4 by (simp add: outbox_ok_def events_ok_def)
    have "r = r4" if "r \<in> set (ox_events ox4)" "ne_notification_id r = claim_id c" for r
      using row_of_in [OF d that(1)] that(2) r4(1) by simp
    with t show ?thesis by (auto simp: list_all_iff)
  qed
  then have "ReleaseNotificationClaims False (nf_owner f1) [c] ox4 = (ox4, Inr ())"
    by (simp add: ReleaseNotificationClaims_def transact_live update_where_none)
  ultimately show ?thesis using t by blast
qed

text \<open>a delivery is final. Whatever commands run afterwards, a delivered notification stays delivered with its
  time, its payload and the key its endpoint saw; no pass claims it, and the operator's retry is refused
  without a change (NTF-007).\<close>

theorem delivered_is_final:
  assumes "outbox_ok ox" and "event_of n ox = Some r" and "ne_state r = NotificationDelivered"
    and "(outbox_step F)\<^sup>*\<^sup>* ox ox1"
  shows "(\<exists>q. event_of n ox1 = Some q \<and> ne_state q = NotificationDelivered \<and> ne_resolved_at q = ne_resolved_at r \<and>
      ne_payload_json q = ne_payload_json r \<and> ne_idempotency_key q = ne_idempotency_key r) \<and>
    n \<notin> set (case snd (ClaimDueNotifications False t flt ox1) of Inl e \<Rightarrow> [] | Inr cs \<Rightarrow> map claim_id cs) \<and>
    RetryNotification False t n ox1 = (ox1, Inl (AlreadyDelivered n))"
proof -
  have ok1: "outbox_ok ox1" using assms(4,1) by (induction rule: rtranclp_induct) (auto intro: step_ok)
  obtain q where q: "event_of n ox1 = Some q" "later_row r q" by (rule evolved_row [OF steps_evolve [OF assms(4)] assms(2)])
  then have s: "ne_state q = NotificationDelivered" "ne_resolved_at q = ne_resolved_at r"
    using assms(3) by (auto simp: later_row_def)
  have "n \<notin> set (map claim_id cs)" if "claim_due t flt ox1 = Inr (ox2, cs)" for ox2 cs
  proof
    assume "n \<in> set (map claim_id cs)"
    then obtain c where "c \<in> set cs" "claim_id c = n" by auto
    from claim_due_D(4) [OF that ok1 this(1)] this(2) q(1) s(1) show False by (auto simp: due_def)
  qed
  then have "n \<notin> set (case snd (ClaimDueNotifications False t flt ox1) of Inl e \<Rightarrow> [] | Inr cs \<Rightarrow> map claim_id cs)"
    by (cases "claim_due t flt ox1") (auto simp: ClaimDueNotifications_def transact_live)
  moreover have "RetryNotification False t n ox1 = (ox1, Inl (AlreadyDelivered n))"
    by (simp add: RetryNotification_def transact_live retry_row_def q(1) s(1))
  ultimately show ?thesis using q(1) s later_row_fields [OF q(2)] by blast
qed


lemma enqueue_sinks_present:
  "enqueue_sinks route event tr dest revision source now sinks rows n = Inr (rows1, k) \<Longrightarrow>
   (\<lambda>sink. NotificationID event dest tr (sk_id sink) revision) ` set sinks \<subseteq> set (map ne_notification_id rows1)"
proof (induction sinks arbitrary: rows n)
  case (Cons sink sinks)
  let ?nid = "NotificationID event dest tr (sk_id sink) revision"
  from Cons.prems show ?case
  proof (cases rule: enqueue_sinks_Cons)
    case (1 payload r)
    then have "?nid \<in> set (map ne_notification_id (rows @ [r]))" by (simp add: event_row_def)
    then have "?nid \<in> set (map ne_notification_id rows1)" using evolved_ids [OF enqueue_sinks_evolves [OF 1(4)]] by blast
    with Cons.IH [OF 1(4)] show ?thesis by simp
  next
    case 2
    then have "?nid \<in> set (map ne_notification_id rows1)" using evolved_ids [OF enqueue_sinks_evolves [OF 2(2)]] by blast
    with Cons.IH [OF 2(2)] show ?thesis by simp
  qed
qed simp

lemma enqueue_sinks_again:
  "(\<lambda>sink. NotificationID event dest tr (sk_id sink) revision) ` set sinks \<subseteq> set (map ne_notification_id rows) \<Longrightarrow>
   length source \<le> notificationSourceBound \<Longrightarrow>
   enqueue_sinks route event tr dest revision source now sinks rows n = Inr (rows, n)"
proof (induction sinks)
  case (Cons sink sinks)
  let ?nid = "NotificationID event dest tr (sk_id sink) revision"
  obtain payload where p: "notificationPayloadJSON ?nid route event dest tr (sk_id sink) revision source now = Inr payload"
    using payload_renders [OF Cons.prems(2)] by blast
  have "?nid \<in> set (map ne_notification_id rows)" using Cons.prems(1) by simp
  moreover from this have "\<not> insertable rows (event_row ?nid event route dest sink tr revision payload now)"
    by (simp add: insertable_def event_row_def)
  ultimately show ?case using Cons unfolding enqueue_sinks.simps Let_def p by simp
qed simp

text \<open>C26: one transition notifies once. After a transition has been enqueued under a policy, enqueueing the same
  transition again (a replay, a rerun, a crash recovery), with any source fields and at any later time, creates
  nothing and changes nothing, whatever the drainers did in the meantime (NTF-003, AC-902).\<close>

theorem transition_notifies_once:
  assumes "enqueueNotificationTx (Some resolve) route event tr dest source now ox = Inr (ox1, k)"
    and "(outbox_step F)\<^sup>*\<^sup>* ox1 ox2" and "distinct (map fst source2)"
  shows "enqueueNotificationTx (Some resolve) route event tr dest source2 now2 ox2 = Inr (ox2, 0)"
proof -
  have "enqueueNotificationTx (Some resolve) route event tr dest source2 now2 ox2 = Inr (ox2, 0)"
    if p: "resolve route = Some policy" and a: "np_sinks policy \<noteq> []" "np_revision policy \<noteq> []" "Contains (np_events policy) event" for policy
  proof -
    let ?sinks = "sort_by (\<lambda>a b. sk_id a < sk_id b) (np_sinks policy)"
    from assms(1) p a have "enqueue_sinks route event tr dest (np_revision policy) (sanitizeNotificationSource source)
        (normalizeTimestamp now) ?sinks (ox_events ox) 0 = Inr (ox_events ox1, k)"
      by (auto simp: enqueueNotificationTx_def bindE_Inr_iff)
    from enqueue_sinks_present [OF this] evolved_ids [OF steps_evolve [OF assms(2)]]
    have "(\<lambda>sink. NotificationID event dest tr (sk_id sink) (np_revision policy)) ` set ?sinks \<subseteq>
        set (map ne_notification_id (ox_events ox2))" by blast
    from enqueue_sinks_again [OF this sanitize_bounded(1) [OF assms(3)]] p a show ?thesis
      by (simp add: enqueueNotificationTx_def)
  qed
  then show ?thesis by (cases "resolve route") (auto simp: enqueueNotificationTx_def)
qed

text \<open>an ambiguous or retryable outcome schedules the retry. The attempt is recorded with the next number, the
  notification stays pending without a lease, its due time is the second of the completion plus the delay the
  policy gives this attempt, and no pass claims it before that second (NTF-014, NTF-015).\<close>

theorem retry_waits_for_its_deadline:
  assumes "outbox_ok ox"
    and "RecordNotificationAttemptFenced d F u inp c b ox = (ox1, Inr a)"
    and "event_of (ni_notification_id inp) ox = Some r" and "ne_state r = NotificationPending"
    and "\<not> Terminal (na_outcome a)" and "na_completed_at a = CanonicalTimestamp done"
    and "when = second_of done * 10 ^ 9 + notificationBackoffDelay F b (na_attempt_number a) u"
    and "four_digit_year done" and "four_digit_year when"
  shows "na_attempt_number a = last_number (ni_notification_id inp) (ox_attempts ox) + 1 \<and>
    event_of (ni_notification_id inp) ox1 =
      Some (r\<lparr>ne_due_at := CanonicalTimestamp when, ne_lease_owner := [], ne_lease_expires_at := None\<rparr>) \<and>
    (if four_digit_year t \<and> second_of t < second_of when
     then ni_notification_id inp \<notin> set (case snd (ClaimDueNotifications False t flt ox1) of Inl e \<Rightarrow> [] | Inr cs \<Rightarrow> map claim_id cs)
     else True)"
proof -
  let ?nid = "ni_notification_id inp"
  obtain outcome where po: "ParseNotificationAttemptOutcome (ni_outcome inp) = Inr outcome"
    using assms(2) by (cases "ParseNotificationAttemptOutcome (ni_outcome inp)") (auto simp: RecordNotificationAttemptFenced_def)
  with assms(2) have rf: "record_fenced F u inp outcome c b ox = Inr (ox1, a)"
    unfolding RecordNotificationAttemptFenced_def by (auto dest: transact_committed)
  from rf obtain ox2 where ins: "insert_attempt inp outcome ox = Inr (ox2, a)"
    using record_writes(2) [OF rf] by blast
  note D = insert_attempt_D [OF ins]
  have t: "\<not> Terminal outcome" using assms(5) D(4) by simp
  have pc: "parse_rfc3339 (na_completed_at a) = Some (second_of done * 10 ^ 9)"
    unfolding assms(6) by (rule parse_CanonicalTimestamp [OF assms(8)])
  from rf have e1: "ox1 = update_pending ?nid (\<lambda>r. free_lease (r\<lparr>ne_due_at := normalizeTimestamp (NanoTimestamp when)\<rparr>)) ox2"
    unfolding record_fenced_def ins bindE_simps prod.case if_not_P [OF t] pc option.case Let_def assms(7) [symmetric]
    by (auto simp: bindE_Inr_iff)
  have row: "event_of ?nid ox1 = Some (r\<lparr>ne_due_at := CanonicalTimestamp when, ne_lease_owner := [], ne_lease_expires_at := None\<rparr>)"
  proof -
    have "event_of ?nid ox1 = map_option (\<lambda>r. if ne_notification_id r = ?nid \<and> ne_state r = NotificationPending
        then free_lease (r\<lparr>ne_due_at := normalizeTimestamp (NanoTimestamp when)\<rparr>) else r) (event_of ?nid ox2)"
      unfolding e1 update_pending_def by (simp, subst row_of_update_where) (simp_all add: free_lease_def)
    moreover have "event_of ?nid ox2 = Some r" using D(1) assms(3) by simp
    moreover have "ne_notification_id r = ?nid" using row_of_Some [OF assms(3)] by blast
    ultimately show ?thesis using assms(4,9) by (simp add: free_lease_def)
  qed
  have ok1: "outbox_ok ox1"
    by (rule step_ok [OF outbox_step.fenced [OF assms(2)] assms(1)])
  have "?nid \<notin> set (map claim_id cs)" if c: "claim_due t flt ox1 = Inr (ox3, cs)"
    and early: "four_digit_year t" "second_of t < second_of when" for ox3 cs
  proof
    assume "?nid \<in> set (map claim_id cs)"
    then obtain k where "k \<in> set cs" "claim_id k = ?nid" by auto
    from claim_due_D(4) [OF c ok1 this(1)] this(2) row have "CanonicalTimestamp when \<le> CanonicalTimestamp t" by (auto simp: due_def)
    with CanonicalTimestamp_less [OF early(1) assms(9) early(2)] show False by simp
  qed
  then have "?nid \<notin> set (case snd (ClaimDueNotifications False t flt ox1) of Inl e \<Rightarrow> [] | Inr cs \<Rightarrow> map claim_id cs)"
    if "four_digit_year t" "second_of t < second_of when"
    using that by (cases "claim_due t flt ox1") (auto simp: ClaimDueNotifications_def transact_live)
  with row D(3) show ?thesis by simp
qed

section \<open>Samples\<close>

definition sample_event :: NotificationEventRecord where
  "sample_event = \<lparr>ne_notification_id = ''ntf-1'', ne_route_id = ''wiki'', ne_event = EventWorkFailed, ne_destination_id = [],
     ne_transition = ''route:wiki'', ne_sink_id = ''ops'', ne_sink_type = ''log'', ne_policy_revision = ''p1'',
     ne_payload_json = ''{}'', ne_state = NotificationPending, ne_idempotency_key = NotificationIdempotencyKey ''ntf-1'',
     ne_created_at = ''2000-02-29T00:00:00Z'', ne_resolved_at = [], ne_due_at = ''2000-02-29T00:00:00Z'', ne_lease_owner = [],
     ne_lease_token = 0, ne_lease_expires_at = None\<rparr>"

definition sample_outbox :: "NotificationEventRecord list \<Rightarrow> Outbox" where
  "sample_outbox rows = \<lparr>ox_events = rows, ox_attempts = [], ox_runs = []\<rparr>"

definition sample_time :: int where
  "sample_time = 951782400 * 10 ^ 9"

definition sample_filter :: "string \<Rightarrow> string \<Rightarrow> NotificationClaimFilter" where
  "sample_filter owner until = \<lparr>nf_route_id = [], nf_notification_id = [], nf_limit = 10, nf_owner = owner, nf_lease_until = until\<rparr>"

definition leased_event :: "string \<Rightarrow> int \<Rightarrow> string \<Rightarrow> NotificationEventRecord" where
  "leased_event owner n until =
     sample_event\<lparr>ne_lease_owner := owner, ne_lease_token := n, ne_lease_expires_at := Some until\<rparr>"

lemma sample_ok:
  "outbox_ok (sample_outbox [sample_event])" "outbox_ok (sample_outbox [leased_event ow 1 e])"
  "outbox_ok (sample_outbox [sample_event\<lparr>ne_state := NotificationDelivered\<rparr>])"
  by (simp_all add: outbox_ok_def events_ok_def attempts_ok_def own_attempts_def sample_outbox_def sample_event_def leased_event_def)

text \<open>The first pass claims the row until ten seconds later; twenty seconds later the second pass recovers it.\<close>

lemma sample_times:
  "CanonicalTimestamp sample_time = ''2000-02-29T00:00:00Z''"
  "CanonicalTimestamp (sample_time + 20 * 10 ^ 9) = ''2000-02-29T00:00:20Z''"
  "normalizeTimestamp ''2000-02-29T00:00:10Z'' = ''2000-02-29T00:00:10Z''"
  "normalizeTimestamp ''2000-02-29T00:00:30Z'' = ''2000-02-29T00:00:30Z''"
  by code_simp+

definition first_claim :: NotificationClaim where
  "first_claim = \<lparr>nc_record = leased_event ''a'' 1 ''2000-02-29T00:00:10Z'', nc_lease_token = 1\<rparr>"

definition second_claim :: NotificationClaim where
  "second_claim = \<lparr>nc_record = leased_event ''b'' 2 ''2000-02-29T00:00:30Z'', nc_lease_token = 2\<rparr>"

lemma sample_claims:
  "ClaimDueNotifications False sample_time (sample_filter ''a'' ''2000-02-29T00:00:10Z'') (sample_outbox [sample_event]) =
     (sample_outbox [leased_event ''a'' 1 ''2000-02-29T00:00:10Z''], Inr [first_claim])"
  "ClaimDueNotifications False (sample_time + 20 * 10 ^ 9) (sample_filter ''b'' ''2000-02-29T00:00:30Z'')
      (sample_outbox [leased_event ''a'' 1 ''2000-02-29T00:00:10Z'']) =
     (sample_outbox [leased_event ''b'' 2 ''2000-02-29T00:00:30Z''], Inr [second_claim])"
  "ClaimDueNotifications False sample_time (sample_filter ''b'' ''2000-02-29T00:00:30Z'')
      (sample_outbox [leased_event ''a'' 1 ''2000-02-29T00:00:10Z'']) =
     (sample_outbox [leased_event ''a'' 1 ''2000-02-29T00:00:10Z''], Inr [])"
  unfolding ClaimDueNotifications_def transact_live claim_due_def Let_def sample_times sample_filter_def
  by (simp_all add: sample_times sample_outbox_def sample_event_def leased_event_def due_def lease_free_def bounded_limit_def
      claimable_def affected_def lease_to_def first_claim_def second_claim_def row_of_Cons Let_def)

theorem claims_lease_due_work_witness:
  "ClaimDueNotifications False sample_time (sample_filter ''a'' ''2000-02-29T00:00:10Z'') (sample_outbox [sample_event]) =
     (sample_outbox [leased_event ''a'' 1 ''2000-02-29T00:00:10Z''], Inr [first_claim]) \<and>
   int (length [first_claim]) \<le> bounded_limit 10"
  using claims_lease_due_work [OF sample_ok(1) sample_claims(1)] sample_claims(1) by (simp add: sample_filter_def)

theorem drainers_claim_disjoint_work_witness:
  "set (map claim_id [first_claim]) \<inter> set (map claim_id []) = {}"
  by (rule drainers_claim_disjoint_work [OF sample_ok(1) sample_claims(1) sample_claims(3)])
    (simp_all add: sample_filter_def lease_end_def sample_times)

definition late_outcome :: NotificationAttemptInput where
  "late_outcome = \<lparr>ni_notification_id = ''ntf-1'', ni_outcome = ''delivered'', ni_error_code = [], ni_response_digest = [],
     ni_started_at = ''2000-02-29T00:00:00Z'', ni_completed_at = ''2000-02-29T00:00:25Z''\<rparr>"

definition sample_backoff :: "rat NotificationBackoff" where
  "sample_backoff = \<lparr>nb_initial = 30 * 10 ^ 9, nb_max = 900 * 10 ^ 9, nb_multiplier = 2, nb_jitter_fraction = 0\<rparr>"

theorem stale_drainer_cannot_commit_witness:
  "\<exists>n. 1 < n \<and> RecordNotificationAttemptFenced False exact_float 0 late_outcome first_claim sample_backoff
      (sample_outbox [leased_event ''b'' 2 ''2000-02-29T00:00:30Z'']) =
     (sample_outbox [leased_event ''b'' 2 ''2000-02-29T00:00:30Z''], Inl (NotificationLeaseLost ''ntf-1'' 1 n))"
proof -
  have i: "claim_id first_claim = ''ntf-1''" "claim_id second_claim = ''ntf-1''"
    by (simp_all add: first_claim_def second_claim_def leased_event_def sample_event_def)
  have l: "ni_notification_id late_outcome = claim_id first_claim"
    "ParseNotificationAttemptOutcome (ni_outcome late_outcome) = Inr NotificationDeliveredOutcome"
    by (simp_all add: late_outcome_def i ParseNotificationAttemptOutcome_def)
  have n: "nc_lease_token first_claim = 1" by (simp add: first_claim_def)
  have c: "first_claim \<in> set [first_claim]" "second_claim \<in> set [second_claim]" by simp_all
  from stale_drainer_cannot_commit [where F = exact_float and u = 0 and b = sample_backoff, OF sample_ok(1) sample_claims(1)
      c(1) rtranclp.rtrancl_refl sample_claims(2) c(2) _ rtranclp.rtrancl_refl l] i n
  show ?thesis by simp
qed

theorem delivered_is_final_witness:
  "RetryNotification False sample_time ''ntf-1'' (sample_outbox [sample_event\<lparr>ne_state := NotificationDelivered\<rparr>]) =
     (sample_outbox [sample_event\<lparr>ne_state := NotificationDelivered\<rparr>], Inl (AlreadyDelivered ''ntf-1''))"
proof -
  have r: "event_of ''ntf-1'' (sample_outbox [sample_event\<lparr>ne_state := NotificationDelivered\<rparr>]) =
      Some (sample_event\<lparr>ne_state := NotificationDelivered\<rparr>)"
    "ne_state (sample_event\<lparr>ne_state := NotificationDelivered\<rparr>) = NotificationDelivered"
    by (simp_all add: sample_outbox_def sample_event_def row_of_Cons)
  from delivered_is_final [OF sample_ok(3) r rtranclp.rtrancl_refl] show ?thesis by blast
qed

definition sample_notification_policy :: NotificationPolicy where
  "sample_notification_policy = \<lparr>np_events = [EventWorkFailed], np_sinks = [\<lparr>sk_id = ''ops'', sk_type = ''log''\<rparr>], np_revision = ''p1''\<rparr>"

lemma sample_enqueue:
  "\<exists>ox1. enqueueNotificationTx (Some (\<lambda>route. Some sample_notification_policy)) ''wiki'' EventWorkFailed ''t'' [] []
     ''2000-02-29T00:00:00Z'' empty_outbox = Inr (ox1, 1)"
proof -
  have s: "sanitizeNotificationSource [] = []" by (simp add: sanitizeNotificationSource_def)
  have "\<exists>payload. notificationPayloadJSON (NotificationID EventWorkFailed [] ''t'' ''ops'' ''p1'') ''wiki'' EventWorkFailed []
      ''t'' ''ops'' ''p1'' [] (normalizeTimestamp ''2000-02-29T00:00:00Z'') = Inr payload"
    by (rule payload_renders) simp
  then show ?thesis
    by (auto simp: enqueueNotificationTx_def sample_notification_policy_def Contains_def s empty_outbox_def Let_def
        insertable_def event_row_def)
qed

theorem transition_notifies_once_witness:
  "\<exists>ox1. enqueueNotificationTx (Some (\<lambda>route. Some sample_notification_policy)) ''wiki'' EventWorkFailed ''t'' [] []
       ''2000-02-29T00:00:00Z'' empty_outbox = Inr (ox1, 1) \<and>
     enqueueNotificationTx (Some (\<lambda>route. Some sample_notification_policy)) ''wiki'' EventWorkFailed ''t'' [] [(''state'', ''late'')]
       ''2000-03-01T00:00:00Z'' ox1 = Inr (ox1, 0)"
proof -
  obtain ox1 where e: "enqueueNotificationTx (Some (\<lambda>route. Some sample_notification_policy)) ''wiki'' EventWorkFailed ''t'' [] []
       ''2000-02-29T00:00:00Z'' empty_outbox = Inr (ox1, 1)" using sample_enqueue by blast
  have "distinct (map fst [(''state'', ''late'')])" by simp
  from transition_notifies_once [OF e rtranclp.rtrancl_refl this] e show ?thesis by blast
qed

definition retryable_outcome :: NotificationAttemptInput where
  "retryable_outcome = late_outcome\<lparr>ni_outcome := ''retryable'', ni_completed_at := ''2000-02-29T00:00:00Z''\<rparr>"

definition retryable_attempt :: NotificationAttemptRecord where
  "retryable_attempt = attempt_row retryable_outcome NotificationRetryableOutcome 1"

lemma sample_delay: "notificationBackoffDelay exact_float sample_backoff 1 0 = 30 * 10 ^ 9"
  by (simp add: notificationBackoffDelay_def capped_delay_def exact_float_def sample_backoff_def Let_def)

lemma sample_retry:
  "\<exists>ox1. RecordNotificationAttemptFenced False exact_float 0 retryable_outcome first_claim sample_backoff
     (sample_outbox [leased_event ''a'' 1 ''2000-02-29T00:00:10Z'']) = (ox1, Inr retryable_attempt)"
proof -
  have c: "na_completed_at retryable_attempt = CanonicalTimestamp sample_time" "na_attempt_number retryable_attempt = 1"
    by (simp_all add: retryable_attempt_def attempt_row_def) code_simp
  have y: "four_digit_year sample_time" by code_simp
  have p: "ParseNotificationAttemptOutcome (ni_outcome retryable_outcome) = Inr NotificationRetryableOutcome"
    by (simp add: retryable_outcome_def ParseNotificationAttemptOutcome_def)
  have e: "event_of (ni_notification_id retryable_outcome) (sample_outbox [leased_event ''a'' 1 ''2000-02-29T00:00:10Z'']) =
      Some (leased_event ''a'' 1 ''2000-02-29T00:00:10Z'')"
    by (simp add: sample_outbox_def leased_event_def sample_event_def row_of_Cons retryable_outcome_def late_outcome_def)
  have i: "insert_attempt retryable_outcome NotificationRetryableOutcome
      (sample_outbox [leased_event ''a'' 1 ''2000-02-29T00:00:10Z'']) =
      Inr (sample_outbox [leased_event ''a'' 1 ''2000-02-29T00:00:10Z'']\<lparr>ox_attempts := [retryable_attempt]\<rparr>, retryable_attempt)"
    by (simp add: insert_attempt_def sample_outbox_def last_number_def retryable_attempt_def Let_def)
  have g: "ne_lease_owner (leased_event ''a'' 1 ''2000-02-29T00:00:10Z'') \<noteq> []"
    "ne_lease_token (leased_event ''a'' 1 ''2000-02-29T00:00:10Z'') = nc_lease_token first_claim"
    by (simp_all add: leased_event_def first_claim_def)
  show ?thesis
    unfolding RecordNotificationAttemptFenced_def p sum.case transact_live record_fenced_def e option.case bindE_simps i
      prod.case c parse_CanonicalTimestamp [OF y]
    by (simp add: g guardE_def Terminal_def Let_def)
qed

theorem retry_waits_for_its_deadline_witness:
  "\<exists>ox1. RecordNotificationAttemptFenced False exact_float 0 retryable_outcome first_claim sample_backoff
       (sample_outbox [leased_event ''a'' 1 ''2000-02-29T00:00:10Z'']) = (ox1, Inr retryable_attempt) \<and>
     map_option ne_due_at (event_of ''ntf-1'' ox1) = Some ''2000-02-29T00:00:30Z''"
proof -
  obtain ox1 where r: "RecordNotificationAttemptFenced False exact_float 0 retryable_outcome first_claim sample_backoff
       (sample_outbox [leased_event ''a'' 1 ''2000-02-29T00:00:10Z'']) = (ox1, Inr retryable_attempt)"
    using sample_retry by blast
  have e: "event_of (ni_notification_id retryable_outcome) (sample_outbox [leased_event ''a'' 1 ''2000-02-29T00:00:10Z'']) =
      Some (leased_event ''a'' 1 ''2000-02-29T00:00:10Z'')"
    by (simp add: sample_outbox_def leased_event_def sample_event_def row_of_Cons retryable_outcome_def late_outcome_def)
  have s: "ne_state (leased_event ''a'' 1 ''2000-02-29T00:00:10Z'') = NotificationPending"
    by (simp add: leased_event_def sample_event_def)
  have a: "\<not> Terminal (na_outcome retryable_attempt)" "na_attempt_number retryable_attempt = 1"
    by (simp_all add: retryable_attempt_def attempt_row_def Terminal_def)
  have c: "na_completed_at retryable_attempt = CanonicalTimestamp sample_time"
    by (simp add: retryable_attempt_def attempt_row_def) code_simp
  have w: "sample_time + 30 * 10 ^ 9 =
      second_of sample_time * 10 ^ 9 + notificationBackoffDelay exact_float sample_backoff (na_attempt_number retryable_attempt) 0"
    unfolding a(2) sample_delay by code_simp
  have y: "four_digit_year sample_time" "four_digit_year (sample_time + 30 * 10 ^ 9)" by code_simp+
  have d: "CanonicalTimestamp (sample_time + 30 * 10 ^ 9) = ''2000-02-29T00:00:30Z''" by code_simp
  have n: "ni_notification_id retryable_outcome = ''ntf-1''" by (simp add: retryable_outcome_def late_outcome_def)
  from retry_waits_for_its_deadline [OF sample_ok(2) r e s a(1) c w y] r show ?thesis
    unfolding n d by (intro exI [of _ ox1] conjI) simp_all
qed

theorem outbox_stays_well_formed_witness:
  "\<exists>ox1. outbox_step exact_float empty_outbox ox1 \<and> length (ox_events ox1) = 1 \<and> outbox_ok ox1"
proof -
  obtain ox1 where e: "enqueueNotificationTx (Some (\<lambda>route. Some sample_notification_policy)) ''wiki'' EventWorkFailed ''t'' [] []
       ''2000-02-29T00:00:00Z'' empty_outbox = Inr (ox1, 1)" using sample_enqueue by blast
  then have "EnqueueRouteNotification False (Some (\<lambda>route. Some sample_notification_policy)) ''wiki'' EventWorkFailed ''t'' [] []
      ''2000-02-29T00:00:00Z'' empty_outbox = (ox1, Inr 1)"
    by (simp add: EnqueueRouteNotification_def transact_live)
  then have s: "outbox_step exact_float empty_outbox ox1" by (rule outbox_step.enqueued)
  from e have "length (ox_events ox1) = 1"
    by (auto simp: enqueueNotificationTx_def sample_notification_policy_def Contains_def empty_outbox_def bindE_Inr_iff Let_def
        split: if_splits)
  with s outbox_stays_well_formed [of exact_float ox1] show ?thesis by blast
qed

end
