(* ===== verification/DeliveryProtocol.thy ===== *)
theory DeliveryProtocol
  imports Delivery OutboxProtocol
begin

text \<open>
  What the delivery services do to the outbox and to the sinks. A traced service is the same code
  over a world that also keeps its calls. The locale \<open>lease_store\<close> is the contract between the drain
  and the store; the outbox meets it.
\<close>

section \<open>A drain that keeps the calls it makes\<close>

datatype drain_call =
    Took "NotificationClaim list"
  | Asked NotificationDelivery
  | Wrote NotificationAttemptInput NotificationClaim bool
  | Freed Ctx "NotificationClaim list" bool

definition traced_resolver :: "'s sink_resolver \<Rightarrow> ('s, drain_call) recorded sink_resolver" where
  "traced_resolver f route ref =
     (case f route ref of Inl e \<Rightarrow> Inl e | Inr sink \<Rightarrow> Inr (\<lambda>w del. note_step (\<lambda>w. sink w del) (\<lambda>a. Asked del) w))"

definition traced_drain_store :: "('s, 'f) NotificationDrainStore \<Rightarrow> (('s, drain_call) recorded, 'f) NotificationDrainStore" where
  "traced_drain_store st = \<lparr>
     da_claim = (\<lambda>w flt. note_step (\<lambda>w. da_claim st w flt) (\<lambda>x. Took (case x of Inl e \<Rightarrow> [] | Inr cs \<Rightarrow> cs)) w),
     da_record_fenced = (\<lambda>w inp c b. note_step (\<lambda>w. da_record_fenced st w inp c b) (Wrote inp c \<circ> is_ok) w),
     da_release = (\<lambda>w ctx ow cs. note_step (\<lambda>w. da_release st w ctx ow cs) (Freed ctx cs \<circ> is_ok) w)\<rparr>"

definition traced_drain :: "('s, 'f) DrainService \<Rightarrow> (('s, drain_call) recorded, 'f) DrainService" where
  "traced_drain d = \<lparr>
     ds_store = traced_drain_store (ds_store d), ds_resolver = traced_resolver (ds_resolver d), ds_now = lift_step (ds_now d),
     ds_limit = ds_limit d, ds_retry = ds_retry d, ds_backoff_for = ds_backoff_for d, ds_owner = ds_owner d,
     ds_draw_owner = lift_step (ds_draw_owner d), ds_float = ds_float d, ds_default_multiplier = ds_default_multiplier d,
     ds_default_jitter = ds_default_jitter d, ds_ctx_over = lift_read (ds_ctx_over d), ds_ctx_deadline = ds_ctx_deadline d\<rparr>"

lemma traced_drain_simps [simp]:
  "ds_store (traced_drain d) = traced_drain_store (ds_store d)" "ds_resolver (traced_drain d) = traced_resolver (ds_resolver d)"
  "ds_now (traced_drain d) = lift_step (ds_now d)" "ds_ctx_over (traced_drain d) w = ds_ctx_over d (fst w)"
  by (simp_all add: traced_drain_def lift_read_def)

lemma drain_stamp_quiet: "drain_stamp (traced_drain d) w = (w1, t) \<Longrightarrow> snd w1 = snd w"
  by (auto simp: drain_stamp_def split: prod.splits dest: lift_step_eq)

lemma owner_quiet: "owner (traced_drain d) w = (w1, x) \<Longrightarrow> snd w1 = snd w"
  by (auto simp: owner_def traced_drain_def split: if_splits dest: lift_step_eq)

text \<open>The claims whose outcome was written, the deliveries asked for, the claims released.\<close>

definition written :: "drain_call list \<Rightarrow> NotificationClaim list" where
  "written calls = List.map_filter (\<lambda>k. case k of Wrote inp c ok \<Rightarrow> Some c | _ \<Rightarrow> None) calls"

definition asked :: "drain_call list \<Rightarrow> NotificationDelivery list" where
  "asked calls = List.map_filter (\<lambda>k. case k of Asked del \<Rightarrow> Some del | _ \<Rightarrow> None) calls"

definition freed :: "drain_call list \<Rightarrow> NotificationClaim list list" where
  "freed calls = List.map_filter (\<lambda>k. case k of Freed ctx cs ok \<Rightarrow> Some cs | _ \<Rightarrow> None) calls"

lemma call_simps [simp]:
  "written (Took cs # ks) = written ks" "asked (Took cs # ks) = asked ks" "freed (Took cs # ks) = freed ks"
  "written [] = []" "written (Asked x # ks) = written ks" "written (Wrote i c b # ks) = c # written ks"
  "written (Freed m cs b # ks) = written ks" "written (xs @ ys) = written xs @ written ys"
  "asked [] = []" "asked (Asked x # ks) = x # asked ks" "asked (Wrote i c b # ks) = asked ks"
  "asked (Freed m cs b # ks) = asked ks" "asked (xs @ ys) = asked xs @ asked ys"
  "freed [] = []" "freed (Asked x # ks) = freed ks" "freed (Wrote i c b # ks) = freed ks"
  "freed (Freed m cs b # ks) = cs # freed ks" "freed (xs @ ys) = freed xs @ freed ys"
  by (simp_all add: written_def asked_def freed_def List.map_filter_def)

definition resolvable :: "'s sink_resolver \<Rightarrow> NotificationEventRecord \<Rightarrow> bool" where
  "resolvable f r = is_ok (f (ne_route_id r) (sink_ref r))"

text \<open>The deliveries of the claims whose sink can be built.\<close>

fun offers :: "'s sink_resolver \<Rightarrow> NotificationClaim list \<Rightarrow> NotificationDelivery list" where
  "offers f [] = []"
| "offers f (c # cs) = (if resolvable f (nc_record c) then [delivery_of (nc_record c)] else []) @ offers f cs"

lemma attempt_calls:
  assumes "attemptThroughSink (traced_drain d) w r = (w1, x)"
  shows "snd w1 = snd w @ (if resolvable (ds_resolver d) r then [Asked (delivery_of r)] else [])"
  using assms by (auto simp: attemptThroughSink_def traced_resolver_def resolvable_def split: sum.splits prod.splits
      dest: note_step_eq)

lemma deliverClaimed_calls:
  assumes "deliverClaimed (traced_drain d) w c = (w1, x)"
  shows "\<exists>inp. snd w1 = snd w @ (if resolvable (ds_resolver d) (nc_record c) then [Asked (delivery_of (nc_record c))] else []) @
      [Wrote inp c (is_ok x)] \<and> ni_notification_id inp = claim_id c"
proof -
  let ?d = "traced_drain d" and ?r = "nc_record c"
  obtain a started where a: "drain_stamp ?d w = (a, started)" by (rule prod.exhaust)
  obtain b attempt where b: "attemptThroughSink ?d a ?r = (b, attempt)" by (rule prod.exhaust)
  obtain e completed where e: "drain_stamp ?d b = (e, completed)" by (rule prod.exhaust)
  obtain inp outcome where i: "(case attempt of
              Inl e \<Rightarrow> (unresolvable (ne_notification_id ?r) started completed, ''retryable'')
            | Inr ou \<Rightarrow> (fenced_input (ne_notification_id ?r) ou started completed, ou)) = (inp, outcome)" by (rule prod.exhaust)
  then have n: "ni_notification_id inp = claim_id c" by (auto simp: unresolvable_def fenced_input_def split: sum.splits)
  obtain w4 y where y: "da_record_fenced (ds_store ?d) e inp c (retryFor ?d (ne_route_id ?r)) = (w4, y)" by (rule prod.exhaust)
  then have s4: "snd w4 = snd e @ [Wrote inp c (is_ok y)]" by (auto simp: traced_drain_store_def dest: note_step_eq)
  from assms have "w1 = w4 \<and> is_ok x = is_ok y"
    unfolding deliverClaimed_def Let_def a b e i prod.case y by (cases y) auto
  with s4 n drain_stamp_quiet [OF a] drain_stamp_quiet [OF e] attempt_calls [OF b] show ?thesis by auto
qed

lemma drain_claims_calls:
  assumes "drain_claims (traced_drain d) w cs report = (w1, report1, unstarted, err)"
  shows "\<exists>done calls. cs = done @ unstarted \<and> snd w1 = snd w @ calls \<and> written calls = done \<and>
    asked calls = offers (ds_resolver d) done \<and> freed calls = [] \<and>
    cr_claimed report1 = cr_claimed report \<and> (unstarted \<noteq> [] \<longrightarrow> err = None \<longrightarrow> ds_ctx_over d (fst w1) \<and> cr_budget_expired report1)"
  using assms
proof (induction cs arbitrary: w report)
  case Nil
  then show ?case by (intro exI [of _ "[]"]) simp
next
  case (Cons c cs)
  show ?case
  proof (cases "ds_ctx_over d (fst w)")
    case True
    with Cons.prems show ?thesis by (intro exI [of _ "[]"]) auto
  next
    case False
    obtain w2 x where x: "deliverClaimed (traced_drain d) w c = (w2, x)" by (rule prod.exhaust)
    from deliverClaimed_calls [OF x] obtain inp where s2: "snd w2 = snd w @ (if resolvable (ds_resolver d) (nc_record c)
        then [Asked (delivery_of (nc_record c))] else []) @ [Wrote inp c (is_ok x)]" by blast
    have rest: ?thesis if "drain_claims (traced_drain d) w2 cs r2 = (w1, report1, unstarted, err)" "cr_claimed r2 = cr_claimed report" for r2
    proof -
      from Cons.IH [OF that(1)] obtain "done" calls where ih: "cs = done @ unstarted" "snd w1 = snd w2 @ calls" "written calls = done"
        "asked calls = offers (ds_resolver d) done" "freed calls = []"
        "cr_claimed report1 = cr_claimed r2"
        "(unstarted \<noteq> [] \<longrightarrow> err = None \<longrightarrow> ds_ctx_over d (fst w1) \<and> cr_budget_expired report1)" by blast
      show ?thesis
        by (intro exI [of _ "c # done"] exI [of _ "(if resolvable (ds_resolver d) (nc_record c)
        then [Asked (delivery_of (nc_record c))] else []) @ [Wrote inp c (is_ok x)] @ calls"]) (use ih s2 that(2) in auto)
    qed
    show ?thesis
    proof (cases x)
      case (Inl e)
      show ?thesis
      proof (cases "is_lease_lost e")
        case True
        with Inl x False Cons.prems rest show ?thesis by simp
      next
        case not_lost: False
        with Inl x False Cons.prems s2 show ?thesis
          by (intro exI [of _ "[c]"] exI [of _ "(if resolvable (ds_resolver d) (nc_record c)
        then [Asked (delivery_of (nc_record c))] else []) @ [Wrote inp c False]"]) auto
      qed
    next
      case (Inr outcome)
      with x False Cons.prems rest show ?thesis by simp
    qed
  qed
qed


text \<open>C28: a drain pass accounts for every claim it took. The pass tries its claims in the order it took them, each
  once: the deliveries it asks sinks for are those of the started claims whose sink can be built, every started
  claim gets exactly one outcome written under its own fence, and the claims it never started are handed back in one
  release (NTF-014).\<close>

theorem drain_accounts_for_every_claim:
  assumes "DrainDue (traced_drain d) (w, []) route = ((w1, calls), report, err)"
  shows "\<exists>done unstarted. hd calls = Took (done @ unstarted) \<and> written calls = done \<and>
    asked calls = offers (ds_resolver d) done \<and> freed calls = (if unstarted = [] then [] else [unstarted]) \<and>
    cr_claimed report = int (length (done @ unstarted))"
proof -
  let ?d = "traced_drain d"
  obtain a now where a: "ds_now ?d (w, []) = (a, now)" by (rule prod.exhaust)
  obtain b ow where b: "owner ?d a = (b, ow)" by (rule prod.exhaust)
  obtain e got where e: "da_claim (ds_store ?d) b (drain_filter ?d route ow now) = (e, got)" by (rule prod.exhaust)
  have "snd b = []" using a lift_step_eq [of "ds_now d" "(w, [])" a now] owner_quiet [OF b] by simp
  with e have took: "snd e = [Took (case got of Inl e \<Rightarrow> [] | Inr cs \<Rightarrow> cs)]"
    by (auto simp: traced_drain_store_def dest: note_step_eq)
  show ?thesis
  proof (cases got)
    case (Inl x)
    with assms took have "calls = [Took []] \<and> cr_claimed report = 0"
      unfolding DrainDue_def Let_def a b e prod.case by (auto simp: no_claims_def)
    then show ?thesis by (intro exI [of _ "[]"]) simp
  next
    case (Inr claims)
    obtain f rep unstarted stop where f: "drain_claims ?d e claims (no_claims\<lparr>cr_claimed := int (length claims)\<rparr>) = (f, rep, unstarted, stop)"
      by (rule prod_cases4)
    from drain_claims_calls [OF f] took Inr obtain "done" ks where k: "claims = done @ unstarted" "snd f = Took claims # ks" "written ks = done"
        "asked ks = offers (ds_resolver d) done" "freed ks = []" "cr_claimed rep = int (length claims)" by auto
    have rel: "snd (fst (da_release (ds_store ?d) f ctx ow unstarted)) =
        snd f @ [Freed ctx unstarted (is_ok (snd (da_release (ds_store ?d) f ctx ow unstarted)))]" for ctx
      by (simp add: traced_drain_store_def note_step_calls)
    have fin: "(w1, calls) = (if unstarted = [] then f else fst (da_release (ds_store ?d) f (if stop = None then WithCtx else WithoutCancel) ow unstarted)) \<and>
        report = rep"
      using assms unfolding DrainDue_def Let_def a b e Inr prod.case sum.case f
      by (cases stop) (auto split: if_splits prod.splits sum.splits)
    show ?thesis
    proof (cases "unstarted = []")
      case True
      with fin have "calls = snd f" by (metis snd_conv)
      with True fin k show ?thesis by (intro exI [of _ "done"] exI [of _ "[]"]) simp
    next
      case False
      with fin have "calls = snd (fst (da_release (ds_store ?d) f (if stop = None then WithCtx else WithoutCancel) ow unstarted))"
        by (metis snd_conv)
      with rel have "\<exists>ctx ok. calls = snd f @ [Freed ctx unstarted ok]" by blast
      then obtain ctx ok where "calls = snd f @ [Freed ctx unstarted ok]" by blast
      with False fin k show ?thesis by (intro exI [of _ "done"] exI [of _ unstarted]) simp
    qed
  qed
qed

section \<open>The contract of the store\<close>

text \<open>Steps of the environment (the clock, the owner draw, the sinks) that leave the store alone.\<close>

definition quiet_service :: "('s \<Rightarrow> bool) \<Rightarrow> ('s \<Rightarrow> NotificationClaim \<Rightarrow> bool) \<Rightarrow> ('s, 'f) DrainService \<Rightarrow> bool" where
  "quiet_service good held d \<longleftrightarrow>
     (let keeps = (\<lambda>w w1. good w1 \<and> (\<forall>c. held w c \<longrightarrow> held w1 c))
      in \<forall>w. good w \<longrightarrow> keeps w (fst (ds_now d w)) \<and> keeps w (fst (ds_draw_owner d w)) \<and>
        (\<forall>route ref sink del. ds_resolver d route ref = Inr sink \<longrightarrow> keeps w (fst (sink w del))))"

locale lease_store =
  fixes st :: "('s, 'f) NotificationDrainStore"
    and over :: "'s \<Rightarrow> bool"
    and good :: "'s \<Rightarrow> bool"
    and held :: "'s \<Rightarrow> NotificationClaim \<Rightarrow> bool"
  assumes claim_good: "good w \<Longrightarrow> da_claim st w flt = (w1, x) \<Longrightarrow> good w1"
    and claim_distinct: "good w \<Longrightarrow> da_claim st w flt = (w1, Inr cs) \<Longrightarrow> distinct (map claim_id cs)"
    and claim_held: "good w \<Longrightarrow> da_claim st w flt = (w1, Inr cs) \<Longrightarrow> nf_owner flt \<noteq> [] \<Longrightarrow> c \<in> set cs \<Longrightarrow> held w1 c"
    and fenced_good: "good w \<Longrightarrow> da_record_fenced st w inp c b = (w1, y) \<Longrightarrow> good w1"
    and fenced_others: "good w \<Longrightarrow> da_record_fenced st w inp c b = (w1, y) \<Longrightarrow> claim_id e \<noteq> ni_notification_id inp \<Longrightarrow>
      held w e \<Longrightarrow> held w1 e"
    and release_over: "over w \<Longrightarrow> da_release st w WithCtx ow cs = (w, Inl ContextDone)"
begin

definition kept :: "NotificationClaim list \<Rightarrow> 's \<Rightarrow> bool" where
  "kept cs w \<longleftrightarrow> good w \<and> (\<forall>c \<in> set cs. held w c)"

lemma quiet_now: "quiet_service good held d \<Longrightarrow> kept cs w \<Longrightarrow> ds_now d w = (w1, t) \<Longrightarrow> kept cs w1"
  unfolding quiet_service_def kept_def Let_def by (metis fst_conv)

lemma quiet_stamp: "quiet_service good held d \<Longrightarrow> kept cs w \<Longrightarrow> drain_stamp d w = (w1, t) \<Longrightarrow> kept cs w1"
  by (auto simp: drain_stamp_def split: prod.splits intro: quiet_now)

lemma quiet_owner: "quiet_service good held d \<Longrightarrow> kept cs w \<Longrightarrow> owner d w = (w1, x) \<Longrightarrow> kept cs w1"
  unfolding quiet_service_def kept_def Let_def owner_def by (metis fst_conv)

lemma quiet_attempt: "quiet_service good held d \<Longrightarrow> kept cs w \<Longrightarrow> attemptThroughSink d w r = (w1, x) \<Longrightarrow> kept cs w1"
proof (cases "ds_resolver d (ne_route_id r) (sink_ref r)")
  case (Inr sink)
  assume q: "quiet_service good held d" "kept cs w" "attemptThroughSink d w r = (w1, x)"
  with Inr have "w1 = fst (sink w (delivery_of r))" by (auto simp: attemptThroughSink_def split: prod.splits)
  with q(1,2) Inr show "kept cs w1" unfolding quiet_service_def kept_def Let_def by blast
qed (auto simp: attemptThroughSink_def)

lemma deliverClaimed_kept:
  assumes "quiet_service good held d" and "ds_store d = st" and "kept cs w" and "deliverClaimed d w c = (w1, x)"
    and "claim_id c \<notin> set (map claim_id cs)"
  shows "kept cs w1"
proof -
  let ?r = "nc_record c"
  obtain a started where a: "drain_stamp d w = (a, started)" by (rule prod.exhaust)
  obtain b attempt where b: "attemptThroughSink d a ?r = (b, attempt)" by (rule prod.exhaust)
  obtain e completed where e: "drain_stamp d b = (e, completed)" by (rule prod.exhaust)
  obtain inp outcome where i: "(case attempt of
              Inl e \<Rightarrow> (unresolvable (ne_notification_id ?r) started completed, ''retryable'')
            | Inr ou \<Rightarrow> (fenced_input (ne_notification_id ?r) ou started completed, ou)) = (inp, outcome)" by (rule prod.exhaust)
  then have n: "ni_notification_id inp = claim_id c" by (auto simp: unresolvable_def fenced_input_def split: sum.splits)
  obtain w4 y where y: "da_record_fenced st e inp c (retryFor d (ne_route_id ?r)) = (w4, y)" by (rule prod.exhaust)
  have k: "kept cs e"
    by (rule quiet_stamp [OF assms(1) quiet_attempt [OF assms(1) quiet_stamp [OF assms(1,3) a] b] e])
  have "w1 = w4" using assms(4) unfolding deliverClaimed_def Let_def a b e i prod.case assms(2) y by (cases y) auto
  moreover have "held w4 k" if "k \<in> set cs" for k
  proof -
    have "claim_id k \<in> set (map claim_id cs)" using that by simp
    with n assms(5) have "claim_id k \<noteq> ni_notification_id inp" by metis
    from fenced_others [OF _ y this] k that show ?thesis by (simp add: kept_def)
  qed
  moreover have "good w4" using fenced_good [OF _ y] k by (simp add: kept_def)
  ultimately show ?thesis by (simp add: kept_def)
qed

lemma drain_claims_kept:
  assumes "quiet_service good held d" and "ds_store d = st" and "ds_ctx_over d = over"
  shows "drain_claims d w cs report = (w1, report1, unstarted, stop) \<Longrightarrow> kept cs w \<Longrightarrow> distinct (map claim_id cs) \<Longrightarrow>
    kept unstarted w1 \<and> (cr_budget_expired report1 \<and> \<not> cr_budget_expired report \<longrightarrow> stop = None \<and> unstarted \<noteq> [] \<and> over w1)"
proof (induction cs arbitrary: w report)
  case (Cons c cs)
  show ?case
  proof (cases "over w")
    case True
    with Cons.prems assms(3) show ?thesis by auto
  next
    case False
    obtain w2 x where x: "deliverClaimed d w c = (w2, x)" by (rule prod.exhaust)
    have "kept cs w" using Cons.prems(2) by (simp add: kept_def)
    from deliverClaimed_kept [OF assms(1,2) this x] Cons.prems(3) have k: "kept cs w2" by simp
    have d: "distinct (map claim_id cs)" using Cons.prems(3) by simp
    from Cons.prems(1) x False assms(3) Cons.IH [OF _ k d] k show ?thesis
      by (auto split: sum.splits if_splits)
  qed
qed (auto simp: kept_def)

lemma expired_budget_strands:
  assumes "quiet_service good held d" and "ds_store d = st" and "ds_ctx_over d = over" and "good w" and "ds_owner d \<noteq> []"
    and "DrainDue d w route = (w1, report, err)" and "cr_budget_expired report"
  shows "err = Some ContextDone \<and> (\<exists>c. held w1 c)"
proof -
  obtain a now where a: "ds_now d w = (a, now)" by (rule prod.exhaust)
  have b: "owner d a = (a, ds_owner d)" using assms(5) by (simp add: owner_def)
  obtain e got where e: "da_claim st a (drain_filter d route (ds_owner d) now) = (e, got)" by (rule prod.exhaust)
  have ga: "good a" using quiet_now [OF assms(1) _ a, of "[]"] assms(4) by (simp add: kept_def)
  show ?thesis
  proof (cases got)
    case (Inl x)
    with assms(6,7) show ?thesis unfolding DrainDue_def Let_def a b e prod.case assms(2) by (auto simp: no_claims_def)
  next
    case (Inr cs)
    have k: "kept cs e" using claim_good [OF ga e] claim_held [OF ga e [unfolded Inr]] assms(5)
      by (auto simp: kept_def drain_filter_def)
    obtain f rep unstarted stop where f: "drain_claims d e cs (no_claims\<lparr>cr_claimed := int (length cs)\<rparr>) = (f, rep, unstarted, stop)"
      by (rule prod_cases4)
    have "report = rep"
      using assms(6) unfolding DrainDue_def Let_def a b assms(2) e Inr prod.case sum.case f
      by (cases stop) (auto split: if_splits prod.splits sum.splits)
    with drain_claims_kept [OF assms(1-3) f k claim_distinct [OF ga e [unfolded Inr]]] assms(7)
    have s: "kept unstarted f" "stop = None" "unstarted \<noteq> []" "over f" by (auto simp: no_claims_def)
    from assms(6) have "w1 = f \<and> err = Some ContextDone"
      unfolding DrainDue_def Let_def a b assms(2) e Inr prod.case sum.case f s(2) option.case if_not_P [OF s(3)] release_over [OF s(4)]
      by auto
    with s(1,3) show ?thesis by (cases unstarted) (auto simp: kept_def)
  qed
qed

end

section \<open>The outbox behind the drain\<close>

text \<open>A world with the tables, the clock and whatever else the sinks change. A transaction takes \<open>cost\<close>
  nanoseconds; \<open>BeginTx\<close> fails once the deadline of the context has passed.\<close>

record 'x OutboxWorld =
  ow_outbox :: Outbox
  ow_now :: int
  ow_rest :: 'x

definition ctx_over :: "int option \<Rightarrow> 'x OutboxWorld \<Rightarrow> bool" where
  "ctx_over dl w = (case dl of None \<Rightarrow> False | Some t \<Rightarrow> t \<le> ow_now w)"

definition commit :: "int \<Rightarrow> 'x OutboxWorld \<Rightarrow> Outbox \<times> 'a \<Rightarrow> 'x OutboxWorld \<times> 'a" where
  "commit cost w res = (if fst res = ow_outbox w then w else w\<lparr>ow_outbox := fst res, ow_now := ow_now w + cost\<rparr>, snd res)"

definition outbox_drain_store ::
  "'f Float64 \<Rightarrow> ('x OutboxWorld \<Rightarrow> 'f) \<Rightarrow> int option \<Rightarrow> int \<Rightarrow> ('x OutboxWorld, 'f) NotificationDrainStore" where
  "outbox_drain_store F draw dl cost = \<lparr>
     da_claim = (\<lambda>w flt. commit cost w (ClaimDueNotifications (ctx_over dl w) (ow_now w) flt (ow_outbox w))),
     da_record_fenced = (\<lambda>w inp c b.
       commit cost w (RecordNotificationAttemptFenced (ctx_over dl w) F (draw w) inp c b (ow_outbox w))),
     da_release = (\<lambda>w ctx ow cs.
       commit cost w (ReleaseNotificationClaims (ctx = WithCtx \<and> ctx_over dl w) ow cs (ow_outbox w)))\<rparr>"

definition outbox_good :: "'x OutboxWorld \<Rightarrow> bool" where
  "outbox_good w = outbox_ok (ow_outbox w)"

definition outbox_held :: "'x OutboxWorld \<Rightarrow> NotificationClaim \<Rightarrow> bool" where
  "outbox_held w c \<longleftrightarrow> (\<exists>r. event_of (claim_id c) (ow_outbox w) = Some r \<and> ne_lease_owner r \<noteq> [] \<and>
     ne_lease_token r = nc_lease_token c)"

lemma commit_outbox: "commit cost w (ox, x) = (w1, y) \<Longrightarrow> ow_outbox w1 = ox \<and> y = x"
  by (auto simp: commit_def split: if_splits)

lemma update_pending_other:
  "(\<And>r. ne_notification_id (f r) = ne_notification_id r) \<Longrightarrow> n \<noteq> nid \<Longrightarrow>
   event_of n (update_pending nid f ox) = event_of n ox"
  unfolding update_pending_def
  by (simp, subst row_of_update_where, simp, cases "row_of ne_notification_id n (ox_events ox)")
    (auto dest: row_of_Some)

lemma fenced_other_rows:
  assumes "record_fenced F u inp outcome c b ox = Inr (ox1, a)" and "n \<noteq> ni_notification_id inp"
  shows "event_of n ox1 = event_of n ox"
proof -
  from assms(1) obtain ox2 f where "ox_events ox2 = ox_events ox" "ox1 = update_pending (ni_notification_id inp) f ox2"
    "\<And>r. ne_notification_id (f r) = ne_notification_id r"
    by (auto simp: record_fenced_def bindE_Inr_iff Let_def free_lease_def dest!: insert_attempt_events
        split: if_splits option.splits)
  with update_pending_other [of f n "ni_notification_id inp" ox2] assms(2) show ?thesis by simp
qed

interpretation outbox_lease: lease_store "outbox_drain_store F draw dl cost" "ctx_over dl" outbox_good outbox_held
proof
  fix w w1 :: "'b OutboxWorld" and flt x
  assume g: "outbox_good w" and c: "da_claim (outbox_drain_store F draw dl cost) w flt = (w1, x)"
  obtain ox y where y: "ClaimDueNotifications (ctx_over dl w) (ow_now w) flt (ow_outbox w) = (ox, y)" by (rule prod.exhaust)
  from step_ok [OF outbox_step.claimed [OF y]] g commit_outbox c y show "outbox_good w1"
    unfolding outbox_good_def by (fastforce simp: outbox_drain_store_def)
next
  fix w w1 :: "'b OutboxWorld" and flt cs
  assume g: "outbox_good w" and c: "da_claim (outbox_drain_store F draw dl cost) w flt = (w1, Inr cs)"
  obtain ox y where y: "ClaimDueNotifications (ctx_over dl w) (ow_now w) flt (ow_outbox w) = (ox, y)" by (rule prod.exhaust)
  with c commit_outbox have e: "ow_outbox w1 = ox" "y = Inr cs" by (fastforce simp: outbox_drain_store_def)+
  note cd = ClaimDue_D [OF y [unfolded e(2)]]
  show "distinct (map claim_id cs)" by (rule claim_due_D(1) [OF cd g [unfolded outbox_good_def]])
  fix c
  assume o: "nf_owner flt \<noteq> []" "c \<in> set cs"
  from o(2) have "claim_id c \<in> set (map claim_id cs)" by simp
  with claim_due_D(3) [OF cd g [unfolded outbox_good_def], of "claim_id c"]
    claim_due_D(4) [OF cd g [unfolded outbox_good_def] o(2)] o(1) e(1)
  show "outbox_held w1 c" by (auto simp: outbox_held_def lease_to_def)
next
  fix w w1 :: "'b OutboxWorld" and inp c b y
  assume g: "outbox_good w" and r: "da_record_fenced (outbox_drain_store F draw dl cost) w inp c b = (w1, y)"
  obtain ox z where z: "RecordNotificationAttemptFenced (ctx_over dl w) F (draw w) inp c b (ow_outbox w) = (ox, z)"
    by (rule prod.exhaust)
  with r commit_outbox have e: "ow_outbox w1 = ox" by (fastforce simp: outbox_drain_store_def)
  from step_ok [OF outbox_step.fenced [OF z]] g e show "outbox_good w1" by (simp add: outbox_good_def)
  fix k
  assume n: "claim_id k \<noteq> ni_notification_id inp" and h: "outbox_held w k"
  from z have "ox = ow_outbox w \<or> (\<exists>outcome a. record_fenced F (draw w) inp outcome c b (ow_outbox w) = Inr (ox, a))"
    by (cases "ParseNotificationAttemptOutcome (ni_outcome inp)")
      (auto simp: RecordNotificationAttemptFenced_def elim: transactE)
  then have "event_of (claim_id k) ox = event_of (claim_id k) (ow_outbox w)" using fenced_other_rows [OF _ n] by auto
  with h e show "outbox_held w1 k" by (simp add: outbox_held_def)
next
  fix w :: "'b OutboxWorld" and ow cs
  assume "ctx_over dl w"
  then show "da_release (outbox_drain_store F draw dl cost) w WithCtx ow cs = (w, Inl ContextDone)"
    by (simp add: outbox_drain_store_def ReleaseNotificationClaims_def commit_def)
qed

text \<open>a deviation from NTF-014. When the pass notices before a claim that its wall budget is over, it hands
  the claims it never started back through the context that is over; \<open>BeginTx\<close> refuses that context, so
  the pass ends with an error and leaves claims leased until their leases expire, thirty seconds after the budget.\<close>

theorem budget_expiry_strands_claims:
  assumes "ds_store d = outbox_drain_store F draw dl cost" and "ds_ctx_over d = ctx_over dl"
    and "quiet_service outbox_good outbox_held d" and "outbox_ok (ow_outbox w)" and "ds_owner d \<noteq> []"
    and "DrainDue d w route = (w1, report, err)" and "cr_budget_expired report"
  shows "err = Some ContextDone \<and> (\<exists>c. outbox_held w1 c)"
  using outbox_lease.expired_budget_strands [OF assms(3,1,2) _ assms(5-7)] assms(4) by (simp add: outbox_good_def)


section \<open>Samples\<close>

text \<open>Two due notifications, a budget of two transactions: the claim, and the outcome of the first record.\<close>

definition prompt_sink :: "'s sink" where
  "prompt_sink w del = (w, late_outcome)"

definition sample_drain :: "(unit OutboxWorld, rat) DrainService" where
  "sample_drain = \<lparr>ds_store = outbox_drain_store exact_float (\<lambda>w. 0) (Some (sample_time + 2)) 1,
     ds_resolver = (\<lambda>route ref. Inr prompt_sink), ds_now = (\<lambda>w. (w, sample_time)), ds_limit = 10, ds_retry = sample_backoff,
     ds_backoff_for = None, ds_owner = ''a'', ds_draw_owner = (\<lambda>w. (w, ''b'')), ds_float = exact_float,
     ds_default_multiplier = 2, ds_default_jitter = 0, ds_ctx_over = ctx_over (Some (sample_time + 2)),
     ds_ctx_deadline = Some (sample_time + 2)\<rparr>"

definition second_event :: NotificationEventRecord where
  "second_event = sample_event\<lparr>ne_notification_id := ''ntf-2'', ne_idempotency_key := NotificationIdempotencyKey ''ntf-2''\<rparr>"

definition claimed_row :: "NotificationEventRecord \<Rightarrow> NotificationEventRecord" where
  "claimed_row = lease_to ''a'' ''2000-02-29T00:00:30Z''"

definition claim_on :: "NotificationEventRecord \<Rightarrow> NotificationClaim" where
  "claim_on r = \<lparr>nc_record = claimed_row r, nc_lease_token = 1\<rparr>"

definition sample_world :: "NotificationEventRecord list \<Rightarrow> int \<Rightarrow> unit OutboxWorld" where
  "sample_world rows n = \<lparr>ow_outbox = sample_outbox rows, ow_now = sample_time + n, ow_rest = ()\<rparr>"

lemma sample_drain_simps [simp]:
  "ds_store sample_drain = outbox_drain_store exact_float (\<lambda>w. 0) (Some (sample_time + 2)) 1"
  "ds_resolver sample_drain = (\<lambda>route ref. Inr prompt_sink)" "ds_now sample_drain w = (w, sample_time)"
  "ds_owner sample_drain = ''a''" "ds_draw_owner sample_drain w = (w, ''b'')"
  "ds_ctx_over sample_drain = ctx_over (Some (sample_time + 2))"
  "ds_ctx_deadline sample_drain = Some (sample_time + 2)" "ds_limit sample_drain = 10"
  by (simp_all add: sample_drain_def)

lemma sample_drain_quiet: "quiet_service outbox_good outbox_held sample_drain"
  by (simp add: quiet_service_def Let_def prompt_sink_def)

lemma sample_pair_ok: "outbox_ok (sample_outbox [sample_event, second_event])"
  by (simp add: outbox_ok_def events_ok_def attempts_ok_def own_attempts_def sample_outbox_def sample_event_def second_event_def)

lemma sample_lease:
  "normalizeTimestamp (NanoTimestamp (lease_until sample_drain sample_time)) = ''2000-02-29T00:00:30Z''"
  "NanoTimestamp (lease_until sample_drain sample_time) \<noteq> []"
  unfolding lease_until_def sample_drain_simps option.case by code_simp+

lemma sample_pair_ids: "ne_notification_id sample_event = ''ntf-1''" "ne_notification_id second_event = ''ntf-2''"
  by (simp_all add: sample_event_def second_event_def)

lemma sample_pair_sorted: "sort_by oldest_first [sample_event, second_event] = [sample_event, second_event]"
proof -
  have "ne_created_at sample_event = ne_created_at second_event" by (simp add: second_event_def)
  moreover have "\<not> ''ntf-2'' < ''ntf-1''" "''ntf-1'' < ''ntf-2''" by code_simp+
  ultimately have "oldest_first sample_event second_event" "\<not> oldest_first second_event sample_event"
    by (simp_all add: oldest_first_def sample_pair_ids)
  then show ?thesis by simp
qed

lemma sample_pair_due: "filter (due ''2000-02-29T00:00:00Z'' (drain_filter sample_drain [] ''a'' t)) [sample_event, second_event] =
  [sample_event, second_event]"
  by (simp add: due_def sample_event_def second_event_def lease_free_def drain_filter_def)

lemma sample_pair_rows:
  "claim_rows ''a'' ''2000-02-29T00:00:30Z'' ''2000-02-29T00:00:00Z'' [''ntf-1'', ''ntf-2''] [sample_event, second_event] [] =
   Inr ([claimed_row sample_event, claimed_row second_event], [claim_on sample_event, claim_on second_event])"
  by (simp add: sample_event_def second_event_def lease_free_def claimable_def affected_def lease_to_def claim_on_def claimed_row_def
      row_of_Cons Let_def)

lemma sample_pair_claimed:
  "da_claim (ds_store sample_drain) (sample_world [sample_event, second_event] 0)
     (drain_filter sample_drain [] ''a'' sample_time) =
   (sample_world [claimed_row sample_event, claimed_row second_event] 1, Inr [claim_on sample_event, claim_on second_event])"
proof -
  have f: "nf_limit (drain_filter sample_drain [] ''a'' sample_time) = 10" "nf_owner (drain_filter sample_drain [] ''a'' sample_time) = ''a''"
    "nf_lease_until (drain_filter sample_drain [] ''a'' sample_time) = NanoTimestamp (lease_until sample_drain sample_time)"
    by (simp_all add: drain_filter_def limit_def)
  have e: "ox_events (sample_outbox rows) = rows" for rows by (simp add: sample_outbox_def)
  have n: "take (nat (bounded_limit 10)) [sample_event, second_event] = [sample_event, second_event]"
    by (simp add: bounded_limit_def)
  have "claim_due sample_time (drain_filter sample_drain [] ''a'' sample_time) (sample_outbox [sample_event, second_event]) =
      Inr (sample_outbox [claimed_row sample_event, claimed_row second_event], [claim_on sample_event, claim_on second_event])"
    unfolding claim_due_def Let_def f if_not_P [OF sample_lease(2)] sample_lease(1) sample_times(1) e sample_pair_due sample_pair_sorted
      n list.map sample_pair_ids sample_pair_rows bindE_simps prod.case
    by (simp add: sample_outbox_def)
  moreover have "sample_outbox [claimed_row sample_event, claimed_row second_event] \<noteq> sample_outbox [sample_event, second_event]"
    by (simp add: sample_outbox_def claimed_row_def sample_event_def lease_to_def)
  ultimately show ?thesis
    by (simp add: outbox_drain_store_def ClaimDueNotifications_def transact_def commit_def sample_world_def ctx_over_def)
qed

lemma sample_first_outcome:
  "\<exists>ox. deliverClaimed sample_drain (sample_world [claimed_row sample_event, claimed_row second_event] 1) (claim_on sample_event) =
     (\<lparr>ow_outbox = ox, ow_now = sample_time + 2, ow_rest = ()\<rparr>, Inr ''delivered'')"
  by (simp add: deliverClaimed_def Let_def drain_stamp_def attemptThroughSink_def prompt_sink_def late_outcome_def fenced_input_def
      outbox_drain_store_def RecordNotificationAttemptFenced_def transact_def record_fenced_def commit_def sample_world_def ctx_over_def
      claim_on_def claimed_row_def lease_to_def sample_outbox_def sample_event_def second_event_def row_of_Cons
      ParseNotificationAttemptOutcome_def insert_attempt_def attempt_row_def Terminal_def update_pending_def bindE_def guardE_def)

lemma sample_owner: "owner sample_drain w = (w, ''a'')"
  by (simp add: owner_def)

theorem budget_expiry_strands_claims_witness:
  "\<exists>w1 report. DrainDue sample_drain (sample_world [sample_event, second_event] 0) [] = (w1, report, Some ContextDone) \<and>
     re_delivered (cr_counts report) = 1 \<and> (\<exists>c. outbox_held w1 c)"
proof -
  let ?w1 = "sample_world [claimed_row sample_event, claimed_row second_event] 1"
  let ?cs = "[claim_on sample_event, claim_on second_event]"
  obtain ox where f: "deliverClaimed sample_drain ?w1 (claim_on sample_event) =
      (\<lparr>ow_outbox = ox, ow_now = sample_time + 2, ow_rest = ()\<rparr>, Inr ''delivered'')"
    using sample_first_outcome by blast
  let ?w2 = "\<lparr>ow_outbox = ox, ow_now = sample_time + 2, ow_rest = ()\<rparr> :: unit OutboxWorld"
  let ?r = "\<lparr>cr_claimed = 2, cr_counts = count_outcome ''delivered'' empty_report, cr_budget_expired = True\<rparr>"
  have t: "\<not> ctx_over (Some (sample_time + 2)) ?w1" "ctx_over (Some (sample_time + 2)) ?w2"
    by (simp_all add: ctx_over_def sample_world_def)
  have c: "drain_claims sample_drain ?w1 ?cs (no_claims\<lparr>cr_claimed := int (length ?cs)\<rparr>) = (?w2, ?r, [claim_on second_event], None)"
    using f t by (simp add: no_claims_def)
  have r: "da_release (ds_store sample_drain) ?w2 WithCtx ''a'' [claim_on second_event] = (?w2, Inl ContextDone)"
    using t(2) by (simp add: outbox_drain_store_def ReleaseNotificationClaims_def commit_def)
  have "DrainDue sample_drain (sample_world [sample_event, second_event] 0) [] = (?w2, ?r, Some ContextDone)"
    unfolding DrainDue_def Let_def sample_drain_simps(3) prod.case sample_owner sample_pair_claimed sum.case c option.case r
    by simp
  from budget_expiry_strands_claims [OF sample_drain_simps(1,6) sample_drain_quiet _ _ this] sample_pair_ok this
  show ?thesis
    by (intro exI [of _ ?w2] exI [of _ ?r] conjI) (simp_all add: count_outcome_def empty_report_def sample_world_def)
qed

text \<open>A store over nothing that hands out one claim and takes every outcome.\<close>

definition plain_drain :: "(unit, rat) DrainService" where
  "plain_drain = \<lparr>ds_store = \<lparr>da_claim = (\<lambda>w flt. (w, Inr [first_claim])),
       da_record_fenced = (\<lambda>w inp c b. (w, Inr retryable_attempt)), da_release = (\<lambda>w ctx ow cs. (w, Inr ()))\<rparr>,
     ds_resolver = (\<lambda>route ref. Inr prompt_sink), ds_now = (\<lambda>w. (w, sample_time)), ds_limit = 10, ds_retry = sample_backoff,
     ds_backoff_for = None, ds_owner = ''a'', ds_draw_owner = (\<lambda>w. (w, ''b'')), ds_float = exact_float,
     ds_default_multiplier = 2, ds_default_jitter = 0, ds_ctx_over = (\<lambda>w. False), ds_ctx_deadline = None\<rparr>"

theorem drain_accounts_for_every_claim_witness:
  "\<exists>w1 calls report err. DrainDue (traced_drain plain_drain) ((), []) [] = ((w1, calls), report, err) \<and>
     hd calls = Took [first_claim] \<and> written calls = [first_claim] \<and> length (asked calls) = 1 \<and> freed calls = []"
proof -
  obtain w1 calls report err where d: "DrainDue (traced_drain plain_drain) ((), []) [] = ((w1, calls), report, err)"
    by (metis prod.exhaust)
  then have h: "hd calls = Took [first_claim]" "written calls = [first_claim]"
    by (auto simp: DrainDue_def Let_def plain_drain_def traced_drain_def traced_drain_store_def traced_resolver_def lift_step_def
        lift_read_def note_step_def owner_def deliverClaimed_def drain_stamp_def attemptThroughSink_def prompt_sink_def)
  from drain_accounts_for_every_claim [OF d] h
  have "asked calls = offers (ds_resolver plain_drain) [first_claim]" "freed calls = []" by (auto split: if_splits)
  with d h show ?thesis by (auto simp: plain_drain_def resolvable_def)
qed

end
