(* ===== verification/Store.thy ===== *)
theory Store
  imports Ports Outbox
begin

text \<open>
  The tables behind the dispatch store (\<open>src/internal/adapters/sqlite/schema.go\<close>,
  \<open>migrate.go\<close>) and the helpers every method shares (\<open>store.go\<close>, \<open>lanes.go\<close>,
  \<open>fanout.go\<close>). A nullable column is an option; a column whose CHECK closes its vocabulary is a
  datatype. A JSON column is the value it renders, and the context of an audit row is the list of
  its fields. A failure keeps the sentinel that \<open>errors.Is\<close> finds, not its text. Helpers that run
  inside a transaction return the tables or the error that rolls it back; a foreign key is checked
  where a statement can break it. Failures of the driver itself are not modelled.
\<close>

section \<open>Rows\<close>

record IntentRow =
  it_dispatch_id :: string
  it_decision_id :: string
  it_route_id :: string
  it_route_revision :: string
  it_target_id :: string
  it_target_type :: string
  it_target_scope :: string
  it_resource_id :: string
  it_generation :: int
  it_idempotency_key :: string
  it_content_fingerprint :: string
  it_manifest_digest :: string
  it_request_version :: string
  it_request_json :: string
  it_state :: IntentState
  it_lease_owner :: "string option"
  it_lease_expires_at :: "string option"
  it_attempt_count :: int
  it_next_attempt_at :: "string option"
  it_external_ref :: "string option"
  it_created_at :: string
  it_updated_at :: string
  it_base_batch_seq :: int

record AttemptRow =
  tt_attempt_id :: string
  tt_dispatch_id :: string
  tt_lease_owner :: string
  tt_started_at :: string
  tt_completed_at :: "string option"
  tt_outcome :: "string option"
  tt_error_code :: "string option"
  tt_response_digest :: "string option"
  tt_diagnostic :: "string option"
  tt_route_revision :: string

record ReceiptRow =
  rp_receipt_id :: string
  rp_dispatch_id :: string
  rp_acceptance_state :: AcceptanceState
  rp_durable :: bool
  rp_external_ref :: "string option"
  rp_target_observed_at :: "string option"
  rp_received_at :: string
  rp_payload_version :: "string option"
  rp_bounded_payload :: string
  rp_route_revision :: string

datatype audit_value =
    AuditText string
  | AuditInt int
  | AuditFlag bool
  | AuditTexts "string list"
  | AuditJson string

record TransitionRow =
  xr_transition_id :: string
  xr_entity_type :: string
  xr_entity_id :: string
  xr_from_state :: "string option"
  xr_to_state :: string
  xr_recorded_at :: string
  xr_context :: "(string \<times> audit_value) list"

record ChildRow =
  ch_child_id :: string
  ch_aggregate_id :: string
  ch_dispatch_id :: string
  ch_route_id :: string
  ch_destination_id :: string
  ch_destination_revision :: string
  ch_workstream :: string
  ch_idempotency_key :: string
  ch_created_at :: string

record AggregateRow =
  ag_aggregate_id :: string
  ag_decision_id :: string
  ag_route_id :: string
  ag_route_revision :: string
  ag_resource_id :: string
  ag_origin :: AggregateOrigin
  ag_generation :: int
  ag_content_fingerprint :: string
  ag_selections :: "DestinationSelection list"
  ag_created_at :: string

record RevisionRow =
  vr_route_id :: string
  vr_destination_id :: string
  vr_revision :: string
  vr_projection_json :: string
  vr_created_at :: string

text \<open>The runtime row of a route: its envelope, and the values of a route-level hold.\<close>

record RouteRow =
  rr_route_id :: string
  rr_activation_state :: string
  rr_acknowledged_revision :: "string option"
  rr_capability_fingerprint :: string
  rr_route_state :: RouteState
  rr_active_dispatch_id :: "string option"
  rr_dirty_generation :: int
  rr_dirty_since :: "string option"
  rr_pending_reconcile :: bool
  rr_last_source_position :: "string option"
  rr_last_reconciled_at :: "string option"
  rr_version :: int

record LaneRow =
  la_route_id :: string
  la_destination_id :: string
  la_lane_state :: RouteState
  la_active_dispatch_id :: "string option"
  la_active_generation :: int
  la_dirty_generation :: int
  la_dirty_since :: "string option"
  la_version :: int

datatype GroupState = GroupOpen | GroupHeld | GroupConflict

primrec GroupState_str :: "GroupState \<Rightarrow> string" where
  "GroupState_str GroupOpen = ''OPEN''"
| "GroupState_str GroupHeld = ''HELD''"
| "GroupState_str GroupConflict = ''CONFLICT''"

record SerializationGroupCollision =
  gc_route_id :: string
  gc_destination_id :: string
  gc_dispatch_id :: string

text \<open>The collisions as the column holds them: \<open>None\<close> is the JSON text \<open>null\<close> of a nil slice.\<close>

record GroupRow =
  gr_group_id :: string
  gr_state :: GroupState
  gr_holder_route_id :: "string option"
  gr_holder_destination_id :: "string option"
  gr_holder_dispatch_id :: "string option"
  gr_conflict :: "SerializationGroupCollision list option"
  gr_materialized_at :: string
  gr_updated_at :: string
  gr_version :: int

record MemberRow =
  gm_route_id :: string
  gm_destination_id :: string
  gm_group_id :: string

record BatchRow =
  bt_batch_id :: string
  bt_route_id :: string
  bt_route_revision :: string
  bt_resource_id :: string
  bt_created_at :: string
  bt_content_fingerprint :: string
  bt_batch_seq :: int
  bt_observation_ids :: "string list"
  bt_selected_destinations :: "string list option"

record DecisionRow =
  dw_decision_id :: string
  dw_batch_id :: "string option"
  dw_route_id :: string
  dw_route_revision :: string
  dw_policy_revision :: string
  dw_generation_lineage :: "string option"
  dw_disposition :: string
  dw_classification :: string
  dw_reason_codes_json :: string
  dw_created_at :: string
  dw_actor :: string
  dw_supersedes :: "string option"

record FactRow =
  fa_resource_id :: string
  fa_path :: string
  fa_digest :: string
  fa_exists :: bool
  fa_observed_at :: string

datatype HoldState = HoldHeld | HoldReleased | HoldDiscarded | HoldSuperseded

primrec HoldState_str :: "HoldState \<Rightarrow> string" where
  "HoldState_str HoldHeld = ''held''"
| "HoldState_str HoldReleased = ''released''"
| "HoldState_str HoldDiscarded = ''discarded''"
| "HoldState_str HoldSuperseded = ''superseded''"

record HoldRow =
  qi_quarantine_id :: string
  qi_batch_id :: "string option"
  qi_decision_id :: string
  qi_reason_codes :: "string list"
  qi_state :: HoldState
  qi_created_at :: string
  qi_resolved_at :: "string option"
  qi_resolved_by :: "string option"
  qi_resolution_reason :: "string option"
  qi_replacement :: "string option"
  qi_route_revision :: string

record ResourceRow =
  re_resource_id :: string
  re_observation_revision :: int

text \<open>An import effect beside what the statement reads of its job: that it is open and unresolved.\<close>

record EffectRow =
  ef_job_id :: string
  ef_fence :: int
  ef_path :: string
  ef_after_value :: string
  ef_applied :: bool
  ef_job_open :: bool

record AttributionRow =
  au_job_id :: string
  au_fence :: int
  au_path :: string
  au_observation_id :: string
  au_after_value :: string
  au_attributed_at :: string

text \<open>\<open>db_gated\<close>: the group migration has been applied. \<open>db_routes\<close> is the table of registered routes.\<close>

record Db =
  db_routes :: "string list"
  db_resources :: "ResourceRow list"
  db_observations :: "ObservationInput list"
  db_batches :: "BatchRow list"
  db_decisions :: "DecisionRow list"
  db_facts :: "FactRow list"
  db_holds :: "HoldRow list"
  db_effects :: "EffectRow list"
  db_attributions :: "AttributionRow list"
  db_intents :: "IntentRow list"
  db_attempts :: "AttemptRow list"
  db_receipts :: "ReceiptRow list"
  db_transitions :: "TransitionRow list"
  db_aggregates :: "AggregateRow list"
  db_revisions :: "RevisionRow list"
  db_children :: "ChildRow list"
  db_runtime :: "RouteRow list"
  db_lanes :: "LaneRow list"
  db_gated :: bool
  db_groups :: "GroupRow list"
  db_members :: "MemberRow list"
  db_outbox :: Outbox

datatype db_error =
    Refused store_class
  | SerializationConflict string
  | IntentTransitionRefused intent_error
  | RouteTransitionRefused route_error
  | IdempotencyKeyTaken
  | ConstraintRefused
  | NoRows
  | SourceRetransmission
  | ResourceNotFound
  | StaleAttribution
  | OriginRefused enum_error
  | NoSelections
  | SelectionRefused record_error
  | ActivationUnknown string
  | OutboxRefused outbox_error
  | NullColumn
  | VersionNotSpoken string
  | QuarantineNotFound
  | QuarantineNotHeld
  | ObservationConflict
  | StoreContextDone

text \<open>The sentinel of an error that a caller branches on.\<close>

definition class_of :: "db_error \<Rightarrow> store_class" where
  "class_of e = (case e of Refused c \<Rightarrow> c | SerializationConflict g \<Rightarrow> StateNotEligible | _ \<Rightarrow> OtherFailure)"

type_synonym 'a db_result = "db_error + Db \<times> 'a"

definition nullString :: "string \<Rightarrow> string option" where
  "nullString s = (if s = [] then None else Some s)"

definition nullText :: "string option \<Rightarrow> string" where
  "nullText s = (case s of None \<Rightarrow> [] | Some t \<Rightarrow> t)"

abbreviation intent_of :: "string \<Rightarrow> Db \<Rightarrow> IntentRow option" where
  "intent_of did db \<equiv> row_of it_dispatch_id did (db_intents db)"

abbreviation runtime_of :: "string \<Rightarrow> Db \<Rightarrow> RouteRow option" where
  "runtime_of route db \<equiv> row_of rr_route_id route (db_runtime db)"

abbreviation lane_key :: "LaneRow \<Rightarrow> string \<times> string" where
  "lane_key l \<equiv> (la_route_id l, la_destination_id l)"

abbreviation lane_of :: "string \<Rightarrow> string \<Rightarrow> Db \<Rightarrow> LaneRow option" where
  "lane_of route dest db \<equiv> row_of lane_key (route, dest) (db_lanes db)"

abbreviation group_row :: "string \<Rightarrow> Db \<Rightarrow> GroupRow option" where
  "group_row gid db \<equiv> row_of gr_group_id gid (db_groups db)"

definition some_row :: "db_error \<Rightarrow> 'r option \<Rightarrow> db_error + 'r" where
  "some_row e r = (case r of None \<Rightarrow> Inl e | Some x \<Rightarrow> Inr x)"

section \<open>The audit history\<close>

definition AppendTransition ::
  "string \<Rightarrow> string \<Rightarrow> string \<Rightarrow> string \<Rightarrow> string \<Rightarrow> string \<Rightarrow> (string \<times> audit_value) list \<Rightarrow> Db \<Rightarrow> db_error + Db" where
  "AppendTransition tid entityType entityID from to when context db =
     (if tid \<in> set (map xr_transition_id (db_transitions db)) then Inl ConstraintRefused
      else Inr (db\<lparr>db_transitions := db_transitions db @ [\<lparr>xr_transition_id = tid, xr_entity_type = entityType,
        xr_entity_id = entityID, xr_from_state = nullString from, xr_to_state = to, xr_recorded_at = when,
        xr_context = context\<rparr>]\<rparr>))"

definition intent_entity :: string where
  "intent_entity = ''dispatch_intent''"

definition lane_entity :: string where
  "lane_entity = ''destination_lane''"

definition route_entity :: string where
  "route_entity = ''route''"

definition group_entity :: string where
  "group_entity = ''serialization_group''"

primrec RouteReason_str :: "RouteReason \<Rightarrow> string" where
  "RouteReason_str ReasonDispatchAccepted = ''dispatch_accepted''"
| "RouteReason_str ReasonLaterRelevantChange = ''later_relevant_change''"
| "RouteReason_str ReasonMoreChangesMerged = ''more_changes_merged''"
| "RouteReason_str ReasonWorkCompletedClean = ''work_completed_no_dirty_generation''"
| "RouteReason_str ReasonWorkCompletedDirty = ''work_completed_dirty_generation''"
| "RouteReason_str ReasonWorkSuppressed = ''work_completed_exact_suppression''"
| "RouteReason_str ReasonWorkRetryBudgetRemains = ''work_retry_budget_remains''"
| "RouteReason_str ReasonRetryBudgetExhausted = ''retry_budget_exhausted''"
| "RouteReason_str ReasonFollowupBudgetExhausted = ''followup_budget_exhausted''"
| "RouteReason_str ReasonExecutionEvidenceStale = ''execution_evidence_stale_or_missing''"
| "RouteReason_str ReasonFollowupAccepted = ''followup_accepted''"
| "RouteReason_str ReasonFollowupAcceptedDirty = ''followup_accepted_dirty''"
| "RouteReason_str ReasonFollowupDropped = ''followup_dropped_after_reconciliation''"
| "RouteReason_str ReasonTargetLookupFindsActive = ''target_lookup_finds_active''"
| "RouteReason_str ReasonReconciliationResolved = ''reconciliation_resolved''"
| "RouteReason_str ReasonOperatorActionRequired = ''operator_action_required''"
| "RouteReason_str ReasonOperatorResolved = ''operator_release_or_discard''"


section \<open>Lanes\<close>

text \<open>The destination of a dispatch's child row, else the legacy lane; an unknown dispatch has an empty route.\<close>

definition laneOfDispatch :: "string \<Rightarrow> Db \<Rightarrow> string \<times> string" where
  "laneOfDispatch did db =
     (case intent_of did db of None \<Rightarrow> ([], LegacyDestinationLaneID)
      | Some i \<Rightarrow> (it_route_id i,
          case row_of ch_dispatch_id did (db_children db) of None \<Rightarrow> LegacyDestinationLaneID | Some c \<Rightarrow> ch_destination_id c))"

text \<open>A route-level hold wins over the lane and carries the route row's values.\<close>

definition snapshot_of :: "RouteRow \<Rightarrow> LaneRow option \<Rightarrow> RouteSnapshot" where
  "snapshot_of r lane =
     (let held = rr_route_state r \<in> {RouteUncertain, RouteQuarantined}
      in \<lparr>rs_route_id = rr_route_id r, rs_activation_state = rr_activation_state r,
          rs_state = (if held then rr_route_state r else case lane of None \<Rightarrow> RouteIdle | Some l \<Rightarrow> la_lane_state l),
          rs_active_dispatch_id = (if held then nullText (rr_active_dispatch_id r)
            else case lane of None \<Rightarrow> [] | Some l \<Rightarrow> nullText (la_active_dispatch_id l)),
          rs_dirty_generation = (if held then rr_dirty_generation r
            else case lane of None \<Rightarrow> 0 | Some l \<Rightarrow> la_dirty_generation l),
          rs_pending_reconcile = rr_pending_reconcile r,
          rs_acknowledged_revision = nullText (rr_acknowledged_revision r),
          rs_capability_fingerprint = rr_capability_fingerprint r, rs_failure_budget = 0\<rparr>)"

definition laneSnapshotInTx :: "string \<Rightarrow> string \<Rightarrow> Db \<Rightarrow> db_error + RouteSnapshot" where
  "laneSnapshotInTx route dest db =
     (case runtime_of route db of None \<Rightarrow> Inl (Refused GenerationConflict)
      | Some r \<Rightarrow> Inr (snapshot_of r (lane_of route dest db)))"

definition LoadLaneState :: "string \<Rightarrow> string \<Rightarrow> Db \<Rightarrow> db_error + RouteSnapshot" where
  "LoadLaneState route dest db = laneSnapshotInTx route dest db"

definition LoadIntentLane :: "string \<Rightarrow> Db \<Rightarrow> db_error + RouteSnapshot" where
  "LoadIntentLane did db =
     (case laneOfDispatch did db of (route, dest) \<Rightarrow>
        if route = [] then Inl (Refused IntentNotFound) else laneSnapshotInTx route dest db)"

definition idle_lane :: "string \<Rightarrow> string \<Rightarrow> LaneRow" where
  "idle_lane route dest =
     \<lparr>la_route_id = route, la_destination_id = dest, la_lane_state = RouteIdle, la_active_dispatch_id = None,
      la_active_generation = 0, la_dirty_generation = 0, la_dirty_since = None, la_version = 0\<rparr>"

definition materializeLaneTx :: "string \<Rightarrow> string \<Rightarrow> Db \<Rightarrow> db_error + Db" where
  "materializeLaneTx route dest db =
     (if lane_of route dest db \<noteq> None then Inr db
      else if route \<notin> set (db_routes db) then Inl ConstraintRefused
      else Inr (db\<lparr>db_lanes := db_lanes db @ [idle_lane route dest]\<rparr>))"

text \<open>One update of a lane's row, of the lane \<open>(route, dest)\<close> alone.\<close>

definition update_lane :: "string \<Rightarrow> string \<Rightarrow> (LaneRow \<Rightarrow> LaneRow) \<Rightarrow> Db \<Rightarrow> Db" where
  "update_lane route dest f db = db\<lparr>db_lanes := update_where (\<lambda>l. lane_key l = (route, dest)) f (db_lanes db)\<rparr>"

definition update_runtime :: "string \<Rightarrow> (RouteRow \<Rightarrow> RouteRow) \<Rightarrow> Db \<Rightarrow> Db" where
  "update_runtime route f db = db\<lparr>db_runtime := update_where (\<lambda>r. rr_route_id r = route) f (db_runtime db)\<rparr>"

definition update_intent :: "string \<Rightarrow> (IntentRow \<Rightarrow> IntentRow) \<Rightarrow> Db \<Rightarrow> Db" where
  "update_intent did f db = db\<lparr>db_intents := update_where (\<lambda>i. it_dispatch_id i = did) f (db_intents db)\<rparr>"

definition step_lane :: "RouteState \<Rightarrow> LaneRow \<Rightarrow> LaneRow" where
  "step_lane to l = l\<lparr>la_lane_state := to, la_version := la_version l + 1\<rparr>"

definition versioned_id :: "string \<Rightarrow> string \<Rightarrow> int \<Rightarrow> string" where
  "versioned_id entity reason version = entity @ '':'' @ reason @ '':v'' @ show_int version"

definition applyLaneTransition ::
  "string \<Rightarrow> string \<Rightarrow> RouteSnapshot \<Rightarrow> RouteState \<Rightarrow> RouteReason \<Rightarrow> RouteEvidence \<Rightarrow> string \<Rightarrow>
   (string \<times> audit_value) list \<Rightarrow> Db \<Rightarrow> db_error + Db" where
  "applyLaneTransition route dest snap to reason ev now context db =
     bindE (map_err RouteTransitionRefused (ValidateRouteTransition snap to reason ev)) (\<lambda>_.
     bindE (materializeLaneTx route dest db) (\<lambda>db1.
     bindE (some_row NoRows (lane_of route dest db1)) (\<lambda>l.
     bindE (guardE (la_lane_state l = rs_state snap) (Refused GenerationConflict)) (\<lambda>_.
       let entity = route @ ''/'' @ dest
       in AppendTransition (versioned_id entity (RouteReason_str reason) (la_version l + 1)) lane_entity entity
            (RouteState_str (rs_state snap)) (RouteState_str to) now context
            (update_lane route dest (step_lane to) db1)))))"

definition hold_route :: "RouteSnapshot \<Rightarrow> string \<Rightarrow> RouteRow \<Rightarrow> RouteRow" where
  "hold_route snap now r = r\<lparr>rr_route_state := RouteUncertain, rr_active_dispatch_id := nullString (rs_active_dispatch_id snap),
     rr_dirty_generation := rs_dirty_generation snap,
     rr_dirty_since := (case rr_dirty_since r of None \<Rightarrow> Some now | s \<Rightarrow> s), rr_version := rr_version r + 1\<rparr>"

definition routeUncertainHoldTx ::
  "RouteSnapshot \<Rightarrow> string \<Rightarrow> RouteReason \<Rightarrow> RouteEvidence \<Rightarrow> string \<Rightarrow> (string \<times> audit_value) list \<Rightarrow> Db \<Rightarrow> db_error + Db" where
  "routeUncertainHoldTx snap dest reason ev now context db =
     bindE (map_err RouteTransitionRefused (ValidateRouteTransition snap RouteUncertain reason ev)) (\<lambda>_.
     bindE (applyLaneTransition (rs_route_id snap) dest snap RouteUncertain reason ev now context db) (\<lambda>db1.
     bindE (some_row (Refused GenerationConflict) (runtime_of (rs_route_id snap) db1)) (\<lambda>r.
     bindE (guardE (rr_route_state r \<notin> {RouteQuarantined, RouteUncertain}) (Refused GenerationConflict)) (\<lambda>_.
       AppendTransition (versioned_id (rs_route_id snap) (RouteReason_str reason) (rr_version r + 1)) route_entity
         (rs_route_id snap) (RouteState_str (rs_state snap)) (RouteState_str RouteUncertain) now context
         (update_runtime (rs_route_id snap) (hold_route snap now) db1)))))"

definition clear_lane :: "LaneRow \<Rightarrow> LaneRow" where
  "clear_lane l = l\<lparr>la_active_dispatch_id := None, la_active_generation := 0, la_dirty_generation := 0,
     la_dirty_since := None, la_version := la_version l + 1\<rparr>"

definition resolveHeldLaneTx :: "string \<Rightarrow> string \<Rightarrow> bool \<Rightarrow> string \<Rightarrow> string \<Rightarrow> Db \<Rightarrow> db_error + Db" where
  "resolveHeldLaneTx route dest workDue actor now db =
     bindE (materializeLaneTx route dest db) (\<lambda>db1.
     bindE (laneSnapshotInTx route dest db1) (\<lambda>snap.
       case rs_state snap of
         RouteIdle \<Rightarrow> Inr db1
       | RouteUncertain \<Rightarrow>
           bindE (applyLaneTransition route dest snap RouteFollowupReady ReasonReconciliationResolved
               (no_route_evidence\<lparr>rv_actor := actor\<rparr>) now
               [(''reason'', AuditText (RouteReason_str ReasonReconciliationResolved)), (''actor'', AuditText actor),
                (''destination_id'', AuditText dest)] db1) (\<lambda>db2.
           bindE (if workDue then Inr db2
               else applyLaneTransition route dest (snap\<lparr>rs_state := RouteFollowupReady\<rparr>) RouteIdle ReasonFollowupDropped
                 (no_route_evidence\<lparr>rv_actor := actor, rv_reconciled_no_work := True\<rparr>) now
                 [(''reason'', AuditText (RouteReason_str ReasonFollowupDropped)), (''actor'', AuditText actor),
                  (''destination_id'', AuditText dest)] db2) (\<lambda>db3.
             Inr (update_lane route dest clear_lane db3)))
       | _ \<Rightarrow> Inl (Refused StateNotEligible)))"

section \<open>Lineage\<close>

definition observation_insertable :: "Db \<Rightarrow> ObservationInput \<Rightarrow> bool" where
  "observation_insertable db ob =
     (ob_observation_id ob \<notin> set (map ob_observation_id (db_observations db)) \<and>
      ob_resource_id ob \<in> set (map re_resource_id (db_resources db)))"

text \<open>The partial unique index over the source's event key.\<close>

definition retransmitted :: "Db \<Rightarrow> ObservationInput \<Rightarrow> bool" where
  "retransmitted db ob =
     (ob_source_event_key ob \<noteq> [] \<and>
      (ob_source_id ob, ob_source_event_key ob) \<in> set (map (\<lambda>o1. (ob_source_id o1, ob_source_event_key o1)) (db_observations db)))"

definition changes_storable :: "ObservationChange list \<Rightarrow> bool" where
  "changes_storable cs =
     (distinct (map oc_ordinal cs) \<and>
      list_all (\<lambda>c. is_ok (ParseOperation (oc_operation c)) \<and> is_ok (ParseFileType (oc_file_type c)) \<and>
        is_ok (ParseDigestStatus (oc_digest_status c))) cs)"

definition attributable :: "Db \<Rightarrow> ImportAttributionInput \<Rightarrow> EffectRow \<Rightarrow> bool" where
  "attributable db a e =
     (ef_job_id e = ia_job_id a \<and> ef_fence e = ia_fence a \<and> ef_path e = ia_path a \<and> ef_after_value e = ia_after_value a \<and>
      (ef_applied e \<or> ef_job_open e) \<and>
      (ia_job_id a, ia_fence a, ia_path a) \<notin> set (map (\<lambda>r. (au_job_id r, au_fence r, au_path r)) (db_attributions db)))"

fun save_attributions :: "string \<Rightarrow> string \<Rightarrow> ImportAttributionInput list \<Rightarrow> Db \<Rightarrow> db_error + Db" where
  "save_attributions oid received [] db = Inr db"
| "save_attributions oid received (a # as) db =
     (if affected (attributable db a) (db_effects db) \<noteq> 1 then Inl StaleAttribution
      else save_attributions oid received as (db\<lparr>db_attributions := db_attributions db @
        [\<lparr>au_job_id = ia_job_id a, au_fence = ia_fence a, au_path = ia_path a, au_observation_id = oid,
          au_after_value = ia_after_value a, au_attributed_at = received\<rparr>]\<rparr>))"

definition SaveObservation :: "ObservationInput \<Rightarrow> Db \<Rightarrow> db_error + Db" where
  "SaveObservation ob db =
     bindE (guardE (ob_observation_id ob \<notin> set (map ob_observation_id (db_observations db))) ConstraintRefused) (\<lambda>_.
     bindE (guardE (\<not> retransmitted db ob) SourceRetransmission) (\<lambda>_.
     bindE (guardE (observation_insertable db ob \<and> changes_storable (ob_changes ob)) ConstraintRefused) (\<lambda>_.
       save_attributions (ob_observation_id ob) (ob_received_at ob) (ob_import_attributions ob)
         (db\<lparr>db_observations := db_observations db @ [ob]\<rparr>))))"

definition max_batch_seq :: "Db \<Rightarrow> int" where
  "max_batch_seq db = fold max (map bt_batch_seq (db_batches db)) 0"

text \<open>The watermark is the maximum plus one; an empty selection leaves the column NULL.\<close>

definition batch_row :: "BatchInput \<Rightarrow> int \<Rightarrow> BatchRow" where
  "batch_row b seq =
     \<lparr>bt_batch_id = ba_batch_id b, bt_route_id = ba_route_id b, bt_route_revision = ba_route_revision b,
      bt_resource_id = ba_resource_id b, bt_created_at = ba_created_at b, bt_content_fingerprint = ba_content_fingerprint b,
      bt_batch_seq = seq, bt_observation_ids = ba_observation_ids b,
      bt_selected_destinations = (if ba_selected_destinations b = [] then None
        else Some (CanonicalDestinations (ba_selected_destinations b)))\<rparr>"

definition SaveBatch :: "BatchInput \<Rightarrow> Db \<Rightarrow> db_error + Db" where
  "SaveBatch b db =
     bindE (guardE (ba_batch_id b \<notin> set (map bt_batch_id (db_batches db)) \<and> ba_route_id b \<in> set (db_routes db) \<and>
       ba_resource_id b \<in> set (map re_resource_id (db_resources db)) \<and> distinct (ba_observation_ids b) \<and>
       set (ba_observation_ids b) \<subseteq> set (map ob_observation_id (db_observations db))) ConstraintRefused) (\<lambda>_.
     Inr (db\<lparr>db_batches := db_batches db @ [batch_row b (max_batch_seq db + 1)]\<rparr>))"

definition decision_row :: "DecisionInput \<Rightarrow> DecisionRow" where
  "decision_row d =
     \<lparr>dw_decision_id = de_decision_id d, dw_batch_id = nullString (de_batch_id d), dw_route_id = de_route_id d,
      dw_route_revision = de_route_revision d, dw_policy_revision = de_policy_revision d,
      dw_generation_lineage = nullString (de_generation_lineage_json d), dw_disposition = de_disposition d,
      dw_classification = de_classification d, dw_reason_codes_json = de_reason_codes_json d,
      dw_created_at = de_created_at d, dw_actor = de_actor d, dw_supersedes = None\<rparr>"

text \<open>The constraints of \<open>policy_decisions\<close>: exactly one of batch and lineage, closed vocabularies.\<close>

definition decision_insertable :: "Db \<Rightarrow> DecisionRow \<Rightarrow> bool" where
  "decision_insertable db d =
     (dw_decision_id d \<notin> set (map dw_decision_id (db_decisions db)) \<and> dw_route_id d \<in> set (db_routes db) \<and>
      (dw_batch_id d = None) \<noteq> (dw_generation_lineage d = None) \<and>
      (case dw_batch_id d of None \<Rightarrow> True | Some b \<Rightarrow> b \<in> set (map bt_batch_id (db_batches db))) \<and>
      is_ok (ParseDisposition (dw_disposition d)) \<and> is_ok (ParseClassification (dw_classification d)))"

definition insert_decision :: "DecisionRow \<Rightarrow> Db \<Rightarrow> db_error + Db" where
  "insert_decision d db =
     bindE (guardE (decision_insertable db d) ConstraintRefused) (\<lambda>_. Inr (db\<lparr>db_decisions := db_decisions db @ [d]\<rparr>))"

definition SaveDecision :: "DecisionInput \<Rightarrow> Db \<Rightarrow> db_error + Db" where
  "SaveDecision d db = insert_decision (decision_row d) db"

section \<open>Fan-out records\<close>

definition aggregate_row :: "IntentInput \<Rightarrow> FanoutInput \<Rightarrow> AggregateOrigin \<Rightarrow> AggregateRow" where
  "aggregate_row i f origin =
     \<lparr>ag_aggregate_id = fo_aggregate_id f, ag_decision_id = in_decision_id i, ag_route_id = in_route_id i,
      ag_route_revision = in_route_revision i, ag_resource_id = in_resource_id i, ag_origin = origin,
      ag_generation = in_generation i, ag_content_fingerprint = in_content_fingerprint i,
      ag_selections = SortSelections (fo_selections f), ag_created_at = in_created_at i\<rparr>"

text \<open>The first child of an occurrence inserts the aggregate and its audit row, a sibling finds it.\<close>

definition insert_aggregate :: "IntentInput \<Rightarrow> FanoutInput \<Rightarrow> AggregateOrigin \<Rightarrow> Db \<Rightarrow> db_error + Db" where
  "insert_aggregate i f origin db =
     (if fo_aggregate_id f \<in> set (map ag_aggregate_id (db_aggregates db)) then Inr db
      else AppendTransition (fo_aggregate_id f @ '':created'') ''aggregate_event'' (fo_aggregate_id f) [] (fo_origin f)
        (in_created_at i)
        [(''reason'', AuditText ''fanout''), (''origin'', AuditText (fo_origin f)), (''dispatch_id'', AuditText (in_dispatch_id i)),
         (''destination_id'', AuditText (fo_destination_id f)), (''selections'', AuditInt (int (length (fo_selections f))))]
        (db\<lparr>db_aggregates := db_aggregates db @ [aggregate_row i f origin]\<rparr>))"

abbreviation revision_key :: "RevisionRow \<Rightarrow> string \<times> string \<times> string" where
  "revision_key v \<equiv> (vr_route_id v, vr_destination_id v, vr_revision v)"

fun save_revisions :: "string \<Rightarrow> string \<Rightarrow> DestinationRevisionInput list \<Rightarrow> Db \<Rightarrow> db_error + Db" where
  "save_revisions route now [] db = Inr db"
| "save_revisions route now (v # vs) db =
     (if dv_revision v \<noteq> RevisionOfProjection (dv_projection_json v) then Inl (Refused InvalidFanoutRecord)
      else save_revisions route now vs
        (if (route, dv_destination_id v, dv_revision v) \<in> set (map revision_key (db_revisions db)) then db
         else db\<lparr>db_revisions := db_revisions db @
           [\<lparr>vr_route_id = route, vr_destination_id = dv_destination_id v, vr_revision = dv_revision v,
             vr_projection_json = dv_projection_json v, vr_created_at = now\<rparr>]\<rparr>))"

definition child_row :: "IntentInput \<Rightarrow> FanoutInput \<Rightarrow> ChildRow" where
  "child_row i f =
     \<lparr>ch_child_id = ''child-'' @ in_dispatch_id i, ch_aggregate_id = fo_aggregate_id f, ch_dispatch_id = in_dispatch_id i,
      ch_route_id = in_route_id i, ch_destination_id = fo_destination_id f, ch_destination_revision = fo_destination_revision f,
      ch_workstream = fo_workstream f, ch_idempotency_key = in_idempotency_key i, ch_created_at = in_created_at i\<rparr>"

definition insert_child :: "ChildRow \<Rightarrow> Db \<Rightarrow> db_error + Db" where
  "insert_child c db =
     bindE (guardE (ch_child_id c \<notin> set (map ch_child_id (db_children db)) \<and>
       ch_dispatch_id c \<notin> set (map ch_dispatch_id (db_children db)) \<and>
       (ch_aggregate_id c, ch_destination_id c) \<notin> set (map (\<lambda>d. (ch_aggregate_id d, ch_destination_id d)) (db_children db)))
       ConstraintRefused) (\<lambda>_. Inr (db\<lparr>db_children := db_children db @ [c]\<rparr>))"

definition saveFanoutTx :: "IntentInput \<Rightarrow> FanoutInput \<Rightarrow> Db \<Rightarrow> db_error + Db" where
  "saveFanoutTx i f db =
     bindE (map_err OriginRefused (ParseAggregateOrigin (fo_origin f))) (\<lambda>origin.
     bindE (guardE (fo_selections f \<noteq> []) NoSelections) (\<lambda>_.
     bindE (map_err SelectionRefused (mapE DestinationSelection_Validate (SortSelections (fo_selections f)))) (\<lambda>_.
     bindE (insert_aggregate i f origin db) (\<lambda>db1.
     bindE (save_revisions (in_route_id i) (in_created_at i) (fo_revisions f) db1) (\<lambda>db2.
     bindE (guardE ((in_route_id i, fo_destination_id f, fo_destination_revision f) \<in> set (map revision_key (db_revisions db2)))
       (Refused InvalidFanoutRecord)) (\<lambda>_.
       insert_child (child_row i f) db2))))))"

section \<open>The intent transaction\<close>

definition base_seq :: "IntentInput \<Rightarrow> Db \<Rightarrow> int" where
  "base_seq i db =
     (case Option.bind (row_of dw_decision_id (in_decision_id i) (db_decisions db)) dw_batch_id of
        None \<Rightarrow> max_batch_seq db
      | Some b \<Rightarrow> (case row_of bt_batch_id b (db_batches db) of None \<Rightarrow> max_batch_seq db | Some r \<Rightarrow> bt_batch_seq r))"

definition intent_row :: "IntentInput \<Rightarrow> int \<Rightarrow> IntentRow" where
  "intent_row i seq =
     \<lparr>it_dispatch_id = in_dispatch_id i, it_decision_id = in_decision_id i, it_route_id = in_route_id i,
      it_route_revision = in_route_revision i, it_target_id = in_target_id i, it_target_type = in_target_type i,
      it_target_scope = in_target_scope i, it_resource_id = in_resource_id i, it_generation = in_generation i,
      it_idempotency_key = in_idempotency_key i, it_content_fingerprint = in_content_fingerprint i,
      it_manifest_digest = in_manifest_digest i, it_request_version = in_request_version i,
      it_request_json = in_request_json i, it_state = IntentReady, it_lease_owner = None, it_lease_expires_at = None,
      it_attempt_count = 0, it_next_attempt_at = None, it_external_ref = None, it_created_at = in_created_at i,
      it_updated_at = in_created_at i, it_base_batch_seq = seq\<rparr>"

text \<open>A generation below one and a taken identity are refused before the key, a dangling reference after it.\<close>

definition insert_intent :: "IntentRow \<Rightarrow> Db \<Rightarrow> db_error + Db" where
  "insert_intent r db =
     bindE (guardE (1 \<le> it_generation r \<and> it_dispatch_id r \<notin> set (map it_dispatch_id (db_intents db))) ConstraintRefused) (\<lambda>_.
     bindE (guardE ((it_target_id r, it_idempotency_key r) \<notin> set (map (\<lambda>q. (it_target_id q, it_idempotency_key q)) (db_intents db)))
       IdempotencyKeyTaken) (\<lambda>_.
     bindE (guardE (it_decision_id r \<in> set (map dw_decision_id (db_decisions db)) \<and> it_route_id r \<in> set (db_routes db) \<and>
       it_resource_id r \<in> set (map re_resource_id (db_resources db))) ConstraintRefused) (\<lambda>_.
     Inr (db\<lparr>db_intents := db_intents db @ [r]\<rparr>))))"

definition fanout_lane_id :: "IntentInput \<Rightarrow> string" where
  "fanout_lane_id i = (case in_fanout i of None \<Rightarrow> LegacyDestinationLaneID | Some f \<Rightarrow> fo_destination_id f)"

definition reserve_lane :: "string \<Rightarrow> int \<Rightarrow> LaneRow \<Rightarrow> LaneRow" where
  "reserve_lane did gen l =
     l\<lparr>la_active_dispatch_id := Some did, la_active_generation := gen, la_version := la_version l + 1\<rparr>"

definition SaveIntent :: "IntentInput \<Rightarrow> Db \<Rightarrow> db_error + Db" where
  "SaveIntent i db =
     bindE (insert_intent (intent_row i (base_seq i db)) db) (\<lambda>db1.
     bindE (case in_fanout i of None \<Rightarrow> Inr db1 | Some f \<Rightarrow> saveFanoutTx i f db1) (\<lambda>db2.
     bindE (guardE (runtime_of (in_route_id i) db2 \<noteq> None) (Refused GenerationConflict)) (\<lambda>_.
     bindE (materializeLaneTx (in_route_id i) (fanout_lane_id i) db2) (\<lambda>db3.
     bindE (some_row (Refused GenerationConflict) (lane_of (in_route_id i) (fanout_lane_id i) db3)) (\<lambda>l.
     bindE (guardE (la_active_dispatch_id l = None) (Refused RouteSlotHeld)) (\<lambda>_.
       Inr (update_lane (in_route_id i) (fanout_lane_id i) (reserve_lane (in_dispatch_id i) (in_generation i)) db3)))))))"

text \<open>\<open>mapIntentConstraint\<close>: the unique key of a request becomes the error callers branch on.\<close>

definition mapIntentConstraint :: "db_error \<Rightarrow> db_error" where
  "mapIntentConstraint e = (case e of IdempotencyKeyTaken \<Rightarrow> Refused IdempotencyConflict | _ \<Rightarrow> e)"

end
