(* ===== verification/SlotGroups.thy ===== *)
theory SlotGroups
  imports Ports Outbox Store
begin

text \<open>
  The serialization groups (\<open>src/internal/adapters/sqlite/serialization.go\<close>): one durable slot per
  group of destination lanes. \<open>db_gated\<close> stands for the cached probe of the migration ledger; below
  the group migration no lane has a group.
\<close>

section \<open>The slot of a lane\<close>

definition group_of :: "string \<Rightarrow> string \<Rightarrow> MemberRow list \<Rightarrow> string option" where
  "group_of route dest ms = map_option gm_group_id (row_of (\<lambda>m. (gm_route_id m, gm_destination_id m)) (route, dest) ms)"

definition groupOfLaneTx :: "string \<Rightarrow> string \<Rightarrow> Db \<Rightarrow> string option" where
  "groupOfLaneTx route dest db = (if db_gated db then group_of route dest (db_members db) else None)"

definition SerializationGroupOf :: "string \<Rightarrow> string \<Rightarrow> Db \<Rightarrow> string option" where
  "SerializationGroupOf route dest db = group_of route dest (db_members db)"

definition held_by_lane :: "string \<Rightarrow> string \<Rightarrow> GroupRow \<Rightarrow> bool" where
  "held_by_lane route dest g = (nullText (gr_holder_route_id g) = route \<and> nullText (gr_holder_destination_id g) = dest)"

text \<open>The answer beside its reason; the reason keeps the holder's identities.\<close>

datatype slot_answer = SlotFree | SlotConflicted | SlotTaken string string string

definition GroupSlotFree :: "string \<Rightarrow> string \<Rightarrow> Db \<Rightarrow> slot_answer" where
  "GroupSlotFree route dest db =
     (case Option.bind (groupOfLaneTx route dest db) (\<lambda>gid. group_row gid db) of
        None \<Rightarrow> SlotFree
      | Some g \<Rightarrow>
          if gr_state g = GroupOpen then SlotFree
          else if gr_state g = GroupConflict then SlotConflicted
          else if held_by_lane route dest g then SlotFree
          else SlotTaken (nullText (gr_holder_route_id g)) (nullText (gr_holder_destination_id g))
            (nullText (gr_holder_dispatch_id g)))"

definition serializationTransitionID :: "string \<Rightarrow> string \<Rightarrow> int \<Rightarrow> string" where
  "serializationTransitionID gid reason version = versioned_id (''serialization-group:'' @ gid) reason version"

definition update_group :: "string \<Rightarrow> (GroupRow \<Rightarrow> GroupRow) \<Rightarrow> Db \<Rightarrow> Db" where
  "update_group gid f db = db\<lparr>db_groups := update_where (\<lambda>g. gr_group_id g = gid) f (db_groups db)\<rparr>"

definition set_holder ::
  "GroupState \<Rightarrow> string option \<Rightarrow> string option \<Rightarrow> string option \<Rightarrow> string \<Rightarrow> GroupRow \<Rightarrow> GroupRow" where
  "set_holder st route dest did now g =
     g\<lparr>gr_state := st, gr_holder_route_id := route, gr_holder_destination_id := dest, gr_holder_dispatch_id := did,
       gr_updated_at := now, gr_version := gr_version g + 1\<rparr>"

definition slot_context ::
  "string \<Rightarrow> string \<Rightarrow> string \<Rightarrow> string \<Rightarrow> string \<Rightarrow> (string \<times> audit_value) list" where
  "slot_context reason actor route dest did =
     [(''reason'', AuditText reason), (''actor'', AuditText actor), (''route_id'', AuditText route),
      (''destination_id'', AuditText dest), (''dispatch_id'', AuditText did)]"

definition group_audit ::
  "GroupRow \<Rightarrow> string \<Rightarrow> GroupState \<Rightarrow> string \<Rightarrow> (string \<times> audit_value) list \<Rightarrow> Db \<Rightarrow> db_error + Db" where
  "group_audit g reason to now context db =
     AppendTransition (serializationTransitionID (gr_group_id g) reason (gr_version g + 1)) group_entity (gr_group_id g)
       (GroupState_str (gr_state g)) (GroupState_str to) now context db"

section \<open>Acquisition\<close>

definition take_slot :: "string \<Rightarrow> string \<Rightarrow> string \<Rightarrow> string \<Rightarrow> GroupRow \<Rightarrow> GroupRow" where
  "take_slot route dest did now g =
     (set_holder GroupHeld (Some route) (Some dest) (Some did) now g)\<lparr>gr_conflict := Some []\<rparr>"

text \<open>The second refusal is the row count of the conditional update.\<close>

definition acquireGroupSlotTx :: "string \<Rightarrow> string \<Rightarrow> string \<Rightarrow> string \<Rightarrow> string \<Rightarrow> Db \<Rightarrow> db_error + Db" where
  "acquireGroupSlotTx route dest did actor now db =
     (case groupOfLaneTx route dest db of None \<Rightarrow> Inr db
      | Some gid \<Rightarrow>
          bindE (some_row NoRows (group_row gid db)) (\<lambda>g.
            if gr_state g = GroupConflict then Inl (SerializationConflict gid)
            else if gr_state g = GroupHeld \<and> nullText (gr_holder_dispatch_id g) = did then Inr db
            else if gr_state g = GroupHeld \<and> \<not> held_by_lane route dest g then Inl (Refused GroupSlotHeld)
            else if gr_state g \<noteq> GroupOpen \<and>
              (gr_holder_route_id g \<noteq> Some route \<or> gr_holder_destination_id g \<noteq> Some dest) then Inl (Refused GroupSlotHeld)
            else group_audit g ''slot-acquired'' GroupHeld now (slot_context ''slot-acquired'' actor route dest did)
              (update_group gid (take_slot route dest did now) db)))"

section \<open>Release and promotion\<close>

text \<open>The states as the SQL text spells them; \<open>cancelled\<close> is not a state of the schema.\<close>

definition intent_live :: "string option \<Rightarrow> Db \<Rightarrow> bool" where
  "intent_live did db =
     (case Option.bind did (\<lambda>d. intent_of d db) of None \<Rightarrow> False
      | Some i \<Rightarrow> IntentState_str (it_state i) \<notin> {''completed'', ''superseded'', ''cancelled''})"

definition waits :: "Db \<Rightarrow> LaneRow \<Rightarrow> bool" where
  "waits db l =
     (0 < la_dirty_generation l \<or>
      (la_lane_state l = RouteFollowupReady \<and> la_active_dispatch_id l \<noteq> None \<and> intent_live (la_active_dispatch_id l) db))"

definition member_lane :: "string \<Rightarrow> Db \<Rightarrow> LaneRow \<Rightarrow> bool" where
  "member_lane gid db l =
     list_ex (\<lambda>m. (gm_route_id m, gm_destination_id m) = lane_key l \<and> gm_group_id m = gid) (db_members db)"

text \<open>\<open>ORDER BY dirty_since IS NULL, dirty_since, destination_id, route_id\<close>.\<close>

definition age_key :: "LaneRow \<Rightarrow> bool \<times> string \<times> string \<times> string" where
  "age_key l = (la_dirty_since l = None, nullText (la_dirty_since l), la_destination_id l, la_route_id l)"

definition older :: "LaneRow \<Rightarrow> LaneRow \<Rightarrow> bool" where
  "older a b = (age_key a < age_key b)"

definition waiting_lanes :: "string \<Rightarrow> string \<Rightarrow> string \<Rightarrow> Db \<Rightarrow> LaneRow list" where
  "waiting_lanes gid route dest db =
     sort_by older (filter (\<lambda>l. member_lane gid db l \<and> lane_key l \<noteq> (route, dest) \<and> waits db l) (db_lanes db))"

definition promote_to :: "LaneRow \<Rightarrow> string \<Rightarrow> GroupRow \<Rightarrow> GroupRow" where
  "promote_to l now = set_holder GroupHeld (Some (la_route_id l)) (Some (la_destination_id l)) None now"

text \<open>Without a waiting lane the row count of the opening update is not looked at.\<close>

definition releaseGroupSlotTx :: "string \<Rightarrow> string \<Rightarrow> string \<Rightarrow> string \<Rightarrow> string \<Rightarrow> Db \<Rightarrow> db_error + Db" where
  "releaseGroupSlotTx route dest did actor now db =
     (case groupOfLaneTx route dest db of None \<Rightarrow> Inr db
      | Some gid \<Rightarrow>
          bindE (some_row NoRows (group_row gid db)) (\<lambda>g.
            if gr_state g \<noteq> GroupHeld \<or> (nullText (gr_holder_dispatch_id g) \<noteq> did \<and> \<not> held_by_lane route dest g) then Inr db
            else let holds = (gr_holder_dispatch_id g = Some did) in
              case waiting_lanes gid route dest db of
                [] \<Rightarrow> group_audit g ''slot-released'' GroupOpen now (slot_context ''slot-released'' actor route dest did)
                  (if holds then update_group gid (set_holder GroupOpen None None None now) db else db)
              | l # _ \<Rightarrow>
                  if \<not> holds then Inr db
                  else group_audit g ''slot-promoted'' GroupHeld now (slot_context ''slot-promoted'' actor route dest did @
                      [(''promoted_route_id'', AuditText (la_route_id l)),
                       (''promoted_destination_id'', AuditText (la_destination_id l))])
                    (update_group gid (promote_to l now) db)))"

section \<open>Transfer to a rerun\<close>

definition transferGroupSlotTx :: "string \<Rightarrow> string \<Rightarrow> string \<Rightarrow> string \<Rightarrow> string \<Rightarrow> string \<Rightarrow> Db \<Rightarrow> db_error + Db" where
  "transferGroupSlotTx route dest original replacement actor now db =
     (case groupOfLaneTx route dest db of None \<Rightarrow> Inr db
      | Some gid \<Rightarrow>
          bindE (some_row NoRows (group_row gid db)) (\<lambda>g.
            if gr_state g = GroupConflict then Inl (SerializationConflict gid)
            else if gr_state g = GroupHeld \<and> nullText (gr_holder_dispatch_id g) = original
            then if gr_holder_dispatch_id g \<noteq> Some original then Inr db
              else group_audit g ''slot-transferred-rerun'' GroupHeld now
                [(''reason'', AuditText ''slot-transferred-rerun''), (''actor'', AuditText actor), (''route_id'', AuditText route),
                 (''destination_id'', AuditText dest), (''from_dispatch_id'', AuditText original),
                 (''dispatch_id'', AuditText replacement)]
                (update_group gid (\<lambda>r. r\<lparr>gr_holder_dispatch_id := Some replacement, gr_updated_at := now,
                   gr_version := gr_version r + 1\<rparr>) db)
            else Inr db))"

section \<open>Materialisation of the configured topology\<close>

record SerializationGroupMemberInput =
  gi_route_id :: string
  gi_destination_id :: string
  gi_group_id :: string

definition member_lt :: "SerializationGroupMemberInput \<Rightarrow> SerializationGroupMemberInput \<Rightarrow> bool" where
  "member_lt a b = ((gi_route_id a, gi_destination_id a) < (gi_route_id b, gi_destination_id b))"

definition new_group :: "string \<Rightarrow> string \<Rightarrow> GroupRow" where
  "new_group gid now =
     \<lparr>gr_group_id = gid, gr_state = GroupOpen, gr_holder_route_id = None, gr_holder_destination_id = None,
      gr_holder_dispatch_id = None, gr_conflict = Some [], gr_materialized_at = now, gr_updated_at = now, gr_version = 0\<rparr>"

fun create_groups :: "string \<Rightarrow> string \<Rightarrow> string list \<Rightarrow> Db \<Rightarrow> db_error + Db" where
  "create_groups actor now [] db = Inr db"
| "create_groups actor now (gid # gids) db =
     (if group_row gid db \<noteq> None then create_groups actor now gids db
      else bindE (AppendTransition (serializationTransitionID gid ''created'' 1) group_entity gid [] (GroupState_str GroupOpen)
          now [(''reason'', AuditText ''materialized''), (''actor'', AuditText actor),
            (''note'', AuditText ''group created by topology reconciliation'')]
          (db\<lparr>db_groups := db_groups db @ [new_group gid now]\<rparr>)) (\<lambda>db1. create_groups actor now gids db1))"

text \<open>A live lane that holds an active dispatch of the group.\<close>

definition holds_group :: "string \<Rightarrow> Db \<Rightarrow> LaneRow \<Rightarrow> bool" where
  "holds_group gid db l =
     (member_lane gid db l \<and> la_active_dispatch_id l \<noteq> None \<and>
      (la_lane_state l \<in> {RouteActiveClean, RouteActiveDirty} \<or>
       (la_lane_state l = RouteFollowupReady \<and>
        ((case Option.bind (la_active_dispatch_id l) (\<lambda>d. intent_of d db) of None \<Rightarrow> False
          | Some i \<Rightarrow> IntentState_str (it_state i) \<in> {''submitting'', ''unknown'', ''submitted'', ''running''}) \<or>
         (case group_row gid db of None \<Rightarrow> False
          | Some g \<Rightarrow> gr_state g = GroupHeld \<and> gr_holder_dispatch_id g = la_active_dispatch_id l \<and>
              intent_live (la_active_dispatch_id l) db)))))"

definition lane_lt :: "LaneRow \<Rightarrow> LaneRow \<Rightarrow> bool" where
  "lane_lt a b = (lane_key a < lane_key b)"

definition group_holders :: "string \<Rightarrow> Db \<Rightarrow> LaneRow list" where
  "group_holders gid db = sort_by lane_lt (filter (holds_group gid db) (db_lanes db))"

text \<open>A promotion reservation is kept while the promoted lane is a member that still waits.\<close>

definition reservation_alive :: "GroupRow \<Rightarrow> Db \<Rightarrow> bool" where
  "reservation_alive g db =
     (gr_state g = GroupHeld \<and> nullText (gr_holder_dispatch_id g) = [] \<and> nullText (gr_holder_route_id g) \<noteq> [] \<and>
      nullText (gr_holder_destination_id g) \<noteq> [] \<and>
      list_ex (\<lambda>l. lane_key l = (nullText (gr_holder_route_id g), nullText (gr_holder_destination_id g)) \<and>
        member_lane (gr_group_id g) db l \<and> waits db l) (db_lanes db))"

definition collision_of :: "LaneRow \<Rightarrow> SerializationGroupCollision" where
  "collision_of l =
     \<lparr>gc_route_id = la_route_id l, gc_destination_id = la_destination_id l,
      gc_dispatch_id = nullText (la_active_dispatch_id l)\<rparr>"

text \<open>The recomputed slot: state, holder and collisions.\<close>

definition next_slot ::
  "LaneRow list \<Rightarrow> GroupRow \<Rightarrow> Db \<Rightarrow> GroupState \<times> string \<times> string \<times> string \<times> SerializationGroupCollision list" where
  "next_slot active g db =
     (case active of
        [l] \<Rightarrow> (GroupHeld, la_route_id l, la_destination_id l, nullText (la_active_dispatch_id l), [])
      | _ # _ # _ \<Rightarrow> (GroupConflict, [], [], [], map collision_of active)
      | [] \<Rightarrow>
          if reservation_alive g db
          then (GroupHeld, nullText (gr_holder_route_id g), nullText (gr_holder_destination_id g), [], [])
          else (GroupOpen, [], [], [], []))"

definition slot_reason :: "GroupState \<Rightarrow> GroupState \<Rightarrow> string" where
  "slot_reason from to =
     (if to = GroupConflict then ''serialization_conflict''
      else if to = GroupHeld \<and> from = GroupConflict then ''conflict-resolved-sole-holder''
      else if to = GroupHeld then ''slot-held''
      else if to = GroupOpen \<and> from = GroupConflict then ''conflict-resolved-open''
      else if to = GroupOpen \<and> from = GroupHeld then ''slot-released''
      else ''topology-unchanged'')"

definition conflict_column :: "SerializationGroupCollision list \<Rightarrow> SerializationGroupCollision list option" where
  "conflict_column cs = (if cs = [] then None else Some cs)"

definition recompute_group :: "LaneRow list \<Rightarrow> string \<Rightarrow> string \<Rightarrow> GroupRow \<Rightarrow> Db \<Rightarrow> db_error + Db \<times> GroupRow" where
  "recompute_group active actor now g db =
     (case next_slot active g db of (to, route, dest, did, cs) \<Rightarrow>
        let g1 = (set_holder to (nullString route) (nullString dest) (nullString did) now g)\<lparr>gr_conflict := conflict_column cs\<rparr>;
            reason = slot_reason (gr_state g) to
        in if gr_state g \<noteq> to \<or> nullText (gr_holder_route_id g) \<noteq> route \<or> nullText (gr_holder_destination_id g) \<noteq> dest \<or>
             nullText (gr_holder_dispatch_id g) \<noteq> did \<or> gr_conflict g \<noteq> conflict_column cs
           then bindE (group_audit g reason to now
               [(''reason'', AuditText reason), (''actor'', AuditText actor), (''state'', AuditText (GroupState_str to)),
                (''holder_route_id'', AuditText route), (''holder_destination_id'', AuditText dest),
                (''holder_dispatch_id'', AuditText did), (''collisions'', AuditInt (int (length cs)))]
               (update_group (gr_group_id g) (\<lambda>_. g1) db)) (\<lambda>db1. Inr (db1, g1))
           else Inr (db, g1))"

text \<open>The holders of every group are read before the first group is rewritten.\<close>

fun recompute_groups ::
  "(string \<Rightarrow> LaneRow list) \<Rightarrow> string \<Rightarrow> string \<Rightarrow> string list \<Rightarrow> Db \<Rightarrow> db_error + Db \<times> GroupRow list" where
  "recompute_groups holders actor now [] db = Inr (db, [])"
| "recompute_groups holders actor now (gid # gids) db =
     bindE (some_row NoRows (group_row gid db)) (\<lambda>g.
     bindE (recompute_group (holders gid) actor now g db) (\<lambda>(db1, g1).
     bindE (recompute_groups holders actor now gids db1) (\<lambda>(db2, cs).
       Inr (db2, if gr_state g1 = GroupConflict then g1 # cs else cs))))"

definition member_row :: "SerializationGroupMemberInput \<Rightarrow> MemberRow" where
  "member_row m = \<lparr>gm_route_id = gi_route_id m, gm_destination_id = gi_destination_id m, gm_group_id = gi_group_id m\<rparr>"

definition configured_groups :: "SerializationGroupMemberInput list \<Rightarrow> string list" where
  "configured_groups ms = sort (remdups (map gi_group_id ms))"

definition materializeSerializationGroupsTx ::
  "SerializationGroupMemberInput list \<Rightarrow> string \<Rightarrow> string \<Rightarrow> Db \<Rightarrow> db_error + Db \<times> GroupRow list" where
  "materializeSerializationGroupsTx members actor now db =
     bindE (guardE (list_all (\<lambda>m. gi_group_id m \<noteq> [] \<and> gi_route_id m \<noteq> [] \<and> gi_destination_id m \<noteq> []) members)
       (Refused InvalidFanoutRecord)) (\<lambda>_.
     bindE (create_groups actor now (configured_groups members) (db\<lparr>db_members := []\<rparr>)) (\<lambda>db1.
     bindE (guardE (distinct (map (\<lambda>m. (gi_route_id m, gi_destination_id m)) members)) ConstraintRefused) (\<lambda>_.
       let db2 = db1\<lparr>db_members := map member_row (sort_by member_lt members)\<rparr>
       in recompute_groups (\<lambda>gid. group_holders gid db2) actor now (configured_groups members) db2)))"

definition MaterializeSerializationGroups ::
  "bool \<Rightarrow> SerializationGroupMemberInput list \<Rightarrow> string \<Rightarrow> string \<Rightarrow> Db \<Rightarrow> Db \<times> (db_error + GroupRow list)" where
  "MaterializeSerializationGroups ctx_done members actor now =
     transact ctx_done StoreContextDone (materializeSerializationGroupsTx members actor (normalizeTimestamp now))"

text \<open>Groups without a member keep their row and leave this view.\<close>

definition LoadSerializationGroups :: "Db \<Rightarrow> GroupRow list" where
  "LoadSerializationGroups db =
     sort_by (\<lambda>a b. gr_group_id a < gr_group_id b)
       (filter (\<lambda>g. list_ex (\<lambda>m. gm_group_id m = gr_group_id g) (db_members db)) (db_groups db))"

end
