(* ===== verification/Attempts.thy ===== *)
theory Attempts
  imports Operator SlotGroups
begin

text \<open>
  The dispatch store (\<open>src/internal/adapters/sqlite/dispatch.go\<close>) and the operator's writes of
  \<open>inspection.go\<close>: lineage, attempts and their leases, recovery, dead letters, reruns and
  reconciliation. Every method is one transaction; \<open>ctx_done\<close> says whether its context is over when it
  begins. The policy resolver of the notifications is an argument.
\<close>

section \<open>Ingestion\<close>

definition fact_row :: "string \<Rightarrow> ObservationChange \<Rightarrow> string \<Rightarrow> FactRow" where
  "fact_row resource c now =
     \<lparr>fa_resource_id = resource, fa_path = oc_path c, fa_digest = oc_after_digest c, fa_exists = oc_exists_after c,
      fa_observed_at = now\<rparr>"

abbreviation fact_key :: "FactRow \<Rightarrow> string \<times> string" where
  "fact_key f \<equiv> (fa_resource_id f, fa_path f)"

definition upsert_fact :: "FactRow \<Rightarrow> FactRow list \<Rightarrow> FactRow list" where
  "upsert_fact f fs =
     (if row_of fact_key (fact_key f) fs = None then fs @ [f] else update_where (\<lambda>g. fact_key g = fact_key f) (\<lambda>_. f) fs)"

text \<open>A change that leaves an unhashed file behind keeps the earlier fact.\<close>

definition records_fact :: "ObservationChange \<Rightarrow> bool" where
  "records_fact c = (\<not> (oc_after_digest c = [] \<and> oc_exists_after c))"

fun upsert_facts :: "string \<Rightarrow> ObservationChange list \<Rightarrow> string \<Rightarrow> FactRow list \<Rightarrow> FactRow list" where
  "upsert_facts resource [] now fs = fs"
| "upsert_facts resource (c # cs) now fs =
     upsert_facts resource cs now (if records_fact c then upsert_fact (fact_row resource c now) fs else fs)"

definition upsertPathFacts :: "string \<Rightarrow> ObservationChange list \<Rightarrow> string \<Rightarrow> Db \<Rightarrow> db_error + Db" where
  "upsertPathFacts resource cs now db =
     (if \<not> list_ex records_fact cs then Inr db
      else if resource \<notin> set (map re_resource_id (db_resources db)) then Inl ResourceNotFound
      else Inr (db\<lparr>db_facts := upsert_facts resource cs now (db_facts db),
        db_resources := update_where (\<lambda>r. re_resource_id r = resource)
          (\<lambda>r. r\<lparr>re_observation_revision := re_observation_revision r + 1\<rparr>) (db_resources db)\<rparr>))"

definition created_audit :: "IntentInput \<Rightarrow> string \<Rightarrow> (string \<times> audit_value) list \<Rightarrow> Db \<Rightarrow> db_error + Db" where
  "created_audit i now context db =
     AppendTransition (in_dispatch_id i @ '':created'') intent_entity (in_dispatch_id i) [] (IntentState_str IntentReady) now
       context db"

definition commit_lineage :: "Lineage \<Rightarrow> Db \<Rightarrow> db_error + Db \<times> unit" where
  "commit_lineage lin db =
     (let ob = ln_observation lin; i = ln_intent lin
      in bindE (SaveObservation ob db) (\<lambda>db1.
         bindE (SaveBatch (ln_batch lin) db1) (\<lambda>db2.
         bindE (SaveDecision (ln_decision lin) db2) (\<lambda>db3.
         bindE (map_err mapIntentConstraint (SaveIntent i db3)) (\<lambda>db4.
         bindE (upsertPathFacts (ob_resource_id ob) (ob_changes ob) (ob_received_at ob) db4) (\<lambda>db5.
         bindE (created_audit i (in_created_at i)
             [(''reason'', AuditText ''arrival''), (''route_id'', AuditText (in_route_id i)),
              (''route_revision'', AuditText (in_route_revision i)), (''generation'', AuditInt (in_generation i))] db5) (\<lambda>db6.
           Inr (db6, ()))))))))"

definition CommitLineage :: "bool \<Rightarrow> Lineage \<Rightarrow> Db \<Rightarrow> Db \<times> (db_error + unit)" where
  "CommitLineage ctx_done lin = transact ctx_done StoreContextDone (commit_lineage lin)"

text \<open>The columns of a missing child row read as empty texts.\<close>

definition LoadIntent :: "string \<Rightarrow> Db \<Rightarrow> db_error + IntentSnapshot" where
  "LoadIntent did db =
     (case intent_of did db of None \<Rightarrow> Inl (Refused IntentNotFound)
      | Some i \<Rightarrow>
          if it_request_version i \<noteq> TaskRequestContractVersion then Inl (VersionNotSpoken (it_request_version i))
          else let c = row_of ch_dispatch_id did (db_children db); col = (\<lambda>f. case c of None \<Rightarrow> [] | Some r \<Rightarrow> f r)
            in Inr \<lparr>is_dispatch_id = it_dispatch_id i, is_route_id = it_route_id i, is_route_revision = it_route_revision i,
              is_request_version = it_request_version i, is_target_id = it_target_id i, is_target_scope = it_target_scope i,
              is_target_type = it_target_type i, is_resource_id = it_resource_id i, is_generation = it_generation i,
              is_idempotency_key = it_idempotency_key i, is_state = IntentState_str (it_state i),
              is_request_json = it_request_json i, is_manifest_digest = it_manifest_digest i,
              is_external_ref = nullText (it_external_ref i), is_lease_owner = nullText (it_lease_owner i),
              is_lease_expires_at = nullText (it_lease_expires_at i), is_attempt_count = it_attempt_count i,
              is_next_attempt_at = nullText (it_next_attempt_at i), is_created_at = it_created_at i,
              is_updated_at = it_updated_at i, is_aggregate_id = col ch_aggregate_id,
              is_destination_id = col ch_destination_id, is_destination_revision = col ch_destination_revision,
              is_workstream = col ch_workstream\<rparr>)"

section \<open>Validated transitions\<close>

definition appendValidatedTransition ::
  "string \<Rightarrow> string \<Rightarrow> IntentState \<Rightarrow> IntentState \<Rightarrow> IntentReason \<Rightarrow> IntentEvidence \<Rightarrow> string \<Rightarrow>
   (string \<times> audit_value) list \<Rightarrow> Db \<Rightarrow> db_error + Db" where
  "appendValidatedTransition tid did from to reason ev now context db =
     bindE (map_err IntentTransitionRefused (ValidateIntentTransition from to reason ev)) (\<lambda>_.
       AppendTransition tid intent_entity did (IntentState_str from) (IntentState_str to) now context db)"

definition transitionWithin ::
  "string \<Rightarrow> IntentState \<Rightarrow> IntentState \<Rightarrow> IntentReason \<Rightarrow> IntentEvidence \<Rightarrow> string \<Rightarrow> (string \<times> audit_value) list \<Rightarrow>
   Db \<Rightarrow> db_error + Db" where
  "transitionWithin did from to reason ev now context db =
     bindE (map_err IntentTransitionRefused (ValidateIntentTransition from to reason ev)) (\<lambda>_.
     bindE (guardE (map_option it_state (intent_of did db) = Some from) (Refused GenerationConflict)) (\<lambda>_.
       AppendTransition (did @ '':'' @ now @ '':'' @ IntentReason_str reason) intent_entity did (IntentState_str from)
         (IntentState_str to) now context
         (update_intent did (\<lambda>i. i\<lparr>it_state := to, it_updated_at := now\<rparr>) db)))"

definition enqueue_in ::
  "policy_resolver \<Rightarrow> string \<Rightarrow> NotificationEventKind \<Rightarrow> string \<Rightarrow> string \<Rightarrow> (string \<times> string) list \<Rightarrow> string \<Rightarrow> Db \<Rightarrow>
   db_error + Db" where
  "enqueue_in resolver route event transition destination source now db =
     bindE (map_err OutboxRefused (enqueueNotificationTx resolver route event transition destination source now (db_outbox db)))
       (\<lambda>(ox, _). Inr (db\<lparr>db_outbox := ox\<rparr>))"

definition routeIDOfDispatchTx :: "string \<Rightarrow> Db \<Rightarrow> string" where
  "routeIDOfDispatchTx did db = (case intent_of did db of None \<Rightarrow> [] | Some i \<Rightarrow> it_route_id i)"

definition destinationOfDispatchTx :: "string \<Rightarrow> Db \<Rightarrow> string" where
  "destinationOfDispatchTx did db =
     (case row_of ch_dispatch_id did (db_children db) of None \<Rightarrow> [] | Some c \<Rightarrow> ch_destination_id c)"

section \<open>Leases\<close>

definition route_closed :: "RouteRow \<Rightarrow> bool" where
  "route_closed r = (rr_activation_state r \<noteq> ''enabled'' \<or> rr_route_state r \<in> {RouteQuarantined, RouteUncertain})"

text \<open>\<open>slotFree\<close>: the route is open and the intent's lane holds no other dispatch.\<close>

definition slot_free :: "Db \<Rightarrow> string \<Rightarrow> IntentRow \<Rightarrow> bool" where
  "slot_free db did i =
     (\<not> list_ex (\<lambda>r. rr_route_id r = it_route_id i \<and> route_closed r) (db_runtime db) \<and>
      \<not> list_ex (\<lambda>l. lane_key l = (it_route_id i, snd (laneOfDispatch (it_dispatch_id i) db)) \<and>
          la_active_dispatch_id l \<noteq> None \<and> la_active_dispatch_id l \<noteq> Some did) (db_lanes db))"

definition acquirable :: "Db \<Rightarrow> string \<Rightarrow> string \<Rightarrow> IntentRow \<Rightarrow> bool" where
  "acquirable db did now i =
     (it_dispatch_id i = did \<and> it_state i \<in> {IntentReady, IntentRetryWait} \<and>
      (case it_next_attempt_at i of None \<Rightarrow> True | Some t \<Rightarrow> t \<le> now) \<and>
      (case it_lease_expires_at i of None \<Rightarrow> True | Some t \<Rightarrow> t < now) \<and> slot_free db did i)"

definition explainAcquireFailure :: "string \<Rightarrow> string \<Rightarrow> Db \<Rightarrow> db_error" where
  "explainAcquireFailure did now db =
     (case intent_of did db of None \<Rightarrow> Refused IntentNotFound
      | Some i \<Rightarrow>
          if it_state i = IntentSubmitting \<and> (case it_lease_expires_at i of None \<Rightarrow> False | Some t \<Rightarrow> now \<le> t) then Refused LeaseHeld
          else if (case runtime_of (it_route_id i) db of None \<Rightarrow> False | Some r \<Rightarrow> route_closed r) then Refused StateNotEligible
          else if (case lane_of (it_route_id i) (snd (laneOfDispatch did db)) db of None \<Rightarrow> False
            | Some l \<Rightarrow> nullText (la_active_dispatch_id l) \<noteq> [] \<and> nullText (la_active_dispatch_id l) \<noteq> did)
          then Refused RouteSlotHeld
          else Refused GenerationConflict)"

definition lease_row :: "string \<Rightarrow> string \<Rightarrow> string \<Rightarrow> string \<Rightarrow> IntentRow \<Rightarrow> IntentRow" where
  "lease_row owner expires next now i =
     i\<lparr>it_state := IntentSubmitting, it_lease_owner := Some owner, it_lease_expires_at := nullString expires,
       it_next_attempt_at := nullString next, it_attempt_count := it_attempt_count i + 1, it_updated_at := now\<rparr>"

definition attempt_of :: "AcquireAttempt \<Rightarrow> string \<Rightarrow> IntentRow \<Rightarrow> AttemptRow" where
  "attempt_of req now i =
     \<lparr>tt_attempt_id = aa_attempt_id req, tt_dispatch_id = aa_dispatch_id req, tt_lease_owner = aa_owner req,
      tt_started_at = now, tt_completed_at = None, tt_outcome = None, tt_error_code = None, tt_response_digest = None,
      tt_diagnostic = None, tt_route_revision = it_route_revision i\<rparr>"

definition acquire_attempt :: "AcquireAttempt \<Rightarrow> Db \<Rightarrow> db_error + Db \<times> string" where
  "acquire_attempt req db =
     (let did = aa_dispatch_id req; now = normalizeTimestamp (aa_now req);
          expires = normalizeTimestamp (aa_lease_expires_at req)
      in case find (acquirable db did now) (db_intents db) of
           None \<Rightarrow> Inl (explainAcquireFailure did now db)
         | Some i \<Rightarrow>
             let reason = (if it_state i = IntentRetryWait then ReasonRetryDue else ReasonLeaseAcquired)
             in bindE (guardE (aa_attempt_id req \<notin> set (map tt_attempt_id (db_attempts db))) ConstraintRefused) (\<lambda>_.
                bindE (appendValidatedTransition (aa_attempt_id req @ '':'' @ IntentReason_str reason) did (it_state i)
                    IntentSubmitting reason
                    (no_intent_evidence\<lparr>ie_lease := Some \<lparr>le_owner = aa_owner req, le_expires_at = expires\<rparr>\<rparr>) now
                    [(''reason'', AuditText (IntentReason_str reason)), (''attempt_id'', AuditText (aa_attempt_id req)),
                     (''lease_owner'', AuditText (aa_owner req)), (''lease_expires_at'', AuditText expires)]
                    (db\<lparr>db_intents := update_where (acquirable db did now)
                          (lease_row (aa_owner req) expires (normalizeTimestamp (aa_next_attempt_at req)) now) (db_intents db),
                        db_attempts := db_attempts db @ [attempt_of req now i]\<rparr>)) (\<lambda>db1.
                case laneOfDispatch did db1 of (route, lane) \<Rightarrow>
                bindE (acquireGroupSlotTx route lane did (aa_owner req) now db1) (\<lambda>db2.
                  Inr (db2, aa_attempt_id req)))))"

definition AcquireAttempt :: "bool \<Rightarrow> AcquireAttempt \<Rightarrow> Db \<Rightarrow> Db \<times> (db_error + string)" where
  "AcquireAttempt ctx_done req = transact ctx_done StoreContextDone (acquire_attempt req)"

section \<open>Completion\<close>

definition outcome_storable :: "string \<Rightarrow> bool" where
  "outcome_storable s = (s \<in> {[], ''accepted'', ''rejected'', ''unknown'', ''transport_failure''})"

definition close_attempt :: "AttemptResult \<Rightarrow> string \<Rightarrow> AttemptRow \<Rightarrow> AttemptRow" where
  "close_attempt res now t =
     t\<lparr>tt_completed_at := Some now, tt_outcome := nullString (ar_outcome res), tt_error_code := nullString (ar_error_code res),
       tt_response_digest := nullString (ar_response_digest res), tt_diagnostic := nullString (ar_diagnostic res)\<rparr>"

definition receipt_row :: "ReceiptInput \<Rightarrow> IntentRow \<Rightarrow> ReceiptRow" where
  "receipt_row rc i =
     \<lparr>rp_receipt_id = rc_receipt_id rc, rp_dispatch_id = it_dispatch_id i, rp_acceptance_state = rc_acceptance rc,
      rp_durable = rc_durable rc, rp_external_ref = nullString (rc_external_ref rc),
      rp_target_observed_at = nullString (rc_target_observed_at rc), rp_received_at = rc_received_at rc,
      rp_payload_version = nullString (rc_payload_version rc), rp_bounded_payload = rc_bounded_payload rc,
      rp_route_revision = it_route_revision i\<rparr>"

definition save_receipt :: "ReceiptInput \<Rightarrow> IntentRow \<Rightarrow> string \<Rightarrow> Db \<Rightarrow> db_error + Db" where
  "save_receipt rc i now db =
     bindE (guardE (rc_receipt_id rc \<notin> set (map rp_receipt_id (db_receipts db))) ConstraintRefused) (\<lambda>_.
       let db1 = db\<lparr>db_receipts := db_receipts db @ [receipt_row rc i]\<rparr>
       in Inr (if rc_external_ref rc = [] then db1
         else update_intent (it_dispatch_id i) (\<lambda>q. q\<lparr>it_external_ref := Some (rc_external_ref rc), it_updated_at := now\<rparr>) db1))"

definition end_lease :: "IntentState \<Rightarrow> string \<Rightarrow> string \<Rightarrow> IntentRow \<Rightarrow> IntentRow" where
  "end_lease to next now i =
     i\<lparr>it_state := to, it_lease_owner := None, it_lease_expires_at := None,
       it_next_attempt_at := (if next = [] then it_next_attempt_at i else Some (normalizeTimestamp next)), it_updated_at := now\<rparr>"

text \<open>The update of the intent and of the attempt row look at neither the lease nor its owner.\<close>

definition complete_attempt :: "policy_resolver \<Rightarrow> AttemptResult \<Rightarrow> Db \<Rightarrow> db_error + Db \<times> unit" where
  "complete_attempt resolver res db =
     (let did = ar_dispatch_id res; now = normalizeTimestamp (ar_completed_at res); tr = ar_transition res
      in bindE (some_row (Refused IntentNotFound) (intent_of did db)) (\<lambda>i.
         bindE (map_err IntentTransitionRefused (ValidateIntentTransition (it_state i) (at_to tr) (at_reason tr) (at_evidence tr))) (\<lambda>_.
         bindE (guardE (outcome_storable (ar_outcome res) \<or>
             ar_attempt_id res \<notin> set (map tt_attempt_id (db_attempts db))) ConstraintRefused) (\<lambda>_.
         let db1 = (update_intent did (end_lease (at_to tr) (ar_next_attempt_at res) now) db)
               \<lparr>db_attempts := update_where (\<lambda>t. tt_attempt_id t = ar_attempt_id res) (close_attempt res now) (db_attempts db)\<rparr>
         in bindE (case ar_receipt res of None \<Rightarrow> Inr db1 | Some rc \<Rightarrow> save_receipt rc i now db1) (\<lambda>db2.
         bindE (appendValidatedTransition (at_transition_id tr) did (it_state i) (at_to tr) (at_reason tr) (at_evidence tr) now
             [(''reason'', AuditText (IntentReason_str (at_reason tr))), (''attempt_id'', AuditText (ar_attempt_id res)),
              (''outcome'', AuditText (ar_outcome res))] db2) (\<lambda>db3.
         bindE (if at_to tr \<noteq> IntentUnknown then Inr db3
             else enqueue_in resolver (routeIDOfDispatchTx did db3) EventDeliveryUnknown
               (''dispatch:'' @ did @ '':unknown:attempt:'' @ ar_attempt_id res) (destinationOfDispatchTx did db3)
               [(''dispatch_id'', did), (''attempt_id'', ar_attempt_id res), (''reason'', IntentReason_str (at_reason tr)),
                (''error_code'', ar_error_code res)] now db3) (\<lambda>db4.
           Inr (db4, ()))))))))"

definition CompleteAttempt :: "bool \<Rightarrow> policy_resolver \<Rightarrow> AttemptResult \<Rightarrow> Db \<Rightarrow> Db \<times> (db_error + unit)" where
  "CompleteAttempt ctx_done resolver res = transact ctx_done StoreContextDone (complete_attempt resolver res)"

definition dead_letter_rejected :: "string \<Rightarrow> string \<Rightarrow> string \<Rightarrow> Db \<Rightarrow> db_error + Db \<times> unit" where
  "dead_letter_rejected did actor now db =
     bindE (some_row (Refused IntentNotFound) (intent_of did db)) (\<lambda>i.
       if it_state i = IntentDeadLettered then Inr (db, ())
       else if it_state i \<noteq> IntentRejected then Inl (Refused StateNotEligible)
       else bindE (transitionWithin did IntentRejected IntentDeadLettered ReasonTerminalPolicy
           (no_intent_evidence\<lparr>ie_actor := actor\<rparr>) now
           [(''reason'', AuditText (IntentReason_str ReasonTerminalPolicy)), (''actor'', AuditText actor),
            (''note'', AuditText ''definite rejection dead-letters the dispatch for the operator exits'')] db) (\<lambda>db1.
         Inr (db1, ())))"

definition DeadLetterRejected :: "bool \<Rightarrow> string \<Rightarrow> string \<Rightarrow> string \<Rightarrow> Db \<Rightarrow> Db \<times> (db_error + unit)" where
  "DeadLetterRejected ctx_done did actor now =
     transact ctx_done StoreContextDone (dead_letter_rejected did actor (normalizeTimestamp now))"

section \<open>Recovery\<close>

definition lease_over :: "string \<Rightarrow> IntentRow \<Rightarrow> bool" where
  "lease_over now i =
     (it_state i = IntentSubmitting \<and> (case it_lease_expires_at i of None \<Rightarrow> False | Some t \<Rightarrow> t < now))"

definition newest_attempt :: "AttemptRow \<Rightarrow> AttemptRow \<Rightarrow> bool" where
  "newest_attempt a b = ((tt_started_at b, tt_attempt_id b) < (tt_started_at a, tt_attempt_id a))"

text \<open>The open attempt with the latest start, the empty text without one.\<close>

definition open_attempt :: "string \<Rightarrow> AttemptRow list \<Rightarrow> string" where
  "open_attempt did ts =
     (case sort_by newest_attempt (filter (\<lambda>t. tt_dispatch_id t = did \<and> tt_completed_at t = None) ts) of
        [] \<Rightarrow> [] | t # _ \<Rightarrow> tt_attempt_id t)"

definition abandon :: "string \<Rightarrow> AttemptRow \<Rightarrow> AttemptRow" where
  "abandon now t =
     t\<lparr>tt_completed_at := Some now, tt_outcome := Some ''unknown'', tt_error_code := Some ''lease_expired'',
       tt_diagnostic := Some ''lease expired before completion; outcome ambiguous''\<rparr>"

definition recover_one :: "policy_resolver \<Rightarrow> RecoveredLease \<Rightarrow> string \<Rightarrow> Db \<Rightarrow> db_error + Db \<times> string" where
  "recover_one resolver r now db =
     (let did = rl_dispatch_id r; gone = (\<lambda>i. it_dispatch_id i = did \<and> lease_over now i)
      in if affected gone (db_intents db) = 0 then Inr (db, [])
         else let tid = open_attempt did (db_attempts db);
              db1 = db\<lparr>db_intents := update_where gone (\<lambda>i. i\<lparr>it_state := IntentUnknown, it_lease_owner := None,
                      it_lease_expires_at := None, it_updated_at := now\<rparr>) (db_intents db),
                    db_attempts := (if tid = [] then db_attempts db
                      else update_where (\<lambda>t. tt_attempt_id t = tid \<and> tt_completed_at t = None) (abandon now) (db_attempts db))\<rparr>
            in bindE (appendValidatedTransition
                 (if tid = [] then did @ '':'' @ now @ '':recover'' else tid @ '':'' @ IntentReason_str ReasonAmbiguousOutcome)
                 did IntentSubmitting IntentUnknown ReasonAmbiguousOutcome no_intent_evidence now
                 [(''reason'', AuditText (IntentReason_str ReasonAmbiguousOutcome)), (''attempt_id'', AuditText tid),
                  (''recovered_from_owner'', AuditText (rl_owner r)), (''lease_expired'', AuditFlag True)] db1) (\<lambda>db2.
               bindE (enqueue_in resolver (routeIDOfDispatchTx did db2) EventDeliveryUnknown
                 (''dispatch:'' @ did @ '':unknown:'' @ (if tid = [] then ''expired'' else ''attempt:'' @ tid))
                 (destinationOfDispatchTx did db2)
                 [(''dispatch_id'', did), (''reason'', IntentReason_str ReasonAmbiguousOutcome),
                  (''recovered_from_owner'', rl_owner r), (''lease_expired'', ''true'')] now db2) (\<lambda>db3.
                 Inr (db3, tid))))"

definition recoverOne :: "bool \<Rightarrow> policy_resolver \<Rightarrow> RecoveredLease \<Rightarrow> string \<Rightarrow> Db \<Rightarrow> Db \<times> (db_error + string)" where
  "recoverOne ctx_done resolver r now = transact ctx_done StoreContextDone (recover_one resolver r now)"

text \<open>One transaction per lease; \<open>over did\<close>: the context is over when that one begins.\<close>

fun recover_all ::
  "(string \<Rightarrow> bool) \<Rightarrow> policy_resolver \<Rightarrow> string \<Rightarrow> RecoveredLease list \<Rightarrow> Db \<Rightarrow> Db \<times> RecoveredLease list \<times> db_error option" where
  "recover_all over resolver now [] db = (db, [], None)"
| "recover_all over resolver now (r # rs) db =
     (case recoverOne (over (rl_dispatch_id r)) resolver r now db of
        (db1, Inl e) \<Rightarrow> (db1, [], Some e)
      | (db1, Inr tid) \<Rightarrow> (case recover_all over resolver now rs db1 of
          (db2, out, e) \<Rightarrow> (db2, r\<lparr>rl_attempt_id := tid\<rparr> # out, e)))"

definition expired_leases :: "string \<Rightarrow> string \<Rightarrow> Db \<Rightarrow> IntentRow list" where
  "expired_leases route now db = filter (\<lambda>i. lease_over now i \<and> (route = [] \<or> it_route_id i = route)) (db_intents db)"

definition lease_of :: "IntentRow \<Rightarrow> db_error + RecoveredLease" where
  "lease_of i = (case it_lease_owner i of None \<Rightarrow> Inl NullColumn
     | Some owner \<Rightarrow> Inr \<lparr>rl_dispatch_id = it_dispatch_id i, rl_attempt_id = [], rl_owner = owner\<rparr>)"

definition RecoverExpiredSubmitting ::
  "bool \<Rightarrow> (string \<Rightarrow> bool) \<Rightarrow> policy_resolver \<Rightarrow> string \<Rightarrow> string \<Rightarrow> Db \<Rightarrow> Db \<times> RecoveredLease list \<times> db_error option" where
  "RecoverExpiredSubmitting ctx_done over resolver route now db =
     (if ctx_done then (db, [], Some StoreContextDone)
      else case mapE lease_of (expired_leases route (normalizeTimestamp now) db) of
        Inl e \<Rightarrow> (db, [], Some e)
      | Inr rs \<Rightarrow> recover_all over resolver (normalizeTimestamp now) rs db)"

end
