(* ===== verification/StoreOperator.thy ===== *)
theory StoreOperator
  imports Attempts
begin

text \<open>
  What an operator does to stored work (\<open>dispatch.go\<close>, \<open>inspection.go\<close>): close or retry a dead
  letter, make a waiting retry due, rerun under a new generation, resolve an unknown outcome, and switch
  a route on or off. \<open>rnd\<close> is the random part of an audit identity.
\<close>

section \<open>Dead letters\<close>

record DeadLetterOutcome =
  dl_slot_released :: bool
  dl_route_to_idle :: bool
  dl_dirty_retained :: bool

definition free_lane :: "LaneRow \<Rightarrow> LaneRow" where
  "free_lane l = l\<lparr>la_active_dispatch_id := None, la_active_generation := 0\<rparr>"

text \<open>The slot of the lane is freed when the dispatch holds it.\<close>

definition free_slot :: "string \<Rightarrow> string \<Rightarrow> string \<Rightarrow> Db \<Rightarrow> Db" where
  "free_slot route dest did db =
     db\<lparr>db_lanes := update_where (\<lambda>l. lane_key l = (route, dest) \<and> la_active_dispatch_id l = Some did) free_lane (db_lanes db)\<rparr>"

definition close_dead_letter :: "string \<Rightarrow> string \<Rightarrow> string \<Rightarrow> string \<Rightarrow> Db \<Rightarrow> db_error + Db \<times> DeadLetterOutcome" where
  "close_dead_letter did actor reason now db =
     bindE (some_row (Refused IntentNotFound) (intent_of did db)) (\<lambda>i.
     bindE (guardE (it_state i = IntentDeadLettered) (Refused StateNotEligible)) (\<lambda>_.
     bindE (transitionWithin did IntentDeadLettered IntentSuperseded ReasonReprocessOrDiscard
         (no_intent_evidence\<lparr>ie_actor := actor\<rparr>) now
         [(''reason'', AuditText (IntentReason_str ReasonReprocessOrDiscard)), (''actor'', AuditText actor),
          (''operator_reason'', AuditText reason)] db) (\<lambda>db1.
     let route = it_route_id i; lane = snd (laneOfDispatch did db1);
         held = list_ex (\<lambda>l. lane_key l = (route, lane) \<and> la_active_dispatch_id l = Some did) (db_lanes db1)
     in bindE (releaseGroupSlotTx route lane did actor now (free_slot route lane did db1)) (\<lambda>db2.
        bindE (laneSnapshotInTx route lane db2) (\<lambda>merged.
        if rs_active_dispatch_id merged \<noteq> []
        then Inr (db2, \<lparr>dl_slot_released = held, dl_route_to_idle = False, dl_dirty_retained = False\<rparr>)
        else let own = (case lane_of route lane db2 of None \<Rightarrow> rs_state merged | Some l \<Rightarrow> la_lane_state l);
                 out = \<lparr>dl_slot_released = held, dl_route_to_idle = False, dl_dirty_retained = (own = RouteActiveDirty)\<rparr>
          in if own = RouteActiveClean \<and> rs_state merged \<noteq> RouteUncertain \<and> rs_state merged \<noteq> RouteQuarantined
             then bindE (applyLaneTransition route lane (merged\<lparr>rs_state := own\<rparr>) RouteIdle ReasonWorkCompletedClean
                 (no_route_evidence\<lparr>rv_actor := actor, rv_receipt_ref := ''discard:'' @ did\<rparr>) now
                 [(''reason'', AuditText (RouteReason_str ReasonWorkCompletedClean)), (''actor'', AuditText actor),
                  (''dispatch_id'', AuditText did), (''operator_discard'', AuditFlag True),
                  (''destination_id'', AuditText lane)] db2) (\<lambda>db3.
               Inr (db3, out\<lparr>dl_route_to_idle := True\<rparr>))
             else Inr (db2, out))))))"

definition CloseDeadLetter ::
  "bool \<Rightarrow> string \<Rightarrow> string \<Rightarrow> string \<Rightarrow> string \<Rightarrow> Db \<Rightarrow> Db \<times> (db_error + DeadLetterOutcome)" where
  "CloseDeadLetter ctx_done did actor reason now =
     transact ctx_done StoreContextDone (close_dead_letter did actor reason (normalizeTimestamp now))"

section \<open>Retries\<close>

text \<open>A refusal of the machine reads as a state that is not eligible.\<close>

definition apply_operator_retry :: "string \<Rightarrow> string \<Rightarrow> string \<Rightarrow> string \<Rightarrow> Db \<Rightarrow> db_error + Db \<times> unit" where
  "apply_operator_retry did actor reason now db =
     bindE (some_row (Refused IntentNotFound) (intent_of did db)) (\<lambda>i.
     bindE (map_err (\<lambda>_. Refused StateNotEligible) (ValidateIntentTransition (it_state i) IntentReady ReasonExplicitRetry
         (no_intent_evidence\<lparr>ie_actor := actor, ie_explicit_retry := True\<rparr>))) (\<lambda>_.
     bindE (guardE (it_state i = IntentDeadLettered) (Refused StateNotEligible)) (\<lambda>_.
     bindE (AppendTransition (did @ '':'' @ now @ '':operator-retry'') intent_entity did (IntentState_str (it_state i))
         (IntentState_str IntentReady) now
         [(''reason'', AuditText (IntentReason_str ReasonExplicitRetry)), (''actor'', AuditText actor),
          (''operator_reason'', AuditText reason), (''attempt_budget_reset'', AuditFlag True)]
         (update_intent did (\<lambda>q. q\<lparr>it_state := IntentReady, it_attempt_count := 0, it_next_attempt_at := None,
            it_updated_at := now\<rparr>) db)) (\<lambda>db1. Inr (db1, ())))))"

definition ApplyOperatorRetry :: "bool \<Rightarrow> string \<Rightarrow> string \<Rightarrow> string \<Rightarrow> string \<Rightarrow> Db \<Rightarrow> Db \<times> (db_error + unit)" where
  "ApplyOperatorRetry ctx_done did actor reason now =
     transact ctx_done StoreContextDone (apply_operator_retry did actor reason (normalizeTimestamp now))"

definition make_retry_due :: "string \<Rightarrow> string \<Rightarrow> string \<Rightarrow> string \<Rightarrow> Db \<Rightarrow> db_error + Db \<times> unit" where
  "make_retry_due rnd did actor now db =
     bindE (guardE (map_option it_state (intent_of did db) = Some IntentRetryWait) (Refused StateNotEligible)) (\<lambda>_.
     bindE (AppendTransition (did @ '':retry-reset:'' @ now @ '':'' @ rnd) intent_entity did
         (IntentState_str IntentRetryWait) (IntentState_str IntentRetryWait) now
         [(''reason'', AuditText ''explicit_retry_reset''), (''actor'', AuditText actor)]
         (update_intent did (\<lambda>q. q\<lparr>it_next_attempt_at := None, it_attempt_count := 0, it_updated_at := now\<rparr>) db)) (\<lambda>db1.
       Inr (db1, ())))"

definition MakeRetryDue :: "bool \<Rightarrow> string \<Rightarrow> string \<Rightarrow> string \<Rightarrow> string \<Rightarrow> Db \<Rightarrow> Db \<times> (db_error + unit)" where
  "MakeRetryDue ctx_done rnd did actor now =
     transact ctx_done StoreContextDone (make_retry_due rnd did actor (normalizeTimestamp now))"

section \<open>Reruns\<close>

text \<open>The rerun takes an empty slot or its original's own; the group slot moves with it.\<close>

definition saveIntentTakeOverOriginal :: "IntentInput \<Rightarrow> string \<Rightarrow> Db \<Rightarrow> db_error + Db" where
  "saveIntentTakeOverOriginal i original db =
     (let route = in_route_id i; lane = fanout_lane_id i
      in bindE (insert_intent (intent_row i 0) db) (\<lambda>db1.
         bindE (case in_fanout i of None \<Rightarrow> Inr db1 | Some f \<Rightarrow> saveFanoutTx i f db1) (\<lambda>db2.
         bindE (materializeLaneTx route lane db2) (\<lambda>db3.
         bindE (some_row (Refused GenerationConflict) (lane_of route lane db3)) (\<lambda>l.
         bindE (guardE (la_active_dispatch_id l \<in> {None, Some original}) (Refused GenerationConflict)) (\<lambda>_.
         bindE (transferGroupSlotTx route lane original (in_dispatch_id i) ''operator-rerun''
             (normalizeTimestamp (in_created_at i))
             (update_lane route lane (reserve_lane (in_dispatch_id i) (in_generation i)) db3)) (\<lambda>db4.
           let old = snd (laneOfDispatch original db4)
           in Inr (if old \<noteq> lane then free_slot route old original db4 else db4))))))))"

definition rerun_decision :: "RerunInput \<Rightarrow> string \<Rightarrow> DecisionRow \<Rightarrow> DecisionRow" where
  "rerun_decision inp now d =
     d\<lparr>dw_decision_id := ''dec-'' @ in_dispatch_id (rr_new inp), dw_route_revision := in_route_revision (rr_new inp),
       dw_disposition := ''dispatch'', dw_classification := ''normal'',
       dw_reason_codes_json := (if rr_reason_codes inp = [] then render True (JArr [JStr ''operator_rerun''])
         else render True (JArr (map JStr (rr_reason_codes inp)))),
       dw_created_at := now, dw_actor := rr_actor inp, dw_supersedes := Some (dw_decision_id d)\<rparr>"

definition supersede_context :: "RerunInput \<Rightarrow> IntentReason \<Rightarrow> (string \<times> audit_value) list" where
  "supersede_context inp reason =
     [(''reason'', AuditText (IntentReason_str reason)), (''actor'', AuditText (rr_actor inp)),
      (''operator_reason'', AuditText (rr_reason inp)), (''superseded_by'', AuditText (in_dispatch_id (rr_new inp)))]"

definition intentSummaryByID :: "string \<Rightarrow> Db \<Rightarrow> db_error + IntentSummary" where
  "intentSummaryByID did db =
     (case intent_of did db of None \<Rightarrow> Inl NoRows
      | Some i \<Rightarrow> let c = row_of ch_dispatch_id did (db_children db) in
          Inr \<lparr>sm_dispatch_id = it_dispatch_id i, sm_decision_id = [], sm_route_id = it_route_id i, sm_route_revision = [],
            sm_target_id = it_target_id i, sm_resource_id = [], sm_generation = it_generation i,
            sm_idempotency_key = it_idempotency_key i, sm_content_fingerprint = [], sm_state = IntentState_str (it_state i),
            sm_request = [], sm_aggregate_id = (case c of None \<Rightarrow> [] | Some r \<Rightarrow> ch_aggregate_id r),
            sm_destination_id = (case c of None \<Rightarrow> [] | Some r \<Rightarrow> ch_destination_id r),
            sm_attempt_count = it_attempt_count i, sm_next_attempt_at = nullText (it_next_attempt_at i),
            sm_updated_at = it_updated_at i, sm_created_at = it_created_at i\<rparr>)"

text \<open>The original leaves its live state in the transaction that stores its replacement.\<close>

definition supersede_original :: "RerunInput \<Rightarrow> string \<Rightarrow> Db \<Rightarrow> db_error + Db" where
  "supersede_original inp now db =
     (let original = rr_original_dispatch_id inp; ev = no_intent_evidence\<lparr>ie_actor := rr_actor inp\<rparr>
      in bindE (some_row NoRows (intent_of original db)) (\<lambda>i.
        case it_state i of
          IntentReady \<Rightarrow> transitionWithin original IntentReady IntentSuperseded ReasonRouteInvalidated ev now
            (supersede_context inp ReasonRouteInvalidated) db
        | IntentDeadLettered \<Rightarrow> transitionWithin original IntentDeadLettered IntentSuperseded ReasonReprocessOrDiscard ev now
            (supersede_context inp ReasonReprocessOrDiscard) db
        | _ \<Rightarrow> Inl (Refused StateNotEligible)))"

definition activate_takeover :: "RerunInput \<Rightarrow> string \<Rightarrow> Db \<Rightarrow> db_error + Db" where
  "activate_takeover inp now db =
     (let new = rr_new inp; route = in_route_id new; lane = fanout_lane_id new
      in bindE (materializeLaneTx route lane db) (\<lambda>db1.
         bindE (laneSnapshotInTx route lane db1) (\<lambda>snap.
           case rs_state snap of
             RouteIdle \<Rightarrow> applyLaneTransition route lane snap RouteActiveClean ReasonDispatchAccepted
               (no_route_evidence\<lparr>rv_actor := rr_actor inp, rv_activating_dispatch_id := in_dispatch_id new\<rparr>) now
               [(''reason'', AuditText (RouteReason_str ReasonDispatchAccepted)),
                (''dispatch_id'', AuditText (in_dispatch_id new)), (''operator_rerun'', AuditFlag True),
                (''destination_id'', AuditText lane)] db1
           | RouteUncertain \<Rightarrow> Inl (Refused StateNotEligible)
           | RouteQuarantined \<Rightarrow> Inl (Refused StateNotEligible)
           | _ \<Rightarrow> Inr db1)))"

definition rerun_intent :: "RerunInput \<Rightarrow> Db \<Rightarrow> db_error + Db \<times> unit" where
  "rerun_intent inp db =
     (let now = normalizeTimestamp (in_created_at (rr_new inp));
          new = (rr_new inp)\<lparr>in_decision_id := ''dec-'' @ in_dispatch_id (rr_new inp)\<rparr>
      in bindE (some_row (Refused IntentNotFound) (intent_of (rr_original_dispatch_id inp) db)) (\<lambda>i.
         bindE (case row_of dw_decision_id (it_decision_id i) (db_decisions db) of None \<Rightarrow> Inr db
             | Some d \<Rightarrow> insert_decision (rerun_decision inp now d) db) (\<lambda>db1.
         bindE (map_err mapIntentConstraint (saveIntentTakeOverOriginal new (rr_original_dispatch_id inp) db1)) (\<lambda>db2.
         bindE (supersede_original inp now db2) (\<lambda>db3.
         bindE (activate_takeover inp now db3) (\<lambda>db4.
         bindE (created_audit new now
             [(''reason'', AuditText ''operator_rerun''), (''actor'', AuditText (rr_actor inp)),
              (''operator_reason'', AuditText (rr_reason inp)),
              (''supersedes_dispatch'', AuditText (rr_original_dispatch_id inp)),
              (''new_generation'', AuditInt (in_generation new))] db4) (\<lambda>db5. Inr (db5, ()))))))))"

text \<open>The summary is read after the commit.\<close>

definition RerunIntent :: "bool \<Rightarrow> RerunInput \<Rightarrow> Db \<Rightarrow> Db \<times> (db_error + IntentSummary)" where
  "RerunIntent ctx_done inp db =
     (case transact ctx_done StoreContextDone (rerun_intent inp) db of
        (db1, Inl e) \<Rightarrow> (db1, Inl e)
      | (db1, Inr _) \<Rightarrow> (db1, intentSummaryByID (in_dispatch_id (rr_new inp)) db1))"

section \<open>Unknown outcomes\<close>

record LookupResult =
  lk_status :: string
  lk_acceptance :: string
  lk_external_ref :: string
  lk_found_durable :: bool
  lk_target_observed_at :: string

definition LookupFound :: string where
  "LookupFound = ''found''"

definition LookupAbsent :: string where
  "LookupAbsent = ''absent''"

definition found_as :: "AcceptanceState \<Rightarrow> LookupResult \<Rightarrow> bool" where
  "found_as a lookup = (lk_status lookup = LookupFound \<and> lk_acceptance lookup = AcceptanceState_str a)"

definition lookupToAcceptance :: "LookupResult \<Rightarrow> AcceptanceState" where
  "lookupToAcceptance lookup =
     (if found_as AcceptanceAccepted lookup then AcceptanceAccepted
      else if found_as AcceptanceRejected lookup then AcceptanceRejected
      else if lk_status lookup = LookupAbsent then AcceptanceRejected
      else AcceptanceUnknown)"

definition lookup_outcome :: "LookupResult \<Rightarrow> bool \<Rightarrow> IntentState \<times> IntentReason" where
  "lookup_outcome lookup exhausted =
     (if found_as AcceptanceAccepted lookup then (IntentAccepted, ReasonLookupFoundAccepted)
      else if found_as AcceptanceRejected lookup then (IntentRetryWait, ReasonLookupNotAccepted)
      else if lk_status lookup = LookupAbsent
      then if exhausted then (IntentDeadLettered, ReasonUnresolvedOrLimit) else (IntentRetryWait, ReasonLookupNotAccepted)
      else (IntentDeadLettered, ReasonUnresolvedOrLimit))"

definition reconcile_unknown :: "string \<Rightarrow> string \<Rightarrow> LookupResult \<Rightarrow> bool \<Rightarrow> string \<Rightarrow> Db \<Rightarrow> db_error + Db \<times> IntentState" where
  "reconcile_unknown did actor lookup exhausted now db =
     bindE (some_row (Refused IntentNotFound) (intent_of did db)) (\<lambda>i.
     bindE (guardE (it_state i = IntentUnknown) (Refused StateNotEligible)) (\<lambda>_.
     bindE (transitionWithin did IntentUnknown IntentReconciling ReasonLookupStarted (no_intent_evidence\<lparr>ie_actor := actor\<rparr>)
         now [(''reason'', AuditText (IntentReason_str ReasonLookupStarted)), (''actor'', AuditText actor)] db) (\<lambda>db1.
     case lookup_outcome lookup exhausted of (to, reason) \<Rightarrow>
     bindE (transitionWithin did IntentReconciling to reason
         (no_intent_evidence\<lparr>ie_actor := actor, ie_reconciliation := Some
            \<lparr>re_result = AcceptanceState_str (lookupToAcceptance lookup), re_external_ref = lk_external_ref lookup,
             re_attempts_exhausted = exhausted\<rparr>\<rparr>) now
         [(''reason'', AuditText (IntentReason_str reason)), (''actor'', AuditText actor),
          (''lookup_status'', AuditText (lk_status lookup)), (''attempts_exhausted'', AuditFlag exhausted)] db1) (\<lambda>db2.
       Inr (if to = IntentAccepted
            then update_intent did (\<lambda>q. q\<lparr>it_external_ref := nullString (lk_external_ref lookup), it_updated_at := now\<rparr>) db2
            else db2, to)))))"

definition ReconcileUnknown ::
  "bool \<Rightarrow> string \<Rightarrow> string \<Rightarrow> LookupResult \<Rightarrow> bool \<Rightarrow> string \<Rightarrow> Db \<Rightarrow> Db \<times> (db_error + IntentState)" where
  "ReconcileUnknown ctx_done did actor lookup exhausted now =
     transact ctx_done StoreContextDone (reconcile_unknown did actor lookup exhausted (normalizeTimestamp now))"

section \<open>Activation of a route\<close>

definition CapabilityFingerprintClear :: string where
  "CapabilityFingerprintClear = CHR 0x00 # ''clear''"

text \<open>An empty fingerprint keeps the stored binding, the sentinel clears it.\<close>

definition enable_route :: "string \<Rightarrow> string \<Rightarrow> string \<Rightarrow> RouteRow \<Rightarrow> RouteRow" where
  "enable_route revision fingerprint now r =
     r\<lparr>rr_activation_state := ''enabled'', rr_acknowledged_revision := Some revision,
       rr_capability_fingerprint := (if fingerprint = [] then rr_capability_fingerprint r
         else if fingerprint = CapabilityFingerprintClear then [] else fingerprint),
       rr_last_reconciled_at := Some now, rr_version := rr_version r + 1\<rparr>"

definition set_route_activation :: "string \<Rightarrow> string \<Rightarrow> string \<Rightarrow> string \<Rightarrow> string \<Rightarrow> Db \<Rightarrow> db_error + Db \<times> unit" where
  "set_route_activation route activation revision fingerprint now db =
     bindE (guardE (runtime_of route db \<noteq> None) (Refused GenerationConflict)) (\<lambda>_.
       Inr (update_runtime route (if activation = ''enabled'' then enable_route revision fingerprint now
         else (\<lambda>r. r\<lparr>rr_activation_state := activation, rr_version := rr_version r + 1\<rparr>)) db, ()))"

definition SetRouteActivation :: "bool \<Rightarrow> string \<Rightarrow> string \<Rightarrow> string \<Rightarrow> string \<Rightarrow> string \<Rightarrow> Db \<Rightarrow> Db \<times> (db_error + unit)" where
  "SetRouteActivation ctx_done route activation revision fingerprint now db =
     (if activation \<notin> {''enabled'', ''disabled'', ''paused''} then (db, Inl (ActivationUnknown activation))
      else transact ctx_done StoreContextDone (set_route_activation route activation revision fingerprint now) db)"

end
