(* ===== verification/Lanes.thy ===== *)
theory Lanes
  imports StoreOperator
begin

text \<open>
  Coordination of the destination lanes (\<open>src/internal/adapters/sqlite/coordination.go\<close>): merging
  arriving work into a lane's dirty generation, completing the active dispatch with its follow-up,
  activation, and the staling of a route. Every method is one transaction.
\<close>

section \<open>Reads\<close>

definition RouteRegistered :: "string \<Rightarrow> Db \<Rightarrow> bool" where
  "RouteRegistered route db = (route \<in> set (db_routes db))"

definition routeSnapshotInTx :: "string \<Rightarrow> Db \<Rightarrow> db_error + RouteSnapshot" where
  "routeSnapshotInTx route db =
     (case runtime_of route db of None \<Rightarrow> Inl (Refused GenerationConflict)
      | Some r \<Rightarrow> Inr \<lparr>rs_route_id = route, rs_activation_state = rr_activation_state r, rs_state = rr_route_state r,
          rs_active_dispatch_id = nullText (rr_active_dispatch_id r), rs_dirty_generation = rr_dirty_generation r,
          rs_pending_reconcile = rr_pending_reconcile r, rs_acknowledged_revision = nullText (rr_acknowledged_revision r),
          rs_capability_fingerprint = [], rs_failure_budget = 0\<rparr>)"

text \<open>The switch over one lane's state: a hold always wins, otherwise the busier state.\<close>

definition busier :: "RouteState \<Rightarrow> RouteState \<Rightarrow> RouteState" where
  "busier s l =
     (case l of
        RouteQuarantined \<Rightarrow> l
      | RouteUncertain \<Rightarrow> l
      | RouteActiveDirty \<Rightarrow> if s \<noteq> RouteQuarantined \<and> s \<noteq> RouteUncertain then l else s
      | RouteActiveClean \<Rightarrow> if s = RouteIdle \<or> s = RouteFollowupReady then l else s
      | RouteFollowupReady \<Rightarrow> if s = RouteIdle then l else s
      | RouteIdle \<Rightarrow> s)"

fun foldLaneRows :: "LaneRow list \<Rightarrow> RouteSnapshot \<Rightarrow> RouteSnapshot" where
  "foldLaneRows [] snap = snap"
| "foldLaneRows (l # ls) snap = foldLaneRows ls
     (snap\<lparr>rs_state := busier (rs_state snap) (la_lane_state l),
        rs_active_dispatch_id := (if nullText (la_active_dispatch_id l) \<noteq> [] \<and> rs_active_dispatch_id snap = []
          then nullText (la_active_dispatch_id l) else rs_active_dispatch_id snap),
        rs_dirty_generation := max (rs_dirty_generation snap) (la_dirty_generation l)\<rparr>)"

definition lanes_of_route :: "string \<Rightarrow> Db \<Rightarrow> LaneRow list" where
  "lanes_of_route route db =
     sort_by (\<lambda>a b. la_destination_id a < la_destination_id b) (filter (\<lambda>l. la_route_id l = route) (db_lanes db))"

definition aggregateLaneState :: "RouteSnapshot \<Rightarrow> Db \<Rightarrow> RouteSnapshot" where
  "aggregateLaneState snap db = foldLaneRows (lanes_of_route (rs_route_id snap) db)
     (snap\<lparr>rs_state := RouteIdle, rs_active_dispatch_id := [], rs_dirty_generation := 0\<rparr>)"

definition LoadRouteState :: "string \<Rightarrow> Db \<Rightarrow> db_error + RouteSnapshot" where
  "LoadRouteState route db =
     (case runtime_of route db of None \<Rightarrow> Inl (Refused OtherFailure)
      | Some r \<Rightarrow>
          let snap = \<lparr>rs_route_id = route, rs_activation_state = rr_activation_state r, rs_state = rr_route_state r,
                rs_active_dispatch_id = nullText (rr_active_dispatch_id r), rs_dirty_generation = rr_dirty_generation r,
                rs_pending_reconcile = rr_pending_reconcile r, rs_acknowledged_revision = nullText (rr_acknowledged_revision r),
                rs_capability_fingerprint = rr_capability_fingerprint r, rs_failure_budget = 0\<rparr>
          in if rr_route_state r \<in> {RouteUncertain, RouteQuarantined} then Inr snap
             else Inr (aggregateLaneState snap db))"

section \<open>Merging\<close>

definition unionSelections :: "string list list \<Rightarrow> string list" where
  "unionSelections sets = CanonicalDestinations (filter (\<lambda>d. d \<noteq> []) (concat sets))"

definition unionBatchSelectionTx :: "string \<Rightarrow> string list \<Rightarrow> Db \<Rightarrow> db_error + Db" where
  "unionBatchSelectionTx bid selected db =
     (if bid = [] \<or> selected = [] then Inr db
      else bindE (some_row (Refused InvalidFanoutRecord) (row_of bt_batch_id bid (db_batches db))) (\<lambda>b.
        Inr (db\<lparr>db_batches := update_where (\<lambda>r. bt_batch_id r = bid)
          (\<lambda>r. r\<lparr>bt_selected_destinations := Some (unionSelections
             [case bt_selected_destinations b of None \<Rightarrow> [] | Some ds \<Rightarrow> ds, selected])\<rparr>) (db_batches db)\<rparr>)))"

text \<open>What the slot of the lane's group says of another lane's hold; a lane without a group is free.\<close>

definition slot_says :: "(GroupRow \<Rightarrow> bool) \<Rightarrow> bool \<Rightarrow> string \<Rightarrow> string \<Rightarrow> Db \<Rightarrow> db_error + bool" where
  "slot_says P without route dest db =
     (case groupOfLaneTx route dest db of None \<Rightarrow> Inr without
      | Some gid \<Rightarrow> bindE (some_row NoRows (group_row gid db)) (\<lambda>g. Inr (P g)))"

definition waits_for_group :: "RouteSnapshot \<Rightarrow> string \<Rightarrow> Db \<Rightarrow> db_error + bool" where
  "waits_for_group snap dest db =
     (if rs_activation_state snap \<noteq> ''enabled'' then Inr False
      else slot_says (\<lambda>g. gr_state g = GroupHeld \<and> \<not> held_by_lane (rs_route_id snap) dest g) False (rs_route_id snap) dest db)"

definition group_admits :: "RouteSnapshot \<Rightarrow> string \<Rightarrow> Db \<Rightarrow> db_error + bool" where
  "group_admits snap dest db =
     slot_says (\<lambda>g. gr_state g = GroupOpen \<or> held_by_lane (rs_route_id snap) dest g) True (rs_route_id snap) dest db"

text \<open>A reserved dispatch on an idle lane consumes its reservation unless its group is occupied.\<close>

definition consume_reservation :: "RouteSnapshot \<Rightarrow> string \<Rightarrow> string \<Rightarrow> string \<Rightarrow> Db \<Rightarrow> db_error + Db \<times> RouteSnapshot" where
  "consume_reservation snap dest actor now db =
     (if \<not> (rs_state snap = RouteIdle \<and> rs_active_dispatch_id snap \<noteq> []) then Inr (db, snap)
      else bindE (group_admits snap dest db) (\<lambda>free.
        if \<not> free then Inr (db, snap)
        else bindE (applyLaneTransition (rs_route_id snap) dest snap RouteActiveClean ReasonDispatchAccepted
            (no_route_evidence\<lparr>rv_actor := actor, rv_activating_dispatch_id := rs_active_dispatch_id snap\<rparr>) now
            [(''reason'', AuditText (RouteReason_str ReasonDispatchAccepted)),
             (''dispatch_id'', AuditText (rs_active_dispatch_id snap)),
             (''note'', AuditText ''reservation activation before merge''), (''destination_id'', AuditText dest)] db) (\<lambda>db1.
          bindE (acquireGroupSlotTx (rs_route_id snap) dest (rs_active_dispatch_id snap) actor now db1) (\<lambda>db2.
            Inr (db2, snap\<lparr>rs_state := RouteActiveClean\<rparr>)))))"

definition mark_dirty :: "RouteSnapshot \<Rightarrow> string \<Rightarrow> int \<Rightarrow> string \<Rightarrow> string \<Rightarrow> string \<Rightarrow> Db \<Rightarrow> db_error + Db" where
  "mark_dirty snap dest after actor now bid db =
     (if \<not> IsActive (rs_state snap) then Inr db
      else let reason = (if rs_state snap = RouteActiveDirty then ReasonMoreChangesMerged else ReasonLaterRelevantChange)
        in applyLaneTransition (rs_route_id snap) dest snap RouteActiveDirty reason
             (no_route_evidence\<lparr>rv_actor := actor, rv_dirty_generation_after := after\<rparr>) now
             [(''reason'', AuditText (RouteReason_str reason)), (''batch_id'', AuditText bid),
              (''dirty_generation_after'', AuditInt after), (''destination_id'', AuditText dest)] db)"

definition raise_dirty :: "int \<Rightarrow> string \<Rightarrow> LaneRow \<Rightarrow> LaneRow" where
  "raise_dirty after now l = l\<lparr>la_dirty_generation := max (la_dirty_generation l) after,
     la_dirty_since := (case la_dirty_since l of None \<Rightarrow> Some now | s \<Rightarrow> s)\<rparr>"

text \<open>One lane of the merge: the new dirty count when one was recorded, and whether the lane was idle.\<close>

definition merge_one :: "string \<Rightarrow> string \<Rightarrow> string \<Rightarrow> string \<Rightarrow> string \<Rightarrow> Db \<Rightarrow> db_error + Db \<times> int option \<times> bool" where
  "merge_one route dest actor now bid db =
     bindE (materializeLaneTx route dest db) (\<lambda>db1.
     bindE (laneSnapshotInTx route dest db1) (\<lambda>snap.
     bindE (some_row NoRows (lane_of route dest db1)) (\<lambda>own.
     let idle = (rs_state snap = RouteIdle \<and> rs_active_dispatch_id snap = []); after = la_dirty_generation own + 1
     in bindE (if idle then waits_for_group snap dest db1 else Inr True) (\<lambda>counts.
        if \<not> counts then Inr (db1, None, True)
        else bindE (consume_reservation snap dest actor now db1) (\<lambda>(db2, snap2).
             bindE (mark_dirty snap2 dest after actor now bid db2) (\<lambda>db3.
               Inr (update_lane route dest (raise_dirty after now) db3, Some after, idle)))))))"

fun merge_each ::
  "string \<Rightarrow> string list \<Rightarrow> string \<Rightarrow> string \<Rightarrow> string \<Rightarrow> Db \<Rightarrow> int \<Rightarrow> bool \<Rightarrow> db_error + Db \<times> int \<times> bool" where
  "merge_each route [] actor now bid db best idle = Inr (db, best, idle)"
| "merge_each route (dest # dests) actor now bid db best idle =
     bindE (merge_one route dest actor now bid db) (\<lambda>(db1, after, idle1).
       merge_each route dests actor now bid db1 (case after of None \<Rightarrow> best | Some n \<Rightarrow> max best n) (idle \<or> idle1))"

definition owe_reconcile :: "policy_resolver \<Rightarrow> string \<Rightarrow> string \<Rightarrow> string \<Rightarrow> string \<Rightarrow> Db \<Rightarrow> db_error + Db" where
  "owe_reconcile resolver route actor now bid db =
     bindE (map_err OutboxRefused (notifyPendingReconcileTx resolver (map_option rr_pending_reconcile (runtime_of route db)) route
         (''merge:'' @ bid) [(''batch_id'', bid), (''actor'', actor), (''origin'', ''merge'')] now (db_outbox db))) (\<lambda>ox.
       Inr (update_runtime route (\<lambda>r. r\<lparr>rr_pending_reconcile := True\<rparr>) (db\<lparr>db_outbox := ox\<rparr>)))"

definition refresh_hold :: "string \<Rightarrow> string \<Rightarrow> Db \<Rightarrow> Db" where
  "refresh_hold route now db =
     (if map_option rr_route_state (runtime_of route db) = Some RouteUncertain
      then update_runtime route (\<lambda>r. r\<lparr>rr_dirty_generation := rr_dirty_generation r + 1,
        rr_dirty_since := (case rr_dirty_since r of None \<Rightarrow> Some now | s \<Rightarrow> s)\<rparr>) db
      else db)"

definition mergeLanesTx ::
  "policy_resolver \<Rightarrow> string \<Rightarrow> string list \<Rightarrow> string \<Rightarrow> string \<Rightarrow> string \<Rightarrow> Db \<Rightarrow> db_error + Db \<times> int" where
  "mergeLanesTx resolver route selected actor now bid db =
     bindE (merge_each route (if selected = [] then [LegacyDestinationLaneID] else selected) actor now bid db 0 False)
       (\<lambda>(db1, best, idle).
     bindE (if idle then owe_reconcile resolver route actor now bid db1 else Inr db1) (\<lambda>db2.
       Inr (refresh_hold route now db2, best)))"

definition refuse_quarantined :: "string \<Rightarrow> Db \<Rightarrow> db_error + unit" where
  "refuse_quarantined route db =
     bindE (routeSnapshotInTx route db) (\<lambda>snap. guardE (rs_state snap \<noteq> RouteQuarantined) (Refused StateNotEligible))"

definition commit_merge_pending ::
  "policy_resolver \<Rightarrow> Lineage \<Rightarrow> string list \<Rightarrow> string list \<Rightarrow> string \<Rightarrow> string \<Rightarrow> Db \<Rightarrow> db_error + Db \<times> int" where
  "commit_merge_pending resolver lin dests selected actor now db =
     (let b = ln_batch lin; d = ln_decision lin; route = de_route_id d
      in bindE (SaveObservation (ln_observation lin) db) (\<lambda>db1.
         bindE (SaveBatch (b\<lparr>ba_selected_destinations := unionSelections [ba_selected_destinations b, selected]\<rparr>) db1) (\<lambda>db2.
         bindE (SaveDecision (if de_disposition d = ''dispatch'' then d\<lparr>de_disposition := ''merge_pending''\<rparr> else d) db2) (\<lambda>db3.
         bindE (refuse_quarantined route db3) (\<lambda>_.
           mergeLanesTx resolver route dests actor now (ba_batch_id b) db3)))))"

definition CommitMergePending ::
  "bool \<Rightarrow> policy_resolver \<Rightarrow> Lineage \<Rightarrow> string list \<Rightarrow> string list \<Rightarrow> string \<Rightarrow> string \<Rightarrow> Db \<Rightarrow> Db \<times> (db_error + int)" where
  "CommitMergePending ctx_done resolver lin dests selected actor now =
     transact ctx_done StoreContextDone (commit_merge_pending resolver lin dests selected actor (normalizeTimestamp now))"

definition merge_selected_lanes ::
  "policy_resolver \<Rightarrow> string \<Rightarrow> string \<Rightarrow> string list \<Rightarrow> string list \<Rightarrow> string \<Rightarrow> string \<Rightarrow> Db \<Rightarrow> db_error + Db \<times> int" where
  "merge_selected_lanes resolver route bid dests selected actor now db =
     bindE (refuse_quarantined route db) (\<lambda>_.
     bindE (unionBatchSelectionTx bid selected db) (\<lambda>db1. mergeLanesTx resolver route dests actor now bid db1))"

definition MergeSelectedLanes ::
  "bool \<Rightarrow> policy_resolver \<Rightarrow> string \<Rightarrow> string \<Rightarrow> string list \<Rightarrow> string list \<Rightarrow> string \<Rightarrow> string \<Rightarrow> Db \<Rightarrow> Db \<times> (db_error + int)" where
  "MergeSelectedLanes ctx_done resolver route bid dests selected actor now =
     transact ctx_done StoreContextDone (merge_selected_lanes resolver route bid dests selected actor (normalizeTimestamp now))"

section \<open>A further child of an occurrence\<close>

definition commit_fanout_child :: "IntentInput \<Rightarrow> Db \<Rightarrow> db_error + Db \<times> unit" where
  "commit_fanout_child i db =
     (let origin = (case in_fanout i of None \<Rightarrow> ''arrival'' | Some f \<Rightarrow> fo_origin f);
          dest = (case in_fanout i of None \<Rightarrow> [] | Some f \<Rightarrow> fo_destination_id f)
      in bindE (map_err mapIntentConstraint (SaveIntent i db)) (\<lambda>db1.
         bindE (created_audit i (in_created_at i)
             ([(''reason'', AuditText origin), (''origin'', AuditText origin), (''route_id'', AuditText (in_route_id i)),
               (''route_revision'', AuditText (in_route_revision i)), (''generation'', AuditInt (in_generation i)),
               (''fanout_child'', AuditFlag True)] @
              (if dest = [] then [] else [(''destination_id'', AuditText dest)])) db1) (\<lambda>db2. Inr (db2, ()))))"

definition CommitFanoutChild :: "bool \<Rightarrow> IntentInput \<Rightarrow> Db \<Rightarrow> Db \<times> (db_error + unit)" where
  "CommitFanoutChild ctx_done i = transact ctx_done StoreContextDone (commit_fanout_child i)"

section \<open>Completion\<close>

text \<open>A partial completion of a clean lane takes the dirtying edge first.\<close>

definition owe_remaining :: "ActiveCompletion \<Rightarrow> string \<Rightarrow> RouteSnapshot \<Rightarrow> Db \<Rightarrow> db_error + Db \<times> RouteSnapshot" where
  "owe_remaining req dest snap db =
     (if ac_remaining_work req \<and> rs_dirty_generation snap = 0 \<and> IsActive (rs_state snap)
      then bindE (applyLaneTransition (rs_route_id snap) dest snap RouteActiveDirty ReasonLaterRelevantChange
          (no_route_evidence\<lparr>rv_actor := ac_actor req, rv_dirty_generation_after := 1\<rparr>) (ac_now req)
          [(''reason'', AuditText (RouteReason_str ReasonLaterRelevantChange)), (''dispatch_id'', AuditText (ac_dispatch_id req)),
           (''dirty_generation_after'', AuditInt 1), (''destination_id'', AuditText dest),
           (''note'', AuditText ''partially completed remaining scope'')] db) (\<lambda>db1.
        Inr (db1, snap\<lparr>rs_state := RouteActiveDirty, rs_dirty_generation := 1\<rparr>))
      else Inr (db, snap))"

definition owes_followup :: "ActiveCompletion \<Rightarrow> RouteSnapshot \<Rightarrow> bool" where
  "owes_followup req snap = ((0 < rs_dirty_generation snap \<and> \<not> ac_dirty_suppressed req) \<or> rs_pending_reconcile snap)"

definition over_budget :: "ActiveCompletion \<Rightarrow> RouteSnapshot \<Rightarrow> bool" where
  "over_budget req snap = (owes_followup req snap \<and> MaxConsecutiveFollowups < ac_followup_generation req)"

definition completion_edge :: "ActiveCompletion \<Rightarrow> RouteSnapshot \<Rightarrow> RouteState \<times> RouteReason" where
  "completion_edge req snap =
     (if owes_followup req snap
      then if ac_failed req \<and> ac_failure_budget_remaining req \<le> 0 then (RouteUncertain, ReasonRetryBudgetExhausted)
           else if over_budget req snap then (RouteUncertain, ReasonFollowupBudgetExhausted)
           else if ac_failed req then (RouteFollowupReady, ReasonWorkRetryBudgetRemains)
           else (RouteFollowupReady, ReasonWorkCompletedDirty)
      else if ac_failed req
      then if ac_failure_budget_remaining req \<le> 0 then (RouteUncertain, ReasonRetryBudgetExhausted)
           else (RouteFollowupReady, ReasonWorkRetryBudgetRemains)
      else (RouteIdle, if ac_dirty_suppressed req \<and> 0 < rs_dirty_generation snap then ReasonWorkSuppressed
                       else ReasonWorkCompletedClean))"

definition lineageOr :: "string \<Rightarrow> string" where
  "lineageOr s = (if s = [] then render True (JObj [(''generations'', JArr [])]) else s)"

definition flag_text :: "bool \<Rightarrow> string" where
  "flag_text b = (if b then ''true'' else ''false'')"

definition notify_work ::
  "policy_resolver \<Rightarrow> ActiveCompletion \<Rightarrow> string \<Rightarrow> string \<Rightarrow> RouteState \<Rightarrow> RouteReason \<Rightarrow> string \<Rightarrow> Db \<Rightarrow> db_error + Db" where
  "notify_work resolver req route dest to reason followup db =
     enqueue_in resolver route (notificationEventOfWork to (ac_failed req))
       (''dispatch:'' @ ac_dispatch_id req @ '':'' @ RouteState_str to) dest
       [(''dispatch_id'', ac_dispatch_id req), (''destination_id'', dest), (''reason'', RouteReason_str reason),
        (''route_state'', RouteState_str to), (''receipt_ref'', ac_receipt_ref req), (''failed'', flag_text (ac_failed req)),
        (''followup'', flag_text (followup \<noteq> []))] (ac_now req) db"

definition end_clean :: "bool \<Rightarrow> LaneRow \<Rightarrow> LaneRow" where
  "end_clean suppressed l = l\<lparr>la_active_dispatch_id := None, la_active_generation := 0,
     la_dirty_generation := (if suppressed then 0 else la_dirty_generation l),
     la_dirty_since := (if suppressed then None else la_dirty_since l)\<rparr>"

definition end_dirty :: "string \<Rightarrow> LaneRow \<Rightarrow> LaneRow" where
  "end_dirty now l = l\<lparr>la_active_dispatch_id := None, la_dirty_generation := 0,
     la_dirty_since := (case la_dirty_since l of None \<Rightarrow> Some now | s \<Rightarrow> s)\<rparr>"

definition update_held_lane :: "string \<Rightarrow> string \<Rightarrow> string \<Rightarrow> (LaneRow \<Rightarrow> LaneRow) \<Rightarrow> Db \<Rightarrow> Db" where
  "update_held_lane route dest did f db =
     db\<lparr>db_lanes := update_where (\<lambda>l. lane_key l = (route, dest) \<and> la_active_dispatch_id l = Some did) f (db_lanes db)\<rparr>"

definition followup_decision :: "ActiveCompletion \<Rightarrow> IntentInput \<Rightarrow> RouteReason \<Rightarrow> DecisionInput" where
  "followup_decision req f reason =
     \<lparr>de_decision_id = ''dec-'' @ in_dispatch_id f, de_batch_id = [], de_route_id = ac_route_id req,
      de_route_revision = in_route_revision f,
      de_policy_revision = (if ac_policy_revision req = [] then in_route_revision f else ac_policy_revision req),
      de_disposition = ''dispatch'', de_classification = ''normal'',
      de_reason_codes_json = render True (JArr [JStr (''followup:'' @ RouteReason_str reason)]), de_created_at = ac_now req,
      de_actor = ac_actor req, de_generation_lineage_json = lineageOr (ac_dirty_lineage_json req)\<rparr>"

definition create_followup :: "ActiveCompletion \<Rightarrow> string \<Rightarrow> int \<Rightarrow> RouteReason \<Rightarrow> Db \<Rightarrow> db_error + Db \<times> string" where
  "create_followup req dest dirty reason db =
     (case ac_followup_request req of None \<Rightarrow> Inr (db, [])
      | Some f0 \<Rightarrow>
          let f = f0\<lparr>in_decision_id := ''dec-'' @ in_dispatch_id f0, in_created_at := ac_now req\<rparr>
          in bindE (SaveDecision (followup_decision req f reason) db) (\<lambda>db1.
             bindE (map_err mapIntentConstraint (SaveIntent f db1)) (\<lambda>db2.
             bindE (created_audit f (ac_now req)
                 [(''reason'', AuditText ''followup''), (''dirty_generation'', AuditInt dirty),
                  (''supersedes_dispatch'', AuditText (ac_dispatch_id req)), (''latest_state'', AuditFlag True),
                  (''destination_id'', AuditText dest)] db2) (\<lambda>db3. Inr (db3, in_dispatch_id f)))))"

text \<open>The lane once its transition has been applied: the slot is released, and dirty work becomes the follow-up.\<close>

definition settle_lane ::
  "ActiveCompletion \<Rightarrow> string \<Rightarrow> string \<Rightarrow> int \<Rightarrow> RouteState \<Rightarrow> RouteReason \<Rightarrow> Db \<Rightarrow> db_error + Db \<times> string" where
  "settle_lane req route dest dirty to reason db =
     (let did = ac_dispatch_id req; now = ac_now req
      in if to = RouteIdle
         then bindE (releaseGroupSlotTx route dest did (ac_actor req) now
             (update_held_lane route dest did (end_clean (ac_dirty_suppressed req)) db)) (\<lambda>db1. Inr (db1, []))
         else bindE (releaseGroupSlotTx route dest did (ac_actor req) now
             (update_held_lane route dest did (end_dirty now) db)) (\<lambda>db1.
           create_followup req dest dirty reason (update_runtime route (\<lambda>r. r\<lparr>rr_pending_reconcile := False\<rparr>) db1)))"

definition completion_context ::
  "ActiveCompletion \<Rightarrow> string \<Rightarrow> RouteSnapshot \<Rightarrow> RouteReason \<Rightarrow> (string \<times> audit_value) list" where
  "completion_context req dest snap reason =
     [(''reason'', AuditText (RouteReason_str reason)), (''dispatch_id'', AuditText (ac_dispatch_id req)),
      (''dirty_generation'', AuditInt (rs_dirty_generation snap)), (''failed'', AuditFlag (ac_failed req)),
      (''destination_id'', AuditText dest)]"

text \<open>The completion from the snapshot that passed the fences.\<close>

definition apply_completion ::
  "policy_resolver \<Rightarrow> ActiveCompletion \<Rightarrow> string \<Rightarrow> string \<Rightarrow> int \<Rightarrow> RouteSnapshot \<Rightarrow> Db \<Rightarrow> db_error + Db \<times> FollowupCreated" where
  "apply_completion resolver req route dest dirty snap db =
     (case completion_edge req snap of (to, reason) \<Rightarrow>
      let ev = no_route_evidence\<lparr>rv_actor := ac_actor req, rv_receipt_ref := ac_receipt_ref req,
            rv_followup_generation := ac_followup_generation req\<rparr>;
          context = completion_context req dest snap reason
      in if to = RouteUncertain
         then bindE (routeUncertainHoldTx snap dest reason ev (ac_now req) context db) (\<lambda>db1.
              bindE (notify_work resolver req route dest to reason [] db1) (\<lambda>db2.
                Inr (db2, \<lparr>fu_route_to = to, fu_followup_dispatch_id = [], fu_dirty_generation = dirty\<rparr>)))
         else bindE (applyLaneTransition route dest snap to reason ev (ac_now req) context db) (\<lambda>db1.
              bindE (settle_lane req route dest dirty to reason db1) (\<lambda>(db2, followup).
              bindE (notify_work resolver req route dest to reason followup db2) (\<lambda>db3.
                Inr (db3, \<lparr>fu_route_to = to, fu_followup_dispatch_id = followup, fu_dirty_generation = dirty\<rparr>)))))"

definition completeActiveTx :: "policy_resolver \<Rightarrow> ActiveCompletion \<Rightarrow> Db \<Rightarrow> db_error + Db \<times> FollowupCreated" where
  "completeActiveTx resolver req db =
     (case laneOfDispatch (ac_dispatch_id req) db of (route, dest) \<Rightarrow>
      bindE (guardE (route \<noteq> []) (Refused IntentNotFound)) (\<lambda>_.
      bindE (materializeLaneTx route dest db) (\<lambda>db1.
      bindE (laneSnapshotInTx route dest db1) (\<lambda>snap0.
      bindE (guardE (IsActive (rs_state snap0) \<and> rs_active_dispatch_id snap0 = ac_dispatch_id req)
        (Refused StateNotEligible)) (\<lambda>_.
      let snap1 = snap0\<lparr>rs_failure_budget := ac_failure_budget_remaining req\<rparr>; dirty = rs_dirty_generation snap0
      in bindE (guardE (\<not> (ac_fence_generation req \<and> ac_expected_dirty_generation req \<noteq> dirty))
           (Refused GenerationConflict)) (\<lambda>_.
         bindE (owe_remaining req dest snap1 db1) (\<lambda>(db2, snap2).
         bindE (guardE (\<not> (owes_followup req snap2 \<and> \<not> over_budget req snap2 \<and> ac_followup_request req = None))
           (Refused GenerationConflict)) (\<lambda>_.
           apply_completion resolver req route dest dirty snap2 db2))))))))"

definition CompleteActive ::
  "bool \<Rightarrow> policy_resolver \<Rightarrow> ActiveCompletion \<Rightarrow> Db \<Rightarrow> Db \<times> (db_error + FollowupCreated)" where
  "CompleteActive ctx_done resolver req =
     transact ctx_done StoreContextDone (completeActiveTx resolver (req\<lparr>ac_now := normalizeTimestamp (ac_now req)\<rparr>))"

section \<open>Activation\<close>

definition activate_dispatch :: "string \<Rightarrow> string \<Rightarrow> string \<Rightarrow> Db \<Rightarrow> db_error + Db \<times> unit" where
  "activate_dispatch did actor now db =
     (case laneOfDispatch did db of (route, dest) \<Rightarrow>
      bindE (guardE (route \<noteq> []) (Refused IntentNotFound)) (\<lambda>_.
      bindE (laneSnapshotInTx route dest db) (\<lambda>snap.
        if IsActive (rs_state snap)
        then if rs_active_dispatch_id snap = did then Inr (db, ()) else Inl (Refused StateNotEligible)
        else bindE (applyLaneTransition route dest snap RouteActiveClean ReasonDispatchAccepted
               (no_route_evidence\<lparr>rv_actor := actor, rv_activating_dispatch_id := did\<rparr>) now
               [(''reason'', AuditText (RouteReason_str ReasonDispatchAccepted)), (''dispatch_id'', AuditText did),
                (''destination_id'', AuditText dest)] db) (\<lambda>db1.
             bindE (acquireGroupSlotTx route dest did actor now
               (db1\<lparr>db_lanes := update_where (\<lambda>l. lane_key l = (route, dest) \<and> la_active_dispatch_id l \<in> {None, Some did})
                 (\<lambda>l. l\<lparr>la_active_dispatch_id := Some did\<rparr>) (db_lanes db1)\<rparr>)) (\<lambda>db2. Inr (db2, ()))))))"

definition ActivateDispatch :: "bool \<Rightarrow> string \<Rightarrow> string \<Rightarrow> string \<Rightarrow> Db \<Rightarrow> Db \<times> (db_error + unit)" where
  "ActivateDispatch ctx_done did actor now =
     transact ctx_done StoreContextDone (activate_dispatch did actor (normalizeTimestamp now))"

definition take_followup :: "string \<Rightarrow> int \<Rightarrow> LaneRow \<Rightarrow> LaneRow" where
  "take_followup did gen l = l\<lparr>la_active_dispatch_id := Some did, la_active_generation := gen,
     la_dirty_since := (if la_dirty_generation l = 0 then None else la_dirty_since l)\<rparr>"

definition activate_followup :: "string \<Rightarrow> string \<Rightarrow> string \<Rightarrow> Db \<Rightarrow> db_error + Db \<times> unit" where
  "activate_followup did actor now db =
     bindE (some_row (Refused IntentNotFound) (intent_of did db)) (\<lambda>i.
     case laneOfDispatch did db of (route, dest) \<Rightarrow>
     bindE (guardE (route \<noteq> []) (Refused IntentNotFound)) (\<lambda>_.
     bindE (materializeLaneTx route dest db) (\<lambda>db1.
     bindE (laneSnapshotInTx route dest db1) (\<lambda>snap.
     let to = (if 0 < rs_dirty_generation snap then RouteActiveDirty else RouteActiveClean);
         reason = (if 0 < rs_dirty_generation snap then ReasonFollowupAcceptedDirty else ReasonFollowupAccepted)
     in bindE (applyLaneTransition route dest snap to reason
          (no_route_evidence\<lparr>rv_actor := actor, rv_activating_dispatch_id := did\<rparr>) now
          [(''reason'', AuditText (RouteReason_str reason)), (''dispatch_id'', AuditText did),
           (''dirty_generation'', AuditInt (rs_dirty_generation snap)), (''destination_id'', AuditText dest)] db1) (\<lambda>db2.
        bindE (acquireGroupSlotTx route dest did actor now (update_lane route dest (take_followup did (it_generation i)) db2))
          (\<lambda>db3. Inr (db3, ())))))))"

definition ActivateFollowup :: "bool \<Rightarrow> string \<Rightarrow> string \<Rightarrow> string \<Rightarrow> Db \<Rightarrow> Db \<times> (db_error + unit)" where
  "ActivateFollowup ctx_done did actor now =
     transact ctx_done StoreContextDone (activate_followup did actor (normalizeTimestamp now))"

section \<open>Staling a route\<close>

text \<open>The lanes of a route with the creation time of the dispatch that holds them, oldest first.\<close>

definition holders_by_age :: "string \<Rightarrow> (LaneRow \<Rightarrow> bool) \<Rightarrow> Db \<Rightarrow> (LaneRow \<times> IntentRow) list" where
  "holders_by_age route P db =
     sort_by (\<lambda>a b. (it_created_at (snd a), la_destination_id (fst a)) < (it_created_at (snd b), la_destination_id (fst b)))
       (concat (map (\<lambda>l. map (\<lambda>i. (l, i)) (filter (\<lambda>i. it_route_id i = la_route_id l \<and>
            la_active_dispatch_id l = Some (it_dispatch_id i)) (db_intents db)))
          (filter (\<lambda>l. la_route_id l = route \<and> P l) (db_lanes db))))"

datatype AgeState = AgeNone | AgeUnreadable | AgeMeasured int

definition ActiveDispatchAge :: "int \<Rightarrow> string \<Rightarrow> Db \<Rightarrow> AgeState" where
  "ActiveDispatchAge t route db =
     (case holders_by_age route (\<lambda>_. True) db of
        [] \<Rightarrow> AgeNone
      | (l, i) # _ \<Rightarrow>
          if it_created_at i = [] then AgeNone
          else case parse_rfc3339 (normalizeTimestamp (it_created_at i)) of None \<Rightarrow> AgeUnreadable
            | Some created \<Rightarrow> AgeMeasured (t - created))"

datatype stale_answer = StaleEligible | NoHolder | UnreadableAge | TooYoung string

definition EligibleForStale :: "int \<Rightarrow> int \<Rightarrow> string \<Rightarrow> Db \<Rightarrow> stale_answer" where
  "EligibleForStale t bound route db =
     (case ActiveDispatchAge t route db of
        AgeNone \<Rightarrow> NoHolder
      | AgeUnreadable \<Rightarrow> UnreadableAge
      | AgeMeasured age \<Rightarrow>
          if age < bound
          then TooYoung (case holders_by_age route (\<lambda>_. True) db of [] \<Rightarrow> [] | (l, i) # _ \<Rightarrow> nullText (la_active_dispatch_id l))
          else StaleEligible)"

definition mark_route_stale :: "string \<Rightarrow> string \<Rightarrow> string \<Rightarrow> string \<Rightarrow> Db \<Rightarrow> db_error + Db \<times> unit" where
  "mark_route_stale route actor reason now db =
     (let lane = (case holders_by_age route (\<lambda>l. IsActive (la_lane_state l)) db of [] \<Rightarrow> [] | (l, i) # _ \<Rightarrow> la_destination_id l)
      in if lane = [] then bindE (routeSnapshotInTx route db) (\<lambda>_. Inl (Refused StateNotEligible))
         else bindE (laneSnapshotInTx route lane db) (\<lambda>snap.
              bindE (routeUncertainHoldTx snap lane ReasonExecutionEvidenceStale (no_route_evidence\<lparr>rv_actor := actor\<rparr>) now
                [(''reason'', AuditText (RouteReason_str ReasonExecutionEvidenceStale)), (''actor'', AuditText actor),
                 (''active_dispatch_id'', AuditText (rs_active_dispatch_id snap)), (''destination_id'', AuditText lane),
                 (''operator_stale'', AuditFlag True), (''operator_reason'', AuditText reason)] db) (\<lambda>db1. Inr (db1, ()))))"

definition MarkRouteStaleWithReason :: "bool \<Rightarrow> string \<Rightarrow> string \<Rightarrow> string \<Rightarrow> string \<Rightarrow> Db \<Rightarrow> Db \<times> (db_error + unit)" where
  "MarkRouteStaleWithReason ctx_done route actor reason now =
     transact ctx_done StoreContextDone (mark_route_stale route actor reason (normalizeTimestamp now))"

end
