(* ===== verification/Quarantine.thy ===== *)
theory Quarantine
  imports Lanes
begin

text \<open>
  Arrivals that do not dispatch, holds, and full reconciliation
  (\<open>src/internal/adapters/sqlite/quarantine.go\<close>, \<open>applyRouteTransition\<close> of \<open>coordination.go\<close>), and the
  service that resolves a hold (\<open>src/internal/app/quarantine/service.go\<close>, \<open>ports/quarantine.go\<close>). A
  timestamp is stored as it is given here.
\<close>

section \<open>The route's own transitions\<close>

definition applyRouteTransition ::
  "RouteSnapshot \<Rightarrow> RouteState \<Rightarrow> RouteReason \<Rightarrow> RouteEvidence \<Rightarrow> string \<Rightarrow> (string \<times> audit_value) list \<Rightarrow> Db \<Rightarrow> db_error + Db" where
  "applyRouteTransition snap to reason ev now context db =
     bindE (map_err RouteTransitionRefused (ValidateRouteTransition snap to reason ev)) (\<lambda>_.
     bindE (some_row (Refused GenerationConflict) (runtime_of (rs_route_id snap) db)) (\<lambda>r.
     bindE (guardE (rr_route_state r = rs_state snap) (Refused GenerationConflict)) (\<lambda>_.
       AppendTransition (versioned_id (rs_route_id snap) (RouteReason_str reason) (rr_version r + 1)) route_entity
         (rs_route_id snap) (RouteState_str (rs_state snap)) (RouteState_str to) now context
         (update_runtime (rs_route_id snap) (\<lambda>q. q\<lparr>rr_route_state := to, rr_version := rr_version q + 1\<rparr>) db))))"

section \<open>Arrivals without a dispatch\<close>

record QuarantineInput =
  qn_quarantine_id :: string
  qn_batch_id :: string
  qn_decision_id :: string
  qn_reason_codes :: "string list"
  qn_created_at :: string

definition hold_entity :: string where
  "hold_entity = ''quarantine''"

definition save_arrival :: "Lineage \<Rightarrow> Db \<Rightarrow> db_error + Db" where
  "save_arrival lin db =
     bindE (SaveObservation (ln_observation lin) db) (\<lambda>db1.
     bindE (SaveBatch (ln_batch lin) db1) (\<lambda>db2. SaveDecision (ln_decision lin) db2))"

text \<open>\<open>INSERT ... SELECT\<close>: one row from the decision, none when the decision does not exist.\<close>

definition insert_hold :: "QuarantineInput \<Rightarrow> Db \<Rightarrow> db_error + Db" where
  "insert_hold q db =
     (case row_of dw_decision_id (qn_decision_id q) (db_decisions db) of
        None \<Rightarrow> Inr db
      | Some d \<Rightarrow>
          bindE (guardE (qn_quarantine_id q \<notin> set (map qi_quarantine_id (db_holds db)) \<and>
            (qn_batch_id q = [] \<or> qn_batch_id q \<in> set (map bt_batch_id (db_batches db)))) ConstraintRefused) (\<lambda>_.
          Inr (db\<lparr>db_holds := db_holds db @
            [\<lparr>qi_quarantine_id = qn_quarantine_id q, qi_batch_id = nullString (qn_batch_id q),
              qi_decision_id = qn_decision_id q, qi_reason_codes = qn_reason_codes q, qi_state = HoldHeld,
              qi_created_at = qn_created_at q, qi_resolved_at = None, qi_resolved_by = None, qi_resolution_reason = None,
              qi_replacement = None, qi_route_revision = dw_route_revision d\<rparr>]\<rparr>)))"

definition commit_quarantine :: "policy_resolver \<Rightarrow> Lineage \<Rightarrow> QuarantineInput \<Rightarrow> Db \<Rightarrow> db_error + Db \<times> unit" where
  "commit_quarantine resolver lin q db =
     bindE (save_arrival lin db) (\<lambda>db1.
     bindE (insert_hold q db1) (\<lambda>db2.
     bindE (AppendTransition (qn_quarantine_id q @ '':held'') hold_entity (qn_quarantine_id q) [] ''held'' (qn_created_at q)
         [(''reason_codes'', AuditTexts (qn_reason_codes q)), (''decision_id'', AuditText (qn_decision_id q)),
          (''batch_id'', AuditText (qn_batch_id q))] db2) (\<lambda>db3.
     bindE (enqueue_in resolver (de_route_id (ln_decision lin)) EventQuarantined
         (''quarantine:'' @ qn_quarantine_id q @ '':held'') []
         [(''quarantine_id'', qn_quarantine_id q), (''decision_id'', qn_decision_id q), (''batch_id'', qn_batch_id q),
          (''state'', ''held'')] (qn_created_at q) db3) (\<lambda>db4. Inr (db4, ())))))"

definition CommitQuarantineLineage ::
  "bool \<Rightarrow> policy_resolver \<Rightarrow> Lineage \<Rightarrow> QuarantineInput \<Rightarrow> Db \<Rightarrow> Db \<times> (db_error + unit)" where
  "CommitQuarantineLineage ctx_done resolver lin q = transact ctx_done StoreContextDone (commit_quarantine resolver lin q)"

definition CommitDropLineage :: "bool \<Rightarrow> Lineage \<Rightarrow> Db \<Rightarrow> Db \<times> (db_error + unit)" where
  "CommitDropLineage ctx_done lin =
     transact ctx_done StoreContextDone (\<lambda>db. bindE (save_arrival lin db) (\<lambda>db1. Inr (db1, ())))"

section \<open>The pending reconciliation\<close>

text \<open>The appearance of the flag is notified before the flag is set; \<open>COALESCE\<close> keeps the earlier position.\<close>

definition notify_pending ::
  "policy_resolver \<Rightarrow> string \<Rightarrow> string \<Rightarrow> (string \<times> string) list \<Rightarrow> string \<Rightarrow> Db \<Rightarrow> db_error + Db" where
  "notify_pending resolver route occurrence source now db =
     bindE (map_err OutboxRefused (notifyPendingReconcileTx resolver (map_option rr_pending_reconcile (runtime_of route db))
         route occurrence source now (db_outbox db))) (\<lambda>ox. Inr (db\<lparr>db_outbox := ox\<rparr>))"

definition mark_pending :: "string \<Rightarrow> RouteRow \<Rightarrow> RouteRow" where
  "mark_pending position r = r\<lparr>rr_pending_reconcile := True,
     rr_last_source_position := (if position = [] then rr_last_source_position r else Some position)\<rparr>"

definition commit_reconcile_lineage :: "policy_resolver \<Rightarrow> Lineage \<Rightarrow> string \<Rightarrow> Db \<Rightarrow> db_error + Db \<times> unit" where
  "commit_reconcile_lineage resolver lin position db =
     (let d = ln_decision lin; route = de_route_id d; now = de_created_at d
      in bindE (save_arrival lin db) (\<lambda>db1.
         bindE (notify_pending resolver route (''reconcile-lineage:'' @ de_decision_id d)
             [(''decision_id'', de_decision_id d), (''origin'', ''reconcile_classification'')] now db1) (\<lambda>db2.
         bindE (AppendTransition (de_decision_id d @ '':reconcile'') route_entity route [] ''reconcile_pending'' now
             [(''decision_id'', AuditText (de_decision_id d)), (''reason_codes'', AuditJson (de_reason_codes_json d)),
              (''pending_reconcile'', AuditInt 1)] (update_runtime route (mark_pending position) db2)) (\<lambda>db3. Inr (db3, ())))))"

definition CommitReconcileLineage :: "bool \<Rightarrow> policy_resolver \<Rightarrow> Lineage \<Rightarrow> string \<Rightarrow> Db \<Rightarrow> Db \<times> (db_error + unit)" where
  "CommitReconcileLineage ctx_done resolver lin position =
     transact ctx_done StoreContextDone (commit_reconcile_lineage resolver lin position)"

definition mark_pending_reconcile :: "policy_resolver \<Rightarrow> string \<Rightarrow> string \<Rightarrow> string \<Rightarrow> Db \<Rightarrow> db_error + Db \<times> unit" where
  "mark_pending_reconcile resolver route position now db =
     bindE (notify_pending resolver route (''reconcile:'' @ (if position = [] then ''mark'' else position))
         [(''source_position'', position), (''origin'', ''explicit_mark'')] now db) (\<lambda>db1.
       Inr (update_runtime route (\<lambda>r. (mark_pending position r)\<lparr>rr_last_reconciled_at := Some now\<rparr>) db1, ()))"

definition MarkPendingReconcile :: "bool \<Rightarrow> policy_resolver \<Rightarrow> string \<Rightarrow> string \<Rightarrow> string \<Rightarrow> Db \<Rightarrow> Db \<times> (db_error + unit)" where
  "MarkPendingReconcile ctx_done resolver route position now =
     transact ctx_done StoreContextDone (mark_pending_reconcile resolver route position now)"

text \<open>The clear is conditional on the flag that the reconciliation observed.\<close>

definition clear_pending :: "string \<Rightarrow> bool \<Rightarrow> string \<Rightarrow> Db \<Rightarrow> db_error + Db \<times> bool" where
  "clear_pending route expected now db =
     (let P = (\<lambda>r. rr_route_id r = route \<and> rr_pending_reconcile r = expected)
      in Inr (db\<lparr>db_runtime := update_where P
            (\<lambda>r. r\<lparr>rr_pending_reconcile := False, rr_last_reconciled_at := Some now\<rparr>) (db_runtime db)\<rparr>,
          affected P (db_runtime db) \<noteq> 0))"

definition ClearPendingReconcile :: "bool \<Rightarrow> string \<Rightarrow> bool \<Rightarrow> string \<Rightarrow> Db \<Rightarrow> Db \<times> (db_error + bool)" where
  "ClearPendingReconcile ctx_done route expected now = transact ctx_done StoreContextDone (clear_pending route expected now)"

section \<open>Holds\<close>

record QuarantineRecord =
  qr_quarantine_id :: string
  qr_batch_id :: string
  qr_decision_id :: string
  qr_reason_codes :: "string list"
  qr_state :: string
  qr_created_at :: string
  qr_resolved_at :: string
  qr_resolved_by :: string
  qr_resolution_reason :: string
  qr_replacement_decision_id :: string

record QuarantineFilter =
  qf_route_id :: string
  qf_state :: string
  qf_limit :: int

abbreviation hold_of :: "string \<Rightarrow> Db \<Rightarrow> HoldRow option" where
  "hold_of qid db \<equiv> row_of qi_quarantine_id qid (db_holds db)"

definition scanQuarantine :: "HoldRow \<Rightarrow> QuarantineRecord" where
  "scanQuarantine h =
     \<lparr>qr_quarantine_id = qi_quarantine_id h, qr_batch_id = nullText (qi_batch_id h), qr_decision_id = qi_decision_id h,
      qr_reason_codes = qi_reason_codes h, qr_state = HoldState_str (qi_state h), qr_created_at = qi_created_at h,
      qr_resolved_at = nullText (qi_resolved_at h), qr_resolved_by = nullText (qi_resolved_by h),
      qr_resolution_reason = nullText (qi_resolution_reason h), qr_replacement_decision_id = nullText (qi_replacement h)\<rparr>"

definition newest_hold :: "HoldRow \<Rightarrow> HoldRow \<Rightarrow> bool" where
  "newest_hold a b = (qi_created_at b < qi_created_at a \<or>
     (qi_created_at a = qi_created_at b \<and> qi_quarantine_id a < qi_quarantine_id b))"

definition hold_matches :: "QuarantineFilter \<Rightarrow> Db \<Rightarrow> HoldRow \<Rightarrow> bool" where
  "hold_matches f db h =
     ((qf_route_id f = [] \<or> map_option dw_route_id (row_of dw_decision_id (qi_decision_id h) (db_decisions db)) = Some (qf_route_id f)) \<and>
      (qf_state f = [] \<or> HoldState_str (qi_state h) = qf_state f))"

definition ListQuarantine :: "QuarantineFilter \<Rightarrow> Db \<Rightarrow> QuarantineRecord list" where
  "ListQuarantine f db =
     (let bound = (if qf_limit f \<le> 0 \<or> 500 < qf_limit f then 100 else qf_limit f)
      in map scanQuarantine (take (nat bound) (sort_by newest_hold (filter (hold_matches f db) (db_holds db)))))"

definition LoadQuarantine :: "string \<Rightarrow> Db \<Rightarrow> db_error + QuarantineRecord" where
  "LoadQuarantine qid db = bindE (some_row QuarantineNotFound (hold_of qid db)) (\<lambda>h. Inr (scanQuarantine h))"

definition releaseReasonCodes :: "string \<Rightarrow> string" where
  "releaseReasonCodes qid = render True (JArr [JStr ''operator_release'', JStr (''quarantine:'' @ qid)])"

text \<open>The replacement supersedes the held decision and carries a generation lineage instead of the batch.\<close>

definition replacement_decision :: "string \<Rightarrow> string \<Rightarrow> string \<Rightarrow> string \<Rightarrow> string \<Rightarrow> string \<Rightarrow> DecisionRow \<Rightarrow> DecisionRow" where
  "replacement_decision qid actor now replacement route_revision policy_revision d =
     \<lparr>dw_decision_id = replacement, dw_batch_id = None, dw_route_id = dw_route_id d, dw_route_revision = route_revision,
      dw_policy_revision = (if policy_revision = [] then route_revision else policy_revision),
      dw_generation_lineage = Some (render True (JObj [(''origin'', JStr ''quarantine_release''),
        (''quarantine_id'', JStr qid), (''route_id'', JStr (dw_route_id d))])),
      dw_disposition = ''reconcile'', dw_classification = ''normal'', dw_reason_codes_json = releaseReasonCodes qid,
      dw_created_at = now, dw_actor = actor, dw_supersedes = Some (dw_decision_id d)\<rparr>"

definition release_work ::
  "policy_resolver \<Rightarrow> string \<Rightarrow> string \<Rightarrow> string \<Rightarrow> string \<Rightarrow> string \<Rightarrow> string \<Rightarrow> DecisionRow \<Rightarrow> Db \<Rightarrow> db_error + Db" where
  "release_work resolver qid actor now replacement route_revision policy_revision d db =
     bindE (insert_decision (replacement_decision qid actor now replacement route_revision policy_revision d) db) (\<lambda>db1.
     bindE (notify_pending resolver (dw_route_id d) (''quarantine-release:'' @ qid)
         [(''quarantine_id'', qid), (''replacement_decision_id'', replacement), (''actor'', actor),
          (''origin'', ''quarantine_release'')] now db1) (\<lambda>db2.
       Inr (update_runtime (dw_route_id d) (\<lambda>r. r\<lparr>rr_pending_reconcile := True\<rparr>) db2)))"

definition resolved_hold :: "HoldState \<Rightarrow> string \<Rightarrow> string \<Rightarrow> string \<Rightarrow> string \<Rightarrow> HoldRow \<Rightarrow> HoldRow" where
  "resolved_hold to actor reason now replacement h =
     h\<lparr>qi_state := to, qi_resolved_at := Some now, qi_resolved_by := Some actor, qi_resolution_reason := Some reason,
       qi_replacement := nullString replacement\<rparr>"

text \<open>\<open>revisions\<close>: the route and policy revision of the replacement that a release creates.\<close>

definition resolve_quarantine ::
  "policy_resolver \<Rightarrow> string \<Rightarrow> HoldState \<Rightarrow> string \<Rightarrow> string \<Rightarrow> string \<Rightarrow> (string \<times> string) option \<Rightarrow> Db \<Rightarrow>
   db_error + Db \<times> QuarantineRecord" where
  "resolve_quarantine resolver qid to actor reason now revisions db =
     bindE (some_row QuarantineNotFound (hold_of qid db)) (\<lambda>h.
     bindE (guardE (qi_state h = HoldHeld) QuarantineNotHeld) (\<lambda>_.
     bindE (some_row NoRows (row_of dw_decision_id (qi_decision_id h) (db_decisions db))) (\<lambda>d.
     let replacement = (if revisions = None then [] else ''dec-release-'' @ qid)
     in bindE (case revisions of None \<Rightarrow> Inr db
          | Some (rrev, prev) \<Rightarrow> release_work resolver qid actor now replacement rrev prev d db) (\<lambda>db1.
        bindE (AppendTransition (qid @ '':'' @ HoldState_str to) hold_entity qid ''held'' (HoldState_str to) now
            [(''actor'', AuditText actor), (''reason'', AuditText reason), (''replacement_decision_id'', AuditText replacement),
             (''previous_decision_id'', AuditText (qi_decision_id h))]
            (db1\<lparr>db_holds := update_where (\<lambda>q. qi_quarantine_id q = qid \<and> qi_state q = HoldHeld)
              (resolved_hold to actor reason now replacement) (db_holds db1)\<rparr>)) (\<lambda>db2.
          Inr (db2, (scanQuarantine h)\<lparr>qr_batch_id := [], qr_state := HoldState_str to, qr_resolved_at := now,
            qr_resolved_by := actor, qr_resolution_reason := reason, qr_replacement_decision_id := replacement\<rparr>))))))"

text \<open>The default revisions are read before the transaction; a missing hold or decision reads as empty texts.\<close>

definition held_revisions :: "string \<Rightarrow> Db \<Rightarrow> string \<times> string" where
  "held_revisions qid db =
     (case Option.bind (hold_of qid db) (\<lambda>h. row_of dw_decision_id (qi_decision_id h) (db_decisions db)) of
        None \<Rightarrow> ([], []) | Some d \<Rightarrow> (dw_route_revision d, dw_policy_revision d))"

definition ReleaseQuarantineWithRevision ::
  "bool \<Rightarrow> policy_resolver \<Rightarrow> string \<Rightarrow> string \<Rightarrow> string \<Rightarrow> string \<Rightarrow> string \<Rightarrow> string \<Rightarrow> Db \<Rightarrow> Db \<times> (db_error + QuarantineRecord)" where
  "ReleaseQuarantineWithRevision ctx_done resolver qid actor reason rrev prev now =
     transact ctx_done StoreContextDone (resolve_quarantine resolver qid HoldReleased actor reason now (Some (rrev, prev)))"

definition ReleaseQuarantine ::
  "bool \<Rightarrow> policy_resolver \<Rightarrow> string \<Rightarrow> string \<Rightarrow> string \<Rightarrow> string \<Rightarrow> Db \<Rightarrow> Db \<times> (db_error + QuarantineRecord)" where
  "ReleaseQuarantine ctx_done resolver qid actor reason now db =
     transact ctx_done StoreContextDone
       (resolve_quarantine resolver qid HoldReleased actor reason now (Some (held_revisions qid db))) db"

definition DiscardQuarantine ::
  "bool \<Rightarrow> policy_resolver \<Rightarrow> string \<Rightarrow> string \<Rightarrow> string \<Rightarrow> string \<Rightarrow> Db \<Rightarrow> Db \<times> (db_error + QuarantineRecord)" where
  "DiscardQuarantine ctx_done resolver qid actor reason now =
     transact ctx_done StoreContextDone (resolve_quarantine resolver qid HoldDiscarded actor reason now None)"

section \<open>Full reconciliation\<close>

text \<open>The resolution of an uncertain route, fenced by the dirty generation and the flag that were read.\<close>

definition clear_hold :: "bool \<Rightarrow> string \<Rightarrow> RouteRow \<Rightarrow> RouteRow" where
  "clear_hold owed now r = r\<lparr>rr_active_dispatch_id := None, rr_dirty_generation := 0, rr_dirty_since := None,
     rr_pending_reconcile := owed, rr_last_reconciled_at := Some now\<rparr>"

definition land_resolution :: "string \<Rightarrow> IntentInput option \<Rightarrow> string \<Rightarrow> string \<Rightarrow> Db \<Rightarrow> db_error + Db" where
  "land_resolution route intent actor now db =
     (case intent of
        Some i \<Rightarrow>
          bindE (map_err mapIntentConstraint (SaveIntent (i\<lparr>in_created_at := now\<rparr>) db)) (\<lambda>db1.
            created_audit i now [(''reason'', AuditText ''reconcile''), (''route_id'', AuditText route),
              (''latest_state'', AuditFlag True), (''resolved_from'', AuditText ''uncertain'')] db1)
      | None \<Rightarrow>
          applyRouteTransition
            \<lparr>rs_route_id = route, rs_activation_state = [], rs_state = RouteFollowupReady, rs_active_dispatch_id = [],
             rs_dirty_generation = 0, rs_pending_reconcile = False, rs_acknowledged_revision = [],
             rs_capability_fingerprint = [], rs_failure_budget = 0\<rparr>
            RouteIdle ReasonFollowupDropped (no_route_evidence\<lparr>rv_actor := actor, rv_reconciled_no_work := True\<rparr>) now
            [(''reason'', AuditText (RouteReason_str ReasonFollowupDropped)), (''actor'', AuditText actor)] db)"

definition resolve_uncertain ::
  "policy_resolver \<Rightarrow> string \<Rightarrow> IntentInput option \<Rightarrow> int \<Rightarrow> bool \<Rightarrow> string \<Rightarrow> string \<Rightarrow> Db \<Rightarrow> db_error + Db \<times> unit" where
  "resolve_uncertain resolver route intent expectedDirty expectedPending actor now db =
     bindE (routeSnapshotInTx route db) (\<lambda>snap.
     bindE (guardE (rs_state snap = RouteUncertain) (Refused StateNotEligible)) (\<lambda>_.
     bindE (guardE (rs_dirty_generation snap = expectedDirty \<and> rs_pending_reconcile snap = expectedPending)
       (Refused GenerationConflict)) (\<lambda>_.
     bindE (applyRouteTransition snap RouteFollowupReady ReasonReconciliationResolved (no_route_evidence\<lparr>rv_actor := actor\<rparr>) now
         [(''reason'', AuditText (RouteReason_str ReasonReconciliationResolved)), (''actor'', AuditText actor),
          (''dirty_generation'', AuditInt (rs_dirty_generation snap)),
          (''pending_reconcile'', AuditFlag (rs_pending_reconcile snap))] db) (\<lambda>db1.
     bindE (if intent = None then Inr db1
         else notify_pending resolver route (''uncertain-resolved:'' @ rs_active_dispatch_id snap)
           [(''dispatch_id'', rs_active_dispatch_id snap), (''origin'', ''uncertain_resolution''), (''actor'', actor)] now db1) (\<lambda>db2.
     bindE (resolveHeldLaneTx route (snd (laneOfDispatch (rs_active_dispatch_id snap) db2)) (intent \<noteq> None) actor now db2) (\<lambda>db3.
     bindE (land_resolution route intent actor now (update_runtime route (clear_hold (intent \<noteq> None) now) db3)) (\<lambda>db4.
       Inr (db4, ()))))))))"

definition ResolveUncertainReconciliation ::
  "bool \<Rightarrow> policy_resolver \<Rightarrow> string \<Rightarrow> IntentInput option \<Rightarrow> int \<Rightarrow> bool \<Rightarrow> string \<Rightarrow> string \<Rightarrow> Db \<Rightarrow> Db \<times> (db_error + unit)" where
  "ResolveUncertainReconciliation ctx_done resolver route intent expectedDirty expectedPending actor now =
     transact ctx_done StoreContextDone (resolve_uncertain resolver route intent expectedDirty expectedPending actor now)"

definition ObservationRevision :: "string \<Rightarrow> Db \<Rightarrow> db_error + int" where
  "ObservationRevision resource db =
     bindE (some_row ResourceNotFound (row_of re_resource_id resource (db_resources db))) (\<lambda>r. Inr (re_observation_revision r))"

record PathFact =
  pf_path :: string
  pf_digest :: string
  pf_exists :: bool
  pf_observed_at :: string

definition snapshot_fact :: "string \<Rightarrow> string \<Rightarrow> PathFact \<Rightarrow> FactRow" where
  "snapshot_fact resource now f =
     \<lparr>fa_resource_id = resource, fa_path = pf_path f, fa_digest = pf_digest f, fa_exists = pf_exists f, fa_observed_at = now\<rparr>"

definition replace_path_facts :: "string \<Rightarrow> int \<Rightarrow> PathFact list \<Rightarrow> string \<Rightarrow> Db \<Rightarrow> db_error + Db \<times> unit" where
  "replace_path_facts resource expected facts now db =
     bindE (ObservationRevision resource db) (\<lambda>current.
     bindE (guardE (current = expected) ObservationConflict) (\<lambda>_.
     bindE (guardE (distinct (map pf_path facts)) ConstraintRefused) (\<lambda>_.
       Inr (db\<lparr>db_resources := update_where (\<lambda>r. re_resource_id r = resource)
             (\<lambda>r. r\<lparr>re_observation_revision := re_observation_revision r + 1\<rparr>) (db_resources db),
           db_facts := filter (\<lambda>f. fa_resource_id f \<noteq> resource) (db_facts db) @ map (snapshot_fact resource now) facts\<rparr>, ()))))"

definition ReplacePathFacts :: "bool \<Rightarrow> string \<Rightarrow> int \<Rightarrow> PathFact list \<Rightarrow> string \<Rightarrow> Db \<Rightarrow> Db \<times> (db_error + unit)" where
  "ReplacePathFacts ctx_done resource expected facts now =
     transact ctx_done StoreContextDone (replace_path_facts resource expected facts now)"

definition LoadPathFacts :: "string \<Rightarrow> Db \<Rightarrow> string \<Rightarrow> PathFact option" where
  "LoadPathFacts resource db path =
     map_option (\<lambda>f. \<lparr>pf_path = fa_path f, pf_digest = fa_digest f, pf_exists = fa_exists f, pf_observed_at = fa_observed_at f\<rparr>)
       (row_of fact_key (resource, path) (db_facts db))"

definition CommitReconcileDecision :: "bool \<Rightarrow> DecisionInput \<Rightarrow> Db \<Rightarrow> Db \<times> (db_error + unit)" where
  "CommitReconcileDecision ctx_done d =
     transact ctx_done StoreContextDone (\<lambda>db. bindE (SaveDecision d db) (\<lambda>db1. Inr (db1, ())))"

definition take_lane :: "string \<Rightarrow> string \<Rightarrow> string \<Rightarrow> Db \<Rightarrow> Db" where
  "take_lane route dest did db =
     db\<lparr>db_lanes := update_where (\<lambda>l. lane_key l = (route, dest) \<and> la_active_dispatch_id l \<in> {None, Some did})
       (\<lambda>l. l\<lparr>la_active_dispatch_id := Some did\<rparr>) (db_lanes db)\<rparr>"

text \<open>The intent, its audit row, the activation of its lane and the slot of the lane's group, or nothing.\<close>

definition commit_reconcile_intent :: "IntentInput \<Rightarrow> string \<Rightarrow> string \<Rightarrow> Db \<Rightarrow> db_error + Db \<times> unit" where
  "commit_reconcile_intent i actor now db =
     (let route = in_route_id i; dest = fanout_lane_id i; did = in_dispatch_id i
      in bindE (map_err mapIntentConstraint (SaveIntent i db)) (\<lambda>db1.
         bindE (created_audit i now [(''reason'', AuditText ''reconcile''), (''route_id'', AuditText route),
           (''latest_state'', AuditFlag True)] db1) (\<lambda>db2.
         bindE (materializeLaneTx route dest db2) (\<lambda>db3.
         bindE (laneSnapshotInTx route dest db3) (\<lambda>snap.
         bindE (applyLaneTransition route dest snap RouteActiveClean ReasonDispatchAccepted
             (no_route_evidence\<lparr>rv_actor := actor, rv_activating_dispatch_id := did\<rparr>) now
             [(''reason'', AuditText (RouteReason_str ReasonDispatchAccepted)), (''dispatch_id'', AuditText did),
              (''origin'', AuditText ''reconcile''), (''destination_id'', AuditText dest)] db3) (\<lambda>db4.
         bindE (acquireGroupSlotTx route dest did actor now (take_lane route dest did db4)) (\<lambda>db5. Inr (db5, ()))))))))"

definition CommitReconcileIntent :: "bool \<Rightarrow> IntentInput \<Rightarrow> string \<Rightarrow> string \<Rightarrow> Db \<Rightarrow> Db \<times> (db_error + unit)" where
  "CommitReconcileIntent ctx_done i actor now = transact ctx_done StoreContextDone (commit_reconcile_intent i actor now)"

section \<open>The service\<close>

text \<open>\<open>IsQuarantineDomainOutcome\<close>; any other failure of the store is wrapped as one.\<close>

definition IsQuarantineDomainOutcome :: "db_error \<Rightarrow> bool" where
  "IsQuarantineDomainOutcome e = (e \<in> {QuarantineNotFound, QuarantineNotHeld})"

datatype quarantine_error = HoldReasonRequired | HoldRefused db_error | HoldStoreFailed db_error

definition hold_outcome :: "Db \<times> (db_error + QuarantineRecord) \<Rightarrow> Db \<times> (quarantine_error + QuarantineRecord)" where
  "hold_outcome res = (fst res, map_err (\<lambda>e. if IsQuarantineDomainOutcome e then HoldRefused e else HoldStoreFailed e) (snd res))"

record QuarantineService =
  qs_route_revision :: string
  qs_policy_revision :: string

text \<open>The service over the SQLite store; \<open>now\<close> is its clock's text.\<close>

definition Release ::
  "QuarantineService \<Rightarrow> bool \<Rightarrow> policy_resolver \<Rightarrow> string \<Rightarrow> string \<Rightarrow> string \<Rightarrow> string \<Rightarrow> Db \<Rightarrow> Db \<times> (quarantine_error + QuarantineRecord)" where
  "Release svc ctx_done resolver qid actor reason now db =
     (if trim_space reason = [] then (db, Inl HoldReasonRequired)
      else hold_outcome (if qs_route_revision svc \<noteq> []
        then ReleaseQuarantineWithRevision ctx_done resolver qid actor reason (qs_route_revision svc) (qs_policy_revision svc) now db
        else ReleaseQuarantine ctx_done resolver qid actor reason now db))"

definition Discard ::
  "bool \<Rightarrow> policy_resolver \<Rightarrow> string \<Rightarrow> string \<Rightarrow> string \<Rightarrow> string \<Rightarrow> Db \<Rightarrow> Db \<times> (quarantine_error + QuarantineRecord)" where
  "Discard ctx_done resolver qid actor reason now db =
     (if trim_space reason = [] then (db, Inl HoldReasonRequired)
      else hold_outcome (DiscardQuarantine ctx_done resolver qid actor reason now db))"

end
