(* ===== verification/StoreHistory.thy ===== *)
theory StoreHistory
  imports Quarantine
begin

text \<open>
  The audit history of the dispatch store (DUR-011). \<open>aside\<close> collects the steps that leave intents
  alone, \<open>quiet\<close>, \<open>advances\<close> and \<open>births\<close> what the others do to an intent's state and its
  trail. Every call of the store keeps \<open>audited\<close>: the trail of each intent replays, edge by documented
  edge, to the state its row holds.
\<close>

section \<open>What a step leaves alone\<close>

text \<open>\<open>aside db db1\<close>: intents, attempts and receipts are as before, and every new audit row is about another entity.\<close>

definition other_rows :: "TransitionRow list \<Rightarrow> bool" where
  "other_rows = list_all (\<lambda>x. xr_entity_type x \<noteq> intent_entity)"

definition aside :: "Db \<Rightarrow> Db \<Rightarrow> bool" where
  "aside db db1 \<longleftrightarrow> db_intents db1 = db_intents db \<and> db_attempts db1 = db_attempts db \<and> db_receipts db1 = db_receipts db \<and>
     (\<exists>xs. db_transitions db1 = db_transitions db @ xs \<and> other_rows xs)"

named_theorems asides \<open>steps that leave intents and their history alone\<close>

lemma aside_refl [simp]: "aside db db"
  by (simp add: aside_def other_rows_def)

lemma aside_trans: "aside a b \<Longrightarrow> aside b c \<Longrightarrow> aside a c"
  by (auto simp: aside_def other_rows_def)

lemma aside_step:
  "db_intents db1 = db_intents db \<Longrightarrow> db_attempts db1 = db_attempts db \<Longrightarrow> db_receipts db1 = db_receipts db \<Longrightarrow>
   db_transitions db1 = db_transitions db \<Longrightarrow> aside db db1"
  by (simp add: aside_def other_rows_def)

lemma aside_update [simp]:
  "aside db (update_lane route dest f db1) = aside db db1"
  "aside db (update_runtime route g db1) = aside db db1"
  "aside db (update_group gid h db1) = aside db db1"
  "aside db (free_slot route dest did db1) = aside db db1"
  "aside db (update_held_lane route dest did f db1) = aside db db1"
  "aside (update_lane route dest f db) db1 = aside db db1"
  "aside (update_runtime route g db) db1 = aside db db1"
  "aside (update_group gid h db) db1 = aside db db1"
  "aside (free_slot route dest did db) db1 = aside db db1"
  "aside (update_held_lane route dest did f db) db1 = aside db db1"
  by (simp_all add: aside_def update_lane_def update_runtime_def update_group_def free_slot_def update_held_lane_def)

lemma aside_fields [simp]:
  "aside db (db1\<lparr>db_resources := x_resources\<rparr>) = aside db db1" "aside (db\<lparr>db_resources := x_resources\<rparr>) db1 = aside db db1"
  "aside db (db1\<lparr>db_observations := x_observations\<rparr>) = aside db db1" "aside (db\<lparr>db_observations := x_observations\<rparr>) db1 = aside db db1"
  "aside db (db1\<lparr>db_batches := x_batches\<rparr>) = aside db db1" "aside (db\<lparr>db_batches := x_batches\<rparr>) db1 = aside db db1"
  "aside db (db1\<lparr>db_decisions := x_decisions\<rparr>) = aside db db1" "aside (db\<lparr>db_decisions := x_decisions\<rparr>) db1 = aside db db1"
  "aside db (db1\<lparr>db_facts := x_facts\<rparr>) = aside db db1" "aside (db\<lparr>db_facts := x_facts\<rparr>) db1 = aside db db1"
  "aside db (db1\<lparr>db_holds := x_holds\<rparr>) = aside db db1" "aside (db\<lparr>db_holds := x_holds\<rparr>) db1 = aside db db1"
  "aside db (db1\<lparr>db_attributions := x_attributions\<rparr>) = aside db db1" "aside (db\<lparr>db_attributions := x_attributions\<rparr>) db1 = aside db db1"
  "aside db (db1\<lparr>db_aggregates := x_aggregates\<rparr>) = aside db db1" "aside (db\<lparr>db_aggregates := x_aggregates\<rparr>) db1 = aside db db1"
  "aside db (db1\<lparr>db_revisions := x_revisions\<rparr>) = aside db db1" "aside (db\<lparr>db_revisions := x_revisions\<rparr>) db1 = aside db db1"
  "aside db (db1\<lparr>db_children := x_children\<rparr>) = aside db db1" "aside (db\<lparr>db_children := x_children\<rparr>) db1 = aside db db1"
  "aside db (db1\<lparr>db_runtime := x_runtime\<rparr>) = aside db db1" "aside (db\<lparr>db_runtime := x_runtime\<rparr>) db1 = aside db db1"
  "aside db (db1\<lparr>db_lanes := x_lanes\<rparr>) = aside db db1" "aside (db\<lparr>db_lanes := x_lanes\<rparr>) db1 = aside db db1"
  "aside db (db1\<lparr>db_groups := x_groups\<rparr>) = aside db db1" "aside (db\<lparr>db_groups := x_groups\<rparr>) db1 = aside db db1"
  "aside db (db1\<lparr>db_members := x_members\<rparr>) = aside db db1" "aside (db\<lparr>db_members := x_members\<rparr>) db1 = aside db db1"
  "aside db (db1\<lparr>db_outbox := x_outbox\<rparr>) = aside db db1" "aside (db\<lparr>db_outbox := x_outbox\<rparr>) db1 = aside db db1"
  by (simp_all add: aside_def)

lemma entities [simp]:
  "lane_entity \<noteq> intent_entity" "route_entity \<noteq> intent_entity" "group_entity \<noteq> intent_entity"
  "''aggregate_event'' \<noteq> intent_entity"
  by (simp_all add: lane_entity_def intent_entity_def route_entity_def group_entity_def)

lemma AppendTransition_Inr:
  "AppendTransition tid et eid from to now ctx db = Inr db1 \<longleftrightarrow>
     tid \<notin> set (map xr_transition_id (db_transitions db)) \<and>
     db1 = db\<lparr>db_transitions := db_transitions db @ [\<lparr>xr_transition_id = tid, xr_entity_type = et, xr_entity_id = eid,
        xr_from_state = nullString from, xr_to_state = to, xr_recorded_at = now, xr_context = ctx\<rparr>]\<rparr>"
  by (auto simp: AppendTransition_def)

lemma aside_append: "AppendTransition tid et eid from to now ctx db = Inr db1 \<Longrightarrow> et \<noteq> intent_entity \<Longrightarrow> aside db db1"
  by (auto simp: AppendTransition_Inr aside_def other_rows_def)

lemma some_row_simps [simp]: "some_row e (Some x) = Inr x" "some_row e None = Inl e"
  by (simp_all add: some_row_def)

lemma some_row_Inr [simp]: "some_row e r = Inr x \<longleftrightarrow> r = Some x"
  by (simp add: some_row_def split: option.split)

lemma some_row_Inl [simp]: "some_row e r = Inl d \<longleftrightarrow> r = None \<and> d = e"
  by (auto simp: some_row_def split: option.split)

lemma aside_materialize: "materializeLaneTx route dest db = Inr db1 \<Longrightarrow> aside db db1"
  by (auto simp: materializeLaneTx_def intro: aside_step split: if_splits)

lemma aside_lane: "applyLaneTransition route dest snap to reason ev now ctx db = Inr db1 \<Longrightarrow> aside db db1"
  by (auto simp: applyLaneTransition_def Let_def result_simps dest!: aside_append aside_materialize intro: aside_trans)

lemma aside_hold: "routeUncertainHoldTx snap dest reason ev now ctx db = Inr db1 \<Longrightarrow> aside db db1"
  by (auto simp: routeUncertainHoldTx_def Let_def result_simps dest!: aside_append aside_lane intro: aside_trans)

lemma aside_group: "group_audit g reason to now ctx db = Inr db1 \<Longrightarrow> aside db db1"
  by (auto simp: group_audit_def dest: aside_append)

lemma aside_acquire_slot: "acquireGroupSlotTx route dest did actor now db = Inr db1 \<Longrightarrow> aside db db1"
  by (auto simp: acquireGroupSlotTx_def result_simps split: option.splits if_splits dest!: aside_group)

lemma aside_release: "releaseGroupSlotTx route dest did actor now db = Inr db1 \<Longrightarrow> aside db db1"
  by (auto simp: releaseGroupSlotTx_def Let_def result_simps split: option.splits if_splits list.splits dest!: aside_group)

lemma aside_transfer: "transferGroupSlotTx route dest d1 d2 actor now db = Inr db1 \<Longrightarrow> aside db db1"
  by (auto simp: transferGroupSlotTx_def result_simps split: option.splits if_splits dest!: aside_group)

lemma aside_enqueue: "enqueue_in resolver route event transition dest source now db = Inr db1 \<Longrightarrow> aside db db1"
  by (auto simp: enqueue_in_def result_simps intro: aside_step)

lemma aside_attributions: "save_attributions oid now as db = Inr db1 \<Longrightarrow> aside db db1"
  by (induction oid now as db rule: save_attributions.induct) (auto split: if_splits simp: aside_def)

lemma aside_observation: "SaveObservation ob db = Inr db1 \<Longrightarrow> aside db db1"
  by (auto simp: SaveObservation_def result_simps aside_def dest!: aside_attributions)

lemma aside_batch: "SaveBatch b db = Inr db1 \<Longrightarrow> aside db db1"
  by (auto simp: SaveBatch_def result_simps intro: aside_step)

lemma aside_insert_decision: "insert_decision d db = Inr db1 \<Longrightarrow> aside db db1"
  by (auto simp: insert_decision_def result_simps intro: aside_step)

lemma aside_decision: "SaveDecision d db = Inr db1 \<Longrightarrow> aside db db1"
  by (simp add: SaveDecision_def aside_insert_decision)

lemma aside_aggregate: "insert_aggregate i f origin db = Inr db1 \<Longrightarrow> aside db db1"
  by (auto simp: insert_aggregate_def AppendTransition_Inr aside_def other_rows_def split: if_splits)

lemma aside_revisions: "save_revisions route now vs db = Inr db1 \<Longrightarrow> aside db db1"
  by (induction route now vs db rule: save_revisions.induct) (auto split: if_splits simp: aside_def)

lemma aside_child: "insert_child c db = Inr db1 \<Longrightarrow> aside db db1"
  by (auto simp: insert_child_def result_simps intro: aside_step)

lemma aside_fanout: "saveFanoutTx i f db = Inr db1 \<Longrightarrow> aside db db1"
  by (auto simp: saveFanoutTx_def result_simps dest!: aside_aggregate aside_revisions aside_child intro: aside_trans)

lemma aside_facts: "upsertPathFacts resource cs now db = Inr db1 \<Longrightarrow> aside db db1"
  by (auto simp: upsertPathFacts_def split: if_splits intro: aside_step)


section \<open>The audit history of an intent\<close>

definition state_of :: "string \<Rightarrow> Db \<Rightarrow> IntentState option" where
  "state_of did db = map_option it_state (intent_of did db)"

definition trail :: "string \<Rightarrow> Db \<Rightarrow> (string option \<times> string) list" where
  "trail did db = map (\<lambda>x. (xr_from_state x, xr_to_state x))
     (filter (\<lambda>x. xr_entity_type x = intent_entity \<and> xr_entity_id x = did) (db_transitions db))"

text \<open>The documented edges, the creation, and the reset of a waiting retry that stays where it is.\<close>

definition audit_edge :: "IntentState option \<Rightarrow> IntentState \<Rightarrow> bool" where
  "audit_edge s v = (case s of None \<Rightarrow> v = IntentReady
     | Some u \<Rightarrow> CanTransitionIntent u v \<or> (u = IntentRetryWait \<and> v = IntentRetryWait))"

fun follows :: "IntentState option \<Rightarrow> (string option \<times> string) list \<Rightarrow> IntentState option \<Rightarrow> bool" where
  "follows s [] t = (s = t)"
| "follows s ((f, g) # es) t =
     (f = map_option IntentState_str s \<and>
      (case ParseIntentState g of Inl e \<Rightarrow> False | Inr v \<Rightarrow> audit_edge s v \<and> follows (Some v) es t))"

definition audited :: "Db \<Rightarrow> bool" where
  "audited db \<longleftrightarrow> distinct (map it_dispatch_id (db_intents db)) \<and> (\<forall>did. follows None (trail did db) (state_of did db))"

lemma follows_snoc:
  "follows s es u \<Longrightarrow> audit_edge u v \<Longrightarrow> f = map_option IntentState_str u \<Longrightarrow>
   follows s (es @ [(f, IntentState_str v)]) (Some v)"
  by (induction s es u rule: follows.induct) (auto simp: intentState.parse_text split: sum.splits)

lemma edge_of_valid: "ValidateIntentTransition s v r ev = Inr () \<Longrightarrow> audit_edge (Some s) v"
  by (auto simp: audit_edge_def CanTransitionIntent_def ValidateIntentTransition_def split: option.splits)

text \<open>\<open>quiet\<close>: no intent changes its state. \<open>advances\<close>: one intent takes one edge, and its history says so.\<close>

definition quiet :: "Db \<Rightarrow> Db \<Rightarrow> bool" where
  "quiet db db1 \<longleftrightarrow> map it_dispatch_id (db_intents db1) = map it_dispatch_id (db_intents db) \<and>
     (\<forall>did. state_of did db1 = state_of did db \<and> trail did db1 = trail did db)"

definition advances :: "string \<Rightarrow> IntentState \<Rightarrow> Db \<Rightarrow> Db \<Rightarrow> bool" where
  "advances did v db db1 \<longleftrightarrow> map it_dispatch_id (db_intents db1) = map it_dispatch_id (db_intents db) \<and>
     (\<exists>u. state_of did db = Some u \<and> audit_edge (Some u) v \<and>
        trail did db1 = trail did db @ [(Some (IntentState_str u), IntentState_str v)]) \<and> state_of did db1 = Some v \<and>
     (\<forall>d. d \<noteq> did \<longrightarrow> state_of d db1 = state_of d db \<and> trail d db1 = trail d db)"

lemma audited_quiet: "audited db \<Longrightarrow> quiet db db1 \<Longrightarrow> audited db1"
  by (simp add: audited_def quiet_def)

lemma audited_advances: "audited db \<Longrightarrow> advances did v db db1 \<Longrightarrow> audited db1"
  unfolding audited_def advances_def by (metis follows_snoc option.simps(9))

lemma quiet_refl [simp]: "quiet db db"
  by (simp add: quiet_def)

lemma quiet_trans: "quiet a b \<Longrightarrow> quiet b c \<Longrightarrow> quiet a c"
  by (simp add: quiet_def)

lemma quiet_advances: "quiet a b \<Longrightarrow> advances did v b c \<Longrightarrow> advances did v a c"
  unfolding quiet_def advances_def by simp

lemma advances_quiet: "advances did v a b \<Longrightarrow> quiet b c \<Longrightarrow> advances did v a c"
  unfolding quiet_def advances_def by simp

lemma aside_quiet: "aside db db1 \<Longrightarrow> quiet db db1"
  by (auto simp: aside_def quiet_def state_of_def trail_def other_rows_def list_all_iff filter_empty_conv)

lemma state_of_update:
  "(\<And>q. it_dispatch_id (f q) = it_dispatch_id q) \<Longrightarrow>
   state_of d (update_intent did f db) = (if d = did then map_option (it_state \<circ> f) (intent_of d db) else state_of d db)"
  by (auto simp: state_of_def update_intent_def row_of_update_where option.map_comp intro!: option.map_cong0
      dest: row_of_Some)

lemma trail_update [simp]: "trail d (update_intent did f db) = trail d db"
  by (simp add: trail_def update_intent_def)

lemma ids_update:
  "(\<And>q. it_dispatch_id (f q) = it_dispatch_id q) \<Longrightarrow>
   map it_dispatch_id (db_intents (update_intent did f db)) = map it_dispatch_id (db_intents db)"
  by (simp add: update_intent_def map_update_where)

lemma quiet_update:
  "(\<And>q. it_dispatch_id (f q) = it_dispatch_id q) \<Longrightarrow> (\<And>q. it_state (f q) = it_state q) \<Longrightarrow> quiet db (update_intent did f db)"
  by (auto simp: quiet_def ids_update state_of_update) (simp add: state_of_def o_def)

text \<open>An update of the intent with the audit row of the edge it takes.\<close>

lemma advances_append:
  assumes "AppendTransition tid intent_entity did (IntentState_str u) (IntentState_str v) now ctx db1 = Inr db2"
    and "state_of did db = Some u" and "audit_edge (Some u) v" and "state_of did db1 = Some v"
    and "map it_dispatch_id (db_intents db1) = map it_dispatch_id (db_intents db)"
    and "\<And>d. d \<noteq> did \<Longrightarrow> state_of d db1 = state_of d db" and "\<And>d. trail d db1 = trail d db"
  shows "advances did v db db2"
proof -
  have n: "nullString (IntentState_str u) = Some (IntentState_str u)" by (cases u) (simp_all add: nullString_def)
  show ?thesis using assms n by (auto simp: advances_def AppendTransition_Inr state_of_def trail_def)
qed

lemma advances_within:
  assumes "transitionWithin did u v r ev now ctx db = Inr db1"
  shows "advances did v db db1"
proof -
  let ?f = "\<lambda>i. i\<lparr>it_state := v, it_updated_at := now\<rparr>"
  from assms have v: "ValidateIntentTransition u v r ev = Inr ()" and s: "state_of did db = Some u"
    and a: "AppendTransition (did @ '':'' @ now @ '':'' @ IntentReason_str r) intent_entity did (IntentState_str u)
        (IntentState_str v) now ctx (update_intent did ?f db) = Inr db1"
    by (auto simp: transitionWithin_def result_simps state_of_def)
  have f: "\<And>q. it_dispatch_id (?f q) = it_dispatch_id q" by simp
  from s have "state_of did (update_intent did ?f db) = Some v"
    by (subst state_of_update) (auto simp: state_of_def)
  then show ?thesis
    by (intro advances_append [OF a s edge_of_valid [OF v]]) (simp_all add: ids_update state_of_update)
qed

section \<open>Births\<close>

definition births :: "string \<Rightarrow> Db \<Rightarrow> Db \<Rightarrow> bool" where
  "births did db db1 \<longleftrightarrow> did \<notin> set (map it_dispatch_id (db_intents db)) \<and>
     map it_dispatch_id (db_intents db1) = map it_dispatch_id (db_intents db) @ [did] \<and> state_of did db1 = Some IntentReady \<and>
     (\<forall>d. trail d db1 = trail d db) \<and> (\<forall>d. d \<noteq> did \<longrightarrow> state_of d db1 = state_of d db)"

text \<open>An intent without its creation row yet.\<close>

definition pending :: "string \<Rightarrow> Db \<Rightarrow> bool" where
  "pending did db \<longleftrightarrow> distinct (map it_dispatch_id (db_intents db)) \<and> state_of did db = Some IntentReady \<and> trail did db = [] \<and>
     (\<forall>d. d \<noteq> did \<longrightarrow> follows None (trail d db) (state_of d db))"

lemma follows_None: "follows s es None \<Longrightarrow> es = [] \<and> s = None"
  by (induction s es "None :: IntentState option" rule: follows.induct) (auto split: sum.splits)

lemma state_of_None: "state_of did db = None \<longleftrightarrow> did \<notin> set (map it_dispatch_id (db_intents db))"
  by (simp add: state_of_def row_of_None)

lemma pending_born: "audited db \<Longrightarrow> births did db db1 \<Longrightarrow> pending did db1"
proof -
  assume a: "audited db" and b: "births did db db1"
  from b have "state_of did db = None" by (simp add: births_def state_of_None)
  with a have "trail did db = []" using follows_None by (metis audited_def)
  with a b show "pending did db1" by (simp add: audited_def births_def pending_def)
qed

lemma pending_quiet: "pending did db \<Longrightarrow> quiet db db1 \<Longrightarrow> pending did db1"
  by (simp add: pending_def quiet_def)

lemma pending_advances: "pending did db \<Longrightarrow> advances d v db db1 \<Longrightarrow> d \<noteq> did \<Longrightarrow> pending did db1"
  unfolding pending_def advances_def by (metis follows_snoc option.simps(9))

lemma pending_created:
  assumes "pending (in_dispatch_id i) db" and "created_audit i now ctx db = Inr db1"
  shows "audited db1"
proof -
  have n: "nullString [] = None" by (simp add: nullString_def)
  have s: "state_of d db1 = state_of d db" and t: "trail d db1 = trail d db @
      (if d = in_dispatch_id i then [(None, IntentState_str IntentReady)] else [])" for d
    using assms(2) by (auto simp: created_audit_def AppendTransition_Inr state_of_def trail_def nullString_def)
  moreover have "map it_dispatch_id (db_intents db1) = map it_dispatch_id (db_intents db)"
    using assms(2) by (auto simp: created_audit_def AppendTransition_Inr)
  ultimately show ?thesis using assms(1)
    using intentState.parse_text [of IntentReady] by (auto simp: audited_def pending_def audit_edge_def)
qed

lemma births_insert:
  assumes "insert_intent r db = Inr db1" and "it_state r = IntentReady"
  shows "births (it_dispatch_id r) db db1"
proof -
  from assms(1) have f: "it_dispatch_id r \<notin> set (map it_dispatch_id (db_intents db))"
    and d: "db1 = db\<lparr>db_intents := db_intents db @ [r]\<rparr>" by (auto simp: insert_intent_def result_simps)
  have "intent_of (it_dispatch_id r) db = None" using f by (simp add: row_of_None)
  with f assms(2) show ?thesis
    by (auto simp: births_def d state_of_def trail_def row_of_append row_of_Cons split: option.split)
qed

lemma births_quiet: "births did a b \<Longrightarrow> quiet b c \<Longrightarrow> births did a c"
  by (simp add: births_def quiet_def)

lemma quiet_births: "quiet a b \<Longrightarrow> births did b c \<Longrightarrow> births did a c"
  by (simp add: births_def quiet_def)

lemma intent_row_sel [simp]: "it_dispatch_id (intent_row i n) = in_dispatch_id i" "it_state (intent_row i n) = IntentReady"
  by (simp_all add: intent_row_def)

lemma aside_optional_fanout:
  "(case fo of None \<Rightarrow> Inr db | Some f \<Rightarrow> saveFanoutTx i f db) = Inr db1 \<Longrightarrow> aside db db1"
  by (auto split: option.splits dest: aside_fanout)

lemma births_SaveIntent:
  assumes "SaveIntent i db = Inr db1"
  shows "births (in_dispatch_id i) db db1"
proof -
  from assms obtain a b c where a: "insert_intent (intent_row i (base_seq i db)) db = Inr a"
    and b: "(case in_fanout i of None \<Rightarrow> Inr a | Some f \<Rightarrow> saveFanoutTx i f a) = Inr b"
    and c: "materializeLaneTx (in_route_id i) (fanout_lane_id i) b = Inr c"
    and d: "db1 = update_lane (in_route_id i) (fanout_lane_id i) (reserve_lane (in_dispatch_id i) (in_generation i)) c"
    by (auto simp: SaveIntent_def result_simps)
  from aside_trans [OF aside_optional_fanout [OF b] aside_materialize [OF c]] have "aside a db1" by (simp add: d)
  from births_quiet [OF births_insert [OF a] aside_quiet [OF this]] show ?thesis by simp
qed

lemma births_takeover:
  assumes "saveIntentTakeOverOriginal i original db = Inr db1"
  shows "births (in_dispatch_id i) db db1"
proof -
  let ?u = "\<lambda>c. update_lane (in_route_id i) (fanout_lane_id i) (reserve_lane (in_dispatch_id i) (in_generation i)) c"
  from assms obtain a b c e where a: "insert_intent (intent_row i 0) db = Inr a"
    and b: "(case in_fanout i of None \<Rightarrow> Inr a | Some f \<Rightarrow> saveFanoutTx i f a) = Inr b"
    and c: "materializeLaneTx (in_route_id i) (fanout_lane_id i) b = Inr c"
    and d: "transferGroupSlotTx (in_route_id i) (fanout_lane_id i) original (in_dispatch_id i) ''operator-rerun''
        (normalizeTimestamp (in_created_at i)) (?u c) = Inr e"
    and f: "aside e db1"
    by (auto simp: saveIntentTakeOverOriginal_def Let_def result_simps split: if_splits)
  from aside_transfer [OF d] have "aside c e" by simp
  from aside_trans [OF aside_trans [OF aside_optional_fanout [OF b] aside_materialize [OF c]] aside_trans [OF this f]]
  have "aside a db1" .
  from births_quiet [OF births_insert [OF a] aside_quiet [OF this]] show ?thesis by simp
qed


section \<open>The methods that only coordinate\<close>

lemma aside_union: "unionBatchSelectionTx bid selected db = Inr db1 \<Longrightarrow> aside db db1"
  by (auto simp: unionBatchSelectionTx_def result_simps intro: aside_step split: if_splits)

lemma aside_consume: "consume_reservation snap dest actor now db = Inr (db1, snap1) \<Longrightarrow> aside db db1"
  by (auto simp: consume_reservation_def result_simps dest!: aside_lane aside_acquire_slot intro: aside_trans split: if_splits)

lemma aside_mark: "mark_dirty snap dest after actor now bid db = Inr db1 \<Longrightarrow> aside db db1"
  by (auto simp: mark_dirty_def Let_def dest: aside_lane split: if_splits)

lemma merge_one_steps:
  assumes "merge_one route dest actor now bid db = Inr (db1, after, idle)"
  obtains a snap and own :: LaneRow and counts where "materializeLaneTx route dest db = Inr a"
    and "laneSnapshotInTx route dest a = Inr snap" and "lane_of route dest a = Some own"
    and "(if rs_state snap = RouteIdle \<and> rs_active_dispatch_id snap = [] then waits_for_group snap dest a else Inr True) = Inr counts"
    and "\<not> counts" and "db1 = a" and "after = None" and "idle"
  | a snap b snap2 c and own :: LaneRow where "materializeLaneTx route dest db = Inr a"
    and "laneSnapshotInTx route dest a = Inr snap" and "lane_of route dest a = Some own"
    and "consume_reservation snap dest actor now a = Inr (b, snap2)"
    and "mark_dirty snap2 dest (la_dirty_generation own + 1) actor now bid b = Inr c"
    and "db1 = update_lane route dest (raise_dirty (la_dirty_generation own + 1) now) c"
    and "after = Some (la_dirty_generation own + 1)"
    and "idle = (rs_state snap = RouteIdle \<and> rs_active_dispatch_id snap = [])"
proof -
  from assms obtain a snap and own :: LaneRow and counts where a: "materializeLaneTx route dest db = Inr a"
    and s: "laneSnapshotInTx route dest a = Inr snap" and l: "lane_of route dest a = Some own"
    and c: "(if rs_state snap = RouteIdle \<and> rs_active_dispatch_id snap = [] then waits_for_group snap dest a else Inr True) = Inr counts"
    and r: "(if \<not> counts then Inr (a, None, True)
        else bindE (consume_reservation snap dest actor now a) (\<lambda>(db2, snap2).
          bindE (mark_dirty snap2 dest (la_dirty_generation own + 1) actor now bid db2) (\<lambda>db3.
            Inr (update_lane route dest (raise_dirty (la_dirty_generation own + 1) now) db3, Some (la_dirty_generation own + 1),
              rs_state snap = RouteIdle \<and> rs_active_dispatch_id snap = [])))) = Inr (db1, after, idle)"
    unfolding merge_one_def Let_def bindE_Inr_iff some_row_Inr by (elim exE conjE) (rule that)
  show thesis
  proof (cases counts)
    case False
    with r that(1) [OF a s l c] show thesis by simp
  next
    case True
    with r that(2) [OF a s l] show thesis by (auto simp: result_simps)
  qed
qed

lemma aside_merge_one: "merge_one route dest actor now bid db = Inr (db1, after, idle) \<Longrightarrow> aside db db1"
  by (erule merge_one_steps)
    (auto dest!: aside_materialize aside_consume aside_mark intro: aside_trans)

lemma aside_merge_each: "merge_each route dests actor now bid db n b = Inr (db1, m, idle) \<Longrightarrow> aside db db1"
proof (induction dests arbitrary: db n b)
  case (Cons d ds)
  then show ?case by (auto simp: result_simps dest!: aside_merge_one intro: aside_trans)
qed simp

lemma aside_owe: "owe_reconcile resolver route actor now bid db = Inr db1 \<Longrightarrow> aside db db1"
  by (auto simp: owe_reconcile_def result_simps intro: aside_step)

lemma aside_refresh [simp]: "aside db (refresh_hold route now db1) = aside db db1"
  by (simp add: refresh_hold_def)

lemma aside_merge: "mergeLanesTx resolver route selected actor now bid db = Inr (db1, m) \<Longrightarrow> aside db db1"
  unfolding mergeLanesTx_def
  by (auto simp: result_simps simp del: merge_each.simps dest!: aside_merge_each aside_owe intro: aside_trans split: if_splits)

lemma aside_merge_pending: "commit_merge_pending resolver lin dests selected actor now db = Inr (db1, m) \<Longrightarrow> aside db db1"
  by (auto simp: commit_merge_pending_def Let_def result_simps dest!: aside_observation aside_batch aside_decision aside_merge
      intro: aside_trans)

lemma aside_merge_selected:
  "merge_selected_lanes resolver route bid dests selected actor now db = Inr (db1, m) \<Longrightarrow> aside db db1"
  by (auto simp: merge_selected_lanes_def result_simps dest!: aside_union aside_merge intro: aside_trans)

lemma aside_activate: "activate_dispatch did actor now db = Inr (db1, u) \<Longrightarrow> aside db db1"
proof -
  assume a: "activate_dispatch did actor now db = Inr (db1, u)"
  have l: "aside x (y\<lparr>db_lanes := ls\<rparr>) = aside x y" "aside (y\<lparr>db_lanes := ls\<rparr>) x = aside y x" for x y ls
    by (simp_all add: aside_def)
  from a show ?thesis
    by (auto simp: activate_dispatch_def Let_def result_simps l split: prod.splits if_splits dest!: aside_lane aside_acquire_slot
        intro: aside_trans)
qed

lemma aside_activate_followup: "activate_followup did actor now db = Inr (db1, u) \<Longrightarrow> aside db db1"
  by (auto simp: activate_followup_def Let_def result_simps case_prod_beta dest!: aside_lane aside_acquire_slot
      aside_materialize intro: aside_trans)

lemma aside_stale: "mark_route_stale route actor reason now db = Inr (db1, u) \<Longrightarrow> aside db db1"
  by (auto simp: mark_route_stale_def Let_def result_simps split: if_splits dest!: aside_hold)

lemma aside_create_groups: "create_groups actor now gids db = Inr db1 \<Longrightarrow> aside db db1"
proof (induction gids arbitrary: db)
  case (Cons g gs)
  have l: "aside (y\<lparr>db_groups := ls\<rparr>) x = aside y x" for x y ls
    by (simp add: aside_def)
  from Cons show ?case by (auto simp: result_simps l dest!: aside_append intro: aside_trans split: if_splits)
qed simp

lemma aside_recompute: "recompute_group active actor now g db = Inr (db1, g1) \<Longrightarrow> aside db db1"
  by (auto simp: recompute_group_def Let_def result_simps split: prod.splits if_splits dest!: aside_group)

lemma aside_recompute_all: "recompute_groups holders actor now gids db = Inr (db1, cs) \<Longrightarrow> aside db db1"
proof (induction gids arbitrary: db cs)
  case (Cons g gs)
  then show ?case by (auto simp: result_simps dest!: aside_recompute intro: aside_trans)
qed simp

lemma aside_topology: "materializeSerializationGroupsTx members actor now db = Inr (db1, cs) \<Longrightarrow> aside db db1"
proof -
  assume a: "materializeSerializationGroupsTx members actor now db = Inr (db1, cs)"
  have l: "aside (y\<lparr>db_members := ls\<rparr>) x = aside y x" for x y ls
    by (simp add: aside_def)
  from a show ?thesis
    by (auto simp: materializeSerializationGroupsTx_def Let_def result_simps l dest!: aside_create_groups aside_recompute_all
        intro: aside_trans)
qed

lemma aside_route: "applyRouteTransition snap to reason ev now ctx db = Inr db1 \<Longrightarrow> aside db db1"
  by (auto simp: applyRouteTransition_def result_simps dest: aside_append)

lemma aside_pending: "notify_pending resolver route occ source now db = Inr db1 \<Longrightarrow> aside db db1"
  by (auto simp: notify_pending_def result_simps intro: aside_step)

lemma aside_arrival: "save_arrival lin db = Inr db1 \<Longrightarrow> aside db db1"
  by (auto simp: save_arrival_def result_simps dest!: aside_observation aside_batch aside_decision intro: aside_trans)

lemma aside_insert_hold: "insert_hold q db = Inr db1 \<Longrightarrow> aside db db1"
  by (auto simp: insert_hold_def result_simps intro: aside_step split: option.splits)

lemma hold_entity [simp]: "hold_entity \<noteq> intent_entity"
  by (simp add: hold_entity_def intent_entity_def)

lemma aside_quarantine: "commit_quarantine resolver lin q db = Inr (db1, u) \<Longrightarrow> aside db db1"
  by (auto simp: commit_quarantine_def result_simps dest!: aside_arrival aside_insert_hold aside_append aside_enqueue intro: aside_trans)

lemma aside_reconcile_lineage: "commit_reconcile_lineage resolver lin position db = Inr (db1, u) \<Longrightarrow> aside db db1"
  by (auto simp: commit_reconcile_lineage_def Let_def result_simps dest!: aside_arrival aside_pending aside_append intro: aside_trans)

lemma aside_mark_pending: "mark_pending_reconcile resolver route position now db = Inr (db1, u) \<Longrightarrow> aside db db1"
  by (auto simp: mark_pending_reconcile_def result_simps dest!: aside_pending)

lemma aside_clear_pending: "clear_pending route expected now db = Inr (db1, u) \<Longrightarrow> aside db db1"
  by (auto simp: clear_pending_def Let_def)

lemma aside_release_work: "release_work resolver qid actor now rep rrev prev d db = Inr db1 \<Longrightarrow> aside db db1"
  by (auto simp: release_work_def result_simps dest!: aside_insert_decision aside_pending intro: aside_trans)

lemma aside_resolve_hold: "resolve_quarantine resolver qid to actor reason now revs db = Inr (db1, r) \<Longrightarrow> aside db db1"
  by (cases revs) (auto simp: resolve_quarantine_def Let_def result_simps dest!: aside_release_work aside_append intro: aside_trans)

lemma aside_held_lane: "resolveHeldLaneTx route dest work actor now db = Inr db1 \<Longrightarrow> aside db db1"
proof -
  assume h: "resolveHeldLaneTx route dest work actor now db = Inr db1"
  then obtain a snap where a: "materializeLaneTx route dest db = Inr a" and s: "laneSnapshotInTx route dest a = Inr snap"
    by (auto simp: resolveHeldLaneTx_def result_simps)
  from h a s have "aside a db1"
    by (cases "rs_state snap") (auto simp: resolveHeldLaneTx_def result_simps dest!: aside_lane intro: aside_trans split: if_splits)
  with a show ?thesis by (blast intro: aside_trans aside_materialize)
qed

lemma aside_replace_facts: "replace_path_facts resource expected facts now db = Inr (db1, u) \<Longrightarrow> aside db db1"
  by (auto simp: replace_path_facts_def result_simps)

section \<open>Every method keeps the history\<close>

lemma audited_aside: "audited db \<Longrightarrow> aside db db1 \<Longrightarrow> audited db1"
  by (blast intro: audited_quiet aside_quiet)

lemma pending_aside: "pending did db \<Longrightarrow> aside db db1 \<Longrightarrow> pending did db1"
  by (blast intro: pending_quiet aside_quiet)

lemma keeps_lineage:
  assumes "commit_lineage lin db = Inr (db1, u)" and "audited db"
  shows "audited db1"
proof -
  let ?i = "ln_intent lin"
  from assms(1) obtain a b c d e ctx where s: "SaveObservation (ln_observation lin) db = Inr a" "SaveBatch (ln_batch lin) a = Inr b"
      "SaveDecision (ln_decision lin) b = Inr c" and i: "SaveIntent ?i c = Inr d"
    and f: "upsertPathFacts (ob_resource_id (ln_observation lin)) (ob_changes (ln_observation lin))
        (ob_received_at (ln_observation lin)) d = Inr e"
    and t: "created_audit ?i (in_created_at ?i) ctx e = Inr db1"
    unfolding commit_lineage_def Let_def by (auto simp: result_simps)
  from assms(2) s have "audited c" by (meson audited_aside aside_observation aside_batch aside_decision)
  from pending_aside [OF pending_born [OF this births_SaveIntent [OF i]] aside_facts [OF f]] t
  show ?thesis by (rule pending_created)
qed

lemma keeps_child:
  assumes "commit_fanout_child i db = Inr (db1, u)" and "audited db"
  shows "audited db1"
proof -
  from assms(1) obtain a ctx where i: "SaveIntent i db = Inr a" and t: "created_audit i (in_created_at i) ctx a = Inr db1"
    unfolding commit_fanout_child_def Let_def by (auto simp: result_simps)
  from pending_born [OF assms(2) births_SaveIntent [OF i]] t show ?thesis by (rule pending_created)
qed

lemma keeps_dead_letter: "dead_letter_rejected did actor now db = Inr (db1, u) \<Longrightarrow> audited db \<Longrightarrow> audited db1"
  by (auto simp: dead_letter_rejected_def result_simps split: if_splits dest: advances_within audited_advances)

lemma keeps_close:
  assumes "close_dead_letter did actor reason now db = Inr (db1, out)" and "audited db"
  shows "audited db1"
proof -
  from assms(1) obtain a b ctx route dest where a: "transitionWithin did IntentDeadLettered IntentSuperseded ReasonReprocessOrDiscard
        (no_intent_evidence\<lparr>ie_actor := actor\<rparr>) now ctx db = Inr a"
    and b: "releaseGroupSlotTx route dest did actor now (free_slot route dest did a) = Inr b"
    and c: "db1 = b \<or> (\<exists>snap ctx2. applyLaneTransition route dest snap RouteIdle ReasonWorkCompletedClean
        (no_route_evidence\<lparr>rv_actor := actor, rv_receipt_ref := ''discard:'' @ did\<rparr>) now ctx2 b = Inr db1)"
    unfolding close_dead_letter_def Let_def by (auto simp: result_simps split: if_splits) blast+
  from assms(2) have "audited a" by (rule audited_advances [OF _ advances_within [OF a]])
  moreover have "aside a b" using aside_release [OF b] by simp
  moreover have "aside b db1" using c by (auto dest: aside_lane)
  ultimately show ?thesis by (blast intro: audited_aside)
qed

lemma keeps_reconcile:
  assumes "reconcile_unknown did actor lookup exhausted now db = Inr (db1, to)" and "audited db"
  shows "audited db1"
proof -
  obtain v r where v: "lookup_outcome lookup exhausted = (v, r)" by (rule prod.exhaust)
  let ?done = "\<lambda>q. q\<lparr>it_external_ref := nullString (lk_external_ref lookup), it_updated_at := now\<rparr>"
  from assms(1) v obtain a b c1 c2 e1 e2 where a: "transitionWithin did IntentUnknown IntentReconciling ReasonLookupStarted e1 now c1 db = Inr a"
    and b: "transitionWithin did IntentReconciling v r e2 now c2 a = Inr b"
    and c: "db1 = (if v = IntentAccepted then update_intent did ?done b else b)"
    by (auto simp: reconcile_unknown_def result_simps)
  have c: "quiet b db1" unfolding c by (simp add: quiet_update)
  from assms(2) a b c show ?thesis by (meson advances_within audited_advances audited_quiet)
qed


lemma found_row:
  assumes "distinct (map it_dispatch_id (db_intents db))" and "find P (db_intents db) = Some i"
    and "\<And>q. P q \<Longrightarrow> it_dispatch_id q = did"
  shows "intent_of did db = Some i" and "P i"
proof -
  from assms(2) have i: "i \<in> set (db_intents db)" and p: "P i" by (auto simp: find_Some_iff)
  from p show "P i" .
  from row_of_in [OF assms(1) i] assms(3) [OF p] show "intent_of did db = Some i" by simp
qed

text \<open>A conditional update of one intent takes the rows that meet the condition to state \<open>v\<close>.\<close>

lemma conditional_update:
  assumes "distinct (map it_dispatch_id (db_intents db))" and "intent_of did db = Some i" and "P i"
    and "\<And>q. P q \<Longrightarrow> it_dispatch_id q = did" and "\<And>q. it_dispatch_id (f q) = it_dispatch_id q"
    and "\<And>q. it_state (f q) = v" and "db_intents db1 = update_where P f (db_intents db)"
  shows "state_of did db1 = Some v" and "map it_dispatch_id (db_intents db1) = map it_dispatch_id (db_intents db)"
    and "d \<noteq> did \<Longrightarrow> state_of d db1 = state_of d db"
proof -
  have r: "intent_of d db1 = map_option (\<lambda>r. if P r then f r else r) (intent_of d db)" for d
    unfolding assms(7) by (rule row_of_update_where) (simp add: assms(5))
  show "state_of did db1 = Some v" using assms(2,3,6) by (simp add: state_of_def r)
  show "map it_dispatch_id (db_intents db1) = map it_dispatch_id (db_intents db)"
    unfolding assms(7) by (rule map_update_where) (simp add: assms(5))
  show "state_of d db1 = state_of d db" if "d \<noteq> did"
  proof (cases "intent_of d db")
    case (Some q)
    then have "it_dispatch_id q = d" by (auto dest: row_of_Some)
    with assms(4) that have "\<not> P q" by blast
    with Some show ?thesis by (simp add: state_of_def r)
  qed (simp add: state_of_def r)
qed

lemma trail_same: "db_transitions db1 = db_transitions db \<Longrightarrow> trail d db1 = trail d db"
  by (simp add: trail_def)

lemma conditional_advance:
  assumes d: "distinct (map it_dispatch_id (db_intents db))" and i: "find P (db_intents db) = Some i"
    and p: "\<And>q. P q \<Longrightarrow> it_dispatch_id q = did" and f: "\<And>q. it_dispatch_id (f q) = it_dispatch_id q" "\<And>q. it_state (f q) = v"
    and b: "db_intents b = update_where P f (db_intents db)" "db_transitions b = db_transitions db"
    and v: "ValidateIntentTransition (it_state i) v r ev = Inr ()"
    and t: "AppendTransition tid intent_entity did (IntentState_str (it_state i)) (IntentState_str v) now ctx b = Inr c"
  shows "advances did v db c"
proof -
  have fr: "intent_of did db = Some i" "P i" using found_row [where P = P, OF d i] p by blast+
  note cu = conditional_update [where P = P and f = f, OF d fr p f b(1)]
  from fr(1) have s: "state_of did db = Some (it_state i)" by (simp add: state_of_def)
  show ?thesis by (rule advances_append [OF t s edge_of_valid [OF v]]) (simp_all add: cu trail_same [OF b(2)])
qed

lemma acquire_steps:
  assumes "acquire_attempt req db = Inr (db1, aid)"
  obtains i a where "find (acquirable db (aa_dispatch_id req) (normalizeTimestamp (aa_now req))) (db_intents db) = Some i"
    and "advances (aa_dispatch_id req) IntentSubmitting db a \<or> \<not> distinct (map it_dispatch_id (db_intents db))"
    and "aside a db1"
    and "db_intents a = update_where (acquirable db (aa_dispatch_id req) (normalizeTimestamp (aa_now req)))
      (lease_row (aa_owner req) (normalizeTimestamp (aa_lease_expires_at req)) (normalizeTimestamp (aa_next_attempt_at req))
        (normalizeTimestamp (aa_now req))) (db_intents db)"
proof -
  let ?did = "aa_dispatch_id req" and ?now = "normalizeTimestamp (aa_now req)"
  let ?exp = "normalizeTimestamp (aa_lease_expires_at req)"
  let ?P = "acquirable db ?did ?now"
  let ?f = "lease_row (aa_owner req) ?exp (normalizeTimestamp (aa_next_attempt_at req)) ?now"
  from assms obtain i where i: "find ?P (db_intents db) = Some i"
    by (auto simp: acquire_attempt_def Let_def split: option.splits)
  let ?db = "db\<lparr>db_intents := update_where ?P ?f (db_intents db), db_attempts := db_attempts db @ [attempt_of req ?now i]\<rparr>"
  from assms i obtain r ev ctx tid a where a: "appendValidatedTransition tid ?did (it_state i) IntentSubmitting r ev ?now ctx ?db = Inr a"
    and b: "acquireGroupSlotTx (fst (laneOfDispatch ?did a)) (snd (laneOfDispatch ?did a)) ?did (aa_owner req) ?now a = Inr db1"
    unfolding acquire_attempt_def Let_def by (auto simp: result_simps case_prod_beta)
  from a have v: "ValidateIntentTransition (it_state i) IntentSubmitting r ev = Inr ()"
    and t: "AppendTransition tid intent_entity ?did (IntentState_str (it_state i)) (IntentState_str IntentSubmitting) ?now ctx ?db = Inr a"
    by (auto simp: appendValidatedTransition_def result_simps)
  have "advances ?did IntentSubmitting db a" if "distinct (map it_dispatch_id (db_intents db))"
    by (rule conditional_advance [where P = ?P and f = ?f, OF that i _ _ _ _ _ v t]) (simp_all add: acquirable_def lease_row_def)
  moreover from t have "db_intents a = update_where ?P ?f (db_intents db)" by (auto simp: AppendTransition_Inr)
  ultimately show thesis using that [OF i _ aside_acquire_slot [OF b]] by blast
qed

lemma keeps_acquire: "acquire_attempt req db = Inr (db1, aid) \<Longrightarrow> audited db \<Longrightarrow> audited db1"
  by (erule acquire_steps) (metis audited_advances audited_aside audited_def)


lemma quiet_receipts [simp]: "quiet db (db1\<lparr>db_receipts := rs\<rparr>) = quiet db db1"
  by (simp add: quiet_def state_of_def trail_def)

lemma quiet_receipt:
  assumes "save_receipt rc i now db = Inr db1"
  shows "quiet db db1"
proof -
  have u: "quiet db (update_intent d (\<lambda>q. q\<lparr>it_external_ref := r, it_updated_at := now\<rparr>) (db\<lparr>db_receipts := rs\<rparr>))" for d r rs
    by (rule quiet_trans [OF _ quiet_update]) simp_all
  from assms show ?thesis by (auto simp: save_receipt_def Let_def result_simps u split: if_splits)
qed

lemma complete_steps:
  assumes "complete_attempt resolver res db = Inr (db1, u)"
  obtains i a b where "intent_of (ar_dispatch_id res) db = Some i"
    and "advances (ar_dispatch_id res) (at_to (ar_transition res)) db b" and "aside b db1"
proof -
  let ?did = "ar_dispatch_id res" and ?now = "normalizeTimestamp (ar_completed_at res)" and ?v = "at_to (ar_transition res)"
  let ?f = "end_lease ?v (ar_next_attempt_at res) ?now"
  let ?a = "\<lambda>ts. (update_intent ?did ?f db)\<lparr>db_attempts := ts\<rparr>"
  from assms obtain i ts c ctx b where i: "intent_of ?did db = Some i"
    and v: "ValidateIntentTransition (it_state i) ?v (at_reason (ar_transition res)) (at_evidence (ar_transition res)) = Inr ()"
    and r: "(case ar_receipt res of None \<Rightarrow> Inr (?a ts) | Some rc \<Rightarrow> save_receipt rc i ?now (?a ts)) = Inr c"
    and t: "appendValidatedTransition (at_transition_id (ar_transition res)) ?did (it_state i) ?v (at_reason (ar_transition res))
        (at_evidence (ar_transition res)) ?now ctx c = Inr b"
    and e: "aside b db1"
    unfolding complete_attempt_def Let_def by (auto simp: result_simps dest: aside_enqueue split: if_splits)
  have f: "\<And>q. it_dispatch_id (?f q) = it_dispatch_id q" "\<And>q. it_state (?f q) = ?v" by (simp_all add: end_lease_def)
  have q: "quiet (?a ts) c" using r by (auto split: option.splits dest: quiet_receipt)
  have a: "map it_dispatch_id (db_intents (?a ts)) = map it_dispatch_id (db_intents db)"
    "\<And>d. state_of d (?a ts) = (if d = ?did then Some ?v else state_of d db)" "\<And>d. trail d (?a ts) = trail d db"
    using ids_update [of ?f, OF f(1)] state_of_update [of ?f, OF f(1)] i trail_update
    by (simp_all add: state_of_def trail_def f)
  from t have t: "AppendTransition (at_transition_id (ar_transition res)) intent_entity ?did (IntentState_str (it_state i))
      (IntentState_str ?v) ?now ctx c = Inr b" by (auto simp: appendValidatedTransition_def result_simps)
  have s: "state_of ?did db = Some (it_state i)" using i by (simp add: state_of_def)
  have "advances ?did ?v db b"
    by (rule advances_append [OF t s edge_of_valid [OF v]]) (use q a in \<open>simp_all add: quiet_def\<close>)
  with that i e show thesis by blast
qed

lemma keeps_complete: "complete_attempt resolver res db = Inr (db1, u) \<Longrightarrow> audited db \<Longrightarrow> audited db1"
  by (erule complete_steps) (metis audited_advances audited_aside)

lemma recover_steps:
  assumes "recover_one resolver r now db = Inr (db1, tid)" and "distinct (map it_dispatch_id (db_intents db))"
  obtains "db1 = db" "affected (\<lambda>i. it_dispatch_id i = rl_dispatch_id r \<and> lease_over now i) (db_intents db) = 0"
    | i a where "intent_of (rl_dispatch_id r) db = Some i" and "lease_over now i"
      and "advances (rl_dispatch_id r) IntentUnknown db a" and "aside a db1"
proof (cases "affected (\<lambda>i. it_dispatch_id i = rl_dispatch_id r \<and> lease_over now i) (db_intents db) = 0")
  case True
  with assms(1) that(1) show thesis by (simp add: recover_one_def Let_def)
next
  case False
  let ?did = "rl_dispatch_id r" and ?P = "\<lambda>i. it_dispatch_id i = rl_dispatch_id r \<and> lease_over now i"
  let ?f = "\<lambda>i. i\<lparr>it_state := IntentUnknown, it_lease_owner := None, it_lease_expires_at := None, it_updated_at := now\<rparr>"
  let ?b = "\<lambda>ts. db\<lparr>db_intents := update_where ?P ?f (db_intents db), db_attempts := ts\<rparr>"
  from False have "\<exists>i \<in> set (db_intents db). ?P i" by (auto simp: affected_0 list_all_iff)
  then have "find ?P (db_intents db) \<noteq> None" unfolding find_None_iff by blast
  then obtain i where i: "find ?P (db_intents db) = Some i" by blast
  have fr: "intent_of ?did db = Some i" "?P i" using found_row [where P = ?P, OF assms(2) i] by blast+
  from assms(1) False obtain t ctx ts a where t: "appendValidatedTransition t ?did IntentSubmitting IntentUnknown
        ReasonAmbiguousOutcome no_intent_evidence now ctx (?b ts) = Inr a" and e: "aside a db1"
    unfolding recover_one_def Let_def by (auto simp: result_simps dest: aside_enqueue)
  have s: "it_state i = IntentSubmitting" using fr(2) by (simp add: lease_over_def)
  from t have v: "ValidateIntentTransition (it_state i) IntentUnknown ReasonAmbiguousOutcome no_intent_evidence = Inr ()"
    and t: "AppendTransition t intent_entity ?did (IntentState_str (it_state i)) (IntentState_str IntentUnknown) now ctx (?b ts) = Inr a"
    by (auto simp: appendValidatedTransition_def result_simps s)
  have "advances ?did IntentUnknown db a"
    by (rule conditional_advance [where P = ?P and f = ?f, OF assms(2) i _ _ _ _ _ v t]) simp_all
  with that(2) fr e show thesis by blast
qed

lemma keeps_recover:
  assumes "recover_one resolver r now db = Inr (db1, tid)" and "audited db"
  shows "audited db1"
proof -
  from assms(2) have "distinct (map it_dispatch_id (db_intents db))" by (simp add: audited_def)
  with assms(1) show ?thesis
    by (rule recover_steps) (use assms(2) in \<open>auto intro: audited_aside audited_advances\<close>)
qed

lemma advance_to_ready:
  assumes "AppendTransition tid intent_entity did (IntentState_str u) (IntentState_str v) now ctx (update_intent did f db) = Inr db1"
    and "intent_of did db = Some i" and "it_state i = u" and "audit_edge (Some u) v"
    and "\<And>q. it_dispatch_id (f q) = it_dispatch_id q" and "\<And>q. it_state q = u \<Longrightarrow> it_state (f q) = v"
  shows "advances did v db db1"
  by (rule advances_append [OF assms(1) _ assms(4)])
    (use assms(2,3,5,6) in \<open>simp_all add: state_of_def [of did db] ids_update state_of_update\<close>)

lemma keeps_operator_retry: "apply_operator_retry did actor reason now db = Inr (db1, u) \<Longrightarrow> audited db \<Longrightarrow> audited db1"
proof -
  assume a: "apply_operator_retry did actor reason now db = Inr (db1, u)" and d: "audited db"
  have e: "audit_edge (Some IntentDeadLettered) IntentReady"
    by (simp add: audit_edge_def CanTransitionIntent_def intentTable_def intent_edges_def)
  from a have "advances did IntentReady db db1"
    by (auto simp: apply_operator_retry_def result_simps simp del: IntentState_str.simps intro!: advance_to_ready [OF _ _ _ e])
  with d show ?thesis by (rule audited_advances)
qed

lemma keeps_retry_due: "make_retry_due rnd did actor now db = Inr (db1, u) \<Longrightarrow> audited db \<Longrightarrow> audited db1"
proof -
  assume a: "make_retry_due rnd did actor now db = Inr (db1, u)" and d: "audited db"
  have e: "audit_edge (Some IntentRetryWait) IntentRetryWait" by (simp add: audit_edge_def)
  from a have "advances did IntentRetryWait db db1"
    by (auto simp: make_retry_due_def result_simps simp del: IntentState_str.simps intro!: advance_to_ready [OF _ _ _ e])
  with d show ?thesis by (rule audited_advances)
qed


lemma keeps_rerun:
  assumes "rerun_intent inp db = Inr (db1, u)" and "audited db"
  shows "audited db1"
proof -
  let ?now = "normalizeTimestamp (in_created_at (rr_new inp))"
  let ?new = "(rr_new inp)\<lparr>in_decision_id := ''dec-'' @ in_dispatch_id (rr_new inp)\<rparr>"
  from assms(1) obtain i a b c e f ctx where i: "intent_of (rr_original_dispatch_id inp) db = Some i"
    and a: "(case row_of dw_decision_id (it_decision_id i) (db_decisions db) of None \<Rightarrow> Inr db
        | Some d \<Rightarrow> insert_decision (rerun_decision inp ?now d) db) = Inr a"
    and b: "saveIntentTakeOverOriginal ?new (rr_original_dispatch_id inp) a = Inr b"
    and c: "supersede_original inp ?now b = Inr c" and e: "activate_takeover inp ?now c = Inr e"
    and t: "created_audit ?new ?now ctx e = Inr f" and f: "Inr (f, ()) = (Inr (db1, u) :: db_error + Db \<times> unit)"
    unfolding rerun_intent_def Let_def bindE_Inr_iff some_row_Inr map_err_Inr_iff by (elim exE conjE) (rule that)
  from t f have t: "created_audit ?new ?now ctx e = Inr db1" by simp
  from a have a: "aside db a" by (auto split: option.splits dest: aside_insert_decision)
  note nb = births_takeover [OF b]
  have p: "pending (in_dispatch_id ?new) b" by (rule pending_born [OF audited_aside [OF assms(2) a] nb])
  have "rr_original_dispatch_id inp \<in> set (map it_dispatch_id (db_intents db))"
    using i by (metis option.distinct(1) row_of_None)
  moreover have "in_dispatch_id ?new \<notin> set (map it_dispatch_id (db_intents a))" using nb by (simp add: births_def)
  moreover have "map it_dispatch_id (db_intents a) = map it_dispatch_id (db_intents db)" using a by (simp add: aside_def)
  ultimately have ne: "rr_original_dispatch_id inp \<noteq> in_dispatch_id ?new" by auto
  from c obtain v where "advances (rr_original_dispatch_id inp) v b c"
  proof -
    from c obtain q where "intent_of (rr_original_dispatch_id inp) b = Some q"
      by (auto simp: supersede_original_def Let_def result_simps)
    with c that show thesis
      by (cases "it_state q") (auto simp: supersede_original_def Let_def dest: advances_within)
  qed
  from pending_advances [OF p this ne] have "pending (in_dispatch_id ?new) c" .
  moreover have "aside c e"
  proof -
    from e obtain x snap where x: "aside c x" and "laneSnapshotInTx (in_route_id (rr_new inp)) (fanout_lane_id (rr_new inp)) x = Inr snap"
      and "materializeLaneTx (in_route_id (rr_new inp)) (fanout_lane_id (rr_new inp)) c = Inr x"
      by (auto simp: activate_takeover_def Let_def result_simps dest: aside_materialize)
    with e have "aside x e" by (cases "rs_state snap") (auto simp: activate_takeover_def Let_def dest: aside_lane)
    with x show ?thesis by (rule aside_trans)
  qed
  ultimately have "pending (in_dispatch_id ?new) e" by (rule pending_aside)
  from this t show ?thesis by (rule pending_created)
qed

lemma keeps_activation: "set_route_activation route activation revision fp now db = Inr (db1, u) \<Longrightarrow> aside db db1"
  by (auto simp: set_route_activation_def result_simps)

lemma keeps_followup:
  assumes "create_followup req dest dirty reason db = Inr (db1, f)" and "audited db"
  shows "audited db1"
proof (cases "ac_followup_request req")
  case None
  with assms show ?thesis by (simp add: create_followup_def)
next
  case (Some f0)
  with assms(1) obtain g a b ctx where a: "SaveDecision (followup_decision req g reason) db = Inr a"
    and b: "SaveIntent g a = Inr b" and t: "created_audit g (ac_now req) ctx b = Inr db1"
    unfolding create_followup_def by (auto simp: Let_def result_simps)
  from pending_born [OF audited_aside [OF assms(2) aside_decision [OF a]] births_SaveIntent [OF b]] t
  show ?thesis by (rule pending_created)
qed

lemma keeps_settle:
  assumes "settle_lane req route dest dirty to reason db = Inr (db1, f)" and "audited db"
  shows "audited db1"
proof -
  from assms(1) obtain a where a: "aside db a"
    and b: "db1 = a \<or> create_followup req dest dirty reason (update_runtime route (\<lambda>r. r\<lparr>rr_pending_reconcile := False\<rparr>) a) = Inr (db1, f)"
    by (auto simp: settle_lane_def Let_def result_simps split: if_splits dest!: aside_release)
  have "aside db (update_runtime route (\<lambda>r. r\<lparr>rr_pending_reconcile := False\<rparr>) a)" using a by simp
  with a b assms(2) show ?thesis by (blast intro: audited_aside keeps_followup)
qed

lemma aside_owe_remaining: "owe_remaining req dest snap db = Inr (db1, snap1) \<Longrightarrow> aside db db1"
  by (auto simp: owe_remaining_def result_simps dest: aside_lane split: if_splits)

lemma aside_notify: "notify_work resolver req route dest to reason f db = Inr db1 \<Longrightarrow> aside db db1"
  by (simp add: notify_work_def aside_enqueue)

lemma keeps_apply_completion:
  assumes "apply_completion resolver req route dest dirty snap db = Inr (db1, out)" and "audited db"
  shows "audited db1"
proof -
  obtain to reason where e: "completion_edge req snap = (to, reason)" by (rule prod.exhaust)
  show ?thesis
  proof (cases "to = RouteUncertain")
    case True
    with assms(1) e have "aside db db1"
      by (auto simp: apply_completion_def Let_def result_simps dest!: aside_hold aside_notify intro: aside_trans)
    with assms(2) show ?thesis by (rule audited_aside)
  next
    case False
    with assms(1) e obtain a b f where "aside db a" and b: "settle_lane req route dest dirty to reason a = Inr (b, f)"
      and c: "aside b db1"
      by (auto simp: apply_completion_def Let_def result_simps dest!: aside_lane aside_notify)
    from keeps_settle [OF b audited_aside [OF assms(2) \<open>aside db a\<close>]] c show ?thesis by (rule audited_aside)
  qed
qed

lemma completion_steps:
  assumes "completeActiveTx resolver req db = Inr (db1, out)"
  obtains route dest a snap b snap2 where "laneOfDispatch (ac_dispatch_id req) db = (route, dest)"
    and "materializeLaneTx route dest db = Inr a" and "laneSnapshotInTx route dest a = Inr snap"
    and "IsActive (rs_state snap)" and "rs_active_dispatch_id snap = ac_dispatch_id req"
    and "owe_remaining req dest (snap\<lparr>rs_failure_budget := ac_failure_budget_remaining req\<rparr>) a = Inr (b, snap2)"
    and "\<not> (owes_followup req snap2 \<and> \<not> over_budget req snap2 \<and> ac_followup_request req = None)"
    and "apply_completion resolver req route dest (rs_dirty_generation snap) snap2 b = Inr (db1, out)"
proof -
  obtain route dest where l: "laneOfDispatch (ac_dispatch_id req) db = (route, dest)" by (rule prod.exhaust)
  from assms obtain a snap r where "materializeLaneTx route dest db = Inr a" "laneSnapshotInTx route dest a = Inr snap"
    "IsActive (rs_state snap)" "rs_active_dispatch_id snap = ac_dispatch_id req"
    and o: "owe_remaining req dest (snap\<lparr>rs_failure_budget := ac_failure_budget_remaining req\<rparr>) a = Inr r"
    and "\<not> (owes_followup req (snd r) \<and> \<not> over_budget req (snd r) \<and> ac_followup_request req = None)"
    and "apply_completion resolver req route dest (rs_dirty_generation snap) (snd r) (fst r) = Inr (db1, out)"
    unfolding completeActiveTx_def l prod.case Let_def bindE_Inr_iff guardE_Inr_iff case_prod_beta fst_conv snd_conv
    by (elim exE conjE) (rule that)
  with that [OF l] show thesis by (metis prod.collapse)
qed

lemma keeps_completion:
  assumes "completeActiveTx resolver req db = Inr (db1, out)" and "audited db"
  shows "audited db1"
  using assms(1)
proof (rule completion_steps)
  fix route dest a snap b snap2
  assume "materializeLaneTx route dest db = Inr a"
    and "owe_remaining req dest (snap\<lparr>rs_failure_budget := ac_failure_budget_remaining req\<rparr>) a = Inr (b, snap2)"
    and c: "apply_completion resolver req route dest (rs_dirty_generation snap) snap2 b = Inr (db1, out)"
  then have "aside db b" by (blast intro: aside_trans aside_materialize aside_owe_remaining)
  from keeps_apply_completion [OF c audited_aside [OF assms(2) this]] show ?thesis .
qed

lemma keeps_land:
  assumes "land_resolution route intent actor now db = Inr db1" and "audited db"
  shows "audited db1"
proof (cases intent)
  case None
  with assms show ?thesis by (auto simp: land_resolution_def intro: audited_aside aside_route)
next
  case (Some i)
  let ?i = "i\<lparr>in_created_at := now\<rparr>"
  from Some assms(1) obtain a ctx where a: "SaveIntent ?i db = Inr a" and t: "created_audit i now ctx a = Inr db1"
    by (auto simp: land_resolution_def result_simps)
  have "created_audit ?i now ctx a = Inr db1" using t by (simp add: created_audit_def)
  from pending_born [OF assms(2) births_SaveIntent [OF a]] this show ?thesis by (rule pending_created)
qed

lemma keeps_uncertain:
  assumes "resolve_uncertain resolver route intent dirty pend actor now db = Inr (db1, u)" and "audited db"
  shows "audited db1"
proof -
  from assms(1) obtain a b c e r ctx snap where a: "applyRouteTransition snap RouteFollowupReady r
        (no_route_evidence\<lparr>rv_actor := actor\<rparr>) now ctx db = Inr a"
    and n: "(if intent = None then Inr a
        else notify_pending resolver route (''uncertain-resolved:'' @ rs_active_dispatch_id snap)
          [(''dispatch_id'', rs_active_dispatch_id snap), (''origin'', ''uncertain_resolution''), (''actor'', actor)] now a) = Inr b"
    and bc: "resolveHeldLaneTx route (snd (laneOfDispatch (rs_active_dispatch_id snap) b)) (intent \<noteq> None) actor now b = Inr c"
    and l: "land_resolution route intent actor now (update_runtime route (clear_hold (intent \<noteq> None) now) c) = Inr e"
    and e: "Inr (e, ()) = (Inr (db1, u) :: db_error + Db \<times> unit)"
    unfolding resolve_uncertain_def bindE_Inr_iff guardE_Inr_iff by (elim exE conjE) (rule that)
  from n have ab: "aside a b" by (auto dest: aside_pending split: if_splits)
  from l e have l: "land_resolution route intent actor now (update_runtime route (clear_hold (intent \<noteq> None) now) c) = Inr db1"
    by simp
  from aside_trans [OF aside_trans [OF aside_route [OF a] ab] aside_held_lane [OF bc]]
  have "aside db (update_runtime route (clear_hold (intent \<noteq> None) now) c)" by simp
  from l audited_aside [OF assms(2) this] show ?thesis by (rule keeps_land)
qed

lemma keeps_reconcile_intent:
  assumes "commit_reconcile_intent i actor now db = Inr (db1, u)" and "audited db"
  shows "audited db1"
proof -
  let ?route = "in_route_id i" and ?dest = "fanout_lane_id i" and ?did = "in_dispatch_id i"
  from assms(1) obtain a b c d ctx ctx2 snap ev where a: "SaveIntent i db = Inr a" and b: "created_audit i now ctx a = Inr b"
    and c: "materializeLaneTx ?route ?dest b = Inr c"
    and d: "applyLaneTransition ?route ?dest snap RouteActiveClean ReasonDispatchAccepted ev now ctx2 c = Inr d"
    and e: "acquireGroupSlotTx ?route ?dest ?did actor now (take_lane ?route ?dest ?did d) = Inr db1"
    unfolding commit_reconcile_intent_def Let_def by (auto simp: result_simps)
  from pending_born [OF assms(2) births_SaveIntent [OF a]] b have "audited b" by (rule pending_created)
  moreover have "aside d (take_lane ?route ?dest ?did d)" by (simp add: take_lane_def)
  with aside_trans [OF aside_materialize [OF c] aside_lane [OF d]] aside_acquire_slot [OF e] have "aside b db1"
    by (blast intro: aside_trans)
  ultimately show ?thesis by (rule audited_aside)
qed

lemma transact_keeps:
  "(\<And>s1 x. body s = Inr (s1, x) \<Longrightarrow> P s1) \<Longrightarrow> P s \<Longrightarrow> P (fst (transact d e body s))"
  by (auto simp: transact_def split: sum.splits prod.splits)

lemma keeps_recover_all:
  assumes "recover_all over resolver now rs db = (db1, out)" and "audited db"
  shows "audited db1"
  using assms
proof (induction rs arbitrary: db out)
  case (Cons r rs)
  have "audited (fst (recoverOne (over (rl_dispatch_id r)) resolver r now db))"
    unfolding recoverOne_def by (rule transact_keeps) (use Cons.prems(2) in \<open>auto intro: keeps_recover\<close>)
  with Cons show ?case by (auto split: prod.splits sum.splits) 
qed simp


section \<open>The calls of the store\<close>

text \<open>
  The writing methods of the dispatch store: lineage, lanes, attempts, operator actions, serialization groups,
  quarantine and full reconciliation. Not among them are the retention prune, which also works on tables that no
  method here touches (\<open>ExecutePrune\<close> of \<open>Prune\<close>; a run of calls and prunes is in \<open>HoldProtocol\<close>, and what a
  prune keeps is in \<open>Retention\<close>), the registration of resources and routes, and the writes of baselines,
  schedules, work receipts and synchronisation.
\<close>

datatype store_call =
    CallLineage Lineage
  | CallMergePending Lineage "string list" "string list" string string
  | CallMergeLanes string string "string list" "string list" string string
  | CallChild IntentInput
  | CallAcquire AcquireAttempt
  | CallComplete AttemptResult
  | CallDeadLetter string string string
  | CallRecover string string
  | CallCloseLetter string string string string
  | CallOperatorRetry string string string string
  | CallRetryDue string string string string
  | CallRerun RerunInput
  | CallReconcile string string LookupResult bool string
  | CallActivation string string string string string
  | CallCompleteActive ActiveCompletion
  | CallActivate string string string
  | CallActivateFollowup string string string
  | CallStale string string string string
  | CallTopology "SerializationGroupMemberInput list" string string
  | CallQuarantine Lineage QuarantineInput
  | CallDrop Lineage
  | CallReconcileLineage Lineage string
  | CallMarkPending string string string
  | CallClearPending string bool string
  | CallRelease QuarantineService string string string string
  | CallDiscard string string string string
  | CallResolveUncertain string "IntentInput option" int bool string string
  | CallReplaceFacts string int "PathFact list" string
  | CallReconcileDecision DecisionInput
  | CallReconcileIntent IntentInput string string

text \<open>The tables after one call whose context is live. A transaction whose context has ended, or that fails, leaves the
  tables as they are: \<open>transact\<close>, which every method uses.\<close>

fun perform :: "policy_resolver \<Rightarrow> Db \<Rightarrow> store_call \<Rightarrow> Db" where
  "perform rv db (CallLineage lin) = fst (CommitLineage False lin db)"
| "perform rv db (CallMergePending lin ds ss actor now) = fst (CommitMergePending False rv lin ds ss actor now db)"
| "perform rv db (CallMergeLanes route bid ds ss actor now) = fst (MergeSelectedLanes False rv route bid ds ss actor now db)"
| "perform rv db (CallChild i) = fst (CommitFanoutChild False i db)"
| "perform rv db (CallAcquire req) = fst (AcquireAttempt False req db)"
| "perform rv db (CallComplete res) = fst (CompleteAttempt False rv res db)"
| "perform rv db (CallDeadLetter did actor now) = fst (DeadLetterRejected False did actor now db)"
| "perform rv db (CallRecover route now) = fst (RecoverExpiredSubmitting False (\<lambda>_. False) rv route now db)"
| "perform rv db (CallCloseLetter did actor reason now) = fst (CloseDeadLetter False did actor reason now db)"
| "perform rv db (CallOperatorRetry did actor reason now) = fst (ApplyOperatorRetry False did actor reason now db)"
| "perform rv db (CallRetryDue rnd did actor now) = fst (MakeRetryDue False rnd did actor now db)"
| "perform rv db (CallRerun inp) = fst (RerunIntent False inp db)"
| "perform rv db (CallReconcile did actor lookup exhausted now) = fst (ReconcileUnknown False did actor lookup exhausted now db)"
| "perform rv db (CallActivation route st revision fp now) = fst (SetRouteActivation False route st revision fp now db)"
| "perform rv db (CallCompleteActive req) = fst (CompleteActive False rv req db)"
| "perform rv db (CallActivate did actor now) = fst (ActivateDispatch False did actor now db)"
| "perform rv db (CallActivateFollowup did actor now) = fst (ActivateFollowup False did actor now db)"
| "perform rv db (CallStale route actor reason now) = fst (MarkRouteStaleWithReason False route actor reason now db)"
| "perform rv db (CallTopology ms actor now) = fst (MaterializeSerializationGroups False ms actor now db)"
| "perform rv db (CallQuarantine lin q) = fst (CommitQuarantineLineage False rv lin q db)"
| "perform rv db (CallDrop lin) = fst (CommitDropLineage False lin db)"
| "perform rv db (CallReconcileLineage lin position) = fst (CommitReconcileLineage False rv lin position db)"
| "perform rv db (CallMarkPending route position now) = fst (MarkPendingReconcile False rv route position now db)"
| "perform rv db (CallClearPending route expected now) = fst (ClearPendingReconcile False route expected now db)"
| "perform rv db (CallRelease svc qid actor reason now) = fst (Release svc False rv qid actor reason now db)"
| "perform rv db (CallDiscard qid actor reason now) = fst (Discard False rv qid actor reason now db)"
| "perform rv db (CallResolveUncertain route i dirty pend actor now) =
     fst (ResolveUncertainReconciliation False rv route i dirty pend actor now db)"
| "perform rv db (CallReplaceFacts resource expected facts now) = fst (ReplacePathFacts False resource expected facts now db)"
| "perform rv db (CallReconcileDecision dec) = fst (CommitReconcileDecision False dec db)"
| "perform rv db (CallReconcileIntent i actor now) = fst (CommitReconcileIntent False i actor now db)"

lemmas call_defs = CommitLineage_def CommitMergePending_def MergeSelectedLanes_def CommitFanoutChild_def AcquireAttempt_def
  CompleteAttempt_def DeadLetterRejected_def CloseDeadLetter_def ApplyOperatorRetry_def MakeRetryDue_def ReconcileUnknown_def
  CompleteActive_def ActivateDispatch_def ActivateFollowup_def MarkRouteStaleWithReason_def MaterializeSerializationGroups_def

lemmas hold_call_defs = CommitQuarantineLineage_def CommitDropLineage_def CommitReconcileLineage_def MarkPendingReconcile_def
  ClearPendingReconcile_def ResolveUncertainReconciliation_def ReplacePathFacts_def CommitReconcileDecision_def
  CommitReconcileIntent_def

lemma audited_transact:
  "(\<And>db1 x. body db = Inr (db1, x) \<Longrightarrow> audited db \<Longrightarrow> audited db1) \<Longrightarrow> audited db \<Longrightarrow> audited (fst (transact d e body db))"
  by (rule transact_keeps)

lemma audited_transact_aside:
  "(\<And>db1 x. body db = Inr (db1, x) \<Longrightarrow> aside db db1) \<Longrightarrow> audited db \<Longrightarrow> audited (fst (transact d e body db))"
  by (rule audited_transact) (blast intro: audited_aside)+

lemma calls_keep:
  assumes "audited db"
  shows "audited (fst (transact d e (commit_lineage lin) db))"
    and "audited (fst (transact d e (commit_fanout_child i) db))"
    and "audited (fst (transact d e (acquire_attempt req) db))"
    and "audited (fst (transact d e (complete_attempt rv res) db))"
    and "audited (fst (transact d e (dead_letter_rejected did actor now) db))"
    and "audited (fst (transact d e (close_dead_letter did actor reason now) db))"
    and "audited (fst (transact d e (apply_operator_retry did actor reason now) db))"
    and "audited (fst (transact d e (make_retry_due rnd did actor now) db))"
    and "audited (fst (transact d e (reconcile_unknown did actor lookup exhausted now) db))"
    and "audited (fst (transact d e (completeActiveTx rv areq) db))"
    and "audited (fst (transact d e (rerun_intent inp) db))"
    and "audited (fst (transact d e (set_route_activation route activation revision fp now) db))"
    and "audited (fst (transact d e (commit_merge_pending rv lin ds ss actor now) db))"
    and "audited (fst (transact d e (merge_selected_lanes rv route bid ds ss actor now) db))"
    and "audited (fst (transact d e (activate_dispatch did actor now) db))"
    and "audited (fst (transact d e (activate_followup did actor now) db))"
    and "audited (fst (transact d e (mark_route_stale route actor reason now) db))"
    and "audited (fst (transact d e (materializeSerializationGroupsTx ms actor now) db))"
  by (rule audited_transact [OF _ assms], erule (1) keeps_lineage,
      rule audited_transact [OF _ assms], erule (1) keeps_child,
      rule audited_transact [OF _ assms], erule (1) keeps_acquire,
      rule audited_transact [OF _ assms], erule (1) keeps_complete,
      rule audited_transact [OF _ assms], erule (1) keeps_dead_letter,
      rule audited_transact [OF _ assms], erule (1) keeps_close,
      rule audited_transact [OF _ assms], erule (1) keeps_operator_retry,
      rule audited_transact [OF _ assms], erule (1) keeps_retry_due,
      rule audited_transact [OF _ assms], erule (1) keeps_reconcile,
      rule audited_transact [OF _ assms], erule (1) keeps_completion,
      rule audited_transact [OF _ assms], erule (1) keeps_rerun,
      rule audited_transact_aside [OF _ assms], erule keeps_activation,
      rule audited_transact_aside [OF _ assms], erule aside_merge_pending,
      rule audited_transact_aside [OF _ assms], erule aside_merge_selected,
      rule audited_transact_aside [OF _ assms], erule aside_activate,
      rule audited_transact_aside [OF _ assms], erule aside_activate_followup,
      rule audited_transact_aside [OF _ assms], erule aside_stale,
      rule audited_transact_aside [OF _ assms], erule aside_topology)

lemma keeps_RerunIntent: "audited db \<Longrightarrow> audited (fst (RerunIntent c inp db))"
  using calls_keep(11) [of db c StoreContextDone inp] by (auto simp: RerunIntent_def split: prod.splits sum.splits)

lemma keeps_RecoverExpired:
  assumes "audited db"
  shows "audited (fst (RecoverExpiredSubmitting c over rv route now db))"
proof -
  have "audited (fst (recover_all over rv n rs db))" for n rs
    by (rule keeps_recover_all [OF prod.collapse [symmetric] assms])
  with assms show ?thesis by (simp add: RecoverExpiredSubmitting_def split: sum.split)
qed

lemma hold_calls_keep:
  assumes "audited db"
  shows "audited (fst (transact d e (commit_quarantine rv lin q) db))"
    and "audited (fst (transact d e (commit_reconcile_lineage rv lin position) db))"
    and "audited (fst (transact d e (mark_pending_reconcile rv route position now) db))"
    and "audited (fst (transact d e (clear_pending route expected now) db))"
    and "audited (fst (transact d e (resolve_quarantine rv qid to actor reason now revs) db))"
    and "audited (fst (transact d e (resolve_uncertain rv route i dirty pend actor now) db))"
    and "audited (fst (transact d e (replace_path_facts resource expected_rev facts now) db))"
    and "audited (fst (transact d e (commit_reconcile_intent j actor now) db))"
    and "audited (fst (transact d e (\<lambda>x. bindE (save_arrival lin x) (\<lambda>y. Inr (y, ()))) db))"
    and "audited (fst (transact d e (\<lambda>x. bindE (SaveDecision dec x) (\<lambda>y. Inr (y, ()))) db))"
  by (rule audited_transact_aside [OF _ assms], erule aside_quarantine,
      rule audited_transact_aside [OF _ assms], erule aside_reconcile_lineage,
      rule audited_transact_aside [OF _ assms], erule aside_mark_pending,
      rule audited_transact_aside [OF _ assms], erule aside_clear_pending,
      rule audited_transact_aside [OF _ assms], erule aside_resolve_hold,
      rule audited_transact [OF _ assms], erule (1) keeps_uncertain,
      rule audited_transact_aside [OF _ assms], erule aside_replace_facts,
      rule audited_transact [OF _ assms], erule (1) keeps_reconcile_intent,
      rule audited_transact_aside [OF _ assms], (auto simp: result_simps dest: aside_arrival) [1],
      rule audited_transact_aside [OF _ assms], (auto simp: result_simps dest: aside_decision) [1])

lemma keeps_holds:
  assumes "audited db"
  shows "audited (fst (Release svc c rv qid actor reason now db))" and "audited (fst (Discard c rv qid actor reason now db))"
  using assms by (simp_all add: Release_def Discard_def hold_outcome_def ReleaseQuarantine_def
      ReleaseQuarantineWithRevision_def DiscardQuarantine_def hold_calls_keep)

lemma keeps_perform: "audited db \<Longrightarrow> audited (perform rv db c)"
  by (cases c) (simp_all add: call_defs calls_keep hold_call_defs hold_calls_keep keeps_holds keeps_RerunIntent keeps_RecoverExpired
      SetRouteActivation_def del: transact_live)

end
