(* ===== verification/StoreFrames.thy ===== *)
theory StoreFrames
  imports StoreHistory
begin

text \<open>
  The tables that only few calls write: holds, path facts and resources. \<open>apart\<close> collects what leaves
  them alone.
\<close>

definition keep :: "Db \<Rightarrow> HoldRow list \<times> FactRow list \<times> ResourceRow list" where
  "keep db = (db_holds db, db_facts db, db_resources db)"

named_theorems apart

lemma keep_fields [simp]:
  "keep (db\<lparr>db_observations := x1\<rparr>) = keep db" "keep (db\<lparr>db_batches := x2\<rparr>) = keep db"
  "keep (db\<lparr>db_decisions := x3\<rparr>) = keep db" "keep (db\<lparr>db_attributions := x4\<rparr>) = keep db"
  "keep (db\<lparr>db_intents := x5\<rparr>) = keep db" "keep (db\<lparr>db_attempts := x6\<rparr>) = keep db"
  "keep (db\<lparr>db_receipts := x7\<rparr>) = keep db" "keep (db\<lparr>db_transitions := x8\<rparr>) = keep db"
  "keep (db\<lparr>db_aggregates := x9\<rparr>) = keep db" "keep (db\<lparr>db_revisions := x10\<rparr>) = keep db"
  "keep (db\<lparr>db_children := x11\<rparr>) = keep db" "keep (db\<lparr>db_runtime := x12\<rparr>) = keep db"
  "keep (db\<lparr>db_lanes := x13\<rparr>) = keep db" "keep (db\<lparr>db_groups := x14\<rparr>) = keep db"
  "keep (db\<lparr>db_members := x15\<rparr>) = keep db" "keep (db\<lparr>db_outbox := x16\<rparr>) = keep db"
  by (simp_all add: keep_def)

lemma keep_updates [simp]:
  "keep (update_lane route dest f db) = keep db" "keep (update_runtime route g db) = keep db"
  "keep (update_intent did h db) = keep db" "keep (update_group gid k db) = keep db"
  "keep (free_slot route dest did db) = keep db" "keep (update_held_lane route dest did f db) = keep db"
  "keep (take_lane route dest did db) = keep db" "keep (refresh_hold route now db) = keep db"
  by (simp_all add: update_lane_def update_runtime_def update_intent_def update_group_def free_slot_def update_held_lane_def
      take_lane_def refresh_hold_def)

lemma keep_append [apart]: "AppendTransition tid et eid from to now ctx db = Inr db1 \<Longrightarrow> keep db1 = keep db"
  by (auto simp: AppendTransition_Inr)

lemma keep_materialize [apart]: "materializeLaneTx route dest db = Inr db1 \<Longrightarrow> keep db1 = keep db"
  by (auto simp: materializeLaneTx_def split: if_splits)

lemma keep_lane [apart]: "applyLaneTransition route dest snap to reason ev now ctx db = Inr db1 \<Longrightarrow> keep db1 = keep db"
  by (auto simp: applyLaneTransition_def Let_def result_simps dest!: apart)

lemma keep_route [apart]: "applyRouteTransition snap to reason ev now ctx db = Inr db1 \<Longrightarrow> keep db1 = keep db"
  by (auto simp: applyRouteTransition_def result_simps dest!: apart)

lemma keep_hold_route [apart]: "routeUncertainHoldTx snap dest reason ev now ctx db = Inr db1 \<Longrightarrow> keep db1 = keep db"
  by (auto simp: routeUncertainHoldTx_def Let_def result_simps dest!: apart)

lemma keep_held_lane [apart]: "resolveHeldLaneTx route dest work actor now db = Inr db1 \<Longrightarrow> keep db1 = keep db"
proof -
  assume h: "resolveHeldLaneTx route dest work actor now db = Inr db1"
  then obtain a snap where a: "materializeLaneTx route dest db = Inr a" and s: "laneSnapshotInTx route dest a = Inr snap"
    by (auto simp: resolveHeldLaneTx_def result_simps)
  from h a s have "keep db1 = keep a"
    by (cases "rs_state snap") (auto simp: resolveHeldLaneTx_def result_simps dest!: apart split: if_splits)
  with a show ?thesis by (simp add: apart)
qed

lemma keep_group [apart]: "group_audit g reason to now ctx db = Inr db1 \<Longrightarrow> keep db1 = keep db"
  by (auto simp: group_audit_def dest: apart)

lemma keep_acquire_slot [apart]: "acquireGroupSlotTx route dest did actor now db = Inr db1 \<Longrightarrow> keep db1 = keep db"
  by (auto simp: acquireGroupSlotTx_def result_simps split: option.splits if_splits dest!: apart)

lemma keep_release [apart]: "releaseGroupSlotTx route dest did actor now db = Inr db1 \<Longrightarrow> keep db1 = keep db"
  by (auto simp: releaseGroupSlotTx_def Let_def result_simps split: option.splits if_splits list.splits dest!: apart)

lemma keep_transfer [apart]: "transferGroupSlotTx route dest d1 d2 actor now db = Inr db1 \<Longrightarrow> keep db1 = keep db"
  by (auto simp: transferGroupSlotTx_def result_simps split: option.splits if_splits dest!: apart)

lemma keep_enqueue [apart]: "enqueue_in resolver route event transition dest source now db = Inr db1 \<Longrightarrow> keep db1 = keep db"
  by (auto simp: enqueue_in_def result_simps)

lemma keep_pending [apart]: "notify_pending resolver route occ source now db = Inr db1 \<Longrightarrow> keep db1 = keep db"
  by (auto simp: notify_pending_def result_simps)

lemma keep_attributions [apart]: "save_attributions oid now as db = Inr db1 \<Longrightarrow> keep db1 = keep db"
  by (induction oid now as db rule: save_attributions.induct) (auto split: if_splits)

lemma keep_observation [apart]: "SaveObservation ob db = Inr db1 \<Longrightarrow> keep db1 = keep db"
  by (auto simp: SaveObservation_def result_simps dest!: apart)

lemma keep_batch [apart]: "SaveBatch b db = Inr db1 \<Longrightarrow> keep db1 = keep db"
  by (auto simp: SaveBatch_def result_simps)

lemma keep_insert_decision [apart]: "insert_decision d db = Inr db1 \<Longrightarrow> keep db1 = keep db"
  by (auto simp: insert_decision_def result_simps)

lemma keep_decision [apart]: "SaveDecision d db = Inr db1 \<Longrightarrow> keep db1 = keep db"
  by (simp add: SaveDecision_def apart)

lemma keep_arrival [apart]: "save_arrival lin db = Inr db1 \<Longrightarrow> keep db1 = keep db"
  by (auto simp: save_arrival_def result_simps dest!: apart)

lemma keep_aggregate [apart]: "insert_aggregate i f origin db = Inr db1 \<Longrightarrow> keep db1 = keep db"
  by (auto simp: insert_aggregate_def dest!: apart split: if_splits)

lemma keep_revisions [apart]: "save_revisions route now vs db = Inr db1 \<Longrightarrow> keep db1 = keep db"
  by (induction route now vs db rule: save_revisions.induct) (auto split: if_splits)

lemma keep_child [apart]: "insert_child c db = Inr db1 \<Longrightarrow> keep db1 = keep db"
  by (auto simp: insert_child_def result_simps)

lemma keep_fanout [apart]: "saveFanoutTx i f db = Inr db1 \<Longrightarrow> keep db1 = keep db"
  by (auto simp: saveFanoutTx_def result_simps dest!: apart)

lemma keep_optional_fanout [apart]: "(case fo of None \<Rightarrow> Inr db | Some f \<Rightarrow> saveFanoutTx i f db) = Inr db1 \<Longrightarrow> keep db1 = keep db"
  by (auto split: option.splits dest: apart)

lemma keep_insert_intent [apart]: "insert_intent r db = Inr db1 \<Longrightarrow> keep db1 = keep db"
  by (auto simp: insert_intent_def result_simps)

lemma keep_SaveIntent [apart]: "SaveIntent i db = Inr db1 \<Longrightarrow> keep db1 = keep db"
  by (auto simp: SaveIntent_def result_simps dest!: apart)

lemma keep_created [apart]: "created_audit i now ctx db = Inr db1 \<Longrightarrow> keep db1 = keep db"
  by (auto simp: created_audit_def dest: apart)

lemma keep_takeover [apart]: "saveIntentTakeOverOriginal i original db = Inr db1 \<Longrightarrow> keep db1 = keep db"
  by (auto simp: saveIntentTakeOverOriginal_def Let_def result_simps dest!: apart split: if_splits)

lemma keep_within [apart]: "transitionWithin did u v r ev now ctx db = Inr db1 \<Longrightarrow> keep db1 = keep db"
  by (auto simp: transitionWithin_def result_simps dest!: apart)

lemma keep_validated [apart]: "appendValidatedTransition tid did u v r ev now ctx db = Inr db1 \<Longrightarrow> keep db1 = keep db"
  by (auto simp: appendValidatedTransition_def result_simps dest!: apart)

lemma keep_receipt [apart]: "save_receipt rc i now db = Inr db1 \<Longrightarrow> keep db1 = keep db"
  by (auto simp: save_receipt_def Let_def result_simps split: if_splits)

section \<open>The bodies of the calls\<close>

lemma keep_child_body [apart]: "commit_fanout_child i db = Inr (db1, u) \<Longrightarrow> keep db1 = keep db"
  by (auto simp: commit_fanout_child_def Let_def result_simps dest!: apart)

lemma keep_acquire [apart]: "acquire_attempt req db = Inr (db1, aid) \<Longrightarrow> keep db1 = keep db"
  by (auto simp: acquire_attempt_def Let_def result_simps case_prod_beta split: option.splits dest!: apart)

lemma keep_complete [apart]: "complete_attempt resolver res db = Inr (db1, u) \<Longrightarrow> keep db1 = keep db"
  by (auto simp: complete_attempt_def Let_def result_simps split: option.splits if_splits dest!: apart)

lemma keep_dead_letter [apart]: "dead_letter_rejected did actor now db = Inr (db1, u) \<Longrightarrow> keep db1 = keep db"
  by (auto simp: dead_letter_rejected_def result_simps split: if_splits dest!: apart)

lemma keep_recover [apart]: "recover_one resolver r now db = Inr (db1, tid) \<Longrightarrow> keep db1 = keep db"
  by (auto simp: recover_one_def Let_def result_simps split: if_splits dest!: apart)

lemma keep_close [apart]: "close_dead_letter did actor reason now db = Inr (db1, out) \<Longrightarrow> keep db1 = keep db"
  by (auto simp: close_dead_letter_def Let_def result_simps split: if_splits dest!: apart)

lemma keep_operator_retry [apart]: "apply_operator_retry did actor reason now db = Inr (db1, u) \<Longrightarrow> keep db1 = keep db"
  by (auto simp: apply_operator_retry_def result_simps dest!: apart)

lemma keep_retry_due [apart]: "make_retry_due rnd did actor now db = Inr (db1, u) \<Longrightarrow> keep db1 = keep db"
  by (auto simp: make_retry_due_def result_simps dest!: apart)

lemma keep_supersede [apart]: "supersede_original inp now db = Inr db1 \<Longrightarrow> keep db1 = keep db"
proof -
  assume h: "supersede_original inp now db = Inr db1"
  then obtain i where i: "intent_of (rr_original_dispatch_id inp) db = Some i" by (auto simp: supersede_original_def Let_def result_simps)
  with h show ?thesis by (cases "it_state i") (auto simp: supersede_original_def Let_def dest: apart)
qed

lemma keep_activate_takeover [apart]: "activate_takeover inp now db = Inr db1 \<Longrightarrow> keep db1 = keep db"
proof -
  assume h: "activate_takeover inp now db = Inr db1"
  then obtain a snap where a: "materializeLaneTx (in_route_id (rr_new inp)) (fanout_lane_id (rr_new inp)) db = Inr a"
    and s: "laneSnapshotInTx (in_route_id (rr_new inp)) (fanout_lane_id (rr_new inp)) a = Inr snap"
    by (auto simp: activate_takeover_def Let_def result_simps)
  from h a s have "keep db1 = keep a" by (cases "rs_state snap") (auto simp: activate_takeover_def Let_def dest!: apart)
  with a show ?thesis by (simp add: apart)
qed

lemma keep_rerun [apart]:
  assumes "rerun_intent inp db = Inr (db1, u)"
  shows "keep db1 = keep db"
proof -
  let ?now = "normalizeTimestamp (in_created_at (rr_new inp))"
  from assms obtain dec a b c e f ctx where a: "(case dec of None \<Rightarrow> Inr db
      | Some d \<Rightarrow> insert_decision (rerun_decision inp ?now d) db) = Inr a"
    and b: "saveIntentTakeOverOriginal ((rr_new inp)\<lparr>in_decision_id := ''dec-'' @ in_dispatch_id (rr_new inp)\<rparr>)
      (rr_original_dispatch_id inp) a = Inr b"
    and c: "supersede_original inp ?now b = Inr c" and e: "activate_takeover inp ?now c = Inr e"
    and f: "created_audit ((rr_new inp)\<lparr>in_decision_id := ''dec-'' @ in_dispatch_id (rr_new inp)\<rparr>) ?now ctx e = Inr f"
    and g: "Inr (f, ()) = (Inr (db1, u) :: db_error + Db \<times> unit)"
    unfolding rerun_intent_def Let_def bindE_Inr_iff map_err_Inr_iff some_row_Inr by (elim exE conjE) (rule that)
  have "keep a = keep db" using a by (auto split: option.splits dest: apart)
  with b c e f g show ?thesis by (auto dest!: apart)
qed

lemma keep_reconcile [apart]: "reconcile_unknown did actor lookup exhausted now db = Inr (db1, to) \<Longrightarrow> keep db1 = keep db"
  by (auto simp: reconcile_unknown_def result_simps case_prod_beta split: if_splits dest!: apart)

lemma keep_activation [apart]: "set_route_activation route activation revision fp now db = Inr (db1, u) \<Longrightarrow> keep db1 = keep db"
  by (auto simp: set_route_activation_def result_simps)

lemma keep_union [apart]: "unionBatchSelectionTx bid selected db = Inr db1 \<Longrightarrow> keep db1 = keep db"
  by (auto simp: unionBatchSelectionTx_def result_simps split: if_splits)

lemma keep_consume [apart]: "consume_reservation snap dest actor now db = Inr (db1, snap1) \<Longrightarrow> keep db1 = keep db"
  by (auto simp: consume_reservation_def result_simps dest!: apart split: if_splits)

lemma keep_mark [apart]: "mark_dirty snap dest after actor now bid db = Inr db1 \<Longrightarrow> keep db1 = keep db"
  by (auto simp: mark_dirty_def Let_def dest!: apart split: if_splits)

lemma keep_merge_one [apart]: "merge_one route dest actor now bid db = Inr (db1, after, idle) \<Longrightarrow> keep db1 = keep db"
  by (erule merge_one_steps) (auto dest!: apart)

lemma keep_merge_each [apart]: "merge_each route dests actor now bid db n b = Inr (db1, m, idle) \<Longrightarrow> keep db1 = keep db"
proof (induction dests arbitrary: db n b)
  case (Cons d ds)
  then show ?case by (auto simp: result_simps dest!: keep_merge_one)
qed simp

lemma keep_owe [apart]: "owe_reconcile resolver route actor now bid db = Inr db1 \<Longrightarrow> keep db1 = keep db"
  by (auto simp: owe_reconcile_def result_simps)

lemma keep_merge [apart]: "mergeLanesTx resolver route selected actor now bid db = Inr (db1, m) \<Longrightarrow> keep db1 = keep db"
  unfolding mergeLanesTx_def
  by (auto simp: result_simps simp del: merge_each.simps dest!: apart split: if_splits)

lemma keep_merge_pending [apart]: "commit_merge_pending resolver lin dests selected actor now db = Inr (db1, m) \<Longrightarrow> keep db1 = keep db"
  by (auto simp: commit_merge_pending_def Let_def result_simps dest!: apart)

lemma keep_merge_selected [apart]: "merge_selected_lanes resolver route bid dests selected actor now db = Inr (db1, m) \<Longrightarrow> keep db1 = keep db"
  by (auto simp: merge_selected_lanes_def result_simps dest!: apart)

lemma keep_activate [apart]: "activate_dispatch did actor now db = Inr (db1, u) \<Longrightarrow> keep db1 = keep db"
  by (auto simp: activate_dispatch_def Let_def result_simps split: prod.splits if_splits dest!: apart)

lemma keep_activate_followup [apart]: "activate_followup did actor now db = Inr (db1, u) \<Longrightarrow> keep db1 = keep db"
  by (auto simp: activate_followup_def Let_def result_simps case_prod_beta dest!: apart)

lemma keep_stale [apart]: "mark_route_stale route actor reason now db = Inr (db1, u) \<Longrightarrow> keep db1 = keep db"
  by (auto simp: mark_route_stale_def Let_def result_simps split: if_splits dest!: apart)

lemma keep_create_groups [apart]: "create_groups actor now gids db = Inr db1 \<Longrightarrow> keep db1 = keep db"
proof (induction gids arbitrary: db)
  case (Cons g gs)
  then show ?case by (auto simp: result_simps dest!: apart split: if_splits)
qed simp

lemma keep_recompute [apart]: "recompute_group active actor now g db = Inr (db1, g1) \<Longrightarrow> keep db1 = keep db"
  by (auto simp: recompute_group_def Let_def result_simps split: prod.splits if_splits dest!: apart)

lemma keep_recompute_all [apart]: "recompute_groups holders actor now gids db = Inr (db1, cs) \<Longrightarrow> keep db1 = keep db"
proof (induction gids arbitrary: db cs)
  case (Cons g gs)
  then show ?case by (auto simp: result_simps dest!: apart)
qed simp

lemma keep_topology [apart]: "materializeSerializationGroupsTx members actor now db = Inr (db1, cs) \<Longrightarrow> keep db1 = keep db"
  by (auto simp: materializeSerializationGroupsTx_def Let_def result_simps dest!: apart)

lemma keep_followup [apart]: "create_followup req dest dirty reason db = Inr (db1, f) \<Longrightarrow> keep db1 = keep db"
  by (auto simp: create_followup_def Let_def result_simps split: option.splits dest!: apart)

lemma keep_settle [apart]: "settle_lane req route dest dirty to reason db = Inr (db1, f) \<Longrightarrow> keep db1 = keep db"
  by (auto simp: settle_lane_def Let_def result_simps split: if_splits dest!: apart)

lemma keep_owe_remaining [apart]: "owe_remaining req dest snap db = Inr (db1, snap1) \<Longrightarrow> keep db1 = keep db"
  by (auto simp: owe_remaining_def result_simps dest: apart split: if_splits)

lemma keep_notify [apart]: "notify_work resolver req route dest to reason f db = Inr db1 \<Longrightarrow> keep db1 = keep db"
  by (simp add: notify_work_def apart)

lemma keep_apply_completion [apart]: "apply_completion resolver req route dest dirty snap db = Inr (db1, out) \<Longrightarrow> keep db1 = keep db"
  by (auto simp: apply_completion_def Let_def result_simps case_prod_beta split: if_splits dest!: apart)

lemma keep_completion [apart]: "completeActiveTx resolver req db = Inr (db1, out) \<Longrightarrow> keep db1 = keep db"
  by (erule completion_steps) (auto dest!: apart)

lemma keep_reconcile_lineage [apart]: "commit_reconcile_lineage resolver lin position db = Inr (db1, u) \<Longrightarrow> keep db1 = keep db"
  by (auto simp: commit_reconcile_lineage_def Let_def result_simps dest!: apart)

lemma keep_mark_pending [apart]: "mark_pending_reconcile resolver route position now db = Inr (db1, u) \<Longrightarrow> keep db1 = keep db"
  by (auto simp: mark_pending_reconcile_def result_simps dest!: apart)

lemma keep_clear_pending [apart]: "clear_pending route expected now db = Inr (db1, u) \<Longrightarrow> keep db1 = keep db"
  by (auto simp: clear_pending_def Let_def)

lemma keep_release_work [apart]: "release_work resolver qid actor now rep rrev prev d db = Inr db1 \<Longrightarrow> keep db1 = keep db"
  by (auto simp: release_work_def result_simps dest!: apart)

lemma keep_land [apart]: "land_resolution route intent actor now db = Inr db1 \<Longrightarrow> keep db1 = keep db"
  by (auto simp: land_resolution_def result_simps split: option.splits dest!: apart)

lemma keep_uncertain [apart]: "resolve_uncertain resolver route intent dirty pend actor now db = Inr (db1, u) \<Longrightarrow> keep db1 = keep db"
  by (auto simp: resolve_uncertain_def result_simps dest!: apart split: if_splits)

lemma keep_reconcile_intent [apart]: "commit_reconcile_intent i actor now db = Inr (db1, u) \<Longrightarrow> keep db1 = keep db"
  unfolding commit_reconcile_intent_def Let_def by (auto simp: result_simps dest!: apart)

section \<open>The calls\<close>

lemma keep_transact: "(\<And>db1 x. body db = Inr (db1, x) \<Longrightarrow> keep db1 = keep db) \<Longrightarrow> keep (fst (transact d e body db)) = keep db"
  by (auto simp: transact_def split: sum.splits prod.splits)

lemma keep_recover_all: "recover_all over resolver now rs db = (db1, out) \<Longrightarrow> keep db1 = keep db"
proof (induction rs arbitrary: db out)
  case (Cons r rs)
  have "keep (fst (recoverOne (over (rl_dispatch_id r)) resolver r now db)) = keep db"
    unfolding recoverOne_def by (rule keep_transact) (rule keep_recover)
  with Cons show ?case by (auto split: prod.splits sum.splits)
qed simp

lemma keep_RecoverExpired: "keep (fst (RecoverExpiredSubmitting c over rv route now db)) = keep db"
  by (auto simp: RecoverExpiredSubmitting_def split: sum.split intro: keep_recover_all [OF prod.collapse [symmetric]])

lemma keep_RerunIntent: "keep (fst (RerunIntent c inp db)) = keep db"
proof -
  have "keep (fst (transact c StoreContextDone (rerun_intent inp) db)) = keep db" by (rule keep_transact) (rule keep_rerun)
  then show ?thesis by (auto simp: RerunIntent_def split: prod.splits sum.splits)
qed

text \<open>The calls that write path facts or holds.\<close>

fun writes_records :: "store_call \<Rightarrow> bool" where
  "writes_records (CallLineage lin) = True"
| "writes_records (CallQuarantine lin q) = True"
| "writes_records (CallRelease svc qid actor reason now) = True"
| "writes_records (CallDiscard qid actor reason now) = True"
| "writes_records (CallReplaceFacts resource expected facts now) = True"
| "writes_records c = False"

lemma keep_SetRouteActivation: "keep (fst (SetRouteActivation d route st revision fp now db)) = keep db"
proof -
  have "keep (fst (transact d StoreContextDone (set_route_activation route st revision fp now) db)) = keep db"
    by (rule keep_transact) (rule keep_activation)
  then show ?thesis by (simp add: SetRouteActivation_def)
qed

lemma keep_perform: "\<not> writes_records c \<Longrightarrow> keep (perform rv db c) = keep db"
  by (cases c) (simp_all add: call_defs hold_call_defs keep_RecoverExpired keep_RerunIntent keep_SetRouteActivation del: transact_live,
    (rule keep_transact, (auto dest: apart simp: result_simps) [1])+)

end
