(* ===== verification/StoreProtocol.thy ===== *)
theory StoreProtocol
  imports StoreHistory
begin

text \<open>
  Leases, group slots and their order in the dispatch store: who may submit, and what a lease or a slot
  promises to the others.
\<close>

section \<open>Frames of a lease\<close>

lemma laneOfDispatch_same:
  "map_option it_route_id (intent_of did db1) = map_option it_route_id (intent_of did db) \<Longrightarrow> db_children db1 = db_children db \<Longrightarrow>
   laneOfDispatch did db1 = laneOfDispatch did db"
  by (auto simp: laneOfDispatch_def split: option.splits)

text \<open>A successful acquisition, taken apart.\<close>

lemma acquire_parts:
  assumes "acquire_attempt req db = Inr (db1, aid)" and d: "distinct (map it_dispatch_id (db_intents db))"
  defines "did \<equiv> aa_dispatch_id req" and "now \<equiv> normalizeTimestamp (aa_now req)"
    and "expires \<equiv> normalizeTimestamp (aa_lease_expires_at req)"
  obtains i a where "intent_of did db = Some i" and "acquirable db did now i"
    and "intent_of did db1 = Some (lease_row (aa_owner req) expires (normalizeTimestamp (aa_next_attempt_at req)) now i)"
    and "aa_owner req \<noteq> []" and "expires \<noteq> []" and "aid = aa_attempt_id req"
    and "db_lanes a = db_lanes db" and "db_groups a = db_groups db" and "db_members a = db_members db"
    and "db_gated a = db_gated db" and "laneOfDispatch did a = laneOfDispatch did db"
    and "acquireGroupSlotTx (fst (laneOfDispatch did db)) (snd (laneOfDispatch did db)) did (aa_owner req) now a = Inr db1"
proof -
  let ?P = "acquirable db did now"
  let ?f = "lease_row (aa_owner req) expires (normalizeTimestamp (aa_next_attempt_at req)) now"
  from assms(1) obtain i where i: "find ?P (db_intents db) = Some i"
    by (auto simp: acquire_attempt_def Let_def did_def now_def split: option.splits)
  let ?db = "db\<lparr>db_intents := update_where ?P ?f (db_intents db), db_attempts := db_attempts db @ [attempt_of req now i]\<rparr>"
  let ?ev = "no_intent_evidence\<lparr>ie_lease := Some \<lparr>le_owner = aa_owner req, le_expires_at = expires\<rparr>\<rparr>"
  from assms(1) i obtain r ctx tid a where a: "appendValidatedTransition tid did (it_state i) IntentSubmitting r ?ev now ctx ?db = Inr a"
    and b: "acquireGroupSlotTx (fst (laneOfDispatch did a)) (snd (laneOfDispatch did a)) did (aa_owner req) now a = Inr db1"
    and c: "aid = aa_attempt_id req"
    unfolding acquire_attempt_def Let_def did_def now_def expires_def by (auto simp: result_simps case_prod_beta)
  have fr: "intent_of did db = Some i" "?P i"
    using found_row [where P = ?P, OF d i] by (auto simp: acquirable_def)
  from a have v: "ValidateIntentTransition (it_state i) IntentSubmitting r ?ev = Inr ()"
    and t: "a = ?db\<lparr>db_transitions := db_transitions a\<rparr>"
    by (auto simp: appendValidatedTransition_def result_simps AppendTransition_Inr)
  have s: "it_state i = IntentReady \<or> it_state i = IntentRetryWait" using fr(2) by (auto simp: acquirable_def)
  with v have "intent_guard (it_state i) IntentSubmitting ?ev = None"
    by (auto simp: ValidateIntentTransition_def split: option.splits if_splits)
  with s have l: "aa_owner req \<noteq> []" "expires \<noteq> []"
    by (auto simp: intent_guard_def lease_held_def no_intent_evidence_def split: if_splits)
  have r: "intent_of d a = map_option (\<lambda>r. if ?P r then ?f r else r) (intent_of d db)" for d
    by (subst t) (simp add: row_of_update_where lease_row_def)
  have ch: "db_children a = db_children db" by (subst t) simp
  have e: "laneOfDispatch did a = laneOfDispatch did db"
    by (rule laneOfDispatch_same) (simp_all add: r fr ch lease_row_def)
  have "db_intents db1 = db_intents a" using aside_acquire_slot [OF b] by (simp add: aside_def)
  then have "intent_of did db1 = Some (?f i)" using r [of did] fr by simp
  moreover have "db_lanes a = db_lanes db" "db_groups a = db_groups db" "db_members a = db_members db" "db_gated a = db_gated db"
    by (subst t, simp)+
  ultimately show thesis using that fr l c e b by simp
qed


section \<open>Leases\<close>

text \<open>C7: exactly one process owns the attempt of a dispatch (DUR-012, AC-204). Once an acquisition has
  committed, every later one for the same dispatch is refused with the held lease and changes nothing, in
  any later store in which the dispatch's row is still the leased one, as long as the clock of the second
  process has not passed the expiry the first one wrote.\<close>

theorem attempt_lease_is_exclusive:
  assumes "AcquireAttempt c req db = (db1, Inr aid)" and "distinct (map it_dispatch_id (db_intents db))"
    and "intent_of (aa_dispatch_id req) db2 = intent_of (aa_dispatch_id req) db1"
    and "aa_dispatch_id req2 = aa_dispatch_id req"
    and "normalizeTimestamp (aa_now req2) \<le> normalizeTimestamp (aa_lease_expires_at req)"
    and "distinct (map it_dispatch_id (db_intents db2))"
  shows "AcquireAttempt False req2 db2 = (db2, Inl (Refused LeaseHeld))"
proof -
  from assms(1) have "acquire_attempt req db = Inr (db1, aid)" by (auto simp: AcquireAttempt_def dest: transact_committed)
  from this assms(2) obtain i a where "normalizeTimestamp (aa_lease_expires_at req) \<noteq> []"
    and "intent_of (aa_dispatch_id req) db1 = Some (lease_row (aa_owner req) (normalizeTimestamp (aa_lease_expires_at req))
      (normalizeTimestamp (aa_next_attempt_at req)) (normalizeTimestamp (aa_now req)) i)"
    by (rule acquire_parts)
  with assms(3) obtain j where j: "intent_of (aa_dispatch_id req) db2 = Some j" and s: "it_state j = IntentSubmitting"
    and e: "it_lease_expires_at j = Some (normalizeTimestamp (aa_lease_expires_at req))"
    by (auto simp: lease_row_def nullString_def)
  have "find (acquirable db2 (aa_dispatch_id req) (normalizeTimestamp (aa_now req2))) (db_intents db2) = None"
  proof (rule ccontr)
    assume "\<not> ?thesis"
    then obtain q where q: "find (acquirable db2 (aa_dispatch_id req) (normalizeTimestamp (aa_now req2))) (db_intents db2) = Some q"
      by blast
    have "intent_of (aa_dispatch_id req) db2 = Some q" "acquirable db2 (aa_dispatch_id req) (normalizeTimestamp (aa_now req2)) q"
      using found_row [OF assms(6) q] by (auto simp: acquirable_def)
    with j s show False by (simp add: acquirable_def)
  qed
  then show ?thesis
    using assms(4,5) j s e by (simp add: AcquireAttempt_def acquire_attempt_def Let_def transact_live explainAcquireFailure_def)
qed

section \<open>The slot of a group\<close>

lemma group_update_same:
  "group_row gid db = Some g \<Longrightarrow> gr_group_id (f g) = gid \<Longrightarrow> (\<And>h. gr_group_id (f h) = gr_group_id h) \<Longrightarrow>
   group_row gid (update_group gid f db) = Some (f g)"
  by (auto simp: update_group_def row_of_update_where dest: row_of_Some)

lemma group_audit_Inr:
  "group_audit g reason to now ctx db = Inr db1 \<Longrightarrow> \<exists>xs. db1 = db\<lparr>db_transitions := xs\<rparr>"
  by (auto simp: group_audit_def AppendTransition_Inr)

lemma acquired_slot:
  assumes "acquireGroupSlotTx route dest did actor now db = Inr db1" and "groupOfLaneTx route dest db = Some gid"
  shows "\<exists>g. group_row gid db1 = Some g \<and> gr_state g = GroupHeld \<and> nullText (gr_holder_dispatch_id g) = did"
proof -
  from assms obtain g where g: "group_row gid db = Some g" by (auto simp: acquireGroupSlotTx_def result_simps)
  show ?thesis
  proof (cases "gr_state g = GroupHeld \<and> nullText (gr_holder_dispatch_id g) = did")
    case True
    with assms g show ?thesis by (simp add: acquireGroupSlotTx_def)
  next
    case False
    with assms g have "group_audit g ''slot-acquired'' GroupHeld now (slot_context ''slot-acquired'' actor route dest did)
        (update_group gid (take_slot route dest did now) db) = Inr db1"
      by (auto simp: acquireGroupSlotTx_def split: if_splits)
    then obtain xs where "db1 = update_group gid (take_slot route dest did now) db\<lparr>db_transitions := xs\<rparr>"
      by (blast dest: group_audit_Inr)
    moreover have "gr_group_id g = gid" using row_of_Some [OF g] by simp
    ultimately show ?thesis using g
      by (simp add: update_group_def row_of_update_where take_slot_def set_holder_def nullText_def)
  qed
qed

text \<open>C6: no dispatch is submitted beside another authoritative task (CON-001, CON-007, CON-011). When an
  acquisition commits, the dispatch's route is enabled and without a quarantine or uncertainty hold, no
  other dispatch holds its lane's slot, and when its lane belongs to a serialization group, the group's one
  durable slot names this dispatch.\<close>

theorem submission_owns_its_lane_and_group:
  assumes "AcquireAttempt c req db = (db1, Inr aid)" and "distinct (map it_dispatch_id (db_intents db))"
    and "laneOfDispatch (aa_dispatch_id req) db = (route, dest)"
  shows "(\<forall>r \<in> set (db_runtime db). rr_route_id r = route \<longrightarrow>
      rr_activation_state r = ''enabled'' \<and> rr_route_state r \<notin> {RouteQuarantined, RouteUncertain})
    \<and> (\<forall>l \<in> set (db_lanes db). la_route_id l = route \<and> la_destination_id l = dest \<longrightarrow>
      la_active_dispatch_id l \<in> {None, Some (aa_dispatch_id req)})
    \<and> (\<forall>gid. groupOfLaneTx route dest db = Some gid \<longrightarrow>
      (\<exists>g. group_row gid db1 = Some g \<and> gr_state g = GroupHeld \<and> nullText (gr_holder_dispatch_id g) = aa_dispatch_id req))"
proof -
  from assms(1) have "acquire_attempt req db = Inr (db1, aid)" by (auto simp: AcquireAttempt_def dest: transact_committed)
  from this assms(2) obtain i a where i: "intent_of (aa_dispatch_id req) db = Some i"
    and p: "acquirable db (aa_dispatch_id req) (normalizeTimestamp (aa_now req)) i"
    and m: "db_members a = db_members db" "db_gated a = db_gated db"
    and s: "acquireGroupSlotTx (fst (laneOfDispatch (aa_dispatch_id req) db)) (snd (laneOfDispatch (aa_dispatch_id req) db))
      (aa_dispatch_id req) (aa_owner req) (normalizeTimestamp (aa_now req)) a = Inr db1"
    by (rule acquire_parts)
  from s have s: "acquireGroupSlotTx route dest (aa_dispatch_id req) (aa_owner req) (normalizeTimestamp (aa_now req)) a = Inr db1"
    by (simp add: assms(3))
  from i assms(3) have r: "it_route_id i = route" by (auto simp: laneOfDispatch_def)
  have did: "it_dispatch_id i = aa_dispatch_id req" using p by (simp add: acquirable_def)
  from p r did assms(3) have "\<forall>x \<in> set (db_runtime db). rr_route_id x = route \<longrightarrow> \<not> route_closed x"
    and "\<forall>l \<in> set (db_lanes db). lane_key l = (route, dest) \<longrightarrow> la_active_dispatch_id l \<in> {None, Some (aa_dispatch_id req)}"
    by (auto simp: acquirable_def slot_free_def list_ex_iff)
  moreover have "groupOfLaneTx route dest a = groupOfLaneTx route dest db" by (simp add: groupOfLaneTx_def m)
  ultimately show ?thesis using acquired_slot [OF s] by (auto simp: route_closed_def)
qed

section \<open>Completion\<close>

text \<open>C34: completing an attempt looks at neither the lease nor the attempt that holds it (DUR-012). For a
  report without an acceptance receipt that does not move the intent to \<open>unknown\<close>, the store's guards
  are exactly these: the intent exists, the transition is documented from its current state, the outcome fits
  the column of the attempt it names, and its transition id is unused. Who holds the lease, until when, and
  whether the named attempt is the one submitting are not among them; an accepted report clears the lease and
  leaves every other attempt open. In the witness a report of an attempt that recovery abandoned ends the
  live lease of the worker that took over, and a third worker submits while that one is still at work.\<close>

theorem completion_ignores_the_lease:
  assumes "ar_receipt res = None" and "at_to (ar_transition res) \<noteq> IntentUnknown"
  shows "(snd (CompleteAttempt False rv res db) = Inr () \<longleftrightarrow>
      (\<exists>i. intent_of (ar_dispatch_id res) db = Some i \<and>
        ValidateIntentTransition (it_state i) (at_to (ar_transition res)) (at_reason (ar_transition res))
          (at_evidence (ar_transition res)) = Inr () \<and>
        (outcome_storable (ar_outcome res) \<or> ar_attempt_id res \<notin> set (map tt_attempt_id (db_attempts db))) \<and>
        at_transition_id (ar_transition res) \<notin> set (map xr_transition_id (db_transitions db)))) \<and>
    (\<forall>db1. CompleteAttempt False rv res db = (db1, Inr ()) \<longrightarrow>
      (\<exists>j. intent_of (ar_dispatch_id res) db1 = Some j \<and> it_state j = at_to (ar_transition res) \<and>
        it_lease_owner j = None \<and> it_lease_expires_at j = None) \<and>
      (\<forall>t\<in>set (db_attempts db). tt_attempt_id t \<noteq> ar_attempt_id res \<longrightarrow> t \<in> set (db_attempts db1)))"
proof -
  let ?did = "ar_dispatch_id res" and ?now = "normalizeTimestamp (ar_completed_at res)" and ?tr = "ar_transition res"
  let ?valid = "\<lambda>i. ValidateIntentTransition (it_state i) (at_to ?tr) (at_reason ?tr) (at_evidence ?tr) = Inr ()"
  let ?fits = "outcome_storable (ar_outcome res) \<or> ar_attempt_id res \<notin> set (map tt_attempt_id (db_attempts db))"
  let ?unused = "at_transition_id ?tr \<notin> set (map xr_transition_id (db_transitions db))"
  obtain f where f: "f = end_lease (at_to ?tr) (ar_next_attempt_at res) ?now" by blast
  obtain ts where ts: "ts = update_where (\<lambda>t. tt_attempt_id t = ar_attempt_id res) (close_attempt res ?now) (db_attempts db)" by blast
  obtain ctx where ctx: "ctx = [(''reason'', AuditText (IntentReason_str (at_reason ?tr))), (''attempt_id'', AuditText (ar_attempt_id res)),
      (''outcome'', AuditText (ar_outcome res))]" by blast
  have c: "complete_attempt rv res db = Inr (db1, ()) \<longleftrightarrow> (\<exists>i. intent_of ?did db = Some i \<and> ?valid i \<and> ?fits \<and>
      AppendTransition (at_transition_id ?tr) intent_entity ?did (IntentState_str (it_state i)) (IntentState_str (at_to ?tr)) ?now ctx
        ((update_intent ?did f db)\<lparr>db_attempts := ts\<rparr>) = Inr db1)" for db1
    using assms by (auto simp: complete_attempt_def Let_def f [symmetric] ts [symmetric] ctx [symmetric]
        appendValidatedTransition_def result_simps)
  have t: "CompleteAttempt False rv res db = (db1, Inr ()) \<longleftrightarrow> complete_attempt rv res db = Inr (db1, ())" for db1
    by (auto simp: CompleteAttempt_def transact_def split: sum.splits prod.splits)
  have s: "snd (CompleteAttempt False rv res db) = Inr () \<longleftrightarrow> (\<exists>i. intent_of ?did db = Some i \<and> ?valid i \<and> ?fits \<and> ?unused)"
  proof -
    have "snd (CompleteAttempt False rv res db) = Inr () \<longleftrightarrow> (\<exists>db1. CompleteAttempt False rv res db = (db1, Inr ()))"
      by (metis prod.collapse snd_conv)
    then show ?thesis by (auto simp: t c AppendTransition_Inr update_intent_def)
  qed
  moreover have "(\<exists>j. intent_of ?did db1 = Some j \<and> it_state j = at_to ?tr \<and> it_lease_owner j = None \<and> it_lease_expires_at j = None) \<and>
      (\<forall>t\<in>set (db_attempts db). tt_attempt_id t \<noteq> ar_attempt_id res \<longrightarrow> t \<in> set (db_attempts db1))"
    if "CompleteAttempt False rv res db = (db1, Inr ())" for db1
  proof -
    from that obtain i where i: "intent_of ?did db = Some i" and d: "db_intents db1 = db_intents (update_intent ?did f db)"
      and a: "db_attempts db1 = ts" by (auto simp: t c AppendTransition_Inr)
    have "intent_of ?did db1 = Some (f i)"
      unfolding d using i row_of_Some [OF i] by (simp add: update_intent_def row_of_update_where f end_lease_def)
    moreover have "\<forall>t\<in>set (db_attempts db). tt_attempt_id t \<noteq> ar_attempt_id res \<longrightarrow> t \<in> set (db_attempts db1)"
      by (force simp: a ts update_where_def)
    ultimately show ?thesis by (simp add: f end_lease_def)
  qed
  ultimately show ?thesis by blast
qed


section \<open>The slot as a mutex with hand-over\<close>

text \<open>The abstract slot: nobody's, a lane's (with the dispatch that took it, or reserved), or blocked by a conflict.\<close>

datatype slot_owner = Vacant | Owned "string \<times> string" "string option" | Blocked

definition slot_owner_of :: "GroupRow \<Rightarrow> slot_owner" where
  "slot_owner_of g = (case gr_state g of GroupOpen \<Rightarrow> Vacant | GroupConflict \<Rightarrow> Blocked
     | GroupHeld \<Rightarrow> Owned (nullText (gr_holder_route_id g), nullText (gr_holder_destination_id g)) (gr_holder_dispatch_id g))"

definition owner_of :: "string \<Rightarrow> Db \<Rightarrow> slot_owner option" where
  "owner_of gid db = map_option slot_owner_of (group_row gid db)"

fun spec_acquire :: "string \<times> string \<Rightarrow> string \<Rightarrow> slot_owner \<Rightarrow> slot_owner option" where
  "spec_acquire lane did Vacant = Some (Owned lane (Some did))"
| "spec_acquire lane did Blocked = None"
| "spec_acquire lane did (Owned l h) =
     (if h = Some did then Some (Owned l h) else if l = lane then Some (Owned lane (Some did)) else None)"

text \<open>The waiting lane with the oldest dirty work gets the slot as a reservation.\<close>

definition spec_release :: "LaneRow set \<Rightarrow> string \<Rightarrow> slot_owner \<Rightarrow> slot_owner \<Rightarrow> bool" where
  "spec_release W did before after =
     (case before of
        Owned l h \<Rightarrow>
          if h \<noteq> Some did then after = before
          else if W = {} then after = Vacant
          else \<exists>w \<in> W. (\<forall>v \<in> W. age_key w \<le> age_key v) \<and> after = Owned (lane_key w) None
      | _ \<Rightarrow> after = before)"

definition waiting_set :: "string \<Rightarrow> string \<Rightarrow> string \<Rightarrow> Db \<Rightarrow> LaneRow set" where
  "waiting_set gid route dest db = {l \<in> set (db_lanes db). member_lane gid db l \<and> lane_key l \<noteq> (route, dest) \<and> waits db l}"

interpretation lane_age: key_order older age_key
  by unfold_locales (simp add: older_def)

lemma set_waiting [simp]: "set (waiting_lanes gid route dest db) = waiting_set gid route dest db"
  by (auto simp: waiting_lanes_def waiting_set_def)

lemma oldest_first_lane:
  assumes "waiting_lanes gid route dest db = l # ls"
  shows "l \<in> waiting_set gid route dest db \<and> (\<forall>v \<in> waiting_set gid route dest db. age_key l \<le> age_key v)"
proof -
  have "sorted (map age_key (waiting_lanes gid route dest db))"
    unfolding waiting_lanes_def by (rule lane_age.sorted_by_key)
  moreover have "waiting_set gid route dest db = insert l (set ls)" by (simp add: assms flip: set_waiting)
  ultimately show ?thesis by (auto simp: assms)
qed

lemma group_key: "group_row gid db = Some g \<Longrightarrow> gr_group_id g = gid"
  by (drule row_of_Some) simp

lemma group_row_update:
  "group_row h (update_group gid f db) = map_option (\<lambda>g. if gr_group_id g = gid then f g else g) (group_row h db)"
  if "\<And>g. gr_group_id (f g) = gr_group_id g"
  by (simp add: update_group_def row_of_update_where that)

lemma owner_update:
  assumes "group_row gid db = Some g" and "\<And>x. gr_group_id (f x) = gr_group_id x"
  shows "owner_of gid ((update_group gid f db)\<lparr>db_transitions := xs\<rparr>) = Some (slot_owner_of (f g))"
    and "h \<noteq> gid \<Longrightarrow> owner_of h ((update_group gid f db)\<lparr>db_transitions := xs\<rparr>) = owner_of h db"
proof -
  note r = group_row_update [of f, OF assms(2)]
  show "owner_of gid ((update_group gid f db)\<lparr>db_transitions := xs\<rparr>) = Some (slot_owner_of (f g))"
    using assms(1) group_key [OF assms(1)] by (simp add: owner_of_def r)
  show "owner_of h ((update_group gid f db)\<lparr>db_transitions := xs\<rparr>) = owner_of h db" if "h \<noteq> gid"
    using that by (cases "group_row h db") (auto simp: owner_of_def r dest: group_key)
qed

lemma slot_fields [simp]:
  "gr_group_id (take_slot route dest did now g) = gr_group_id g" "gr_group_id (promote_to l now g) = gr_group_id g"
  "gr_group_id (set_holder st r d i now g) = gr_group_id g"
  "slot_owner_of (take_slot route dest did now g) = Owned (route, dest) (Some did)"
  "slot_owner_of (promote_to l now g) = Owned (lane_key l) None"
  "slot_owner_of (set_holder GroupOpen r d i now g) = Vacant"
  by (simp_all add: take_slot_def promote_to_def set_holder_def slot_owner_of_def nullText_def)

definition well_held :: "GroupRow \<Rightarrow> bool" where
  "well_held g = (gr_state g = GroupHeld \<longrightarrow> gr_holder_route_id g \<noteq> None \<and> gr_holder_destination_id g \<noteq> None)"

lemma nullText_eq: "did \<noteq> [] \<Longrightarrow> nullText h = did \<longleftrightarrow> h = Some did"
  by (cases h) (auto simp: nullText_def)

lemma nullText_Some: "nullText (Some x) = x"
  by (simp add: nullText_def)

lemma acquire_refines:
  assumes "groupOfLaneTx route dest db = Some gid" and g: "group_row gid db = Some g" and "well_held g" and "did \<noteq> []"
  shows "acquireGroupSlotTx route dest did actor now db = Inr db1 \<Longrightarrow>
      owner_of gid db1 = spec_acquire (route, dest) did (slot_owner_of g) \<and> (\<forall>h. h \<noteq> gid \<longrightarrow> owner_of h db1 = owner_of h db)"
    and "acquireGroupSlotTx route dest did actor now db \<in> {Inl (Refused GroupSlotHeld), Inl (SerializationConflict gid)} \<longleftrightarrow>
      spec_acquire (route, dest) did (slot_owner_of g) = None"
proof -
  let ?take = "group_audit g ''slot-acquired'' GroupHeld now (slot_context ''slot-acquired'' actor route dest did)
    (update_group gid (take_slot route dest did now) db)"
  have e: "acquireGroupSlotTx route dest did actor now db =
      (case slot_owner_of g of Vacant \<Rightarrow> ?take | Blocked \<Rightarrow> Inl (SerializationConflict gid)
       | Owned l h \<Rightarrow> if h = Some did then Inr db else if l = (route, dest) then ?take else Inl (Refused GroupSlotHeld))"
  proof (cases "gr_state g")
    case GroupHeld
    with assms(3) obtain r d where h: "gr_holder_route_id g = Some r" "gr_holder_destination_id g = Some d" by (auto simp: well_held_def)
    show ?thesis using assms(1) g GroupHeld h nullText_eq [OF assms(4), of "gr_holder_dispatch_id g"]
      by (simp add: acquireGroupSlotTx_def slot_owner_of_def held_by_lane_def nullText_Some)
  qed (use assms(1) g in \<open>simp_all add: acquireGroupSlotTx_def slot_owner_of_def\<close>)
  have t: "owner_of gid x = Some (Owned (route, dest) (Some did)) \<and> (\<forall>h. h \<noteq> gid \<longrightarrow> owner_of h x = owner_of h db)"
    if "?take = Inr x" for x
    using group_audit_Inr [OF that] owner_update [OF g, where f = "take_slot route dest did now"] by auto
  have n: "?take \<notin> {Inl (Refused GroupSlotHeld), Inl (SerializationConflict gid)}"
    by (auto simp: group_audit_def AppendTransition_def)
  show "owner_of gid db1 = spec_acquire (route, dest) did (slot_owner_of g) \<and> (\<forall>h. h \<noteq> gid \<longrightarrow> owner_of h db1 = owner_of h db)"
    if "acquireGroupSlotTx route dest did actor now db = Inr db1"
    using that t [of db1] g unfolding e by (auto simp: owner_of_def split: slot_owner.splits if_splits)
  show "acquireGroupSlotTx route dest did actor now db \<in> {Inl (Refused GroupSlotHeld), Inl (SerializationConflict gid)} \<longleftrightarrow>
      spec_acquire (route, dest) did (slot_owner_of g) = None"
    using n unfolding e by (auto split: slot_owner.splits)
qed

lemma release_refines:
  assumes "groupOfLaneTx route dest db = Some gid" and g: "group_row gid db = Some g" and "did \<noteq> []"
    and "releaseGroupSlotTx route dest did actor now db = Inr db1"
  shows "\<exists>after. owner_of gid db1 = Some after \<and> spec_release (waiting_set gid route dest db) did (slot_owner_of g) after \<and>
    (\<forall>h. h \<noteq> gid \<longrightarrow> owner_of h db1 = owner_of h db)"
proof (cases "gr_state g = GroupHeld \<and> gr_holder_dispatch_id g = Some did")
  case False
  have "\<exists>xs. db1 = db\<lparr>db_transitions := xs\<rparr>"
    using assms False by (auto simp: releaseGroupSlotTx_def split: list.splits if_splits dest!: group_audit_Inr intro: exI [of _ "db_transitions db"])
  then have "owner_of h db1 = owner_of h db" for h by (auto simp: owner_of_def)
  moreover have "spec_release W did (slot_owner_of g) (slot_owner_of g)" for W
    using False by (auto simp: spec_release_def slot_owner_of_def split: GroupState.splits)
  ultimately show ?thesis using g by (auto simp: owner_of_def)
next
  case True
  then have s: "slot_owner_of g = Owned (nullText (gr_holder_route_id g), nullText (gr_holder_destination_id g)) (Some did)"
    by (simp add: slot_owner_of_def)
  have n: "nullText (Some did) = did" by (simp add: nullText_def)
  show ?thesis
  proof (cases "waiting_lanes gid route dest db")
    case Nil
    have w: "waiting_set gid route dest db = {}" by (simp add: Nil flip: set_waiting)
    from Nil assms True n obtain xs where "db1 = (update_group gid (set_holder GroupOpen None None None now) db)\<lparr>db_transitions := xs\<rparr>"
      by (auto simp: releaseGroupSlotTx_def dest!: group_audit_Inr)
    with owner_update [OF g, where f = "set_holder GroupOpen None None None now"] w s show ?thesis
      by (auto simp: spec_release_def)
  next
    case (Cons l ls)
    from Cons assms True n obtain xs where "db1 = (update_group gid (promote_to l now) db)\<lparr>db_transitions := xs\<rparr>"
      by (auto simp: releaseGroupSlotTx_def dest!: group_audit_Inr)
    with owner_update [OF g, where f = "promote_to l now"] oldest_first_lane [OF Cons] s show ?thesis
      by (auto simp: spec_release_def)
  qed
qed

definition sample_runtime :: RouteRow where
  "sample_runtime = \<lparr>rr_route_id = ''r'', rr_activation_state = ''enabled'', rr_acknowledged_revision = None,
     rr_capability_fingerprint = [], rr_route_state = RouteIdle, rr_active_dispatch_id = None, rr_dirty_generation = 0,
     rr_dirty_since = None, rr_pending_reconcile = False, rr_last_source_position = None, rr_last_reconciled_at = None, rr_version = 0\<rparr>"

text \<open>A store with one registered route and nothing dispatched.\<close>

definition sample_db :: Db where
  "sample_db = \<lparr>db_routes = [''r''], db_resources = [\<lparr>re_resource_id = ''res'', re_observation_revision = 0\<rparr>],
     db_observations = [], db_batches = [], db_decisions = [], db_facts = [], db_holds = [], db_effects = [], db_attributions = [],
     db_intents = [], db_attempts = [], db_receipts = [], db_transitions = [], db_aggregates = [], db_revisions = [],
     db_children = [], db_runtime = [sample_runtime], db_lanes = [], db_gated = True, db_groups = [], db_members = [],
     db_outbox = \<lparr>ox_events = [], ox_attempts = [], ox_runs = []\<rparr>\<rparr>"

definition sample_intent :: "string \<Rightarrow> IntentInput" where
  "sample_intent did = \<lparr>in_target_scope = [], in_dispatch_id = did, in_decision_id = ''dec'', in_route_id = ''r'',
     in_route_revision = ''rev'', in_target_id = ''t'', in_target_type = ''k'', in_resource_id = ''res'', in_generation = 1,
     in_idempotency_key = did, in_content_fingerprint = ''fp'', in_manifest_digest = ''md'',
     in_request_version = TaskRequestContractVersion, in_request_json = ''{}'', in_created_at = ''2026-01-01T00:00:00Z'',
     in_fanout = None\<rparr>"

definition sample_lineage :: Lineage where
  "sample_lineage = \<lparr>ln_observation = \<lparr>ob_observation_id = ''o'', ob_schema_version = ''v'', ob_source_type = ''s'',
       ob_source_id = ''src'', ob_source_event_key = [], ob_trigger_name = ''tr'', ob_resource_id = ''res'',
       ob_observed_at = ''2026-01-01T00:00:00Z'', ob_received_at = ''2026-01-01T00:00:00Z'', ob_raw_payload_digest = ''dg'',
       ob_ingest_status = ''ok'', ob_flags_json = ''{}'', ob_position_json = [], ob_changes = [], ob_import_attributions = []\<rparr>,
     ln_batch = \<lparr>ba_batch_id = ''b'', ba_route_id = ''r'', ba_route_revision = ''rev'', ba_resource_id = ''res'',
       ba_created_at = ''2026-01-01T00:00:00Z'', ba_content_fingerprint = ''fp'', ba_observation_ids = [''o''],
       ba_selected_destinations = []\<rparr>,
     ln_decision = \<lparr>de_decision_id = ''dec'', de_batch_id = ''b'', de_route_id = ''r'', de_route_revision = ''rev'',
       de_policy_revision = ''p'', de_disposition = ''dispatch'', de_classification = ''normal'',
       de_reason_codes_json = ''[]'', de_created_at = ''2026-01-01T00:00:00Z'', de_actor = ''ad'',
       de_generation_lineage_json = []\<rparr>,
     ln_intent = sample_intent ''x''\<rparr>"

definition sample_acquire :: "string \<Rightarrow> string \<Rightarrow> string \<Rightarrow> string \<Rightarrow> AcquireAttempt" where
  "sample_acquire aid owner now expires = \<lparr>aa_dispatch_id = ''x'', aa_attempt_id = aid, aa_owner = owner, aa_now = now,
     aa_lease_expires_at = expires, aa_next_attempt_at = []\<rparr>"

text \<open>The report of a worker that its submission failed without reaching the target.\<close>

definition sample_result :: "string \<Rightarrow> string \<Rightarrow> AttemptResult" where
  "sample_result aid now = \<lparr>ar_attempt_id = aid, ar_dispatch_id = ''x'', ar_outcome = ''transport_failure'',
     ar_error_code = ''unavailable'', ar_response_digest = [], ar_diagnostic = [], ar_completed_at = now,
     ar_next_attempt_at = [],
     ar_transition = \<lparr>at_to = IntentRetryWait, at_reason = ReasonTransientFailure, at_evidence = no_intent_evidence,
       at_transition_id = aid @ '':late''\<rparr>, ar_receipt = None\<rparr>"

definition sample_absent :: LookupResult where
  "sample_absent = \<lparr>lk_status = LookupAbsent, lk_acceptance = [], lk_external_ref = [], lk_found_durable = False,
     lk_target_observed_at = []\<rparr>"


text \<open>C9: a serialization group's slot refines a mutex with hand-over (CON-011, CON-012). An acquisition
  that commits leaves the slot exactly as the abstract mutex says: a vacant slot becomes the lane's, a
  reservation for the lane is consumed, the holder's own dispatch passes. It is refused as held or in
  conflict exactly when the mutex refuses: another lane owns the slot, or a conflict blocks it. A release
  that commits hands the slot of the releasing holder to the waiting member lane with the oldest dirty
  work, as a reservation, or vacates it when none waits; a releaser that does not hold the slot leaves it
  alone. Both leave every other group's slot alone.\<close>

theorem group_slot_refines_a_mutex:
  assumes "groupOfLaneTx route dest db = Some gid" and "group_row gid db = Some g" and "well_held g" and "did \<noteq> []"
  shows "(\<forall>db1. acquireGroupSlotTx route dest did actor now db = Inr db1 \<longrightarrow>
        owner_of gid db1 = spec_acquire (route, dest) did (slot_owner_of g) \<and> (\<forall>h. h \<noteq> gid \<longrightarrow> owner_of h db1 = owner_of h db))
    \<and> (acquireGroupSlotTx route dest did actor now db \<in> {Inl (Refused GroupSlotHeld), Inl (SerializationConflict gid)} \<longleftrightarrow>
        spec_acquire (route, dest) did (slot_owner_of g) = None)
    \<and> (\<forall>db1. releaseGroupSlotTx route dest did actor now db = Inr db1 \<longrightarrow>
        (\<exists>after. owner_of gid db1 = Some after \<and> spec_release (waiting_set gid route dest db) did (slot_owner_of g) after \<and>
          (\<forall>h. h \<noteq> gid \<longrightarrow> owner_of h db1 = owner_of h db)))"
  using acquire_refines [OF assms] release_refines [OF assms(1,2,4)] by blast

definition sample_lane :: "string \<Rightarrow> RouteState \<Rightarrow> string option \<Rightarrow> int \<Rightarrow> LaneRow" where
  "sample_lane dest st did dirty = \<lparr>la_route_id = ''r'', la_destination_id = dest, la_lane_state = st, la_active_dispatch_id = did,
     la_active_generation = 1, la_dirty_generation = dirty, la_dirty_since = None, la_version = 0\<rparr>"

definition sample_group :: GroupRow where
  "sample_group = \<lparr>gr_group_id = ''g'', gr_state = GroupHeld, gr_holder_route_id = Some ''r'', gr_holder_destination_id = Some ''a'',
     gr_holder_dispatch_id = Some ''x'', gr_conflict = Some [], gr_materialized_at = ''t0'', gr_updated_at = ''t0'', gr_version = 3\<rparr>"

text \<open>Two lanes of one group; \<open>x\<close> holds the slot for lane \<open>a\<close>.\<close>

definition grouped_db :: "LaneRow list \<Rightarrow> Db" where
  "grouped_db lanes = sample_db\<lparr>db_lanes := lanes, db_groups := [sample_group],
     db_members := [\<lparr>gm_route_id = ''r'', gm_destination_id = ''a'', gm_group_id = ''g''\<rparr>,
       \<lparr>gm_route_id = ''r'', gm_destination_id = ''b'', gm_group_id = ''g''\<rparr>]\<rparr>"

lemma grouped_lanes [simp]:
  "groupOfLaneTx ''r'' ''a'' (grouped_db ls) = Some ''g''" "groupOfLaneTx ''r'' ''b'' (grouped_db ls) = Some ''g''"
  "group_row ''g'' (grouped_db ls) = Some sample_group" "db_lanes (grouped_db ls) = ls" "db_transitions (grouped_db ls) = []"
  by (simp_all add: groupOfLaneTx_def group_of_def grouped_db_def sample_db_def sample_group_def row_of_Cons)

theorem group_slot_refines_a_mutex_witness:
  "acquireGroupSlotTx ''r'' ''b'' ''y'' ''w'' ''t1'' (grouped_db [])
     \<in> {Inl (Refused GroupSlotHeld), Inl (SerializationConflict ''g'')}"
  using group_slot_refines_a_mutex [of "''r''" "''b''" "grouped_db []" "''g''" sample_group "''y''" "''w''" "''t1''"]
  by (simp add: slot_owner_of_def sample_group_def well_held_def nullText_def)

text \<open>C35: a release by a dispatch that does not hold the slot still writes that the slot was released.
  \<open>CloseDeadLetter\<close> and the completions call the release whether or not their dispatch holds the slot, and
  the guard lets it pass when the lane matches. When no lane waits, the group's row stays held, with its
  version, but the append-only history says it went from held to open; the later release by the true
  holder then needs the same audit identity and is refused by the primary key, and with it the completion
  it belongs to.\<close>

theorem phantom_release_wedges_the_holder:
  assumes "groupOfLaneTx route dest db = Some gid" and g: "group_row gid db = Some g" and "gr_state g = GroupHeld"
    and "gr_holder_route_id g = Some route" and "gr_holder_destination_id g = Some dest"
    and "gr_holder_dispatch_id g = Some holder" and "holder \<noteq> did" and "waiting_lanes gid route dest db = []"
    and f: "serializationTransitionID gid ''slot-released'' (gr_version g + 1) \<notin> set (map xr_transition_id (db_transitions db))"
  shows "\<exists>db1 x. releaseGroupSlotTx route dest did actor now db = Inr db1 \<and> group_row gid db1 = Some g \<and>
    db_transitions db1 = db_transitions db @ [x] \<and> xr_entity_id x = gid \<and> xr_from_state x = Some ''HELD'' \<and>
    xr_to_state x = ''OPEN'' \<and> releaseGroupSlotTx route dest holder actor2 now2 db1 = Inl ConstraintRefused"
proof -
  have k: "gr_group_id g = gid" using g by (rule group_key)
  obtain db1 where a: "group_audit g ''slot-released'' GroupOpen now (slot_context ''slot-released'' actor route dest did) db = Inr db1"
    using f k by (simp add: group_audit_def AppendTransition_def)
  have r: "releaseGroupSlotTx route dest did actor now db = Inr db1"
    using assms a by (simp add: releaseGroupSlotTx_def held_by_lane_def nullText_def)
  from a k obtain x where x: "db1 = db\<lparr>db_transitions := db_transitions db @ [x]\<rparr>" "xr_entity_id x = gid"
      "xr_from_state x = Some ''HELD''" "xr_to_state x = ''OPEN''"
      "xr_transition_id x = serializationTransitionID gid ''slot-released'' (gr_version g + 1)"
    using assms(3) by (auto simp: group_audit_def AppendTransition_Inr nullString_def)
  have w: "waiting_lanes gid route dest db1 = []"
    using assms(8) by (simp add: x(1) waiting_lanes_def member_lane_def waits_def intent_live_def)
  have gl: "groupOfLaneTx route dest db1 = Some gid" and g1: "group_row gid db1 = Some g"
    using assms(1) g by (auto simp: x(1) groupOfLaneTx_def split: if_splits)
  have t: "serializationTransitionID gid ''slot-released'' (gr_version g + 1) \<in> set (map xr_transition_id (db_transitions db1))"
    by (simp add: x(1) x(5))
  have "releaseGroupSlotTx route dest holder actor2 now2 db1 = Inl ConstraintRefused"
    using assms(3-6) gl g1 w t k
    by (simp add: releaseGroupSlotTx_def nullText_def group_audit_def AppendTransition_def update_group_def)
  with r x g1 show ?thesis by auto
qed

theorem phantom_release_wedges_the_holder_witness:
  "\<exists>db1 x. releaseGroupSlotTx ''r'' ''a'' ''old'' ''op'' ''t1'' (grouped_db []) = Inr db1 \<and> group_row ''g'' db1 = Some sample_group \<and>
    db_transitions db1 = db_transitions (grouped_db []) @ [x] \<and> xr_entity_id x = ''g'' \<and> xr_from_state x = Some ''HELD'' \<and>
    xr_to_state x = ''OPEN'' \<and> releaseGroupSlotTx ''r'' ''a'' ''x'' ''w'' ''t2'' db1 = Inl ConstraintRefused"
  by (rule phantom_release_wedges_the_holder) (simp_all add: sample_group_def waiting_lanes_def)


section \<open>Concrete runs\<close>

text \<open>The sample dispatch is ready and holds its lane; then worker A leases it until 00:01.\<close>

definition ready_db :: Db where
  "ready_db = sample_db\<lparr>db_intents := [intent_row (sample_intent ''x'') 1],
     db_lanes := [reserve_lane ''x'' 1 (idle_lane ''r'' LegacyDestinationLaneID)]\<rparr>"

definition lease_A :: AcquireAttempt where
  "lease_A = sample_acquire ''a1'' ''A'' ''2026-01-01T00:00:00Z'' ''2026-01-01T00:01:00Z''"

definition lease_B :: AcquireAttempt where
  "lease_B = sample_acquire ''a2'' ''B'' ''2026-01-01T00:00:30Z'' ''2026-01-01T00:10:00Z''"

lemma lease_A_taken:
  "snd (AcquireAttempt False lease_A ready_db) = Inr ''a1'' \<and>
   map it_dispatch_id (db_intents (fst (AcquireAttempt False lease_A ready_db))) = [''x''] \<and>
   map it_dispatch_id (db_intents ready_db) = [''x''] \<and>
   normalizeTimestamp (aa_now lease_B) \<le> normalizeTimestamp (aa_lease_expires_at lease_A) \<and>
   laneOfDispatch ''x'' ready_db = (''r'', LegacyDestinationLaneID)"
  by code_simp

lemma lease_A_pair: "AcquireAttempt False lease_A ready_db = (fst (AcquireAttempt False lease_A ready_db), Inr ''a1'')"
  using lease_A_taken by (simp add: prod_eq_iff)

lemma lease_ids [simp]: "aa_dispatch_id lease_A = ''x''" "aa_dispatch_id lease_B = ''x''"
  by (simp_all add: lease_A_def lease_B_def sample_acquire_def)

theorem attempt_lease_is_exclusive_witness:
  "AcquireAttempt False lease_B (fst (AcquireAttempt False lease_A ready_db)) =
     (fst (AcquireAttempt False lease_A ready_db), Inl (Refused LeaseHeld))"
  by (rule attempt_lease_is_exclusive [OF lease_A_pair]) (simp_all add: lease_A_taken)

theorem submission_owns_its_lane_and_group_witness:
  "rr_activation_state sample_runtime = ''enabled'' \<and> rr_route_state sample_runtime \<notin> {RouteQuarantined, RouteUncertain}"
proof -
  have l: "laneOfDispatch (aa_dispatch_id lease_A) ready_db = (''r'', LegacyDestinationLaneID)" by (simp add: lease_A_taken)
  have "sample_runtime \<in> set (db_runtime ready_db)" "rr_route_id sample_runtime = ''r''"
    by (simp_all add: ready_db_def sample_db_def sample_runtime_def)
  with submission_owns_its_lane_and_group [OF lease_A_pair _ l] lease_A_taken show ?thesis by simp
qed

text \<open>A's lease was abandoned, B submits under a live one; A's late report ends it, and C leases too.\<close>

definition taken_over_db :: Db where
  "taken_over_db = ready_db\<lparr>
     db_intents := [lease_row ''B'' ''2026-01-01T00:10:00Z'' [] ''2026-01-01T00:03:00Z'' (intent_row (sample_intent ''x'') 1)],
     db_attempts := [abandon ''2026-01-01T00:02:00Z'' (attempt_of lease_A ''2026-01-01T00:00:00Z'' (intent_row (sample_intent ''x'') 1)),
       attempt_of lease_B ''2026-01-01T00:03:00Z'' (intent_row (sample_intent ''x'') 1)]\<rparr>"

definition late_calls :: "store_call list" where
  "late_calls = [CallComplete (sample_result ''a1'' ''2026-01-01T00:04:00Z''),
     CallAcquire (sample_acquire ''a3'' ''C'' ''2026-01-01T00:05:00Z'' ''2026-01-01T00:15:00Z'')]"

lemma two_leases_overlap:
  "map (\<lambda>i. (it_state i, it_lease_owner i)) (db_intents taken_over_db) = [(IntentSubmitting, Some ''B'')] \<and>
   map (\<lambda>i. (it_state i, it_lease_owner i)) (db_intents (foldl (perform None) taken_over_db late_calls)) =
     [(IntentSubmitting, Some ''C'')] \<and>
   map (\<lambda>t. (tt_lease_owner t, tt_completed_at t)) (drop 1 (db_attempts (foldl (perform None) taken_over_db late_calls))) =
     [(''B'', None), (''C'', None)]"
  by code_simp

theorem completion_ignores_the_lease_witness:
  "map (\<lambda>i. (it_state i, it_lease_owner i)) (db_intents taken_over_db) = [(IntentSubmitting, Some ''B'')] \<and>
   (\<exists>db1 j. CompleteAttempt False None (sample_result ''a1'' ''2026-01-01T00:04:00Z'') taken_over_db = (db1, Inr ()) \<and>
     intent_of ''x'' db1 = Some j \<and> it_state j = IntentRetryWait \<and> it_lease_owner j = None \<and> it_lease_expires_at j = None) \<and>
   map (\<lambda>i. (it_state i, it_lease_owner i)) (db_intents (foldl (perform None) taken_over_db late_calls)) =
     [(IntentSubmitting, Some ''C'')] \<and>
   map (\<lambda>t. (tt_lease_owner t, tt_completed_at t)) (drop 1 (db_attempts (foldl (perform None) taken_over_db late_calls))) =
     [(''B'', None), (''C'', None)]"
proof -
  let ?r = "sample_result ''a1'' ''2026-01-01T00:04:00Z''"
  let ?i = "lease_row ''B'' ''2026-01-01T00:10:00Z'' [] ''2026-01-01T00:03:00Z'' (intent_row (sample_intent ''x'') 1)"
  have r: "ar_dispatch_id ?r = ''x''" "at_to (ar_transition ?r) = IntentRetryWait" "ar_receipt ?r = None"
    by (simp_all add: sample_result_def)
  have i: "intent_of (ar_dispatch_id ?r) taken_over_db = Some ?i"
    by (simp add: r taken_over_db_def row_of_Cons lease_row_def sample_intent_def)
  have v: "ValidateIntentTransition (it_state ?i) (at_to (ar_transition ?r)) (at_reason (ar_transition ?r))
      (at_evidence (ar_transition ?r)) = Inr ()"
    by (simp add: lease_row_def sample_result_def ValidateIntentTransition_def intentTable_def intent_edges_def intent_guard_def)
  have rest: "outcome_storable (ar_outcome ?r)" "at_to (ar_transition ?r) \<noteq> IntentUnknown"
    "at_transition_id (ar_transition ?r) \<notin> set (map xr_transition_id (db_transitions taken_over_db))"
    by (simp_all add: sample_result_def outcome_storable_def taken_over_db_def ready_db_def sample_db_def)
  note t = completion_ignores_the_lease [OF r(3) rest(2), of None taken_over_db]
  from t i v rest have "snd (CompleteAttempt False None ?r taken_over_db) = Inr ()" by blast
  then obtain db1 where "CompleteAttempt False None ?r taken_over_db = (db1, Inr ())" by (metis prod.collapse)
  with t two_leases_overlap r show ?thesis by auto
qed

text \<open>C8: the audit history is complete (DUR-011). Whatever calls reach a store in which nothing has
  been dispatched yet, and whichever of them are refused, the audit rows of every intent begin with its
  creation, each one continues from the state the one before reached, every step is an edge of the
  documented intent machine (or the reset of a waiting retry), and the last one reaches exactly the
  state the intent's row holds.\<close>

theorem audit_history_is_a_machine_run:
  assumes "db_intents db = []" and "db_transitions db = []"
  shows "follows None (trail did (foldl (perform rv) db calls)) (state_of did (foldl (perform rv) db calls))"
proof -
  have "audited db" using assms by (simp add: audited_def trail_def state_of_def)
  then have "audited (foldl (perform rv) db calls)"
    by (induction calls arbitrary: db) (simp_all add: keeps_perform)
  then show ?thesis by (simp add: audited_def)
qed

theorem audit_history_is_a_machine_run_witness:
  "follows None (trail ''x'' (foldl (perform None) sample_db [CallLineage sample_lineage, CallAcquire lease_A]))
     (state_of ''x'' (foldl (perform None) sample_db [CallLineage sample_lineage, CallAcquire lease_A]))"
  by (rule audit_history_is_a_machine_run) (simp_all add: sample_db_def)

end
