(* ===== verification/Prune.thy ===== *)
theory Prune
  imports Quarantine
begin

text \<open>
  The retention prune (\<open>src/internal/adapters/sqlite/maintenance.go\<close>, with the candidates of
  \<open>sync_management_retention.go\<close>): what it plans, what it deletes, and the audit row it leaves. It reads and
  writes tables that no other method of the dispatch store touches; they stand beside the dispatch tables in
  \<open>Retained\<close>, with the columns the prune reads. Text columns compare bytewise, a comparison with NULL
  is false. A cascading foreign key deletes with its parent; the one reference that neither cascades nor is
  guarded, from an aggregate event to its decision, refuses the delete.
\<close>

section \<open>The tables\<close>

record PruneCutoffs =
  co_observations :: string
  co_attempts :: string
  co_completed_receipts :: string
  co_resolved_quarantine :: string
  co_notifications :: string
  co_management_drafts :: string
  co_management_terminal :: string

record PruneCounts =
  pn_attempts :: nat
  pn_receipts :: nat
  pn_work_receipts :: nat
  pn_intents :: nat
  pn_decisions :: nat
  pn_batches :: nat
  pn_observations :: nat
  pn_path_facts :: nat
  pn_quarantine :: nat
  pn_notifications :: nat
  pn_sync_journals :: nat
  pn_sync_jobs :: nat
  pn_management_requests :: nat

record WorkRow =
  wk_receipt_id :: string
  wk_dispatch_id :: string
  wk_submitted_at :: string

record JobRow =
  jb_job_id :: string
  jb_kind :: string
  jb_retain_until_resolved :: bool
  jb_resolved_at :: "string option"

record JournalRow =
  jn_journal_id :: string
  jn_job_id :: string

text \<open>A management request with its associated jobs; \<open>mr_readable\<close>: \<open>loadManagement\<close> accepts the stored row.\<close>

record RequestRow =
  mr_request_id :: string
  mr_target_request_id :: "string option"
  mr_finished :: bool
  mr_created_at :: string
  mr_expires_at :: string
  mr_accepted_at :: "string option"
  mr_resolved_at :: "string option"
  mr_jobs :: "string list"
  mr_readable :: bool

text \<open>The audit row of a prune has no transition id (NULL), so it collides with none.\<close>

record PruneAudit =
  pa_actor :: string
  pa_reason :: string
  pa_cutoffs :: PruneCutoffs
  pa_counts :: PruneCounts
  pa_recorded_at :: string

record Retained =
  rn_db :: Db
  rn_work :: "WorkRow list"
  rn_jobs :: "JobRow list"
  rn_journal :: "JournalRow list"
  rn_requests :: "RequestRow list"
  rn_audit :: "PruneAudit list"

section \<open>The guards\<close>

definition old :: "string \<Rightarrow> string option \<Rightarrow> bool" where
  "old cutoff t = (case t of None \<Rightarrow> False | Some x \<Rightarrow> x < cutoff)"

definition resolved_terminal :: "IntentRow \<Rightarrow> bool" where
  "resolved_terminal i = (it_state i \<in> {IntentRejected, IntentSuperseded, IntentCompleted, IntentFailed, IntentCanceled})"

definition route_slots :: "Db \<Rightarrow> string list" where
  "route_slots db = concat (map (\<lambda>r. case rr_active_dispatch_id r of None \<Rightarrow> [] | Some d \<Rightarrow> [d]) (db_runtime db))"

definition active_slots :: "Db \<Rightarrow> string list" where
  "active_slots db = route_slots db @
     concat (map (\<lambda>l. case la_active_dispatch_id l of None \<Rightarrow> [] | Some d \<Rightarrow> [d]) (db_lanes db))"

definition terminal_dispatch :: "Db \<Rightarrow> string \<Rightarrow> bool" where
  "terminal_dispatch db did = list_ex (\<lambda>i. it_dispatch_id i = did \<and> resolved_terminal i) (db_intents db)"

text \<open>\<open>terminalLineage\<close> with \<open>notActiveSlotSQL\<close>.\<close>

definition settled :: "Db \<Rightarrow> string \<Rightarrow> bool" where
  "settled db did = (terminal_dispatch db did \<and> did \<notin> set (active_slots db))"

definition prunable_attempt :: "PruneCutoffs \<Rightarrow> Db \<Rightarrow> AttemptRow \<Rightarrow> bool" where
  "prunable_attempt c db t = (old (co_attempts c) (tt_completed_at t) \<and> settled db (tt_dispatch_id t))"

definition prunable_receipt :: "PruneCutoffs \<Rightarrow> Db \<Rightarrow> ReceiptRow \<Rightarrow> bool" where
  "prunable_receipt c db r = (rp_received_at r < co_completed_receipts c \<and> settled db (rp_dispatch_id r))"

definition prunable_work :: "PruneCutoffs \<Rightarrow> Db \<Rightarrow> WorkRow \<Rightarrow> bool" where
  "prunable_work c db w = (wk_submitted_at w < co_completed_receipts c \<and> settled db (wk_dispatch_id w))"

definition prunable_child :: "PruneCutoffs \<Rightarrow> Db \<Rightarrow> ChildRow \<Rightarrow> bool" where
  "prunable_child c db h =
     (list_ex (\<lambda>i. it_dispatch_id i = ch_dispatch_id h \<and> resolved_terminal i \<and> it_updated_at i < co_attempts c) (db_intents db) \<and>
      ch_dispatch_id h \<notin> set (active_slots db))"

definition prunable_intent :: "PruneCutoffs \<Rightarrow> WorkRow list \<Rightarrow> Db \<Rightarrow> IntentRow \<Rightarrow> bool" where
  "prunable_intent c work db i =
     (resolved_terminal i \<and> it_updated_at i < co_attempts c \<and>
      it_dispatch_id i \<notin> set (map tt_dispatch_id (db_attempts db)) \<and>
      it_dispatch_id i \<notin> set (map rp_dispatch_id (db_receipts db)) \<and>
      \<not> list_ex (\<lambda>w. wk_dispatch_id w = it_dispatch_id i \<and> co_completed_receipts c \<le> wk_submitted_at w) work \<and>
      it_dispatch_id i \<notin> set (active_slots db))"

definition prunable_decision :: "PruneCutoffs \<Rightarrow> Db \<Rightarrow> DecisionRow \<Rightarrow> bool" where
  "prunable_decision c db d =
     (dw_created_at d < co_attempts c \<and>
      dw_decision_id d \<notin> set (map it_decision_id (db_intents db)) \<and>
      Some (dw_decision_id d) \<notin> set (map dw_supersedes (db_decisions db)) \<and>
      dw_decision_id d \<notin> set (map qi_decision_id (db_holds db)))"

definition prunable_batch :: "PruneCutoffs \<Rightarrow> Db \<Rightarrow> BatchRow \<Rightarrow> bool" where
  "prunable_batch c db b =
     (bt_created_at b < co_observations c \<and>
      Some (bt_batch_id b) \<notin> set (map dw_batch_id (db_decisions db)) \<and>
      Some (bt_batch_id b) \<notin> set (map qi_batch_id (db_holds db)))"

definition prunable_observation :: "PruneCutoffs \<Rightarrow> Db \<Rightarrow> ObservationInput \<Rightarrow> bool" where
  "prunable_observation c db ob =
     (ob_observed_at ob < co_observations c \<and>
      \<not> list_ex (\<lambda>b. ob_observation_id ob \<in> set (bt_observation_ids b)) (db_batches db) \<and>
      ob_observation_id ob \<notin> set (map au_observation_id (db_attributions db)))"

definition prunable_hold :: "PruneCutoffs \<Rightarrow> HoldRow \<Rightarrow> bool" where
  "prunable_hold c h =
     (qi_state h \<in> {HoldReleased, HoldDiscarded, HoldSuperseded} \<and> old (co_resolved_quarantine c) (qi_resolved_at h))"

text \<open>An empty text is the NULL column of a pending event.\<close>

definition prunable_event :: "PruneCutoffs \<Rightarrow> NotificationEventRecord \<Rightarrow> bool" where
  "prunable_event c e =
     (ne_state e \<in> {NotificationDelivered, NotificationRefused} \<and> ne_resolved_at e \<noteq> [] \<and>
      ne_resolved_at e < co_notifications c)"

definition syncAgePrunableKinds :: "string list" where
  "syncAgePrunableKinds = [''publication'', ''delivery'', ''import'', ''verification'']"

definition managed_jobs :: "RequestRow list \<Rightarrow> string list" where
  "managed_jobs requests = concat (map mr_jobs requests)"

text \<open>Without the restriction to a kind, as the plan of the observations has it.\<close>

definition job_past :: "PruneCutoffs \<Rightarrow> RequestRow list \<Rightarrow> JobRow \<Rightarrow> bool" where
  "job_past c requests j =
     (\<not> jb_retain_until_resolved j \<and> old (co_completed_receipts c) (jb_resolved_at j) \<and>
      jb_job_id j \<notin> set (managed_jobs requests))"

definition prunable_job :: "PruneCutoffs \<Rightarrow> RequestRow list \<Rightarrow> JobRow \<Rightarrow> bool" where
  "prunable_job c requests j = (jb_kind j \<in> set syncAgePrunableKinds \<and> job_past c requests j)"

text \<open>\<open>managementPruneCandidates\<close>: the oldest 256 leaves; every one of them is read back.\<close>

definition request_past :: "string \<Rightarrow> string \<Rightarrow> JobRow list \<Rightarrow> RequestRow list \<Rightarrow> RequestRow \<Rightarrow> bool" where
  "request_past drafts terminal jobs requests r =
     (((mr_accepted_at r = None \<and> mr_expires_at r < drafts) \<or> (mr_finished r \<and> old terminal (mr_resolved_at r))) \<and>
      Some (mr_request_id r) \<notin> set (map mr_target_request_id requests) \<and>
      \<not> list_ex (\<lambda>j. jb_job_id j \<in> set (mr_jobs r) \<and> (jb_retain_until_resolved j \<or> jb_resolved_at j = None)) jobs)"

definition managementPruneCandidates :: "string \<Rightarrow> string \<Rightarrow> JobRow list \<Rightarrow> RequestRow list \<Rightarrow> db_error + string list" where
  "managementPruneCandidates drafts terminal jobs requests =
     (let rs = take 256 (sort_by (\<lambda>a b. (mr_created_at a, mr_request_id a) < (mr_created_at b, mr_request_id b))
            (filter (request_past drafts terminal jobs requests) requests))
      in if list_all mr_readable rs then Inr (map mr_request_id rs) else Inl (Refused OtherFailure))"

definition prune_candidates :: "PruneCutoffs \<Rightarrow> Retained \<Rightarrow> db_error + string list" where
  "prune_candidates c rn =
     (if co_management_drafts c \<noteq> [] \<and> co_management_terminal c \<noteq> []
      then managementPruneCandidates (co_management_drafts c) (co_management_terminal c) (rn_jobs rn) (rn_requests rn)
      else Inr [])"

section \<open>The execution\<close>

definition drop_where :: "('r \<Rightarrow> bool) \<Rightarrow> 'r list \<Rightarrow> 'r list" where
  "drop_where P rows = filter (\<lambda>r. \<not> P r) rows"

text \<open>Attempts, receipts and work receipts, then children, then the intents nothing refers to.\<close>

definition prune_lineages :: "PruneCutoffs \<Rightarrow> Retained \<Rightarrow> Retained" where
  "prune_lineages c rn =
     (let db = rn_db rn; work = drop_where (prunable_work c db) (rn_work rn);
          db1 = db\<lparr>db_attempts := drop_where (prunable_attempt c db) (db_attempts db),
            db_receipts := drop_where (prunable_receipt c db) (db_receipts db),
            db_children := drop_where (prunable_child c db) (db_children db)\<rparr>
      in rn\<lparr>rn_work := work, rn_db := db1\<lparr>db_intents := drop_where (prunable_intent c work db1) (db_intents db1)\<rparr>\<rparr>)"

definition prune_decisions :: "PruneCutoffs \<Rightarrow> Db \<Rightarrow> db_error + Db" where
  "prune_decisions c db =
     (if list_ex (\<lambda>a. list_ex (\<lambda>d. dw_decision_id d = ag_decision_id a \<and> prunable_decision c db d) (db_decisions db)) (db_aggregates db)
      then Inl ConstraintRefused
      else Inr (db\<lparr>db_decisions := drop_where (prunable_decision c db) (db_decisions db)\<rparr>))"

definition prune_batches :: "PruneCutoffs \<Rightarrow> Db \<Rightarrow> Db" where
  "prune_batches c db = db\<lparr>db_batches := drop_where (prunable_batch c db) (db_batches db)\<rparr>"

text \<open>Journals, then jobs; the effects and attributions of a job cascade.\<close>

definition prune_jobs :: "PruneCutoffs \<Rightarrow> Retained \<Rightarrow> Retained" where
  "prune_jobs c rn =
     (let gone = map jb_job_id (filter (prunable_job c (rn_requests rn)) (rn_jobs rn)); db = rn_db rn
      in rn\<lparr>rn_journal := drop_where (\<lambda>e. jn_job_id e \<in> set gone) (rn_journal rn),
            rn_jobs := drop_where (prunable_job c (rn_requests rn)) (rn_jobs rn),
            rn_db := db\<lparr>db_effects := drop_where (\<lambda>e. ef_job_id e \<in> set gone) (db_effects db),
              db_attributions := drop_where (\<lambda>a. au_job_id a \<in> set gone) (db_attributions db)\<rparr>\<rparr>)"

definition prune_observations :: "PruneCutoffs \<Rightarrow> Db \<Rightarrow> Db" where
  "prune_observations c db = db\<lparr>db_observations := drop_where (prunable_observation c db) (db_observations db)\<rparr>"

text \<open>Every resource that loses a fact advances its revision first.\<close>

definition prune_facts :: "PruneCutoffs \<Rightarrow> Db \<Rightarrow> Db" where
  "prune_facts c db =
     (let past = (\<lambda>f. fa_observed_at f < co_observations c)
      in db\<lparr>db_resources := update_where (\<lambda>r. list_ex (\<lambda>f. fa_resource_id f = re_resource_id r \<and> past f) (db_facts db))
           (\<lambda>r. r\<lparr>re_observation_revision := re_observation_revision r + 1\<rparr>) (db_resources db),
         db_facts := drop_where past (db_facts db)\<rparr>)"

definition prune_holds :: "PruneCutoffs \<Rightarrow> Db \<Rightarrow> Db" where
  "prune_holds c db = db\<lparr>db_holds := drop_where (prunable_hold c) (db_holds db)\<rparr>"

definition prune_events :: "PruneCutoffs \<Rightarrow> Db \<Rightarrow> Db" where
  "prune_events c db =
     (let ox = db_outbox db; gone = map ne_notification_id (filter (prunable_event c) (ox_events ox))
      in db\<lparr>db_outbox := ox\<lparr>ox_attempts := drop_where (\<lambda>a. na_notification_id a \<in> set gone) (ox_attempts ox),
           ox_events := drop_where (prunable_event c) (ox_events ox)\<rparr>\<rparr>)"

text \<open>What one pass removed, table by table.\<close>

definition lost :: "(Retained \<Rightarrow> 'r list) \<Rightarrow> Retained \<Rightarrow> Retained \<Rightarrow> nat" where
  "lost rows rn rn1 = length (rows rn) - length (rows rn1)"

definition prune_counts :: "Retained \<Rightarrow> Retained \<Rightarrow> PruneCounts" where
  "prune_counts rn rn1 =
     \<lparr>pn_attempts = lost (\<lambda>r. db_attempts (rn_db r)) rn rn1, pn_receipts = lost (\<lambda>r. db_receipts (rn_db r)) rn rn1,
      pn_work_receipts = lost rn_work rn rn1, pn_intents = lost (\<lambda>r. db_intents (rn_db r)) rn rn1,
      pn_decisions = lost (\<lambda>r. db_decisions (rn_db r)) rn rn1, pn_batches = lost (\<lambda>r. db_batches (rn_db r)) rn rn1,
      pn_observations = lost (\<lambda>r. db_observations (rn_db r)) rn rn1, pn_path_facts = lost (\<lambda>r. db_facts (rn_db r)) rn rn1,
      pn_quarantine = lost (\<lambda>r. db_holds (rn_db r)) rn rn1,
      pn_notifications = lost (\<lambda>r. ox_events (db_outbox (rn_db r))) rn rn1,
      pn_sync_journals = lost rn_journal rn rn1, pn_sync_jobs = lost rn_jobs rn rn1,
      pn_management_requests = lost rn_requests rn rn1\<rparr>"

definition execute_prune :: "PruneCutoffs \<Rightarrow> string \<Rightarrow> string \<Rightarrow> string \<Rightarrow> Retained \<Rightarrow> db_error + Retained \<times> PruneCounts" where
  "execute_prune c actor reason now rn =
     bindE (prune_candidates c rn) (\<lambda>candidates.
     let rn1 = prune_lineages c rn
     in bindE (prune_decisions c (rn_db rn1)) (\<lambda>db2.
     let rn3 = prune_jobs c (rn1\<lparr>rn_db := prune_batches c db2\<rparr>);
         db4 = prune_events c (prune_holds c (prune_facts c (prune_observations c (rn_db rn3))));
         rn4 = rn3\<lparr>rn_db := db4, rn_requests := drop_where (\<lambda>r. mr_request_id r \<in> set candidates) (rn_requests rn3)\<rparr>;
         counts = prune_counts rn rn4
     in Inr (rn4\<lparr>rn_audit := rn_audit rn4 @ [\<lparr>pa_actor = actor, pa_reason = reason, pa_cutoffs = c, pa_counts = counts,
          pa_recorded_at = now\<rparr>]\<rparr>, counts)))"

definition ExecutePrune ::
  "bool \<Rightarrow> PruneCutoffs \<Rightarrow> string \<Rightarrow> string \<Rightarrow> string \<Rightarrow> Retained \<Rightarrow> Retained \<times> (db_error + PruneCounts)" where
  "ExecutePrune ctx_done c actor reason now = transact ctx_done StoreContextDone (execute_prune c actor reason now)"

section \<open>The plan\<close>

text \<open>Where the execution also guards the slots of the lanes, most of the plan's queries guard the route rows only.\<close>

definition planned_attempt :: "PruneCutoffs \<Rightarrow> Db \<Rightarrow> AttemptRow \<Rightarrow> bool" where
  "planned_attempt c db t =
     (old (co_attempts c) (tt_completed_at t) \<and> terminal_dispatch db (tt_dispatch_id t) \<and>
      tt_dispatch_id t \<notin> set (route_slots db))"

definition planned_receipt :: "PruneCutoffs \<Rightarrow> Db \<Rightarrow> ReceiptRow \<Rightarrow> bool" where
  "planned_receipt c db r =
     (rp_received_at r < co_completed_receipts c \<and> terminal_dispatch db (rp_dispatch_id r) \<and>
      rp_dispatch_id r \<notin> set (route_slots db))"

definition planned_intent :: "PruneCutoffs \<Rightarrow> WorkRow list \<Rightarrow> Db \<Rightarrow> IntentRow \<Rightarrow> bool" where
  "planned_intent c work db i =
     (resolved_terminal i \<and> it_updated_at i < co_attempts c \<and>
      \<not> list_ex (\<lambda>t. tt_dispatch_id t = it_dispatch_id i \<and> \<not> old (co_attempts c) (tt_completed_at t)) (db_attempts db) \<and>
      \<not> list_ex (\<lambda>r. rp_dispatch_id r = it_dispatch_id i \<and> co_completed_receipts c \<le> rp_received_at r) (db_receipts db) \<and>
      \<not> list_ex (\<lambda>w. wk_dispatch_id w = it_dispatch_id i \<and> co_completed_receipts c \<le> wk_submitted_at w) work \<and>
      it_dispatch_id i \<notin> set (route_slots db))"

definition planned_decision :: "PruneCutoffs \<Rightarrow> WorkRow list \<Rightarrow> Db \<Rightarrow> DecisionRow \<Rightarrow> bool" where
  "planned_decision c work db d =
     (dw_created_at d < co_attempts c \<and>
      \<not> list_ex (\<lambda>i. it_decision_id i = dw_decision_id d \<and>
          it_dispatch_id i \<notin> set (map it_dispatch_id (filter (planned_intent c work db) (db_intents db)))) (db_intents db) \<and>
      Some (dw_decision_id d) \<notin> set (map dw_supersedes (db_decisions db)) \<and>
      dw_decision_id d \<notin> set (map qi_decision_id (db_holds db)))"

definition planned_batch :: "PruneCutoffs \<Rightarrow> WorkRow list \<Rightarrow> Db \<Rightarrow> BatchRow \<Rightarrow> bool" where
  "planned_batch c work db b =
     (bt_created_at b < co_observations c \<and>
      \<not> list_ex (\<lambda>d. dw_batch_id d = Some (bt_batch_id b) \<and>
          dw_decision_id d \<notin> set (map dw_decision_id (filter (planned_decision c work db) (db_decisions db)))) (db_decisions db) \<and>
      Some (bt_batch_id b) \<notin> set (map qi_batch_id (db_holds db)))"

definition planned_observation :: "PruneCutoffs \<Rightarrow> Retained \<Rightarrow> ObservationInput \<Rightarrow> bool" where
  "planned_observation c rn ob =
     (let db = rn_db rn
      in ob_observed_at ob < co_observations c \<and>
         \<not> list_ex (\<lambda>b. ob_observation_id ob \<in> set (bt_observation_ids b) \<and>
             bt_batch_id b \<notin> set (map bt_batch_id (filter (planned_batch c (rn_work rn) db) (db_batches db)))) (db_batches db) \<and>
         \<not> list_ex (\<lambda>a. au_observation_id a = ob_observation_id ob \<and>
             list_ex (\<lambda>j. jb_job_id j = au_job_id a \<and> \<not> job_past c (rn_requests rn) j) (rn_jobs rn)) (db_attributions db))"

record PrunePlan =
  pp_cutoffs :: PruneCutoffs
  pp_counts :: PruneCounts
  pp_sample_ids :: "string list"

definition planRemaining :: "PruneCutoffs \<Rightarrow> Retained \<Rightarrow> PruneCounts \<Rightarrow> PruneCounts" where
  "planRemaining c rn counts =
     (let db = rn_db rn
      in counts\<lparr>pn_decisions := affected (planned_decision c (rn_work rn) db) (db_decisions db),
           pn_batches := affected (planned_batch c (rn_work rn) db) (db_batches db),
           pn_observations := affected (planned_observation c rn) (db_observations db),
           pn_path_facts := affected (\<lambda>f. fa_observed_at f < co_observations c) (db_facts db),
           pn_quarantine := affected (prunable_hold c) (db_holds db),
           pn_notifications := affected (prunable_event c) (ox_events (db_outbox db)),
           pn_sync_journals := affected (\<lambda>e. jn_job_id e \<in> set (map jb_job_id (filter (prunable_job c (rn_requests rn)) (rn_jobs rn))))
             (rn_journal rn),
           pn_sync_jobs := affected (prunable_job c (rn_requests rn)) (rn_jobs rn)\<rparr>)"

definition PlanPrune :: "PruneCutoffs \<Rightarrow> Retained \<Rightarrow> db_error + PrunePlan" where
  "PlanPrune c rn =
     (let db = rn_db rn;
          counts = planRemaining c rn
            \<lparr>pn_attempts = affected (planned_attempt c db) (db_attempts db),
             pn_receipts = affected (planned_receipt c db) (db_receipts db),
             pn_work_receipts = affected (prunable_work c db) (rn_work rn),
             pn_intents = affected (planned_intent c (rn_work rn) db) (db_intents db),
             pn_decisions = 0, pn_batches = 0, pn_observations = 0, pn_path_facts = 0, pn_quarantine = 0,
             pn_notifications = 0, pn_sync_journals = 0, pn_sync_jobs = 0, pn_management_requests = 0\<rparr>
      in bindE (prune_candidates c rn) (\<lambda>candidates.
         Inr \<lparr>pp_cutoffs = c, pp_counts = counts\<lparr>pn_management_requests := length candidates\<rparr>,
           pp_sample_ids = map it_dispatch_id (take 20 (sort_by (\<lambda>a b. it_updated_at a < it_updated_at b)
             (filter (\<lambda>i. resolved_terminal i \<and> it_updated_at i < co_attempts c) (db_intents db))))\<rparr>))"

section \<open>What one prune keeps\<close>

lemma in_drop_where [simp]: "r \<in> set (drop_where P rows) \<longleftrightarrow> r \<in> set rows \<and> \<not> P r"
  by (simp add: drop_where_def)

lemma row_of_drop_where: "row_of key k rows = Some r \<Longrightarrow> \<not> P r \<Longrightarrow> row_of key k (drop_where P rows) = Some r"
  by (induction rows) (auto simp: row_of_Cons drop_where_def split: if_splits)

text \<open>One committed prune, stage by stage.\<close>

lemma pruned:
  assumes "execute_prune c actor reason now rn = Inr (rn1, counts)"
  obtains candidates where "prune_candidates c rn = Inr candidates"
    and "db_intents (rn_db rn1) = drop_where (prunable_intent c (rn_work rn1)
       ((rn_db rn)\<lparr>db_attempts := db_attempts (rn_db rn1), db_receipts := db_receipts (rn_db rn1),
          db_children := db_children (rn_db rn1)\<rparr>)) (db_intents (rn_db rn))"
    and "rn_work rn1 = drop_where (prunable_work c (rn_db rn)) (rn_work rn)"
    and "db_attempts (rn_db rn1) = drop_where (prunable_attempt c (rn_db rn)) (db_attempts (rn_db rn))"
    and "db_receipts (rn_db rn1) = drop_where (prunable_receipt c (rn_db rn)) (db_receipts (rn_db rn))"
    and "db_children (rn_db rn1) = drop_where (prunable_child c (rn_db rn)) (db_children (rn_db rn))"
    and "db_holds (rn_db rn1) = drop_where (prunable_hold c) (db_holds (rn_db rn))"
    and "db_decisions (rn_db rn1) = drop_where (prunable_decision c (rn_db rn\<lparr>db_intents := db_intents (rn_db rn1)\<rparr>)) (db_decisions (rn_db rn))"
    and "db_batches (rn_db rn1) = drop_where (prunable_batch c (rn_db rn\<lparr>db_decisions := db_decisions (rn_db rn1)\<rparr>)) (db_batches (rn_db rn))"
    and "db_observations (rn_db rn1) = drop_where (prunable_observation c (rn_db rn\<lparr>db_batches := db_batches (rn_db rn1),
        db_attributions := db_attributions (rn_db rn1)\<rparr>)) (db_observations (rn_db rn))"
    and "db_transitions (rn_db rn1) = db_transitions (rn_db rn)" and "db_aggregates (rn_db rn1) = db_aggregates (rn_db rn)"
    and "db_lanes (rn_db rn1) = db_lanes (rn_db rn)" and "db_runtime (rn_db rn1) = db_runtime (rn_db rn)"
    and "db_groups (rn_db rn1) = db_groups (rn_db rn)"
proof -
  have settled: "prunable_decision c (db\<lparr>db_attempts := a, db_receipts := r, db_children := ch, db_intents := i\<rparr>) =
      prunable_decision c (db\<lparr>db_intents := i\<rparr>)" for db a r ch i
    by (simp add: fun_eq_iff prunable_decision_def)
  have batch: "prunable_batch c (db\<lparr>db_attempts := a, db_receipts := r, db_children := ch, db_intents := i, db_decisions := d\<rparr>) =
      prunable_batch c (db\<lparr>db_decisions := d\<rparr>)" for db a r ch i d
    by (simp add: fun_eq_iff prunable_batch_def)
  from assms obtain candidates where c: "prune_candidates c rn = Inr candidates" by (auto simp: execute_prune_def result_simps)
  show thesis
    by (rule that [OF c])
      (use assms c in \<open>auto simp: execute_prune_def Let_def prune_lineages_def prune_decisions_def prune_batches_def prune_jobs_def
        prune_observations_def prune_facts_def prune_holds_def prune_events_def result_simps settled batch
        prunable_observation_def [abs_def] split: if_splits\<close>)
qed

end
