(* ===== verification/HoldProtocol.thy ===== *)
theory HoldProtocol
  imports StoreFrames StoreProtocol Prune
begin

text \<open>
  What a hold and a full path snapshot promise over every run of the dispatch store: a hold waits for the
  operator, and a reconciliation never overwrites facts that are newer than the ones it read.
\<close>

section \<open>Path facts\<close>

definition facts_of :: "string \<Rightarrow> Db \<Rightarrow> FactRow list" where
  "facts_of resource db = filter (\<lambda>f. fa_resource_id f = resource) (db_facts db)"

definition revision_of :: "string \<Rightarrow> Db \<Rightarrow> int option" where
  "revision_of resource db = map_option re_observation_revision (row_of re_resource_id resource (db_resources db))"

text \<open>One step of a resource: nothing, or a later revision.\<close>

definition later :: "string \<Rightarrow> Db \<Rightarrow> Db \<Rightarrow> bool" where
  "later resource db db1 \<longleftrightarrow> (revision_of resource db1 = revision_of resource db \<and> facts_of resource db1 = facts_of resource db) \<or>
     (\<exists>r r1. revision_of resource db = Some r \<and> revision_of resource db1 = Some r1 \<and> r < r1)"

lemma later_refl: "later resource db db"
  by (simp add: later_def)

lemma later_trans: "later resource a b \<Longrightarrow> later resource b c \<Longrightarrow> later resource a c"
  unfolding later_def by (elim disjE exE conjE) auto

lemma later_keep: "keep db1 = keep db \<Longrightarrow> later resource db db1"
  by (simp add: later_def keep_def revision_of_def facts_of_def)

lemma revision_bumped:
  "revision_of resource (db\<lparr>db_facts := fs, db_resources := update_where (\<lambda>r. re_resource_id r = bumped)
      (\<lambda>r. r\<lparr>re_observation_revision := re_observation_revision r + 1\<rparr>) (db_resources db)\<rparr>) =
   map_option (\<lambda>n. if resource = bumped then n + 1 else n) (revision_of resource db)"
  by (auto simp: revision_of_def row_of_update_where option.map_comp intro!: option.map_cong0 dest: row_of_Some)

lemma upsert_elsewhere:
  "resource \<noteq> other \<Longrightarrow> filter (\<lambda>f. fa_resource_id f = resource) (upsert_facts other cs now fs) = filter (\<lambda>f. fa_resource_id f = resource) fs"
proof (induction cs arbitrary: fs)
  case (Cons c cs)
  have "filter (\<lambda>f. fa_resource_id f = resource) (update_where (\<lambda>g. fact_key g = (other, p)) (\<lambda>_. fact_row other d now) fs) =
      filter (\<lambda>f. fa_resource_id f = resource) fs" for d p fs
    using Cons.prems by (induction fs) (auto simp: fact_row_def)
  with Cons show ?case by (auto simp: upsert_fact_def fact_row_def)
qed simp

lemma later_upsert:
  assumes "upsertPathFacts other cs now db = Inr db1"
  shows "later resource db db1"
proof (cases "list_ex records_fact cs")
  case False
  with assms show ?thesis by (simp add: upsertPathFacts_def later_refl)
next
  case True
  with assms have k: "other \<in> set (map re_resource_id (db_resources db))"
    and d: "db1 = db\<lparr>db_facts := upsert_facts other cs now (db_facts db), db_resources := update_where (\<lambda>r. re_resource_id r = other)
      (\<lambda>r. r\<lparr>re_observation_revision := re_observation_revision r + 1\<rparr>) (db_resources db)\<rparr>"
    by (auto simp: upsertPathFacts_def split: if_splits)
  from k obtain r where r: "revision_of other db = Some r"
    by (cases "row_of re_resource_id other (db_resources db)") (auto simp: revision_of_def row_of_None)
  have n: "revision_of q db1 = map_option (\<lambda>n. if q = other then n + 1 else n) (revision_of q db)" for q
    unfolding d by (rule revision_bumped)
  show ?thesis
  proof (cases "resource = other")
    case True
    with n [of resource] r show ?thesis by (simp add: later_def)
  next
    case False
    then have "facts_of resource db1 = facts_of resource db" by (simp add: facts_of_def d upsert_elsewhere)
    moreover have "revision_of resource db1 = revision_of resource db"
      using False by (simp add: n option.map_ident)
    ultimately show ?thesis by (simp add: later_def)
  qed
qed

lemma later_lineage:
  assumes "commit_lineage lin db = Inr (db1, u)"
  shows "later resource db db1"
proof -
  from assms obtain a e ctx where "keep a = keep db"
    and f: "upsertPathFacts (ob_resource_id (ln_observation lin)) (ob_changes (ln_observation lin))
        (ob_received_at (ln_observation lin)) a = Inr e"
    and "keep db1 = keep e"
    unfolding commit_lineage_def Let_def by (auto simp: result_simps dest!: apart)
  with later_upsert [OF f] show ?thesis by (blast intro: later_trans later_keep)
qed

lemma replaced:
  assumes "replace_path_facts resource expected facts now db = Inr (db1, u)"
  shows "revision_of resource db = Some expected" and "revision_of resource db1 = Some (expected + 1)"
    and "facts_of resource db1 = map (snapshot_fact resource now) facts" and "later other db db1" and "db_holds db1 = db_holds db"
proof -
  from assms have e: "revision_of resource db = Some expected"
    and d: "db1 = db\<lparr>db_facts := filter (\<lambda>f. fa_resource_id f \<noteq> resource) (db_facts db) @ map (snapshot_fact resource now) facts,
      db_resources := update_where (\<lambda>r. re_resource_id r = resource)
        (\<lambda>r. r\<lparr>re_observation_revision := re_observation_revision r + 1\<rparr>) (db_resources db)\<rparr>"
    by (auto simp: replace_path_facts_def result_simps ObservationRevision_def revision_of_def)
  have n: "revision_of q db1 = map_option (\<lambda>n. if q = resource then n + 1 else n) (revision_of q db)" for q
    unfolding d by (rule revision_bumped)
  show "revision_of resource db = Some expected" by (rule e)
  show r: "revision_of resource db1 = Some (expected + 1)" by (simp add: n e)
  show "facts_of resource db1 = map (snapshot_fact resource now) facts"
    by (simp add: facts_of_def d filter_map o_def snapshot_fact_def)
  show "db_holds db1 = db_holds db" by (simp add: d)
  show "later other db db1"
  proof (cases "other = resource")
    case True
    with e r show ?thesis by (simp add: later_def)
  next
    case False
    then show ?thesis
      using n [of other] by (auto simp: later_def d facts_of_def filter_map o_def snapshot_fact_def option.map_ident intro!: filter_cong)
  qed
qed

section \<open>Holds\<close>

lemma quarantine_steps:
  assumes "commit_quarantine rv lin q db = Inr (db1, u)"
  obtains new where "db_facts db1 = db_facts db" and "db_resources db1 = db_resources db" and "db_holds db1 = db_holds db @ new"
proof -
  from assms obtain a b where a: "keep a = keep db" and b: "insert_hold q a = Inr b" and c: "keep db1 = keep b"
    unfolding commit_quarantine_def by (auto simp: result_simps dest!: apart)
  from b obtain new where "db_facts b = db_facts a" "db_resources b = db_resources a" "db_holds b = db_holds a @ new"
    by (auto simp: insert_hold_def result_simps split: option.splits)
  with a c that show thesis by (simp add: keep_def)
qed

lemma resolve_steps:
  assumes "resolve_quarantine rv qid to actor reason now revs db = Inr (db1, r)"
  obtains h where "hold_of qid db = Some h" and "qi_state h = HoldHeld" and "db_facts db1 = db_facts db"
    and "db_resources db1 = db_resources db"
    and "db_holds db1 = update_where (\<lambda>q. qi_quarantine_id q = qid \<and> qi_state q = HoldHeld)
      (resolved_hold to actor reason now (if revs = None then [] else ''dec-release-'' @ qid)) (db_holds db)"
proof -
  let ?rep = "if revs = None then [] else ''dec-release-'' @ qid"
  from assms obtain h a d ctx where h: "hold_of qid db = Some h" "qi_state h = HoldHeld"
    and a: "(case revs of None \<Rightarrow> Inr db | Some (rrev, prev) \<Rightarrow> release_work rv qid actor now ?rep rrev prev d db) = Inr a"
    and b: "keep db1 = keep (a\<lparr>db_holds := update_where (\<lambda>q. qi_quarantine_id q = qid \<and> qi_state q = HoldHeld)
      (resolved_hold to actor reason now ?rep) (db_holds a)\<rparr>)"
    unfolding resolve_quarantine_def Let_def by (auto simp: result_simps dest!: apart)
  from a have "keep a = keep db" by (auto split: option.splits dest: apart)
  with b h that show thesis by (simp add: keep_def)
qed

lemma hold_kept:
  assumes "hold_of qid db = Some h"
  shows "db_holds db1 = db_holds db @ new \<Longrightarrow> hold_of qid db1 = Some h"
    and "db_holds db1 = update_where (\<lambda>q. qi_quarantine_id q = other \<and> qi_state q = HoldHeld)
        (resolved_hold to actor reason now rep) (db_holds db) \<Longrightarrow>
      hold_of qid db1 = Some (if qid = other \<and> qi_state h = HoldHeld then resolved_hold to actor reason now rep h else h)"
proof -
  show "hold_of qid db1 = Some h" if "db_holds db1 = db_holds db @ new"
    using assms that by (simp add: row_of_append)
  have "qi_quarantine_id h = qid" using assms by (auto dest: row_of_Some)
  then show "hold_of qid db1 = Some (if qid = other \<and> qi_state h = HoldHeld then resolved_hold to actor reason now rep h else h)"
    if "db_holds db1 = update_where (\<lambda>q. qi_quarantine_id q = other \<and> qi_state q = HoldHeld)
        (resolved_hold to actor reason now rep) (db_holds db)"
    using assms by (auto simp: that row_of_update_where resolved_hold_def)
qed

text \<open>The operator's calls: the hold, the actor and the reason.\<close>

fun operator_call :: "store_call \<Rightarrow> (string \<times> string \<times> string) option" where
  "operator_call (CallRelease svc qid actor reason now) = Some (qid, actor, reason)"
| "operator_call (CallDiscard qid actor reason now) = Some (qid, actor, reason)"
| "operator_call c = None"

definition resolved_as :: "string \<Rightarrow> string \<Rightarrow> HoldRow \<Rightarrow> bool" where
  "resolved_as actor reason h \<longleftrightarrow> qi_state h \<in> {HoldReleased, HoldDiscarded} \<and> qi_resolved_by h = Some actor \<and>
     qi_resolution_reason h = Some reason"

lemma resolve_call:
  assumes "hold_of qid db = Some h" and "to \<in> {HoldReleased, HoldDiscarded}"
    and "db1 = fst (transact d e (resolve_quarantine rv other to actor reason now revs) db)"
  shows "hold_of qid db1 = Some h \<or> (qi_state h = HoldHeld \<and> other = qid \<and> (\<exists>h1. hold_of qid db1 = Some h1 \<and> resolved_as actor reason h1))"
proof (cases "db1 = db")
  case False
  with assms(3) obtain r where "resolve_quarantine rv other to actor reason now revs db = Inr (db1, r)"
    by (auto simp: transact_def split: sum.splits prod.splits if_splits)
  then show ?thesis
    by (rule resolve_steps) (use assms(1,2) hold_kept(2) [OF assms(1)] in \<open>auto simp: resolved_as_def resolved_hold_def\<close>)
qed (simp add: assms(1))

lemma hold_step:
  assumes "hold_of qid db = Some h"
  shows "hold_of qid (perform rv db c) = Some h \<or> (qi_state h = HoldHeld \<and> (\<exists>actor reason h1. operator_call c = Some (qid, actor, reason) \<and>
    trim_space reason \<noteq> [] \<and> hold_of qid (perform rv db c) = Some h1 \<and> resolved_as actor reason h1))"
proof -
  have k: ?thesis if "db_holds (perform rv db c) = db_holds db" using assms that by simp
  show ?thesis
  proof (cases c)
    case (CallLineage lin)
    have "db_holds (fst (transact False StoreContextDone (commit_lineage lin) db)) = db_holds db"
      by (rule transact_keeps) (auto simp: commit_lineage_def Let_def result_simps upsertPathFacts_def keep_def
          dest!: apart split: if_splits)
    then show ?thesis by (intro k) (simp add: CallLineage CommitLineage_def)
  next
    case (CallQuarantine lin q)
    have "hold_of qid (fst (transact False StoreContextDone (commit_quarantine rv lin q) db)) = Some h"
      by (rule transact_keeps) (auto elim!: quarantine_steps intro: hold_kept(1) [OF assms] assms)
    then show ?thesis by (simp add: CallQuarantine CommitQuarantineLineage_def)
  next
    case (CallReplaceFacts resource expected facts now)
    have "db_holds (fst (transact False StoreContextDone (replace_path_facts resource expected facts now) db)) = db_holds db"
      by (rule transact_keeps) (auto dest: replaced(5))
    then show ?thesis by (intro k) (simp add: CallReplaceFacts ReplacePathFacts_def)
  next
    case (CallRelease svc other actor reason now)
    show ?thesis
    proof (cases "trim_space reason = []")
      case False
      then have "\<exists>revs. perform rv db c =
          fst (transact False StoreContextDone (resolve_quarantine rv other HoldReleased actor reason now revs) db)"
        by (cases "qs_route_revision svc = []")
          (auto simp: CallRelease Release_def hold_outcome_def ReleaseQuarantine_def ReleaseQuarantineWithRevision_def)
      then obtain revs where "perform rv db c =
          fst (transact False StoreContextDone (resolve_quarantine rv other HoldReleased actor reason now revs) db)" ..
      from resolve_call [OF assms _ this] False show ?thesis by (simp add: CallRelease)
    qed (use assms in \<open>simp add: CallRelease Release_def\<close>)
  next
    case (CallDiscard other actor reason now)
    show ?thesis
    proof (cases "trim_space reason = []")
      case False
      then have "perform rv db c =
          fst (transact False StoreContextDone (resolve_quarantine rv other HoldDiscarded actor reason now None) db)"
        by (simp add: CallDiscard Discard_def hold_outcome_def DiscardQuarantine_def)
      from resolve_call [OF assms _ this] False show ?thesis by (simp add: CallDiscard)
    qed (use assms in \<open>simp add: CallDiscard Discard_def\<close>)
  qed (rule k, use keep_perform [of c rv db] in \<open>simp add: keep_def\<close>)+
qed

section \<open>Runs with the retention prune\<close>

text \<open>What happens to a store: a call of the dispatch store, or a prune with its cutoffs.\<close>

datatype store_event =
    Call store_call
  | Prune PruneCutoffs string string string

fun happen :: "policy_resolver \<Rightarrow> Retained \<Rightarrow> store_event \<Rightarrow> Retained" where
  "happen rv rn (Call c) = rn\<lparr>rn_db := perform rv (rn_db rn) c\<rparr>"
| "happen rv rn (Prune cutoffs actor reason now) = fst (ExecutePrune False cutoffs actor reason now rn)"

abbreviation hold_in :: "string \<Rightarrow> Retained \<Rightarrow> HoldRow option" where
  "hold_in qid rn \<equiv> hold_of qid (rn_db rn)"

lemma hold_pruned:
  assumes "hold_in qid rn = Some h"
  shows "hold_in qid (happen rv rn (Prune c actor reason now)) = Some h \<or>
    (qi_state h \<noteq> HoldHeld \<and> old (co_resolved_quarantine c) (qi_resolved_at h) \<and>
     set (db_holds (rn_db (happen rv rn (Prune c actor reason now)))) \<subseteq> set (db_holds (rn_db rn)) - {h})"
proof (cases "execute_prune c actor reason now rn")
  case (Inr r)
  then obtain rn1 counts where x: "execute_prune c actor reason now rn = Inr (rn1, counts)" by (cases r) auto
  from x have d: "db_holds (rn_db rn1) = drop_where (prunable_hold c) (db_holds (rn_db rn))" by (rule pruned)
  with assms have "hold_in qid rn1 = Some h \<or> prunable_hold c h" by (auto intro: row_of_drop_where)
  then show ?thesis using x d by (auto simp: ExecutePrune_def transact_def prunable_hold_def)
qed (use assms in \<open>simp add: ExecutePrune_def transact_def\<close>)

text \<open>One event: the hold stays, the operator resolves it, or it was resolved and a prune takes it.\<close>

lemma hold_event:
  assumes "hold_in qid rn = Some h"
  shows "hold_in qid (happen rv rn e) = Some h \<or>
    (qi_state h = HoldHeld \<and> (\<exists>c actor reason h1. e = Call c \<and> operator_call c = Some (qid, actor, reason) \<and>
      trim_space reason \<noteq> [] \<and> hold_in qid (happen rv rn e) = Some h1 \<and> resolved_as actor reason h1)) \<or>
    (qi_state h \<noteq> HoldHeld \<and> (\<exists>c actor reason now. e = Prune c actor reason now \<and> old (co_resolved_quarantine c) (qi_resolved_at h)) \<and>
      set (db_holds (rn_db (happen rv rn e))) \<subseteq> set (db_holds (rn_db rn)) - {h})"
proof (cases e)
  case (Call c)
  with hold_step [OF assms, of rv c] show ?thesis by simp
next
  case (Prune c actor reason now)
  with hold_pruned [OF assms, of rv c actor reason now] show ?thesis by simp
qed

lemma hold_run:
  assumes "hold_in qid rn = Some h"
  shows "hold_in qid (foldl (happen rv) rn es) = Some h \<or>
    (\<exists>before e after. es = before @ e # after \<and> hold_in qid (foldl (happen rv) rn before) = Some h \<and>
      hold_in qid (foldl (happen rv) rn (before @ [e])) \<noteq> Some h)"
  using assms
proof (induction es rule: rev_induct)
  case (snoc e es)
  from snoc.IH [OF snoc.prems] show ?case
  proof (elim disjE exE conjE)
    assume "hold_in qid (foldl (happen rv) rn es) = Some h"
    then show ?thesis by (metis append_Nil2 foldl_append)
  next
    fix before d after
    assume "es = before @ d # after" "hold_in qid (foldl (happen rv) rn before) = Some h"
      "hold_in qid (foldl (happen rv) rn (before @ [d])) \<noteq> Some h"
    then have "es @ [e] = before @ d # (after @ [e])" by simp
    then show ?thesis using \<open>hold_in qid (foldl (happen rv) rn before) = Some h\<close>
      \<open>hold_in qid (foldl (happen rv) rn (before @ [d])) \<noteq> Some h\<close> by blast
  qed
qed simp

text \<open>C10: quarantined work waits for the operator (PTH-008, CLI-006). Take any run of the 30 modelled calls of the
  dispatch store, with live contexts, and of retention prunes in between. A durable hold stays exactly as it was
  created, whatever the prunes' cutoffs, until one call of the operator, for this hold and with a reason that is
  not blank, releases or discards it and writes that operator and that reason into it. A resolved hold is never changed
  again: only a prune whose quarantine cutoff lies after the resolution ends it, by deleting the row and writing no other.\<close>

theorem hold_waits_for_the_operator:
  assumes "hold_in qid rn = Some h"
  shows "hold_in qid (foldl (happen rv) rn events) = Some h \<or>
    (\<exists>before e after. events = before @ e # after \<and> hold_in qid (foldl (happen rv) rn before) = Some h \<and>
      (if qi_state h = HoldHeld
       then \<exists>c actor reason h1. e = Call c \<and> operator_call c = Some (qid, actor, reason) \<and> trim_space reason \<noteq> [] \<and>
         hold_in qid (foldl (happen rv) rn (before @ [e])) = Some h1 \<and> resolved_as actor reason h1
       else (\<exists>c actor reason now t. e = Prune c actor reason now \<and> qi_resolved_at h = Some t \<and> t < co_resolved_quarantine c) \<and>
         set (db_holds (rn_db (foldl (happen rv) rn (before @ [e])))) \<subseteq> set (db_holds (rn_db (foldl (happen rv) rn before))) - {h}))"
proof -
  have "?thesis" if "events = before @ e # after" and b: "hold_in qid (foldl (happen rv) rn before) = Some h"
    and n: "hold_in qid (foldl (happen rv) rn (before @ [e])) \<noteq> Some h" for before e after
    using hold_event [OF b, of rv e] n that(1) b by (fastforce simp: old_def split: option.splits)
  with hold_run [OF assms, of rv events] show ?thesis by blast
qed

section \<open>The fence of a full snapshot\<close>

lemma later_perform: "later resource db (perform rv db c)"
proof (cases "writes_records c")
  case False
  then show ?thesis by (intro later_keep keep_perform)
next
  case True
  have same: "later resource db db1" if "db_facts db1 = db_facts db" "db_resources db1 = db_resources db" for db1
    using that by (simp add: later_def facts_of_def revision_of_def)
  note t = transact_keeps [where P = "later resource db", OF _ later_refl]
  have "later resource db (fst (transact d e (resolve_quarantine rv qid to actor reason now revs) db))" for d e qid to actor reason now revs
    by (rule t) (auto elim!: resolve_steps intro: same)
  moreover have "later resource db (fst (transact d e (commit_quarantine rv lin q) db))" for d e lin q
    by (rule t) (auto elim!: quarantine_steps intro: same)
  moreover have "later resource db (fst (transact d e (commit_lineage lin) db))" for d e lin
    by (rule t) (rule later_lineage)
  moreover have "later resource db (fst (transact d e (replace_path_facts res expected facts now) db))" for d e res expected facts now
    by (rule t) (rule replaced(4))
  ultimately show ?thesis using True
    by (cases c) (simp_all add: CommitLineage_def CommitQuarantineLineage_def Release_def Discard_def hold_outcome_def
        ReleaseQuarantine_def ReleaseQuarantineWithRevision_def DiscardQuarantine_def ReplacePathFacts_def later_refl)
qed

lemma later_run: "later resource db (foldl (perform rv) db calls)"
  by (induction calls arbitrary: db) (auto intro: later_refl later_trans later_perform)

text \<open>C11: a full reconciliation never overwrites newer knowledge (DUR-013 to DUR-015). Whatever calls
  reach the store between the read of a resource's observation revision and the snapshot that was
  enumerated after it: when any of them changed a fact of the resource the snapshot is refused as an
  observation conflict and changes nothing, and a snapshot that commits leaves exactly the enumerated facts.\<close>

theorem snapshot_is_fenced:
  assumes "ObservationRevision resource db = Inr r" and "db1 = foldl (perform rv) db calls"
  shows "(facts_of resource db1 \<noteq> facts_of resource db \<longrightarrow>
      ReplacePathFacts False resource r facts now db1 = (db1, Inl ObservationConflict)) \<and>
    (\<forall>c db2. ReplacePathFacts c resource r facts now db1 = (db2, Inr ()) \<longrightarrow>
      facts_of resource db1 = facts_of resource db \<and> facts_of resource db2 = map (snapshot_fact resource now) facts)"
proof -
  have l: "later resource db db1" unfolding assms(2) by (rule later_run)
  have r: "revision_of resource db = Some r" using assms(1) by (auto simp: ObservationRevision_def revision_of_def result_simps)
  have "ReplacePathFacts False resource r facts now db1 = (db1, Inl ObservationConflict)"
    if "facts_of resource db1 \<noteq> facts_of resource db"
  proof -
    from l that r obtain n where "revision_of resource db1 = Some n" "n \<noteq> r" by (auto simp: later_def)
    then show ?thesis
      by (auto simp: ReplacePathFacts_def transact_live replace_path_facts_def ObservationRevision_def revision_of_def)
  qed
  moreover have "facts_of resource db1 = facts_of resource db \<and> facts_of resource db2 = map (snapshot_fact resource now) facts"
    if "ReplacePathFacts c resource r facts now db1 = (db2, Inr ())" for c db2
  proof -
    from that have p: "replace_path_facts resource r facts now db1 = Inr (db2, ())"
      by (auto simp: ReplacePathFacts_def dest: transact_committed)
    from l r replaced(1) [OF p] replaced(3) [OF p] show ?thesis by (auto simp: later_def)
  qed
  ultimately show ?thesis by blast
qed

section \<open>Samples\<close>

definition sample_hold :: HoldRow where
  "sample_hold = \<lparr>qi_quarantine_id = ''q'', qi_batch_id = None, qi_decision_id = ''dec'', qi_reason_codes = [''protected_path''],
     qi_state = HoldHeld, qi_created_at = ''2026-01-01T00:00:00Z'', qi_resolved_at = None, qi_resolved_by = None,
     qi_resolution_reason = None, qi_replacement = None, qi_route_revision = ''rev''\<rparr>"

definition held_decision :: DecisionRow where
  "held_decision = \<lparr>dw_decision_id = ''dec'', dw_batch_id = None, dw_route_id = ''r'', dw_route_revision = ''rev'',
     dw_policy_revision = ''pol'', dw_generation_lineage = Some ''{}'', dw_disposition = ''quarantine'',
     dw_classification = ''protected'', dw_reason_codes_json = ''[]'', dw_created_at = ''2026-01-01T00:00:00Z'',
     dw_actor = ''planner'', dw_supersedes = None\<rparr>"

definition held_db :: Db where
  "held_db = sample_db\<lparr>db_holds := [sample_hold], db_decisions := [held_decision]\<rparr>"

text \<open>A prune with late cutoffs, a discard with a blank reason and the operator's discard.\<close>

definition sample_cutoffs :: "string \<Rightarrow> PruneCutoffs" where
  "sample_cutoffs t = \<lparr>co_observations = t, co_attempts = t, co_completed_receipts = t, co_resolved_quarantine = t,
     co_notifications = t, co_management_drafts = [], co_management_terminal = []\<rparr>"

definition retained_with :: "Db \<Rightarrow> Retained" where
  "retained_with db = \<lparr>rn_db = db, rn_work = [], rn_jobs = [], rn_journal = [], rn_requests = [], rn_audit = []\<rparr>"

definition hold_events :: "store_event list" where
  "hold_events =
     [Prune (sample_cutoffs ''2027-01-01T00:00:00Z'') ''operator'' ''retention'' ''2026-01-01T00:01:00Z'',
      Call (CallDiscard ''q'' ''op'' '' '' ''2026-01-01T00:01:00Z''),
      Call (CallDiscard ''q'' ''op'' ''reviewed'' ''2026-01-01T00:02:00Z'')]"

definition late_prune :: store_event where
  "late_prune = Prune (sample_cutoffs ''2026-01-01T00:02:01Z'') ''operator'' ''retention'' ''2026-07-01T00:00:00Z''"

definition resolved_sample :: HoldRow where
  "resolved_sample = resolved_hold HoldDiscarded ''op'' ''reviewed'' ''2026-01-01T00:02:00Z'' [] sample_hold"

lemma discarded_by_op: "map qi_state (db_holds (rn_db (foldl (happen None) (retained_with held_db) hold_events))) = [HoldDiscarded]"
  by code_simp

lemma pruned_late: "db_holds (rn_db (happen None (retained_with (held_db\<lparr>db_holds := [resolved_sample]\<rparr>)) late_prune)) = []"
  by code_simp

theorem hold_waits_for_the_operator_witness:
  "(\<exists>before c after actor reason h1. hold_events = before @ Call c # after \<and>
     hold_in ''q'' (foldl (happen None) (retained_with held_db) before) = Some sample_hold \<and>
     operator_call c = Some (''q'', actor, reason) \<and> trim_space reason \<noteq> [] \<and>
     hold_in ''q'' (foldl (happen None) (retained_with held_db) (before @ [Call c])) = Some h1 \<and> resolved_as actor reason h1) \<and>
   hold_in ''q'' (foldl (happen None) (retained_with (held_db\<lparr>db_holds := [resolved_sample]\<rparr>)) [late_prune]) = None \<and>
   (\<exists>c actor reason now t. late_prune = Prune c actor reason now \<and> qi_resolved_at resolved_sample = Some t \<and>
     t < co_resolved_quarantine c)"
proof -
  let ?run = "foldl (happen None) (retained_with held_db) hold_events"
  let ?resolved = "retained_with (held_db\<lparr>db_holds := [resolved_sample]\<rparr>)"
  have h: "hold_in ''q'' (retained_with held_db) = Some sample_hold"
    and r: "hold_in ''q'' ?resolved = Some resolved_sample" and s: "qi_state resolved_sample \<noteq> HoldHeld"
    by (simp_all add: retained_with_def held_db_def row_of_Cons sample_hold_def resolved_sample_def resolved_hold_def)
  from discarded_by_op have "\<exists>q. db_holds (rn_db ?run) = [q] \<and> qi_state q = HoldDiscarded" by auto
  then have n: "hold_in ''q'' ?run \<noteq> Some sample_hold"
    by (auto simp: row_of_Cons sample_hold_def split: if_splits)
  have g: "hold_in ''q'' (foldl (happen None) ?resolved [late_prune]) = None" by (simp add: pruned_late del: happen.simps)
  from hold_waits_for_the_operator [OF h, of None hold_events] n hold_waits_for_the_operator [OF r, of None "[late_prune]"] g s
  show ?thesis by (fastforce simp: sample_hold_def Cons_eq_append_conv simp del: happen.simps)
qed

definition other_snapshot :: "store_call list" where
  "other_snapshot = [CallReplaceFacts ''res'' 0
     [\<lparr>pf_path = ''a.md'', pf_digest = ''d1'', pf_exists = True, pf_observed_at = []\<rparr>] ''2026-01-01T00:01:00Z'']"

theorem snapshot_is_fenced_witness:
  "ReplacePathFacts False ''res'' 0 [] ''2026-01-01T00:02:00Z'' (foldl (perform None) sample_db other_snapshot) =
     (foldl (perform None) sample_db other_snapshot, Inl ObservationConflict)"
proof -
  have "ObservationRevision ''res'' sample_db = Inr 0" by code_simp
  note t = snapshot_is_fenced [OF this refl, of None other_snapshot]
  have "map fa_path (facts_of ''res'' (foldl (perform None) sample_db other_snapshot)) = [''a.md''] \<and> facts_of ''res'' sample_db = []"
    by code_simp
  then have "facts_of ''res'' (foldl (perform None) sample_db other_snapshot) \<noteq> facts_of ''res'' sample_db" by auto
  with t show ?thesis by blast
qed

end
