(* ===== verification/Retention.thy ===== *)
theory Retention
  imports StoreProtocol Prune
begin

text \<open>
  What the retention prune may take (retention-and-privacy section 3): never anything an unresolved dispatch
  needs; and the one reference that its guards forget.
\<close>

section \<open>Unresolved work\<close>

text \<open>A dispatch that is not terminal, or that a route row or a lane still names as its active one.\<close>

definition unresolved :: "Db \<Rightarrow> IntentRow \<Rightarrow> bool" where
  "unresolved db i \<longleftrightarrow> \<not> resolved_terminal i \<or> it_dispatch_id i \<in> set (active_slots db)"

lemma unresolved_not_settled:
  assumes "distinct (map it_dispatch_id (db_intents db))" and "i \<in> set (db_intents db)" and "unresolved db i"
  shows "\<not> settled db (it_dispatch_id i)"
    and "ch_dispatch_id h = it_dispatch_id i \<Longrightarrow> \<not> prunable_child c db h"
proof -
  have same: "j = i" if "j \<in> set (db_intents db)" "it_dispatch_id j = it_dispatch_id i" for j
    using assms(1,2) that by (auto simp: distinct_map dest: inj_onD)
  have "\<not> list_ex (\<lambda>j. it_dispatch_id j = it_dispatch_id i \<and> resolved_terminal j) (db_intents db)
      \<or> it_dispatch_id i \<in> set (active_slots db)"
    using assms(3) same unfolding unresolved_def list_ex_iff by blast
  then show "\<not> settled db (it_dispatch_id i)" unfolding settled_def terminal_dispatch_def by blast
  show "\<not> prunable_child c db h" if "ch_dispatch_id h = it_dispatch_id i"
    using assms(3) same that unfolding prunable_child_def unresolved_def list_ex_iff by metis
qed

text \<open>The rows a dispatch stands on: its decision, the batch of the decision, the observations of the batch, and
  its own attempts, receipts, work receipts and child.\<close>

definition decisions_under :: "Db \<Rightarrow> IntentRow \<Rightarrow> DecisionRow set" where
  "decisions_under db i = {d \<in> set (db_decisions db). dw_decision_id d = it_decision_id i}"

definition batches_under :: "Db \<Rightarrow> IntentRow \<Rightarrow> BatchRow set" where
  "batches_under db i = {b \<in> set (db_batches db). \<exists>d\<in>decisions_under db i. dw_batch_id d = Some (bt_batch_id b)}"

definition observations_under :: "Db \<Rightarrow> IntentRow \<Rightarrow> ObservationInput set" where
  "observations_under db i =
     {ob \<in> set (db_observations db). \<exists>b\<in>batches_under db i. ob_observation_id ob \<in> set (bt_observation_ids b)}"

definition stands_on :: "Retained \<Rightarrow> IntentRow \<Rightarrow>
    DecisionRow set \<times> BatchRow set \<times> ObservationInput set \<times> AttemptRow set \<times> ReceiptRow set \<times> WorkRow set \<times> ChildRow set" where
  "stands_on rn i =
     (decisions_under (rn_db rn) i, batches_under (rn_db rn) i, observations_under (rn_db rn) i,
      {t \<in> set (db_attempts (rn_db rn)). tt_dispatch_id t = it_dispatch_id i},
      {r \<in> set (db_receipts (rn_db rn)). rp_dispatch_id r = it_dispatch_id i},
      {w \<in> set (rn_work rn). wk_dispatch_id w = it_dispatch_id i},
      {h \<in> set (db_children (rn_db rn)). ch_dispatch_id h = it_dispatch_id i})"

lemma unresolved_kept:
  assumes x: "execute_prune c actor reason now rn = Inr (rn1, counts)" and d: "distinct (map it_dispatch_id (db_intents (rn_db rn)))"
    and i: "i \<in> set (db_intents (rn_db rn))" and u: "unresolved (rn_db rn) i"
  shows "i \<in> set (db_intents (rn_db rn1)) \<and> stands_on rn1 i = stands_on rn i"
proof -
  note s = unresolved_not_settled [OF d i u]
  from x show ?thesis
  proof (rule pruned)
    let ?db = "rn_db rn" and ?db1 = "rn_db rn1"
    assume int: "db_intents ?db1 = drop_where (prunable_intent c (rn_work rn1)
          (?db\<lparr>db_attempts := db_attempts ?db1, db_receipts := db_receipts ?db1, db_children := db_children ?db1\<rparr>)) (db_intents ?db)"
      and rows: "rn_work rn1 = drop_where (prunable_work c ?db) (rn_work rn)"
        "db_attempts ?db1 = drop_where (prunable_attempt c ?db) (db_attempts ?db)"
        "db_receipts ?db1 = drop_where (prunable_receipt c ?db) (db_receipts ?db)"
        "db_children ?db1 = drop_where (prunable_child c ?db) (db_children ?db)"
      and dec: "db_decisions ?db1 = drop_where (prunable_decision c (?db\<lparr>db_intents := db_intents ?db1\<rparr>)) (db_decisions ?db)"
      and bat: "db_batches ?db1 = drop_where (prunable_batch c (?db\<lparr>db_decisions := db_decisions ?db1\<rparr>)) (db_batches ?db)"
      and obs: "db_observations ?db1 = drop_where (prunable_observation c (?db\<lparr>db_batches := db_batches ?db1,
        db_attributions := db_attributions ?db1\<rparr>)) (db_observations ?db)"
    have k: "i \<in> set (db_intents ?db1)"
      using i u by (auto simp: int prunable_intent_def unresolved_def active_slots_def route_slots_def)
    have ds: "decisions_under ?db1 i = decisions_under ?db i"
      using k by (auto simp: decisions_under_def dec prunable_decision_def)
    have bs: "batches_under ?db1 i = batches_under ?db i"
    proof -
      have "b \<in> set (db_batches ?db1)" if "b \<in> set (db_batches ?db)" "e \<in> decisions_under ?db1 i" "dw_batch_id e = Some (bt_batch_id b)" for b e
        using that by (force simp: bat prunable_batch_def decisions_under_def)
      then show ?thesis unfolding batches_under_def ds [symmetric] using bat by auto
    qed
    have os: "observations_under ?db1 i = observations_under ?db i"
    proof -
      have "ob \<in> set (db_observations ?db1)"
        if "ob \<in> set (db_observations ?db)" "b \<in> batches_under ?db1 i" "ob_observation_id ob \<in> set (bt_observation_ids b)" for ob b
        using that by (force simp: obs prunable_observation_def list_ex_iff batches_under_def)
      then show ?thesis unfolding observations_under_def bs [symmetric] using obs by auto
    qed
    show ?thesis
      using s by (auto simp: stands_on_def ds bs os k rows prunable_attempt_def prunable_receipt_def prunable_work_def)
  qed
qed

lemma prune_frame:
  assumes "execute_prune c actor reason now rn = Inr (rn1, counts)"
  shows "db_transitions (rn_db rn1) = db_transitions (rn_db rn) \<and> db_lanes (rn_db rn1) = db_lanes (rn_db rn) \<and>
    db_runtime (rn_db rn1) = db_runtime (rn_db rn) \<and> db_groups (rn_db rn1) = db_groups (rn_db rn)"
  using assms by (rule pruned) simp

text \<open>C40: the retention prune never takes what unresolved work needs (retention-and-privacy section 3, DUR-011).
  Whatever the cutoffs, and whether the prune commits or fails: the intent of a dispatch that is not terminal, or that a
  route or a lane still names as its active one, stays, and with it every attempt, receipt, work receipt and
  child of it, its decision, the batch of that decision and the observations of that batch. The audit history, the
  lanes, the routes' runtime rows and the group slots are untouched.\<close>

theorem prune_keeps_unresolved_work:
  assumes "distinct (map it_dispatch_id (db_intents (rn_db rn)))" and "i \<in> set (db_intents (rn_db rn))"
    and "unresolved (rn_db rn) i" and "rn1 = fst (ExecutePrune ctx_done c actor reason now rn)"
  shows "i \<in> set (db_intents (rn_db rn1)) \<and> stands_on rn1 i = stands_on rn i \<and>
    db_transitions (rn_db rn1) = db_transitions (rn_db rn) \<and> db_lanes (rn_db rn1) = db_lanes (rn_db rn) \<and>
    db_runtime (rn_db rn1) = db_runtime (rn_db rn) \<and> db_groups (rn_db rn1) = db_groups (rn_db rn)"
proof (cases "rn1 = rn")
  case False
  with assms(4) obtain counts where "execute_prune c actor reason now rn = Inr (rn1, counts)"
    by (auto simp: ExecutePrune_def transact_def split: if_splits sum.splits prod.splits)
  with unresolved_kept [OF _ assms(1-3)] prune_frame show ?thesis by blast
qed (use assms(2) in simp)

section \<open>The reference the guards forget\<close>

lemma planned_is_prunable:
  assumes "planned_intent c (rn_work rn) (rn_db rn) i" and "i \<in> set (db_intents (rn_db rn))"
    and "it_dispatch_id i \<notin> set (active_slots (rn_db rn))"
  shows "i \<notin> set (db_intents (rn_db (prune_lineages c rn)))"
proof -
  have "settled (rn_db rn) (it_dispatch_id i)"
    using assms by (auto simp: settled_def terminal_dispatch_def list_ex_iff planned_intent_def)
  with assms show ?thesis
    by (force simp: prune_lineages_def Let_def prunable_intent_def planned_intent_def list_ex_iff prunable_attempt_def
        prunable_receipt_def active_slots_def route_slots_def)
qed

text \<open>Every fanned-out dispatch has an aggregate event that refers to its decision, and no statement deletes
  aggregate events. Once the whole lineage of such a decision is past its retention, the prune deletes the intents,
  then fails on the decision, and takes nothing: neither these rows nor any other class.\<close>

theorem aggregate_wedges_prune:
  assumes "a \<in> set (db_aggregates (rn_db rn))" and "d \<in> set (db_decisions (rn_db rn))"
    and "dw_decision_id d = ag_decision_id a" and "dw_created_at d < co_attempts c"
    and "\<And>i. i \<in> set (db_intents (rn_db rn)) \<Longrightarrow> it_decision_id i = dw_decision_id d \<Longrightarrow>
      planned_intent c (rn_work rn) (rn_db rn) i \<and> it_dispatch_id i \<notin> set (active_slots (rn_db rn))"
    and "Some (dw_decision_id d) \<notin> set (map dw_supersedes (db_decisions (rn_db rn)))"
    and "dw_decision_id d \<notin> set (map qi_decision_id (db_holds (rn_db rn)))"
  shows "\<exists>e. ExecutePrune ctx_done c actor reason now rn = (rn, Inl e)"
proof -
  let ?db1 = "rn_db (prune_lineages c rn)"
  have same: "db_decisions ?db1 = db_decisions (rn_db rn)" "db_holds ?db1 = db_holds (rn_db rn)"
      "db_aggregates ?db1 = db_aggregates (rn_db rn)" and "set (db_intents ?db1) \<subseteq> set (db_intents (rn_db rn))"
    by (auto simp: prune_lineages_def Let_def)
  then have "dw_decision_id d \<notin> set (map it_decision_id (db_intents ?db1))"
    using assms(5) planned_is_prunable by fastforce
  with assms same have "prunable_decision c ?db1 d" by (simp add: prunable_decision_def)
  with assms(1-3) same have "prune_decisions c ?db1 = Inl ConstraintRefused"
    by (auto simp: prune_decisions_def list_ex_iff)
  then show ?thesis
    by (cases "prune_candidates c rn") (simp_all add: ExecutePrune_def transact_def execute_prune_def Let_def)
qed

section \<open>Samples\<close>

text \<open>Two dispatches of one old decision: \<open>x\<close> completed long ago, \<open>y\<close> still waits; and a prune whose cutoffs
  lie after all of it.\<close>

definition done_x :: IntentRow where
  "done_x = (intent_row (sample_intent ''x'') 1)\<lparr>it_state := IntentCompleted\<rparr>"

definition waiting_y :: IntentRow where
  "waiting_y = intent_row (sample_intent ''y'') 1"

definition sample_decision :: DecisionRow where
  "sample_decision = \<lparr>dw_decision_id = ''dec'', dw_batch_id = None, dw_route_id = ''r'', dw_route_revision = ''rev'',
     dw_policy_revision = ''p'', dw_generation_lineage = Some ''{}'', dw_disposition = ''dispatch'',
     dw_classification = ''normal'', dw_reason_codes_json = ''[]'', dw_created_at = ''2026-01-01T00:00:00Z'', dw_actor = ''ad'',
     dw_supersedes = None\<rparr>"

definition old_store :: "IntentRow list \<Rightarrow> Retained" where
  "old_store is = \<lparr>rn_db = sample_db\<lparr>db_intents := is, db_decisions := [sample_decision]\<rparr>,
     rn_work = [], rn_jobs = [], rn_journal = [], rn_requests = [], rn_audit = []\<rparr>"

definition all_past :: PruneCutoffs where
  "all_past = \<lparr>co_observations = ''2027'', co_attempts = ''2027'', co_completed_receipts = ''2027'',
     co_resolved_quarantine = ''2027'', co_notifications = ''2027'', co_management_drafts = [], co_management_terminal = []\<rparr>"

lemma x_pruned:
  "map it_dispatch_id (db_intents (rn_db (fst (ExecutePrune False all_past ''op'' ''r'' ''2027'' (old_store [done_x, waiting_y]))))) = [''y'']"
  by code_simp

theorem prune_keeps_unresolved_work_witness:
  "\<exists>rn1. rn1 = fst (ExecutePrune False all_past ''op'' ''r'' ''2027'' (old_store [done_x, waiting_y])) \<and>
     map it_dispatch_id (db_intents (rn_db rn1)) = [''y''] \<and> waiting_y \<in> set (db_intents (rn_db rn1)) \<and>
     decisions_under (rn_db rn1) waiting_y = {sample_decision}"
proof -
  let ?rn = "old_store [done_x, waiting_y]"
  have "distinct (map it_dispatch_id (db_intents (rn_db ?rn)))" "waiting_y \<in> set (db_intents (rn_db ?rn))"
    "unresolved (rn_db ?rn) waiting_y"
    by (simp_all add: old_store_def done_x_def waiting_y_def intent_row_def sample_intent_def unresolved_def resolved_terminal_def)
  note t = prune_keeps_unresolved_work [OF this refl, of False all_past "''op''" "''r''" "''2027''"]
  moreover have "decisions_under (rn_db ?rn) waiting_y = {sample_decision}"
    by (auto simp: decisions_under_def old_store_def waiting_y_def sample_decision_def intent_row_def sample_intent_def)
  ultimately show ?thesis using x_pruned by (simp add: stands_on_def)
qed

text \<open>With its aggregate event the same lineage cannot be pruned, once \<open>x\<close> is all of it.\<close>

definition sample_aggregate :: AggregateRow where
  "sample_aggregate = \<lparr>ag_aggregate_id = ''agg'', ag_decision_id = ''dec'', ag_route_id = ''r'', ag_route_revision = ''rev'',
     ag_resource_id = ''res'', ag_origin = OriginArrival, ag_generation = 1, ag_content_fingerprint = ''fp'', ag_selections = [],
     ag_created_at = ''2026-01-01T00:00:00Z''\<rparr>"

theorem aggregate_wedges_prune_witness:
  "\<exists>e. ExecutePrune False all_past ''op'' ''r'' ''2027''
       ((old_store [done_x])\<lparr>rn_db := (rn_db (old_store [done_x]))\<lparr>db_aggregates := [sample_aggregate]\<rparr>\<rparr>) =
     ((old_store [done_x])\<lparr>rn_db := (rn_db (old_store [done_x]))\<lparr>db_aggregates := [sample_aggregate]\<rparr>\<rparr>, Inl e)"
  by (rule aggregate_wedges_prune [of sample_aggregate _ sample_decision])
    (auto simp: old_store_def sample_aggregate_def sample_decision_def all_past_def planned_intent_def resolved_terminal_def
      done_x_def intent_row_def sample_intent_def sample_db_def sample_runtime_def route_slots_def active_slots_def)

end
