(* ===== verification/Attribution.thy ===== *)
theory Attribution
  imports Ports TimeText
begin

text \<open>
  Exact self-change attribution (\<open>src/internal/app/workreceipt/attribution.go\<close>, with the change entries of
  \<open>service.go\<close> and \<open>DirtyChange\<close> of \<open>ports/workreceipt.go\<close>): which observed changes of a dirty
  generation a completion receipt proves to be the run's own. A Go map keyed by path is a map with the list
  of the paths it was built from.
\<close>

section \<open>Data\<close>

record DirtyChange =
  dy_path :: string
  dy_operation :: string
  dy_before_digest :: string
  dy_after_digest :: string
  dy_digest_status :: string
  dy_observed_at :: string
  dy_batch_id :: string
  dy_classification :: string
  dy_disposition :: string
  dy_selected_destinations :: "string list"

record changeEntry =
  ce_path :: string
  ce_before_digest :: "string option"
  ce_after_digest :: "string option"

definition OutcomeSuppressed :: string where "OutcomeSuppressed = ''verified_self_generated''"
definition OutcomeMissing :: string where "OutcomeMissing = ''receipt_missing_path''"
definition OutcomeExtra :: string where "OutcomeExtra = ''receipt_extra_path''"
definition OutcomeMismatch :: string where "OutcomeMismatch = ''digest_mismatch''"
definition OutcomeNoDigest :: string where "OutcomeNoDigest = ''digest_unverified''"
definition OutcomeBeforeRun :: string where "OutcomeBeforeRun = ''observed_before_run''"
definition OutcomeImmaterial :: string where "OutcomeImmaterial = ''receipt_immaterial_path''"

record PathDecision =
  pd_path :: string
  pd_outcome :: string
  pd_observed_digest :: string
  pd_receipt_digest :: string
  pd_observed_at :: string
  pd_last_observed_at :: string

record AttributionDecision =
  ad_receipt_id :: string
  ad_dispatch_id :: string
  ad_run_id :: string
  ad_begun_at :: string
  ad_completed_at :: string
  ad_suppressed_paths :: "string list"
  ad_suppressed :: "PathDecision list"
  ad_unresolved :: "PathDecision list"
  ad_fully_suppressed :: bool
  ad_facts_unavailable :: bool

record ReceiptEvidence =
  ve_receipt_id :: string
  ve_dispatch_id :: string
  ve_run_id :: string
  ve_resource_id :: string
  ve_begun_at :: string
  ve_completed_at :: string
  ve_changes :: "changeEntry list"
  ve_on_disk_verified :: bool
  ve_outside_scope :: "(string \<Rightarrow> bool) option"
  ve_fact_digest :: "(string \<Rightarrow> string option) option"

section \<open>The matcher\<close>

definition validTimestamp :: "string \<Rightarrow> bool" where
  "validTimestamp s = (parse_rfc3339 s \<noteq> None)"

definition before :: "string \<Rightarrow> string \<Rightarrow> bool" where
  "before a b = (validTimestamp a \<and> validTimestamp b \<and> a < b)"

definition immaterial :: "ReceiptEvidence \<Rightarrow> string \<Rightarrow> string \<Rightarrow> bool" where
  "immaterial r path after_digest =
     (if ve_on_disk_verified r then True
      else if (case ve_outside_scope r of None \<Rightarrow> False | Some f \<Rightarrow> f path) then True
      else case ve_fact_digest r of
          None \<Rightarrow> False
        | Some f \<Rightarrow> after_digest \<noteq> [] \<and>
            (case f path of None \<Rightarrow> False | Some known \<Rightarrow> known \<noteq> [] \<and> known = after_digest))"

text \<open>One observation per path; \<open>wins c p\<close>: the observation \<open>c\<close> replaces the earlier \<open>p\<close>.\<close>

definition keep_latest ::
  "(DirtyChange \<Rightarrow> DirtyChange \<Rightarrow> bool) \<Rightarrow> (string \<rightharpoonup> DirtyChange) \<Rightarrow> DirtyChange \<Rightarrow> (string \<rightharpoonup> DirtyChange)" where
  "keep_latest wins m c =
     (case m (dy_path c) of
        None \<Rightarrow> m(dy_path c \<mapsto> c)
      | Some p \<Rightarrow> if wins c p then m(dy_path c \<mapsto> c) else m)"

definition latest :: "DirtyChange list \<Rightarrow> string \<rightharpoonup> DirtyChange" where
  "latest observed = foldl (keep_latest (\<lambda>c p. \<not> before (dy_observed_at c) (dy_observed_at p))) Map.empty observed"

definition sortedPaths :: "DirtyChange list \<Rightarrow> string list" where
  "sortedPaths observed = sort (remdups (map dy_path observed))"

definition sortedChangePaths :: "changeEntry list \<Rightarrow> string list" where
  "sortedChangePaths entries = sort (remdups (map ce_path entries))"

definition receiptByPath :: "changeEntry list \<Rightarrow> string \<rightharpoonup> changeEntry" where
  "receiptByPath entries = foldl (\<lambda>m e. m(ce_path e \<mapsto> e)) Map.empty entries"

definition reported :: "changeEntry \<Rightarrow> string" where
  "reported e = (case ce_after_digest e of None \<Rightarrow> [] | Some d \<Rightarrow> d)"

text \<open>The outcome of one observed path before the temporal window, with the digest of the receipt.\<close>

definition match_entry :: "ReceiptEvidence \<Rightarrow> DirtyChange \<Rightarrow> changeEntry option \<Rightarrow> string \<times> string" where
  "match_entry r obs entry =
     (case entry of
        None \<Rightarrow> (OutcomeMissing, [])
      | Some e \<Rightarrow>
          if reported e = [] then
            (if ve_on_disk_verified r \<and> dy_operation obs = Operation_str OpDelete \<and> dy_after_digest obs = [] then (OutcomeSuppressed, [])
             else (OutcomeNoDigest, []))
          else if dy_after_digest obs = [] \<or> dy_digest_status obs \<noteq> ''known'' then (OutcomeNoDigest, reported e)
          else if reported e \<noteq> dy_after_digest obs then (OutcomeMismatch, reported e)
          else (OutcomeSuppressed, reported e))"

definition observed_decision :: "ReceiptEvidence \<Rightarrow> DirtyChange \<Rightarrow> PathDecision" where
  "observed_decision r obs =
     (case match_entry r obs (receiptByPath (ve_changes r) (dy_path obs)) of (outcome, dig) \<Rightarrow>
       \<lparr>pd_path = dy_path obs,
        pd_outcome = (if outcome = OutcomeSuppressed \<and> ve_begun_at r \<noteq> [] \<and> before (dy_observed_at obs) (ve_begun_at r)
          then OutcomeBeforeRun else outcome),
        pd_observed_digest = dy_after_digest obs, pd_receipt_digest = dig, pd_observed_at = dy_observed_at obs,
        pd_last_observed_at = []\<rparr>)"

definition unobserved_decision :: "ReceiptEvidence \<Rightarrow> string \<Rightarrow> PathDecision" where
  "unobserved_decision r path =
     (let dig = (case receiptByPath (ve_changes r) path of None \<Rightarrow> [] | Some e \<Rightarrow> reported e)
      in \<lparr>pd_path = path, pd_outcome = (if immaterial r path dig then OutcomeImmaterial else OutcomeExtra),
          pd_observed_digest = [], pd_receipt_digest = dig, pd_observed_at = [], pd_last_observed_at = []\<rparr>)"

definition Match :: "ReceiptEvidence \<Rightarrow> DirtyChange list \<Rightarrow> AttributionDecision" where
  "Match r observed =
     (let seen = map (\<lambda>p. observed_decision r (the (latest observed p))) (sortedPaths observed);
          unseen = map (unobserved_decision r)
            (filter (\<lambda>p. latest observed p = None) (sortedChangePaths (ve_changes r)));
          verified = (\<lambda>d. pd_outcome d = OutcomeSuppressed); harmless = (\<lambda>d. pd_outcome d = OutcomeImmaterial)
      in \<lparr>ad_receipt_id = ve_receipt_id r, ad_dispatch_id = ve_dispatch_id r, ad_run_id = ve_run_id r,
          ad_begun_at = ve_begun_at r, ad_completed_at = ve_completed_at r,
          ad_suppressed_paths = map pd_path (filter verified seen),
          ad_suppressed = filter verified seen @ filter harmless unseen,
          ad_unresolved = filter (\<lambda>d. \<not> verified d) seen @ filter (\<lambda>d. \<not> harmless d) unseen,
          ad_fully_suppressed = (list_all verified seen \<and> list_all harmless unseen \<and> observed \<noteq> []),
          ad_facts_unavailable = False\<rparr>)"

section \<open>The audit document\<close>

definition json_list :: "('a \<Rightarrow> json) \<Rightarrow> 'a list \<Rightarrow> json" where
  "json_list f xs = (if xs = [] then JNull else JArr (map f xs))"

definition PathDecision_json :: "PathDecision \<Rightarrow> json" where
  "PathDecision_json d =
     JObj ([(''path'', JStr (pd_path d)), (''outcome'', JStr (pd_outcome d))] @
       omit_empty ''observed_digest'' (pd_observed_digest d) @ omit_empty ''receipt_digest'' (pd_receipt_digest d) @
       [(''observed_at'', JStr (pd_observed_at d))] @ omit_empty ''last_observed_at'' (pd_last_observed_at d))"

definition ContextJSON :: "AttributionDecision \<Rightarrow> string" where
  "ContextJSON d =
     render True (JObj ([(''receipt_id'', JStr (ad_receipt_id d)), (''dispatch_id'', JStr (ad_dispatch_id d)),
       (''run_id'', JStr (ad_run_id d)), (''begun_at'', JStr (ad_begun_at d)), (''completed_at'', JStr (ad_completed_at d)),
       (''suppressed'', json_list JStr (ad_suppressed_paths d)),
       (''suppressed_decisions'', json_list PathDecision_json (ad_suppressed d)),
       (''unresolved'', json_list PathDecision_json (ad_unresolved d)),
       (''fully_suppressed'', JBool (ad_fully_suppressed d))] @
       (if ad_facts_unavailable d then [(''facts_unavailable'', JBool True)] else [])))"


section \<open>What a suppression proves\<close>

lemma keep_latest_dom: "dom (foldl (keep_latest wins) m observed) = dom m \<union> dy_path ` set observed"
  by (induction observed arbitrary: m) (auto simp: keep_latest_def split: option.splits if_splits)

lemma latest_None_iff [simp]: "latest observed p = None \<longleftrightarrow> p \<notin> dy_path ` set observed"
  unfolding latest_def by (metis domIff dom_empty keep_latest_dom sup_bot_left)

lemma keep_latest_from:
  "foldl (keep_latest wins) m observed p = Some c \<Longrightarrow> m p = Some c \<or> c \<in> set observed \<and> dy_path c = p"
  by (induction observed arbitrary: m) (fastforce simp: keep_latest_def split: option.splits if_splits)+

lemma latest_Some: "latest observed p = Some c \<Longrightarrow> c \<in> set observed \<and> dy_path c = p"
  using keep_latest_from unfolding latest_def by fastforce

text \<open>When every later observation wins, the one that is kept is the last of its path.\<close>

lemma keep_latest_last:
  assumes "sorted_wrt (\<lambda>c d. wins d c) observed" and "\<And>p c d. m p = Some c \<Longrightarrow> d \<in> set observed \<Longrightarrow> wins d c"
  shows "foldl (keep_latest wins) m observed p = (case filter (\<lambda>c. dy_path c = p) observed of [] \<Rightarrow> m p | cs \<Rightarrow> Some (last cs))"
  using assms
proof (induction observed arbitrary: m)
  case (Cons c cs)
  have "keep_latest wins m c = m(dy_path c \<mapsto> c)"
    using Cons.prems(2) [of "dy_path c" _ c] by (auto simp: keep_latest_def split: option.splits)
  moreover have "foldl (keep_latest wins) (m(dy_path c \<mapsto> c)) cs p =
      (case filter (\<lambda>c. dy_path c = p) cs of [] \<Rightarrow> (m(dy_path c \<mapsto> c)) p | cs \<Rightarrow> Some (last cs))"
    using Cons.prems by (intro Cons.IH) (auto split: if_splits)
  ultimately show ?case by (auto split: list.splits)
qed simp

lemma in_time_order:
  assumes "sorted (map dy_observed_at observed)"
  shows "sorted_wrt (\<lambda>c d. \<not> before (dy_observed_at d) (dy_observed_at c)) observed"
    and "sorted_wrt (\<lambda>c d. dy_observed_at c \<le> dy_observed_at d) observed"
  using assms by (induction observed) (auto simp: before_def)

lemma latest_sorted:
  assumes "sorted (map dy_observed_at observed)" and "filter (\<lambda>c. dy_path c = p) observed \<noteq> []"
  shows "latest observed p = Some (last (filter (\<lambda>c. dy_path c = p) observed))"
  unfolding latest_def
  by (subst keep_latest_last [OF in_time_order(1) [OF assms(1)]]) (use assms(2) in \<open>auto split: list.splits\<close>)

lemma receiptByPath_fold:
  "foldl (\<lambda>m e. m(ce_path e \<mapsto> e)) m entries p =
     (case filter (\<lambda>e. ce_path e = p) entries of [] \<Rightarrow> m p | es \<Rightarrow> Some (last es))"
  by (induction entries arbitrary: m) (auto split: list.splits)

lemma receiptByPath_eq:
  "receiptByPath entries p = (let es = filter (\<lambda>e. ce_path e = p) entries in if es = [] then None else Some (last es))"
  by (simp add: receiptByPath_def receiptByPath_fold Let_def split: list.splits)

text \<open>An entry proves an observation: the same known digest, or a deletion verified on disk, inside the window.\<close>

definition proves :: "ReceiptEvidence \<Rightarrow> changeEntry \<Rightarrow> DirtyChange \<Rightarrow> bool" where
  "proves r e c \<longleftrightarrow>
     (dy_digest_status c = ''known'' \<and> dy_after_digest c \<noteq> [] \<and> ce_after_digest e = Some (dy_after_digest c) \<or>
      reported e = [] \<and> ve_on_disk_verified r \<and> dy_operation c = Operation_str OpDelete \<and> dy_after_digest c = []) \<and>
     \<not> (ve_begun_at r \<noteq> [] \<and> before (dy_observed_at c) (ve_begun_at r))"

lemmas outcome_defs = OutcomeSuppressed_def OutcomeMissing_def OutcomeExtra_def OutcomeMismatch_def OutcomeNoDigest_def
  OutcomeBeforeRun_def OutcomeImmaterial_def

lemma observed_verified_iff:
  "pd_outcome (observed_decision r c) = OutcomeSuppressed \<longleftrightarrow>
     (\<exists>e. receiptByPath (ve_changes r) (dy_path c) = Some e \<and> proves r e c)"
  by (auto simp: observed_decision_def match_entry_def proves_def reported_def outcome_defs
      split: option.splits if_splits)

lemma unobserved_harmless_iff:
  "pd_outcome (unobserved_decision r p) = OutcomeImmaterial \<longleftrightarrow>
     immaterial r p (case receiptByPath (ve_changes r) p of None \<Rightarrow> [] | Some e \<Rightarrow> reported e)"
  by (simp add: unobserved_decision_def Let_def outcome_defs)


text \<open>the attribution accounts for every path. Each path that was observed or claimed gets exactly one
  verdict: it is listed once, among the suppressed or among the unresolved.\<close>

theorem attribution_accounts_for_every_path:
  "mset (map pd_path (ad_suppressed (Match r observed) @ ad_unresolved (Match r observed))) =
     mset_set (dy_path ` set observed \<union> ce_path ` set (ve_changes r))"
proof -
  define seen where "seen = map (\<lambda>p. observed_decision r (the (latest observed p))) (sortedPaths observed)"
  define unseen where "unseen = map (unobserved_decision r) (filter (\<lambda>p. latest observed p = None) (sortedChangePaths (ve_changes r)))"
  have split: "image_mset pd_path M = image_mset pd_path (filter_mset P M) + image_mset pd_path (filter_mset (\<lambda>d. \<not> P d) M)" for P M
    by (metis image_mset_union multiset_partition)
  have "map pd_path seen = sortedPaths observed"
    using latest_Some by (auto simp: seen_def sortedPaths_def observed_decision_def split: prod.split intro!: map_idI)
  moreover have "map pd_path unseen = filter (\<lambda>p. latest observed p = None) (sortedChangePaths (ve_changes r))"
    by (auto simp: unseen_def unobserved_decision_def Let_def intro!: map_idI)
  moreover have "mset (map pd_path (ad_suppressed (Match r observed) @ ad_unresolved (Match r observed))) =
      mset (map pd_path seen) + mset (map pd_path unseen)"
    unfolding Match_def Let_def seen_def [symmetric] unseen_def [symmetric]
    using split [of "mset seen" "\<lambda>d. pd_outcome d = OutcomeSuppressed"]
      split [of "mset unseen" "\<lambda>d. pd_outcome d = OutcomeImmaterial"] by (simp add: ac_simps)
  moreover have sp: "mset (sort (remdups xs)) = mset_set (set xs)" for xs :: "string list"
    by (metis distinct_remdups mset_set_set mset_sort set_remdups)
  then have "mset (filter (\<lambda>p. latest observed p = None) (sortedChangePaths (ve_changes r))) =
      mset_set (ce_path ` set (ve_changes r) - dy_path ` set observed)"
    by (simp add: sortedChangePaths_def set_diff_eq filter_mset_mset_set)
  moreover have "mset (sortedPaths observed) = mset_set (dy_path ` set observed)"
    using sp [of "map dy_path observed"] by (simp add: sortedPaths_def)
  moreover have "mset_set (dy_path ` set observed) + mset_set (ce_path ` set (ve_changes r) - dy_path ` set observed) =
      mset_set (dy_path ` set observed \<union> ce_path ` set (ve_changes r))"
    by (subst mset_set_Union [symmetric]) auto
  ultimately show ?thesis by simp
qed


section \<open>A sample\<close>

definition sample_dirty :: "string \<Rightarrow> string \<Rightarrow> string \<Rightarrow> DirtyChange" where
  "sample_dirty path dig at_time =
     \<lparr>dy_path = path, dy_operation = ''modify'', dy_before_digest = [], dy_after_digest = dig, dy_digest_status = ''known'',
      dy_observed_at = at_time, dy_batch_id = ''b'', dy_classification = [], dy_disposition = [], dy_selected_destinations = []\<rparr>"

definition sample_evidence :: "changeEntry list \<Rightarrow> ReceiptEvidence" where
  "sample_evidence entries =
     \<lparr>ve_receipt_id = ''rcpt'', ve_dispatch_id = ''d'', ve_run_id = ''run'', ve_resource_id = ''res'',
      ve_begun_at = ''2026-01-01T00:00:00Z'', ve_completed_at = ''2026-01-01T00:05:00Z'', ve_changes = entries,
      ve_on_disk_verified = False, ve_outside_scope = None, ve_fact_digest = None\<rparr>"

text \<open>The run wrote \<open>a.md\<close> twice and reports its last content; someone else wrote \<open>b.md\<close>.\<close>

definition own_changes :: "DirtyChange list" where
  "own_changes = [sample_dirty ''a.md'' ''v1'' ''2026-01-01T00:01:00Z'', sample_dirty ''a.md'' ''v2'' ''2026-01-01T00:02:00Z'']"

definition own_entries :: "changeEntry list" where
  "own_entries = [\<lparr>ce_path = ''a.md'', ce_before_digest = None, ce_after_digest = Some ''v2''\<rparr>]"


end
