(* ===== verification/WorkReceipt.thy ===== *)
theory WorkReceipt
  imports Attribution Coordination Selection Ingest Identifiers
begin

text \<open>
  The work-receipt service (\<open>src/internal/app/workreceipt/service.go\<close>, the data of
  \<open>ports/workreceipt.go\<close>): begin, complete and fail. The store, the clock and the suffix source are functions
  over a world \<open>'s\<close>, the resource root is the resolver of ingestion. \<open>decode\<close> is \<open>json.Unmarshal\<close> of a
  stored request; \<open>parse\<close> reads one JSON value and says whether more input follows (objects with distinct keys,
  any number as an integer; the code never looks at one). The text of a rejection reason is an argument. Every
  rejection is audited where the code returns it, so the operations audit the rejection they end with.
\<close>

section \<open>Data\<close>

record WorkChange =
  wc_path :: string
  wc_before_digest :: string
  wc_after_digest :: string

record WorkReceiptInput =
  wi_receipt_id :: string
  wi_dispatch_id :: string
  wi_run_id :: string
  wi_resource_id :: string
  wi_status :: string
  wi_failure_code :: string
  wi_external_task_id :: string
  wi_base_revision :: string
  wi_result_revision :: string
  wi_changes_json :: string
  wi_submitted_at :: string
  wi_validation_state :: string
  wi_validation_reasons_json :: string
  wi_begun_at :: string
  wi_completed_scope :: "WorkChange list"
  wi_remaining_scope :: "WorkChange list"
  wi_manual_reason :: string
  wi_completion_only :: bool
  wi_verified_path_facts :: "ObservationChange list"

record WorkReceiptView =
  wv_receipt_id :: string
  wv_dispatch_id :: string
  wv_run_id :: string
  wv_status :: string
  wv_failure_code :: string
  wv_validation_state :: string
  wv_validation_reasons_json :: string
  wv_submitted_at :: string
  wv_begun_at :: string
  wv_destination_id :: string
  wv_manual_reason :: string

record manifestDocument =
  md_is_v2 :: bool
  md_schema_version :: string
  md_status :: string
  md_completed_scope :: "changeEntry list"
  md_remaining_scope :: "changeEntry list"
  md_manual_reason :: string

record receiptDoc =
  rd_schema_version :: "string option"
  rd_dispatch_id :: "string option"
  rd_external_task_id :: "string option"
  rd_run_id :: "string option"
  rd_resource_id :: "string option"
  rd_status :: "string option"
  rd_base_revision :: "string option"
  rd_result_revision :: "string option"
  rd_submitted_at :: "string option"
  rd_changes :: "changeEntry list option"
  rd_failure_code :: "string option"
  rd_completed_scope :: "changeEntry list option"
  rd_remaining_scope :: "changeEntry list option"
  rd_manual_reason :: "string option"

record BeginInput =
  bg_dispatch_id :: string
  bg_run_id :: string
  bg_external_task_id :: string
  bg_base_revision :: string

record CompleteInput =
  cm_dispatch_id :: string
  cm_run_id :: string
  cm_result_revision :: string
  cm_manifest_json :: string
  cm_paths :: "string list"
  cm_remaining_paths :: "string list"
  cm_no_changes :: bool
  cm_completion_only :: bool
  cm_status :: string
  cm_remaining_manifest_json :: string
  cm_manual_reason :: string

record FailInput =
  wf_dispatch_id :: string
  wf_run_id :: string
  wf_failure_code :: string
  wf_detail :: string
  wf_completion_only :: bool

record WorkResult =
  wr_receipt_id :: string
  wr_dispatch_id :: string
  wr_run_id :: string
  wr_status :: string
  wr_route_state :: string
  wr_followup_dispatch_id :: string
  wr_dirty_generation :: int
  wr_failure_budget_left :: int
  wr_suppressed_paths :: "string list"
  wr_self_change_suppressed :: bool
  wr_manual_intervention :: bool
  wr_audit_warning :: "store_error option"

text \<open>Why a submission is rejected; a constructor carries what its message shows.\<close>

datatype receipt_reason =
    NotAnOutcome string
  | DispatchIDRequired
  | RunIDRequired
  | NoSuchDispatch string
  | NotTheActiveDispatch string string RouteState string
  | TaskUnverifiable string string
  | TaskMismatch string string
  | RunRecorded string string
  | PathNotNormalized string record_error
  | PathNotCanonical string string
  | PathRepeated string
  | PathNotContained string fs_error
  | PathNotRegular string fs_error
  | PathHashFailed string string
  | PathTooLarge string int
  | DigestMalformed string string record_error
  | TooManyChanges nat
  | ManifestTooLarge
  | ManifestNotJson string
  | ManifestTrailing
  | ManifestNotChanges string
  | ManifestNotDocument string
  | ChangeKeyUnknown string
  | DocumentKeyUnknown string
  | SchemaVersionUnknown
  | DocumentFieldMissing string
  | DocumentFieldMismatch string string string
  | DocumentOutcome string
  | ManifestStatus string
  | SubmittedAtMalformed
  | FailureCodePresent
  | StatusConflict string string
  | ReasonNotBlocked string
  | ReasonConflict
  | DocumentReasonNotBlocked string
  | BlockedWithChanges
  | BlockedWithManifest
  | BlockedWithoutReason
  | ReasonTooLong
  | NoBegunReceipt string string
  | ScopeNotReported string
  | RemainingConflict
  | RemainingEmpty
  | FailureCodeUnknown string
  | DetailTooLong

datatype work_error =
    InvalidReceipt "receipt_reason list"
  | WorkStoreFailed store_error
  | LaneConditionsUnresolved string string string
  | DirtyOperationUnknown string string
  | LaneNotEvaluated string string selection_error
  | StoredManifestOperation string
  | FollowupNotBuilt followup_error

record 's WorkStore =
  ws_load_intent :: "'s \<Rightarrow> string \<Rightarrow> store_error + IntentSnapshot"
  ws_load_intent_lane :: "'s \<Rightarrow> string \<Rightarrow> store_error + RouteSnapshot"
  ws_load_work_receipt :: "'s \<Rightarrow> string \<Rightarrow> string \<Rightarrow> store_error + WorkReceiptView option"
  ws_insert_work_receipt :: "'s \<Rightarrow> WorkReceiptInput \<Rightarrow> 's \<times> (store_error + unit)"
  ws_complete_work :: "'s \<Rightarrow> WorkReceiptInput \<Rightarrow> ActiveCompletion \<Rightarrow> 's \<times> (store_error + FollowupCreated)"
  ws_block_work :: "'s \<Rightarrow> WorkReceiptInput \<Rightarrow> 's \<times> (store_error + unit)"
  ws_failure_budget_remaining :: "'s \<Rightarrow> string \<Rightarrow> int \<Rightarrow> store_error + int"
  ws_audit_work_receipt :: "'s \<Rightarrow> string \<Rightarrow> string \<Rightarrow> string \<Rightarrow> string \<Rightarrow> string \<Rightarrow> string \<Rightarrow> 's"
  ws_load_active_generation_changes :: "'s \<Rightarrow> string \<Rightarrow> string \<Rightarrow> store_error + DirtyChange list"
  ws_audit_attribution :: "'s \<Rightarrow> string \<Rightarrow> string \<Rightarrow> string \<Rightarrow> string \<Rightarrow> 's \<times> (store_error + unit)"
  ws_load_path_facts :: "'s \<Rightarrow> string \<Rightarrow> store_error + (string \<rightharpoonup> string \<times> bool)"

text \<open>\<open>ws_load_work_receipt\<close>: \<open>None\<close> stands for \<open>ErrWorkReceiptNotFound\<close>; a path fact is its digest and whether the path exists.\<close>

record 's WorkService =
  wk_store :: "'s WorkStore"
  wk_now :: "'s \<Rightarrow> 's \<times> int"
  wk_compact_now :: "'s \<Rightarrow> 's \<times> string"
  wk_suffix :: "'s \<Rightarrow> 's \<times> string"
  wk_new_ids :: "'s \<Rightarrow> (id_error + string) \<times> (id_error + string)"
  wk_resolver :: "Resolver option"
  wk_max_hash_bytes :: int
  wk_failure_budget :: int
  wk_outside_scope :: "(string \<Rightarrow> bool) option"
  wk_log :: "('s \<Rightarrow> string \<Rightarrow> string \<Rightarrow> string \<Rightarrow> 's) option"
  wk_policy_revision :: string
  wk_destination_resolver :: "lane_resolver option"
  wk_lane_conditions :: "(string \<Rightarrow> string \<Rightarrow> string + DestinationConditionSet option) option"
  wk_lane_path_matcher :: "matcher option"
  wk_text :: "receipt_reason \<Rightarrow> string"
  wk_decode :: "string \<Rightarrow> string + TaskRequest"
  wk_parse :: "string \<Rightarrow> string + json \<times> bool"

section \<open>Small pieces\<close>

definition SchemaVersion :: string where
  "SchemaVersion = ''agent-dispatch.work-receipt/v2''"

definition SchemaVersionV1 :: string where
  "SchemaVersionV1 = ''agent-dispatch.work-receipt/v1''"

abbreviation "StatusCompleted \<equiv> WorkStatus_str WorkCompleted"
abbreviation "StatusPartiallyComplete \<equiv> WorkStatus_str WorkPartiallyComplete"
abbreviation "StatusBlocked \<equiv> WorkStatus_str WorkBlocked"
abbreviation "StatusBegun \<equiv> WorkStatus_str WorkBegan"
abbreviation "StatusFailed \<equiv> WorkStatus_str WorkFailed"

definition MaxChanges :: nat where "MaxChanges = 1000"
definition MaxManifestBytes :: nat where "MaxManifestBytes = 1048576"
definition MaxIDBytes :: nat where "MaxIDBytes = 256"
definition MaxDetailBytes :: nat where "MaxDetailBytes = 200"
definition maxManualReasonCharacters :: nat where "maxManualReasonCharacters = 200"

definition failureCodes :: "string list" where
  "failureCodes = [''agent_error'', ''canceled'', ''timeout'', ''environment_error'']"

definition docKeys :: "string list" where
  "docKeys = [''schema_version'', ''dispatch_id'', ''external_task_id'', ''run_id'', ''resource_id'', ''status'',
     ''base_revision'', ''result_revision'', ''submitted_at'', ''changes'', ''failure_code'', ''completed_scope'',
     ''remaining_scope'', ''manual_reason'']"

definition changeKeys :: "string list" where
  "changeKeys = [''path'', ''before_digest'', ''after_digest'']"

text \<open>\<open>[]rune(text)\<close> replaces a byte that is not UTF-8; a text within the bound is returned as it is.\<close>

definition boundEcho :: "string \<Rightarrow> nat \<Rightarrow> string" where
  "boundEcho t bound =
     (let rs = runes_of t
      in if length rs \<le> bound then t else concat (take bound rs) @ ''...(truncated)'')"

definition when_reason :: "bool \<Rightarrow> 'r \<Rightarrow> 'r list" where
  "when_reason b r = (if b then [r] else [])"

definition optional :: "string option \<Rightarrow> string" where
  "optional d = (case d of None \<Rightarrow> [] | Some v \<Rightarrow> v)"

definition scope_key :: "changeEntry \<Rightarrow> string" where
  "scope_key e = ce_path e @ [CHR 0x00] @ optional (ce_before_digest e) @ [CHR 0x00] @ optional (ce_after_digest e)"

definition sameChangeEntries :: "changeEntry list \<Rightarrow> changeEntry list \<Rightarrow> bool" where
  "sameChangeEntries a b = (length a = length b \<and> sort (map scope_key a) = sort (map scope_key b))"


section \<open>Reading a manifest\<close>

text \<open>Field names match as \<open>encoding/json\<close> matches them: a rune outside ASCII folds to an ASCII letter only for the
  Kelvin sign and the long s.\<close>

definition fold_rune :: "string \<Rightarrow> string" where
  "fold_rune r =
     (if r = [CHR 0xE2, CHR 0x84, CHR 0xAA] then ''K'' else if r = [CHR 0xC5, CHR 0xBF] then ''S''
      else case r of [c] \<Rightarrow> (if 97 \<le> byte c \<and> byte c \<le> 122 then [char_of (byte c - 32)] else r) | _ \<Rightarrow> r)"

definition fold_name :: "string \<Rightarrow> string" where
  "fold_name k = concat (map fold_rune (runes_of k))"

fun foldE :: "('b \<Rightarrow> 'a \<Rightarrow> 'e + 'b) \<Rightarrow> 'b \<Rightarrow> 'a list \<Rightarrow> 'e + 'b" where
  "foldE f b [] = Inr b"
| "foldE f b (x # xs) = bindE (f b x) (\<lambda>b1. foldE f b1 xs)"

text \<open>A value of the wrong type is an error; \<open>null\<close> leaves a text alone and clears a pointer.\<close>

definition text_pointer :: "json \<Rightarrow> unit + string option" where
  "text_pointer v = (case v of JNull \<Rightarrow> Inr None | JStr t \<Rightarrow> Inr (Some t) | _ \<Rightarrow> Inl ())"

definition entry_field :: "changeEntry \<Rightarrow> string \<times> json \<Rightarrow> unit + changeEntry" where
  "entry_field e f =
     (case f of (k, v) \<Rightarrow>
        if fold_name k = fold_name ''path'' then
          bindE (text_pointer v) (\<lambda>t. Inr (case t of None \<Rightarrow> e | Some p \<Rightarrow> e\<lparr>ce_path := p\<rparr>))
        else if fold_name k = fold_name ''before_digest'' then bindE (text_pointer v) (\<lambda>t. Inr (e\<lparr>ce_before_digest := t\<rparr>))
        else if fold_name k = fold_name ''after_digest'' then bindE (text_pointer v) (\<lambda>t. Inr (e\<lparr>ce_after_digest := t\<rparr>))
        else Inr e)"

definition no_entry :: changeEntry where
  "no_entry = \<lparr>ce_path = [], ce_before_digest = None, ce_after_digest = None\<rparr>"

definition entry_of :: "json \<Rightarrow> unit + changeEntry" where
  "entry_of v = (case v of JNull \<Rightarrow> Inr no_entry | JObj fs \<Rightarrow> foldE entry_field no_entry fs | _ \<Rightarrow> Inl ())"

definition entries_of :: "json \<Rightarrow> unit + changeEntry list" where
  "entries_of v = (case v of JNull \<Rightarrow> Inr [] | JArr vs \<Rightarrow> mapE entry_of vs | _ \<Rightarrow> Inl ())"

definition text_member :: "string \<Rightarrow> (string \<times> json) list \<Rightarrow> unit + string option" where
  "text_member k fs = (case map_of fs k of None \<Rightarrow> Inr None | Some v \<Rightarrow> text_pointer v)"

definition entries_member :: "string \<Rightarrow> (string \<times> json) list \<Rightarrow> unit + changeEntry list option" where
  "entries_member k fs =
     (case map_of fs k of
        None \<Rightarrow> Inr None
      | Some v \<Rightarrow> if v = JNull then Inr None else bindE (entries_of v) (\<lambda>es. Inr (Some es)))"

text \<open>\<open>json.Unmarshal\<close> into a \<open>receiptDoc\<close>; the keys of the document are checked before.\<close>

definition read_doc :: "(string \<times> json) list \<Rightarrow> unit + receiptDoc" where
  "read_doc fs =
     bindE (text_member ''schema_version'' fs) (\<lambda>version. bindE (text_member ''dispatch_id'' fs) (\<lambda>dispatch.
     bindE (text_member ''external_task_id'' fs) (\<lambda>task. bindE (text_member ''run_id'' fs) (\<lambda>run.
     bindE (text_member ''resource_id'' fs) (\<lambda>resource. bindE (text_member ''status'' fs) (\<lambda>status.
     bindE (text_member ''base_revision'' fs) (\<lambda>base. bindE (text_member ''result_revision'' fs) (\<lambda>result.
     bindE (text_member ''submitted_at'' fs) (\<lambda>submitted. bindE (entries_member ''changes'' fs) (\<lambda>changes.
     bindE (text_member ''failure_code'' fs) (\<lambda>failure. bindE (entries_member ''completed_scope'' fs) (\<lambda>completed.
     bindE (entries_member ''remaining_scope'' fs) (\<lambda>remaining. bindE (text_member ''manual_reason'' fs) (\<lambda>reason.
       Inr \<lparr>rd_schema_version = version, rd_dispatch_id = dispatch, rd_external_task_id = task, rd_run_id = run,
         rd_resource_id = resource, rd_status = status, rd_base_revision = base, rd_result_revision = result,
         rd_submitted_at = submitted, rd_changes = changes, rd_failure_code = failure, rd_completed_scope = completed,
         rd_remaining_scope = remaining, rd_manual_reason = reason\<rparr>))))))))))))))"

text \<open>The members of a document, against the dispatch it is submitted for.\<close>

definition doc_reasons :: "string \<Rightarrow> string \<Rightarrow> string \<Rightarrow> string \<Rightarrow> receiptDoc \<Rightarrow> receipt_reason list" where
  "doc_reasons did run resource external d =
     (let v2 = (rd_schema_version d = Some SchemaVersion); status = optional (rd_status d);
          missing = (\<lambda>field name. when_reason (field = None) (DocumentFieldMissing name));
          mismatch = (\<lambda>field want name. when_reason (field \<noteq> None \<and> field \<noteq> Some want)
            (DocumentFieldMismatch name (optional field) want))
      in when_reason (rd_schema_version d \<notin> {Some SchemaVersion, Some SchemaVersionV1}) SchemaVersionUnknown @
         missing (rd_dispatch_id d) ''dispatch_id'' @ missing (rd_run_id d) ''run_id'' @
         missing (rd_resource_id d) ''resource_id'' @ missing (rd_status d) ''status'' @
         missing (rd_submitted_at d) ''submitted_at'' @ when_reason (rd_changes d = None) (DocumentFieldMissing ''changes'') @
         mismatch (rd_dispatch_id d) did ''dispatch_id'' @ mismatch (rd_run_id d) run ''run_id'' @
         when_reason (rd_resource_id d \<noteq> None \<and> resource \<noteq> [] \<and> rd_resource_id d \<noteq> Some resource)
           (DocumentFieldMismatch ''resource_id'' (optional (rd_resource_id d)) resource) @
         when_reason (optional (rd_external_task_id d) \<noteq> [] \<and> external \<noteq> [] \<and> rd_external_task_id d \<noteq> Some external)
           (TaskMismatch (optional (rd_external_task_id d)) external) @
         (if v2 then
            (if rd_status d = None then [DocumentFieldMissing ''status'']
             else when_reason (ParseWorkStatus status \<notin> {Inr WorkCompleted, Inr WorkPartiallyComplete, Inr WorkBlocked})
               (DocumentOutcome status))
          else when_reason (status \<noteq> StatusCompleted) (ManifestStatus status)) @
         when_reason (rd_submitted_at d \<noteq> None \<and> parse_rfc3339 (optional (rd_submitted_at d)) = None) SubmittedAtMalformed @
         when_reason (optional (rd_failure_code d) \<noteq> []) FailureCodePresent)"

definition containment :: "Resolver option \<Rightarrow> string \<Rightarrow> receipt_reason list" where
  "containment rv path =
     (case rv of None \<Rightarrow> [] | Some r \<Rightarrow> (case rv_resolve r path of Inl e \<Rightarrow> [PathNotContained path e] | Inr _ \<Rightarrow> []))"

definition digest_reasons :: "string \<Rightarrow> string \<Rightarrow> string option \<Rightarrow> receipt_reason list" where
  "digest_reasons label path d =
     (if optional d = [] then [] else case ParseDigest (optional d) of Inl e \<Rightarrow> [DigestMalformed label path e] | Inr _ \<Rightarrow> [])"

fun check_entries :: "Resolver option \<Rightarrow> string list \<Rightarrow> changeEntry list \<Rightarrow> receipt_reason list" where
  "check_entries rv seen [] = []"
| "check_entries rv seen (c # cs) =
     (case NormalizePath (ce_path c) of
        Inl e \<Rightarrow> PathNotNormalized (ce_path c) e # check_entries rv seen cs
      | Inr p \<Rightarrow>
          when_reason (p \<noteq> ce_path c) (PathNotCanonical (ce_path c) p) @ when_reason (p \<in> set seen) (PathRepeated p) @
          containment rv p @ digest_reasons ''before_digest'' p (ce_before_digest c) @
          digest_reasons ''after_digest'' p (ce_after_digest c) @ check_entries rv (p # seen) cs)"

definition validateChangeEntries :: "Resolver option \<Rightarrow> changeEntry list \<Rightarrow> receipt_reason list" where
  "validateChangeEntries rv es =
     check_entries rv [] es @ when_reason (MaxChanges < length es) (TooManyChanges (length es))"

definition no_document :: manifestDocument where
  "no_document = \<lparr>md_is_v2 = False, md_schema_version = [], md_status = [], md_completed_scope = [],
     md_remaining_scope = [], md_manual_reason = []\<rparr>"

definition document_of :: "receiptDoc \<Rightarrow> manifestDocument" where
  "document_of d =
     \<lparr>md_is_v2 = (rd_schema_version d = Some SchemaVersion), md_schema_version = optional (rd_schema_version d),
      md_status = optional (rd_status d), md_completed_scope = (case rd_completed_scope d of None \<Rightarrow> [] | Some es \<Rightarrow> es),
      md_remaining_scope = (case rd_remaining_scope d of None \<Rightarrow> [] | Some es \<Rightarrow> es),
      md_manual_reason = optional (rd_manual_reason d)\<rparr>"

text \<open>The bare change array: its keys are checked in every object.\<close>

definition array_keys :: "json \<Rightarrow> unit + receipt_reason list" where
  "array_keys v =
     (case v of
        JArr vs \<Rightarrow> bindE (mapE (\<lambda>x. case x of JNull \<Rightarrow> Inr [] | JObj fs \<Rightarrow> Inr (map fst fs) | _ \<Rightarrow> Inl ()) vs)
          (\<lambda>kss. Inr (map ChangeKeyUnknown (filter (\<lambda>k. k \<notin> set changeKeys) (concat kss))))
      | _ \<Rightarrow> Inl ())"

definition read_array :: "string \<Rightarrow> json \<Rightarrow> receipt_reason list + changeEntry list" where
  "read_array raw v =
     (case array_keys v of
        Inl _ \<Rightarrow> Inl [ManifestNotChanges raw]
      | Inr unknown \<Rightarrow>
          if unknown \<noteq> [] then Inl unknown
          else (case entries_of v of Inl _ \<Rightarrow> Inl [ManifestNotChanges raw] | Inr es \<Rightarrow> Inr es))"

definition read_document :: "string \<Rightarrow> json \<Rightarrow> receipt_reason list + receiptDoc" where
  "read_document raw v =
     bindE (case v of JNull \<Rightarrow> Inr [] | JObj fs \<Rightarrow> Inr fs | _ \<Rightarrow> Inl [ManifestNotDocument raw]) (\<lambda>fs.
       let unknown = filter (\<lambda>k. k \<notin> set docKeys) (map fst fs)
       in if unknown \<noteq> [] then Inl (map DocumentKeyUnknown unknown)
          else case read_doc fs of Inl _ \<Rightarrow> Inl [ManifestNotDocument raw] | Inr d \<Rightarrow> Inr d)"

definition reject_unless :: "receipt_reason list \<Rightarrow> 'a \<Rightarrow> receipt_reason list + 'a" where
  "reject_unless reasons x = (if reasons = [] then Inr x else Inl reasons)"

text \<open>An unknown key of a bare array is reported before its entries would be checked: they were not decoded.\<close>

definition validateManifest ::
  "'s WorkService \<Rightarrow> string \<Rightarrow> string \<Rightarrow> string \<Rightarrow> string \<Rightarrow> string \<Rightarrow>
   receipt_reason list + changeEntry list \<times> string \<times> manifestDocument" where
  "validateManifest s raw did run resource external =
     (if MaxManifestBytes < length raw then Inl [ManifestTooLarge]
      else case wk_parse s raw of
        Inl _ \<Rightarrow> Inl [ManifestNotJson raw]
      | Inr (v, more_input) \<Rightarrow>
          if more_input then Inl [ManifestTrailing]
          else if take 1 (trim_space raw) = ''['' then
            bindE (read_array raw v) (\<lambda>es. reject_unless (validateChangeEntries (wk_resolver s) es) (es, [], no_document))
          else
            bindE (read_document raw v) (\<lambda>d.
              let es = (case rd_changes d of None \<Rightarrow> [] | Some es \<Rightarrow> es); doc = document_of d
              in reject_unless
                (doc_reasons did run resource external d @ validateChangeEntries (wk_resolver s) es @
                 (if md_is_v2 doc then validateChangeEntries (wk_resolver s) (md_completed_scope doc) @
                    validateChangeEntries (wk_resolver s) (md_remaining_scope doc) else []))
                (es, optional (rd_result_revision d), doc)))"

section \<open>Paths named on the command line\<close>

definition path_fact :: "string \<Rightarrow> string \<Rightarrow> bool \<Rightarrow> string \<Rightarrow> string \<Rightarrow> string \<Rightarrow> ObservationChange" where
  "path_fact path operation exists file_type dig status =
     \<lparr>oc_ordinal = 0, oc_path = path, oc_operation = operation, oc_exists_after = exists, oc_file_type = file_type,
      oc_before_digest = [], oc_after_digest = dig, oc_digest_status = status\<rparr>"

definition flag_path :: "Resolver option \<Rightarrow> int \<Rightarrow> string \<Rightarrow> changeEntry list \<times> ObservationChange list \<times> receipt_reason list" where
  "flag_path rv bound p =
     (let entry = (\<lambda>d. no_entry\<lparr>ce_path := p, ce_after_digest := d\<rparr>)
      in case rv of
        None \<Rightarrow> ([entry None], [], [])
      | Some r \<Rightarrow>
          (case rv_resolve r p of
             Inl e \<Rightarrow> ([], [], [PathNotContained p e])
           | Inr _ \<Rightarrow>
               (case rv_open r p bound of
                  Inl e \<Rightarrow>
                    if e = ErrMissing then ([entry None], [path_fact p ''delete'' False ''missing'' [] ''unavailable''], [])
                    else ([], [], [PathNotRegular p e])
                | Inr f \<Rightarrow>
                    (case SumBounded f bound of (err, dig, _, over) \<Rightarrow>
                       (case err of
                          Some e \<Rightarrow> ([], [], [PathHashFailed p e])
                        | None \<Rightarrow>
                            if over then ([], [], [PathTooLarge p bound])
                            else ([entry (Some dig)], [path_fact p ''modify'' True ''regular'' dig ''known''], []))))))"

fun flag_paths ::
  "Resolver option \<Rightarrow> int \<Rightarrow> string list \<Rightarrow> string list \<Rightarrow> changeEntry list \<times> ObservationChange list \<times> receipt_reason list" where
  "flag_paths rv bound seen [] = ([], [], [])"
| "flag_paths rv bound seen (raw # paths) =
     (case NormalizePath raw of
        Inl e \<Rightarrow> (case flag_paths rv bound seen paths of (es, fs, rs) \<Rightarrow> (es, fs, PathNotNormalized raw e # rs))
      | Inr p \<Rightarrow>
          if p \<in> set seen then flag_paths rv bound seen paths
          else (case flag_path rv bound p of (es1, fs1, rs1) \<Rightarrow>
                case flag_paths rv bound (p # seen) paths of (es, fs, rs) \<Rightarrow> (es1 @ es, fs1 @ fs, rs1 @ rs)))"

definition resolveFlagPaths ::
  "'s WorkService \<Rightarrow> string list \<Rightarrow> receipt_reason list + changeEntry list \<times> ObservationChange list" where
  "resolveFlagPaths s paths =
     (let bound = (if wk_max_hash_bytes s \<le> 0 then 67108864 else wk_max_hash_bytes s)
      in case flag_paths (wk_resolver s) bound [] paths of (es, fs, rs) \<Rightarrow>
           reject_unless (rs @ when_reason (MaxChanges < length es) (TooManyChanges (length es))) (es, fs))"


section \<open>Clock, identifiers and audit\<close>

definition timestamp :: "'s WorkService \<Rightarrow> 's \<Rightarrow> 's \<times> string" where
  "timestamp s w = (case wk_now s w of (w1, t) \<Rightarrow> (w1, CanonicalTimestamp t))"

text \<open>\<open>wk_compact_now\<close> is \<open>s.Now().UTC().Format("20060102T150405.000000000")\<close>.\<close>

definition receiptID :: "'s WorkService \<Rightarrow> 's \<Rightarrow> string \<Rightarrow> 's \<times> string" where
  "receiptID s w did =
     (case wk_compact_now s w of (w1, t) \<Rightarrow> case wk_suffix s w1 of (w2, x) \<Rightarrow>
       (w2, ''rcpt-work-'' @ did @ ''-'' @ CompactTimestamp t @ ''-'' @ x))"

definition invalid_document :: "'s WorkService \<Rightarrow> string \<Rightarrow> receipt_reason list \<Rightarrow> string" where
  "invalid_document s run reasons =
     render True (JObj [(''reasons'', JArr (map (\<lambda>r. JStr (boundEcho (wk_text s r) 300)) reasons)), (''run_id'', JStr run)])"

definition auditInvalid :: "'s WorkService \<Rightarrow> 's \<Rightarrow> string \<Rightarrow> string \<Rightarrow> receipt_reason list \<Rightarrow> 's" where
  "auditInvalid s w did run reasons =
     (case timestamp s w of (w1, now) \<Rightarrow>
        let w2 = (case wk_log s of None \<Rightarrow> w1 | Some emit \<Rightarrow> emit w1 ''work.receipt_invalid'' did run)
        in case wk_suffix s w2 of (w3, x) \<Rightarrow>
             ws_audit_work_receipt (wk_store s) w3 (''wr-'' @ did @ ''-'' @ run @ ''-invalid-'' @ now @ ''-'' @ x)
               did [] ''invalid'' now (invalid_document s run reasons))"

definition AuditUnknownDispatch :: "'s WorkService \<Rightarrow> 's \<Rightarrow> string \<Rightarrow> 's" where
  "AuditUnknownDispatch s w did = auditInvalid s w did [] [NoSuchDispatch did]"

definition logEvent :: "'s WorkService \<Rightarrow> 's \<Rightarrow> string \<Rightarrow> string \<Rightarrow> string \<Rightarrow> 's" where
  "logEvent s w event did run = (case wk_log s of None \<Rightarrow> w | Some emit \<Rightarrow> emit w event did run)"

text \<open>The next step runs in the world the last one left.\<close>

definition bindS :: "'s \<times> ('e + 'a) \<Rightarrow> ('s \<Rightarrow> 'a \<Rightarrow> 's \<times> ('e + 'b)) \<Rightarrow> 's \<times> ('e + 'b)" where
  "bindS m f = (case m of (w, Inl e) \<Rightarrow> (w, Inl e) | (w, Inr x) \<Rightarrow> f w x)"

definition rejected :: "receipt_reason list + 'a \<Rightarrow> work_error + 'a" where
  "rejected r = map_err InvalidReceipt r"

definition stored :: "store_error + 'a \<Rightarrow> work_error + 'a" where
  "stored r = map_err (\<lambda>e. WorkStoreFailed (wrap_store e)) r"

text \<open>A rejection is audited before it is returned.\<close>

definition audited :: "'s WorkService \<Rightarrow> string \<Rightarrow> string \<Rightarrow> 's \<times> (work_error + 'a) \<Rightarrow> 's \<times> (work_error + 'a)" where
  "audited s did run m =
     (case m of (w, Inl (InvalidReceipt rs)) \<Rightarrow> (auditInvalid s w did run rs, Inl (InvalidReceipt rs)) | _ \<Rightarrow> m)"

section \<open>Lineage\<close>

definition lineage_reasons :: "string \<Rightarrow> string \<Rightarrow> IntentSnapshot \<Rightarrow> RouteSnapshot \<Rightarrow> receipt_reason list" where
  "lineage_reasons did task intent snap =
     when_reason (\<not> IsActive (rs_state snap) \<or> rs_active_dispatch_id snap \<noteq> did)
       (NotTheActiveDispatch did (is_route_id intent) (rs_state snap) (rs_active_dispatch_id snap)) @
     when_reason (task \<noteq> [] \<and> is_external_ref intent = []) (TaskUnverifiable did task) @
     when_reason (task \<noteq> [] \<and> is_external_ref intent \<noteq> [] \<and> task \<noteq> is_external_ref intent)
       (TaskMismatch task (is_external_ref intent))"

definition validateLineage ::
  "'s WorkService \<Rightarrow> 's \<Rightarrow> string \<Rightarrow> string \<Rightarrow> string \<Rightarrow> work_error + receipt_reason list + IntentSnapshot \<times> RouteSnapshot" where
  "validateLineage s w did run task =
     (if did = [] \<or> MaxIDBytes < length did then Inr (Inl [DispatchIDRequired])
      else if run = [] \<or> MaxIDBytes < length run then Inr (Inl [RunIDRequired])
      else case ws_load_intent (wk_store s) w did of
        Inl e \<Rightarrow> if se_class e = IntentNotFound then Inr (Inl [NoSuchDispatch did]) else Inl (WorkStoreFailed (wrap_store e))
      | Inr intent \<Rightarrow>
          bindE (stored (ws_load_intent_lane (wk_store s) w did)) (\<lambda>snap.
            Inr (reject_unless (lineage_reasons did task intent snap) (intent, snap))))"

definition validateNewRun :: "'s WorkService \<Rightarrow> 's \<Rightarrow> string \<Rightarrow> string \<Rightarrow> work_error + receipt_reason list" where
  "validateNewRun s w did run =
     bindE (stored (ws_load_work_receipt (wk_store s) w did run)) (\<lambda>v.
       Inr (when_reason (v \<noteq> None) (RunRecorded run did)))"

section \<open>Begin\<close>

definition no_receipt :: WorkReceiptInput where
  "no_receipt =
     \<lparr>wi_receipt_id = [], wi_dispatch_id = [], wi_run_id = [], wi_resource_id = [], wi_status = [], wi_failure_code = [],
      wi_external_task_id = [], wi_base_revision = [], wi_result_revision = [], wi_changes_json = [],
      wi_submitted_at = [], wi_validation_state = ''valid'', wi_validation_reasons_json = [], wi_begun_at = [],
      wi_completed_scope = [], wi_remaining_scope = [], wi_manual_reason = [], wi_completion_only = False,
      wi_verified_path_facts = []\<rparr>"

definition begin_result :: "WorkReceiptInput \<Rightarrow> RouteSnapshot \<Rightarrow> WorkResult" where
  "begin_result r snap =
     \<lparr>wr_receipt_id = wi_receipt_id r, wr_dispatch_id = wi_dispatch_id r, wr_run_id = wi_run_id r, wr_status = wi_status r,
      wr_route_state = RouteState_str (rs_state snap), wr_followup_dispatch_id = [], wr_dirty_generation = 0,
      wr_failure_budget_left = 0, wr_suppressed_paths = [], wr_self_change_suppressed = False,
      wr_manual_intervention = False, wr_audit_warning = None\<rparr>"

definition begin_admitted :: "'s WorkService \<Rightarrow> 's \<Rightarrow> BeginInput \<Rightarrow> work_error + IntentSnapshot \<times> RouteSnapshot" where
  "begin_admitted s w i =
     bindE (validateLineage s w (bg_dispatch_id i) (bg_run_id i) (bg_external_task_id i)) (\<lambda>lineage.
     bindE (validateNewRun s w (bg_dispatch_id i) (bg_run_id i)) (\<lambda>replay.
       case lineage of
         Inl reasons \<Rightarrow> Inl (InvalidReceipt (reasons @ replay))
       | Inr found \<Rightarrow> if replay \<noteq> [] then Inl (InvalidReceipt replay) else Inr found))"

definition begin_submission :: "'s WorkService \<Rightarrow> 's \<Rightarrow> BeginInput \<Rightarrow> 's \<times> (work_error + WorkResult)" where
  "begin_submission s w i =
     (let did = bg_dispatch_id i; run = bg_run_id i
      in bindS (w, begin_admitted s w i) (\<lambda>w (intent, snap).
           case receiptID s w did of (w1, rid) \<Rightarrow> case timestamp s w1 of (w2, submitted) \<Rightarrow> case timestamp s w2 of (w3, begun) \<Rightarrow>
           let r = no_receipt\<lparr>wi_receipt_id := rid, wi_dispatch_id := did, wi_run_id := run,
                 wi_resource_id := is_resource_id intent, wi_status := StatusBegun,
                 wi_external_task_id := bg_external_task_id i, wi_base_revision := bg_base_revision i,
                 wi_submitted_at := submitted, wi_begun_at := begun\<rparr>
           in bindS (case ws_insert_work_receipt (wk_store s) w3 r of (w4, res) \<Rightarrow> (w4, stored res)) (\<lambda>w4 _.
                (logEvent s w4 ''work.begun'' did run, Inr (begin_result r snap)))))"

definition Begin :: "'s WorkService \<Rightarrow> 's \<Rightarrow> BeginInput \<Rightarrow> 's \<times> (work_error + WorkResult)" where
  "Begin s w i = audited s (bg_dispatch_id i) (bg_run_id i) (begin_submission s w i)"

section \<open>The outcome of a completion\<close>

definition complete_defaults :: "CompleteInput \<Rightarrow> CompleteInput" where
  "complete_defaults c =
     (let c1 = (if cm_run_id c = [] \<and> cm_dispatch_id c \<noteq> []
            then c\<lparr>cm_run_id := ''run-'' @ cm_dispatch_id c, cm_completion_only := True\<rparr> else c)
      in if cm_paths c1 \<noteq> [] \<or> cm_remaining_paths c1 \<noteq> [] \<or> cm_no_changes c1 then c1\<lparr>cm_completion_only := True\<rparr> else c1)"

definition requested_status :: "CompleteInput \<Rightarrow> receipt_reason list + string" where
  "requested_status c =
     (let st = (if cm_status c = [] then StatusCompleted else cm_status c)
      in if \<not> is_ok (ParseWorkStatus st) \<or> st = StatusBegun \<or> st = StatusFailed then Inl [NotAnOutcome (boundEcho (cm_status c) 64)]
         else Inr st)"

text \<open>The change set, its revision and document, the facts hashed on disk, and whether it was.\<close>

definition submitted_changes ::
  "'s WorkService \<Rightarrow> CompleteInput \<Rightarrow> IntentSnapshot \<Rightarrow>
   receipt_reason list + changeEntry list \<times> string \<times> manifestDocument \<times> ObservationChange list \<times> bool" where
  "submitted_changes s c intent =
     (if cm_paths c \<noteq> [] then
        bindE (resolveFlagPaths s (cm_paths c)) (\<lambda>(es, fs). Inr (es, [], no_document, fs, True))
      else if cm_no_changes c then Inr ([], [], no_document, [], True)
      else
        bindE (validateManifest s (if cm_manifest_json c = [] then ''[]'' else cm_manifest_json c) (cm_dispatch_id c)
          (cm_run_id c) (is_resource_id intent) (is_external_ref intent)) (\<lambda>(es, revision, doc). Inr (es, revision, doc, [], False)))"

definition blocked_reasons :: "CompleteInput \<Rightarrow> changeEntry list \<Rightarrow> manifestDocument \<Rightarrow> string \<Rightarrow> receipt_reason list" where
  "blocked_reasons c changes doc reason =
     (if changes \<noteq> [] then [BlockedWithChanges]
      else if \<not> md_is_v2 doc \<and> trim_space (cm_manifest_json c) \<notin> {[], ''[]''} then [BlockedWithManifest]
      else if reason = [] then [BlockedWithoutReason]
      else if maxManualReasonCharacters < length (runes_of reason) then [ReasonTooLong] else [])"

text \<open>The status and the manual reason, reconciled between the flags and the document.\<close>

definition effective_outcome ::
  "CompleteInput \<Rightarrow> string \<Rightarrow> changeEntry list \<Rightarrow> manifestDocument \<Rightarrow> receipt_reason list + string \<times> string" where
  "effective_outcome c requested changes doc =
     (let named = (md_is_v2 doc \<and> md_status doc \<noteq> []); status = (if named then md_status doc else requested);
          flag = trim_space (cm_manual_reason c); told = trim_space (md_manual_reason doc); tells = (md_is_v2 doc \<and> told \<noteq> []);
          reason = (if tells then told else flag); shown = boundEcho status 64
      in if named \<and> cm_status c \<noteq> [] \<and> cm_status c \<noteq> md_status doc
         then Inl [StatusConflict (md_status doc) (boundEcho (cm_status c) 64)]
         else if flag \<noteq> [] \<and> status \<noteq> StatusBlocked then Inl [ReasonNotBlocked shown]
         else if tells \<and> flag \<noteq> [] \<and> flag \<noteq> told then Inl [ReasonConflict]
         else if tells \<and> status \<noteq> StatusBlocked then Inl [DocumentReasonNotBlocked shown]
         else reject_unless (if status = StatusBlocked then blocked_reasons c changes doc reason else []) (status, reason))"

definition unbegun :: "'s WorkService \<Rightarrow> 's \<Rightarrow> IntentSnapshot \<Rightarrow> 's \<times> string" where
  "unbegun s w intent = (if is_created_at intent \<noteq> [] then (w, is_created_at intent) else timestamp s w)"

definition no_view :: WorkReceiptView where
  "no_view = \<lparr>wv_receipt_id = [], wv_dispatch_id = [], wv_run_id = [], wv_status = [], wv_failure_code = [],
     wv_validation_state = [], wv_validation_reasons_json = [], wv_submitted_at = [], wv_begun_at = [],
     wv_destination_id = [], wv_manual_reason = []\<rparr>"

text \<open>The begun receipt, or in completion-only mode the creation of the dispatch.\<close>

definition begun_receipt ::
  "'s WorkService \<Rightarrow> 's \<Rightarrow> CompleteInput \<Rightarrow> IntentSnapshot \<Rightarrow> receipt_reason \<Rightarrow> WorkReceiptView \<Rightarrow>
   's \<times> (work_error + WorkReceiptView)" where
  "begun_receipt s w c intent missing blank =
     (case ws_load_work_receipt (wk_store s) w (cm_dispatch_id c) (cm_run_id c) of
        Inl e \<Rightarrow> (w, Inl (WorkStoreFailed (wrap_store e)))
      | Inr (Some v) \<Rightarrow> (w, Inr v)
      | Inr None \<Rightarrow>
          if \<not> cm_completion_only c then (w, Inl (InvalidReceipt [missing]))
          else (case unbegun s w intent of (w1, t) \<Rightarrow> (w1, Inr (blank\<lparr>wv_begun_at := t\<rparr>))))"

definition receipt_id_for :: "'s WorkService \<Rightarrow> 's \<Rightarrow> string \<Rightarrow> WorkReceiptView \<Rightarrow> 's \<times> string" where
  "receipt_id_for s w did begun = (if wv_receipt_id begun = [] then receiptID s w did else (w, wv_receipt_id begun))"

section \<open>The blocked outcome\<close>

definition completeBlocked ::
  "'s WorkService \<Rightarrow> 's \<Rightarrow> IntentSnapshot \<Rightarrow> RouteSnapshot \<Rightarrow> CompleteInput \<Rightarrow> string \<Rightarrow> 's \<times> (work_error + WorkResult)" where
  "completeBlocked s w intent snap c reason =
     (let did = cm_dispatch_id c; run = cm_run_id c
      in bindS (begun_receipt s w c intent (NoBegunReceipt run did) no_view) (\<lambda>w begun.
         case receipt_id_for s w did begun of (w1, rid) \<Rightarrow> case timestamp s w1 of (w2, now) \<Rightarrow>
         let r = no_receipt\<lparr>wi_receipt_id := rid, wi_dispatch_id := did, wi_run_id := run,
               wi_resource_id := is_resource_id intent, wi_status := StatusBlocked, wi_submitted_at := now,
               wi_begun_at := wv_begun_at begun, wi_manual_reason := trim_space reason,
               wi_completion_only := cm_completion_only c\<rparr>
         in bindS (case ws_block_work (wk_store s) w2 r of (w3, res) \<Rightarrow> (w3, stored res)) (\<lambda>w3 _.
              (logEvent s w3 ''work.blocked'' did run, Inr ((begin_result r snap)\<lparr>wr_manual_intervention := True\<rparr>)))))"


section \<open>Scopes\<close>

definition scopeOperation :: "string option \<Rightarrow> string option \<Rightarrow> Operation" where
  "scopeOperation b a =
     (if optional b \<noteq> [] \<and> optional a = [] then OpDelete
      else if optional b = [] \<and> optional a \<noteq> [] then OpCreate else OpModify)"

text \<open>A change item with the members a scope has; \<open>derefDigest\<close> is \<open>optional\<close>.\<close>

definition scope_item :: "string \<Rightarrow> string \<Rightarrow> string \<Rightarrow> string \<Rightarrow> ChangeItem" where
  "scope_item path operation b a =
     \<lparr>ci_path = path, ci_ordinal = 0, ci_operation = operation, ci_exists_after = False, ci_file_type = [],
      ci_before_digest = b, ci_after_digest = a, ci_digest_status = []\<rparr>"

definition remaining_item :: "changeEntry \<Rightarrow> ChangeItem" where
  "remaining_item e = scope_item (ce_path e) (Operation_str (scopeOperation (ce_before_digest e) (ce_after_digest e)))
     (optional (ce_before_digest e)) (optional (ce_after_digest e))"

definition entriesToItems :: "changeEntry list \<Rightarrow> ChangeItem list" where
  "entriesToItems es = map (\<lambda>e. scope_item (ce_path e) [] (optional (ce_before_digest e)) (optional (ce_after_digest e))) es"

definition workScopeOf :: "ChangeItem list \<Rightarrow> WorkChange list" where
  "workScopeOf cs = map (\<lambda>c. \<lparr>wc_path = ci_path c, wc_before_digest = ci_before_digest c, wc_after_digest = ci_after_digest c\<rparr>) cs"

definition completed_scope :: "changeEntry list \<Rightarrow> manifestDocument \<Rightarrow> receipt_reason list + changeEntry list" where
  "completed_scope changes doc =
     (if md_is_v2 doc \<and> md_completed_scope doc \<noteq> [] then
        (case List.find (\<lambda>e. ce_path e \<notin> set (map ce_path changes)) (md_completed_scope doc) of
           Some e \<Rightarrow> Inl [ScopeNotReported (boundEcho (ce_path e) 256)]
         | None \<Rightarrow> Inr (md_completed_scope doc))
      else Inr changes)"

definition remaining_entries ::
  "'s WorkService \<Rightarrow> CompleteInput \<Rightarrow> IntentSnapshot \<Rightarrow> manifestDocument \<Rightarrow> receipt_reason list + changeEntry list" where
  "remaining_entries s c intent doc =
     (if cm_remaining_paths c \<noteq> [] then bindE (resolveFlagPaths s (cm_remaining_paths c)) (\<lambda>(es, fs). Inr es)
      else if trim_space (cm_remaining_manifest_json c) \<noteq> [] then
        bindE (validateManifest s (cm_remaining_manifest_json c) (cm_dispatch_id c) (cm_run_id c) (is_resource_id intent)
          (is_external_ref intent)) (\<lambda>(es, revision, flag_doc).
          if md_remaining_scope doc \<noteq> [] \<and> \<not> sameChangeEntries es (md_remaining_scope doc) then Inl [RemainingConflict]
          else Inr (if md_is_v2 flag_doc \<and> md_remaining_scope flag_doc \<noteq> [] then md_remaining_scope flag_doc else es))
      else Inr (md_remaining_scope doc))"

definition remaining_scope ::
  "'s WorkService \<Rightarrow> CompleteInput \<Rightarrow> IntentSnapshot \<Rightarrow> manifestDocument \<Rightarrow> string \<Rightarrow> receipt_reason list + ChangeItem list" where
  "remaining_scope s c intent doc status =
     (if status \<noteq> StatusPartiallyComplete then Inr []
      else bindE (remaining_entries s c intent doc) (\<lambda>es.
        if es = [] then Inl [RemainingEmpty] else Inr (map remaining_item es)))"

section \<open>The lane's part of the dirty generation\<close>

fun filter_dirty ::
  "string \<Rightarrow> DestinationConditionSet \<Rightarrow> matcher option \<Rightarrow> DirtyChange list \<Rightarrow> work_error + DirtyChange list" where
  "filter_dirty lane conds m [] = Inr []"
| "filter_dirty lane conds m (c # cs) =
     (if dy_selected_destinations c \<noteq> [] then
        bindE (filter_dirty lane conds m cs) (\<lambda>kept. Inr (if lane \<in> set (dy_selected_destinations c) then c # kept else kept))
      else case ParseOperation (dy_operation c) of
        Inl _ \<Rightarrow> Inl (DirtyOperationUnknown (dy_path c) (dy_operation c))
      | Inr op \<Rightarrow>
          bindE (map_err (LaneNotEvaluated lane (dy_path c)) (SelectDestination
            \<lparr>sc_paths = [dy_path c], sc_operations = [Operation_str op], sc_classification = dy_classification c,
             sc_disposition = dy_disposition c\<rparr> (Some conds) m)) (\<lambda>(selected, _).
          bindE (filter_dirty lane conds m cs) (\<lambda>kept. Inr (if selected then c # kept else kept))))"

definition filterDirtyToLane :: "'s WorkService \<Rightarrow> IntentSnapshot \<Rightarrow> DirtyChange list \<Rightarrow> work_error + DirtyChange list" where
  "filterDirtyToLane s intent dirty =
     (if is_destination_id intent = [] then Inr dirty
      else case wk_lane_conditions s of
        None \<Rightarrow> Inr dirty
      | Some resolve \<Rightarrow>
          (case resolve (is_route_id intent) (is_destination_id intent) of
             Inl e \<Rightarrow> Inl (LaneConditionsUnresolved (is_destination_id intent) (is_dispatch_id intent) e)
           | Inr None \<Rightarrow> Inr dirty
           | Inr (Some conds) \<Rightarrow> filter_dirty (is_destination_id intent) conds (wk_lane_path_matcher s) dirty))"

definition lane_changes :: "'s WorkService \<Rightarrow> 's \<Rightarrow> IntentSnapshot \<Rightarrow> string \<Rightarrow> work_error + DirtyChange list" where
  "lane_changes s w intent did =
     bindE (stored (ws_load_active_generation_changes (wk_store s) w (is_route_id intent) did)) (filterDirtyToLane s intent)"

section \<open>The follow-up\<close>

definition dirtyManifest :: "DirtyChange list \<Rightarrow> string list option \<Rightarrow> ChangeItem list" where
  "dirtyManifest dirty keep =
     (let kept = filter (\<lambda>c. case keep of None \<Rightarrow> True | Some ps \<Rightarrow> dy_path c \<in> set ps) dirty;
          m = foldl (keep_latest (\<lambda>c p. dy_observed_at p \<le> dy_observed_at c)) Map.empty kept;
          item = (\<lambda>c. case ParseOperation (dy_operation c) of Inl _ \<Rightarrow> []
            | Inr op \<Rightarrow> [scope_item (dy_path c) (Operation_str op) (dy_before_digest c) (dy_after_digest c)])
      in concat (map (\<lambda>p. item (the (m p))) (sortedPaths kept)))"

definition unresolvedManifest :: "AttributionDecision option \<Rightarrow> DirtyChange list \<Rightarrow> ChangeItem list" where
  "unresolvedManifest decision dirty = dirtyManifest dirty (map_option (\<lambda>d. map pd_path (ad_unresolved d)) decision)"

definition unionScopes :: "ChangeItem list \<Rightarrow> ChangeItem list \<Rightarrow> ChangeItem list" where
  "unionScopes scope unresolved = scope @ filter (\<lambda>c. ci_path c \<notin> set (map ci_path scope)) unresolved"

definition stored_item :: "TaskManifestItem \<Rightarrow> work_error + ChangeItem" where
  "stored_item m =
     (case ParseOperation (tm_operation m) of
        Inl _ \<Rightarrow> Inl (StoredManifestOperation (tm_operation m))
      | Inr op \<Rightarrow> Inr (scope_item (tm_path m) (Operation_str op) (tm_before_digest m) (tm_after_digest m)))"

definition followup_items ::
  "ChangeItem list \<Rightarrow> AttributionDecision option \<Rightarrow> DirtyChange list \<Rightarrow> ChangeItem list \<Rightarrow> ChangeItem list" where
  "followup_items parent decision dirty remaining =
     (let unresolved = unresolvedManifest decision dirty
      in if remaining \<noteq> [] then unionScopes remaining unresolved
         else if unresolved \<noteq> [] then unresolved else parent)"

definition buildFollowup ::
  "'s WorkService \<Rightarrow> 's \<Rightarrow> IntentSnapshot \<Rightarrow> AttributionDecision option \<Rightarrow> DirtyChange list \<Rightarrow> ChangeItem list \<Rightarrow> work_error + IntentInput" where
  "buildFollowup s w original decision dirty remaining =
     bindE (map_err (\<lambda>t. FollowupNotBuilt (StoredRequestInvalid t)) (wk_decode s (is_request_json original))) (\<lambda>req.
     bindE (mapE stored_item (tn_manifest (tq_activation req))) (\<lambda>parent.
       map_err FollowupNotBuilt (BuildFollowupRequest (wk_decode s) (wk_new_ids s w) original
         (followup_items parent decision dirty remaining) (tn_flags (tq_activation req)) (wk_destination_resolver s))))"

section \<open>The completion\<close>

definition store_needs_followup :: "RouteSnapshot \<Rightarrow> ActiveCompletion \<Rightarrow> bool" where
  "store_needs_followup snap base =
     (rs_dirty_generation snap > 0 \<and> \<not> ac_dirty_suppressed base \<or> rs_pending_reconcile snap \<or> ac_remaining_work base)"

text \<open>Whether the store will take the edge that needs a follow-up.\<close>

definition builds_followup :: "RouteSnapshot \<Rightarrow> ActiveCompletion \<Rightarrow> bool" where
  "builds_followup snap base =
     ((store_needs_followup snap base \<or> ac_failed base) \<and>
      \<not> (ac_failed base \<and> ac_failure_budget_remaining base \<le> 0) \<and>
      \<not> (store_needs_followup snap base \<and> MaxConsecutiveFollowups < ac_followup_generation base))"

definition dirty_lineage :: "IntentSnapshot \<Rightarrow> RouteSnapshot \<Rightarrow> string" where
  "dirty_lineage intent snap =
     render True (JObj [(''dirty_generation'', JInt (rs_dirty_generation snap)), (''lineage_kind'', JStr ''followup''),
       (''parent_dispatch_id'', JStr (is_dispatch_id intent)), (''route_id'', JStr (is_route_id intent))])"

definition applied_result :: "WorkReceiptInput \<Rightarrow> ActiveCompletion \<Rightarrow> FollowupCreated \<Rightarrow> WorkResult" where
  "applied_result r base created =
     \<lparr>wr_receipt_id = wi_receipt_id r, wr_dispatch_id = wi_dispatch_id r, wr_run_id = wi_run_id r, wr_status = wi_status r,
      wr_route_state = RouteState_str (fu_route_to created), wr_followup_dispatch_id = fu_followup_dispatch_id created,
      wr_dirty_generation = fu_dirty_generation created, wr_failure_budget_left = ac_failure_budget_remaining base,
      wr_suppressed_paths = [], wr_self_change_suppressed = False, wr_manual_intervention = False, wr_audit_warning = None\<rparr>"

definition completion_base :: "'s WorkService \<Rightarrow> IntentSnapshot \<Rightarrow> ActiveCompletion \<Rightarrow> ActiveCompletion" where
  "completion_base s intent base =
     base\<lparr>ac_followup_request := None, ac_policy_revision := wk_policy_revision s,
       ac_followup_generation := is_generation intent + 1\<rparr>"

definition completion_request :: "ActiveCompletion \<Rightarrow> IntentInput option \<Rightarrow> string \<Rightarrow> string \<Rightarrow> ActiveCompletion" where
  "completion_request base followup lineage now =
     base\<lparr>ac_followup_request := followup, ac_dirty_lineage_json := lineage, ac_now := now\<rparr>"

definition followup_request ::
  "'s WorkService \<Rightarrow> 's \<Rightarrow> IntentSnapshot \<Rightarrow> RouteSnapshot \<Rightarrow> ActiveCompletion \<Rightarrow> AttributionDecision option \<Rightarrow> DirtyChange list \<Rightarrow>
   ChangeItem list \<Rightarrow> work_error + IntentInput option" where
  "followup_request s w intent snap base decision dirty remaining =
     (if builds_followup snap base
      then bindE (buildFollowup s w intent decision dirty remaining) (\<lambda>i. Inr (Some i)) else Inr None)"

definition applyCompletion ::
  "'s WorkService \<Rightarrow> 's \<Rightarrow> IntentSnapshot \<Rightarrow> RouteSnapshot \<Rightarrow> WorkReceiptInput \<Rightarrow> ActiveCompletion \<Rightarrow> AttributionDecision option \<Rightarrow>
   DirtyChange list \<Rightarrow> ChangeItem list \<Rightarrow> 's \<times> (work_error + WorkResult)" where
  "applyCompletion s w intent snap r base0 decision dirty remaining =
     (let base = completion_base s intent base0
      in bindS (w, followup_request s w intent snap base decision dirty remaining) (\<lambda>w followup.
         case timestamp s w of (w1, now) \<Rightarrow>
         let req = completion_request base followup (dirty_lineage intent snap) now
         in bindS (case ws_complete_work (wk_store s) w1 r req of (w2, res) \<Rightarrow> (w2, map_err WorkStoreFailed res)) (\<lambda>w2 created.
              (w2, Inr (applied_result r req created)))))"

definition completion_of :: "IntentSnapshot \<Rightarrow> RouteSnapshot \<Rightarrow> string \<Rightarrow> string \<Rightarrow> ActiveCompletion" where
  "completion_of intent snap did receipt_ref =
     \<lparr>ac_route_id = is_route_id intent, ac_dispatch_id = did, ac_failed = False, ac_failure_budget_remaining = 0,
      ac_receipt_ref = receipt_ref, ac_actor = [], ac_followup_request = None, ac_policy_revision = [],
      ac_followup_generation = 0, ac_dirty_lineage_json = [], ac_dirty_suppressed = False, ac_fence_generation = True,
      ac_expected_dirty_generation = rs_dirty_generation snap, ac_remaining_work = False, ac_now = []\<rparr>"

definition entry_json :: "changeEntry \<Rightarrow> json" where
  "entry_json e =
     JObj [(''path'', JStr (ce_path e)), (''before_digest'', case ce_before_digest e of None \<Rightarrow> JNull | Some d \<Rightarrow> JStr d),
       (''after_digest'', case ce_after_digest e of None \<Rightarrow> JNull | Some d \<Rightarrow> JStr d)]"

definition changes_json :: "changeEntry list \<Rightarrow> string" where
  "changes_json es = render True (JArr (map entry_json es))"

definition evidence_of ::
  "'s WorkService \<Rightarrow> IntentSnapshot \<Rightarrow> WorkReceiptInput \<Rightarrow> changeEntry list \<Rightarrow> bool \<Rightarrow> (string \<rightharpoonup> string \<times> bool) option \<Rightarrow> ReceiptEvidence" where
  "evidence_of s intent r changes on_disk facts =
     \<lparr>ve_receipt_id = wi_receipt_id r, ve_dispatch_id = wi_dispatch_id r, ve_run_id = wi_run_id r,
      ve_resource_id = is_resource_id intent, ve_begun_at = wi_begun_at r, ve_completed_at = wi_submitted_at r,
      ve_changes = changes, ve_on_disk_verified = on_disk, ve_outside_scope = wk_outside_scope s,
      ve_fact_digest = map_option (\<lambda>m path. case m path of None \<Rightarrow> None | Some (dig, exists) \<Rightarrow> if exists then Some dig else None) facts\<rparr>"

definition attribute ::
  "'s WorkService \<Rightarrow> 's \<Rightarrow> IntentSnapshot \<Rightarrow> WorkReceiptInput \<Rightarrow> changeEntry list \<Rightarrow> bool \<Rightarrow> DirtyChange list \<Rightarrow> AttributionDecision" where
  "attribute s w intent r changes on_disk dirty =
     (let facts = (case ws_load_path_facts (wk_store s) w (is_resource_id intent) of Inl _ \<Rightarrow> None | Inr m \<Rightarrow> Some m)
      in (Match (evidence_of s intent r changes on_disk facts) dirty)\<lparr>ad_facts_unavailable := (facts = None)\<rparr>)"

definition completed_receipt ::
  "string \<Rightarrow> string \<Rightarrow> CompleteInput \<Rightarrow> IntentSnapshot \<Rightarrow> WorkReceiptView \<Rightarrow> string \<Rightarrow> string \<Rightarrow> changeEntry list \<Rightarrow>
   ObservationChange list \<Rightarrow> changeEntry list \<Rightarrow> ChangeItem list \<Rightarrow> WorkReceiptInput" where
  "completed_receipt rid now c intent begun status revision changes facts completed remaining =
     no_receipt\<lparr>wi_receipt_id := rid, wi_dispatch_id := cm_dispatch_id c, wi_run_id := cm_run_id c,
       wi_resource_id := is_resource_id intent, wi_status := status, wi_result_revision := revision,
       wi_changes_json := changes_json changes, wi_submitted_at := now, wi_begun_at := wv_begun_at begun,
       wi_completion_only := cm_completion_only c, wi_verified_path_facts := facts,
       wi_completed_scope := workScopeOf (entriesToItems completed), wi_remaining_scope := workScopeOf remaining\<rparr>"

text \<open>The completion of an admitted receipt: attribution, the atomic completion, and the audit of the decision.\<close>

definition complete_run ::
  "'s WorkService \<Rightarrow> 's \<Rightarrow> IntentSnapshot \<Rightarrow> RouteSnapshot \<Rightarrow> WorkReceiptInput \<Rightarrow> changeEntry list \<Rightarrow> bool \<Rightarrow> ChangeItem list \<Rightarrow>
   's \<times> (work_error + WorkResult)" where
  "complete_run s w intent snap r changes on_disk remaining =
     (let did = wi_dispatch_id r; partial = (wi_status r = StatusPartiallyComplete)
      in bindS (w, lane_changes s w intent did) (\<lambda>w dirty.
         let decision = attribute s w intent r changes on_disk dirty;
             base = (completion_of intent snap did (wi_receipt_id r))
               \<lparr>ac_dirty_suppressed := ad_fully_suppressed decision \<and> \<not> partial, ac_remaining_work := partial\<rparr>
         in bindS (applyCompletion s w intent snap r base (Some decision) dirty remaining) (\<lambda>w1 out.
            case ws_audit_attribution (wk_store s) w1 (''attr-'' @ wi_receipt_id r) did (wi_submitted_at r) (ContextJSON decision) of
              (w2, audit) \<Rightarrow>
                (logEvent s w2 (if partial then ''work.partially_completed'' else ''work.completed'') did (wi_run_id r),
                 Inr (out\<lparr>wr_suppressed_paths := ad_suppressed_paths decision,
                   wr_self_change_suppressed := ad_fully_suppressed decision \<and> rs_dirty_generation snap > 0,
                   wr_audit_warning := (case audit of Inl e \<Rightarrow> Some e | Inr _ \<Rightarrow> None)\<rparr>)))))"

text \<open>What a completion is once its submission is admitted: the lineage, the change set and the outcome.\<close>

definition complete_admitted ::
  "'s WorkService \<Rightarrow> 's \<Rightarrow> CompleteInput \<Rightarrow> work_error + (IntentSnapshot \<times> RouteSnapshot) \<times>
     (changeEntry list \<times> string \<times> manifestDocument \<times> ObservationChange list \<times> bool) \<times> string \<times> string" where
  "complete_admitted s w c =
     bindE (rejected (requested_status c)) (\<lambda>requested.
     bindE (validateLineage s w (cm_dispatch_id c) (cm_run_id c) []) (\<lambda>lineage.
     bindE (rejected lineage) (\<lambda>found.
     bindE (rejected (submitted_changes s c (fst found))) (\<lambda>sub.
     bindE (rejected (effective_outcome c requested (fst sub) (fst (snd (snd sub))))) (\<lambda>outcome.
       Inr (found, sub, outcome))))))"

definition complete_submission :: "'s WorkService \<Rightarrow> 's \<Rightarrow> CompleteInput \<Rightarrow> 's \<times> (work_error + WorkResult)" where
  "complete_submission s w c =
     bindS (w, complete_admitted s w c)
         (\<lambda>w ((intent, snap), (changes, document_revision, doc, facts, on_disk), status, reason).
           let did = cm_dispatch_id c; run = cm_run_id c;
               revision = (if cm_result_revision c \<noteq> [] then cm_result_revision c else document_revision);
               blank = no_view\<lparr>wv_dispatch_id := did, wv_run_id := run, wv_status := StatusBegun\<rparr>
           in bindS (begun_receipt s w c intent (NoBegunReceipt (boundEcho run 256) (boundEcho did 256)) blank) (\<lambda>w begun.
              if status = StatusBlocked then completeBlocked s w intent snap c reason
              else bindS (w, rejected (completed_scope changes doc)) (\<lambda>w completed.
                   bindS (w, rejected (remaining_scope s c intent doc status)) (\<lambda>w remaining.
                   case receipt_id_for s w did begun of (w1, rid) \<Rightarrow> case timestamp s w1 of (w2, now) \<Rightarrow>
                     complete_run s w2 intent snap
                       (completed_receipt rid now c intent begun status revision changes facts completed remaining)
                       changes on_disk remaining))))"

definition Complete :: "'s WorkService \<Rightarrow> 's \<Rightarrow> CompleteInput \<Rightarrow> 's \<times> (work_error + WorkResult)" where
  "Complete s w c0 =
     (let c = complete_defaults c0
      in audited s (cm_dispatch_id c) (cm_run_id c) (complete_submission s w c))"

section \<open>Failure\<close>

definition failed_receipt :: "string \<Rightarrow> string \<Rightarrow> string \<Rightarrow> FailInput \<Rightarrow> IntentSnapshot \<Rightarrow> WorkReceiptInput" where
  "failed_receipt rid now begun_at c intent =
     no_receipt\<lparr>wi_receipt_id := rid, wi_dispatch_id := wf_dispatch_id c, wi_run_id := wf_run_id c,
       wi_resource_id := is_resource_id intent, wi_status := StatusFailed, wi_failure_code := wf_failure_code c,
       wi_submitted_at := now, wi_begun_at := begun_at, wi_completion_only := wf_completion_only c\<rparr>"

definition fail_admitted :: "'s WorkService \<Rightarrow> 's \<Rightarrow> FailInput \<Rightarrow> work_error + IntentSnapshot \<times> RouteSnapshot" where
  "fail_admitted s w c =
     (let shape = when_reason (wf_failure_code c \<notin> set failureCodes) (FailureCodeUnknown (wf_failure_code c)) @
            when_reason (MaxDetailBytes < length (wf_detail c)) DetailTooLong
      in bindE (validateLineage s w (wf_dispatch_id c) (wf_run_id c) []) (\<lambda>lineage.
           case lineage of
             Inl reasons \<Rightarrow> Inl (InvalidReceipt (shape @ reasons))
           | Inr found \<Rightarrow> if shape \<noteq> [] then Inl (InvalidReceipt shape) else Inr found))"

definition fail_defaults :: "FailInput \<Rightarrow> FailInput" where
  "fail_defaults c =
     (if wf_run_id c = [] \<and> wf_dispatch_id c \<noteq> []
      then c\<lparr>wf_run_id := ''run-'' @ wf_dispatch_id c, wf_completion_only := True\<rparr> else c)"

definition fail_submission :: "'s WorkService \<Rightarrow> 's \<Rightarrow> FailInput \<Rightarrow> 's \<times> (work_error + WorkResult)" where
  "fail_submission s w c =
     bindS (w, fail_admitted s w c) (\<lambda>w (intent, snap).
       let did = wf_dispatch_id c
       in case unbegun s w intent of (w1, created) \<Rightarrow>
         bindS (w1, stored (ws_load_work_receipt (wk_store s) w1 did (wf_run_id c))) (\<lambda>w1 found.
         let begun = (case found of None \<Rightarrow> no_view | Some v \<Rightarrow> v);
             begun_at = (if wv_receipt_id begun = [] then created else wv_begun_at begun)
         in case receipt_id_for s w1 did begun of (w2, rid) \<Rightarrow> case timestamp s w2 of (w3, now) \<Rightarrow>
            bindS (w3, stored (ws_failure_budget_remaining (wk_store s) w3 (is_route_id intent) (wk_failure_budget s))) (\<lambda>w3 budget.
            bindS (w3, lane_changes s w3 intent did) (\<lambda>w3 dirty.
              applyCompletion s w3 intent snap (failed_receipt rid now begun_at c intent)
                ((completion_of intent snap did rid)\<lparr>ac_failed := True, ac_failure_budget_remaining := budget, ac_actor := ''hermes-task''\<rparr>)
                None dirty []))))"

definition Fail :: "'s WorkService \<Rightarrow> 's \<Rightarrow> FailInput \<Rightarrow> 's \<times> (work_error + WorkResult)" where
  "Fail s w c0 =
     (let c = fail_defaults c0 in audited s (wf_dispatch_id c) (wf_run_id c) (fail_submission s w c))"

end
