(* ===== verification/WorkProtocol.thy ===== *)
theory WorkProtocol
  imports WorkReceipt
begin

text \<open>
  What the work-receipt service asks of its store, over the same service run in a world that keeps the
  calls it made: a rejected receipt leaves one audit row and nothing else, a dirty generation clears only by
  exact proof, and a follow-up carries every change that is not proved.
\<close>

section \<open>The calls of the service\<close>

datatype work_call =
    InsertCalled WorkReceiptInput bool
  | CompletionCalled WorkReceiptInput ActiveCompletion bool
  | BlockCalled WorkReceiptInput bool
  | AuditCalled string string string
  | AttributionCalled string

definition traced_work_store :: "'s WorkStore \<Rightarrow> ('s, work_call) recorded WorkStore" where
  "traced_work_store st = \<lparr>
     ws_load_intent = lift_read (ws_load_intent st), ws_load_intent_lane = lift_read (ws_load_intent_lane st),
     ws_load_work_receipt = lift_read (ws_load_work_receipt st),
     ws_insert_work_receipt = (\<lambda>w r. note_step (\<lambda>w. ws_insert_work_receipt st w r) (InsertCalled r \<circ> is_ok) w),
     ws_complete_work = (\<lambda>w r q. note_step (\<lambda>w. ws_complete_work st w r q) (CompletionCalled r q \<circ> is_ok) w),
     ws_block_work = (\<lambda>w r. note_step (\<lambda>w. ws_block_work st w r) (BlockCalled r \<circ> is_ok) w),
     ws_failure_budget_remaining = lift_read (ws_failure_budget_remaining st),
     ws_audit_work_receipt = (\<lambda>w tid did from to now ctx.
       (ws_audit_work_receipt st (fst w) tid did from to now ctx, snd w @ [AuditCalled did to ctx])),
     ws_load_active_generation_changes = lift_read (ws_load_active_generation_changes st),
     ws_audit_attribution = (\<lambda>w tid did now ctx. note_step (\<lambda>w. ws_audit_attribution st w tid did now ctx)
       (\<lambda>_. AttributionCalled did) w),
     ws_load_path_facts = lift_read (ws_load_path_facts st)\<rparr>"

definition traced_work :: "'s WorkService \<Rightarrow> ('s, work_call) recorded WorkService" where
  "traced_work s = \<lparr>wk_store = traced_work_store (wk_store s), wk_now = lift_step (wk_now s),
     wk_compact_now = lift_step (wk_compact_now s), wk_suffix = lift_step (wk_suffix s),
     wk_new_ids = lift_read (wk_new_ids s), wk_resolver = wk_resolver s, wk_max_hash_bytes = wk_max_hash_bytes s,
     wk_failure_budget = wk_failure_budget s, wk_outside_scope = wk_outside_scope s,
     wk_log = map_option (\<lambda>emit w event did run. (emit (fst w) event did run, snd w)) (wk_log s),
     wk_policy_revision = wk_policy_revision s, wk_destination_resolver = wk_destination_resolver s,
     wk_lane_conditions = wk_lane_conditions s, wk_lane_path_matcher = wk_lane_path_matcher s, wk_text = wk_text s,
     wk_decode = wk_decode s, wk_parse = wk_parse s\<rparr>"

lemma traced_work_simps [simp]:
  "wk_store (traced_work s) = traced_work_store (wk_store s)" "wk_text (traced_work s) = wk_text s"
  "wk_failure_budget (traced_work s) = wk_failure_budget s" "wk_resolver (traced_work s) = wk_resolver s"
  "wk_max_hash_bytes (traced_work s) = wk_max_hash_bytes s" "wk_outside_scope (traced_work s) = wk_outside_scope s"
  "wk_policy_revision (traced_work s) = wk_policy_revision s" "wk_lane_conditions (traced_work s) = wk_lane_conditions s"
  "wk_destination_resolver (traced_work s) = wk_destination_resolver s"
  "wk_lane_path_matcher (traced_work s) = wk_lane_path_matcher s" "wk_decode (traced_work s) = wk_decode s"
  "wk_parse (traced_work s) = wk_parse s"
  "ws_audit_work_receipt (traced_work_store st) w tid did from to now ctx =
     (ws_audit_work_receipt st (fst w) tid did from to now ctx, snd w @ [AuditCalled did to ctx])"
  "wk_log (traced_work s) = map_option (\<lambda>emit w event did run. (emit (fst w) event did run, snd w)) (wk_log s)"
  "wk_new_ids (traced_work s) w = wk_new_ids s (fst w)"
  "ws_load_intent (traced_work_store st) = lift_read (ws_load_intent st)"
  "ws_load_intent_lane (traced_work_store st) = lift_read (ws_load_intent_lane st)"
  "ws_load_work_receipt (traced_work_store st) = lift_read (ws_load_work_receipt st)"
  "ws_failure_budget_remaining (traced_work_store st) = lift_read (ws_failure_budget_remaining st)"
  "ws_load_active_generation_changes (traced_work_store st) = lift_read (ws_load_active_generation_changes st)"
  "ws_load_path_facts (traced_work_store st) = lift_read (ws_load_path_facts st)"
  by (simp_all add: traced_work_def traced_work_store_def lift_read_def)

text \<open>Everything that only reads is what it is without the trace.\<close>

lemma traced_reads [simp]:
  "validateManifest (traced_work s) = validateManifest s" "resolveFlagPaths (traced_work s) = resolveFlagPaths s"
  "validateLineage (traced_work s) w = validateLineage s (fst w)" "validateNewRun (traced_work s) w = validateNewRun s (fst w)"
  "filterDirtyToLane (traced_work s) = filterDirtyToLane s" "lane_changes (traced_work s) w = lane_changes s (fst w)"
  "buildFollowup (traced_work s) w = buildFollowup s (fst w)" "attribute (traced_work s) w = attribute s (fst w)"
proof -
  show "validateManifest (traced_work s) = validateManifest s" "resolveFlagPaths (traced_work s) = resolveFlagPaths s"
    "validateLineage (traced_work s) w = validateLineage s (fst w)" "validateNewRun (traced_work s) w = validateNewRun s (fst w)"
    "buildFollowup (traced_work s) w = buildFollowup s (fst w)" "attribute (traced_work s) w = attribute s (fst w)"
    unfolding fun_eq_iff validateManifest_def resolveFlagPaths_def validateLineage_def validateNewRun_def buildFollowup_def
      attribute_def evidence_of_def traced_work_simps lift_read_def by simp_all
  show f: "filterDirtyToLane (traced_work s) = filterDirtyToLane s" 
    unfolding fun_eq_iff filterDirtyToLane_def traced_work_simps by simp
  show "lane_changes (traced_work s) w = lane_changes s (fst w)" 
    unfolding fun_eq_iff lane_changes_def traced_work_simps lift_read_def f by simp
qed

lemma traced_request [simp]:
  "completion_base (traced_work s) = completion_base s" "followup_request (traced_work s) w = followup_request s (fst w)"
  unfolding fun_eq_iff completion_base_def followup_request_def traced_work_simps traced_reads by simp_all

lemma traced_admission [simp]:
  "submitted_changes (traced_work s) = submitted_changes s" "remaining_scope (traced_work s) = remaining_scope s"
  "begin_admitted (traced_work s) w = begin_admitted s (fst w)" "fail_admitted (traced_work s) w = fail_admitted s (fst w)"
  "complete_admitted (traced_work s) w = complete_admitted s (fst w)"
proof -
  show r: "submitted_changes (traced_work s) = submitted_changes s" "remaining_scope (traced_work s) = remaining_scope s"
    unfolding fun_eq_iff submitted_changes_def remaining_scope_def remaining_entries_def traced_reads by simp_all
  show "begin_admitted (traced_work s) w = begin_admitted s (fst w)" "fail_admitted (traced_work s) w = fail_admitted s (fst w)"
    "complete_admitted (traced_work s) w = complete_admitted s (fst w)"
    unfolding fun_eq_iff begin_admitted_def fail_admitted_def complete_admitted_def traced_reads r by simp_all
qed

named_theorems callless \<open>steps that make no call of the store\<close>

lemma callless_steps [callless]:
  "wk_suffix (traced_work s) w = (w1, x) \<Longrightarrow> snd w1 = snd w"
  "timestamp (traced_work s) w = (w1, t) \<Longrightarrow> snd w1 = snd w"
  "receiptID (traced_work s) w did = (w1, t) \<Longrightarrow> snd w1 = snd w"
  "receipt_id_for (traced_work s) w did begun = (w1, t) \<Longrightarrow> snd w1 = snd w"
  "unbegun (traced_work s) w intent = (w1, t) \<Longrightarrow> snd w1 = snd w"
  by (auto simp: traced_work_def timestamp_def receiptID_def receipt_id_for_def unbegun_def dest!: lift_step_eq
      split: prod.splits if_splits)

text \<open>The worlds the service reaches by its clock and its suffix source alone.\<close>

inductive ticks :: "'s WorkService \<Rightarrow> 's \<Rightarrow> 's \<Rightarrow> bool" for s where
  start: "ticks s w w"
| clock: "ticks s w w1 \<Longrightarrow> wk_now s w1 = (w2, t) \<Longrightarrow> ticks s w w2"
| compact: "ticks s w w1 \<Longrightarrow> wk_compact_now s w1 = (w2, u) \<Longrightarrow> ticks s w w2"
| suffix_source: "ticks s w w1 \<Longrightarrow> wk_suffix s w1 = (w2, u) \<Longrightarrow> ticks s w w2"

named_theorems ticking \<open>steps that are ticks\<close>

lemma tick_timestamp [ticking]: "timestamp (traced_work s) v = (v1, t) \<Longrightarrow> ticks s w (fst v) \<Longrightarrow> ticks s w (fst v1)"
  by (auto simp: traced_work_def timestamp_def lift_step_def intro: clock split: prod.splits)

lemma tick_receipt [ticking]: "receiptID (traced_work s) v did = (v1, t) \<Longrightarrow> ticks s w (fst v) \<Longrightarrow> ticks s w (fst v1)"
  by (auto simp: traced_work_def receiptID_def lift_step_def intro: compact suffix_source split: prod.splits)

lemma tick_receipt_for [ticking]:
  "receipt_id_for (traced_work s) v did begun = (v1, t) \<Longrightarrow> ticks s w (fst v) \<Longrightarrow> ticks s w (fst v1)"
  by (auto simp: receipt_id_for_def intro: tick_receipt split: if_splits)

lemma tick_begun [ticking]:
  "begun_receipt (traced_work s) v c intent missing blank = (v1, r) \<Longrightarrow> ticks s w (fst v) \<Longrightarrow> ticks s w (fst v1)"
  by (auto simp: begun_receipt_def unbegun_def intro: tick_timestamp split: sum.splits option.splits if_splits prod.splits)

lemma snd_logEvent [simp]: "snd (logEvent (traced_work s) w event did run) = snd w"
  by (simp add: logEvent_def traced_work_def split: option.split)

lemma callless_begun [callless]:
  "begun_receipt (traced_work s) w c intent missing blank = (w1, r) \<Longrightarrow> snd w1 = snd w"
  by (auto simp: begun_receipt_def dest!: callless split: sum.splits option.splits if_splits prod.splits)

lemma audit_call:
  "snd (auditInvalid (traced_work s) w did run rs) = snd w @ [AuditCalled did ''invalid'' (invalid_document s run rs)]"
  by (auto simp: auditInvalid_def invalid_document_def Let_def split: prod.splits option.splits dest!: callless)

lemma bindS_eq:
  "bindS m f = (w2, r) \<longleftrightarrow> (\<exists>w1. (\<exists>e. m = (w1, Inl e) \<and> w2 = w1 \<and> r = Inl e) \<or> (\<exists>x. m = (w1, Inr x) \<and> f w1 x = (w2, r)))"
  by (auto simp: bindS_def split: prod.splits sum.splits)


lemma audited_calls:
  assumes "audited (traced_work s) did run m = (w1, res)"
  shows "(\<exists>w rs. m = (w, Inl (InvalidReceipt rs)) \<and> res = Inl (InvalidReceipt rs) \<and> w1 = auditInvalid (traced_work s) w did run rs) \<or>
    (m = (w1, res) \<and> (\<forall>rs. res \<noteq> Inl (InvalidReceipt rs)))"
  using assms by (auto simp: audited_def split: prod.splits sum.splits work_error.splits)

section \<open>The calls of each operation\<close>

lemma store_calls [callless]:
  "ws_insert_work_receipt (traced_work_store st) w r = (w1, x) \<Longrightarrow> snd w1 = snd w @ [InsertCalled r (is_ok x)]"
  "ws_complete_work (traced_work_store st) w r q = (w1, y) \<Longrightarrow> snd w1 = snd w @ [CompletionCalled r q (is_ok y)]"
  "ws_block_work (traced_work_store st) w r = (w1, x) \<Longrightarrow> snd w1 = snd w @ [BlockCalled r (is_ok x)]"
  "ws_audit_attribution (traced_work_store st) w tid did now ctx = (w1, x) \<Longrightarrow> snd w1 = snd w @ [AttributionCalled did]"
  by (auto simp: traced_work_store_def dest: note_step_eq)

lemma stored_not_invalid: "stored r \<noteq> Inl (InvalidReceipt rs)"
  by (cases r) (simp_all add: stored_def)

lemma filter_dirty_not_invalid: "filter_dirty lane conds m cs \<noteq> Inl (InvalidReceipt rs)"
  by (induction cs) (auto simp: bindE_def map_err_def split: sum.splits prod.splits)

lemma mapE_not_invalid: "(\<And>x. f x \<noteq> Inl (InvalidReceipt rs)) \<Longrightarrow> mapE f xs \<noteq> Inl (InvalidReceipt rs)"
  by (induction xs) (auto simp: bindE_def split: sum.splits)

lemma lane_not_invalid: "lane_changes s w intent did \<noteq> Inl (InvalidReceipt rs)"
  by (auto simp: lane_changes_def filterDirtyToLane_def bindE_def stored_not_invalid filter_dirty_not_invalid
      split: sum.splits option.splits)

lemma build_not_invalid: "buildFollowup s w original decision dirty remaining \<noteq> Inl (InvalidReceipt rs)"
  using mapE_not_invalid [of stored_item rs]
  by (auto simp: buildFollowup_def bindE_def map_err_def stored_item_def split: sum.splits)

text \<open>What the completion that reaches the store looks like.\<close>

definition asks ::
  "'s WorkService \<Rightarrow> 's \<Rightarrow> IntentSnapshot \<Rightarrow> RouteSnapshot \<Rightarrow> ActiveCompletion \<Rightarrow> AttributionDecision option \<Rightarrow> DirtyChange list \<Rightarrow>
   ChangeItem list \<Rightarrow> ActiveCompletion \<Rightarrow> bool" where
  "asks s w intent snap base decision dirty remaining q \<longleftrightarrow>
     (\<exists>fo now. q = completion_request (completion_base s intent base) fo (dirty_lineage intent snap) now \<and>
      followup_request s w intent snap (completion_base s intent base) decision dirty remaining = Inr fo)"

lemma apply_called:
  assumes "applyCompletion (traced_work s) w intent snap r base decision dirty remaining = (w1, res)"
  shows "(\<forall>rs. res \<noteq> Inl (InvalidReceipt rs)) \<and> (snd w1 = snd w \<and> \<not> is_ok res \<or>
    (\<exists>q b. snd w1 = snd w @ [CompletionCalled r q b] \<and> asks s (fst w) intent snap base decision dirty remaining q))"
proof (cases "followup_request s (fst w) intent snap (completion_base s intent base) decision dirty remaining")
  case (Inl e)
  then have "w1 = w" "res = Inl e"
    using assms by (auto simp: applyCompletion_def bindS_def Let_def)
  moreover have "e \<noteq> InvalidReceipt rs" for rs
    using Inl by (auto simp: followup_request_def bindE_def build_not_invalid split: if_splits sum.splits)
  ultimately show ?thesis by (simp add: is_ok_def)
next
  case (Inr fo)
  obtain wt now where t: "timestamp (traced_work s) w = (wt, now)" by fastforce
  let ?q = "completion_request (completion_base s intent base) fo (dirty_lineage intent snap) now"
  obtain w2 y where y: "ws_complete_work (traced_work_store (wk_store s)) wt r ?q = (w2, y)" by fastforce
  have "w1 = w2" "\<forall>rs. res \<noteq> Inl (InvalidReceipt rs)"
    using assms Inr t y by (auto simp: applyCompletion_def bindS_def Let_def map_err_def split: sum.splits)
  moreover have "snd w2 = snd w @ [CompletionCalled r ?q (is_ok y)]" using t y by (auto dest!: callless)
  moreover have "asks s (fst w) intent snap base decision dirty remaining ?q" using Inr by (auto simp: asks_def)
  ultimately show ?thesis by blast
qed

text \<open>The completion a run asks for, before its follow-up is added.\<close>

definition run_base :: "IntentSnapshot \<Rightarrow> RouteSnapshot \<Rightarrow> WorkReceiptInput \<Rightarrow> AttributionDecision \<Rightarrow> ActiveCompletion" where
  "run_base intent snap r decision =
     (completion_of intent snap (wi_dispatch_id r) (wi_receipt_id r))
       \<lparr>ac_dirty_suppressed := ad_fully_suppressed decision \<and> wi_status r \<noteq> StatusPartiallyComplete,
        ac_remaining_work := (wi_status r = StatusPartiallyComplete)\<rparr>"

lemma complete_run_called:
  assumes "complete_run (traced_work s) w intent snap r changes on_disk remaining = (w1, res)"
  shows "(\<forall>rs. res \<noteq> Inl (InvalidReceipt rs)) \<and> (snd w1 = snd w \<or>
    (\<exists>q b calls dirty. lane_changes s (fst w) intent (wi_dispatch_id r) = Inr dirty \<and>
       set calls \<subseteq> {AttributionCalled (wi_dispatch_id r)} \<and> snd w1 = snd w @ CompletionCalled r q b # calls \<and>
       asks s (fst w) intent snap (run_base intent snap r (attribute s (fst w) intent r changes on_disk dirty))
         (Some (attribute s (fst w) intent r changes on_disk dirty)) dirty remaining q))"
proof (cases "lane_changes s (fst w) intent (wi_dispatch_id r)")
  case (Inl e)
  then have "e \<noteq> InvalidReceipt rs" for rs using lane_not_invalid by metis
  then show ?thesis using assms Inl by (auto simp: complete_run_def bindS_def Let_def)
next
  case (Inr dirty)
  let ?d = "attribute s (fst w) intent r changes on_disk dirty"
  obtain w2 y where y: "applyCompletion (traced_work s) w intent snap r (run_base intent snap r ?d) (Some ?d) dirty remaining = (w2, y)"
    by fastforce
  obtain w3 z where z: "ws_audit_attribution (traced_work_store (wk_store s)) w2 (''attr-'' @ wi_receipt_id r)
      (wi_dispatch_id r) (wi_submitted_at r) (ContextJSON ?d) = (w3, z)" by fastforce
  have "complete_run (traced_work s) w intent snap r changes on_disk remaining =
    (case y of Inl e \<Rightarrow> (w2, Inl e) | Inr out \<Rightarrow>
      (logEvent (traced_work s) w3 (if wi_status r = StatusPartiallyComplete then ''work.partially_completed'' else ''work.completed'')
         (wi_dispatch_id r) (wi_run_id r),
       Inr (out\<lparr>wr_suppressed_paths := ad_suppressed_paths ?d,
                wr_self_change_suppressed := ad_fully_suppressed ?d \<and> rs_dirty_generation snap > 0,
                wr_audit_warning := (case z of Inl e \<Rightarrow> Some e | Inr _ \<Rightarrow> None)\<rparr>)))"
    using Inr y z unfolding complete_run_def bindS_def Let_def run_base_def by (simp split: sum.split)
  with assms apply_called [OF y] Inr z show ?thesis
    by (auto simp: is_ok_def dest!: callless split: sum.splits)
qed


lemma blocked_called:
  assumes "completeBlocked (traced_work s) w intent snap c reason = (w1, res)"
  shows "snd w1 = snd w \<or> (\<forall>rs. res \<noteq> Inl (InvalidReceipt rs)) \<and> (\<exists>r b. snd w1 = snd w @ [BlockCalled r b])"
  using assms
  by (auto simp: completeBlocked_def Let_def bindS_def stored_not_invalid dest!: callless split: prod.splits sum.splits)

lemma begin_called:
  assumes "begin_submission (traced_work s) w i = (w1, res)"
  shows "snd w1 = snd w \<or> (\<forall>rs. res \<noteq> Inl (InvalidReceipt rs)) \<and> (\<exists>r b. snd w1 = snd w @ [InsertCalled r b])"
  using assms
  by (auto simp: begin_submission_def Let_def bindS_def dest!: callless split: prod.splits sum.splits)
    (metis stored_not_invalid)+


text \<open>What the calls of a completion say of its submission.\<close>

definition known_facts :: "'s WorkService \<Rightarrow> 's \<Rightarrow> IntentSnapshot \<Rightarrow> (string \<rightharpoonup> string \<times> bool) option" where
  "known_facts s w intent = (case ws_load_path_facts (wk_store s) w (is_resource_id intent) of Inl _ \<Rightarrow> None | Inr m \<Rightarrow> Some m)"

text \<open>The start of the run's window: the begun receipt of the run, or without one the creation of the dispatch.\<close>

definition window_of :: "'s WorkService \<Rightarrow> 's \<Rightarrow> CompleteInput \<Rightarrow> IntentSnapshot \<Rightarrow> string \<Rightarrow> bool" where
  "window_of s w c intent begun \<longleftrightarrow>
     (case ws_load_work_receipt (wk_store s) w (cm_dispatch_id c) (cm_run_id c) of
        Inl e \<Rightarrow> False
      | Inr (Some v) \<Rightarrow> begun = wv_begun_at v
      | Inr None \<Rightarrow> cm_completion_only c \<and> (is_created_at intent \<noteq> [] \<longrightarrow> begun = is_created_at intent))"

lemma begun_window:
  assumes "begun_receipt (traced_work s) w c intent missing blank = (w1, Inr view)"
  shows "window_of s (fst w) c intent (wv_begun_at view)"
  using assms by (auto simp: begun_receipt_def window_of_def unbegun_def lift_read_def split: sum.splits option.splits if_splits prod.splits)

definition completes :: "'s WorkService \<Rightarrow> 's \<Rightarrow> CompleteInput \<Rightarrow> work_call list \<Rightarrow> bool" where
  "completes s w c calls \<longleftrightarrow>
     (\<exists>intent snap changes version doc facts on_disk status reason completed remaining rid now begun revision w' dirty r d q b rest.
        r = completed_receipt rid now c intent begun status revision changes facts completed remaining \<and>
        d = attribute s w' intent r changes on_disk dirty \<and>
        complete_admitted s w c = Inr ((intent, snap), (changes, version, doc, facts, on_disk), status, reason) \<and>
        status \<noteq> StatusBlocked \<and> window_of s w c intent (wv_begun_at begun) \<and> ticks s w w' \<and> remaining_scope s c intent doc status = Inr remaining \<and>
        lane_changes s w' intent (cm_dispatch_id c) = Inr dirty \<and> calls = CompletionCalled r q b # rest \<and>
        set rest \<subseteq> {AttributionCalled (cm_dispatch_id c)} \<and>
        asks s w' intent snap (run_base intent snap r d) (Some d) dirty remaining q)"

lemma bindS_Inr: "bindS (w, Inr x) f = f w x"
  by (simp add: bindS_def)

lemma rejected_scopes:
  "bindS (w, rejected m) f = (w1, res) \<Longrightarrow>
     (\<exists>rs. m = Inl rs \<and> w1 = w \<and> res = Inl (InvalidReceipt rs)) \<or> (\<exists>x. m = Inr x \<and> f w x = (w1, res))"
  by (auto simp: bindS_def rejected_def map_err_def split: sum.splits)

lemma receipt_dispatch [simp]:
  "wi_dispatch_id (completed_receipt rid now c intent begun status revision changes facts completed remaining) = cm_dispatch_id c"
  "wi_status (completed_receipt rid now c intent begun status revision changes facts completed remaining) = status"
  by (simp_all add: completed_receipt_def)

lemma completion_called:
  assumes "complete_submission (traced_work s) w c = (w1, res)"
  shows "snd w1 = snd w \<or> (\<forall>rs. res \<noteq> Inl (InvalidReceipt rs)) \<and>
    ((\<exists>r b. snd w1 = snd w @ [BlockCalled r b]) \<or> (\<exists>calls. snd w1 = snd w @ calls \<and> completes s (fst w) c calls))"
proof (cases "complete_admitted s (fst w) c")
  case (Inl e)
  then show ?thesis using assms by (auto simp: complete_submission_def bindS_def)
next
  case (Inr found)
  obtain intent snap changes rev doc facts on_disk status reason
    where f: "found = ((intent, snap), (changes, rev, doc, facts, on_disk), status, reason)"
    by (metis prod.collapse)
  note ad = Inr [unfolded f]
  let ?did = "cm_dispatch_id c"
  let ?run = "cm_run_id c"
  let ?revision = "if cm_result_revision c \<noteq> [] then cm_result_revision c else rev"
  obtain wb begun where b: "begun_receipt (traced_work s) w c intent (NoBegunReceipt (boundEcho ?run 256) (boundEcho ?did 256))
      (no_view\<lparr>wv_dispatch_id := ?did, wv_run_id := ?run, wv_status := StatusBegun\<rparr>) = (wb, begun)" by fastforce
  from b have wb: "snd wb = snd w" by (rule callless)
  from b have kb: "ticks s (fst w) (fst wb)" by (rule ticking) (rule start)
  show ?thesis
  proof (cases begun)
    case (Inl e)
    then show ?thesis using assms Inr f b wb by (auto simp: complete_submission_def bindS_def Let_def)
  next
    case (Inr view)
    from assms \<open>complete_admitted s (fst w) c = Inr found\<close> f b Inr
    have m: "(if status = StatusBlocked then completeBlocked (traced_work s) wb intent snap c reason
        else bindS (wb, rejected (completed_scope changes doc)) (\<lambda>w completed.
          bindS (w, rejected (remaining_scope s c intent doc status)) (\<lambda>w remaining.
            case receipt_id_for (traced_work s) w ?did view of (w1, rid) \<Rightarrow> case timestamp (traced_work s) w1 of (w2, now) \<Rightarrow>
              complete_run (traced_work s) w2 intent snap
                (completed_receipt rid now c intent view status ?revision changes facts completed remaining)
                changes on_disk remaining))) = (w1, res)"
      by (simp add: complete_submission_def bindS_Inr Let_def cong: if_cong split del: if_split)
    show ?thesis
    proof (cases "status = StatusBlocked")
      case True
      with m have "completeBlocked (traced_work s) wb intent snap c reason = (w1, res)" by simp
      from blocked_called [OF this] wb show ?thesis by auto
    next
      case False
      note m = m [unfolded if_not_P [OF False]]
      from rejected_scopes [OF m] show ?thesis
      proof (elim disjE exE conjE)
        fix completed
        assume c1: "completed_scope changes doc = Inr completed" and m1: "bindS (wb, rejected (remaining_scope s c intent doc status)) (\<lambda>w remaining.
            case receipt_id_for (traced_work s) w ?did view of (w1, rid) \<Rightarrow> case timestamp (traced_work s) w1 of (w2, now) \<Rightarrow>
              complete_run (traced_work s) w2 intent snap
                (completed_receipt rid now c intent view status ?revision changes facts completed remaining)
                changes on_disk remaining) = (w1, res)"
        from rejected_scopes [OF m1] show ?thesis
        proof (elim disjE exE conjE)
          fix remaining
          assume r1: "remaining_scope s c intent doc status = Inr remaining"
            and m2: "(case receipt_id_for (traced_work s) wb ?did view of (w1, rid) \<Rightarrow> case timestamp (traced_work s) w1 of (w2, now) \<Rightarrow>
              complete_run (traced_work s) w2 intent snap
                (completed_receipt rid now c intent view status ?revision changes facts completed remaining)
                changes on_disk remaining) = (w1, res)"
          obtain wi rid where i: "receipt_id_for (traced_work s) wb ?did view = (wi, rid)" by fastforce
          obtain wt now where t: "timestamp (traced_work s) wi = (wt, now)" by fastforce
          from i t wb have wt: "snd wt = snd w" by (auto dest!: callless)
          have kt: "ticks s (fst w) (fst wt)" by (rule tick_timestamp [OF t tick_receipt_for [OF i kb]])
          have wn: "window_of s (fst w) c intent (wv_begun_at view)"
            using b \<open>begun = Inr view\<close> by (blast intro: begun_window)
          let ?r = "completed_receipt rid now c intent view status ?revision changes facts completed remaining"
          from m2 i t have "complete_run (traced_work s) wt intent snap ?r changes on_disk remaining = (w1, res)" by simp
          from complete_run_called [OF this] wt
          have "snd w1 = snd w \<or> (\<forall>rs. res \<noteq> Inl (InvalidReceipt rs)) \<and> (\<exists>q b rest dirty.
              lane_changes s (fst wt) intent ?did = Inr dirty \<and> set rest \<subseteq> {AttributionCalled ?did} \<and>
              snd w1 = snd w @ CompletionCalled ?r q b # rest \<and>
              asks s (fst wt) intent snap (run_base intent snap ?r (attribute s (fst wt) intent ?r changes on_disk dirty))
                (Some (attribute s (fst wt) intent ?r changes on_disk dirty)) dirty remaining q)"
            by auto
          moreover have "completes s (fst w) c (CompletionCalled ?r q b # rest)"
            if "lane_changes s (fst wt) intent ?did = Inr dirty" "set rest \<subseteq> {AttributionCalled ?did}"
              "asks s (fst wt) intent snap (run_base intent snap ?r (attribute s (fst wt) intent ?r changes on_disk dirty))
                (Some (attribute s (fst wt) intent ?r changes on_disk dirty)) dirty remaining q" for q b rest dirty
            unfolding completes_def
            by (intro exI conjI) (rule refl, rule refl, rule ad, rule False, rule wn, rule kt, rule r1, rule that(1), rule refl, rule that(2), rule that(3))
          ultimately show ?thesis by blast
        qed (use wb in simp)
      qed (use wb in simp)
    qed
  qed
qed

lemma fail_called:
  assumes "fail_submission (traced_work s) w c = (w1, res)"
  shows "snd w1 = snd w \<or> (\<forall>rs. res \<noteq> Inl (InvalidReceipt rs)) \<and>
    (\<exists>r q b. snd w1 = snd w @ [CompletionCalled r q b] \<and> ac_failed q \<and> \<not> ac_dirty_suppressed q)"
proof -
  have a: "ac_failed q \<and> \<not> ac_dirty_suppressed q"
    if "asks s w intent snap (completion_of intent snap did rid\<lparr>ac_failed := True, ac_failure_budget_remaining := budget,
      ac_actor := ''hermes-task''\<rparr>) None dirty [] q" for w intent snap did rid budget dirty q
    using that by (auto simp: asks_def completion_request_def completion_base_def completion_of_def)
  show ?thesis using assms unfolding fail_submission_def Let_def
    by (auto simp: bindS_def lift_read_def dest!: callless apply_called split: prod.splits sum.splits dest: a)
qed


section \<open>What the follow-up carries\<close>

definition last_of :: "string \<Rightarrow> DirtyChange list \<Rightarrow> DirtyChange" where
  "last_of p dirty = last (filter (\<lambda>c. dy_path c = p) dirty)"

lemma last_of_in: "p \<in> dy_path ` set dirty \<Longrightarrow> last_of p dirty \<in> set dirty \<and> dy_path (last_of p dirty) = p"
  using last_in_set [of "filter (\<lambda>c. dy_path c = p) dirty"] by (auto simp: last_of_def filter_empty_conv)

lemma unresolved_or_proved:
  assumes "sorted (map dy_observed_at dirty)" and "p \<in> dy_path ` set dirty"
  shows "p \<in> set (map pd_path (ad_unresolved (Match r dirty))) \<or>
    (\<exists>e. receiptByPath (ve_changes r) p = Some e \<and> proves r e (last_of p dirty))"
proof -
  from assms(2) have ne: "filter (\<lambda>c. dy_path c = p) dirty \<noteq> []" by (auto simp: filter_empty_conv)
  have l: "the (latest dirty p) = last_of p dirty" using latest_sorted [OF assms(1) ne] by (simp add: last_of_def)
  let ?d = "observed_decision r (last_of p dirty)"
  have pd: "pd_path ?d = p" using last_of_in [OF assms(2)] by (simp add: observed_decision_def split: prod.split)
  show ?thesis
  proof (cases "pd_outcome ?d = OutcomeSuppressed")
    case True
    then show ?thesis using last_of_in [OF assms(2)] by (auto simp: observed_verified_iff)
  next
    case False
    then have "?d \<in> set (ad_unresolved (Match r dirty))"
      using assms(2) l by (force simp: Match_def Let_def sortedPaths_def)
    then show ?thesis using pd by (metis image_eqI set_map)
  qed
qed

lemma dirtyManifest_covers:
  assumes "sorted (map dy_observed_at dirty)" and "p \<in> dy_path ` set dirty" and "p \<in> set keep"
    and "ParseOperation (dy_operation (last_of p dirty)) = Inr op"
  shows "scope_item p (Operation_str op) (dy_before_digest (last_of p dirty)) (dy_after_digest (last_of p dirty)) \<in>
    set (dirtyManifest dirty (Some keep))"
proof -
  let ?kept = "filter (\<lambda>c. dy_path c \<in> set keep) dirty"
  have f: "filter (\<lambda>c. dy_path c = p) ?kept = filter (\<lambda>c. dy_path c = p) dirty"
    using assms(3) by (auto intro!: filter_cong simp: filter_filter)
  have "sorted_wrt (\<lambda>c d. dy_observed_at c \<le> dy_observed_at d) ?kept"
    using in_time_order(2) [OF assms(1)] by (rule sorted_wrt_filter)
  from keep_latest_last [OF this, of Map.empty p]
  have "foldl (keep_latest (\<lambda>c p. dy_observed_at p \<le> dy_observed_at c)) Map.empty ?kept p = Some (last_of p dirty)"
    using assms(2) unfolding f by (auto simp: last_of_def filter_empty_conv split: list.splits)
  moreover have "p \<in> set (sortedPaths ?kept)" using assms(2,3) by (auto simp: sortedPaths_def)
  ultimately show ?thesis
    using assms(4) last_of_in [OF assms(2)] by (force simp: dirtyManifest_def Let_def)
qed

lemma union_covers:
  "x \<in> set a \<Longrightarrow> x \<in> set (unionScopes a b)"
  "x \<in> set b \<Longrightarrow> ci_path x \<in> ci_path ` set a \<or> x \<in> set (unionScopes a b)"
  by (auto simp: unionScopes_def)

text \<open>Every remaining item is carried, and every unresolved item whose path is not one of theirs.\<close>

lemma followup_items_cover:
  "x \<in> set remaining \<Longrightarrow> x \<in> set (followup_items parent decision dirty remaining)"
  "x \<in> set (unresolvedManifest decision dirty) \<Longrightarrow>
     ci_path x \<in> ci_path ` set remaining \<or> x \<in> set (followup_items parent decision dirty remaining)"
  using union_covers by (auto simp: followup_items_def Let_def)

lemma buildFollowup_items:
  assumes "buildFollowup s w original decision dirty remaining = Inr i"
  obtains parent where "in_manifest_digest i = ManifestDigest (followup_items parent decision dirty remaining)"
    and "in_generation i = is_generation original + 1"
proof -
  from assms obtain parent and req :: TaskRequest
    where "BuildFollowupRequest (wk_decode s) (wk_new_ids s w) original (followup_items parent decision dirty remaining)
      (tn_flags (tq_activation req)) (wk_destination_resolver s) = Inr i"
    unfolding buildFollowup_def bindE_Inr_iff map_err_Inr_iff by blast
  then show thesis by (rule BuildFollowupRequest_parts) (rule that)
qed


section \<open>Properties\<close>

lemma Complete_completes:
  assumes "Complete (traced_work s) (w, []) c = ((w1, calls), res)" and "CompletionCalled r q ok \<in> set calls"
  shows "completes s w (complete_defaults c) calls"
proof -
  let ?c = "complete_defaults c"
  obtain w2 m where m: "complete_submission (traced_work s) (w, []) ?c = (w2, m)" by fastforce
  from assms(1) have "audited (traced_work s) (cm_dispatch_id ?c) (cm_run_id ?c) (w2, m) = ((w1, calls), res)"
    by (simp add: Complete_def Let_def m)
  from audited_calls [OF this] consider (invalid) rs where "m = Inl (InvalidReceipt rs)"
      "(w1, calls) = auditInvalid (traced_work s) w2 (cm_dispatch_id ?c) (cm_run_id ?c) rs"
    | (other) "w2 = (w1, calls)" by auto
  then show ?thesis
  proof cases
    case invalid
    then have "snd w2 = []" using completion_called [OF m] by auto
    with invalid(2) audit_call [of s w2] have "calls = [AuditCalled (cm_dispatch_id ?c) ''invalid'' (invalid_document s (cm_run_id ?c) rs)]"
      by (metis append_Nil snd_conv)
    with assms(2) show ?thesis by simp
  next
    case other
    with completion_called [OF m] assms(2) show ?thesis by auto
  qed
qed

text \<open>an invalid receipt is audited and rejected, never applied (FBK-002, FBK-003). When begin, complete or fail
  rejects a submission, the only call it made on its store is the one audit row that records the bounded reasons
  under the dispatch: no receipt is written, no lane is completed and nothing is scheduled.\<close>

theorem rejected_receipt_is_only_audited:
  "(Begin (traced_work s) (w, []) i = ((w1, calls), Inl (InvalidReceipt rs)) \<longrightarrow>
      calls = [AuditCalled (bg_dispatch_id i) ''invalid'' (invalid_document s (bg_run_id i) rs)]) \<and>
   (Complete (traced_work s) (w, []) c = ((w1, calls), Inl (InvalidReceipt rs)) \<longrightarrow>
      calls = [AuditCalled (cm_dispatch_id c) ''invalid'' (invalid_document s (cm_run_id (complete_defaults c)) rs)]) \<and>
   (Fail (traced_work s) (w, []) f = ((w1, calls), Inl (InvalidReceipt rs)) \<longrightarrow>
      calls = [AuditCalled (wf_dispatch_id f) ''invalid'' (invalid_document s (wf_run_id (fail_defaults f)) rs)])"
proof -
  have a: "calls = [AuditCalled did ''invalid'' (invalid_document s run rs)]"
    if "audited (traced_work s) did run m = ((w1, calls), Inl (InvalidReceipt rs))"
      and "snd (fst m) = [] \<or> (\<forall>rs. snd m \<noteq> Inl (InvalidReceipt rs))"
    for did run and m :: "('a \<times> work_call list) \<times> (work_error + WorkResult)"
    using audited_calls [OF that(1)] that(2) audit_call [of s _ did run rs] by (auto simp: prod_eq_iff)
  have "cm_dispatch_id (complete_defaults c) = cm_dispatch_id c" "wf_dispatch_id (fail_defaults f) = wf_dispatch_id f"
    by (simp_all add: complete_defaults_def fail_defaults_def Let_def)
  moreover have "snd (fst (begin_submission (traced_work s) (w, []) i)) = [] \<or>
      (\<forall>rs. snd (begin_submission (traced_work s) (w, []) i) \<noteq> Inl (InvalidReceipt rs))"
    using begin_called [of s "(w, [])" i] by (metis prod.collapse snd_conv)
  moreover have "snd (fst (complete_submission (traced_work s) (w, []) x)) = [] \<or>
      (\<forall>rs. snd (complete_submission (traced_work s) (w, []) x) \<noteq> Inl (InvalidReceipt rs))" for x
    using completion_called [of s "(w, [])" x] by (metis prod.collapse snd_conv)
  moreover have "snd (fst (fail_submission (traced_work s) (w, []) x)) = [] \<or>
      (\<forall>rs. snd (fail_submission (traced_work s) (w, []) x) \<noteq> Inl (InvalidReceipt rs))" for x
    using fail_called [of s "(w, [])" x] by (metis prod.collapse snd_conv)
  ultimately show ?thesis using a by (simp add: Begin_def Complete_def Fail_def Let_def)
qed

lemma reject_unless_Inr: "reject_unless rs x = Inr y \<longleftrightarrow> rs = [] \<and> y = x"
  by (auto simp: reject_unless_def)

lemma rejected_Inr: "rejected m = Inr x \<longleftrightarrow> m = Inr x"
  by (simp add: rejected_def map_err_Inr_iff)

lemma outcome_of_document:
  assumes "validateManifest s raw did run resource external = Inr (es, version, doc)" and "md_is_v2 doc"
  shows "md_status doc \<in> {StatusCompleted, StatusPartiallyComplete, StatusBlocked}"
proof -
  from assms obtain d where d: "doc = document_of d" and r: "doc_reasons did run resource external d = []"
    by (auto simp: validateManifest_def Let_def bindE_Inr_iff reject_unless_Inr no_document_def
        split: if_splits sum.splits prod.splits)
  from r have "rd_schema_version d \<noteq> Some SchemaVersion \<or> rd_status d \<noteq> None \<and>
      ParseWorkStatus (optional (rd_status d)) \<in> {Inr WorkCompleted, Inr WorkPartiallyComplete, Inr WorkBlocked}"
    by (auto simp: doc_reasons_def Let_def when_reason_def split: if_splits)
  then show ?thesis using assms(2) by (auto simp: d document_of_def workStatus.parse_iff)
qed

lemma admitted_lineage:
  assumes "complete_admitted s w c = Inr (found, sub, outcome)"
  shows "validateLineage s w (cm_dispatch_id c) (cm_run_id c) [] = Inr (Inr found)"
    and "submitted_changes s c (fst found) = Inr sub"
    and "fst outcome \<in> {StatusCompleted, StatusPartiallyComplete, StatusBlocked}"
proof -
  from assms obtain requested where q: "requested_status c = Inr requested"
    and l: "validateLineage s w (cm_dispatch_id c) (cm_run_id c) [] = Inr (Inr found)"
    and m: "submitted_changes s c (fst found) = Inr sub"
    and e: "effective_outcome c requested (fst sub) (fst (snd (snd sub))) = Inr outcome"
    by (auto simp: complete_admitted_def bindE_Inr_iff rejected_Inr)
  show "validateLineage s w (cm_dispatch_id c) (cm_run_id c) [] = Inr (Inr found)" "submitted_changes s c (fst found) = Inr sub"
    by (fact l m)+
  have "requested \<in> {StatusCompleted, StatusPartiallyComplete, StatusBlocked}"
  proof -
    from q have "is_ok (ParseWorkStatus requested)" "requested \<noteq> StatusBegun" "requested \<noteq> StatusFailed"
      by (auto simp: requested_status_def Let_def split: if_splits)
    then obtain v where "requested = WorkStatus_str v" by (auto simp: is_ok_iff workStatus.parse_iff)
    with \<open>requested \<noteq> StatusBegun\<close> \<open>requested \<noteq> StatusFailed\<close> show ?thesis by (cases v) auto
  qed
  moreover have "md_is_v2 (fst (snd (snd sub))) \<Longrightarrow>
      md_status (fst (snd (snd sub))) \<in> {StatusCompleted, StatusPartiallyComplete, StatusBlocked}"
    using m outcome_of_document
    by (fastforce simp: submitted_changes_def bindE_Inr_iff no_document_def split: if_splits)
  ultimately show "fst outcome \<in> {StatusCompleted, StatusPartiallyComplete, StatusBlocked}"
    using e by (auto simp: effective_outcome_def Let_def reject_unless_Inr split: if_splits)
qed


lemma attribute_match:
  "ad_fully_suppressed (attribute s w intent r changes on_disk dirty) =
     ad_fully_suppressed (Match (evidence_of s intent r changes on_disk (known_facts s w intent)) dirty)"
  "ad_unresolved (attribute s w intent r changes on_disk dirty) =
     ad_unresolved (Match (evidence_of s intent r changes on_disk (known_facts s w intent)) dirty)"
  by (simp_all add: attribute_def Let_def known_facts_def)

lemma request_sel:
  assumes "asks s w intent snap (run_base intent snap r d) decision dirty remaining q"
  shows "ac_dirty_suppressed q = (ad_fully_suppressed d \<and> wi_status r \<noteq> StatusPartiallyComplete)"
    and "ac_fence_generation q" and "ac_expected_dirty_generation q = rs_dirty_generation snap"
    and "ac_remaining_work q = (wi_status r = StatusPartiallyComplete)" and "\<not> ac_failed q"
    and "ac_followup_request q = Some i \<Longrightarrow> buildFollowup s w intent decision dirty remaining = Inr i"
  using assms by (auto simp: asks_def completion_request_def completion_base_def run_base_def completion_of_def
      followup_request_def bindE_Inr_iff split: if_splits)

text \<open>C38: a dirty generation clears only by exact proof (FBK-002, FBK-004, AC-404). When a completion asks the store to
  clear its lane as fully suppressed, the dispatch held its lane, the outcome is completed, the request is fenced
  with the generation that was read, and the matcher verified every change the store returned for this lane, in a world
  only the clock and the suffix source moved, against exactly the submitted entries and the path facts the store
  returned, in the window that opens at the begun receipt (or at the creation of the dispatch without one). Digests count as hashed
  on disk only when the paths were given on the command line.\<close>

theorem dirt_clears_only_by_proof:
  assumes "Complete (traced_work s) (w, []) c = ((w1, calls), res)"
    and "CompletionCalled r q ok \<in> set calls" and "ac_dirty_suppressed q"
  shows "\<exists>intent snap changes version doc facts on_disk w' dirty.
    validateLineage s w (cm_dispatch_id c) (cm_run_id (complete_defaults c)) [] = Inr (Inr (intent, snap)) \<and>
    submitted_changes s (complete_defaults c) intent = Inr (changes, version, doc, facts, on_disk) \<and>
    wi_status r = StatusCompleted \<and> ac_fence_generation q \<and> ac_expected_dirty_generation q = rs_dirty_generation snap \<and>
    window_of s w (complete_defaults c) intent (wi_begun_at r) \<and>
    ticks s w w' \<and> lane_changes s w' intent (cm_dispatch_id c) = Inr dirty \<and>
    ad_fully_suppressed (Match (evidence_of s intent r changes on_disk (known_facts s w' intent)) dirty) \<and>
    (on_disk \<longrightarrow> cm_paths c \<noteq> [] \<or> cm_no_changes c)"
proof -
  have c: "cm_dispatch_id (complete_defaults c) = cm_dispatch_id c" "cm_paths (complete_defaults c) = cm_paths c"
    "cm_no_changes (complete_defaults c) = cm_no_changes c" by (simp_all add: complete_defaults_def Let_def)
  from Complete_completes [OF assms(1,2)] obtain intent snap changes version doc facts on_disk status reason completed
      remaining rid now begun revision w' dirty r' d q' b rest where
    r': "r' = completed_receipt rid now (complete_defaults c) intent begun status revision changes facts completed remaining"
    and d: "d = attribute s w' intent r' changes on_disk dirty"
    and a: "complete_admitted s w (complete_defaults c) = Inr ((intent, snap), (changes, version, doc, facts, on_disk), status, reason)"
    and st: "status \<noteq> StatusBlocked" and wn: "window_of s w (complete_defaults c) intent (wv_begun_at begun)" and k: "ticks s w w'"
    and l: "lane_changes s w' intent (cm_dispatch_id c) = Inr dirty" and calls: "calls = CompletionCalled r' q' b # rest"
    and rest: "set rest \<subseteq> {AttributionCalled (cm_dispatch_id c)}"
    and q': "asks s w' intent snap (run_base intent snap r' d) (Some d) dirty remaining q'"
    unfolding completes_def c by (elim exE conjE) (rule that; assumption)
  from assms(2) calls rest have e: "r = r'" "q = q'" by auto
  note s = admitted_lineage [OF a]
  note m = request_sel [OF q']
  have "wi_status r = StatusCompleted" using s(3) st m(1) assms(3) e by (auto simp: r')
  moreover have "on_disk \<longrightarrow> cm_paths c \<noteq> [] \<or> cm_no_changes c"
    using s(2) by (auto simp: submitted_changes_def c bindE_Inr_iff split: if_splits)
  moreover have "ad_fully_suppressed (Match (evidence_of s intent r changes on_disk (known_facts s w' intent)) dirty)"
    using m(1) assms(3) e by (simp add: d attribute_match)
  moreover have "window_of s w (complete_defaults c) intent (wi_begun_at r)" using wn e by (simp add: r' completed_receipt_def)
  ultimately show ?thesis using s(1) [unfolded c] s(2) k l m(2,3) e(2) by (metis fst_conv)
qed


lemma evidence_changes: "ve_changes (evidence_of s intent r changes on_disk facts) = changes"
  by (simp add: evidence_of_def)

text \<open>A path of the generation is proved by its entry, named in the remaining scope, or carried with its last observation.\<close>

lemma proved_or_carried:
  assumes sorted: "sorted (map dy_observed_at dirty)" and ops: "\<forall>d\<in>set dirty. is_ok (ParseOperation (dy_operation d))"
    and p: "p \<in> dy_path ` set dirty"
    and ev_def: "ev = evidence_of s intent r changes on_disk (known_facts s w intent)"
  shows "(\<exists>e. receiptByPath (ve_changes ev) p = Some e \<and> proves ev e (last_of p dirty)) \<or> p \<in> ci_path ` set remaining \<or>
    (\<exists>y\<in>set (followup_items parent (Some (attribute s w intent r changes on_disk dirty)) dirty remaining).
       ci_path y = p \<and> ci_operation y = dy_operation (last_of p dirty) \<and> ci_after_digest y = dy_after_digest (last_of p dirty))"
proof -
  let ?c = "last_of p dirty"
  let ?d = "attribute s w intent r changes on_disk dirty"
  from ops last_of_in [OF p] obtain op where op: "ParseOperation (dy_operation ?c) = Inr op" by (auto simp: is_ok_iff)
  then have o: "Operation_str op = dy_operation ?c" by (simp add: operation.parse_iff)
  let ?x = "scope_item p (Operation_str op) (dy_before_digest ?c) (dy_after_digest ?c)"
  have x: "ci_path ?x = p" "ci_operation ?x = dy_operation ?c" "ci_after_digest ?x = dy_after_digest ?c"
    by (simp_all add: scope_item_def o)
  from unresolved_or_proved [OF sorted p, of ev] show ?thesis
  proof
    assume "p \<in> set (map pd_path (ad_unresolved (Match ev dirty)))"
    then have "?x \<in> set (unresolvedManifest (Some ?d) dirty)"
      using dirtyManifest_covers [OF sorted p _ op] by (simp add: unresolvedManifest_def attribute_match(2) ev_def)
    from followup_items_cover(2) [OF this, of remaining parent] x show ?thesis by auto
  qed blast
qed


section \<open>A run over a small store\<close>

definition toy_digest :: "char \<Rightarrow> string" where
  "toy_digest c = ''sha256:'' @ replicate 64 c"

definition toy_dirty :: "string \<Rightarrow> char \<Rightarrow> string \<Rightarrow> DirtyChange" where
  "toy_dirty path c t = sample_dirty path (toy_digest c) t"

text \<open>The run wrote \<open>a.md\<close> twice; in the second store someone else wrote \<open>b.md\<close> meanwhile.\<close>

definition own_dirty :: "DirtyChange list" where
  "own_dirty = [toy_dirty ''a.md'' (CHR ''1'') ''2026-01-01T00:01:00Z'', toy_dirty ''a.md'' (CHR ''2'') ''2026-01-01T00:02:00Z'']"

definition foreign_dirty :: "DirtyChange list" where
  "foreign_dirty = own_dirty @ [toy_dirty ''b.md'' (CHR ''3'') ''2026-01-01T00:03:00Z'']"

definition toy_lane :: RouteSnapshot where
  "toy_lane = \<lparr>rs_route_id = ''r'', rs_activation_state = ''enabled'', rs_state = RouteActiveDirty, rs_active_dispatch_id = ''one'',
     rs_dirty_generation = 1, rs_pending_reconcile = False, rs_acknowledged_revision = [], rs_capability_fingerprint = [],
     rs_failure_budget = 0\<rparr>"

definition toy_begun :: WorkReceiptView where
  "toy_begun = no_view\<lparr>wv_receipt_id := ''rcpt'', wv_dispatch_id := ''one'', wv_run_id := ''run'', wv_status := StatusBegun,
     wv_begun_at := ''2026-01-01T00:00:00Z''\<rparr>"

definition toy_created :: FollowupCreated where
  "toy_created = \<lparr>fu_route_to = RouteIdle, fu_followup_dispatch_id = [], fu_dirty_generation = 0\<rparr>"

definition toy_store :: "DirtyChange list \<Rightarrow> unit WorkStore" where
  "toy_store dirty = \<lparr>ws_load_intent = (\<lambda>w did. Inr (stored_snapshot 1)), ws_load_intent_lane = (\<lambda>w did. Inr toy_lane),
     ws_load_work_receipt = (\<lambda>w did run. Inr (Some toy_begun)), ws_insert_work_receipt = (\<lambda>w r. (w, Inr ())),
     ws_complete_work = (\<lambda>w r q. (w, Inr toy_created)), ws_block_work = (\<lambda>w r. (w, Inr ())),
     ws_failure_budget_remaining = (\<lambda>w route n. Inr n), ws_audit_work_receipt = (\<lambda>w tid did from to now ctx. w),
     ws_load_active_generation_changes = (\<lambda>w route did. Inr dirty), ws_audit_attribution = (\<lambda>w tid did now ctx. (w, Inr ())),
     ws_load_path_facts = (\<lambda>w resource. Inr Map.empty)\<rparr>"

definition toy_service :: "DirtyChange list \<Rightarrow> unit WorkService" where
  "toy_service dirty = \<lparr>wk_store = toy_store dirty, wk_now = (\<lambda>w. (w, 0)), wk_compact_now = (\<lambda>w. (w, [])),
     wk_suffix = (\<lambda>w. (w, [])), wk_new_ids = (\<lambda>w. (Inr ''two'', Inr ''agg'')), wk_resolver = None, wk_max_hash_bytes = 0,
     wk_failure_budget = 3, wk_outside_scope = None, wk_log = None, wk_policy_revision = ''p'', wk_destination_resolver = None,
     wk_lane_conditions = None, wk_lane_path_matcher = None, wk_text = (\<lambda>r. []), wk_decode = sample_decode,
     wk_parse = (\<lambda>raw. Inr (JArr [JObj [(''path'', JStr ''a.md''), (''after_digest'', JStr (toy_digest (CHR ''2'')))]], False))\<rparr>"

definition toy_complete :: CompleteInput where
  "toy_complete = \<lparr>cm_dispatch_id = ''one'', cm_run_id = ''run'', cm_result_revision = [], cm_manifest_json = ''[{}]'', cm_paths = [],
     cm_remaining_paths = [], cm_no_changes = False, cm_completion_only = False, cm_status = [],
     cm_remaining_manifest_json = [], cm_manual_reason = []\<rparr>"

definition toy_entries :: "changeEntry list" where
  "toy_entries = [no_entry\<lparr>ce_path := ''a.md'', ce_after_digest := Some (toy_digest (CHR ''2''))\<rparr>]"

lemma toy_simps [simp]:
  "wk_store (toy_service d) = toy_store d" "wk_now (toy_service d) w = (w, 0)" "wk_resolver (toy_service d) = None"
  "wk_new_ids (toy_service d) w = (Inr ''two'', Inr ''agg'')" "wk_outside_scope (toy_service d) = None" "wk_log (toy_service d) = None"
  "wk_decode (toy_service d) = sample_decode" "wk_destination_resolver (toy_service d) = None" "wk_lane_conditions (toy_service d) = None"
  "ws_load_intent (toy_store d) w did = Inr (stored_snapshot 1)" "ws_load_intent_lane (toy_store d) w did = Inr toy_lane"
  "ws_load_work_receipt (toy_store d) w did run = Inr (Some toy_begun)" "ws_complete_work (toy_store d) w r q = (w, Inr toy_created)"
  "ws_load_active_generation_changes (toy_store d) w route did = Inr d" "ws_audit_attribution (toy_store d) w tid did now ctx = (w, Inr ())"
  "ws_load_path_facts (toy_store d) w resource = Inr Map.empty"
  "wk_parse (toy_service d) raw = Inr (JArr [JObj [(''path'', JStr ''a.md''), (''after_digest'', JStr (toy_digest (CHR ''2'')))]], False)"
  by (simp_all add: toy_service_def toy_store_def)

lemma toy_fold: "fold_name ''path'' = ''PATH'' \<and> fold_name ''after_digest'' = ''AFTER_DIGEST'' \<and> fold_name ''before_digest'' = ''BEFORE_DIGEST''"
  by code_simp

lemma toy_manifest: "validateManifest (toy_service d) ''[{}]'' ''one'' ''run'' res ext = Inr (toy_entries, [], no_document)"
proof -
  have "read_array ''[{}]'' (JArr [JObj [(''path'', JStr ''a.md''), (''after_digest'', JStr (toy_digest (CHR ''2'')))]]) = Inr toy_entries"
    using toy_fold by (simp add: read_array_def array_keys_def changeKeys_def entries_of_def entry_of_def entry_field_def text_pointer_def bindE_def toy_entries_def)
  moreover have "NormalizePath ''a.md'' = Inr ''a.md''" "is_ok (ParseDigest (toy_digest (CHR ''2'')))" by code_simp+
  then have "validateChangeEntries None toy_entries = []"
    by (auto simp: validateChangeEntries_def toy_entries_def when_reason_def containment_def digest_reasons_def optional_def no_entry_def
        MaxChanges_def is_ok_iff)
  moreover have "take 1 (trim_space ''[{}]'') = ''[''" by code_simp
  moreover have "length ''[{}]'' \<le> MaxManifestBytes" by (simp add: MaxManifestBytes_def)
  ultimately show ?thesis by (simp add: validateManifest_def bindE_def reject_unless_def)
qed

lemma toy_admitted:
  "complete_admitted (toy_service d) () toy_complete =
     Inr ((stored_snapshot 1, toy_lane), (toy_entries, [], no_document, [], False), StatusCompleted, [])"
proof -
  have "requested_status toy_complete = Inr StatusCompleted" by code_simp
  moreover have "effective_outcome toy_complete StatusCompleted toy_entries no_document = Inr (StatusCompleted, [])" by code_simp
  moreover have "validateLineage (toy_service d) () ''one'' ''run'' [] = Inr (Inr (stored_snapshot 1, toy_lane))"
    by (simp add: validateLineage_def lineage_reasons_def when_reason_def reject_unless_def toy_lane_def IsActive_def stored_def
        map_err_def MaxIDBytes_def)
  moreover have "submitted_changes (toy_service d) toy_complete (stored_snapshot 1) = Inr (toy_entries, [], no_document, [], False)"
    by (simp add: submitted_changes_def toy_complete_def toy_manifest)
  ultimately show ?thesis
    by (simp add: complete_admitted_def rejected_def map_err_def) (simp add: toy_complete_def)
qed

lemma toy_defaults: "complete_defaults toy_complete = toy_complete"
  by (simp add: complete_defaults_def toy_complete_def)

definition toy_receipt :: WorkReceiptInput where
  "toy_receipt = completed_receipt ''rcpt'' (CanonicalTimestamp 0) toy_complete (stored_snapshot 1) toy_begun StatusCompleted [] toy_entries []
     toy_entries []"

definition toy_decision :: "DirtyChange list \<Rightarrow> AttributionDecision" where
  "toy_decision d = attribute (toy_service d) () (stored_snapshot 1) toy_receipt toy_entries False d"

definition toy_base :: "DirtyChange list \<Rightarrow> ActiveCompletion" where
  "toy_base d = completion_base (toy_service d) (stored_snapshot 1) (run_base (stored_snapshot 1) toy_lane toy_receipt (toy_decision d))"

lemma toy_fields [simp]:
  "cm_dispatch_id toy_complete = ''one''" "cm_run_id toy_complete = ''run''" "cm_result_revision toy_complete = []"
  "wi_dispatch_id toy_receipt = ''one''" "wi_status toy_receipt = StatusCompleted" "wv_receipt_id toy_begun = ''rcpt''"
  by (simp_all add: toy_complete_def toy_receipt_def toy_begun_def)

text \<open>The service's run over the toy store, given the follow-up it builds.\<close>

lemma toy_run:
  assumes "followup_request (toy_service d) () (stored_snapshot 1) toy_lane (toy_base d) (Some (toy_decision d)) d [] = Inr fo"
  shows "\<exists>out. Complete (traced_work (toy_service d)) ((), []) toy_complete =
    (((), [CompletionCalled toy_receipt (completion_request (toy_base d) fo (dirty_lineage (stored_snapshot 1) toy_lane) (CanonicalTimestamp 0)) True,
       AttributionCalled ''one'']), Inr out)"
proof -
  let ?s = "traced_work (toy_service d)"
  have b: "begun_receipt ?s w c intent missing blank = (w, Inr toy_begun)" for w c intent missing blank
    by (simp add: begun_receipt_def lift_read_def)
  have id: "receipt_id_for ?s w did toy_begun = (w, ''rcpt'')" for w did by (simp add: receipt_id_for_def)
  have t: "timestamp ?s w = (w, CanonicalTimestamp 0)" for w
    by (cases w) (simp add: timestamp_def traced_work_def lift_step_def)
  have sc: "completed_scope toy_entries no_document = Inr toy_entries"
    "remaining_scope (toy_service d) toy_complete intent no_document ''completed'' = Inr []" for intent
    by (simp_all add: completed_scope_def no_document_def remaining_scope_def)
  have lc: "lane_changes (toy_service d) w intent did = Inr d" for w intent did
    by (simp add: lane_changes_def stored_def map_err_def filterDirtyToLane_def bindE_def)
  have cw: "ws_complete_work (traced_work_store (toy_store d)) w r q = ((fst w, snd w @ [CompletionCalled r q True]), Inr toy_created)" for w r q
    by (cases w) (simp add: traced_work_store_def note_step_def is_ok_def)
  have aa: "ws_audit_attribution (traced_work_store (toy_store d)) w tid did now ctx = ((fst w, snd w @ [AttributionCalled did]), Inr ())" for w tid did now ctx
    by (cases w) (simp add: traced_work_store_def note_step_def)
  have log: "logEvent ?s w event did run = w" for w event did run by (simp add: logEvent_def)
  have base: "completion_base (toy_service d) (stored_snapshot 1) ((completion_of (stored_snapshot 1) toy_lane ''one'' (wi_receipt_id toy_receipt))
      \<lparr>ac_dirty_suppressed := ad_fully_suppressed (toy_decision d), ac_remaining_work := False\<rparr>) = toy_base d"
    by (simp add: toy_base_def run_base_def)
  have run: "complete_run ?s ((), []) (stored_snapshot 1) toy_lane toy_receipt toy_entries False [] =
      (((), [CompletionCalled toy_receipt (completion_request (toy_base d) fo (dirty_lineage (stored_snapshot 1) toy_lane) (CanonicalTimestamp 0)) True,
       AttributionCalled ''one'']), Inr out)"
    if "out = (applied_result toy_receipt (completion_request (toy_base d) fo (dirty_lineage (stored_snapshot 1) toy_lane) (CanonicalTimestamp 0)) toy_created)
      \<lparr>wr_suppressed_paths := ad_suppressed_paths (toy_decision d), wr_self_change_suppressed := ad_fully_suppressed (toy_decision d) \<and> rs_dirty_generation toy_lane > 0,
       wr_audit_warning := None\<rparr>" for out
    unfolding that using assms
    by (simp add: complete_run_def lc bindS_Inr applyCompletion_def t cw aa log map_err_def
        toy_decision_def [symmetric] base Let_def)
  show ?thesis
    by (rule exI) (simp add: Complete_def toy_defaults complete_submission_def toy_admitted bindS_Inr b id t sc rejected_def map_err_def
        toy_receipt_def [unfolded WorkStatus_str.simps, symmetric] run [OF refl] audited_def Let_def)
qed

lemma toy_latest:
  "sorted (map dy_observed_at own_dirty)" "sorted (map dy_observed_at foreign_dirty)"
  "sortedPaths own_dirty = [''a.md'']" "sortedPaths foreign_dirty = [''a.md'', ''b.md'']"
  by (simp_all add: own_dirty_def foreign_dirty_def toy_dirty_def sample_dirty_def sortedPaths_def)

lemma toy_observed:
  "latest own_dirty ''a.md'' = Some (toy_dirty ''a.md'' (CHR ''2'') ''2026-01-01T00:02:00Z'')"
  "latest foreign_dirty ''a.md'' = Some (toy_dirty ''a.md'' (CHR ''2'') ''2026-01-01T00:02:00Z'')"
  "latest foreign_dirty ''b.md'' = Some (toy_dirty ''b.md'' (CHR ''3'') ''2026-01-01T00:03:00Z'')"
  using latest_sorted [OF toy_latest(1), of "''a.md''"] latest_sorted [OF toy_latest(2), of "''a.md''"]
    latest_sorted [OF toy_latest(2), of "''b.md''"]
  by (simp_all add: own_dirty_def foreign_dirty_def toy_dirty_def sample_dirty_def)

abbreviation toy_evidence :: "DirtyChange list \<Rightarrow> ReceiptEvidence" where
  "toy_evidence d \<equiv> evidence_of (toy_service d) (stored_snapshot 1) toy_receipt toy_entries False (known_facts (toy_service d) () (stored_snapshot 1))"

lemma toy_verdicts:
  "pd_outcome (observed_decision (toy_evidence d) (toy_dirty ''a.md'' (CHR ''2'') ''2026-01-01T00:02:00Z'')) = OutcomeSuppressed"
  "pd_outcome (observed_decision (toy_evidence d) (toy_dirty ''b.md'' (CHR ''3'') ''2026-01-01T00:03:00Z'')) = OutcomeMissing"
  "pd_path (observed_decision r c) = dy_path c" "sortedChangePaths toy_entries = [''a.md'']"
proof -
  have "toy_digest (CHR ''2'') \<noteq> []" by (simp add: toy_digest_def)
  moreover have "\<not> before ''2026-01-01T00:02:00Z'' ''2026-01-01T00:00:00Z''" "\<not> before ''2026-01-01T00:03:00Z'' ''2026-01-01T00:00:00Z''"
    by (simp_all add: before_def)
  ultimately show "pd_outcome (observed_decision (toy_evidence d) (toy_dirty ''a.md'' (CHR ''2'') ''2026-01-01T00:02:00Z'')) = OutcomeSuppressed"
    "pd_outcome (observed_decision (toy_evidence d) (toy_dirty ''b.md'' (CHR ''3'') ''2026-01-01T00:03:00Z'')) = OutcomeMissing"
    by (simp_all add: observed_decision_def match_entry_def evidence_of_def toy_entries_def receiptByPath_def toy_dirty_def sample_dirty_def
        no_entry_def reported_def toy_receipt_def completed_receipt_def toy_begun_def outcome_defs)
  show "pd_path (observed_decision r c) = dy_path c" by (simp add: observed_decision_def split: prod.split)
  show "sortedChangePaths toy_entries = [''a.md'']" by (simp add: sortedChangePaths_def toy_entries_def)
qed

lemma toy_matched:
  "ad_fully_suppressed (toy_decision own_dirty)" "\<not> ad_fully_suppressed (toy_decision foreign_dirty)"
  "map pd_path (ad_unresolved (toy_decision foreign_dirty)) = [''b.md'']"
  unfolding toy_decision_def attribute_match
  using toy_verdicts by (simp_all add: Match_def Let_def toy_latest toy_observed outcome_defs evidence_changes del: latest_None_iff)
    (simp_all add: own_dirty_def toy_dirty_def sample_dirty_def)

definition foreign_item :: ChangeItem where
  "foreign_item = scope_item ''b.md'' ''modify'' [] (toy_digest (CHR ''3''))"

lemma toy_items: "followup_items parent (Some (toy_decision foreign_dirty)) foreign_dirty [] = [foreign_item]"
proof -
  have "filter (\<lambda>c. dy_path c \<in> set [''b.md'']) foreign_dirty = [toy_dirty ''b.md'' (CHR ''3'') ''2026-01-01T00:03:00Z'']"
    by (simp add: foreign_dirty_def own_dirty_def toy_dirty_def sample_dirty_def)
  then have "dirtyManifest foreign_dirty (Some [''b.md'']) = [foreign_item]"
    unfolding dirtyManifest_def option.case Let_def
    by (simp add: sortedPaths_def keep_latest_def toy_dirty_def sample_dirty_def ParseOperation_def foreign_item_def)
  then have "unresolvedManifest (Some (toy_decision foreign_dirty)) foreign_dirty = [foreign_item]"
    by (simp add: unresolvedManifest_def toy_matched(3))
  then show ?thesis by (simp add: followup_items_def)
qed

lemma toy_built: "\<exists>i. BuildFollowupRequest sample_decode (Inr ''two'', Inr ''agg'') (stored_snapshot 1) [foreign_item] flags None = Inr i"
proof -
  let ?c = "\<lparr>fi_changes = followupFingerprintChanges [foreign_item], fi_resource_id = tc_id (tq_resource stored_request), fi_fresh = False,
    fi_has_relative = False, fi_overflow = False, fi_relative_root = []\<rparr>"
  have "validateContentInput ?c = Inr ()" by code_simp
  then obtain fp where fp: "Content ?c = Inr fp" "fp = SumDigest (content_text ?c)"
    by (simp add: Content_Inr_iff)
  let ?d = "\<lparr>td_id = ''d'', td_revision = ''dst-1'', td_workstream = ''w''\<rparr>"
  let ?q = "followup_input (stored_snapshot 1) stored_request ?d ''two'' fp [foreign_item] flags"
  have "is_ok (ParseDigest fp)" unfolding fp(2) by (simp add: ParseDigest_SumDigest)
  moreover have "workspaceBindingForm (tc_workspace (ri_resource ?q))" by code_simp
  moreover have "valid_utf8 TaskRequestContractVersion" "TaskRequestContractVersion \<noteq> []"
    by (simp_all add: TaskRequestContractVersion_def byte_def)
  ultimately have "\<exists>k. BuildRequest ?q = Inr (request_of ?q k, k)"
    by (simp add: BuildRequest_Inr_iff ChildIdempotency_Inr_iff key_input_def followup_input_def stored_snapshot_def
        stored_request_def request_of_def sample_request_input_def byte_def)
  then show ?thesis using fp(1)
    by (auto simp: BuildFollowupRequest_def sample_decode_def stored_snapshot_def ResolveDestinationLane_def
        stored_request_def request_of_def sample_request_input_def)
qed

lemma toy_requests:
  "followup_request (toy_service own_dirty) () (stored_snapshot 1) toy_lane (toy_base own_dirty) (Some (toy_decision own_dirty)) own_dirty [] = Inr None"
  "\<exists>i. followup_request (toy_service foreign_dirty) () (stored_snapshot 1) toy_lane (toy_base foreign_dirty) (Some (toy_decision foreign_dirty))
     foreign_dirty [] = Inr (Some i)"
proof -
  have b: "ac_dirty_suppressed (toy_base d) = ad_fully_suppressed (toy_decision d)" "ac_remaining_work (toy_base d) = False"
    "ac_failed (toy_base d) = False" "ac_followup_generation (toy_base d) = 2" for d
    by (simp_all add: toy_base_def completion_base_def run_base_def completion_of_def stored_snapshot_def)
  show "followup_request (toy_service own_dirty) () (stored_snapshot 1) toy_lane (toy_base own_dirty) (Some (toy_decision own_dirty)) own_dirty [] = Inr None"
    by (simp add: followup_request_def builds_followup_def store_needs_followup_def b toy_matched toy_lane_def)
  have "builds_followup toy_lane (toy_base foreign_dirty)"
    by (simp add: builds_followup_def store_needs_followup_def b toy_matched toy_lane_def MaxConsecutiveFollowups_def)
  moreover obtain parent where "mapE stored_item (tn_manifest (tq_activation stored_request)) = Inr parent"
    by (simp add: stored_request_def request_of_def sample_request_input_def manifest_def)
  moreover obtain i where "BuildFollowupRequest sample_decode (Inr ''two'', Inr ''agg'') (stored_snapshot 1) [foreign_item]
      (tn_flags (tq_activation stored_request)) None = Inr i" using toy_built by blast
  moreover have "sample_decode (is_request_json (stored_snapshot 1)) = Inr stored_request" by (simp add: sample_decode_def stored_snapshot_def)
  ultimately show "\<exists>i. followup_request (toy_service foreign_dirty) () (stored_snapshot 1) toy_lane (toy_base foreign_dirty)
      (Some (toy_decision foreign_dirty)) foreign_dirty [] = Inr (Some i)"
    by (simp add: followup_request_def buildFollowup_def map_err_def toy_items)
qed

theorem dirt_clears_only_by_proof_witness:
  "\<exists>w1 q rest res. Complete (traced_work (toy_service own_dirty)) ((), []) toy_complete = ((w1, CompletionCalled toy_receipt q True # rest), res) \<and>
     ac_dirty_suppressed q \<and> ac_fence_generation q \<and>
     (\<exists>changes on_disk known. ad_fully_suppressed (Match (evidence_of (toy_service own_dirty) (stored_snapshot 1) toy_receipt changes on_disk known) own_dirty))"
proof -
  let ?q = "completion_request (toy_base own_dirty) None (dirty_lineage (stored_snapshot 1) toy_lane) (CanonicalTimestamp 0)"
  obtain out where r: "Complete (traced_work (toy_service own_dirty)) ((), []) toy_complete =
      (((), [CompletionCalled toy_receipt ?q True, AttributionCalled ''one'']), Inr out)"
    using toy_run [OF toy_requests(1)] by blast
  have q: "ac_dirty_suppressed ?q"
    by (simp add: completion_request_def toy_base_def completion_base_def run_base_def toy_matched)
  have m: "CompletionCalled toy_receipt ?q True \<in> set [CompletionCalled toy_receipt ?q True, AttributionCalled ''one'']" by simp
  have l: "lane_changes (toy_service own_dirty) w intent did = Inr dirty \<longleftrightarrow> dirty = own_dirty" for w intent did dirty
    by (auto simp: lane_changes_def stored_def map_err_def filterDirtyToLane_def bindE_def)
  have v: "validateLineage (toy_service own_dirty) w did run task = Inr (Inr (intent, snap)) \<Longrightarrow> intent = stored_snapshot 1" for w did run task intent snap
    by (auto simp: validateLineage_def stored_def map_err_def bindE_def reject_unless_def split: if_splits)
  from dirt_clears_only_by_proof [OF r m q] r q show ?thesis by (auto simp: l dest!: v)
qed


section \<open>The two manifest forms\<close>

text \<open>The members of a completed v2 document besides its change entries.\<close>

definition document_with :: "string \<Rightarrow> string \<Rightarrow> string \<Rightarrow> string \<Rightarrow> (string \<times> json) list \<Rightarrow> json" where
  "document_with did run resource submitted entry =
     JObj [(''schema_version'', JStr SchemaVersion), (''dispatch_id'', JStr did), (''run_id'', JStr run),
       (''resource_id'', JStr resource), (''status'', JStr ''completed''), (''submitted_at'', JStr submitted),
       (''changes'', JArr [JObj entry])]"

text \<open>the document form absorbs unknown members of a change. A member that is not part of the schema, such as a note
  body, rejects a bare change array by name; the same entry inside a v2 document is read as if the member were not
  there. The code's comment promises the exact-key comparison at both levels and that a note body is rejected,
  never absorbed; the schema closes the change items of the document as well.\<close>

theorem document_absorbs_unknown_members:
  assumes "k \<notin> set changeKeys" and "fold_name k \<notin> fold_name ` set changeKeys"
  shows "read_array raw (JArr [JObj ((k, v) # entry)]) \<noteq> Inr es \<and>
    read_document raw (document_with did run resource submitted ((k, v) # entry)) =
      read_document raw (document_with did run resource submitted entry)"
proof
  show "read_array raw (JArr [JObj ((k, v) # entry)]) \<noteq> Inr es"
    using assms(1) by (simp add: read_array_def array_keys_def bindE_def)
  have "entry_field no_entry (k, v) = Inr no_entry"
    using assms(2) by (auto simp: entry_field_def changeKeys_def)
  then have "entry_of (JObj ((k, v) # entry)) = entry_of (JObj entry)" by (simp add: entry_of_def)
  then show "read_document raw (document_with did run resource submitted ((k, v) # entry)) =
      read_document raw (document_with did run resource submitted entry)"
    by (simp add: read_document_def document_with_def read_doc_def text_member_def entries_member_def entries_of_def
        docKeys_def Let_def bindE_def)
qed

theorem document_absorbs_unknown_members_witness:
  "read_array raw (JArr [JObj ((''note_body'', v) # entry)]) \<noteq> Inr es \<and>
    read_document raw (document_with did run resource submitted ((''note_body'', v) # entry)) =
      read_document raw (document_with did run resource submitted entry)"
proof (rule document_absorbs_unknown_members)
  show "''note_body'' \<notin> set changeKeys" by (simp add: changeKeys_def)
  show "fold_name ''note_body'' \<notin> fold_name ` set changeKeys" by code_simp
qed

text \<open>The remaining paths of the command line replace the document's remaining scope, whatever it says.\<close>

lemma remaining_paths_win:
  "cm_remaining_paths c \<noteq> [] \<Longrightarrow> remaining_entries s c intent doc = remaining_entries s c intent other_doc"
  by (simp add: remaining_entries_def)

end
