(* ===== verification/Spec2Isabelle.thy ===== *)
theory Spec2Isabelle
  imports Planner Selection Coordination RuntimeProtocol Operator SyncHistory DeliveryProtocol HoldProtocol Retention WorkProtocol
begin

text \<open>
  A verification development for agent-dispatch, a program that watches a resource (a note
  vault, say), turns what changed into a batch, decides by policy whether the batch deserves
  work, and dispatches that work at most once to a target such as a Hermes board.

  \<^bold>\<open>The program's parts and how they interact.\<close> An observation of a trigger becomes a batch of
  canonical changes (\<open>internal/app/ingest\<close>), whose paths the pattern engine classifies
  (\<open>internal/domain/policy\<close>) and whose content fingerprint identifies it
  (\<open>internal/domain/fingerprint\<close>). The planner (\<open>internal/app/dispatch/planner.go\<close>) gives the
  batch a disposition; \<open>selection.go\<close> selects destination lanes; \<open>request.go\<close> builds one
  immutable task request per lane. The coordinator (\<open>coordination.go\<close>,
  \<open>reconcilefanout.go\<close>) persists the lineage and either activates a lane or merges into it;
  the runtime (\<open>runtime.go\<close>, \<open>classify.go\<close>, \<open>backoff.go\<close>) submits durable intents to a sink and
  records the outcome; the operator's actions are in \<open>operator.go\<close>. Every state change is a
  transition of one of two machines (\<open>internal/domain/state\<close>): the intent machine and the
  route machine. The dispatch store (\<open>internal/adapters/sqlite\<close>) keeps all of it in tables: lanes with
  their active dispatch and dirty generation, attempts under leases, serialization groups that let one lane
  run at a time, quarantined arrivals that wait for the operator (\<open>app/quarantine\<close>), an append-only audit
  history, and a retention prune. The worker reports what its run changed in work receipts
  (\<open>app/workreceipt\<close>), which complete a lane and decide which of the changes observed meanwhile were the
  run's own. Reportable transitions enqueue notifications in a durable outbox
  (\<open>adapters/sqlite/notifications.go\<close>), which drains deliver to sinks under leases
  (\<open>app/notifications/delivery.go\<close>). Two nodes that share a vault agree on who may publish by
  membership documents (\<open>domain/syncrecords/membership.go\<close>) whose history is a chain of
  commits (\<open>app/syncmembership/history.go\<close>).

  \<^bold>\<open>The theories.\<close>
  \<^item> \<open>Prelude\<close>: results of fallible functions, sorting with a comparison closure, worlds that
    record calls, and the interfaces several components meet, as locales: \<open>key_order\<close> and
    \<open>inj_key_order\<close> (comparison closures), \<open>closed_enum\<close> (fail-closed parsers),
    \<open>transition_table\<close> (a table of edges and its validator). Each is interpreted on the
    program's own definitions by the component that provides them.
  \<^item> \<open>GoText\<close>, \<open>GoJson\<close>, \<open>GoSha256\<close>, \<open>GoTime\<close>: what the program uses of Go's standard library:
    UTF-8, hexadecimal, decimal, trimming; the JSON encoder and RFC 8785; SHA-256; the UTC
    calendar. Strings are lists of bytes, \<open>int\<close> stands for Go's 64-bit counters that the
    program only increments, and words are used where it works on bits.
  \<^item> \<open>Enums\<close> (\<open>records/enums.go\<close>), \<open>Records\<close> (\<open>records/change.go\<close>, \<open>digest.go\<close>, \<open>version.go\<close>,
    \<open>fanout.go\<close>), \<open>Identifiers\<close> (\<open>ids/ids.go\<close>), \<open>Fingerprint\<close> (\<open>fingerprint.go\<close>),
    \<open>PathPattern\<close> (\<open>policy/pattern.go\<close>): the domain's values.
  \<^item> \<open>IntentMachine\<close> (\<open>state/intent.go\<close>, \<open>projection.go\<close>), \<open>RouteMachine\<close> (\<open>state/route.go\<close>): the
    transition tables, guards and validators. A run is \<open>replay\<close> of proposed transitions.
  \<^item> \<open>Ingest\<close> (\<open>ingest/batch.go\<close>), \<open>Planner\<close>, \<open>Selection\<close>, \<open>TaskRequest\<close> (\<open>request.go\<close>,
    \<open>ports/sink.go\<close>), \<open>Ports\<close> (the data of \<open>internal/ports\<close>), \<open>Coordination\<close>, \<open>Backoff\<close>,
    \<open>Runtime\<close>, \<open>RuntimeProtocol\<close>, \<open>Operator\<close>: the dispatch services. Functions keep the names
    of the source; a long function is cut into named steps in the order of its statements.
  \<^item> \<open>Store\<close>: the tables of the dispatch store with their constraints, and the saving of a lineage
    (\<open>sqlite/schema.go\<close>, \<open>store.go\<close>, \<open>fanout.go\<close>). \<open>SlotGroups\<close> (\<open>serialization.go\<close>), \<open>Attempts\<close>
    (\<open>dispatch.go\<close>), \<open>StoreOperator\<close> (\<open>inspection.go\<close>), \<open>Lanes\<close> (\<open>lanes.go\<close>, \<open>coordination.go\<close>),
    \<open>Quarantine\<close> (\<open>quarantine.go\<close>, \<open>app/quarantine/service.go\<close>): its transactions. \<open>StoreHistory\<close>,
    \<open>StoreFrames\<close>, \<open>StoreProtocol\<close>, \<open>HoldProtocol\<close>: what holds over every run of them.
  \<^item> \<open>Prune\<close>, \<open>Retention\<close> (\<open>sqlite/maintenance.go\<close>, \<open>sync_management_retention.go\<close>): the plan and the
    execution of a prune over the tables of the dispatch store and those beside them, and what it keeps.
  \<^item> \<open>Attribution\<close> (\<open>workreceipt/attribution.go\<close>), \<open>WorkReceipt\<close>, \<open>WorkProtocol\<close>
    (\<open>workreceipt/service.go\<close>): the matcher, the service and the calls it makes.
  \<^item> \<open>SyncMembership\<close>, \<open>SyncHistory\<close>: membership documents, plans and transitions, and the walk
    back through their history.
  \<^item> \<open>TimeText\<close>: the timestamps the tables hold (\<open>sqlite/store.go\<close>). \<open>Tables\<close>: rows, updates and
    transactions. \<open>Notification\<close>: the notification contract (\<open>records/notifications.go\<close>,
    \<open>ports/notifications.go\<close>). \<open>Outbox\<close>, \<open>OutboxProtocol\<close>: the outbox and its runs.
    \<open>Delivery\<close>, \<open>DeliveryProtocol\<close>: the delivery services, and the contract \<open>lease_store\<close>
    between a drain and its store, which the outbox meets.

  \<^bold>\<open>State and effects.\<close> The services work over a world \<open>'s\<close>. The store, the sink, the clock, the
  log and the identifier source are records of functions on it, and nothing is assumed of them
  unless a theorem says so: a read looks at the world, a write returns the world after it beside
  its result. A store error is the sentinel \<open>errors.Is\<close> finds and its text. The order in which
  the code makes its calls is stated over the same code run in a world that also keeps the list
  of calls (\<open>traced\<close>, \<open>traced_runtime\<close>, \<open>traced_operator\<close>, \<open>traced_work\<close>).

  The tables of the SQLite store are lists of rows, a transaction (\<open>transact\<close>) keeps all of its writes or
  none, and an ended context refuses it. A run of the dispatch store is a list of \<open>store_call\<close>s, each done
  by \<open>perform\<close> with a live context: 30 writing methods. The retention prune is not among them, because
  it also works on tables of other components; \<open>HoldProtocol\<close> runs calls and prunes together
  (\<open>store_event\<close>), and \<open>Retention\<close> says what one prune keeps. Registration, baselines, schedules, the
  writes of work receipts and those of synchronisation are in neither.

  \<^bold>\<open>What the lemmas show.\<close>
  \<^item> Ingestion: every observed path is accounted for exactly once and in canonical order, the
    content of a protected path is never read, digests are those of the file system.
  \<^item> Policy: the backtracking matcher and the in-place table decide the declarative meaning of a
    pattern; exclusion covers subtrees; a protected path never reaches a dispatch; dispatching
    is the planner's last resort and its manifest fits the limit; selection follows the
    destination's condition classes and fails closed.
  \<^item> Identity: canonical JSON is RFC 8785 and injective, so a fingerprint or an idempotency key
    identifies its input up to a SHA-256 collision; identifiers and timestamps sort as time does.
  \<^item> State machines: no acceptance without proof, no resubmission after one, no work lost from a
    dirty route, no way out of quarantine without the operator; every intent can finish.
  \<^item> Coordination: each lane of a fan-out gets exactly one verdict, the shared observation, batch
    and decision are persisted once and first, a busy lane is only merged into.
  \<^item> Runtime: one submission makes its calls in the order of the attempt protocol, asks for a lease
    only when lane and revision allow it, retries only a proven failure; a drain is bounded.
  \<^item> Dispatch store: an attempt owns its lane and its group's slot and is leased to one owner, the audit
    history replays as a run of the state machine, a group's slot is a mutex that passes to the oldest
    waiting lane, a hold waits for the operator and only then for a prune, a full snapshot of path facts
    is fenced, a prune takes nothing that unresolved work stands on.
  \<^item> Work receipts: a rejected receipt is audited and nothing else, a dirty generation clears only when
    every change of it is proved to be the run's own, a follow-up carries every change that is not.
  \<^item> Operator: which states an action applies to and what the request it creates keeps and renews.
  \<^item> Membership: a transition forgets no member and no past incarnation, a removed key authorises
    nothing that was not seen before, a loaded history is a chain of authorised transitions.
  \<^item> Notifications: a transition notifies once, two drainers hold disjoint work, an outcome is
    written only under the newest claim, a delivered notification is final, a retry waits for its
    deadline; a drain accounts for every claim it took.

  \<^bold>\<open>Bounds and termination.\<close> All functions are total. The matcher's loop and the rebuild of a
  stale intent recurse with a measure; no fuel is used. The calendar's text has four year
  digits, so its theorem is about the years 0 to 9999.

  \<^bold>\<open>Parameters.\<close> Code outside the repository is an argument: Unicode normalisation and case folding
  (golang.org/x/text) of the pattern engine and of paths, the file system behind ingestion,
  the sink. \<open>json.Unmarshal\<close> of a stored request and the arithmetic of \<open>float64\<close> are
  arguments as well.

  JSON input of a work receipt arrives parsed, with the keys of an object distinct.

  \<^bold>\<open>Deviations.\<close> Some theorems state where the code does not do what its documentation says: the star byte in a
  pattern (\<open>star_byte_escapes_pattern\<close>), a fan-out that fails although a lane is durable, a rerun that ignores the
  configured scope, claims a drain cannot release, a completion that ignores the lease, the phantom release of
  a slot, a protected path dropped without a change, an aggregate event that stops every prune, and
  unknown members of a work receipt.

  \<^bold>\<open>Not modelled.\<close> Of the SQLite adapter: baselines, schedules, the tables of work receipts and of
  synchronisation, registration, the reads of the inspection surface and the counters of maintenance. The SQL
  statements that are modelled are steps on tables; the engine's isolation of transactions and its constraints
  are taken as documented, and failures of the driver are not told apart. The coordinator, the runtime and
  the work-receipt service are verified for every store. Not modelled either: the
  sinks and host adapters (HTTP, processes, Git, Watchman), configuration loading, the command
  line, the structured log's formatting, and the test support. The services for
  publication, import, reconciliation scans, maintenance and doctor are not modelled.
\<close>

end
